(* ===== verification/Orbi_Prelude.thy ===== *)
theory Orbi_Prelude
  imports Complex_Main "HOL-Library.Sublist" "HOL-Library.Char_ord" "HOL-Library.List_Lexorder"
    "HOL-Library.Product_Lexorder"
begin

text \<open>
  Shared vocabulary of the development: the JavaScript string and number operations the
  sources use, rows of a database table as lists of records, thrown errors as values, and
  the collections of rewrite rules that carry the component proofs.

  Conventions.
  \<^item> A JavaScript string is a \<open>string\<close> of the model; the case conversions act on the ASCII
    letters, which are the only letters in the codes, statuses and currencies the program
    compares.
  \<^item> A JavaScript \<open>number\<close> that holds money is an exact rational. The rounding the code asks
    for (\<open>Math.round\<close>, \<open>toFixed\<close>) is modelled; the binary rounding of single additions and
    products of doubles is not. SQL \<open>NUMERIC\<close> values are exact in the code as well.
  \<^item> A time is the number of milliseconds of \<open>Date.now()\<close>, an \<open>int\<close>; ISO timestamps
    written by the program are compared as the times they denote.
  \<^item> \<open>None\<close> stands for \<open>null\<close>, \<open>undefined\<close> and SQL \<open>NULL\<close> alike where the code treats them
    alike.
\<close>

named_theorems js_simps \<open>rewrite rules for the JavaScript operations\<close>
named_theorems row_simps \<open>rewrite rules for the table operations\<close>

section \<open>Strings\<close>

definition upper_char :: "char \<Rightarrow> char" where
  "upper_char c = (if 97 \<le> (of_char c :: nat) \<and> (of_char c :: nat) \<le> 122
     then char_of ((of_char c :: nat) - 32) else c)"

definition lower_char :: "char \<Rightarrow> char" where
  "lower_char c = (if 65 \<le> (of_char c :: nat) \<and> (of_char c :: nat) \<le> 90
     then char_of ((of_char c :: nat) + 32) else c)"

text \<open>The conversions on the bits of a character, which evaluate faster.\<close>

definition letter_bits :: "bool \<Rightarrow> bool \<Rightarrow> bool \<Rightarrow> bool \<Rightarrow> bool \<Rightarrow> bool" where
  "letter_bits b0 b1 b2 b3 b4 \<longleftrightarrow> (b0 \<or> b1 \<or> b2 \<or> b3 \<or> b4) \<and> \<not> (b4 \<and> b3 \<and> (b2 \<or> (b1 \<and> b0)))"

lemma upper_char_code [code]:
  "upper_char (Char b0 b1 b2 b3 b4 b5 b6 b7) =
     (if \<not> b7 \<and> b6 \<and> b5 \<and> letter_bits b0 b1 b2 b3 b4 then Char b0 b1 b2 b3 b4 False True False
      else Char b0 b1 b2 b3 b4 b5 b6 b7)"
  unfolding upper_char_def letter_bits_def
  by (cases b0; cases b1; cases b2; cases b3; cases b4; cases b5; cases b6; cases b7; simp add: char_of_def bit_0)
lemma lower_char_code [code]:
  "lower_char (Char b0 b1 b2 b3 b4 b5 b6 b7) =
     (if \<not> b7 \<and> b6 \<and> \<not> b5 \<and> letter_bits b0 b1 b2 b3 b4 then Char b0 b1 b2 b3 b4 True True False
      else Char b0 b1 b2 b3 b4 b5 b6 b7)"
  unfolding lower_char_def letter_bits_def
  by (cases b0; cases b1; cases b2; cases b3; cases b4; cases b5; cases b6; cases b7; simp add: char_of_def bit_0)

definition js_upper :: "string \<Rightarrow> string" where
  "js_upper = map upper_char"

definition js_lower :: "string \<Rightarrow> string" where
  "js_lower = map lower_char"

definition is_space :: "char \<Rightarrow> bool" where
  "is_space c \<longleftrightarrow> (let n = (of_char c :: nat) in n = 32 \<or> (9 \<le> n \<and> n \<le> 13) \<or> n = 160)"

definition js_trim :: "string \<Rightarrow> string" where
  "js_trim s = rev (dropWhile is_space (rev (dropWhile is_space s)))"

text \<open>SQL \<open>BTRIM\<close> removes spaces only.\<close>

definition sql_btrim :: "string \<Rightarrow> string" where
  "sql_btrim s = rev (dropWhile (\<lambda>c. c = CHR '' '') (rev (dropWhile (\<lambda>c. c = CHR '' '') s)))"

text \<open>\<open>hay.includes(needle)\<close> and \<open>s.startsWith(p)\<close>.\<close>

definition js_includes :: "string \<Rightarrow> string \<Rightarrow> bool" where
  "js_includes hay needle = sublist needle hay"

definition js_starts_with :: "string \<Rightarrow> string \<Rightarrow> bool" where
  "js_starts_with s p = prefix p s"

text \<open>\<open>String(v || '')\<close> for a text column, and the first truthy of several texts.\<close>

definition text_or_empty :: "string option \<Rightarrow> string" where
  "text_or_empty v = (case v of None \<Rightarrow> '''' | Some s \<Rightarrow> s)"

definition text_or :: "string option \<Rightarrow> string \<Rightarrow> string" where
  "text_or v d = (case v of None \<Rightarrow> d | Some s \<Rightarrow> if s = '''' then d else s)"

fun first_text :: "string option list \<Rightarrow> string" where
  "first_text [] = ''''"
| "first_text (v # vs) = text_or v (first_text vs)"

lemma upper_char_id: "\<not> (97 \<le> (of_char c :: nat) \<and> (of_char c :: nat) \<le> 122) \<Longrightarrow> upper_char c = c"
  by (simp only: upper_char_def if_False)

lemma upper_char_idem [simp]: "upper_char (upper_char c) = upper_char c"
proof (cases "97 \<le> (of_char c :: nat) \<and> (of_char c :: nat) \<le> 122")
  case True
  then have "((of_char c :: nat) - 32) mod 256 = of_char c - 32"
    by (intro mod_less) (elim conjE, arith)
  with True have "(of_char (upper_char c) :: nat) = of_char c - 32"
    by (simp add: upper_char_def)
  moreover from True have "\<not> (97 \<le> (of_char c :: nat) - 32 \<and> (of_char c :: nat) - 32 \<le> 122)" by arith
  ultimately show ?thesis by (intro upper_char_id) simp
next
  case False
  then have "upper_char c = c" by (rule upper_char_id)
  then show ?thesis by simp
qed

lemma js_upper_idem [simp]: "js_upper (js_upper s) = js_upper s"
  by (simp add: js_upper_def)

lemma js_upper_Nil [simp]: "js_upper [] = []" and js_upper_Cons: "js_upper (c # s) = upper_char c # js_upper s"
  by (simp_all add: js_upper_def)

lemma js_upper_empty_iff [simp]: "js_upper s = [] \<longleftrightarrow> s = []" "[] = js_upper s \<longleftrightarrow> s = []"
  by (auto simp: js_upper_def)

lemma length_js_upper [simp]: "length (js_upper s) = length s"
  by (simp add: js_upper_def)

lemma dropWhile_space_idem: "dropWhile P (dropWhile P xs) = dropWhile P xs"
  by (induction xs) auto

lemma js_trim_Nil [simp]: "js_trim [] = []"
  by (simp add: js_trim_def)

text \<open>The keys of a JavaScript Map or Set filled from a list: first occurrences, in order.\<close>

definition distinct_first :: "'a list \<Rightarrow> 'a list" where
  "distinct_first xs = rev (remdups (rev xs))"

lemma distinct_first_simps [simp]: "set (distinct_first xs) = set xs" "distinct (distinct_first xs)"
  by (simp_all add: distinct_first_def)

lemma find_mem: "find P xs = Some y \<Longrightarrow> y \<in> set xs \<and> P y"
  by (auto simp: find_Some_iff)

lemma find_unique:
  assumes "x \<in> set xs" and "P x" and "\<And>y. y \<in> set xs \<Longrightarrow> P y \<Longrightarrow> y = x"
  shows "find P xs = Some x"
proof (cases "find P xs")
  case None
  with assms(1,2) show ?thesis by (auto simp: find_None_iff)
next
  case (Some y)
  with find_mem [OF Some] assms(3) show ?thesis by blast
qed

section \<open>Numbers\<close>

text \<open>
  \<open>Math.round(x)\<close> rounds halves towards plus infinity. \<open>Number(x.toFixed(n))\<close> and SQL
  \<open>ROUND(x, n)\<close> round halves away from zero.
\<close>

definition js_round :: "rat \<Rightarrow> int" where
  "js_round x = \<lfloor>x + 1 / 2\<rfloor>"

definition round4 :: "rat \<Rightarrow> rat" where
  "round4 x = of_int (js_round (x * 10000)) / 10000"

definition to_fixed :: "nat \<Rightarrow> rat \<Rightarrow> rat" where
  "to_fixed n x = (if x < 0
     then - (of_int \<lfloor>(- x) * 10 ^ n + 1 / 2\<rfloor> / 10 ^ n)
     else of_int \<lfloor>x * 10 ^ n + 1 / 2\<rfloor> / 10 ^ n)"

text \<open>Amounts with at most four decimals, the scale of every balance column.\<close>

definition scale4 :: "rat \<Rightarrow> bool" where
  "scale4 x \<longleftrightarrow> x * 10000 \<in> \<int>"

lemma scale4_0 [simp]: "scale4 0"
  by (simp add: scale4_def)

lemma scale4_add [intro]: "scale4 a \<Longrightarrow> scale4 b \<Longrightarrow> scale4 (a + b)"
  by (simp add: scale4_def distrib_right)

lemma scale4_diff [intro]: "scale4 a \<Longrightarrow> scale4 b \<Longrightarrow> scale4 (a - b)"
  by (simp add: scale4_def left_diff_distrib)

lemma scale4_minus [intro]: "scale4 a \<Longrightarrow> scale4 (- a)"
  by (simp add: scale4_def)

lemma scale4_of_int [simp]: "scale4 (of_int n)"
  unfolding scale4_def by (metis Ints_mult Ints_of_int of_int_numeral)

lemma scale4_numeral [simp]: "scale4 (numeral n)"
  using scale4_of_int [of "numeral n"] by simp

lemma scale4_one [simp]: "scale4 1"
  using scale4_of_int [of 1] by simp

lemma floor_int_half: "y \<in> \<int> \<Longrightarrow> \<lfloor>y + 1 / 2\<rfloor> = \<lfloor>y :: rat\<rfloor>"
  by (auto elim!: Ints_cases simp: floor_eq_iff)

lemma to_fixed4_exact [js_simps]: "scale4 x \<Longrightarrow> to_fixed 4 x = x"
proof -
  assume x: "scale4 x"
  then have i: "x * 10 ^ 4 \<in> \<int>" by (simp add: scale4_def)
  then have m: "(- x) * 10 ^ 4 \<in> \<int>" by (metis Ints_minus mult_minus_left)
  from i m show ?thesis
    unfolding to_fixed_def floor_int_half [OF i] floor_int_half [OF m]
    by (auto simp: of_int_floor_cancel)
qed

lemma to_fixed_scale4 [intro, simp]: "scale4 (to_fixed 4 x)"
proof -
  have "\<And>n :: int. scale4 (of_int n / 10 ^ 4)" by (simp add: scale4_def)
  then show ?thesis unfolding to_fixed_def by (auto intro: scale4_minus simp: scale4_def)
qed

lemma round4_exact [js_simps]: "scale4 x \<Longrightarrow> round4 x = x"
proof -
  assume "scale4 x"
  then have i: "x * 10000 \<in> \<int>" by (simp add: scale4_def)
  then show ?thesis
    unfolding round4_def js_round_def floor_int_half [OF i]
    by (simp add: of_int_floor_cancel)
qed

section \<open>Dynamic values\<close>

text \<open>
  A JSON value read from a metadata column or a request body, with the JavaScript
  truthiness and \<open>String(v)\<close>. A metadata object is the map of its keys; an absent key is
  \<open>undefined\<close>, and \<open>{...m, k: v}\<close> is \<open>m(k \<mapsto> v)\<close>. Numbers print exactly, with at most
  fifteen decimals.
\<close>

datatype jsv = JNull | JBool bool | JNum rat | JStr string | JArr "jsv list" | JObj "(string \<times> jsv) list"

type_synonym metadata = "string \<Rightarrow> jsv option"

fun truthy :: "jsv \<Rightarrow> bool" where
  "truthy JNull = False"
| "truthy (JBool b) = b"
| "truthy (JNum x) = (x \<noteq> 0)"
| "truthy (JStr s) = (s \<noteq> [])"
| "truthy (JArr xs) = True"
| "truthy (JObj kvs) = True"

fun nat_text :: "nat \<Rightarrow> string" where
  "nat_text n = (if n < 10 then [char_of (n + 48)] else nat_text (n div 10) @ [char_of (n mod 10 + 48)])"

declare nat_text.simps [simp del]

fun frac_text :: "nat \<Rightarrow> rat \<Rightarrow> string" where
  "frac_text 0 x = []"
| "frac_text (Suc n) x = (if x = 0 then [] else
     char_of (nat \<lfloor>x * 10\<rfloor> + 48) # frac_text n (x * 10 - of_int \<lfloor>x * 10\<rfloor>))"

definition num_text :: "rat \<Rightarrow> string" where
  "num_text x = (let a = \<bar>x\<bar>; i = \<lfloor>a\<rfloor>; f = a - of_int i in
     (if x < 0 then ''-'' else []) @ nat_text (nat i) @ (if f = 0 then [] else ''.'' @ frac_text 15 f))"

fun js_text :: "jsv \<Rightarrow> string" and js_join :: "jsv list \<Rightarrow> string" where
  "js_text JNull = ''null''"
| "js_text (JBool b) = (if b then ''true'' else ''false'')"
| "js_text (JNum x) = num_text x"
| "js_text (JStr s) = s"
| "js_text (JArr xs) = js_join xs"
| "js_text (JObj kvs) = ''[object Object]''"
| "js_join [] = []"
| "js_join [x] = (if x = JNull then [] else js_text x)"
| "js_join (x # xs) = (if x = JNull then [] else js_text x) @ '','' @ js_join xs"

text \<open>\<open>String(md.k || '')\<close>, the first truthy key of several, and \<open>Boolean(md.k)\<close>.\<close>

definition md_has :: "metadata \<Rightarrow> string \<Rightarrow> bool" where
  "md_has md k = (case md k of None \<Rightarrow> False | Some v \<Rightarrow> truthy v)"

definition md_text :: "metadata \<Rightarrow> string \<Rightarrow> string" where
  "md_text md k = (case md k of None \<Rightarrow> [] | Some v \<Rightarrow> if truthy v then js_text v else [])"

fun md_first_text :: "metadata \<Rightarrow> string list \<Rightarrow> string" where
  "md_first_text md [] = []"
| "md_first_text md (k # ks) = (if md_has md k then md_text md k else md_first_text md ks)"

section \<open>Objects\<close>

text \<open>Assigning a property keeps the position of an existing one.\<close>

definition obj_set :: "(string \<times> jsv) list \<Rightarrow> string \<Rightarrow> jsv \<Rightarrow> (string \<times> jsv) list" where
  "obj_set o' k v = (if k \<in> fst ` set o' then map (\<lambda>(a, b). if a = k then (a, v) else (a, b)) o' else o' @ [(k, v)])"

text \<open>\<open>{...o, ...v}\<close>, and the metadata map of an object value.\<close>

definition obj_spread :: "(string \<times> jsv) list \<Rightarrow> jsv option \<Rightarrow> (string \<times> jsv) list" where
  "obj_spread o' v = (case v of Some (JObj kvs) \<Rightarrow> foldl (\<lambda>m (k, x). obj_set m k x) o' kvs | _ \<Rightarrow> o')"

definition md_spread :: "metadata \<Rightarrow> jsv option \<Rightarrow> metadata" where
  "md_spread m v = (case v of Some (JObj kvs) \<Rightarrow> foldl (\<lambda>m (k, x). m(k \<mapsto> x)) m kvs | _ \<Rightarrow> m)"

section \<open>Number of a value\<close>

text \<open>
  \<open>Number(v)\<close>: \<open>None\<close> is \<open>NaN\<close>; an infinite result (the text Infinity) counts as \<open>NaN\<close>, as
  it does under \<open>Number.isFinite\<close>. A text is trimmed; the empty text is 0; decimal literals
  with sign, fraction and exponent and the hexadecimal, octal and binary forms are read.
\<close>

definition digit_val :: "char \<Rightarrow> nat option" where
  "digit_val c = (let n = (of_char c :: nat) in if 48 \<le> n \<and> n \<le> 57 then Some (n - 48) else None)"

fun digits_val :: "nat \<Rightarrow> string \<Rightarrow> nat option" where
  "digits_val acc [] = Some acc"
| "digits_val acc (c # cs) = (case digit_val c of None \<Rightarrow> None | Some d \<Rightarrow> digits_val (10 * acc + d) cs)"

fun radix_val :: "nat \<Rightarrow> nat \<Rightarrow> string \<Rightarrow> nat option" where
  "radix_val r acc [] = Some acc"
| "radix_val r acc (c # cs) =
     (let n = (of_char (lower_char c) :: nat);
          d = (if 48 \<le> n \<and> n \<le> 57 then n - 48 else if 97 \<le> n \<and> n \<le> 102 then n - 87 else r) in
      if d < r then radix_val r (r * acc + d) cs else None)"

definition mantissa_val :: "string \<Rightarrow> rat option" where
  "mantissa_val s =
     (let i = takeWhile (\<lambda>c. c \<noteq> CHR ''.'') s; f = drop 1 (dropWhile (\<lambda>c. c \<noteq> CHR ''.'') s) in
      if i = [] \<and> f = [] then None
      else case (digits_val 0 i, digits_val 0 f) of
          (Some a, Some b) \<Rightarrow> Some (of_nat a + of_nat b / 10 ^ length f)
        | _ \<Rightarrow> None)"

definition exponent_val :: "string \<Rightarrow> rat option" where
  "exponent_val s = (case s of
      [] \<Rightarrow> None
    | c # ds \<Rightarrow>
        (let body = (if c = CHR ''+'' \<or> c = CHR ''-'' then ds else s) in
         if body = [] then None
         else (case digits_val 0 body of
             None \<Rightarrow> None
           | Some n \<Rightarrow> Some (if c = CHR ''-'' then 1 / 10 ^ n else 10 ^ n))))"

definition decimal_val :: "string \<Rightarrow> rat option" where
  "decimal_val s =
     (let m = takeWhile (\<lambda>c. c \<noteq> CHR ''e'' \<and> c \<noteq> CHR ''E'') s;
          e = dropWhile (\<lambda>c. c \<noteq> CHR ''e'' \<and> c \<noteq> CHR ''E'') s in
      case mantissa_val m of
        None \<Rightarrow> None
      | Some a \<Rightarrow> (case e of [] \<Rightarrow> Some a
          | _ # x \<Rightarrow> map_option (\<lambda>p. a * p) (exponent_val x)))"

definition js_number_text :: "string \<Rightarrow> rat option" where
  "js_number_text s0 =
     (let s = js_trim s0 in
      case s of
        [] \<Rightarrow> Some 0
      | c # r \<Rightarrow>
          (let tag = js_lower (take 2 s); body = drop 2 s in
           if tag \<in> {''0x'', ''0o'', ''0b''}
           then (if body = [] then None
                 else map_option of_nat (radix_val (if tag = ''0x'' then 16 else if tag = ''0o'' then 8 else 2) 0 body))
           else if c = CHR ''-'' then map_option uminus (decimal_val r)
           else if c = CHR ''+'' then decimal_val r
           else decimal_val s))"

definition js_number :: "jsv \<Rightarrow> rat option" where
  "js_number v = (case v of
      JNull \<Rightarrow> Some 0
    | JBool b \<Rightarrow> Some (if b then 1 else 0)
    | JNum x \<Rightarrow> Some x
    | JStr s \<Rightarrow> js_number_text s
    | JArr xs \<Rightarrow> js_number_text (js_text (JArr xs))
    | JObj kvs \<Rightarrow> None)"

text \<open>\<open>Number(v ?? 0)\<close> and \<open>Number(v || 0)\<close> with a value that may be absent.\<close>

definition number_coalesce :: "jsv option \<Rightarrow> rat option" where
  "number_coalesce v = (case v of None \<Rightarrow> Some 0 | Some x \<Rightarrow> js_number x)"

definition number_or_zero :: "jsv option \<Rightarrow> rat option" where
  "number_or_zero v = (case v of None \<Rightarrow> Some 0 | Some x \<Rightarrow> if truthy x then js_number x else Some 0)"

text \<open>\<open>s.replace(p, r)\<close> with a text pattern replaces the first occurrence.\<close>

fun replace_first :: "string \<Rightarrow> string \<Rightarrow> string \<Rightarrow> string" where
  "replace_first p r [] = (if p = [] then r else [])"
| "replace_first p r (c # cs) =
     (if prefix p (c # cs) then r @ drop (length p) (c # cs) else c # replace_first p r cs)"

section \<open>Outcomes\<close>

text \<open>
  A thrown JavaScript \<open>Error\<close> or a database error is its message with its code (the empty
  text when the error carries none); an operation that may throw returns it in \<open>Inl\<close>.
\<close>

datatype js_error = JsError (err_message: string) (err_code: string)

type_synonym 'a outcome = "js_error + 'a"

abbreviation throw :: "string \<Rightarrow> 'a outcome" where
  "throw m \<equiv> Inl (JsError m '''')"

definition bind_outcome :: "'a outcome \<Rightarrow> ('a \<Rightarrow> 'b outcome) \<Rightarrow> 'b outcome" where
  "bind_outcome r f = (case r of Inl e \<Rightarrow> Inl e | Inr a \<Rightarrow> f a)"

lemma bind_outcome_simps [simp]:
  "bind_outcome (Inl e) f = Inl e" "bind_outcome (Inr a) f = f a"
  by (simp_all add: bind_outcome_def)

lemma bind_outcome_Inr_iff: "bind_outcome r f = Inr b \<longleftrightarrow> (\<exists>a. r = Inr a \<and> f a = Inr b)"
  by (cases r) simp_all

section \<open>Tables\<close>

text \<open>
  A table is the list of its rows. \<open>sel\<close>, \<open>upd\<close> and \<open>single\<close> are the query builder's
  \<open>select().eq()...\<close>, \<open>update().eq()...\<close> and \<open>.single()\<close> (\<open>data\<close> is null unless exactly
  one row matched); the rows an \<open>update().select()\<close> returns are the updated ones.
\<close>

definition sel :: "('r \<Rightarrow> bool) \<Rightarrow> 'r list \<Rightarrow> 'r list" where
  "sel p t = filter p t"

definition upd :: "('r \<Rightarrow> bool) \<Rightarrow> ('r \<Rightarrow> 'r) \<Rightarrow> 'r list \<Rightarrow> 'r list" where
  "upd p f t = map (\<lambda>r. if p r then f r else r) t"

definition upd_returning :: "('r \<Rightarrow> bool) \<Rightarrow> ('r \<Rightarrow> 'r) \<Rightarrow> 'r list \<Rightarrow> 'r list" where
  "upd_returning p f t = map f (filter p t)"

definition single :: "'r list \<Rightarrow> 'r option" where
  "single rs = (case rs of [r] \<Rightarrow> Some r | _ \<Rightarrow> None)"

lemma sel_simps [simp]:
  "sel p [] = []" "sel p (r # t) = (if p r then r # sel p t else sel p t)"
  by (simp_all add: sel_def)

lemma upd_simps [simp]:
  "upd p f [] = []" "upd p f (r # t) = (if p r then f r else r) # upd p f t"
  by (simp_all add: upd_def)

lemma single_simps [simp]:
  "single [] = None" "single [r] = Some r" "single (r # s # t) = None"
  by (simp_all add: single_def)

lemma length_upd [simp]: "length (upd p f t) = length t"
  by (simp add: upd_def)

lemma in_set_upd: "x \<in> set (upd p f t) \<longleftrightarrow> (\<exists>r \<in> set t. x = (if p r then f r else r))"
  by (auto simp: upd_def)

lemma map_upd_key: "(\<And>r. p r \<Longrightarrow> key (f r) = key r) \<Longrightarrow> map key (upd p f t) = map key t"
  by (induction t) auto

lemma single_SomeD: "single rs = Some r \<Longrightarrow> rs = [r]"
  by (cases rs rule: list.exhaust) (auto simp: single_def split: list.splits)

lemma set_sel [row_simps]: "set (sel p t) = {r \<in> set t. p r}"
  by (auto simp: sel_def)

text \<open>
  The rows of a table with a primary key: lookup by the key, and what an update that keeps
  the key does to a lookup.
\<close>

locale keyed_table =
  fixes key :: "'r \<Rightarrow> 'k"
begin

abbreviation by_key :: "'k \<Rightarrow> 'r list \<Rightarrow> 'r option" where
  "by_key k t \<equiv> single (sel (\<lambda>r. key r = k) t)"

lemma sel_key_distinct:
  "distinct (map key t) \<Longrightarrow> r \<in> set t \<Longrightarrow> sel (\<lambda>x. key x = key r) t = [r]"
proof (induction t)
  case (Cons a t)
  have none: "sel (\<lambda>x. key x = key b) t = []" if "key b \<notin> key ` set t" for b
    using that by (induction t) auto
  show ?case
  proof (cases "a = r")
    case True
    with Cons.prems none [of r] show ?thesis by simp
  next
    case False
    with Cons have "key a \<noteq> key r" by auto
    with False Cons show ?thesis by simp
  qed
qed simp

lemma by_key_mem: "distinct (map key t) \<Longrightarrow> r \<in> set t \<Longrightarrow> by_key (key r) t = Some r"
  by (simp add: sel_key_distinct)

lemma by_key_SomeD: "by_key k t = Some r \<Longrightarrow> r \<in> set t \<and> key r = k"
  by (drule single_SomeD) (metis (mono_tags, lifting) list.set_intros(1) mem_Collect_eq set_sel)

lemma by_key_unique:
  "distinct (map key t) \<Longrightarrow> by_key k t = Some r \<Longrightarrow> r' \<in> set t \<Longrightarrow> key r' = k \<Longrightarrow> r' = r"
  using by_key_mem by fastforce

lemma by_key_upd_same:
  assumes "by_key k t = Some r" "p r" "\<And>x. key x = k \<Longrightarrow> p x \<Longrightarrow> key (f x) = k"
    and "\<And>x. p x \<Longrightarrow> key x = k"
  shows "by_key k (upd p f t) = Some (f r)"
proof -
  have "sel (\<lambda>x. key x = k) (upd p f t) = map (\<lambda>x. if p x then f x else x) (sel (\<lambda>x. key x = k) t)"
    using assms(3,4) by (induction t) auto
  with assms(1,2) show ?thesis by (auto dest!: single_SomeD)
qed

lemma by_key_upd_other:
  assumes "\<And>x. p x \<Longrightarrow> key x = k'" "\<And>x. p x \<Longrightarrow> key (f x) = k'" "k \<noteq> k'"
  shows "by_key k (upd p f t) = by_key k t"
proof -
  have "sel (\<lambda>x. key x = k) (upd p f t) = sel (\<lambda>x. key x = k) t"
    using assms by (induction t) auto
  then show ?thesis by simp
qed

end

end
