(* ===== verification/Ledger_Store.thy ===== *)
theory Ledger_Store
  imports Orbi_Prelude
begin

text \<open>
  The authoritative ledger: the database state that holds wallets, platform vaults and
  goals, transactions, ledger rows and append markers, and the two stored procedures that
  every balance change goes through, \<open>post_transaction_v2\<close> and
  \<open>append_ledger_entries_v1\<close> of \<open>database/main.sql\<close>. A raised exception rolls the
  whole call back, so an operation returns the error or the new state.
\<close>

section \<open>State\<close>

datatype entity_kind = Goal_Entity | Vault_Entity | Wallet_Entity

text \<open>
  A row of \<open>wallets\<close>, \<open>platform_vaults\<close> or \<open>goals\<close>. The procedures read the nullable
  balance, lock flag and status through \<open>COALESCE\<close>, so a null balance is 0, a null flag
  is false and a null status is the empty text.
\<close>

record entity =
  ent_balance :: rat
  ent_currency :: "string option"
  ent_locked :: bool
  ent_status :: string
  ent_owner :: "string option"

record tx_row =
  tx_id :: string
  tx_reference :: string
  tx_user :: "string option"
  tx_wallet :: "string option"
  tx_to_wallet :: "string option"
  tx_amount :: string
  tx_description :: string
  tx_type :: string
  tx_status :: string
  tx_notes :: "string option"
  tx_metadata :: metadata
  tx_category :: "string option"
  tx_currency :: "string option"
  tx_created :: int
  tx_updated :: int

record ledger_row =
  lr_tx :: string
  lr_user :: "string option"
  lr_wallet :: string
  lr_type :: string
  lr_amount :: string
  lr_balance_after :: rat
  lr_description :: "string option"
  lr_currency :: "string option"
  lr_side :: "string option"

record append_marker =
  mk_tx :: string
  mk_key :: "string option"
  mk_phase :: "string option"

record store =
  st_wallets :: "string \<Rightarrow> entity option"
  st_vaults :: "string \<Rightarrow> entity option"
  st_goals :: "string \<Rightarrow> entity option"
  st_txs :: "tx_row list"
  st_ledger :: "ledger_row list"
  st_markers :: "append_marker list"

text \<open>One element of the \<open>p_legs\<close> array.\<close>

record leg_in =
  li_wallet :: "string option"
  li_user :: "string option"
  li_type :: string
  li_currency :: "string option"
  li_plain :: "rat option"
  li_amount :: string
  li_description :: "string option"

section \<open>Resolving and locking the entities\<close>

definition entity_kinds :: "store \<Rightarrow> string \<Rightarrow> entity_kind list" where
  "entity_kinds st k =
     (if st_wallets st k \<noteq> None then [Wallet_Entity] else []) @
     (if st_vaults st k \<noteq> None then [Vault_Entity] else []) @
     (if st_goals st k \<noteq> None then [Goal_Entity] else [])"

fun entity_at :: "store \<Rightarrow> entity_kind \<Rightarrow> string \<Rightarrow> entity option" where
  "entity_at st Wallet_Entity k = st_wallets st k"
| "entity_at st Vault_Entity k = st_vaults st k"
| "entity_at st Goal_Entity k = st_goals st k"

definition lock_blocked :: "entity \<Rightarrow> bool" where
  "lock_blocked e \<longleftrightarrow> ent_locked e \<or>
     js_lower (ent_status e) \<in> {''locked'', ''frozen'', ''blocked'', ''suspended''}"

text \<open>The ids of the legs, then of the header wallets that exist; sorted as the loop visits them.\<close>

definition leg_ids :: "leg_in list \<Rightarrow> string list" where
  "leg_ids legs = remdups (concat (map (\<lambda>l. case li_wallet l of None \<Rightarrow> [] | Some w \<Rightarrow> [w]) legs))"

definition header_ids :: "store \<Rightarrow> string option \<Rightarrow> string option \<Rightarrow> string list" where
  "header_ids st w tw = remdups (filter (\<lambda>k. entity_kinds st k \<noteq> [])
     ((case w of None \<Rightarrow> [] | Some k \<Rightarrow> [k]) @ (case tw of None \<Rightarrow> [] | Some k \<Rightarrow> [k])))"

fun kind_rank :: "entity_kind list \<Rightarrow> nat" where
  "kind_rank [] = 3"
| "kind_rank (Goal_Entity # ks) = 0"
| "kind_rank (Vault_Entity # ks) = 1"
| "kind_rank (Wallet_Entity # ks) = 2"

definition lock_order :: "store \<Rightarrow> string list \<Rightarrow> string list" where
  "lock_order st ids = sort_key (\<lambda>k. (kind_rank (entity_kinds st k), k)) ids"

text \<open>Locking one entity yields its kind and its current balance.\<close>

definition lock_entity :: "store \<Rightarrow> string \<Rightarrow> (entity_kind \<times> rat) outcome" where
  "lock_entity st k =
     (case entity_kinds st k of
        [] \<Rightarrow> throw (''LEDGER_ENTITY_MISSING: Internal entity '' @ k @ '' was not found'')
      | [kind] \<Rightarrow>
          (case entity_at st kind k of
             None \<Rightarrow> throw (''LEDGER_ENTITY_MISSING: Internal entity '' @ k @ '' was not found'')
           | Some e \<Rightarrow>
               (if kind \<noteq> Goal_Entity \<and> lock_blocked e
                then throw (''WALLET_LOCKED: '' @ (if kind = Wallet_Entity then ''Wallet '' else ''Vault '')
                       @ k @ '' is locked or unavailable'')
                else Inr (kind, ent_balance e)))
      | _ \<Rightarrow> throw (''LEDGER_ENTITY_AMBIGUOUS: Internal entity '' @ k @ '' resolves to multiple tables''))"

text \<open>The two maps the lock loop fills: balances and kinds of the locked entities.\<close>

type_synonym bal_map = "string \<Rightarrow> rat option"
type_synonym kind_map = "string \<Rightarrow> entity_kind option"

fun lock_all :: "store \<Rightarrow> string list \<Rightarrow> bal_map \<Rightarrow> kind_map \<Rightarrow> (bal_map \<times> kind_map) outcome" where
  "lock_all st [] bm km = Inr (bm, km)"
| "lock_all st (k # ks) bm km =
     (case lock_entity st k of
        Inl e \<Rightarrow> Inl e
      | Inr (kind, b) \<Rightarrow> lock_all st ks (bm(k \<mapsto> b)) (km(k \<mapsto> kind)))"

section \<open>Amounts, currencies and owners of a leg\<close>

text \<open>A text that matches \<open>^-?[0-9]+(\.[0-9]+)?$\<close> as a number.\<close>

definition parse_unsigned :: "string \<Rightarrow> rat option" where
  "parse_unsigned s =
     (let i = takeWhile (\<lambda>c. c \<noteq> CHR ''.'') s; r = dropWhile (\<lambda>c. c \<noteq> CHR ''.'') s in
      if i = [] then None
      else case r of
          [] \<Rightarrow> map_option of_nat (digits_val 0 i)
        | _ # f \<Rightarrow> if f = [] then None
            else (case (digits_val 0 i, digits_val 0 f) of
                (Some a, Some b) \<Rightarrow> Some (of_nat a + of_nat b / 10 ^ length f)
              | _ \<Rightarrow> None))"

definition parse_numeric :: "string \<Rightarrow> rat option" where
  "parse_numeric s = (case s of [] \<Rightarrow> None
     | c # r \<Rightarrow> if c = CHR ''-'' then map_option uminus (parse_unsigned r) else parse_unsigned s)"

definition leg_amount :: "string \<Rightarrow> leg_in \<Rightarrow> rat outcome" where
  "leg_amount w l =
     (case li_plain l of
        Some a \<Rightarrow> Inr a
      | None \<Rightarrow>
          (case parse_numeric (sql_btrim (li_amount l)) of
             Some a \<Rightarrow> Inr a
           | None \<Rightarrow> throw (''LEG_AMOUNT_REQUIRED: Leg for '' @ w @
               '' must include numeric amount_plain when amount is encrypted'')))"

definition resolve_financial_ledger_wallet_owner ::
    "store \<Rightarrow> string \<Rightarrow> string option \<Rightarrow> string option" where
  "resolve_financial_ledger_wallet_owner st k fallback =
     (case Option.bind (st_wallets st k) ent_owner of Some u \<Rightarrow> Some u | None \<Rightarrow>
       (case Option.bind (st_vaults st k) ent_owner of Some u \<Rightarrow> Some u | None \<Rightarrow>
         (case Option.bind (st_goals st k) ent_owner of Some u \<Rightarrow> Some u | None \<Rightarrow> fallback)))"

text \<open>The owner the insert computes, passed through the before-insert trigger of the table.\<close>

definition ledger_row_owner :: "store \<Rightarrow> string \<Rightarrow> string option \<Rightarrow> string option \<Rightarrow> string option" where
  "ledger_row_owner st k leg_user fallback =
     resolve_financial_ledger_wallet_owner st k
       (case leg_user of
          Some u \<Rightarrow> if u = '''' then resolve_financial_ledger_wallet_owner st k fallback else Some u
        | None \<Rightarrow> resolve_financial_ledger_wallet_owner st k fallback)"

section \<open>The leg loop\<close>

text \<open>The running values of the loop: balances, total and per-currency sums, inserted rows.\<close>

record leg_acc =
  la_bal :: bal_map
  la_credits :: rat
  la_debits :: rat
  la_ccredits :: "string \<Rightarrow> rat option"
  la_cdebits :: "string \<Rightarrow> rat option"
  la_rows :: "ledger_row list"

definition bump :: "(string \<Rightarrow> rat option) \<Rightarrow> string \<Rightarrow> rat \<Rightarrow> string \<Rightarrow> rat option" where
  "bump m c a = m(c \<mapsto> (case m c of None \<Rightarrow> 0 | Some x \<Rightarrow> x) + a)"

definition init_acc :: "bal_map \<Rightarrow> leg_acc" where
  "init_acc bm = \<lparr>la_bal = bm, la_credits = 0, la_debits = 0, la_ccredits = (\<lambda>_. None),
     la_cdebits = (\<lambda>_. None), la_rows = []\<rparr>"

text \<open>
  The arithmetic both procedures share: the next balance of the leg's entity, the sums and
  the inserted row.
\<close>

definition book_leg ::
    "store \<Rightarrow> string \<Rightarrow> string option \<Rightarrow> leg_in \<Rightarrow> string \<Rightarrow> rat \<Rightarrow> string option \<Rightarrow> leg_acc \<Rightarrow> leg_acc outcome" where
  "book_leg st txid fallback l w a cur acc =
     (let b = (case la_bal acc w of None \<Rightarrow> 0 | Some x \<Rightarrow> x);
          side = js_upper (li_type l);
          row = (\<lambda>nb. \<lparr>lr_tx = txid, lr_user = ledger_row_owner st w (li_user l) fallback,
                  lr_wallet = w, lr_type = side, lr_amount = li_amount l, lr_balance_after = nb,
                  lr_description = li_description l, lr_currency = cur, lr_side = None\<rparr>) in
      if side = ''CREDIT'' then
        (let nb = to_fixed 4 (b + a) in
         Inr (acc\<lparr>la_bal := (la_bal acc)(w \<mapsto> nb), la_credits := la_credits acc + a,
                la_ccredits := (case cur of None \<Rightarrow> la_ccredits acc | Some c \<Rightarrow> bump (la_ccredits acc) c a),
                la_rows := la_rows acc @ [row nb]\<rparr>))
      else if side = ''DEBIT'' then
        (let nb = to_fixed 4 (b - a) in
         if nb < 0 then throw (''INSUFFICIENT_FUNDS: Internal entity '' @ w @ '' would go negative'')
         else Inr (acc\<lparr>la_bal := (la_bal acc)(w \<mapsto> nb), la_debits := la_debits acc + a,
                la_cdebits := (case cur of None \<Rightarrow> la_cdebits acc | Some c \<Rightarrow> bump (la_cdebits acc) c a),
                la_rows := la_rows acc @ [row nb]\<rparr>))
      else throw (''LEDGER_ENTRY_TYPE_INVALID: Leg for '' @ w @ '' must be CREDIT or DEBIT''))"

text \<open>The checks of one leg before it is booked; \<open>checked\<close> is the currency check of the posting.\<close>

definition entity_currency :: "store \<Rightarrow> entity_kind \<Rightarrow> string \<Rightarrow> string option" where
  "entity_currency st kind k = Option.bind (entity_at st kind k) (\<lambda>e. map_option js_upper (ent_currency e))"

definition leg_currency :: "store \<Rightarrow> entity_kind \<Rightarrow> string \<Rightarrow> leg_in \<Rightarrow> string outcome" where
  "leg_currency st kind k l =
     (let ec = entity_currency st kind k;
          lc = (case li_currency l of
                  Some c \<Rightarrow> if sql_btrim c = '''' then ec else Some (js_upper (sql_btrim c))
                | None \<Rightarrow> ec) in
      case ec of
        None \<Rightarrow> throw (''LEDGER_CURRENCY_MISMATCH: Entity '' @ k)
      | Some e \<Rightarrow> if lc \<noteq> Some e then throw (''LEDGER_CURRENCY_MISMATCH: Entity '' @ k @ '' uses '' @ e)
          else Inr e)"

definition post_leg ::
    "store \<Rightarrow> kind_map \<Rightarrow> string \<Rightarrow> string option \<Rightarrow> leg_in \<Rightarrow> leg_acc \<Rightarrow> leg_acc outcome" where
  "post_leg st km txid fallback l acc =
     (case li_wallet l of
        None \<Rightarrow> throw ''LEDGER_LEG_WALLET_REQUIRED: Each leg must include wallet_id''
      | Some w \<Rightarrow>
          (case km w of
             None \<Rightarrow> throw (''LEDGER_ENTITY_MISSING: Internal entity '' @ w @ '' was not locked for this transaction'')
           | Some kind \<Rightarrow>
               bind_outcome (leg_amount w l) (\<lambda>a.
                 if a \<le> 0 then throw (''LEG_AMOUNT_INVALID: Leg for '' @ w @ '' must have a positive amount'')
                 else bind_outcome (leg_currency st kind w l) (\<lambda>c.
                   book_leg st txid fallback l w a (Some c) acc))))"

definition append_leg ::
    "store \<Rightarrow> kind_map \<Rightarrow> string \<Rightarrow> string option \<Rightarrow> leg_in \<Rightarrow> leg_acc \<Rightarrow> leg_acc outcome" where
  "append_leg st km txid fallback l acc =
     (case li_wallet l of
        None \<Rightarrow> throw ''LEDGER_LEG_WALLET_REQUIRED: Each leg must include wallet_id''
      | Some w \<Rightarrow>
          (case km w of
             None \<Rightarrow> throw (''LEDGER_ENTITY_MISSING: Internal entity '' @ w @ '' was not locked for this append'')
           | Some kind \<Rightarrow>
               bind_outcome (leg_amount w l) (\<lambda>a.
                 if a \<le> 0 then throw (''LEG_AMOUNT_INVALID: Leg for '' @ w @ '' must have a positive amount'')
                 else book_leg st txid fallback l w a None acc)))"

fun legs_loop :: "(leg_in \<Rightarrow> leg_acc \<Rightarrow> leg_acc outcome) \<Rightarrow> leg_in list \<Rightarrow> leg_acc \<Rightarrow> leg_acc outcome" where
  "legs_loop f [] acc = Inr acc"
| "legs_loop f (l # ls) acc = (case f l acc of Inl e \<Rightarrow> Inl e | Inr acc' \<Rightarrow> legs_loop f ls acc')"

section \<open>Writing the balances back\<close>

definition write_entity :: "(string \<Rightarrow> entity option) \<Rightarrow> bal_map \<Rightarrow> entity_kind \<Rightarrow> kind_map \<Rightarrow> string \<Rightarrow> entity option" where
  "write_entity tbl bm kind km k =
     (case tbl k of
        None \<Rightarrow> None
      | Some e \<Rightarrow> (if km k = Some kind
          then Some (e\<lparr>ent_balance := (case bm k of None \<Rightarrow> ent_balance e | Some b \<Rightarrow> b)\<rparr>) else Some e))"

definition write_back :: "store \<Rightarrow> kind_map \<Rightarrow> leg_acc \<Rightarrow> store" where
  "write_back st km acc = st\<lparr>
     st_wallets := write_entity (st_wallets st) (la_bal acc) Wallet_Entity km,
     st_vaults := write_entity (st_vaults st) (la_bal acc) Vault_Entity km,
     st_goals := write_entity (st_goals st) (la_bal acc) Goal_Entity km,
     st_ledger := st_ledger st @ la_rows acc\<rparr>"

definition currencies_balanced :: "leg_acc \<Rightarrow> string list \<Rightarrow> bool" where
  "currencies_balanced acc cs = list_all (\<lambda>c.
     to_fixed 4 \<bar>(case la_ccredits acc c of None \<Rightarrow> 0 | Some x \<Rightarrow> x)
       - (case la_cdebits acc c of None \<Rightarrow> 0 | Some x \<Rightarrow> x)\<bar> = 0) cs"

definition row_currencies :: "leg_acc \<Rightarrow> string list" where
  "row_currencies acc = concat (map (\<lambda>r. case lr_currency r of None \<Rightarrow> [] | Some c \<Rightarrow> [c]) (la_rows acc))"

section \<open>The two procedures\<close>

record post_args =
  pa_tx_id :: string
  pa_user :: "string option"
  pa_wallet :: "string option"
  pa_to_wallet :: "string option"
  pa_amount :: string
  pa_description :: string
  pa_type :: string
  pa_status :: string
  pa_metadata :: metadata
  pa_legs :: "leg_in list"
  pa_reference :: "string option"
  pa_category :: "string option"
  pa_now :: int

definition effective_reference :: "post_args \<Rightarrow> string" where
  "effective_reference a =
     (case pa_reference a of
        None \<Rightarrow> pa_tx_id a
      | Some r \<Rightarrow> if sql_btrim r = '''' then pa_tx_id a else sql_btrim r)"

text \<open>
  The insert names no currency, creation or update time, so these columns take their defaults; a
  trigger before the insert takes the currency from the metadata when it is there.
\<close>

definition apply_transaction_currency_from_metadata :: "metadata \<Rightarrow> string" where
  "apply_transaction_currency_from_metadata md =
     (let cur = sql_btrim (case md ''currency'' of None \<Rightarrow> [] | Some v \<Rightarrow> if v = JNull then [] else js_text v) in
      if cur = [] then ''TZS'' else js_upper cur)"

definition new_tx :: "post_args \<Rightarrow> tx_row" where
  "new_tx a = \<lparr>tx_id = pa_tx_id a, tx_reference = effective_reference a, tx_user = pa_user a,
     tx_wallet = pa_wallet a, tx_to_wallet = pa_to_wallet a, tx_amount = pa_amount a,
     tx_description = pa_description a, tx_type = pa_type a, tx_status = pa_status a,
     tx_notes = None, tx_metadata = pa_metadata a, tx_category = pa_category a,
     tx_currency = Some (apply_transaction_currency_from_metadata (pa_metadata a)), tx_created = pa_now a, tx_updated = pa_now a\<rparr>"

definition post_transaction_v2 :: "store \<Rightarrow> post_args \<Rightarrow> store outcome" where
  "post_transaction_v2 st a =
     (if pa_legs a = [] then throw ''LEDGER_LEGS_REQUIRED: post_transaction_v2 requires at least one ledger leg''
      else bind_outcome
        (lock_all st (lock_order st (remdups (leg_ids (pa_legs a) @ header_ids st (pa_wallet a) (pa_to_wallet a))))
          (\<lambda>_. None) (\<lambda>_. None)) (\<lambda>(bm, km).
        if \<exists>t \<in> set (st_txs st). tx_reference t = effective_reference a
        then throw (''IDEMPOTENCY_VIOLATION: Transaction with reference '' @ effective_reference a @ '' already exists'')
        else if \<exists>t \<in> set (st_txs st). tx_id t = pa_tx_id a
        then Inl (JsError ''duplicate key value violates unique constraint'' ''23505'')
        else
          (let st' = st\<lparr>st_txs := st_txs st @ [new_tx a]\<rparr> in
           bind_outcome (legs_loop (post_leg st km (pa_tx_id a) (pa_user a)) (pa_legs a) (init_acc bm)) (\<lambda>acc.
             if to_fixed 4 \<bar>la_credits acc - la_debits acc\<bar> \<noteq> 0
             then throw ''LEDGER_OUT_OF_BALANCE: credits do not equal debits''
             else if \<not> currencies_balanced acc (row_currencies acc)
             then throw ''LEDGER_CURRENCY_OUT_OF_BALANCE''
             else Inr (write_back st' km acc)))))"

definition nonblank :: "string option \<Rightarrow> string option" where
  "nonblank s = (case s of None \<Rightarrow> None | Some t \<Rightarrow> if sql_btrim t = '''' then None else Some (sql_btrim t))"

definition marker_clash :: "store \<Rightarrow> string \<Rightarrow> string option \<Rightarrow> string option \<Rightarrow> bool" where
  "marker_clash st txid key phase \<longleftrightarrow>
     (\<exists>m \<in> set (st_markers st).
        (key \<noteq> None \<and> mk_key m = key) \<or> (phase \<noteq> None \<and> mk_tx m = txid \<and> mk_phase m = phase))"

definition append_ledger_entries_v1 ::
    "store \<Rightarrow> string \<Rightarrow> leg_in list \<Rightarrow> string option \<Rightarrow> string option \<Rightarrow> store outcome" where
  "append_ledger_entries_v1 st txid legs key0 phase0 =
     (if legs = [] then throw ''LEDGER_LEGS_REQUIRED: append_ledger_entries_v1 requires at least one ledger leg''
      else case single (sel (\<lambda>t. tx_id t = txid) (st_txs st)) of
        None \<Rightarrow> throw (''TRANSACTION_MISSING: Transaction '' @ txid @ '' was not found'')
      | Some tx \<Rightarrow>
          (let key = nonblank key0; phase = nonblank phase0;
               marked = key \<noteq> None \<or> phase \<noteq> None in
           if marked \<and> marker_clash st txid key phase
           then throw (''APPEND_ALREADY_APPLIED: transaction '' @ txid)
           else
             (let st' = (if marked then st\<lparr>st_markers := st_markers st @ [\<lparr>mk_tx = txid, mk_key = key, mk_phase = phase\<rparr>]\<rparr> else st) in
              bind_outcome (lock_all st (lock_order st (leg_ids legs)) (\<lambda>_. None) (\<lambda>_. None)) (\<lambda>(bm, km).
              bind_outcome (legs_loop (append_leg st km txid (tx_user tx)) legs (init_acc bm)) (\<lambda>acc.
                if to_fixed 4 \<bar>la_credits acc - la_debits acc\<bar> \<noteq> 0
                then throw ''LEDGER_OUT_OF_BALANCE: credits do not equal debits''
                else Inr (write_back st' km acc))))))"

end
