(* ===== verification/Ledger_Laws.thy ===== *)
theory Ledger_Laws
  imports Ledger_Store
begin

text \<open>
  Lemmas on the two posting procedures of the ledger store. The loop over the legs is shared:
  the locale \<open>leg_booker\<close> states what a leg step of either procedure promises, its lemmas
  describe the whole loop, and both leg steps interpret it.
\<close>

section \<open>Values of a leg\<close>

definition balv :: "bal_map \<Rightarrow> string \<Rightarrow> rat" where
  "balv m k = (case m k of None \<Rightarrow> 0 | Some x \<Rightarrow> x)"

definition leg_value :: "leg_in \<Rightarrow> rat" where
  "leg_value l = (case li_plain l of Some a \<Rightarrow> a
     | None \<Rightarrow> (case parse_numeric (sql_btrim (li_amount l)) of Some a \<Rightarrow> a | None \<Rightarrow> 0))"

definition leg_signed :: "leg_in \<Rightarrow> rat" where
  "leg_signed l = (if js_upper (li_type l) = ''CREDIT'' then leg_value l else - leg_value l)"

definition wallet_signed :: "string \<Rightarrow> leg_in \<Rightarrow> rat" where
  "wallet_signed k l = (if li_wallet l = Some k then leg_signed l else 0)"

definition net_of :: "string \<Rightarrow> leg_in list \<Rightarrow> rat" where
  "net_of k legs = (\<Sum>l\<leftarrow>legs. wallet_signed k l)"

lemma leg_amount_value: "leg_amount w l = Inr a \<Longrightarrow> a = leg_value l"
  by (auto simp: leg_amount_def leg_value_def split: option.splits)

lemma net_of_simps [simp]: "net_of k [] = 0" "net_of k (l # ls) = wallet_signed k l + net_of k ls"
  by (simp_all add: net_of_def)

lemma balv_upd [simp]: "balv (m(k \<mapsto> x)) j = (if j = k then x else balv m j)"
  by (simp add: balv_def)

lemma balv_bump [simp]: "balv (bump m c a) d = (if d = c then balv m c + a else balv m d)"
  by (simp add: balv_def bump_def)

lemma scale4_leg_signed [intro]: "scale4 (leg_value l) \<Longrightarrow> scale4 (leg_signed l)"
  by (auto simp: leg_signed_def)

lemma scale4_net_of: "\<forall>l \<in> set ls. scale4 (leg_value l) \<Longrightarrow> scale4 (net_of k ls)"
  by (induction ls) (auto simp: wallet_signed_def)

section \<open>Booking one leg\<close>

lemma book_leg_cases:
  assumes "book_leg st tx fb l w a cur acc = Inr acc'" and "a = leg_value l"
  shows "js_upper (li_type l) \<in> {''CREDIT'', ''DEBIT''}"
    and "la_bal acc' = (la_bal acc)(w \<mapsto> to_fixed 4 (balv (la_bal acc) w + leg_signed l))"
    and "la_credits acc' - la_debits acc' = la_credits acc - la_debits acc + leg_signed l"
    and "balv (la_ccredits acc') c - balv (la_cdebits acc') c =
         balv (la_ccredits acc) c - balv (la_cdebits acc) c + (if cur = Some c then leg_signed l else 0)"
    and "la_rows acc' = la_rows acc @ [\<lparr>lr_tx = tx, lr_user = ledger_row_owner st w (li_user l) fb,
           lr_wallet = w, lr_type = js_upper (li_type l), lr_amount = li_amount l,
           lr_balance_after = to_fixed 4 (balv (la_bal acc) w + leg_signed l),
           lr_description = li_description l, lr_currency = cur, lr_side = None\<rparr>]"
    and "js_upper (li_type l) = ''DEBIT'' \<Longrightarrow> 0 \<le> to_fixed 4 (balv (la_bal acc) w + leg_signed l)"
  using assms
  by (auto simp: book_leg_def Let_def leg_signed_def balv_def [symmetric] split: if_splits option.splits)

section \<open>The loop\<close>

text \<open>The ledger row a leg of transaction \<open>tx\<close> leaves, with the currency \<open>cur\<close> records.\<close>

definition row_of_leg :: "string \<Rightarrow> (string \<Rightarrow> string option) \<Rightarrow> leg_in \<Rightarrow> ledger_row \<Rightarrow> bool" where
  "row_of_leg tx cur l r \<longleftrightarrow> li_wallet l = Some (lr_wallet r) \<and> lr_tx r = tx \<and> lr_type r = js_upper (li_type l) \<and>
     lr_type r \<in> {''CREDIT'', ''DEBIT''} \<and> lr_amount r = li_amount l \<and> lr_currency r = cur (lr_wallet r) \<and>
     lr_side r = None \<and> (lr_type r = ''DEBIT'' \<longrightarrow> 0 \<le> lr_balance_after r)"

text \<open>The rows of entity \<open>k\<close> carry its running balance, from \<open>b\<close> on.\<close>

fun traced :: "string \<Rightarrow> rat \<Rightarrow> leg_in list \<Rightarrow> ledger_row list \<Rightarrow> bool" where
  "traced k b (l # ls) (r # rs) = (if li_wallet l = Some k
     then lr_balance_after r = b + leg_signed l \<and> traced k (b + leg_signed l) ls rs else traced k b ls rs)"
| "traced k b ls rs = True"

locale leg_booker =
  fixes step :: "leg_in \<Rightarrow> leg_acc \<Rightarrow> leg_acc outcome"
    and st :: store and km :: kind_map and tx :: string and fb :: "string option"
    and cur :: "string \<Rightarrow> string option"
  assumes books: "step l acc = Inr acc' \<Longrightarrow>
    \<exists>w kind. li_wallet l = Some w \<and> km w = Some kind \<and> 0 < leg_value l \<and>
      book_leg st tx fb l w (leg_value l) (cur w) acc = Inr acc'"
begin

lemma step_wallet: "step l acc = Inr acc' \<Longrightarrow> \<exists>w kind. li_wallet l = Some w \<and> km w = Some kind \<and> 0 < leg_value l"
  using books by blast

lemma loop_Cons: "legs_loop step (l # ls) acc = Inr acc' \<Longrightarrow>
    \<exists>acc1. step l acc = Inr acc1 \<and> legs_loop step ls acc1 = Inr acc'"
  by (auto split: sum.splits)

lemma loop_wallets: "legs_loop step ls acc = Inr acc' \<Longrightarrow> l \<in> set ls \<Longrightarrow>
    \<exists>w kind. li_wallet l = Some w \<and> km w = Some kind \<and> 0 < leg_value l"
proof (induction ls arbitrary: acc)
  case (Cons a ls)
  from loop_Cons [OF Cons.prems(1)] obtain acc1 where s: "step a acc = Inr acc1"
    and t: "legs_loop step ls acc1 = Inr acc'" by blast
  show ?case
    using Cons.IH [OF t] Cons.prems(2) step_wallet [OF s] by auto
qed simp

lemma step_bal:
  assumes "step l acc = Inr acc'" "scale4 (leg_value l)" "\<forall>k. scale4 (balv (la_bal acc) k)"
  shows "balv (la_bal acc') k = balv (la_bal acc) k + wallet_signed k l" "\<forall>k. scale4 (balv (la_bal acc') k)"
proof -
  obtain w where w: "li_wallet l = Some w" and b: "book_leg st tx fb l w (leg_value l) (cur w) acc = Inr acc'"
    using books [OF assms(1)] by blast
  from assms(2,3) have s: "scale4 (balv (la_bal acc) w + leg_signed l)" by blast
  show "balv (la_bal acc') k = balv (la_bal acc) k + wallet_signed k l"
    using w book_leg_cases(2) [OF b refl] to_fixed4_exact [OF s] by (auto simp: wallet_signed_def)
  show "\<forall>k. scale4 (balv (la_bal acc') k)"
    using assms(3) book_leg_cases(2) [OF b refl] by simp
qed

lemma loop_bal:
  assumes "legs_loop step ls acc = Inr acc'" "\<forall>l \<in> set ls. scale4 (leg_value l)"
    "\<forall>k. scale4 (balv (la_bal acc) k)"
  shows "balv (la_bal acc') k = balv (la_bal acc) k + net_of k ls"
  using assms
proof (induction ls arbitrary: acc)
  case (Cons a ls)
  from loop_Cons [OF Cons.prems(1)] obtain acc1 where s: "step a acc = Inr acc1"
    and t: "legs_loop step ls acc1 = Inr acc'" by blast
  from Cons.prems(2) have a: "scale4 (leg_value a)" and r: "\<forall>l \<in> set ls. scale4 (leg_value l)" by auto
  from Cons.IH [OF t r step_bal(2) [OF s a Cons.prems(3)]] step_bal(1) [OF s a Cons.prems(3)]
  show ?case by simp
qed simp

lemma loop_total:
  "legs_loop step ls acc = Inr acc' \<Longrightarrow>
     la_credits acc' - la_debits acc' = la_credits acc - la_debits acc + (\<Sum>l\<leftarrow>ls. leg_signed l)"
proof (induction ls arbitrary: acc)
  case (Cons a ls)
  from loop_Cons [OF Cons.prems] obtain acc1 where s: "step a acc = Inr acc1"
    and t: "legs_loop step ls acc1 = Inr acc'" by blast
  from books [OF s] obtain w where
    b: "book_leg st tx fb a w (leg_value a) (cur w) acc = Inr acc1" by blast
  show ?case using Cons.IH [OF t] book_leg_cases(3) [OF b refl] by simp
qed simp

definition cur_signed :: "string \<Rightarrow> leg_in \<Rightarrow> rat" where
  "cur_signed c l = (case li_wallet l of None \<Rightarrow> 0 | Some w \<Rightarrow> if cur w = Some c then leg_signed l else 0)"

lemma loop_currency:
  "legs_loop step ls acc = Inr acc' \<Longrightarrow>
     balv (la_ccredits acc') c - balv (la_cdebits acc') c =
     balv (la_ccredits acc) c - balv (la_cdebits acc) c + (\<Sum>l\<leftarrow>ls. cur_signed c l)"
proof (induction ls arbitrary: acc)
  case (Cons a ls)
  from loop_Cons [OF Cons.prems] obtain acc1 where s: "step a acc = Inr acc1"
    and t: "legs_loop step ls acc1 = Inr acc'" by blast
  from books [OF s] obtain w where w: "li_wallet a = Some w"
    and b: "book_leg st tx fb a w (leg_value a) (cur w) acc = Inr acc1" by blast
  show ?case using Cons.IH [OF t] book_leg_cases(4) [OF b refl, of c] w by (simp add: cur_signed_def)
qed simp

lemma loop_rows_prefix: "legs_loop step ls acc = Inr acc' \<Longrightarrow> \<exists>rs. la_rows acc' = la_rows acc @ rs \<and> length rs = length ls"
proof (induction ls arbitrary: acc)
  case (Cons a ls)
  from loop_Cons [OF Cons.prems] obtain acc1 where s: "step a acc = Inr acc1"
    and t: "legs_loop step ls acc1 = Inr acc'" by blast
  from books [OF s] obtain w where
    b: "book_leg st tx fb a w (leg_value a) (cur w) acc = Inr acc1" by blast
  from Cons.IH [OF t] book_leg_cases(5) [OF b refl] show ?case by auto
qed simp

lemma loop_rows:
  assumes "legs_loop step ls acc = Inr acc'"
  shows "\<exists>rs. la_rows acc' = la_rows acc @ rs \<and> list_all2 (row_of_leg tx cur) ls rs"
  using assms
proof (induction ls arbitrary: acc)
  case (Cons a ls)
  from loop_Cons [OF Cons.prems] obtain acc1 where s: "step a acc = Inr acc1"
    and t: "legs_loop step ls acc1 = Inr acc'" by blast
  from books [OF s] obtain w where w: "li_wallet a = Some w"
    and b: "book_leg st tx fb a w (leg_value a) (cur w) acc = Inr acc1" by blast
  from Cons.IH [OF t] obtain rs where rs: "la_rows acc' = la_rows acc1 @ rs" "list_all2 (row_of_leg tx cur) ls rs" by blast
  have "row_of_leg tx cur a (last (la_rows acc1))"
    using w book_leg_cases(1,5,6) [OF b refl] by (auto simp: row_of_leg_def)
  with rs book_leg_cases(5) [OF b refl] show ?case
    by (intro exI [of _ "last (la_rows acc1) # rs"]) auto
qed simp

lemma loop_traced:
  assumes "legs_loop step ls acc = Inr acc'" "\<forall>l \<in> set ls. scale4 (leg_value l)"
    "\<forall>k. scale4 (balv (la_bal acc) k)" "la_rows acc' = la_rows acc @ rs"
  shows "traced k (balv (la_bal acc) k) ls rs"
  using assms
proof (induction ls arbitrary: acc rs)
  case (Cons a ls)
  from loop_Cons [OF Cons.prems(1)] obtain acc1 where s: "step a acc = Inr acc1"
    and t: "legs_loop step ls acc1 = Inr acc'" by blast
  from books [OF s] obtain w where w: "li_wallet a = Some w"
    and b: "book_leg st tx fb a w (leg_value a) (cur w) acc = Inr acc1" by blast
  from Cons.prems(2) have a: "scale4 (leg_value a)" and r: "\<forall>l \<in> set ls. scale4 (leg_value l)" by auto
  from loop_rows_prefix [OF t] obtain rs1 where rs1: "la_rows acc' = la_rows acc1 @ rs1" by blast
  from book_leg_cases(5) [OF b refl] obtain x where x: "la_rows acc1 = la_rows acc @ [x]"
    "lr_balance_after x = to_fixed 4 (balv (la_bal acc) w + leg_signed a)" by auto
  from rs1 x(1) Cons.prems(4) have rs: "rs = x # rs1" by simp
  have "scale4 (balv (la_bal acc) w + leg_signed a)" using a Cons.prems(3) by blast
  with x(2) have v: "lr_balance_after x = balv (la_bal acc) w + leg_signed a" by (simp add: to_fixed4_exact)
  from Cons.IH [OF t r step_bal(2) [OF s a Cons.prems(3)] rs1] step_bal(1) [OF s a Cons.prems(3), of k]
  have "traced k (balv (la_bal acc) k + wallet_signed k a) ls rs1" by simp
  with v w show ?case by (auto simp: rs wallet_signed_def)
qed simp

lemma loop_nonneg:
  assumes "legs_loop step ls acc = Inr acc'" "\<forall>k. 0 \<le> balv (la_bal acc) k"
  shows "0 \<le> balv (la_bal acc') k"
  using assms
proof (induction ls arbitrary: acc)
  case (Cons a ls)
  from loop_Cons [OF Cons.prems(1)] obtain acc1 where s: "step a acc = Inr acc1"
    and t: "legs_loop step ls acc1 = Inr acc'" by blast
  from books [OF s] obtain w where v: "0 < leg_value a"
    and b: "book_leg st tx fb a w (leg_value a) (cur w) acc = Inr acc1" by blast
  have pos: "0 \<le> to_fixed 4 x" if "0 \<le> x" for x :: rat
    using that by (simp add: to_fixed_def)
  have "0 \<le> to_fixed 4 (balv (la_bal acc) w + leg_signed a)"
  proof (cases "js_upper (li_type a) = ''CREDIT''")
    case True
    with v Cons.prems(2) show ?thesis by (intro pos) (simp add: leg_signed_def)
  next
    case False
    then show ?thesis using book_leg_cases(1,6) [OF b refl] by auto
  qed
  then have "\<forall>k. 0 \<le> balv (la_bal acc1) k"
    using Cons.prems(2) book_leg_cases(2) [OF b refl] by simp
  then show ?case by (rule Cons.IH [OF t])
qed simp

lemma loop_dom:
  assumes "legs_loop step ls acc = Inr acc'" "k \<notin> dom (la_bal acc)" "Some k \<notin> li_wallet ` set ls"
  shows "k \<notin> dom (la_bal acc')"
  using assms
proof (induction ls arbitrary: acc)
  case (Cons a ls)
  from loop_Cons [OF Cons.prems(1)] obtain acc1 where s: "step a acc = Inr acc1"
    and t: "legs_loop step ls acc1 = Inr acc'" by blast
  from books [OF s] obtain w where w: "li_wallet a = Some w"
    and b: "book_leg st tx fb a w (leg_value a) (cur w) acc = Inr acc1" by blast
  have "k \<notin> dom (la_bal acc1)" using Cons.prems(2,3) w book_leg_cases(2) [OF b refl] by auto
  with Cons.IH [OF t] Cons.prems(3) show ?case by auto
qed simp

lemma loop_dom_mono: "legs_loop step ls acc = Inr acc' \<Longrightarrow> la_bal acc k \<noteq> None \<Longrightarrow> la_bal acc' k \<noteq> None"
proof (induction ls arbitrary: acc)
  case (Cons a ls)
  from loop_Cons [OF Cons.prems(1)] obtain acc1 where s: "step a acc = Inr acc1"
    and t: "legs_loop step ls acc1 = Inr acc'" by blast
  from books [OF s] obtain w where
    b: "book_leg st tx fb a w (leg_value a) (cur w) acc = Inr acc1" by blast
  show ?case using Cons.prems(2) book_leg_cases(2) [OF b refl] by (intro Cons.IH [OF t]) simp
qed simp

end

text \<open>Both leg steps satisfy the contract; the posting records the entity's currency.\<close>

definition locked_currency :: "store \<Rightarrow> kind_map \<Rightarrow> string \<Rightarrow> string option" where
  "locked_currency st km w = (case km w of None \<Rightarrow> None | Some kind \<Rightarrow> entity_currency st kind w)"

interpretation post: leg_booker "post_leg st km tx fb" st km tx fb "locked_currency st km"
  by unfold_locales
    (auto simp: post_leg_def locked_currency_def leg_currency_def Let_def bind_outcome_Inr_iff
      dest!: leg_amount_value split: option.splits if_splits)

interpretation append: leg_booker "append_leg st km tx fb" st km tx fb "\<lambda>_. None"
  by unfold_locales
    (auto simp: append_leg_def bind_outcome_Inr_iff dest!: leg_amount_value split: option.splits if_splits)

end
