(* ===== verification/Ledger_Posting.thy ===== *)
theory Ledger_Posting
  imports Ledger_Laws
begin

text \<open>
  What a successful posting or append does to the store: exact balances, conservation per
  currency, no overdraft, append-only history, and at most one posting per reference or
  append key over any run of the ledger.
\<close>

section \<open>Locking\<close>

lemma lock_entity_Inr:
  "lock_entity st k = Inr (kind, b) \<longleftrightarrow>
     entity_kinds st k = [kind] \<and>
     (\<exists>e. entity_at st kind k = Some e \<and> (kind \<noteq> Goal_Entity \<longrightarrow> \<not> lock_blocked e) \<and> b = ent_balance e)"
  by (auto simp: lock_entity_def split: list.splits option.splits if_splits)

lemma lock_all_frame: "lock_all st ks bm km = Inr (bm', km') \<Longrightarrow> k \<notin> set ks \<Longrightarrow> bm' k = bm k \<and> km' k = km k"
  by (induction ks arbitrary: bm km) (auto split: sum.splits prod.splits if_splits)

lemma lock_all_mem:
  "lock_all st ks bm km = Inr (bm', km') \<Longrightarrow> k \<in> set ks \<Longrightarrow>
     \<exists>kind e. entity_kinds st k = [kind] \<and> entity_at st kind k = Some e \<and>
       (kind \<noteq> Goal_Entity \<longrightarrow> \<not> lock_blocked e) \<and> bm' k = Some (ent_balance e) \<and> km' k = Some kind"
proof (induction ks arbitrary: bm km)
  case (Cons a ks)
  then obtain kind b where a: "lock_entity st a = Inr (kind, b)"
    and r: "lock_all st ks (bm(a \<mapsto> b)) (km(a \<mapsto> kind)) = Inr (bm', km')"
    by (auto split: sum.splits)
  show ?case
  proof (cases "k \<in> set ks")
    case True
    with Cons.IH [OF r] show ?thesis by blast
  next
    case False
    with Cons.prems(2) have "k = a" by simp
    with a lock_all_frame [OF r False] show ?thesis
      by (auto simp: lock_entity_Inr)
  qed
qed simp

lemma set_lock_order [simp]: "set (lock_order st ids) = set ids"
  by (simp add: lock_order_def)

lemma set_leg_ids [simp]: "set (leg_ids legs) = {w. Some w \<in> li_wallet ` set legs}"
  by (force simp: leg_ids_def split: option.splits)

section \<open>Balances of the store\<close>

definition balance_of :: "store \<Rightarrow> string \<Rightarrow> rat" where
  "balance_of st k = (case entity_kinds st k of
     [kind] \<Rightarrow> (case entity_at st kind k of None \<Rightarrow> 0 | Some e \<Rightarrow> ent_balance e) | _ \<Rightarrow> 0)"

definition currency_of :: "store \<Rightarrow> string \<Rightarrow> string option" where
  "currency_of st k = (case entity_kinds st k of [kind] \<Rightarrow> entity_currency st kind k | _ \<Rightarrow> None)"

definition total_in :: "string \<Rightarrow> string set \<Rightarrow> store \<Rightarrow> rat" where
  "total_in c K st = (\<Sum>k \<in> K. if currency_of st k = Some c then balance_of st k else 0)"

lemma entity_kinds_write [simp]: "entity_kinds (write_back st km acc) k = entity_kinds st k"
  by (simp add: entity_kinds_def write_back_def write_entity_def split: option.splits)

lemma entity_kinds_txs [simp]: "entity_kinds (st\<lparr>st_txs := t\<rparr>) = entity_kinds st"
  "entity_kinds (st\<lparr>st_markers := m\<rparr>) = entity_kinds st"
  by (rule ext, simp add: entity_kinds_def)+

lemma entity_at_txs [simp]: "entity_at (st\<lparr>st_txs := t\<rparr>) kind k = entity_at st kind k"
  "entity_at (st\<lparr>st_markers := m\<rparr>) kind k = entity_at st kind k"
  by (cases kind; simp)+

lemma entity_at_write:
  "entity_at (write_back st km acc) kind k =
     map_option (\<lambda>e. if km k = Some kind
       then e\<lparr>ent_balance := (case la_bal acc k of None \<Rightarrow> ent_balance e | Some b \<Rightarrow> b)\<rparr> else e) (entity_at st kind k)"
  by (cases kind) (simp_all add: write_back_def write_entity_def split: option.splits)

lemma entity_currency_write [simp]: "entity_currency (write_back st km acc) kind k = entity_currency st kind k"
  by (cases "entity_at st kind k") (simp_all add: entity_currency_def entity_at_write)

lemma currency_of_write [simp]: "currency_of (write_back st km acc) k = currency_of st k"
  by (simp add: currency_of_def split: list.splits)

lemma balance_of_txs [simp]: "balance_of (st\<lparr>st_txs := t\<rparr>) k = balance_of st k"
  "balance_of (st\<lparr>st_markers := m\<rparr>) k = balance_of st k"
  by (simp_all add: balance_of_def split: list.splits)

lemma currency_of_txs [simp]: "currency_of (st\<lparr>st_txs := t\<rparr>) k = currency_of st k"
  "currency_of (st\<lparr>st_markers := m\<rparr>) k = currency_of st k"
  by (simp_all add: currency_of_def entity_currency_def split: list.splits)

lemma balance_of_write_locked:
  assumes "entity_kinds st k = [kind]" "entity_at st kind k = Some e" "km k = Some kind" "la_bal acc k \<noteq> None"
  shows "balance_of (write_back st km acc) k = balv (la_bal acc) k"
  using assms by (auto simp: balance_of_def entity_at_write balv_def)

lemma balance_of_write_other: "km k = None \<Longrightarrow> balance_of (write_back st km acc) k = balance_of st k"
  by (auto simp: balance_of_def entity_at_write split: list.splits option.splits)

section \<open>Anatomy of a success\<close>

text \<open>
  The shape both procedures share: some ids were locked, the loop ran from the locked
  balances, and its balances were written back over the same entities.
\<close>

definition booked :: "(leg_in \<Rightarrow> leg_acc \<Rightarrow> leg_acc outcome) \<Rightarrow> store \<Rightarrow> string list \<Rightarrow> bal_map \<Rightarrow> kind_map \<Rightarrow>
    leg_in list \<Rightarrow> leg_acc \<Rightarrow> bool" where
  "booked step st ids bm km legs acc \<longleftrightarrow>
     lock_all st ids (\<lambda>_. None) (\<lambda>_. None) = Inr (bm, km) \<and>
     legs_loop step legs (init_acc bm) = Inr acc \<and>
     to_fixed 4 \<bar>la_credits acc - la_debits acc\<bar> = 0"

lemma post_success:
  assumes "post_transaction_v2 st a = Inr st'"
  obtains ids bm km acc where
    "booked (post_leg st km (pa_tx_id a) (pa_user a)) st ids bm km (pa_legs a) acc"
    and "currencies_balanced acc (row_currencies acc)"
    and "\<forall>t \<in> set (st_txs st). tx_reference t \<noteq> effective_reference a \<and> tx_id t \<noteq> pa_tx_id a"
    and "st' = write_back (st\<lparr>st_txs := st_txs st @ [new_tx a]\<rparr>) km acc"
    and "set ids = {w. Some w \<in> li_wallet ` set (pa_legs a)} \<union> set (header_ids st (pa_wallet a) (pa_to_wallet a))"
    and "pa_legs a \<noteq> []"
  using assms
  by (auto simp: post_transaction_v2_def bind_outcome_Inr_iff booked_def Let_def split: if_splits prod.splits)

lemma append_success:
  assumes "append_ledger_entries_v1 st txid legs key phase = Inr st'"
  obtains tx st0 bm km acc where
    "booked (append_leg st km txid (tx_user tx)) st (lock_order st (leg_ids legs)) bm km legs acc"
    and "single (sel (\<lambda>t. tx_id t = txid) (st_txs st)) = Some tx"
    and "st0 = (if nonblank key \<noteq> None \<or> nonblank phase \<noteq> None
          then st\<lparr>st_markers := st_markers st @ [\<lparr>mk_tx = txid, mk_key = nonblank key, mk_phase = nonblank phase\<rparr>]\<rparr> else st)"
    and "\<not> marker_clash st txid (nonblank key) (nonblank phase)"
    and "st' = write_back st0 km acc"
  using assms
  by (auto simp: append_ledger_entries_v1_def bind_outcome_Inr_iff booked_def Let_def marker_clash_def
      split: if_splits prod.splits option.splits)

lemma booked_bal0:
  assumes "booked step st ids bm km legs acc"
  shows "k \<in> set ids \<Longrightarrow> balv bm k = balance_of st k \<and> bm k \<noteq> None" and "k \<notin> set ids \<Longrightarrow> balv bm k = 0 \<and> km k = None"
proof -
  from assms have l: "lock_all st ids (\<lambda>_. None) (\<lambda>_. None) = Inr (bm, km)" by (simp add: booked_def)
  show "k \<in> set ids \<Longrightarrow> balv bm k = balance_of st k \<and> bm k \<noteq> None"
    using lock_all_mem [OF l, of k] by (auto simp: balv_def balance_of_def)
  show "k \<notin> set ids \<Longrightarrow> balv bm k = 0 \<and> km k = None"
    using lock_all_frame [OF l, of k] by (auto simp: balv_def)
qed

context leg_booker
begin

lemma booked_balance:
  assumes b: "booked step st ids bm km legs acc"
    and st0: "\<And>j. entity_kinds st0 j = entity_kinds st j" "\<And>kd j. entity_at st0 kd j = entity_at st kd j"
    and sl: "\<forall>l \<in> set legs. scale4 (leg_value l)" and sb: "\<forall>k. scale4 (balance_of st k)"
  shows "balance_of (write_back st0 km acc) k = balance_of st k + net_of k legs"
proof -
  from b have loop: "legs_loop step legs (init_acc bm) = Inr acc"
    and lock: "lock_all st ids (\<lambda>_. None) (\<lambda>_. None) = Inr (bm, km)" by (auto simp: booked_def)
  have sbm: "\<forall>j. scale4 (balv (la_bal (init_acc bm)) j)"
    using booked_bal0 [OF b] sb by (metis init_acc_def leg_acc.select_convs(1) scale4_0)
  have eq: "balv (la_bal acc) k = balv bm k + net_of k legs"
    using loop_bal [OF loop sl sbm] by (simp add: init_acc_def)
  show ?thesis
  proof (cases "k \<in> set ids")
    case True
    from lock_all_mem [OF lock True] obtain kind e where
      e: "entity_kinds st k = [kind]" "entity_at st kind k = Some e" "bm k = Some (ent_balance e)" "km k = Some kind"
      by blast
    have "la_bal acc k \<noteq> None"
      using loop_dom_mono [OF loop, of k] e(3) by (simp add: init_acc_def)
    with e st0 have "balance_of (write_back st0 km acc) k = balv (la_bal acc) k"
      by (intro balance_of_write_locked) auto
    with eq booked_bal0(1) [OF b True] show ?thesis by simp
  next
    case False
    with booked_bal0(2) [OF b] have km: "km k = None" and bm0: "balv bm k = 0" by auto
    have z: "net_of k legs = 0"
    proof -
      have "\<forall>l \<in> set legs. li_wallet l \<noteq> Some k"
        using loop_wallets [OF loop] km by fastforce
      then show ?thesis by (induction legs) (auto simp: wallet_signed_def)
    qed
    have "balance_of st0 k = balance_of st k" by (simp add: balance_of_def st0 split: list.splits)
    with z km show ?thesis by (simp add: balance_of_write_other)
  qed
qed

lemma booked_nonneg:
  assumes b: "booked step st ids bm km legs acc"
    and st0: "\<And>j. entity_kinds st0 j = entity_kinds st j" "\<And>kd j. entity_at st0 kd j = entity_at st kd j"
    and nn: "\<forall>k. 0 \<le> balance_of st k"
  shows "0 \<le> balance_of (write_back st0 km acc) k"
proof -
  from b have loop: "legs_loop step legs (init_acc bm) = Inr acc"
    and lock: "lock_all st ids (\<lambda>_. None) (\<lambda>_. None) = Inr (bm, km)" by (auto simp: booked_def)
  have "\<forall>j. 0 \<le> balv (la_bal (init_acc bm)) j"
    using booked_bal0 [OF b] nn by (metis init_acc_def leg_acc.select_convs(1) order_refl)
  from loop_nonneg [OF loop this] have acc: "0 \<le> balv (la_bal acc) k" .
  show ?thesis
  proof (cases "k \<in> set ids")
    case True
    from lock_all_mem [OF lock True] obtain kind e where
      e: "entity_kinds st k = [kind]" "entity_at st kind k = Some e" "bm k = Some (ent_balance e)" "km k = Some kind"
      by blast
    have "la_bal acc k \<noteq> None"
      using loop_dom_mono [OF loop, of k] e(3) by (simp add: init_acc_def)
    with e st0 have "balance_of (write_back st0 km acc) k = balv (la_bal acc) k"
      by (intro balance_of_write_locked) auto
    with acc show ?thesis by simp
  next
    case False
    with booked_bal0(2) [OF b] have "km k = None" by auto
    moreover have "balance_of st0 k = balance_of st k" by (simp add: balance_of_def st0 split: list.splits)
    ultimately show ?thesis using nn by (simp add: balance_of_write_other)
  qed
qed

lemma booked_traced:
  assumes b: "booked step st ids bm km legs acc"
    and sl: "\<forall>l \<in> set legs. scale4 (leg_value l)" and sb: "\<forall>k. scale4 (balance_of st k)"
  shows "traced k (balance_of st k) legs (la_rows acc)"
proof -
  from b have loop: "legs_loop step legs (init_acc bm) = Inr acc"
    and lock: "lock_all st ids (\<lambda>_. None) (\<lambda>_. None) = Inr (bm, km)" by (auto simp: booked_def)
  have sbm: "\<forall>j. scale4 (balv (la_bal (init_acc bm)) j)"
    using booked_bal0 [OF b] sb by (metis init_acc_def leg_acc.select_convs(1) scale4_0)
  have t: "traced k (balv bm k) legs (la_rows acc)"
    using loop_traced [OF loop sl sbm, of "la_rows acc" k] by (simp add: init_acc_def)
  show ?thesis
  proof (cases "k \<in> set ids")
    case True
    with booked_bal0(1) [OF b] t show ?thesis by simp
  next
    case False
    with booked_bal0(2) [OF b] have "km k = None" by auto
    then have n: "\<forall>l \<in> set legs. li_wallet l \<noteq> Some k" using loop_wallets [OF loop] by fastforce
    have "traced k x legs rs" for x rs using n by (induction k x legs rs rule: traced.induct) auto
    then show ?thesis .
  qed
qed

lemma booked_total:
  assumes "booked step st ids bm km legs acc" and "\<forall>l \<in> set legs. scale4 (leg_value l)"
  shows "(\<Sum>l\<leftarrow>legs. leg_signed l) = 0"
proof -
  from assms have loop: "legs_loop step legs (init_acc bm) = Inr acc"
    and z: "to_fixed 4 \<bar>la_credits acc - la_debits acc\<bar> = 0" by (auto simp: booked_def)
  have s: "la_credits acc - la_debits acc = (\<Sum>l\<leftarrow>legs. leg_signed l)"
    using loop_total [OF loop] by (simp add: init_acc_def)
  have "scale4 (\<Sum>l\<leftarrow>legs. leg_signed l)" using assms(2) by (induction legs) auto
  then have "scale4 \<bar>\<Sum>l\<leftarrow>legs. leg_signed l\<bar>" by (auto simp: abs_if)
  with z s show ?thesis by (simp add: to_fixed4_exact)
qed

end

section \<open>What a posting or an append leaves\<close>

lemma post_balance:
  assumes "post_transaction_v2 st a = Inr st'"
    and "\<forall>l \<in> set (pa_legs a). scale4 (leg_value l)" and "\<forall>k. scale4 (balance_of st k)"
  shows "balance_of st' k = balance_of st k + net_of k (pa_legs a)"
proof -
  from assms(1) obtain ids bm km acc where
    b: "booked (post_leg st km (pa_tx_id a) (pa_user a)) st ids bm km (pa_legs a) acc"
    and s: "st' = write_back (st\<lparr>st_txs := st_txs st @ [new_tx a]\<rparr>) km acc"
    by (rule post_success)
  show ?thesis unfolding s by (rule post.booked_balance [OF b _ _ assms(2,3)]) simp_all
qed

lemma append_balance:
  assumes "append_ledger_entries_v1 st t ls key phase = Inr st'"
    and "\<forall>l \<in> set ls. scale4 (leg_value l)" and "\<forall>k. scale4 (balance_of st k)"
  shows "balance_of st' k = balance_of st k + net_of k ls"
proof -
  obtain bm km acc and st0 :: store and tx :: tx_row where
    b: "booked (append_leg st km t (tx_user tx)) st (lock_order st (leg_ids ls)) bm km ls acc"
    and s0: "st0 = (if nonblank key \<noteq> None \<or> nonblank phase \<noteq> None
          then st\<lparr>st_markers := st_markers st @ [\<lparr>mk_tx = t, mk_key = nonblank key, mk_phase = nonblank phase\<rparr>]\<rparr> else st)"
    and s: "st' = write_back st0 km acc"
    by (rule append_success [OF assms(1)])
  show ?thesis unfolding s
    by (rule append.booked_balance [OF b _ _ assms(2,3)]) (simp_all add: s0)
qed

lemma post_rows_of_legs:
  assumes "post_transaction_v2 st a = Inr st'"
  shows "\<exists>rs. st_ledger st' = st_ledger st @ rs \<and> list_all2 (row_of_leg (pa_tx_id a) (currency_of st)) (pa_legs a) rs \<and>
    ((\<forall>l \<in> set (pa_legs a). scale4 (leg_value l)) \<and> (\<forall>k. scale4 (balance_of st k)) \<longrightarrow>
       (\<forall>k. traced k (balance_of st k) (pa_legs a) rs))"
proof -
  from assms obtain ids bm km acc where
    b: "booked (post_leg st km (pa_tx_id a) (pa_user a)) st ids bm km (pa_legs a) acc"
    and s: "st' = write_back (st\<lparr>st_txs := st_txs st @ [new_tx a]\<rparr>) km acc"
    by (rule post_success)
  from b have loop: "legs_loop (post_leg st km (pa_tx_id a) (pa_user a)) (pa_legs a) (init_acc bm) = Inr acc"
    and lock: "lock_all st ids (\<lambda>_. None) (\<lambda>_. None) = Inr (bm, km)" by (auto simp: booked_def)
  have lc: "locked_currency st km w = currency_of st w" if "km w = Some kind" for w kind
    using that lock_all_mem [OF lock, of w] lock_all_frame [OF lock, of w]
    by (cases "w \<in> set ids") (auto simp: locked_currency_def currency_of_def)
  from post.loop_rows [OF loop] have rows: "list_all2 (row_of_leg (pa_tx_id a) (locked_currency st km)) (pa_legs a) (la_rows acc)"
    by (simp add: init_acc_def)
  have "list_all2 (row_of_leg (pa_tx_id a) (currency_of st)) (pa_legs a) (la_rows acc)"
    using rows
  proof (rule list.rel_mono_strong)
    fix l r
    assume "l \<in> set (pa_legs a)" and f: "row_of_leg (pa_tx_id a) (locked_currency st km) l r"
    with post.loop_wallets [OF loop] obtain kind where "km (lr_wallet r) = Some kind" by (fastforce simp: row_of_leg_def)
    with f lc show "row_of_leg (pa_tx_id a) (currency_of st) l r" by (auto simp: row_of_leg_def)
  qed
  then show ?thesis using post.booked_traced [OF b] by (auto simp: s write_back_def)
qed

lemma append_rows_of_legs:
  assumes "append_ledger_entries_v1 st t ls key phase = Inr st'"
  shows "\<exists>rs. st_ledger st' = st_ledger st @ rs \<and> list_all2 (row_of_leg t (\<lambda>_. None)) ls rs \<and>
    ((\<forall>l \<in> set ls. scale4 (leg_value l)) \<and> (\<forall>k. scale4 (balance_of st k)) \<longrightarrow>
       (\<forall>k. traced k (balance_of st k) ls rs))"
proof -
  obtain bm km acc and st0 :: store and tx :: tx_row where
    b: "booked (append_leg st km t (tx_user tx)) st (lock_order st (leg_ids ls)) bm km ls acc"
    and s0: "st0 = (if nonblank key \<noteq> None \<or> nonblank phase \<noteq> None
          then st\<lparr>st_markers := st_markers st @ [\<lparr>mk_tx = t, mk_key = nonblank key, mk_phase = nonblank phase\<rparr>]\<rparr> else st)"
    and s: "st' = write_back st0 km acc"
    by (rule append_success [OF assms])
  from b have loop: "legs_loop (append_leg st km t (tx_user tx)) ls (init_acc bm) = Inr acc" by (simp add: booked_def)
  from append.loop_rows [OF loop] have "list_all2 (row_of_leg t (\<lambda>_. None)) ls (la_rows acc)" by (simp add: init_acc_def)
  moreover have "st_ledger st0 = st_ledger st" by (simp add: s0)
  ultimately show ?thesis using append.booked_traced [OF b] by (auto simp: s write_back_def)
qed

lemma post_total:
  assumes "post_transaction_v2 st a = Inr st'" and "\<forall>l \<in> set (pa_legs a). scale4 (leg_value l)"
  shows "(\<Sum>l\<leftarrow>pa_legs a. leg_signed l) = 0"
  by (rule post_success [OF assms(1)]) (rule post.booked_total [OF _ assms(2)])

lemma append_total:
  assumes "append_ledger_entries_v1 st t ls key phase = Inr st'" and "\<forall>l \<in> set ls. scale4 (leg_value l)"
  shows "(\<Sum>l\<leftarrow>ls. leg_signed l) = 0"
  by (rule append_success [OF assms(1)]) (rule append.booked_total [OF _ assms(2)])

end
