(* ===== verification/Ledger_Properties.thy ===== *)
theory Ledger_Properties
  imports Ledger_Posting
begin

text \<open>
  The promises of the ledger procedures as theorems over the store: exact balances,
  conservation per currency, no overdraft, append-only history, single application of a
  reference or an append key, and the locks. Runs are sequences of calls in which a failed
  call leaves the store as it was.
\<close>

section \<open>Runs of the ledger\<close>

datatype ledger_op =
    Op_Post post_args
  | Op_Append string "leg_in list" "string option" "string option"

fun ledger_apply :: "store \<Rightarrow> ledger_op \<Rightarrow> store outcome" where
  "ledger_apply st (Op_Post a) = post_transaction_v2 st a"
| "ledger_apply st (Op_Append t ls k p) = append_ledger_entries_v1 st t ls k p"

fun ledger_run :: "store \<Rightarrow> ledger_op list \<Rightarrow> store" where
  "ledger_run st [] = st"
| "ledger_run st (x # xs) = ledger_run (case ledger_apply st x of Inl _ \<Rightarrow> st | Inr st' \<Rightarrow> st') xs"

definition succeeds :: "store \<Rightarrow> ledger_op \<Rightarrow> bool" where
  "succeeds st x = (case ledger_apply st x of Inl _ \<Rightarrow> False | Inr _ \<Rightarrow> True)"

text \<open>How many calls of a run that satisfy a condition succeed.\<close>

fun applied :: "(ledger_op \<Rightarrow> bool) \<Rightarrow> store \<Rightarrow> ledger_op list \<Rightarrow> nat" where
  "applied p st [] = 0"
| "applied p st (x # xs) =
     (if p x \<and> succeeds st x then 1 else 0) +
     applied p (case ledger_apply st x of Inl _ \<Rightarrow> st | Inr st' \<Rightarrow> st') xs"

definition posts_reference :: "string \<Rightarrow> ledger_op \<Rightarrow> bool" where
  "posts_reference r x = (case x of Op_Post a \<Rightarrow> effective_reference a = r | Op_Append _ _ _ _ \<Rightarrow> False)"

definition appends_key :: "string \<Rightarrow> ledger_op \<Rightarrow> bool" where
  "appends_key k x = (case x of Op_Post _ \<Rightarrow> False | Op_Append _ _ key _ \<Rightarrow> nonblank key = Some k)"

section \<open>What a success adds\<close>

lemma post_txs: "post_transaction_v2 st a = Inr st' \<Longrightarrow> st_txs st' = st_txs st @ [new_tx a] \<and> st_markers st' = st_markers st"
  by (elim post_success) (simp add: write_back_def)

lemma post_fresh: "post_transaction_v2 st a = Inr st' \<Longrightarrow> effective_reference a \<notin> tx_reference ` set (st_txs st)"
  by (elim post_success) auto

lemma append_txs:
  "append_ledger_entries_v1 st t ls k p = Inr st' \<Longrightarrow> st_txs st' = st_txs st \<and>
     st_markers st' = st_markers st @ (if nonblank k \<noteq> None \<or> nonblank p \<noteq> None
        then [\<lparr>mk_tx = t, mk_key = nonblank k, mk_phase = nonblank p\<rparr>] else [])"
  by (elim append_success) (simp add: write_back_def)

lemma append_fresh:
  "append_ledger_entries_v1 st t ls k p = Inr st' \<Longrightarrow> nonblank k = Some key \<Longrightarrow> Some key \<notin> mk_key ` set (st_markers st)"
  by (elim append_success) (auto simp: marker_clash_def)

lemma apply_keeps_refs: "ledger_apply st x = Inr st' \<Longrightarrow> tx_reference ` set (st_txs st) \<subseteq> tx_reference ` set (st_txs st')"
  by (cases x) (auto dest: post_txs append_txs)

lemma apply_keeps_keys: "ledger_apply st x = Inr st' \<Longrightarrow> mk_key ` set (st_markers st) \<subseteq> mk_key ` set (st_markers st')"
  by (cases x) (auto dest: post_txs append_txs)

lemma new_tx_reference [simp]: "tx_reference (new_tx a) = effective_reference a"
  by (simp add: new_tx_def)

lemma applied_taken:
  assumes step: "\<And>st x st'. ledger_apply st x = Inr st' \<Longrightarrow> taken st \<Longrightarrow> taken st'"
    and block: "\<And>st x. taken st \<Longrightarrow> p x \<Longrightarrow> \<not> succeeds st x"
  shows "taken st \<Longrightarrow> applied p st xs = 0"
proof (induction xs arbitrary: st)
  case (Cons x xs)
  then have "taken (case ledger_apply st x of Inl _ \<Rightarrow> st | Inr st' \<Rightarrow> st')"
    using step by (auto split: sum.splits)
  with Cons block show ?case by simp
qed simp

lemma applied_once:
  assumes step: "\<And>st x st'. ledger_apply st x = Inr st' \<Longrightarrow> taken st \<Longrightarrow> taken st'"
    and block: "\<And>st x. taken st \<Longrightarrow> p x \<Longrightarrow> \<not> succeeds st x"
    and take: "\<And>st x st'. ledger_apply st x = Inr st' \<Longrightarrow> p x \<Longrightarrow> taken st'"
  shows "applied p st xs \<le> 1"
proof (induction xs arbitrary: st)
  case (Cons x xs)
  show ?case
  proof (cases "p x \<and> succeeds st x")
    case True
    then obtain st' where s: "ledger_apply st x = Inr st'" by (auto simp: succeeds_def split: sum.splits)
    with True take have "taken st'" by blast
    then have "applied p st' xs = 0" using applied_taken [of taken p st' xs] step block by blast
    with True s show ?thesis by simp
  next
    case False
    then have "applied p st (x # xs) = applied p (case ledger_apply st x of Inl _ \<Rightarrow> st | Inr st' \<Rightarrow> st') xs" by auto
    then show ?thesis using Cons.IH by simp
  qed
qed simp

section \<open>A sample store\<close>

text \<open>Two wallets in shillings and a vault in dollars, and a transfer between the wallets; the
  witnesses below run on them.\<close>

definition sample_entity :: "rat \<Rightarrow> string \<Rightarrow> entity" where
  "sample_entity b c = \<lparr>ent_balance = b, ent_currency = Some c, ent_locked = False,
     ent_status = ''active'', ent_owner = Some ''u1''\<rparr>"

definition sample_store :: store where
  "sample_store = \<lparr>st_wallets = [''a'' \<mapsto> sample_entity 100 ''TZS'', ''b'' \<mapsto> sample_entity 0 ''tzs'',
       ''z'' \<mapsto> (sample_entity 5 ''TZS'')\<lparr>ent_status := ''Frozen''\<rparr>],
     st_vaults = [''v'' \<mapsto> sample_entity 10 ''USD''], st_goals = (\<lambda>_. None),
     st_txs = [], st_ledger = [], st_markers = []\<rparr>"

definition sample_leg :: "string \<Rightarrow> string \<Rightarrow> rat \<Rightarrow> leg_in" where
  "sample_leg w t a = \<lparr>li_wallet = Some w, li_user = None, li_type = t, li_currency = None,
     li_plain = Some a, li_amount = ''cipher'', li_description = None\<rparr>"

definition sample_args :: post_args where
  "sample_args = \<lparr>pa_tx_id = ''t1'', pa_user = Some ''u1'', pa_wallet = Some ''a'', pa_to_wallet = Some ''b'',
     pa_amount = ''cipher'', pa_description = ''rent'', pa_type = ''transfer'', pa_status = ''completed'',
     pa_metadata = (\<lambda>_. None), pa_legs = [sample_leg ''a'' ''debit'' 40, sample_leg ''b'' ''CREDIT'' 40],
     pa_reference = Some ''R1'', pa_category = None, pa_now = 0\<rparr>"

lemma sample_post: "\<exists>st'. post_transaction_v2 sample_store sample_args = Inr st'"
proof -
  have "succeeds sample_store (Op_Post sample_args)" by code_simp
  then show ?thesis by (auto simp: succeeds_def split: sum.splits)
qed

lemma sample_balance:
  "balance_of sample_store k = (if k = ''a'' then 100 else if k = ''z'' then 5 else if k = ''v'' then 10 else 0)"
  by (simp add: balance_of_def entity_kinds_def sample_store_def sample_entity_def)

lemma sample_scale: "\<forall>k. scale4 (balance_of sample_store k)" "\<forall>k. 0 \<le> balance_of sample_store k"
  "\<forall>l \<in> set (pa_legs sample_args). scale4 (leg_value l)"
  by (auto simp: sample_balance sample_args_def sample_leg_def leg_value_def)

section \<open>Properties\<close>

text \<open>C4: A posting moves exactly its legs: with balances and leg amounts on the ledger's
  four-decimal scale, a successful post_transaction_v2 changes the balance of every wallet,
  vault and goal by the credits minus the debits of its own legs, and of no other.\<close>

theorem post_balance_exact:
  assumes "post_transaction_v2 st a = Inr st'"
    and "\<forall>l \<in> set (pa_legs a). scale4 (leg_value l)" and "\<forall>k. scale4 (balance_of st k)"
  shows "balance_of st' k = balance_of st k + net_of k (pa_legs a)"
  by (rule post_balance [OF assms])

theorem post_balance_exact_witness:
  "\<exists>st'. post_transaction_v2 sample_store sample_args = Inr st' \<and>
     balance_of st' ''a'' = 60 \<and> balance_of st' ''b'' = 40 \<and> balance_of st' ''v'' = 10"
proof -
  obtain st' where p: "post_transaction_v2 sample_store sample_args = Inr st'" using sample_post by blast
  have u: "js_upper ''debit'' = ''DEBIT''" "js_upper ''CREDIT'' = ''CREDIT''" by code_simp+
  show ?thesis
    using p post_balance_exact [OF p sample_scale(3,1)]
    by (auto simp: sample_balance sample_args_def sample_leg_def wallet_signed_def leg_signed_def leg_value_def u)
qed

lemma sum_list_net:
  assumes "finite K" "\<And>l w. l \<in> set ls \<Longrightarrow> li_wallet l = Some w \<Longrightarrow> w \<in> K"
    and "\<And>l. l \<in> set ls \<Longrightarrow> li_wallet l \<noteq> None"
  shows "(\<Sum>k \<in> K. if P k then net_of k ls else 0) =
    (\<Sum>l\<leftarrow>ls. case li_wallet l of None \<Rightarrow> 0 | Some w \<Rightarrow> if P w then leg_signed l else 0)"
  using assms(2,3)
proof (induction ls)
  case (Cons a ls)
  obtain w where w: "li_wallet a = Some w" "w \<in> K" using Cons.prems by fastforce
  have "(\<Sum>k \<in> K. if P k then net_of k (a # ls) else 0) =
      (\<Sum>k \<in> K. (if k = w then (if P w then leg_signed a else 0) else 0) + (if P k then net_of k ls else 0))"
    by (intro sum.cong) (auto simp: wallet_signed_def w)
  also have "\<dots> = (if P w then leg_signed a else 0) + (\<Sum>k \<in> K. if P k then net_of k ls else 0)"
    using assms(1) w(2) by (simp add: sum.distrib)
  also have "(\<Sum>k \<in> K. if P k then net_of k ls else 0) =
      (\<Sum>l\<leftarrow>ls. case li_wallet l of None \<Rightarrow> 0 | Some w \<Rightarrow> if P w then leg_signed l else 0)"
    by (rule Cons.IH) (use Cons.prems in auto)
  finally show ?case using w by simp
qed (simp cong: if_cong)

lemma currency_unused:
  assumes "list_all2 (\<lambda>l r. li_wallet l = Some (lr_wallet r) \<and>
      lr_currency r = locked_currency st km (lr_wallet r)) legs rs" "\<forall>r \<in> set rs. lr_currency r \<noteq> Some c"
  shows "(\<Sum>l\<leftarrow>legs. post.cur_signed st km c l) = 0"
  using assms by (induction legs rs rule: list_all2_induct) (auto simp: post.cur_signed_def)

lemma booked_currency_zero:
  assumes b: "booked (post_leg st km tx fb) st ids bm km legs acc"
    and cb: "currencies_balanced acc (row_currencies acc)" and sl: "\<forall>l \<in> set legs. scale4 (leg_value l)"
  shows "(\<Sum>l\<leftarrow>legs. post.cur_signed st km c l) = 0"
proof -
  from b have loop: "legs_loop (post_leg st km tx fb) legs (init_acc bm) = Inr acc" by (simp add: booked_def)
  let ?d = "\<Sum>l\<leftarrow>legs. post.cur_signed st km c l"
  have d: "balv (la_ccredits acc) c - balv (la_cdebits acc) c = ?d"
    using post.loop_currency [OF loop, of c] by (simp add: init_acc_def balv_def)
  have s: "scale4 ?d" using sl
    by (induction legs) (auto simp: post.cur_signed_def split: option.splits)
  show ?thesis
  proof (cases "c \<in> set (row_currencies acc)")
    case True
    with cb have "to_fixed 4 \<bar>?d\<bar> = 0"
      by (auto simp: currencies_balanced_def list_all_iff balv_def simp flip: d)
    moreover from s have "scale4 \<bar>?d\<bar>" by (auto simp: abs_if)
    ultimately show ?thesis by (simp add: to_fixed4_exact)
  next
    case False
    have all: "list_all2 (\<lambda>l r. li_wallet l = Some (lr_wallet r) \<and>
        lr_currency r = locked_currency st km (lr_wallet r)) legs (la_rows acc)"
      using post.loop_rows [OF loop] by (auto simp: init_acc_def row_of_leg_def elim!: list_all2_mono)
    from False have "\<forall>r \<in> set (la_rows acc). lr_currency r \<noteq> Some c" by (force simp: row_currencies_def)
    with all show ?thesis by (intro currency_unused)
  qed
qed

text \<open>C1: Money is conserved per currency: for any finite set of accounts that holds all legs'
  accounts, a successful posting leaves the sum of their balances in each currency unchanged.\<close>

theorem post_conserves_currency:
  assumes "post_transaction_v2 st a = Inr st'"
    and "\<forall>l \<in> set (pa_legs a). scale4 (leg_value l)" and "\<forall>k. scale4 (balance_of st k)"
    and "finite K" and "\<forall>l \<in> set (pa_legs a). \<forall>w. li_wallet l = Some w \<longrightarrow> w \<in> K"
  shows "total_in c K st' = total_in c K st"
proof -
  from assms(1) obtain ids bm km acc where
    b: "booked (post_leg st km (pa_tx_id a) (pa_user a)) st ids bm km (pa_legs a) acc"
    and cb: "currencies_balanced acc (row_currencies acc)"
    and s: "st' = write_back (st\<lparr>st_txs := st_txs st @ [new_tx a]\<rparr>) km acc"
    by (rule post_success)
  from b have loop: "legs_loop (post_leg st km (pa_tx_id a) (pa_user a)) (pa_legs a) (init_acc bm) = Inr acc"
    and lock: "lock_all st ids (\<lambda>_. None) (\<lambda>_. None) = Inr (bm, km)" by (auto simp: booked_def)
  have cur: "currency_of st' k = currency_of st k" for k by (simp add: s)
  have lc: "locked_currency st km w = currency_of st w" if "km w = Some kind" for w kind
    using that lock_all_mem [OF lock, of w] lock_all_frame [OF lock, of w]
    by (cases "w \<in> set ids") (auto simp: locked_currency_def currency_of_def)
  have "total_in c K st' - total_in c K st =
      (\<Sum>k \<in> K. if currency_of st k = Some c then net_of k (pa_legs a) else 0)"
    unfolding total_in_def cur sum_subtractf [symmetric]
    by (intro sum.cong) (auto simp: post_balance [OF assms(1,2,3)])
  also have "\<dots> = (\<Sum>l\<leftarrow>pa_legs a. case li_wallet l of None \<Rightarrow> 0
      | Some w \<Rightarrow> if currency_of st w = Some c then leg_signed l else 0)"
    by (rule sum_list_net [OF assms(4)]) (use assms(5) post.loop_wallets [OF loop] in force)+
  also have "\<dots> = (\<Sum>l\<leftarrow>pa_legs a. post.cur_signed st km c l)"
    by (intro arg_cong [where f = sum_list] map_cong refl)
      (use post.loop_wallets [OF loop] lc in \<open>fastforce simp: post.cur_signed_def split: option.splits\<close>)
  also have "\<dots> = 0" by (rule booked_currency_zero [OF b cb assms(2)])
  finally show ?thesis by simp
qed


theorem post_conserves_currency_witness:
  "\<exists>st'. post_transaction_v2 sample_store sample_args = Inr st' \<and>
     total_in ''TZS'' {''a'', ''b'', ''v''} st' = total_in ''TZS'' {''a'', ''b'', ''v''} sample_store"
proof -
  obtain st' where p: "post_transaction_v2 sample_store sample_args = Inr st'" using sample_post by blast
  have "total_in ''TZS'' {''a'', ''b'', ''v''} st' = total_in ''TZS'' {''a'', ''b'', ''v''} sample_store"
    by (rule post_conserves_currency [OF p sample_scale(3,1)]) (auto simp: sample_args_def sample_leg_def)
  with p show ?thesis by blast
qed

text \<open>C2: No overdraft: a posting or an append that succeeds on a store without negative
  balances leaves no balance of any wallet, vault or goal negative.\<close>

theorem ledger_never_overdraws:
  assumes "ledger_apply st x = Inr st'" and "\<forall>k. 0 \<le> balance_of st k"
  shows "0 \<le> balance_of st' k"
proof (cases x)
  case (Op_Post a)
  with assms(1) obtain ids bm km acc where
    b: "booked (post_leg st km (pa_tx_id a) (pa_user a)) st ids bm km (pa_legs a) acc"
    and s: "st' = write_back (st\<lparr>st_txs := st_txs st @ [new_tx a]\<rparr>) km acc"
    by (auto elim: post_success)
  show ?thesis unfolding s by (rule post.booked_nonneg [OF b _ _ assms(2)]) simp_all
next
  case (Op_Append t ls key phase)
  with assms(1) have ap: "append_ledger_entries_v1 st t ls key phase = Inr st'" by simp
  obtain bm km acc and st0 :: store and tx :: tx_row where
    b: "booked (append_leg st km t (tx_user tx)) st (lock_order st (leg_ids ls)) bm km ls acc"
    and s0: "st0 = (if nonblank key \<noteq> None \<or> nonblank phase \<noteq> None
          then st\<lparr>st_markers := st_markers st @ [\<lparr>mk_tx = t, mk_key = nonblank key, mk_phase = nonblank phase\<rparr>]\<rparr> else st)"
    and s: "st' = write_back st0 km acc"
    by (rule append_success [OF ap])
  show ?thesis unfolding s
    by (rule append.booked_nonneg [OF b _ _ assms(2)]) (simp_all add: s0)
qed

theorem ledger_never_overdraws_witness:
  "\<exists>st'. ledger_apply sample_store (Op_Post sample_args) = Inr st' \<and> 0 \<le> balance_of st' ''a''"
proof -
  obtain st' where p: "ledger_apply sample_store (Op_Post sample_args) = Inr st'" using sample_post by auto
  show ?thesis using p ledger_never_overdraws [OF p sample_scale(2)] by blast
qed

lemma booked_ledger:
  assumes "leg_booker step st km tx fb cur" "booked step st ids bm km legs acc"
  shows "st_ledger (write_back st0 km acc) = st_ledger st0 @ la_rows acc \<and> length (la_rows acc) = length legs"
  using leg_booker.loop_rows_prefix [OF assms(1), of legs "init_acc bm" acc] assms(2)
  by (auto simp: booked_def write_back_def init_acc_def)

text \<open>The history is append-only: a successful call keeps every transaction, ledger row and
  append marker as it was and only adds rows at the end.\<close>

theorem ledger_append_only:
  assumes "ledger_apply st x = Inr st'"
  shows "prefix (st_txs st) (st_txs st') \<and> prefix (st_ledger st) (st_ledger st') \<and>
    prefix (st_markers st) (st_markers st')"
proof (intro conjI)
  show "prefix (st_txs st) (st_txs st')" "prefix (st_markers st) (st_markers st')"
    using assms by (cases x; auto dest: post_txs append_txs)+
  show "prefix (st_ledger st) (st_ledger st')"
    using assms by (cases x) (auto simp: write_back_def elim!: post_success append_success split: if_splits)
qed

theorem ledger_append_only_witness:
  "\<exists>st'. ledger_apply sample_store (Op_Post sample_args) = Inr st' \<and> prefix (st_txs sample_store) (st_txs st')"
proof -
  obtain st' where p: "ledger_apply sample_store (Op_Post sample_args) = Inr st'" using sample_post by auto
  show ?thesis using p ledger_append_only [OF p] by blast
qed

text \<open>A posting writes one ledger row per leg, in order, with the leg's account and side, the
  account's own currency, and a non-negative balance after every debit.\<close>

theorem post_rows:
  assumes "post_transaction_v2 st a = Inr st'"
  shows "\<exists>rs. st_ledger st' = st_ledger st @ rs \<and>
    list_all2 (\<lambda>l r. li_wallet l = Some (lr_wallet r) \<and> lr_tx r = pa_tx_id a \<and>
      lr_type r = js_upper (li_type l) \<and> lr_type r \<in> {''CREDIT'', ''DEBIT''} \<and>
      lr_amount r = li_amount l \<and> lr_currency r = currency_of st (lr_wallet r) \<and>
      (lr_type r = ''DEBIT'' \<longrightarrow> 0 \<le> lr_balance_after r)) (pa_legs a) rs"
proof -
  from post_rows_of_legs [OF assms] obtain rs where "st_ledger st' = st_ledger st @ rs"
    "list_all2 (row_of_leg (pa_tx_id a) (currency_of st)) (pa_legs a) rs" by blast
  then show ?thesis by (auto simp: row_of_leg_def elim!: list_all2_mono)
qed

theorem post_rows_witness:
  "\<exists>st'. post_transaction_v2 sample_store sample_args = Inr st' \<and> length (st_ledger st') = 2"
proof -
  obtain st' where p: "post_transaction_v2 sample_store sample_args = Inr st'" using sample_post by blast
  show ?thesis using p post_rows [OF p] by (auto simp: sample_store_def sample_args_def dest!: list_all2_lengthD)
qed

text \<open>C3: A reference is posted at most once: over any run of postings and appends, at most one
  posting with a given effective reference succeeds, whatever ids and legs the retries carry.\<close>

theorem reference_posted_once: "applied (posts_reference r) st xs \<le> 1"
proof (rule applied_once [where taken = "\<lambda>st. r \<in> tx_reference ` set (st_txs st)"])
  show "r \<in> tx_reference ` set (st_txs st')" if "ledger_apply st x = Inr st'" "r \<in> tx_reference ` set (st_txs st)" for st x st'
    using apply_keeps_refs [OF that(1)] that(2) by blast
  show "\<not> succeeds st x" if "r \<in> tx_reference ` set (st_txs st)" "posts_reference r x" for st x
    using that by (auto simp: succeeds_def posts_reference_def dest!: post_fresh split: ledger_op.splits sum.splits)
  show "r \<in> tx_reference ` set (st_txs st')" if "ledger_apply st x = Inr st'" "posts_reference r x" for st x st'
    using that by (auto simp: posts_reference_def dest!: post_txs split: ledger_op.splits)
qed

text \<open>C5: An append key is applied at most once over any run.\<close>

theorem append_key_applied_once: "applied (appends_key k) st xs \<le> 1"
proof (rule applied_once [where taken = "\<lambda>st. Some k \<in> mk_key ` set (st_markers st)"])
  show "Some k \<in> mk_key ` set (st_markers st')" if "ledger_apply st x = Inr st'" "Some k \<in> mk_key ` set (st_markers st)" for st x st'
    using apply_keeps_keys [OF that(1)] that(2) by blast
  show "\<not> succeeds st x" if "Some k \<in> mk_key ` set (st_markers st)" "appends_key k x" for st x
    using that by (auto simp: succeeds_def appends_key_def dest!: append_fresh split: ledger_op.splits sum.splits)
  show "Some k \<in> mk_key ` set (st_markers st')" if "ledger_apply st x = Inr st'" "appends_key k x" for st x st'
    using that by (auto simp: appends_key_def dest!: append_txs split: ledger_op.splits)
qed

text \<open>A locked, frozen, blocked or suspended wallet or vault takes part in no posting: a
  successful call has no leg on it.\<close>

theorem locked_account_untouched:
  assumes "ledger_apply st x = Inr st'" and "entity_kinds st k = [kind]" and "kind \<noteq> Goal_Entity"
    and "entity_at st kind k = Some e" and "lock_blocked e"
  shows "\<forall>l \<in> set (case x of Op_Post a \<Rightarrow> pa_legs a | Op_Append _ ls _ _ \<Rightarrow> ls). li_wallet l \<noteq> Some k"
proof (cases x)
  case (Op_Post a)
  with assms(1) obtain ids bm km acc where
    b: "booked (post_leg st km (pa_tx_id a) (pa_user a)) st ids bm km (pa_legs a) acc"
    and ids: "set ids = {w. Some w \<in> li_wallet ` set (pa_legs a)} \<union> set (header_ids st (pa_wallet a) (pa_to_wallet a))"
    by (auto elim: post_success)
  from b have lock: "lock_all st ids (\<lambda>_. None) (\<lambda>_. None) = Inr (bm, km)" by (simp add: booked_def)
  have "k \<notin> set ids" using lock_all_mem [OF lock, of k] assms by auto
  with ids Op_Post show ?thesis by force
next
  case (Op_Append t ls key phase)
  with assms(1) have ap: "append_ledger_entries_v1 st t ls key phase = Inr st'" by simp
  obtain bm km acc and st0 :: store and tx :: tx_row where
    b: "booked (append_leg st km t (tx_user tx)) st (lock_order st (leg_ids ls)) bm km ls acc"
    by (rule append_success [OF ap])
  then have lock: "lock_all st (lock_order st (leg_ids ls)) (\<lambda>_. None) (\<lambda>_. None) = Inr (bm, km)"
    by (simp add: booked_def)
  have "k \<notin> set (lock_order st (leg_ids ls))" using lock_all_mem [OF lock, of k] assms by auto
  with Op_Append show ?thesis by force
qed

theorem locked_account_untouched_witness:
  "\<exists>st'. ledger_apply sample_store (Op_Post sample_args) = Inr st' \<and>
     (\<forall>l \<in> set (pa_legs sample_args). li_wallet l \<noteq> Some ''z'')"
proof -
  obtain st' where p: "ledger_apply sample_store (Op_Post sample_args) = Inr st'" using sample_post by auto
  have k: "entity_kinds sample_store ''z'' = [Wallet_Entity]" by (simp add: entity_kinds_def sample_store_def)
  have e: "entity_at sample_store Wallet_Entity ''z'' = Some ((sample_entity 5 ''TZS'')\<lparr>ent_status := ''Frozen''\<rparr>)"
    by (simp add: sample_store_def)
  have b: "lock_blocked ((sample_entity 5 ''TZS'')\<lparr>ent_status := ''Frozen''\<rparr>)" by code_simp
  show ?thesis using p locked_account_untouched [OF p k _ e b] by auto
qed

lemma sum_net_all:
  assumes "finite K" "\<forall>l \<in> set ls. \<exists>w. li_wallet l = Some w \<and> w \<in> K"
  shows "(\<Sum>k \<in> K. net_of k ls) = (\<Sum>l\<leftarrow>ls. leg_signed l)"
proof -
  have "(\<Sum>k \<in> K. net_of k ls) = (\<Sum>l\<leftarrow>ls. case li_wallet l of None \<Rightarrow> 0 | Some w \<Rightarrow> if True then leg_signed l else 0)"
    using sum_list_net [of K ls "\<lambda>_. True"] assms by fastforce
  also have "\<dots> = (\<Sum>l\<leftarrow>ls. leg_signed l)"
    by (intro arg_cong [where f = sum_list] map_cong refl) (use assms(2) in fastforce)
  finally show ?thesis .
qed

text \<open>An append conserves the sum over all accounts, in whatever currencies they are: the
  balances it changes add up to zero when amounts and balances are on the four-decimal scale.\<close>

theorem append_conserves_total:
  assumes "append_ledger_entries_v1 st t ls key phase = Inr st'"
    and "\<forall>l \<in> set ls. scale4 (leg_value l)" and "\<forall>k. scale4 (balance_of st k)"
    and "finite K" and "\<forall>l \<in> set ls. \<forall>w. li_wallet l = Some w \<longrightarrow> w \<in> K"
  shows "(\<Sum>k \<in> K. balance_of st' k) = (\<Sum>k \<in> K. balance_of st k)"
proof -
  obtain bm km acc and st0 :: store and tx :: tx_row where
    b: "booked (append_leg st km t (tx_user tx)) st (lock_order st (leg_ids ls)) bm km ls acc"
    and s0: "st0 = (if nonblank key \<noteq> None \<or> nonblank phase \<noteq> None
          then st\<lparr>st_markers := st_markers st @ [\<lparr>mk_tx = t, mk_key = nonblank key, mk_phase = nonblank phase\<rparr>]\<rparr> else st)"
    and s: "st' = write_back st0 km acc"
    by (rule append_success [OF assms(1)])
  from b have loop: "legs_loop (append_leg st km t (tx_user tx)) ls (init_acc bm) = Inr acc" by (simp add: booked_def)
  note bal = append_balance [OF assms(1,2,3)]
  have "(\<Sum>k \<in> K. net_of k ls) = (\<Sum>l\<leftarrow>ls. leg_signed l)"
    by (rule sum_net_all [OF assms(4)]) (use append.loop_wallets [OF loop] assms(5) in blast)
  also have "\<dots> = 0" by (rule append.booked_total [OF b assms(2)])
  finally show ?thesis by (simp add: bal sum.distrib)
qed

definition sample_posted :: store where
  "sample_posted = sample_store\<lparr>st_txs := [new_tx sample_args]\<rparr>"

definition cross_legs :: "leg_in list" where
  "cross_legs = [sample_leg ''a'' ''DEBIT'' 7, sample_leg ''v'' ''CREDIT'' 7]"

lemma sample_append: "\<exists>st'. append_ledger_entries_v1 sample_posted ''t1'' cross_legs (Some ''K1'') None = Inr st'"
proof -
  have "succeeds sample_posted (Op_Append ''t1'' cross_legs (Some ''K1'') None)" by code_simp
  then show ?thesis by (auto simp: succeeds_def split: sum.splits)
qed

lemma cross_scale: "\<forall>l \<in> set cross_legs. scale4 (leg_value l)" "\<forall>k. scale4 (balance_of sample_posted k)"
  using sample_scale(1) by (auto simp: cross_legs_def sample_leg_def leg_value_def sample_posted_def)

theorem append_conserves_total_witness:
  "\<exists>st'. append_ledger_entries_v1 sample_posted ''t1'' cross_legs (Some ''K1'') None = Inr st' \<and>
     (\<Sum>k \<in> {''a'', ''v''}. balance_of st' k) = 110"
proof -
  obtain st' where p: "append_ledger_entries_v1 sample_posted ''t1'' cross_legs (Some ''K1'') None = Inr st'"
    using sample_append by blast
  have "(\<Sum>k \<in> {''a'', ''v''}. balance_of st' k) = (\<Sum>k \<in> {''a'', ''v''}. balance_of sample_posted k)"
    by (rule append_conserves_total [OF p cross_scale]) (auto simp: cross_legs_def sample_leg_def)
  with p show ?thesis by (auto simp: sample_posted_def sample_balance)
qed

text \<open>Unlike a posting, an append checks no currency: an append that debits a shilling wallet
  and credits a dollar vault with the same figure succeeds, so the total of each currency
  changes.\<close>

theorem append_can_mix_currencies:
  "\<exists>st'. append_ledger_entries_v1 sample_posted ''t1'' cross_legs (Some ''K1'') None = Inr st' \<and>
     total_in ''TZS'' {''a'', ''v''} st' = total_in ''TZS'' {''a'', ''v''} sample_posted - 7 \<and>
     total_in ''USD'' {''a'', ''v''} st' = total_in ''USD'' {''a'', ''v''} sample_posted + 7"
proof -
  have "(case append_ledger_entries_v1 sample_posted ''t1'' cross_legs (Some ''K1'') None of Inl _ \<Rightarrow> False
     | Inr st' \<Rightarrow> balance_of st' ''a'' = 93 \<and> balance_of st' ''v'' = 17 \<and>
         currency_of st' ''a'' = Some ''TZS'' \<and> currency_of st' ''v'' = Some ''USD'')" by code_simp
  then obtain st' where p: "append_ledger_entries_v1 sample_posted ''t1'' cross_legs (Some ''K1'') None = Inr st'"
    and b: "balance_of st' ''a'' = 93" "balance_of st' ''v'' = 17"
      "currency_of st' ''a'' = Some ''TZS''" "currency_of st' ''v'' = Some ''USD''"
    by (auto split: sum.splits)
  have c: "currency_of sample_posted ''a'' = Some ''TZS''" "currency_of sample_posted ''v'' = Some ''USD''"
    by code_simp+
  show ?thesis
    using p b c by (auto simp: total_in_def sample_posted_def sample_balance)
qed

end
