(* ===== verification/Tx_State_Machine.thy ===== *)
theory Tx_State_Machine
  imports Orbi_Prelude
begin

text \<open>
  \<open>backend/ledger/stateMachine.ts\<close>: the saga orchestrator and the transaction state machine.
  The locale \<open>transition_table\<close> is the contract of every table of allowed transitions of the
  program; the transaction statuses interpret it here and the settlement phases later.
\<close>

section \<open>Tables of allowed transitions\<close>

locale transition_table =
  fixes allowed :: "'p \<Rightarrow> 'p list" and final :: "'p set"
  assumes final_stuck: "p \<in> final \<Longrightarrow> allowed p = []"
begin

definition may_step :: "'p \<Rightarrow> 'p \<Rightarrow> bool" where
  "may_step p q \<longleftrightarrow> q \<in> set (allowed p)"

lemma final_absorbing: "may_step\<^sup>*\<^sup>* p q \<Longrightarrow> p \<in> final \<Longrightarrow> q = p"
  by (induction rule: converse_rtranclp_induct) (auto simp: may_step_def final_stuck)

lemma closed_reach: "may_step\<^sup>*\<^sup>* p q \<Longrightarrow> p \<in> S \<Longrightarrow> (\<And>x. x \<in> S \<Longrightarrow> set (allowed x) \<subseteq> S) \<Longrightarrow> q \<in> S"
  by (induction rule: rtranclp_induct) (auto simp: may_step_def)

lemma chain_reach: "successively may_step ps \<Longrightarrow> ps \<noteq> [] \<Longrightarrow> may_step\<^sup>*\<^sup>* (hd ps) (last ps)"
proof (induction ps rule: induct_list012)
  case (3 x y zs)
  then have "may_step x y" "may_step\<^sup>*\<^sup>* y (last (y # zs))" by simp_all
  then show ?case by (simp add: converse_rtranclp_into_rtranclp)
qed simp_all

end

section \<open>Transaction statuses\<close>

datatype tx_status = Created | Pending | Authorized | Processing | Settled | Completed | Failed
  | Reversed | Refunded | Cancelled | Held_For_Review

fun status_text :: "tx_status \<Rightarrow> string" where
  "status_text Created = ''created''"
| "status_text Pending = ''pending''"
| "status_text Authorized = ''authorized''"
| "status_text Processing = ''processing''"
| "status_text Settled = ''settled''"
| "status_text Completed = ''completed''"
| "status_text Failed = ''failed''"
| "status_text Reversed = ''reversed''"
| "status_text Refunded = ''refunded''"
| "status_text Cancelled = ''cancelled''"
| "status_text Held_For_Review = ''held_for_review''"

definition all_statuses :: "tx_status list" where
  "all_statuses = [Created, Pending, Authorized, Processing, Settled, Completed, Failed, Reversed,
     Refunded, Cancelled, Held_For_Review]"

text \<open>A status column is text; one that is no key of the table has no entry in it.\<close>

definition status_of :: "string \<Rightarrow> tx_status option" where
  "status_of t = find (\<lambda>s. status_text s = t) all_statuses"

lemma status_round_trip [simp]: "status_of (status_text s) = Some s"
  by (cases s) (simp_all add: status_of_def all_statuses_def)

lemma status_of_SomeD: "status_of t = Some s \<Longrightarrow> status_text s = t"
  by (auto simp: status_of_def find_Some_iff)

fun valid_transitions :: "tx_status \<Rightarrow> tx_status list" where
  "valid_transitions Created = [Created, Pending, Failed, Cancelled, Held_For_Review]"
| "valid_transitions Pending = [Authorized, Failed, Cancelled, Held_For_Review, Processing, Completed]"
| "valid_transitions Authorized = [Processing, Failed, Reversed, Completed, Held_For_Review]"
| "valid_transitions Processing = [Settled, Failed, Reversed, Completed, Held_For_Review]"
| "valid_transitions Settled = [Completed, Reversed, Refunded]"
| "valid_transitions Completed = [Reversed, Refunded, Held_For_Review]"
| "valid_transitions Failed = []"
| "valid_transitions Reversed = [Refunded]"
| "valid_transitions Refunded = []"
| "valid_transitions Cancelled = []"
| "valid_transitions Held_For_Review = [Pending, Authorized, Failed, Cancelled, Completed, Reversed]"

definition isValidTransition :: "string \<Rightarrow> string \<Rightarrow> bool" where
  "isValidTransition cur nxt = (case status_of cur of
     None \<Rightarrow> False
   | Some s \<Rightarrow> nxt \<in> set (map status_text (valid_transitions s)))"

text \<open>\<open>transition\<close> throws, does nothing for the same status, or emits one event.\<close>

record tx_event =
  ev_name :: string
  ev_tx :: string
  ev_old :: string
  ev_new :: string

definition transition :: "string \<Rightarrow> string \<Rightarrow> string \<Rightarrow> tx_event list outcome" where
  "transition txId cur nxt =
     (if cur = nxt then Inr []
      else if \<not> isValidTransition cur nxt then
        throw (''INVALID_STATE_TRANSITION: Cannot move from '' @ cur @ '' to '' @ nxt @ '' for TX '' @ txId)
      else Inr [\<lparr>ev_name = ''transaction:'' @ nxt, ev_tx = txId, ev_old = cur, ev_new = nxt\<rparr>])"

fun getNextState :: "tx_status \<Rightarrow> bool \<Rightarrow> tx_status" where
  "getNextState cur False = Failed"
| "getNextState Created True = Pending"
| "getNextState Pending True = Authorized"
| "getNextState Authorized True = Processing"
| "getNextState Processing True = Settled"
| "getNextState Settled True = Completed"
| "getNextState cur True = cur"

definition isTerminal :: "tx_status \<Rightarrow> bool" where
  "isTerminal s \<longleftrightarrow> s \<in> {Completed, Failed, Cancelled, Refunded}"

interpretation tx: transition_table valid_transitions "{Failed, Refunded, Cancelled}"
  by unfold_locales auto

lemma isValidTransition_iff: "isValidTransition (status_text s) (status_text t) \<longleftrightarrow> tx.may_step s t"
proof -
  have inj: "status_text a = status_text b \<longleftrightarrow> a = b" for a b
    by (metis option.inject status_round_trip)
  show ?thesis by (auto simp: isValidTransition_def tx.may_step_def inj)
qed

text \<open>A transaction's status as the accepted transitions move it, from a list of requests.\<close>

fun run_statuses :: "tx_status \<Rightarrow> tx_status list \<Rightarrow> tx_status" where
  "run_statuses s [] = s"
| "run_statuses s (t # ts) =
     run_statuses (case transition ''tx'' (status_text s) (status_text t) of Inl _ \<Rightarrow> s | Inr _ \<Rightarrow> t) ts"

lemma transition_step:
  "transition x (status_text s) (status_text t) = Inr es \<Longrightarrow> tx.may_step\<^sup>*\<^sup>* s t"
proof -
  have inj: "status_text a = status_text b \<longleftrightarrow> a = b" for a b
    by (metis option.inject status_round_trip)
  show "transition x (status_text s) (status_text t) = Inr es \<Longrightarrow> tx.may_step\<^sup>*\<^sup>* s t"
    by (auto simp: transition_def inj isValidTransition_iff split: if_splits)
qed

lemma run_reach: "tx.may_step\<^sup>*\<^sup>* s (run_statuses s ts)"
proof (induction ts arbitrary: s)
  case (Cons t ts)
  show ?case
  proof (cases "transition ''tx'' (status_text s) (status_text t)")
    case (Inl e)
    with Cons.IH [of s] show ?thesis by simp
  next
    case (Inr es)
    with transition_step have "tx.may_step\<^sup>*\<^sup>* s t" by blast
    with Cons.IH [of t] Inr show ?thesis by simp
  qed
qed simp

section \<open>The saga orchestrator\<close>

text \<open>
  A step's \<open>execute\<close> and \<open>compensate\<close> update the shared context and may throw; the flag of the
  result says whether they returned. \<open>executedSteps\<close> is a field of the orchestrator: it
  survives a call of \<open>execute\<close>.
\<close>

record 'c saga_step =
  step_name :: string
  step_execute :: "'c \<Rightarrow> 'c \<times> bool"
  step_compensate :: "'c \<Rightarrow> 'c \<times> bool"

datatype saga_event = Executed string | Compensated string | Compensation_Failed string

record 'c saga =
  sg_steps :: "'c saga_step list"
  sg_executed :: "'c saga_step list"
  sg_context :: 'c
  sg_log :: "saga_event list"

definition addStep :: "'c saga_step \<Rightarrow> 'c saga \<Rightarrow> 'c saga" where
  "addStep s g = g\<lparr>sg_steps := sg_steps g @ [s]\<rparr>"

text \<open>\<open>compensate\<close> walks the executed steps from the last to the first; a throw is logged as a
  critical alert and the walk goes on.\<close>

fun compensate_list :: "'c saga_step list \<Rightarrow> 'c \<Rightarrow> 'c \<times> saga_event list" where
  "compensate_list [] c = (c, [])"
| "compensate_list (s # ss) c =
     (case step_compensate s c of (c', ok) \<Rightarrow>
        (case compensate_list ss c' of (c'', es) \<Rightarrow>
           (c'', (if ok then Compensated (step_name s) else Compensation_Failed (step_name s)) # es)))"

definition compensate :: "'c saga \<Rightarrow> 'c saga" where
  "compensate g = (case compensate_list (rev (sg_executed g)) (sg_context g) of
     (c, es) \<Rightarrow> g\<lparr>sg_context := c, sg_log := sg_log g @ es\<rparr>)"

fun execute_steps :: "'c saga_step list \<Rightarrow> 'c saga \<Rightarrow> bool \<times> 'c saga" where
  "execute_steps [] g = (True, g)"
| "execute_steps (s # ss) g =
     (case step_execute s (sg_context g) of (c, ok) \<Rightarrow>
        if ok then execute_steps ss (g\<lparr>sg_context := c, sg_executed := sg_executed g @ [s],
                                      sg_log := sg_log g @ [Executed (step_name s)]\<rparr>)
        else (False, compensate (g\<lparr>sg_context := c\<rparr>)))"

definition execute :: "'c saga \<Rightarrow> bool \<times> 'c saga" where
  "execute g = execute_steps (sg_steps g) g"

text \<open>A step is undone by its compensation when it succeeded, and leaves no trace when it threw.\<close>

definition undoable :: "'c saga_step \<Rightarrow> bool" where
  "undoable s \<longleftrightarrow> (\<forall>c c'. (step_execute s c = (c', True) \<longrightarrow> fst (step_compensate s c') = c) \<and>
                        (step_execute s c = (c', False) \<longrightarrow> c' = c))"

text \<open>The log of a run that starts with no steps executed: the executed steps in order, then
  their compensations from the last to the first.\<close>

definition compensation_event :: "saga_event \<Rightarrow> bool" where
  "compensation_event e = (case e of Executed n \<Rightarrow> False | Compensated n \<Rightarrow> True | Compensation_Failed n \<Rightarrow> True)"

fun event_step :: "saga_event \<Rightarrow> string" where
  "event_step (Executed n) = n"
| "event_step (Compensated n) = n"
| "event_step (Compensation_Failed n) = n"

lemma compensate_list_events:
  "map event_step (snd (compensate_list ss c)) = map step_name ss \<and>
   filter compensation_event (snd (compensate_list ss c)) = snd (compensate_list ss c)"
proof (induction ss arbitrary: c)
  case (Cons s ss)
  obtain c' ok where s: "step_compensate s c = (c', ok)" by (cases "step_compensate s c") auto
  obtain c'' es where r: "compensate_list ss c' = (c'', es)" by (cases "compensate_list ss c'") auto
  from Cons.IH [of c'] s r show ?case by (simp add: compensation_event_def)
qed simp

lemma execute_steps_log:
  assumes "execute_steps ss g = (False, g')"
  shows "\<exists>k < length ss. \<exists>es. sg_log g' = sg_log g @ map (\<lambda>s. Executed (step_name s)) (take k ss) @ es \<and>
     filter compensation_event es = es \<and>
     map event_step es = map step_name (rev (sg_executed g @ take k ss))"
  using assms
proof (induction ss arbitrary: g)
  case (Cons s ss)
  obtain c ok where e: "step_execute s (sg_context g) = (c, ok)" by (cases "step_execute s (sg_context g)") auto
  show ?case
  proof (cases ok)
    case True
    let ?g = "g\<lparr>sg_context := c, sg_executed := sg_executed g @ [s], sg_log := sg_log g @ [Executed (step_name s)]\<rparr>"
    from Cons.prems e True have "execute_steps ss ?g = (False, g')" by simp
    from Cons.IH [OF this] obtain k es where "k < length ss"
      "sg_log g' = sg_log ?g @ map (\<lambda>s. Executed (step_name s)) (take k ss) @ es"
      "filter compensation_event es = es" "map event_step es = map step_name (rev (sg_executed ?g @ take k ss))" by blast
    then show ?thesis by (intro exI [of _ "Suc k"]) auto
  next
    case False
    obtain c' es where r: "compensate_list (rev (sg_executed g)) c = (c', es)"
      by (cases "compensate_list (rev (sg_executed g)) c") auto
    from Cons.prems e False r have "sg_log g' = sg_log g @ es" by (auto simp: compensate_def)
    with compensate_list_events [of "rev (sg_executed g)" c] r show ?thesis
      by (intro exI [of _ 0]) auto
  qed
qed simp

lemma execute_steps_restores:
  assumes "execute_steps ss g = (False, g')" "\<forall>s \<in> set ss. undoable s"
    and "fst (compensate_list (rev (sg_executed g)) (sg_context g)) = c0"
  shows "sg_context g' = c0"
  using assms
proof (induction ss arbitrary: g)
  case (Cons s ss)
  obtain c ok where e: "step_execute s (sg_context g) = (c, ok)" by (cases "step_execute s (sg_context g)") auto
  have u: "undoable s" using Cons.prems(2) by simp
  show ?case
  proof (cases ok)
    case True
    with e u have undone: "fst (step_compensate s c) = sg_context g" by (auto simp: undoable_def)
    let ?g = "g\<lparr>sg_context := c, sg_executed := sg_executed g @ [s], sg_log := sg_log g @ [Executed (step_name s)]\<rparr>"
    from Cons.prems(1) e True have r: "execute_steps ss ?g = (False, g')" by simp
    have "fst (compensate_list (rev (sg_executed ?g)) (sg_context ?g)) = c0"
      using undone Cons.prems(3) by (auto split: prod.splits)
    with Cons.IH [OF r] Cons.prems(2) show ?thesis by simp
  next
    case False
    with e u have "c = sg_context g" by (auto simp: undoable_def)
    with Cons.prems(1,3) e False show ?thesis by (auto simp: compensate_def split: prod.splits)
  qed
qed simp

section \<open>Properties\<close>

text \<open>Failed, refunded and cancelled transactions stay so: no sequence of transition requests
  moves a transaction out of one of these statuses.\<close>

theorem final_statuses_absorbing:
  assumes "s \<in> {Failed, Refunded, Cancelled}"
  shows "run_statuses s ts = s"
  using tx.final_absorbing [OF run_reach] assms by blast

theorem final_statuses_absorbing_witness: "run_statuses Failed [Completed, Reversed, Pending] = Failed"
  by (rule final_statuses_absorbing) simp

text \<open>A reversed transaction is never completed, settled or paid out again: whatever is
  requested, it stays reversed or becomes refunded.\<close>

theorem reversed_never_completes: "run_statuses Reversed ts \<in> {Reversed, Refunded}"
  by (rule tx.closed_reach [OF run_reach]) auto

text \<open>The happy path of getNextState is a chain of valid transitions that completes every
  freshly created transaction in five steps.\<close>

theorem happy_path_completes:
  "list_all (\<lambda>s. isValidTransition (status_text s) (status_text (getNextState s True)))
     [Created, Pending, Authorized, Processing, Settled] \<and>
   ((\<lambda>s. getNextState s True) ^^ 5) Created = Completed"
  by (simp add: isValidTransition_iff tx.may_step_def numeral_eq_Suc)

text \<open>isTerminal does not mean what its comment says: completed counts as terminal although
  the table lets it be reversed, refunded or held, and reversed is not terminal in either
  sense. Terminal and stuck coincide exactly on failed, cancelled and refunded.\<close>

theorem terminal_is_not_stuck:
  "isTerminal Completed \<and> isValidTransition ''completed'' ''reversed'' \<and>
   {s. isTerminal s \<and> valid_transitions s = []} = {Failed, Cancelled, Refunded}"
proof -
  have "isValidTransition (status_text Completed) (status_text Reversed)"
    by (simp only: isValidTransition_iff) (simp add: tx.may_step_def)
  then show ?thesis by (auto simp: isTerminal_def)
qed

text \<open>A failed saga leaves its context as it found it: when every step's compensation undoes
  the step and a throwing step changes nothing, an orchestrator used once returns False with
  the initial context.\<close>

theorem saga_failure_restores:
  assumes "execute g = (False, g')" and "sg_executed g = []" and "\<forall>s \<in> set (sg_steps g). undoable s"
  shows "sg_context g' = sg_context g"
  using assms execute_steps_restores [of "sg_steps g" g g' "sg_context g"] by (simp add: execute_def)

definition debit_step :: "int \<Rightarrow> int saga_step" where
  "debit_step n = \<lparr>step_name = ''debit'', step_execute = (\<lambda>b. if b < n then (b, False) else (b - n, True)),
     step_compensate = (\<lambda>b. (b + n, True))\<rparr>"

theorem saga_failure_restores_witness:
  "\<exists>g'. execute \<lparr>sg_steps = [debit_step 30, debit_step 80], sg_executed = [], sg_context = 100, sg_log = []\<rparr> = (False, g') \<and>
     sg_context g' = 100"
proof -
  let ?g = "\<lparr>sg_steps = [debit_step 30, debit_step 80], sg_executed = [], sg_context = 100, sg_log = []\<rparr>"
  obtain g' where e: "execute ?g = (False, g')" by (simp add: execute_def debit_step_def)
  have "sg_context g' = sg_context ?g"
    by (rule saga_failure_restores [OF e]) (auto simp: undoable_def debit_step_def)
  with e show ?thesis by auto
qed

text \<open>C14: A failing run of a fresh orchestrator logs a prefix of its steps as executed, in
  order, and then exactly one compensation attempt for each of them, from the last executed step
  to the first, whether or not a compensation throws.\<close>

theorem saga_compensates_in_reverse:
  assumes "execute g = (False, g')" and "sg_executed g = []" and "sg_log g = []"
  shows "\<exists>k < length (sg_steps g). \<exists>es.
     sg_log g' = map (\<lambda>s. Executed (step_name s)) (take k (sg_steps g)) @ es \<and>
     filter compensation_event es = es \<and>
     map event_step es = rev (map step_name (take k (sg_steps g)))"
  using execute_steps_log [of "sg_steps g" g g'] assms by (simp add: execute_def rev_map)

theorem saga_compensates_in_reverse_witness:
  "\<exists>k es. [Executed ''debit'', Compensated ''debit''] = map (\<lambda>s. Executed (step_name s)) (take k [debit_step 30, debit_step 80]) @ es \<and>
     map event_step es = rev (map step_name (take k [debit_step 30, debit_step 80]))"
proof -
  let ?g = "\<lparr>sg_steps = [debit_step 30, debit_step 80], sg_executed = [], sg_context = 100, sg_log = []\<rparr>"
  have e: "execute ?g = (False, snd (execute ?g))" by (simp add: execute_def debit_step_def)
  have l: "sg_log (snd (execute ?g)) = [Executed ''debit'', Compensated ''debit'']"
    by (simp add: execute_def debit_step_def compensate_def)
  from saga_compensates_in_reverse [OF e] l show ?thesis by auto
qed

text \<open>A second execute of the same orchestrator compensates the steps of the first run again:
  executedSteps is never reset, so a step that failed its first run is compensated twice.\<close>

theorem saga_rerun_compensates_twice:
  "\<exists>g1 g2. execute \<lparr>sg_steps = [debit_step 30, debit_step 80], sg_executed = [], sg_context = 100, sg_log = []\<rparr> = (False, g1) \<and>
     sg_context g1 = (100::int) \<and> execute g1 = (False, g2) \<and> sg_context g2 = 130"
  by (simp add: execute_def debit_step_def compensate_def)

end
