(* ===== verification/Financial_Invariants.thy ===== *)
theory Financial_Invariants
  imports Tx_State_Machine
begin

text \<open>
  \<open>backend/ledger/financialInvariants.ts\<close>: the classification of thrown values into the
  error classes the callers rely on, and the eligibility checks of settlement and reversal.
\<close>

section \<open>Thrown values\<close>

text \<open>
  What a \<open>catch\<close> sees: the \<open>message\<close>, \<open>details\<close> and \<open>code\<close> fields as texts (a missing or
  empty one is falsy) and the text of the value itself, \<open>None\<close> for a falsy value.
\<close>

record thrown =
  th_message :: "string option"
  th_details :: "string option"
  th_display :: "string option"
  th_code :: "string option"

definition thrown_of :: "js_error \<Rightarrow> thrown" where
  "thrown_of e = \<lparr>th_message = Some (err_message e), th_details = None,
     th_display = Some (''Error: '' @ err_message e),
     th_code = (if err_code e = [] then None else Some (err_code e))\<rparr>"

text \<open>\<open>String(error?.message || error?.details || error || fallback)\<close>.\<close>

definition raw_message :: "string \<Rightarrow> thrown \<Rightarrow> string" where
  "raw_message fallback t = text_or (th_message t) (text_or (th_details t) (case th_display t of None \<Rightarrow> fallback | Some d \<Rightarrow> d))"

section \<open>The invariants\<close>

definition settlementEligibleStatus :: string where
  "settlementEligibleStatus = ''processing''"

definition internalTransferSettlementVersion :: string where
  "internalTransferSettlementVersion = ''v2''"

definition internalTransferSettlementAppendPhase :: string where
  "internalTransferSettlementAppendPhase = ''PAYSAFE_SETTLEMENT''"

definition internalTransferSettlementClaimTtlMs :: int where
  "internalTransferSettlementClaimTtlMs = 5 * 60 * 1000"

definition internalWalletMinimumBalance :: rat where
  "internalWalletMinimumBalance = 0"

definition reversalBlockedStatuses :: "string list" where
  "reversalBlockedStatuses = [''reversed'', ''failed'', ''refunded'', ''cancelled'']"

definition buildInternalTransferSettlementAppendKey :: "string \<Rightarrow> string" where
  "buildInternalTransferSettlementAppendKey t =
     ''settlement:'' @ t @ '':paysafe_release:'' @ internalTransferSettlementVersion"

definition buildInternalTransferSettlementLifecycleKey :: "string \<Rightarrow> string" where
  "buildInternalTransferSettlementLifecycleKey t = ''INTERNAL_TRANSFER:'' @ t @ '':PAYSAFE_SETTLEMENT''"

record balance_preview =
  bp_available :: rat
  bp_required :: rat
  bp_sufficient :: bool
  bp_wallet_name :: string
  bp_wallet_id :: "string option"
  bp_authoritative :: bool
  bp_source_of_truth :: string

definition createBalancePreview :: "rat \<Rightarrow> rat \<Rightarrow> string \<Rightarrow> string option \<Rightarrow> balance_preview" where
  "createBalancePreview available required name wid =
     \<lparr>bp_available = available, bp_required = required, bp_sufficient = (required \<le> available),
      bp_wallet_name = name, bp_wallet_id = (if wid = Some [] then None else wid),
      bp_authoritative = False, bp_source_of_truth = ''ledger''\<rparr>"

definition violatesInternalWalletNonNegativeRule :: "rat \<Rightarrow> bool" where
  "violatesInternalWalletNonNegativeRule b \<longleftrightarrow> b < internalWalletMinimumBalance"

definition isIdempotencyViolationError :: "thrown \<Rightarrow> bool" where
  "isIdempotencyViolationError t = (let m = js_upper (raw_message [] t) in
     js_includes m ''APPEND_ALREADY_APPLIED'' \<or> js_includes m ''IDEMPOTENCY_VIOLATION'' \<or>
     text_or (th_code t) [] = ''23505'')"

definition isWalletLockError :: "thrown \<Rightarrow> bool" where
  "isWalletLockError t = (let m = js_upper (raw_message [] t) in
     js_includes m ''WALLET_LOCKED'' \<or> js_includes m ''GOAL_MISSING'')"

definition isInvalidSettlementStateError :: "thrown \<Rightarrow> bool" where
  "isInvalidSettlementStateError t = (let m = js_upper (raw_message [] t) in
     js_includes m ''INVALID_SETTLEMENT_STATE'' \<or> js_includes m ''SETTLEMENT_ABORTED'' \<or>
     js_includes m ''SETTLEMENT_ERROR'')"

definition isInsufficientFundsError :: "thrown \<Rightarrow> bool" where
  "isInsufficientFundsError t = js_includes (js_upper (raw_message [] t)) ''INSUFFICIENT_FUNDS''"

definition isConcurrencyConflictError :: "thrown \<Rightarrow> bool" where
  "isConcurrencyConflictError t = (let m = js_upper (raw_message [] t); c = text_or (th_code t) [] in
     c = ''40001'' \<or> c = ''40P01'' \<or> js_includes m ''COULD NOT SERIALIZE ACCESS'' \<or>
     js_includes m ''DEADLOCK DETECTED'' \<or> js_includes m ''CONCURRENT'')"

definition normalizeFinancialAuthorityError :: "thrown \<Rightarrow> string \<Rightarrow> js_error" where
  "normalizeFinancialAuthorityError t ctx = JsError
     (if isInsufficientFundsError t then ''INSUFFICIENT_FUNDS: '' @ ctx @
        '' rejected the request because the authoritative SQL balance check found insufficient funds.''
      else if isIdempotencyViolationError t then ''IDEMPOTENCY_VIOLATION: '' @ ctx @
        '' rejected a duplicate financial mutation.''
      else if isWalletLockError t then ''LOCKED_WALLET: '' @ ctx @
        '' could not proceed because one of the financial containers is locked or unavailable.''
      else if isInvalidSettlementStateError t then ''INVALID_SETTLEMENT_STATE: '' @ ctx @
        '' cannot continue because the settlement is no longer in a valid state.''
      else if isConcurrencyConflictError t then ''CONCURRENCY_CONFLICT: '' @ ctx @
        '' conflicted with another financial update. Retry with the same idempotency key.''
      else ctx @ '': '' @ raw_message ''UNKNOWN_ERROR'' t) []"

text \<open>A status is \<open>None\<close> for null; the template literal prints it as \<open>null\<close>.\<close>

definition isSettlementEligibleStatus :: "string option \<Rightarrow> bool" where
  "isSettlementEligibleStatus s \<longleftrightarrow> js_lower (text_or s []) = settlementEligibleStatus"

definition assertSettlementEligible :: "string \<Rightarrow> bool \<Rightarrow> string option \<Rightarrow> bool option \<Rightarrow> unit outcome" where
  "assertSettlementEligible txId txExists status hasInternalVault =
     (if \<not> txExists then throw (''INVALID_SETTLEMENT_STATE: Transaction '' @ txId @ '' was not found for settlement.'')
      else if js_lower (text_or status []) = ''completed'' then Inr ()
      else if \<not> isSettlementEligibleStatus status then
        throw (''INVALID_SETTLEMENT_STATE: Transaction '' @ txId @ '' is '' @
          (case status of None \<Rightarrow> ''null'' | Some s \<Rightarrow> s) @ '', expected '' @ settlementEligibleStatus @ ''.'')
      else if hasInternalVault = Some False then
        throw (''INVALID_SETTLEMENT_STATE: Transaction '' @ txId @ '' is missing its internal settlement vault.'')
      else Inr ())"

definition isReversalEligibleStatus :: "string option \<Rightarrow> bool" where
  "isReversalEligibleStatus s \<longleftrightarrow> js_lower (text_or s []) \<notin> set reversalBlockedStatuses"

definition assertReversalEligible :: "string option \<Rightarrow> unit outcome" where
  "assertReversalEligible s = (if \<not> isReversalEligibleStatus s then throw ''TRANSACTION_NOT_REVERSIBLE'' else Inr ())"

section \<open>The classes\<close>

datatype error_class = Funds_Class | Duplicate_Class | Lock_Class | State_Class | Conflict_Class | Other_Class

definition class_of :: "thrown \<Rightarrow> error_class" where
  "class_of t = (if isInsufficientFundsError t then Funds_Class
     else if isIdempotencyViolationError t then Duplicate_Class
     else if isWalletLockError t then Lock_Class
     else if isInvalidSettlementStateError t then State_Class
     else if isConcurrencyConflictError t then Conflict_Class else Other_Class)"

fun class_prefix :: "error_class \<Rightarrow> string" where
  "class_prefix Funds_Class = ''INSUFFICIENT_FUNDS: ''"
| "class_prefix Duplicate_Class = ''IDEMPOTENCY_VIOLATION: ''"
| "class_prefix Lock_Class = ''LOCKED_WALLET: ''"
| "class_prefix State_Class = ''INVALID_SETTLEMENT_STATE: ''"
| "class_prefix Conflict_Class = ''CONCURRENCY_CONFLICT: ''"
| "class_prefix Other_Class = []"

lemma normalize_prefix:
  "class_of t \<noteq> Other_Class \<Longrightarrow>
     prefix (class_prefix (class_of t) @ ctx) (err_message (normalizeFinancialAuthorityError t ctx))"
  by (auto simp: class_of_def normalizeFinancialAuthorityError_def split: if_splits)

lemma js_upper_append [simp]: "js_upper (s @ t) = js_upper s @ js_upper t"
  by (simp add: js_upper_def)

lemma includes_upper_prefix:
  "prefix p s \<Longrightarrow> js_includes (js_upper p) u \<Longrightarrow> js_includes (js_upper s) u"
  unfolding js_includes_def
  by (auto elim!: prefixE simp: sublist_append)

lemma raw_message_thrown_of [simp]: "err_message e \<noteq> [] \<Longrightarrow> raw_message fb (thrown_of e) = err_message e"
  by (simp add: raw_message_def thrown_of_def text_or_def)

section \<open>Normalising twice\<close>

text \<open>The contexts the ledger service passes; the transaction engine normalises its result again.\<close>

definition authority_contexts :: "string list" where
  "authority_contexts = [''LEDGER_COMMIT_FAULT'', ''LEDGER_APPEND_FAULT'']"

fun class_message :: "error_class \<Rightarrow> string \<Rightarrow> string" where
  "class_message Funds_Class ctx = ''INSUFFICIENT_FUNDS: '' @ ctx @
     '' rejected the request because the authoritative SQL balance check found insufficient funds.''"
| "class_message Duplicate_Class ctx = ''IDEMPOTENCY_VIOLATION: '' @ ctx @ '' rejected a duplicate financial mutation.''"
| "class_message Lock_Class ctx = ''LOCKED_WALLET: '' @ ctx @
     '' could not proceed because one of the financial containers is locked or unavailable.''"
| "class_message State_Class ctx = ''INVALID_SETTLEMENT_STATE: '' @ ctx @
     '' cannot continue because the settlement is no longer in a valid state.''"
| "class_message Conflict_Class ctx = ''CONCURRENCY_CONFLICT: '' @ ctx @
     '' conflicted with another financial update. Retry with the same idempotency key.''"
| "class_message Other_Class ctx = []"

fun renormalized_class :: "error_class \<Rightarrow> error_class" where
  "renormalized_class Lock_Class = Other_Class"
| "renormalized_class Conflict_Class = Other_Class"
| "renormalized_class k = k"

lemma normalize_message:
  assumes "class_of t \<noteq> Other_Class"
  shows "normalizeFinancialAuthorityError t ctx = JsError (class_message (class_of t) ctx) []"
proof -
  have "isInsufficientFundsError t \<or> isIdempotencyViolationError t \<or> isWalletLockError t \<or>
      isInvalidSettlementStateError t \<or> isConcurrencyConflictError t"
    using assms unfolding class_of_def by presburger
  then show ?thesis unfolding class_of_def normalizeFinancialAuthorityError_def by auto
qed

declare class_message.simps [simp del]

lemma class_of_message:
  "list_all (\<lambda>ctx. list_all (\<lambda>k. class_of (thrown_of (JsError (class_message k ctx) [])) = renormalized_class k)
     [Funds_Class, Duplicate_Class, Lock_Class, State_Class, Conflict_Class]) authority_contexts"
  by code_simp

lemma class_of_messageD:
  assumes "ctx \<in> set authority_contexts" and "k \<noteq> Other_Class"
  shows "class_of (thrown_of (JsError (class_message k ctx) [])) = renormalized_class k"
proof -
  have "k \<in> set [Funds_Class, Duplicate_Class, Lock_Class, State_Class, Conflict_Class]"
    using assms(2) by (cases k) simp_all
  with class_of_message assms(1) show ?thesis unfolding list_all_iff by blast
qed

lemma reversal_table:
  "list_all (\<lambda>s. (isReversalEligibleStatus (Some (status_text s)) \<longleftrightarrow> s \<notin> {Failed, Reversed, Refunded, Cancelled}) \<and>
     (isReversalEligibleStatus (Some (status_text s)) \<and> \<not> isValidTransition (status_text s) ''reversed'' \<longleftrightarrow>
        s \<in> {Created, Pending})) all_statuses"
  by code_simp

section \<open>Properties\<close>

text \<open>The ledger service normalises an error and the transaction engine normalises it again.
  The second pass keeps the class of a funds, duplicate or settlement-state error, but a lock
  error (now LOCKED_WALLET, while the test looks for WALLET_LOCKED) and a concurrency conflict
  (CONCURRENCY_CONFLICT, while the test looks for CONCURRENT) lose theirs.\<close>

theorem renormalizing_class:
  assumes "class_of t \<noteq> Other_Class" and "ctx \<in> set authority_contexts"
  shows "class_of (thrown_of (normalizeFinancialAuthorityError t ctx)) = renormalized_class (class_of t)"
  using class_of_messageD [OF assms(2,1)] normalize_message [OF assms(1)] by simp

theorem renormalizing_class_witness:
  "class_of (thrown_of (normalizeFinancialAuthorityError
     (thrown_of (JsError ''WALLET_LOCKED: Wallet w is locked or unavailable'' [])) ''LEDGER_COMMIT_FAULT'')) = Other_Class"
proof -
  let ?t = "thrown_of (JsError ''WALLET_LOCKED: Wallet w is locked or unavailable'' [])"
  have "class_of ?t = Lock_Class" by code_simp
  then show ?thesis using renormalizing_class [of ?t "''LEDGER_COMMIT_FAULT''"] by (simp add: authority_contexts_def)
qed

text \<open>The reversal check accepts exactly the statuses that are not failed, reversed, refunded or
  cancelled; among these the transaction table has no edge to reversed for created and pending,
  so a check that passes does not mean that the transition exists.\<close>

theorem reversal_eligibility:
  "(assertReversalEligible (Some (status_text s)) = Inr () \<longleftrightarrow> s \<notin> {Failed, Reversed, Refunded, Cancelled}) \<and>
   (assertReversalEligible (Some (status_text s)) = Inr () \<and>
      \<not> isValidTransition (status_text s) ''reversed'' \<longleftrightarrow> s \<in> {Created, Pending})"
proof -
  have "s \<in> set all_statuses" by (cases s) (simp_all add: all_statuses_def)
  with reversal_table show ?thesis
    unfolding list_all_iff assertReversalEligible_def by (auto split: if_splits)
qed

end
