(* ===== verification/Kms.thy ===== *)
theory Kms
  imports Orbi_Prelude
begin

text \<open>
  \<open>backend/security/kms.ts\<close>: the key store that every encrypted column depends on. The
  database table of wrapped keys, the process's in-memory copy, the hydration at start, the
  provisioning of a new active key with its recovery from a lost race, and rotation. Key
  generation, wrapping and unwrapping are WebCrypto calls: their results are inputs.
\<close>

section \<open>State\<close>

datatype key_type = KT_Auth | KT_Encryption | KT_Secret_Wrapping | KT_System | KT_Signing

fun key_type_text :: "key_type \<Rightarrow> string" where
  "key_type_text KT_Auth = ''AUTH''"
| "key_type_text KT_Encryption = ''ENCRYPTION''"
| "key_type_text KT_Secret_Wrapping = ''SECRET_WRAPPING''"
| "key_type_text KT_System = ''SYSTEM''"
| "key_type_text KT_Signing = ''SIGNING''"

definition key_types :: "key_type list" where
  "key_types = [KT_Auth, KT_Encryption, KT_Secret_Wrapping, KT_System, KT_Signing]"

instantiation key_type :: enum
begin

definition enum_key_type :: "key_type list" where
  "enum_key_type = key_types"

definition enum_all_key_type :: "(key_type \<Rightarrow> bool) \<Rightarrow> bool" where
  "enum_all_key_type P = list_all P key_types"

definition enum_ex_key_type :: "(key_type \<Rightarrow> bool) \<Rightarrow> bool" where
  "enum_ex_key_type P = list_ex P key_types"

instance
proof
  have all: "x \<in> set key_types" for x by (cases x) (simp_all add: key_types_def)
  then show "UNIV = set (enum_class.enum :: key_type list)" by (auto simp: enum_key_type_def)
  show "distinct (enum_class.enum :: key_type list)" by (simp add: enum_key_type_def key_types_def)
  show "enum_class.enum_all P \<longleftrightarrow> Ball UNIV P" for P :: "key_type \<Rightarrow> bool"
    using all by (auto simp: enum_all_key_type_def list_all_iff)
  show "enum_class.enum_ex P \<longleftrightarrow> Bex UNIV P" for P :: "key_type \<Rightarrow> bool"
    using all by (auto simp: enum_ex_key_type_def list_ex_iff)
qed

end

text \<open>A row of \<open>kms_keys\<close>; \<open>kr_active\<close> is status ACTIVE, otherwise the key is ROTATED.\<close>

record kms_row =
  kr_id :: string
  kr_version :: int
  kr_type :: key_type
  kr_active :: bool
  kr_wrapped :: string
  kr_created :: int

record key_meta =
  km_id :: string
  km_version :: int
  km_type :: key_type
  km_active :: bool
  km_wrapped :: string

text \<open>\<open>keys\<close> is a JavaScript Map: a list in insertion order. An empty active id is \<open>''\<close>.\<close>

record kms =
  ks_keys :: "key_meta list"
  ks_material :: "string \<Rightarrow> string option"
  ks_active :: "key_type \<Rightarrow> string"
  ks_ready :: bool

definition empty_kms :: kms where
  "empty_kms = \<lparr>ks_keys = [], ks_material = (\<lambda>_. None), ks_active = (\<lambda>_. []), ks_ready = False\<rparr>"

definition map_set :: "key_meta \<Rightarrow> key_meta list \<Rightarrow> key_meta list" where
  "map_set m ks = (if km_id m \<in> km_id ` set ks then map (\<lambda>x. if km_id x = km_id m then m else x) ks
     else ks @ [m])"

section \<open>Lookups\<close>

definition getActiveKey :: "kms \<Rightarrow> key_type \<Rightarrow> string option" where
  "getActiveKey k t = ks_material k (ks_active k t)"

definition getActiveVersion :: "kms \<Rightarrow> key_type \<Rightarrow> int" where
  "getActiveVersion k t =
     (case find (\<lambda>m. km_id m = ks_active k t) (ks_keys k) of
        None \<Rightarrow> 1
      | Some m \<Rightarrow> if km_version m = 0 then 1 else km_version m)"

definition getKeyByVersion :: "kms \<Rightarrow> key_type \<Rightarrow> int \<Rightarrow> string option" where
  "getKeyByVersion k t v =
     (case find (\<lambda>m. km_type m = t \<and> km_version m = v) (ks_keys k) of
        None \<Rightarrow> None
      | Some m \<Rightarrow> ks_material k (km_id m))"

section \<open>Active keys of the table\<close>

definition isRecoverableActiveKeyInsertConflict :: "js_error \<Rightarrow> bool" where
  "isRecoverableActiveKeyInsertConflict e =
     (let msg = js_lower (err_message e) in
      js_trim (err_code e) = ''23505'' \<and>
      (js_includes msg ''kms_keys_one_active_per_type'' \<or>
       (js_includes msg ''kms_keys'' \<and> js_includes msg ''active'' \<and> js_includes msg ''type'')))"

definition validateSingleActiveKeyPerType :: "kms_row list \<Rightarrow> unit outcome" where
  "validateSingleActiveKeyPerType rows =
     (case find (\<lambda>t. 1 < length (filter (\<lambda>r. kr_active r \<and> kr_type r = t) rows))
             (distinct_first (map kr_type (filter kr_active rows))) of
        None \<Rightarrow> Inr ()
      | Some t \<Rightarrow> throw (''[KMS] Multiple ACTIVE keys detected for '' @ key_type_text t))"

text \<open>Newest version first, then newest creation time, then the greater id.\<close>

definition sortActiveDbKeys :: "kms_row list \<Rightarrow> kms_row list" where
  "sortActiveDbKeys rows = sort_key (\<lambda>r. (- kr_version r, - kr_created r)) (rev (sort_key kr_id rows))"

definition retireDbKeys :: "js_error option \<Rightarrow> kms_row list \<Rightarrow> kms_row list \<times> kms \<Rightarrow> (kms_row list \<times> kms) outcome" where
  "retireDbKeys fault rows s = (case s of (db, k) \<Rightarrow>
     (let ids = filter (\<lambda>i. i \<noteq> []) (map (\<lambda>r. js_trim (kr_id r)) rows) in
      if ids = [] then Inr (db, k)
      else case fault of
          Some e \<Rightarrow> Inl e
        | None \<Rightarrow> Inr
            (upd (\<lambda>r. kr_id r \<in> set ids) (\<lambda>r. r\<lparr>kr_active := False\<rparr>) db,
             k\<lparr>ks_keys := map (\<lambda>m. if km_id m \<in> kr_id ` set rows then m\<lparr>km_active := False\<rparr> else m) (ks_keys k),
               ks_active := (\<lambda>t. if \<exists>r \<in> set rows. kr_type r = t \<and> ks_active k t = kr_id r then [] else ks_active k t)\<rparr>)))"

definition registerHydratedDbKey :: "kms_row \<Rightarrow> string \<Rightarrow> kms \<Rightarrow> kms" where
  "registerHydratedDbKey r key k = k\<lparr>
     ks_keys := map_set \<lparr>km_id = kr_id r, km_version = kr_version r, km_type = kr_type r,
                         km_active = kr_active r, km_wrapped = kr_wrapped r\<rparr> (ks_keys k),
     ks_material := (ks_material k)(kr_id r \<mapsto> key),
     ks_active := (if kr_active r then (ks_active k)(kr_type r := kr_id r) else ks_active k)\<rparr>"

text \<open>The loop over the known secrets: \<open>unwrap\<close> is what WebCrypto returns for a row's wrapped
  key under a secret, \<open>None\<close> when it throws.\<close>

fun tryUnwrapDbKeyWithKnownSecrets :: "(string \<Rightarrow> string \<Rightarrow> string option) \<Rightarrow> string list \<Rightarrow> kms_row \<Rightarrow> string option" where
  "tryUnwrapDbKeyWithKnownSecrets unwrap [] r = None"
| "tryUnwrapDbKeyWithKnownSecrets unwrap (s # ss) r =
     (case unwrap s (kr_wrapped r) of Some key \<Rightarrow> Some key | None \<Rightarrow> tryUnwrapDbKeyWithKnownSecrets unwrap ss r)"

text \<open>Adopting the active key another process inserted; \<open>faults\<close> are the errors of the select
  and of the retirement.\<close>

definition hydrateExistingActiveKeyForType ::
    "(string \<Rightarrow> string \<Rightarrow> string option) \<Rightarrow> string list \<Rightarrow> js_error option \<Rightarrow> js_error option \<Rightarrow> key_type \<Rightarrow>
     kms_row list \<times> kms \<Rightarrow> (bool \<times> kms_row list \<times> kms) outcome" where
  "hydrateExistingActiveKeyForType unwrap secrets sel_fault upd_fault t s = (case s of (db, k) \<Rightarrow>
     (case sel_fault of
        Some e \<Rightarrow> Inl e
      | None \<Rightarrow>
          (let found = take 2 (sort_key (\<lambda>r. (- kr_version r, - kr_created r))
                         (sel (\<lambda>r. kr_type r = t \<and> kr_active r) db)) in
           case found of
             [] \<Rightarrow> Inr (False, db, k)
           | winner # _ \<Rightarrow>
               bind_outcome (validateSingleActiveKeyPerType found) (\<lambda>_.
                 case tryUnwrapDbKeyWithKnownSecrets unwrap secrets winner of
                   None \<Rightarrow> bind_outcome (retireDbKeys upd_fault [winner] (db, k)) (\<lambda>s'. Inr (False, s'))
                 | Some key \<Rightarrow> Inr (True, db, registerHydratedDbKey winner key k)))))"

section \<open>Provisioning and rotation\<close>

text \<open>
  What the process meets during one provisioning: the unwrap results, the known secrets, the
  generated key with its id suffix and wrapped text, the time, and the database errors of the
  status update, the insert, the select and the retirement.
\<close>

record kms_env =
  ke_unwrap :: "string \<Rightarrow> string \<Rightarrow> string option"
  ke_secrets :: "string list"
  ke_suffix :: string
  ke_key :: string
  ke_wrapped :: string
  ke_now :: int
  ke_update_fault :: "js_error option"
  ke_insert_fault :: "js_error option"
  ke_select_fault :: "js_error option"
  ke_retire_fault :: "js_error option"

type_synonym kms_state = "kms_row list \<times> kms"

definition next_version :: "key_type \<Rightarrow> kms \<Rightarrow> int" where
  "next_version t k = (let vs = map km_version (filter (\<lambda>m. km_type m = t) (ks_keys k)) in
     if vs = [] then 1 else foldr max (tl vs) (hd vs) + 1)"

definition new_key_id :: "key_type \<Rightarrow> int \<Rightarrow> string \<Rightarrow> string" where
  "new_key_id t v sfx = ''key-v'' @ num_text (of_int v) @ ''-'' @ js_lower (key_type_text t) @ ''-'' @ sfx"

text \<open>The insert against the primary key and the unique index on active keys.\<close>

definition insert_error :: "js_error option \<Rightarrow> kms_row \<Rightarrow> kms_row list \<Rightarrow> js_error option" where
  "insert_error fault r db = (case fault of Some e \<Rightarrow> Some e | None \<Rightarrow>
     (if kr_id r \<in> kr_id ` set db
      then Some (JsError ''duplicate key value violates unique constraint \"kms_keys_pkey\"'' ''23505'')
      else if kr_active r \<and> (\<exists>x \<in> set db. kr_active x \<and> kr_type x = kr_type r)
      then Some (JsError ''duplicate key value violates unique constraint \"kms_keys_one_active_per_type\"'' ''23505'')
      else None))"

text \<open>The result is the error thrown, if any, with the state reached; memory and table keep what
  happened before the throw.\<close>

definition provisionNewKey :: "kms_env \<Rightarrow> key_type \<Rightarrow> int \<Rightarrow> kms_state \<Rightarrow> js_error option \<times> kms_state" where
  "provisionNewKey e t v s = (case s of (db, k) \<Rightarrow>
     (let i = new_key_id t v (ke_suffix e);
          r = \<lparr>kr_id = i, kr_version = v, kr_type = t, kr_active = True, kr_wrapped = ke_wrapped e, kr_created = ke_now e\<rparr> in
      case insert_error (ke_insert_fault e) r db of
        None \<Rightarrow> (None, db @ [r], k\<lparr>
          ks_keys := map_set \<lparr>km_id = i, km_version = v, km_type = t, km_active = True, km_wrapped = ke_wrapped e\<rparr> (ks_keys k),
          ks_material := (ks_material k)(i \<mapsto> ke_key e), ks_active := (ks_active k)(t := i)\<rparr>)
      | Some err \<Rightarrow>
          (if isRecoverableActiveKeyInsertConflict err then
             (case hydrateExistingActiveKeyForType (ke_unwrap e) (ke_secrets e) (ke_select_fault e) (ke_retire_fault e) t (db, k) of
                Inl x \<Rightarrow> (Some x, db, k)
              | Inr (adopted, s') \<Rightarrow> (if adopted then (None, s') else (Some err, s')))
           else (Some err, db, k))))"

definition rotate_kms :: "kms_env \<Rightarrow> key_type \<Rightarrow> kms_state \<Rightarrow> js_error option \<times> kms_state" where
  "rotate_kms e t s = (case s of (db, k) \<Rightarrow>
     (let v = next_version t k; old = ks_active k t in
      if old = [] then provisionNewKey e t v (db, k)
      else case ke_update_fault e of
          Some x \<Rightarrow> (Some x, db, k)
        | None \<Rightarrow> provisionNewKey e t v
            (upd (\<lambda>r. kr_id r = old) (\<lambda>r. r\<lparr>kr_active := False\<rparr>) db,
             k\<lparr>ks_keys := map (\<lambda>m. if km_id m = old then m\<lparr>km_active := False\<rparr> else m) (ks_keys k)\<rparr>)))"

section \<open>Start-up\<close>

fun hydrate_rows :: "kms_env \<Rightarrow> kms_row list \<Rightarrow> kms \<Rightarrow> kms_row list \<Rightarrow> kms_row list \<Rightarrow> kms \<times> kms_row list \<times> kms_row list" where
  "hydrate_rows e [] k usable unusable = (k, usable, unusable)"
| "hydrate_rows e (r # rs) k usable unusable =
     (case tryUnwrapDbKeyWithKnownSecrets (ke_unwrap e) (ke_secrets e) r of
        Some key \<Rightarrow> hydrate_rows e rs (registerHydratedDbKey r key k)
                      (if kr_active r then usable @ [r] else usable) unusable
      | None \<Rightarrow> hydrate_rows e rs k usable (if kr_active r then unusable @ [r] else unusable))"

definition set_active :: "key_type \<Rightarrow> string \<Rightarrow> kms \<Rightarrow> kms" where
  "set_active t i k = k\<lparr>ks_active := (ks_active k)(t := i)\<rparr>"

definition resolveDuplicateUsableActiveKeysForType ::
    "js_error option \<Rightarrow> key_type \<Rightarrow> kms_row list \<Rightarrow> kms_state \<Rightarrow> kms_state outcome" where
  "resolveDuplicateUsableActiveKeysForType fault t rows s =
     (case sortActiveDbKeys rows of
        [] \<Rightarrow> Inr s
      | winner # losers \<Rightarrow> bind_outcome (retireDbKeys fault losers s)
          (\<lambda>(db, k). Inr (db, set_active t (kr_id winner) k)))"

fun settle_active :: "(key_type \<Rightarrow> kms_env) \<Rightarrow> kms_row list \<Rightarrow> key_type list \<Rightarrow> kms_state \<Rightarrow> js_error option \<times> kms_state" where
  "settle_active e usable [] s = (None, s)"
| "settle_active e usable (t # ts) s =
     (case filter (\<lambda>r. kr_type r = t) usable of
        [] \<Rightarrow> settle_active e usable ts s
      | [r] \<Rightarrow> settle_active e usable ts (fst s, set_active t (kr_id r) (snd s))
      | rs \<Rightarrow> (case resolveDuplicateUsableActiveKeysForType (ke_retire_fault (e t)) t rs s of
            Inl x \<Rightarrow> (Some x, s)
          | Inr s' \<Rightarrow> settle_active e usable ts s'))"

fun provision_missing :: "(key_type \<Rightarrow> kms_env) \<Rightarrow> key_type list \<Rightarrow> kms_state \<Rightarrow> js_error option \<times> kms_state" where
  "provision_missing e [] s = (None, s)"
| "provision_missing e (t # ts) s =
     (if ks_active (snd s) t \<noteq> [] then provision_missing e ts s
      else case provisionNewKey (e t) t (next_version t (snd s)) s of
          (Some x, s') \<Rightarrow> (Some x, s')
        | (None, s') \<Rightarrow> provision_missing e ts s')"

text \<open>\<open>init\<close> with a database: \<open>e0\<close> serves the hydration, \<open>e\<close> the work on each type.\<close>

definition init_kms :: "kms_env \<Rightarrow> (key_type \<Rightarrow> kms_env) \<Rightarrow> kms_row list \<Rightarrow> js_error option \<times> kms_state" where
  "init_kms e0 e db =
     (case ke_select_fault e0 of
        Some x \<Rightarrow> (Some x, db, empty_kms)
      | None \<Rightarrow>
          (case hydrate_rows e0 (sort_key (\<lambda>r. - kr_version r) db) empty_kms [] [] of (k, usable, unusable) \<Rightarrow>
             (case retireDbKeys (ke_retire_fault e0) unusable (db, k) of
                Inl x \<Rightarrow> (Some x, db, k)
              | Inr s \<Rightarrow>
                  (case settle_active e usable (distinct_first (map kr_type usable)) s of
                     (Some x, s') \<Rightarrow> (Some x, s')
                   | (None, s') \<Rightarrow>
                       (case provision_missing e key_types s' of
                          (Some x, s'') \<Rightarrow> (Some x, s'')
                        | (None, db', k') \<Rightarrow> (None, db', k'\<lparr>ks_ready := True\<rparr>))))))"

section \<open>The invariant of one process\<close>

text \<open>
  Memory and table hold the same keys, no two keys of a type share a version, every key has
  its material, and the active id of a type is a key of that type.
\<close>

definition kms_ok :: "kms_state \<Rightarrow> bool" where
  "kms_ok s \<longleftrightarrow> (case s of (db, k) \<Rightarrow>
     distinct (map km_id (ks_keys k)) \<and> km_id ` set (ks_keys k) = kr_id ` set db \<and>
     (\<forall>r \<in> set db. kr_id r \<noteq> [] \<and> (kr_active r \<longrightarrow> ks_active k (kr_type r) = kr_id r)) \<and>
     (\<forall>m \<in> set (ks_keys k). ks_material k (km_id m) \<noteq> None \<and> 1 \<le> km_version m) \<and>
     (\<forall>m \<in> set (ks_keys k). \<forall>m' \<in> set (ks_keys k). km_type m = km_type m' \<and> km_version m = km_version m' \<longrightarrow> m = m') \<and>
     (\<forall>t. ks_active k t = [] \<or> (\<exists>m \<in> set (ks_keys k). km_id m = ks_active k t \<and> km_type m = t)))"

lemma foldr_max_ge: "x = a \<or> x \<in> set xs \<Longrightarrow> x \<le> foldr max xs (a :: int)"
  by (induction xs) auto

lemma foldr_max_base: "(a :: int) \<le> foldr max xs a"
  by (rule foldr_max_ge) simp

lemma next_version_gt: "m \<in> set (ks_keys k) \<Longrightarrow> km_type m = t \<Longrightarrow> km_version m < next_version t k"
proof -
  assume m: "m \<in> set (ks_keys k)" "km_type m = t"
  let ?vs = "map km_version (filter (\<lambda>m. km_type m = t) (ks_keys k))"
  from m have v: "km_version m \<in> set ?vs" by auto
  then obtain a as where vs: "?vs = a # as" by (cases ?vs) auto
  with v have "km_version m \<le> foldr max as a" by (intro foldr_max_ge) auto
  then show ?thesis unfolding next_version_def Let_def vs by simp
qed

lemma next_version_pos: "\<forall>m \<in> set (ks_keys k). 1 \<le> km_version m \<Longrightarrow> 1 \<le> next_version t k"
proof -
  assume pos: "\<forall>m \<in> set (ks_keys k). 1 \<le> km_version m"
  show ?thesis
  proof (cases "filter (\<lambda>m. km_type m = t) (ks_keys k)")
    case Nil
    then show ?thesis by (simp add: next_version_def)
  next
    case (Cons m ms)
    then have "m \<in> set (ks_keys k)" "km_type m = t" by (auto simp: filter_eq_Cons_iff)
    with next_version_gt [OF this] pos show ?thesis by fastforce
  qed
qed

text \<open>Without an active row of the type, provisioning either changes nothing or adds the key.\<close>

definition extended :: "kms_env \<Rightarrow> key_type \<Rightarrow> int \<Rightarrow> kms_state \<Rightarrow> kms_state" where
  "extended e t v s = (case s of (db, k) \<Rightarrow>
     (let i = new_key_id t v (ke_suffix e) in
      (db @ [\<lparr>kr_id = i, kr_version = v, kr_type = t, kr_active = True, kr_wrapped = ke_wrapped e, kr_created = ke_now e\<rparr>],
       k\<lparr>ks_keys := ks_keys k @ [\<lparr>km_id = i, km_version = v, km_type = t, km_active = True, km_wrapped = ke_wrapped e\<rparr>],
         ks_material := (ks_material k)(i \<mapsto> ke_key e), ks_active := (ks_active k)(t := i)\<rparr>)))"

lemma provision_cases:
  assumes "km_id ` set (ks_keys k) = kr_id ` set db" and "\<forall>r \<in> set db. kr_type r = t \<longrightarrow> \<not> kr_active r"
  shows "snd (provisionNewKey e t v (db, k)) = (db, k) \<or>
    (new_key_id t v (ke_suffix e) \<notin> kr_id ` set db \<and>
     provisionNewKey e t v (db, k) = (None, extended e t v (db, k)))"
proof -
  have none: "sel (\<lambda>r. kr_type r = t \<and> kr_active r) db = []"
    using assms(2) by (auto simp: sel_def filter_empty_conv)
  let ?r = "\<lparr>kr_id = new_key_id t v (ke_suffix e), kr_version = v, kr_type = t, kr_active = True,
    kr_wrapped = ke_wrapped e, kr_created = ke_now e\<rparr>"
  show ?thesis
  proof (cases "insert_error (ke_insert_fault e) ?r db")
    case None
    then have "new_key_id t v (ke_suffix e) \<notin> kr_id ` set db"
      by (auto simp: insert_error_def split: option.splits if_splits)
    with None assms(1) show ?thesis by (simp add: provisionNewKey_def extended_def map_set_def Let_def)
  next
    case (Some err)
    with none show ?thesis
      by (simp add: provisionNewKey_def hydrateExistingActiveKeyForType_def Let_def split: option.splits)
  qed
qed

lemma new_key_id_not_Nil [simp]: "new_key_id t v s \<noteq> []" "[] \<noteq> new_key_id t v s"
  by (simp_all add: new_key_id_def)

definition other_active :: "key_type \<Rightarrow> kms_state \<Rightarrow> bool" where
  "other_active t s \<longleftrightarrow> (\<forall>r \<in> set (fst s). kr_type r = t \<longrightarrow> \<not> kr_active r)"

lemma extended_ok:
  assumes "kms_ok (db, k)" and "other_active t (db, k)" and "v = next_version t k"
    and "new_key_id t v (ke_suffix e) \<notin> kr_id ` set db"
  shows "kms_ok (extended e t v (db, k))"
proof -
  let ?i = "new_key_id t v (ke_suffix e)"
  from assms(1,4) have fresh: "?i \<notin> km_id ` set (ks_keys k)" by (simp add: kms_ok_def)
  have gt: "\<And>m. m \<in> set (ks_keys k) \<Longrightarrow> km_type m = t \<Longrightarrow> km_version m \<noteq> v"
    using next_version_gt assms(3) by fastforce
  have pos: "1 \<le> v" using assms(1,3) next_version_pos by (simp add: kms_ok_def)
  from assms(1,2) fresh gt pos show ?thesis
    unfolding kms_ok_def extended_def other_active_def
    by (auto simp: Let_def)
qed

lemma extended_key:
  assumes "kms_ok (db, k)" and "new_key_id t v (ke_suffix e) \<notin> kr_id ` set db"
    and "getKeyByVersion k t' w = Some key"
  shows "getKeyByVersion (snd (extended e t v (db, k))) t' w = Some key"
proof -
  from assms(3) obtain m where f: "find (\<lambda>m. km_type m = t' \<and> km_version m = w) (ks_keys k) = Some m"
    and key: "ks_material k (km_id m) = Some key" by (auto simp: getKeyByVersion_def split: option.splits)
  from f have "m \<in> set (ks_keys k)" by (metis find_Some_iff nth_mem)
  moreover have "km_id ` set (ks_keys k) = kr_id ` set db" using assms(1) by (simp add: kms_ok_def)
  ultimately have "km_id m \<noteq> new_key_id t v (ke_suffix e)" using assms(2) by (metis imageI)
  moreover have "find P (xs @ ys) = Some m" if "find P xs = Some m" for P :: "key_meta \<Rightarrow> bool" and xs ys
    using that by (induction xs) auto
  ultimately show ?thesis using f key by (simp add: extended_def getKeyByVersion_def Let_def)
qed

text \<open>What the first half of a rotation leaves: the old key is marked in table and memory.\<close>

definition mark_meta :: "string \<Rightarrow> key_meta \<Rightarrow> key_meta" where
  "mark_meta old m = (if km_id m = old then m\<lparr>km_active := False\<rparr> else m)"

definition mark_row :: "string \<Rightarrow> kms_row \<Rightarrow> kms_row" where
  "mark_row old r = (if kr_id r = old then r\<lparr>kr_active := False\<rparr> else r)"

lemma mark_simps [simp]:
  "km_id (mark_meta old m) = km_id m" "km_type (mark_meta old m) = km_type m"
  "km_version (mark_meta old m) = km_version m" "kr_id (mark_row old r) = kr_id r"
  "kr_type (mark_row old r) = kr_type r" "kr_active (mark_row old r) \<longleftrightarrow> kr_active r \<and> kr_id r \<noteq> old"
  by (simp_all add: mark_meta_def mark_row_def)

definition marked :: "string \<Rightarrow> kms_state \<Rightarrow> kms_state" where
  "marked old s = (case s of (db, k) \<Rightarrow> (map (mark_row old) db, k\<lparr>ks_keys := map (mark_meta old) (ks_keys k)\<rparr>))"

lemma marked_key: "getKeyByVersion (snd (marked old s)) t v = getKeyByVersion (snd s) t v"
proof -
  have "find (\<lambda>m. km_type m = t \<and> km_version m = v) (map (mark_meta old) ks) =
      map_option (mark_meta old) (find (\<lambda>m. km_type m = t \<and> km_version m = v) ks)" for ks
    by (induction ks) auto
  then show ?thesis
    by (cases s) (simp add: getKeyByVersion_def marked_def option.case_eq_if option.map_sel)
qed

lemma marked_ok:
  assumes "kms_ok s"
  shows "kms_ok (marked old s)"
proof -
  obtain db k where s: "s = (db, k)" by fastforce
  have ids: "km_id ` mark_meta old ` M = km_id ` M" "kr_id ` mark_row old ` R = kr_id ` R" for M R
    by (auto simp: image_image)
  show ?thesis
    using assms unfolding s marked_def kms_ok_def by (simp add: ids comp_def) metis
qed

lemma rotate_marked:
  "rotate_kms e t (db, k) =
     (if ks_active k t = [] then provisionNewKey e t (next_version t k) (db, k)
      else case ke_update_fault e of
          Some x \<Rightarrow> (Some x, db, k)
        | None \<Rightarrow> provisionNewKey e t (next_version t k) (marked (ks_active k t) (db, k)))"
  by (cases "ke_update_fault e") (simp_all add: rotate_kms_def Let_def marked_def mark_meta_def [abs_def] mark_row_def [abs_def] upd_def)

lemma next_version_marked [simp]: "next_version t (snd (marked old (db, k))) = next_version t k"
proof -
  have "map km_version (filter (\<lambda>m. km_type m = t) (map (mark_meta old) ks)) =
      map km_version (filter (\<lambda>m. km_type m = t) ks)" for ks by (induction ks) auto
  then show ?thesis by (simp add: next_version_def marked_def)
qed

lemma marked_other_active: "kms_ok s \<Longrightarrow> other_active t (marked (ks_active (snd s) t) s)"
  by (cases s) (auto simp: kms_ok_def other_active_def marked_def)

lemma kms_ok_ids: "kms_ok (db, k) \<Longrightarrow> km_id ` set (ks_keys k) = kr_id ` set db"
  by (simp add: kms_ok_def)

lemma provision_ok:
  assumes "kms_ok s" and "other_active t s" and "v = next_version t (snd s)"
  shows "kms_ok (snd (provisionNewKey e t v s))"
proof -
  obtain db k where s: "s = (db, k)" by fastforce
  from assms(2) have na: "\<forall>r \<in> set db. kr_type r = t \<longrightarrow> \<not> kr_active r" by (simp add: s other_active_def)
  from provision_cases [OF kms_ok_ids [OF assms(1) [unfolded s]] na, of e v] show ?thesis
    using assms extended_ok [of db k t v e] unfolding s by auto
qed

lemma provision_key:
  assumes "kms_ok s" and "other_active t s" and "getKeyByVersion (snd s) t' w = Some key"
  shows "getKeyByVersion (snd (snd (provisionNewKey e t v s))) t' w = Some key"
proof -
  obtain db k where s: "s = (db, k)" by fastforce
  from assms(2) have na: "\<forall>r \<in> set db. kr_type r = t \<longrightarrow> \<not> kr_active r" by (simp add: s other_active_def)
  from provision_cases [OF kms_ok_ids [OF assms(1) [unfolded s]] na, of e v] show ?thesis
    using assms extended_key [of db k t v e t' w key] unfolding s by auto
qed

lemma no_active_other:
  assumes "kms_ok s" and "ks_active (snd s) t = []"
  shows "other_active t s"
proof -
  obtain db k where s: "s = (db, k)" by fastforce
  show ?thesis unfolding s other_active_def
  proof (intro ballI impI notI)
    fix r assume r: "r \<in> set (fst (db, k))" "kr_type r = t" "kr_active r"
    with assms(1) have "kr_id r \<noteq> []" "ks_active k t = kr_id r" unfolding s kms_ok_def by auto
    with assms(2) s show False by simp
  qed
qed

lemma rotate_ok:
  assumes "kms_ok s"
  shows "kms_ok (snd (rotate_kms e t s))"
proof -
  obtain db k where s: "s = (db, k)" by fastforce
  show ?thesis
    using assms provision_ok [where s = "(db, k)" and t = t and v = "next_version t k" and e = e] no_active_other [of "(db, k)" t]
      provision_ok [where s = "marked (ks_active k t) (db, k)" and t = t and v = "next_version t k" and e = e]
      marked_ok [of "(db, k)" "ks_active k t"] marked_other_active [of "(db, k)" t]
    unfolding s rotate_marked by (auto split: option.splits)
qed

lemma rotate_key:
  assumes "kms_ok s" and "getKeyByVersion (snd s) t' w = Some key"
  shows "getKeyByVersion (snd (snd (rotate_kms e t s))) t' w = Some key"
proof -
  obtain db k where s: "s = (db, k)" by fastforce
  show ?thesis
    using assms provision_key no_active_other marked_ok marked_other_active [of "(db, k)" t]
      marked_key [of "ks_active k t" "(db, k)"]
    unfolding s rotate_marked by (auto split: option.splits)
qed

text \<open>A history of rotations, each of which may fail at any of its database calls.\<close>

fun rotations :: "(kms_env \<times> key_type) list \<Rightarrow> kms_state \<Rightarrow> kms_state" where
  "rotations [] s = s"
| "rotations ((e, t) # rs) s = rotations rs (snd (rotate_kms e t s))"

lemma rotations_ok: "kms_ok s \<Longrightarrow> kms_ok (rotations rs s)"
  by (induction rs s rule: rotations.induct) (simp_all add: rotate_ok)

lemma rotations_key:
  "kms_ok s \<Longrightarrow> getKeyByVersion (snd s) t w = Some key \<Longrightarrow> getKeyByVersion (snd (rotations rs s)) t w = Some key"
  by (induction rs s rule: rotations.induct) (simp_all add: rotate_ok rotate_key)

text \<open>In a store that satisfies the invariant the active version names the active key.\<close>

lemma active_version_key:
  assumes "kms_ok s" and "getActiveKey (snd s) t = Some key" and "ks_active (snd s) t \<noteq> []"
  shows "getKeyByVersion (snd s) t (getActiveVersion (snd s) t) = Some key"
proof -
  obtain db k where s: "s = (db, k)" by fastforce
  have "ks_active k t = [] \<or> (\<exists>m \<in> set (ks_keys k). km_id m = ks_active k t \<and> km_type m = t)"
    using assms(1) unfolding s kms_ok_def by simp
  with assms(3) s obtain m where m: "m \<in> set (ks_keys k)" "km_id m = ks_active k t" "km_type m = t" by auto
  from assms(1) have inv: "distinct (map km_id (ks_keys k))" "1 \<le> km_version m"
    "\<forall>m' \<in> set (ks_keys k). km_type m = km_type m' \<and> km_version m = km_version m' \<longrightarrow> m = m'"
    using m(1) unfolding s kms_ok_def by auto
  have "find (\<lambda>x. km_id x = ks_active k t) (ks_keys k) = Some m"
    using m inv(1) by (intro find_unique) (auto simp: distinct_map inj_on_def)
  moreover have "find (\<lambda>x. km_type x = t \<and> km_version x = km_version m) (ks_keys k) = Some m"
    using m inv(3) by (intro find_unique) auto
  ultimately show ?thesis
    using assms(2) m(2) inv(2) unfolding s by (simp add: getActiveVersion_def getKeyByVersion_def getActiveKey_def)
qed

section \<open>What a successful start leaves\<close>

definition active_loaded :: "kms \<Rightarrow> bool" where
  "active_loaded k \<longleftrightarrow> (\<forall>t. ks_active k t = [] \<or> ks_material k (ks_active k t) \<noteq> None)"

lemma active_loadedI: "(\<And>t. ks_active k t \<noteq> [] \<Longrightarrow> ks_material k (ks_active k t) \<noteq> None) \<Longrightarrow> active_loaded k"
  by (auto simp: active_loaded_def)

lemma active_loadedD: "active_loaded k \<Longrightarrow> ks_active k t \<noteq> [] \<Longrightarrow> ks_material k (ks_active k t) \<noteq> None"
  unfolding active_loaded_def by blast

lemma active_loaded_register: "active_loaded k \<Longrightarrow> active_loaded (registerHydratedDbKey r key k)"
  by (simp add: active_loaded_def registerHydratedDbKey_def)

lemma retire_loaded:
  assumes "retireDbKeys f rows (db, k) = Inr (db', k')"
  shows "ks_material k' = ks_material k \<and> (active_loaded k \<longrightarrow> active_loaded k')"
proof -
  have "k' = k \<or> (ks_material k' = ks_material k \<and> (\<forall>t. ks_active k' t = [] \<or> ks_active k' t = ks_active k t))"
    using assms by (auto simp: retireDbKeys_def Let_def split: if_splits option.splits)
  then show ?thesis by (metis active_loadedI active_loadedD)
qed

lemma hydrate_existing_loaded:
  "hydrateExistingActiveKeyForType u ss f g t (db, k) = Inr (b, db', k') \<Longrightarrow> active_loaded k \<Longrightarrow> active_loaded k'"
  by (auto simp: hydrateExistingActiveKeyForType_def Let_def bind_outcome_Inr_iff
      dest!: retire_loaded intro: active_loaded_register split: option.splits list.splits)

lemma active_loaded_new:
  "active_loaded k \<Longrightarrow> active_loaded (k\<lparr>ks_keys := ms, ks_material := (ks_material k)(i \<mapsto> key),
     ks_active := (ks_active k)(t := i)\<rparr>)"
  by (simp add: active_loaded_def)

lemma provision_loaded:
  assumes "provisionNewKey e t v (db, k) = (r, db', k')" and "active_loaded k"
  shows "active_loaded k'"
  using assms active_loaded_new [of k]
  by (auto simp: provisionNewKey_def Let_def split: option.splits if_splits sum.splits prod.splits
      dest!: hydrate_existing_loaded)

lemma hydrate_rows_loaded:
  "hydrate_rows e rows k us un = (k', us', un') \<Longrightarrow> active_loaded k \<Longrightarrow>
     (\<forall>r \<in> set us. ks_material k (kr_id r) \<noteq> None) \<Longrightarrow>
     active_loaded k' \<and> (\<forall>r \<in> set us'. ks_material k' (kr_id r) \<noteq> None)"
proof (induction e rows k us un rule: hydrate_rows.induct)
  case (2 e r rs k usable unusable)
  show ?case
  proof (cases "tryUnwrapDbKeyWithKnownSecrets (ke_unwrap e) (ke_secrets e) r")
    case None
    with 2 show ?thesis by auto
  next
    case (Some key)
    have "\<forall>x \<in> set (if kr_active r then usable @ [r] else usable).
        ks_material (registerHydratedDbKey r key k) (kr_id x) \<noteq> None"
      using "2.prems"(3) by (auto simp: registerHydratedDbKey_def)
    with 2 Some active_loaded_register show ?thesis by auto
  qed
qed auto

lemma set_active_loaded: "active_loaded k \<Longrightarrow> ks_material k i \<noteq> None \<Longrightarrow> active_loaded (set_active t i k)"
  by (simp add: active_loaded_def set_active_def)

lemma resolve_loaded:
  assumes "resolveDuplicateUsableActiveKeysForType f t rows (db, k) = Inr (db', k')" and "active_loaded k"
    and "\<forall>r \<in> set rows. ks_material k (kr_id r) \<noteq> None"
  shows "active_loaded k' \<and> ks_material k' = ks_material k"
proof (cases "sortActiveDbKeys rows")
  case (Cons w ls)
  have "set (sortActiveDbKeys rows) = set rows" by (simp add: sortActiveDbKeys_def)
  with Cons assms(3) have w: "ks_material k (kr_id w) \<noteq> None" by (metis list.set_intros(1))
  from assms(1) Cons obtain db1 k1 where r: "retireDbKeys f ls (db, k) = Inr (db1, k1)"
    and k': "k' = set_active t (kr_id w) k1"
    by (auto simp: resolveDuplicateUsableActiveKeysForType_def bind_outcome_Inr_iff)
  from retire_loaded [OF r] assms(2) w have "active_loaded k1" "ks_material k1 (kr_id w) \<noteq> None" by auto
  with set_active_loaded k' retire_loaded [OF r] show ?thesis by (simp add: set_active_def)
qed (use assms in \<open>simp add: resolveDuplicateUsableActiveKeysForType_def\<close>)

lemma settle_loaded:
  assumes "settle_active e us ts (db, k) = (None, db', k')" and "active_loaded k"
    and "\<forall>r \<in> set us. ks_material k (kr_id r) \<noteq> None"
  shows "active_loaded k'"
  using assms
proof (induction ts arbitrary: db k)
  case (Cons t ts)
  show ?case
  proof (cases "filter (\<lambda>r. kr_type r = t) us" rule: list.exhaust [case_names none some])
    case none
    with Cons show ?thesis by simp
  next
    case (some r rs)
    then have mem: "set (r # rs) \<subseteq> set us" by (metis filter_is_subset)
    show ?thesis
    proof (cases rs)
      case Nil
      from mem Cons.prems(3) have "active_loaded (set_active t (kr_id r) k)"
        using set_active_loaded Cons.prems(2) by simp
      moreover have "ks_material (set_active t (kr_id r) k) = ks_material k" by (simp add: set_active_def)
      ultimately show ?thesis using Cons.IH [of db "set_active t (kr_id r) k"] Cons.prems some Nil by simp
    next
      case (Cons q qs)
      with some \<open>settle_active e us (t # ts) (db, k) = (None, db', k')\<close> obtain db1 k1 where
        d: "resolveDuplicateUsableActiveKeysForType (ke_retire_fault (e t)) t (r # rs) (db, k) = Inr (db1, k1)"
        and rest: "settle_active e us ts (db1, k1) = (None, db', k')"
        by (auto split: sum.splits)
      from resolve_loaded [OF d] mem Cons.prems(2,3) have "active_loaded k1 \<and> ks_material k1 = ks_material k" by blast
      with Cons.IH [OF rest] Cons.prems(3) show ?thesis by simp
    qed
  qed
qed simp

text \<open>Every id of the table is non-empty, which the insert and the updates keep.\<close>

definition ids_ok :: "kms_row list \<Rightarrow> bool" where
  "ids_ok db \<longleftrightarrow> [] \<notin> set (map kr_id db)"

lemma ids_okD: "ids_ok db \<Longrightarrow> r \<in> set db \<Longrightarrow> kr_id r \<noteq> []"
  by (force simp: ids_ok_def)

lemma retire_ids:
  assumes "retireDbKeys f rows (db, k) = Inr (db', k')"
  shows "ids_ok db' = ids_ok db"
proof -
  have "map kr_id (upd p (\<lambda>r. r\<lparr>kr_active := False\<rparr>) db) = map kr_id db" for p :: "kms_row \<Rightarrow> bool"
    by (rule map_upd_key) simp
  with assms show ?thesis by (auto simp: retireDbKeys_def ids_ok_def Let_def simp del: set_map split: if_splits option.splits)
qed

lemma hydrate_existing_ids:
  assumes "hydrateExistingActiveKeyForType u ss f g t (db, k) = Inr (b, db', k')"
  shows "ids_ok db' = ids_ok db"
  using assms
  by (auto simp: hydrateExistingActiveKeyForType_def Let_def bind_outcome_Inr_iff
      dest!: retire_ids split: option.splits list.splits)

lemma take_sort_sel:
  assumes "take n (sort_key f (sel P db)) = x # xs"
  shows "x \<in> set db \<and> P x"
proof -
  have "x \<in> set (take n (sort_key f (sel P db)))" using assms by simp
  then have "x \<in> set (sort_key f (sel P db))" by (rule in_set_takeD)
  then show ?thesis by (simp add: set_sel)
qed

lemma hydrate_existing_active:
  assumes "hydrateExistingActiveKeyForType u ss f g t (db, k) = Inr (True, db', k')" and "ids_ok db"
  shows "ks_active k' t \<noteq> [] \<and> (\<forall>t'. t' \<noteq> t \<longrightarrow> ks_active k' t' = ks_active k t')"
  using assms
  by (auto simp: hydrateExistingActiveKeyForType_def Let_def bind_outcome_Inr_iff registerHydratedDbKey_def
      dest!: take_sort_sel dest: ids_okD split: option.splits list.splits)

lemma provision_active:
  assumes "provisionNewKey e t v (db, k) = (None, db', k')" and "ids_ok db"
  shows "ids_ok db' \<and> ks_active k' t \<noteq> [] \<and> (\<forall>t'. t' \<noteq> t \<longrightarrow> ks_active k' t' = ks_active k t')"
proof (cases "insert_error (ke_insert_fault e) \<lparr>kr_id = new_key_id t v (ke_suffix e), kr_version = v, kr_type = t,
    kr_active = True, kr_wrapped = ke_wrapped e, kr_created = ke_now e\<rparr> db")
  case None
  with assms show ?thesis by (auto simp: provisionNewKey_def Let_def ids_ok_def)
next
  case (Some x)
  with assms(1) have "hydrateExistingActiveKeyForType (ke_unwrap e) (ke_secrets e) (ke_select_fault e)
      (ke_retire_fault e) t (db, k) = Inr (True, db', k')"
    by (auto simp: provisionNewKey_def Let_def split: if_splits sum.splits prod.splits)
  with hydrate_existing_active [OF this assms(2)] hydrate_existing_ids [OF this] assms(2) show ?thesis by blast
qed

lemma provision_missing_active:
  assumes "provision_missing e ts (db, k) = (None, db', k')" and "ids_ok db" and "active_loaded k"
  shows "active_loaded k' \<and> (\<forall>t. t \<in> set ts \<or> ks_active k t \<noteq> [] \<longrightarrow> ks_active k' t \<noteq> [])"
  using assms
proof (induction ts arbitrary: db k)
  case (Cons t ts)
  show ?case
  proof (cases "ks_active k t = []")
    case False
    with Cons show ?thesis by auto
  next
    case True
    with Cons.prems(1) obtain db1 k1 where
      p: "provisionNewKey (e t) t (next_version t k) (db, k) = (None, db1, k1)"
      and rest: "provision_missing e ts (db1, k1) = (None, db', k')"
      by (auto split: prod.splits option.splits)
    from provision_active [OF p Cons.prems(2)] provision_loaded [OF p Cons.prems(3)]
    have "ids_ok db1" "active_loaded k1" "ks_active k1 t \<noteq> []" "\<forall>t'. t' \<noteq> t \<longrightarrow> ks_active k1 t' = ks_active k t'" by auto
    with Cons.IH [OF rest] show ?thesis by (metis set_ConsD)
  qed
qed simp

lemma settle_ids:
  "settle_active e us ts (db, k) = (x, db', k') \<Longrightarrow> ids_ok db' = ids_ok db"
proof (induction ts arbitrary: db k)
  case (Cons t ts)
  then show ?case
    by (auto simp: resolveDuplicateUsableActiveKeysForType_def bind_outcome_def
        dest!: retire_ids split: list.splits sum.splits prod.splits)
qed simp

lemma init_active:
  assumes "init_kms e0 e db = (None, db', k')" and "ids_ok db"
  shows "ks_ready k' \<and> (\<forall>t. getActiveKey k' t \<noteq> None)"
proof -
  from assms(1) have ns: "ke_select_fault e0 = None" by (auto simp: init_kms_def split: option.splits)
  obtain k us un where h: "hydrate_rows e0 (sort_key (\<lambda>r. - kr_version r) db) empty_kms [] [] = (k, us, un)"
    by (metis prod_cases3)
  from hydrate_rows_loaded [OF h] have k: "active_loaded k" "\<forall>r \<in> set us. ks_material k (kr_id r) \<noteq> None"
    by (auto simp: active_loaded_def empty_kms_def)
  from assms(1) ns h obtain db1 k1 where r: "retireDbKeys (ke_retire_fault e0) un (db, k) = Inr (db1, k1)"
    by (auto simp: init_kms_def split: sum.splits)
  from retire_loaded [OF r] retire_ids [OF r] k assms(2) have
    k1: "active_loaded k1" "\<forall>r \<in> set us. ks_material k1 (kr_id r) \<noteq> None" "ids_ok db1" by auto
  from assms(1) ns h r obtain db2 k2 where s: "settle_active e us (distinct_first (map kr_type us)) (db1, k1) = (None, db2, k2)"
    by (auto simp: init_kms_def split: prod.splits option.splits)
  from settle_loaded [OF s k1(1,2)] settle_ids [OF s] k1(3) have k2: "active_loaded k2" "ids_ok db2" by auto
  from assms(1) ns h r s obtain k3 where m: "provision_missing e key_types (db2, k2) = (None, db', k3)"
    and k': "k' = k3\<lparr>ks_ready := True\<rparr>"
    by (auto simp: init_kms_def split: prod.splits option.splits)
  from provision_missing_active [OF m k2(2,1)] have "active_loaded k3" "\<forall>t \<in> set key_types. ks_active k3 t \<noteq> []" by auto
  moreover have "t \<in> set key_types" for t by (cases t) (simp_all add: key_types_def)
  ultimately show ?thesis unfolding k' by (auto simp: getActiveKey_def active_loaded_def)
qed

section \<open>A sample store\<close>

definition sample_env :: "string \<Rightarrow> key_type \<Rightarrow> kms_env" where
  "sample_env sfx t = \<lparr>ke_unwrap = (\<lambda>s w. Some w), ke_secrets = [''m''], ke_suffix = sfx,
     ke_key = sfx @ key_type_text t, ke_wrapped = sfx @ key_type_text t, ke_now = 0,
     ke_update_fault = None, ke_insert_fault = None, ke_select_fault = None, ke_retire_fault = None\<rparr>"

definition sample_kms :: kms_state where
  "sample_kms = snd (init_kms (sample_env ''a'' KT_Auth) (sample_env ''a'') [])"

lemma sample_init: "init_kms (sample_env ''a'' KT_Auth) (sample_env ''a'') [] = (None, sample_kms)"
proof -
  have "fst (init_kms (sample_env ''a'' KT_Auth) (sample_env ''a'') []) = None" by code_simp
  then show ?thesis by (metis sample_kms_def prod.collapse)
qed

lemma sample_kms_ok: "kms_ok sample_kms"
  by code_simp

section \<open>Properties\<close>

text \<open>A start that succeeds leaves an active key with its key material for every key type,
  whatever mix of usable, unusable and duplicate active rows the table held and whichever
  provisioning races were lost, provided no row has an empty id.\<close>

theorem init_provides_every_key:
  assumes "init_kms e0 e db = (None, db', k')" and "ids_ok db"
  shows "ks_ready k' \<and> (\<forall>t. getActiveKey k' t \<noteq> None)"
  by (rule init_active [OF assms])

theorem init_provides_every_key_witness:
  "ks_ready (snd sample_kms) \<and> (\<forall>t. getActiveKey (snd sample_kms) t \<noteq> None)"
  by (rule init_provides_every_key [of "sample_env ''a'' KT_Auth" "sample_env ''a''" "[]" "fst sample_kms"])
    (simp_all add: sample_init ids_ok_def)

end
