(* ===== verification/Crypto_Envelope.thy ===== *)
theory Crypto_Envelope
  imports Kms "HOL-Library.Countable"
begin

text \<open>
  Field encryption: \<open>backend/security/CryptoEnvelope.ts\<close>, \<open>DataProtection.ts\<close>,
  \<open>encryption.ts\<close> (the vault) and \<open>backend/payments/providers/ProviderSecretVault.ts\<close>.
  The AES-GCM calls and the base64 text of an envelope are parameters, collected in
  \<open>crypto\<close>; \<open>crypto_sound\<close> states what the code relies on.
\<close>

section \<open>Envelopes\<close>

text \<open>The sealed packet \<open>{v, ts, ctx}\<close> and the envelope with the sealed bytes.\<close>

datatype packet = Packet (pk_value: jsv) (pk_ts: int) (pk_domain: string) (pk_context: "(string \<times> jsv) list")
datatype envelope = Envelope (en_version: int) (en_sealed: string) (en_aad: string) (en_ts: int)

instance jsv :: countable by countable_datatype
instance packet :: countable by countable_datatype
instance envelope :: countable by countable_datatype

record crypto =
  cr_seal :: "string \<Rightarrow> string \<Rightarrow> packet \<Rightarrow> string"
  cr_open :: "string \<Rightarrow> string \<Rightarrow> string \<Rightarrow> packet option"
  cr_wire :: "envelope \<Rightarrow> string"
  cr_unwire :: "string \<Rightarrow> envelope option"

definition crypto_sound :: "crypto \<Rightarrow> bool" where
  "crypto_sound c \<longleftrightarrow> (\<forall>key aad p. cr_open c key aad (cr_seal c key aad p) = Some p) \<and>
     (\<forall>e. cr_unwire c (cr_wire c e) = Some e) \<and> (\<forall>e. CHR ''_'' \<notin> set (cr_wire c e))"

definition encrypted_prefix :: string where
  "encrypted_prefix = ''enc_v2_''"

definition isEncryptedEnvelope :: "jsv \<Rightarrow> bool" where
  "isEncryptedEnvelope v = (case v of JStr s \<Rightarrow> js_starts_with s ''enc_v'' | _ \<Rightarrow> False)"

definition aad_text :: "int \<Rightarrow> string \<Rightarrow> string" where
  "aad_text v domain = ''{\"v\":'' @ num_text (of_int v) @ '',\"origin\":\"ORBI_V3_CORE\",\"domain\":\"'' @ domain @ ''\"}''"

text \<open>The version in the envelope is the active version of the family ENCRYPTION, whichever family
  supplied the key. \<open>v\<close> is \<open>None\<close> for undefined.\<close>

definition encryptEnvelope ::
    "crypto \<Rightarrow> kms \<Rightarrow> int \<Rightarrow> jsv option \<Rightarrow> string \<Rightarrow> (string \<times> jsv) list \<Rightarrow> key_type \<Rightarrow> string outcome" where
  "encryptEnvelope c k now v domain ctx family =
     (case v of
        None \<Rightarrow> Inr []
      | Some x \<Rightarrow>
          (if x = JNull then Inr []
           else if isEncryptedEnvelope x then Inr (js_text x)
           else case getActiveKey k family of
               None \<Rightarrow> Inl (JsError ''Encryption key unavailable'' ''KMS_OFFLINE'')
             | Some key \<Rightarrow>
                 (let ver = getActiveVersion k KT_Encryption; aad = aad_text ver domain in
                  Inr (encrypted_prefix @ cr_wire c
                    (Envelope ver (cr_seal c key aad (Packet x now domain ctx)) aad now)))))"

definition decryptEnvelope :: "crypto \<Rightarrow> kms \<Rightarrow> string \<Rightarrow> key_type \<Rightarrow> jsv outcome" where
  "decryptEnvelope c k cipher family =
     (if \<not> isEncryptedEnvelope (JStr cipher) then Inr (JStr cipher)
      else case cr_unwire c (replace_first ''enc_v1_'' [] (replace_first ''enc_v2_'' [] cipher)) of
          None \<Rightarrow> Inl (JsError ''Encrypted payload parse failure'' ''INTEGRITY_FAIL'')
        | Some e \<Rightarrow>
            (case getKeyByVersion k family (en_version e) of
               None \<Rightarrow> Inl (JsError (''Missing encryption key version '' @ num_text (of_int (en_version e))) ''HEALING_REQUIRED'')
             | Some key \<Rightarrow>
                 (case cr_open c key (en_aad e) (en_sealed e) of
                    None \<Rightarrow> Inl (JsError ''Encrypted payload decrypt failure'' ''INTEGRITY_FAIL'')
                  | Some p \<Rightarrow> Inr (pk_value p))))"

section \<open>Typed fields\<close>

definition encryptValue :: "crypto \<Rightarrow> kms \<Rightarrow> int \<Rightarrow> jsv option \<Rightarrow> (string \<times> jsv) list \<Rightarrow> string outcome" where
  "encryptValue c k now v ctx = encryptEnvelope c k now v ''DATA_AT_REST'' ctx KT_Encryption"

definition encryptAmount :: "crypto \<Rightarrow> kms \<Rightarrow> int \<Rightarrow> rat \<Rightarrow> string outcome" where
  "encryptAmount c k now a = encryptEnvelope c k now (Some (JNum a)) ''FINANCIAL_AMOUNT'' [] KT_Encryption"

definition encryptDescription :: "crypto \<Rightarrow> kms \<Rightarrow> int \<Rightarrow> string \<Rightarrow> string outcome" where
  "encryptDescription c k now s = encryptEnvelope c k now (Some (JStr s)) ''FINANCIAL_DESCRIPTION'' [] KT_Encryption"

text \<open>A missing, null or empty cipher yields the fallback; a plain number or text is read as is.\<close>

definition decryptAmount :: "crypto \<Rightarrow> kms \<Rightarrow> jsv option \<Rightarrow> rat \<Rightarrow> rat outcome" where
  "decryptAmount c k v fallback =
     (case v of
        None \<Rightarrow> Inr fallback
      | Some x \<Rightarrow>
          (if x = JNull \<or> x = JStr [] then Inr fallback
           else case x of
               JNum a \<Rightarrow> Inr a
             | _ \<Rightarrow> bind_outcome (if isEncryptedEnvelope x then decryptEnvelope c k (js_text x) KT_Encryption else Inr x) (\<lambda>d.
                      case js_number d of
                        Some a \<Rightarrow> Inr a
                      | None \<Rightarrow> Inl (JsError (''Amount is not numeric: '' @ js_text d) ''INVALID_FINANCIAL_AMOUNT''))))"

definition decryptDescription :: "crypto \<Rightarrow> kms \<Rightarrow> jsv option \<Rightarrow> string \<Rightarrow> string outcome" where
  "decryptDescription c k v fallback =
     (case v of
        None \<Rightarrow> Inr fallback
      | Some x \<Rightarrow>
          (if x = JNull \<or> x = JStr [] then Inr fallback
           else case x of
               JStr s \<Rightarrow> bind_outcome (if isEncryptedEnvelope x then decryptEnvelope c k s KT_Encryption else Inr x) (\<lambda>d.
                      Inr (if d = JNull then fallback else js_text d))
             | _ \<Rightarrow> Inr (js_text x)))"

section \<open>The vault\<close>

definition integrity_fail :: string where
  "integrity_fail = ''[Security Integrity Error]''"

definition healing_required :: string where
  "healing_required = ''SENTINEL_HEALING_REQUIRED''"

definition vault_encrypt :: "crypto \<Rightarrow> kms \<Rightarrow> int \<Rightarrow> jsv option \<Rightarrow> (string \<times> jsv) list \<Rightarrow> string outcome" where
  "vault_encrypt c k now v ctx =
     (if v = None \<or> v = Some JNull then Inr [] else encryptEnvelope c k now v ''DATA_AT_REST'' ctx KT_Encryption)"

text \<open>Decryption never throws: a failure becomes one of two marker texts.\<close>

definition vault_decrypt :: "crypto \<Rightarrow> kms \<Rightarrow> jsv \<Rightarrow> jsv" where
  "vault_decrypt c k v =
     (if \<not> isEncryptedEnvelope v then v
      else case decryptEnvelope c k (js_text v) KT_Encryption of
          Inr x \<Rightarrow> x
        | Inl e \<Rightarrow> JStr (if err_code e = ''HEALING_REQUIRED'' then healing_required else integrity_fail))"

definition reKey :: "crypto \<Rightarrow> kms \<Rightarrow> int \<Rightarrow> string \<Rightarrow> string outcome" where
  "reKey c k now cipher =
     (if \<not> js_starts_with cipher ''enc_v'' then Inr cipher
      else let d = vault_decrypt c k (JStr cipher) in
        if d = JStr integrity_fail \<or> d = JStr healing_required then Inr cipher
        else encryptValue c k now (Some d) [])"

definition mapped_key :: "string \<Rightarrow> string" where
  "mapped_key k = (if k = ''wallet_id'' then ''walletId'' else if k = ''to_wallet_id'' then ''toWalletId''
     else if k = ''category_id'' then ''categoryId'' else if k = ''created_at'' then ''createdAt''
     else if k = ''updated_at'' then ''updatedAt'' else if k = ''status_notes'' then ''statusNotes'' else k)"

definition numeric_key :: "string \<Rightarrow> bool" where
  "numeric_key k \<longleftrightarrow> list_ex (js_includes (js_lower k))
     [''amount'', ''balance'', ''target'', ''current'', ''budget'', ''vat'', ''fee'', ''rate'']"

definition protected_node :: string where
  "protected_node = [CHR 0xF0, CHR 0x9F, CHR 0x94, CHR 0x92] @ '' Protected Node''"

definition translated_entry :: "string \<Rightarrow> jsv \<Rightarrow> jsv" where
  "translated_entry k v = (if v = JStr integrity_fail \<or> v = JStr healing_required
     then (if numeric_key k then JNum 0 else JStr protected_node) else v)"

fun translate :: "crypto \<Rightarrow> kms \<Rightarrow> jsv \<Rightarrow> jsv"
  and translate_list :: "crypto \<Rightarrow> kms \<Rightarrow> jsv list \<Rightarrow> jsv list"
  and translate_fields :: "crypto \<Rightarrow> kms \<Rightarrow> (string \<times> jsv) list \<Rightarrow> (string \<times> jsv) list \<Rightarrow> (string \<times> jsv) list" where
  "translate c k (JStr s) = (if js_starts_with s ''enc_v'' then vault_decrypt c k (JStr s) else JStr s)"
| "translate c k (JArr xs) = JArr (translate_list c k xs)"
| "translate c k (JObj kvs) = JObj (translate_fields c k kvs [])"
| "translate c k JNull = JNull"
| "translate c k (JBool b) = JBool b"
| "translate c k (JNum x) = JNum x"
| "translate_list c k [] = []"
| "translate_list c k (x # xs) = translate c k x # translate_list c k xs"
| "translate_fields c k [] res = res"
| "translate_fields c k ((f, v) # kvs) res =
     translate_fields c k kvs (obj_set res (mapped_key f) (translated_entry f (translate c k v)))"

section \<open>Provider secrets\<close>

definition ends_with :: "string \<Rightarrow> string \<Rightarrow> bool" where
  "ends_with s p = suffix p s"

definition wrapSecret :: "crypto \<Rightarrow> kms \<Rightarrow> int \<Rightarrow> string \<Rightarrow> string \<Rightarrow> (string \<times> jsv) list \<Rightarrow> string outcome" where
  "wrapSecret c k now v fld ctx =
     (if v = [] then Inr []
      else encryptEnvelope c k now (Some (JStr v))
        (if fld = ''token_cache'' \<or> ends_with fld ''_token'' then ''PROVIDER_TOKEN'' else ''PROVIDER_SECRET'')
        ((''field'', JStr fld) # ctx) KT_Secret_Wrapping)"

definition unwrapSecret :: "crypto \<Rightarrow> kms \<Rightarrow> jsv option \<Rightarrow> string outcome" where
  "unwrapSecret c k v =
     (case v of
        None \<Rightarrow> Inr []
      | Some x \<Rightarrow>
          (if \<not> truthy x then Inr []
           else case x of
               JStr s \<Rightarrow> (if \<not> isEncryptedEnvelope x then Inr s
                          else bind_outcome (decryptEnvelope c k s KT_Secret_Wrapping) (\<lambda>d. Inr (js_text d)))
             | _ \<Rightarrow> Inr (js_text x)))"

text \<open>The first candidate field, of the partner or of its stored secrets, whose text is not blank.
  \<open>??\<close> passes over null and undefined.\<close>

fun resolvePartnerSecret :: "crypto \<Rightarrow> kms \<Rightarrow> metadata \<Rightarrow> metadata \<Rightarrow> string list \<Rightarrow> string outcome" where
  "resolvePartnerSecret c k partner secrets [] = Inr []"
| "resolvePartnerSecret c k partner secrets (f # fs) =
     (let raw = (case partner f of Some v \<Rightarrow> if v = JNull then secrets f else Some v | None \<Rightarrow> secrets f) in
      bind_outcome (unwrapSecret c k raw) (\<lambda>s.
        if js_trim s \<noteq> [] then Inr s else resolvePartnerSecret c k partner secrets fs))"

section \<open>A sound instance\<close>

text \<open>A toy cipher that numbers its packets; it shows that \<open>crypto_sound\<close> can hold.\<close>

lemma digits_val_append: "digits_val a (xs @ ys) = Option.bind (digits_val a xs) (\<lambda>b. digits_val b ys)"
  by (induction xs arbitrary: a) (auto split: option.splits)

lemma digit_val_digit: "d < 10 \<Longrightarrow> digit_val (char_of (d + 48)) = Some d"
  by (simp add: digit_val_def Let_def)

lemma nat_text_digits: "digits_val 0 (nat_text n) = Some n"
proof (induction n rule: nat_text.induct)
  case (1 n)
  then show ?case
    by (subst nat_text.simps) (auto simp: digits_val_append digit_val_digit)
qed

lemma nat_text_chars: "c \<in> set (nat_text n) \<Longrightarrow> \<exists>d < (10::nat). c = char_of (d + 48)"
proof (induction n rule: nat_text.induct)
  case (1 n)
  show ?case
  proof (cases "n < 10")
    case True
    with "1.prems" show ?thesis by (subst (asm) nat_text.simps) auto
  next
    case False
    with "1.prems" have "c \<in> set (nat_text (n div 10)) \<or> c = char_of (n mod 10 + 48)"
      by (subst (asm) nat_text.simps) auto
    with "1.IH" [OF False] show ?thesis by (auto intro: exI [of _ "n mod 10"])
  qed
qed

definition toy_crypto :: crypto where
  "toy_crypto = \<lparr>cr_seal = (\<lambda>key aad p. nat_text (to_nat (key, aad, p))),
     cr_open = (\<lambda>key aad s. case digits_val 0 s of None \<Rightarrow> None
        | Some n \<Rightarrow> (case from_nat n of (key', aad', p) \<Rightarrow> if key' = key \<and> aad' = aad then Some p else None)),
     cr_wire = (\<lambda>e. nat_text (to_nat e)),
     cr_unwire = (\<lambda>s. map_option from_nat (digits_val 0 s))\<rparr>"

lemma toy_sound: "crypto_sound toy_crypto"
proof -
  have "CHR ''_'' \<notin> set (nat_text n)" for n
  proof
    assume "CHR ''_'' \<in> set (nat_text n)"
    then obtain d :: nat where "d < 10" "CHR ''_'' = char_of (d + 48)" using nat_text_chars by blast
    then have "digit_val (CHR ''_'') = Some d" using digit_val_digit by simp
    then show False by (simp add: digit_val_def)
  qed
  then show ?thesis by (simp add: crypto_sound_def toy_crypto_def nat_text_digits)
qed

section \<open>What an envelope opens to\<close>

lemma replace_first_absent: "c \<in> set p \<Longrightarrow> c \<notin> set s \<Longrightarrow> replace_first p r s = s"
proof (induction s)
  case (Cons a s)
  have "\<not> prefix p (a # s)"
  proof
    assume "prefix p (a # s)"
    then have "set p \<subseteq> set (a # s)" by (rule set_mono_prefix)
    with Cons.prems show False by blast
  qed
  with Cons show ?case by simp
qed auto

lemma unwrap_prefix:
  assumes "CHR ''_'' \<notin> set w"
  shows "replace_first ''enc_v1_'' [] (replace_first ''enc_v2_'' [] (encrypted_prefix @ w)) = w"
proof -
  have "replace_first ''enc_v2_'' [] (encrypted_prefix @ w) = w" by (simp add: encrypted_prefix_def)
  with replace_first_absent [of "CHR ''_''" "''enc_v1_''" w "[]"] assms show ?thesis by simp
qed

lemma encrypted_prefix_envelope [simp]: "isEncryptedEnvelope (JStr (encrypted_prefix @ w))"
  by (simp add: isEncryptedEnvelope_def js_starts_with_def encrypted_prefix_def)

lemma decrypt_encrypt:
  assumes "crypto_sound c" and "encryptEnvelope c k now (Some v) domain ctx family = Inr w"
    and "v \<noteq> JNull" and "\<not> isEncryptedEnvelope v"
  shows "decryptEnvelope c k' w family' =
    (case getKeyByVersion k' family' (getActiveVersion k KT_Encryption) of
       None \<Rightarrow> Inl (JsError (''Missing encryption key version '' @ num_text (of_int (getActiveVersion k KT_Encryption))) ''HEALING_REQUIRED'')
     | Some key' \<Rightarrow>
         (if getActiveKey k family = Some key' then Inr v
          else decryptEnvelope c k' w family')) \<and> isEncryptedEnvelope (JStr w)"
proof -
  from assms obtain key where key: "getActiveKey k family = Some key" and
    w: "w = encrypted_prefix @ cr_wire c (Envelope (getActiveVersion k KT_Encryption)
      (cr_seal c key (aad_text (getActiveVersion k KT_Encryption) domain) (Packet v now domain ctx))
      (aad_text (getActiveVersion k KT_Encryption) domain) now)"
    by (auto simp: encryptEnvelope_def Let_def split: option.splits if_splits)
  from assms(1) have us: "\<And>e. CHR ''_'' \<notin> set (cr_wire c e)" "\<And>e. cr_unwire c (cr_wire c e) = Some e"
    "\<And>key aad p. cr_open c key aad (cr_seal c key aad p) = Some p" by (auto simp: crypto_sound_def)
  have e: "isEncryptedEnvelope (JStr w)" unfolding w by simp
  have "decryptEnvelope c k' w family' =
    (case getKeyByVersion k' family' (getActiveVersion k KT_Encryption) of
       None \<Rightarrow> Inl (JsError (''Missing encryption key version '' @ num_text (of_int (getActiveVersion k KT_Encryption))) ''HEALING_REQUIRED'')
     | Some key' \<Rightarrow>
         (if getActiveKey k family = Some key' then Inr v
          else decryptEnvelope c k' w family'))"
    using e key by (auto simp: decryptEnvelope_def w unwrap_prefix [OF us(1)] us(2,3) split: option.splits)
  with e show ?thesis by blast
qed

section \<open>Properties\<close>

text \<open>C6: An encrypted amount stays readable: whatever rotations of whatever key types follow, each
  of which may fail at any database call, decrypting it yields the amount that was encrypted.\<close>

theorem amount_survives_rotations:
  assumes "crypto_sound c" and "kms_ok s" and "ks_active (snd s) KT_Encryption \<noteq> []"
    and "encryptAmount c (snd s) now a = Inr w"
  shows "decryptAmount c (snd (rotations rs s)) (Some (JStr w)) fallback = Inr a"
proof -
  have enc: "encryptEnvelope c (snd s) now (Some (JNum a)) ''FINANCIAL_AMOUNT'' [] KT_Encryption = Inr w"
    using assms(4) by (simp add: encryptAmount_def)
  have plain: "\<not> isEncryptedEnvelope (JNum a)" by (simp add: isEncryptedEnvelope_def)
  from enc plain obtain key where key: "getActiveKey (snd s) KT_Encryption = Some key"
    by (auto simp: encryptEnvelope_def split: option.splits)
  from rotations_key [OF assms(2) active_version_key [OF assms(2) key assms(3)]]
  have "getKeyByVersion (snd (rotations rs s)) KT_Encryption (getActiveVersion (snd s) KT_Encryption) = Some key" .
  with decrypt_encrypt [OF assms(1) enc _ plain, of "snd (rotations rs s)" KT_Encryption] key
  have "decryptEnvelope c (snd (rotations rs s)) w KT_Encryption = Inr (JNum a)" "isEncryptedEnvelope (JStr w)" by simp_all
  then show ?thesis by (auto simp: decryptAmount_def js_number_def isEncryptedEnvelope_def js_starts_with_def)
qed

lemma sample_encrypts: "\<exists>w. encryptAmount toy_crypto (snd sample_kms) 0 250 = Inr w"
proof -
  have "getActiveKey (snd sample_kms) KT_Encryption = Some ''aENCRYPTION''" by code_simp
  then show ?thesis by (simp add: encryptAmount_def encryptEnvelope_def isEncryptedEnvelope_def Let_def)
qed

lemma sample_active: "ks_active (snd sample_kms) KT_Encryption \<noteq> []"
  by code_simp

theorem amount_survives_rotations_witness:
  "\<exists>w. encryptAmount toy_crypto (snd sample_kms) 0 250 = Inr w \<and>
     decryptAmount toy_crypto (snd (rotations [(sample_env ''b'' KT_Encryption, KT_Encryption)] sample_kms)) (Some (JStr w)) 0 = Inr 250"
  using sample_encrypts amount_survives_rotations [OF toy_sound sample_kms_ok sample_active] by blast

text \<open>C31: A provider secret is wrapped with the active SECRET_WRAPPING key but stamped with the
  active version of the ENCRYPTION family: when that version is not one of the wrapping keys,
  as it is after the first rotation of the encryption key alone, every secret wrapped from then
  on fails to unwrap with HEALING_REQUIRED.\<close>

theorem wrapped_secret_lost:
  assumes "crypto_sound c" and "wrapSecret c k now v fld ctx = Inr w" and "v \<noteq> []"
    and "\<not> isEncryptedEnvelope (JStr v)"
    and "getKeyByVersion k KT_Secret_Wrapping (getActiveVersion k KT_Encryption) = None"
  shows "\<exists>m. unwrapSecret c k (Some (JStr w)) = Inl (JsError m ''HEALING_REQUIRED'')"
proof -
  from assms(2,3) obtain domain ctx' where
    "encryptEnvelope c k now (Some (JStr v)) domain ctx' KT_Secret_Wrapping = Inr w" by (auto simp: wrapSecret_def)
  from decrypt_encrypt [OF assms(1) this _ assms(4), of k KT_Secret_Wrapping] assms(5)
  have "\<exists>m. decryptEnvelope c k w KT_Secret_Wrapping = Inl (JsError m ''HEALING_REQUIRED'')"
    and "isEncryptedEnvelope (JStr w)" by auto
  moreover from this(2) have "w \<noteq> []" by (auto simp: isEncryptedEnvelope_def js_starts_with_def)
  ultimately show ?thesis by (auto simp: unwrapSecret_def)
qed

theorem wrapped_secret_lost_witness:
  "\<exists>w m. wrapSecret toy_crypto (snd (rotations [(sample_env ''b'' KT_Encryption, KT_Encryption)] sample_kms)) 0 ''pw'' ''api_key'' [] = Inr w \<and>
     unwrapSecret toy_crypto (snd (rotations [(sample_env ''b'' KT_Encryption, KT_Encryption)] sample_kms)) (Some (JStr w)) =
       Inl (JsError m ''HEALING_REQUIRED'')"
proof -
  let ?k = "snd (rotations [(sample_env ''b'' KT_Encryption, KT_Encryption)] sample_kms)"
  have key: "getActiveKey ?k KT_Secret_Wrapping = Some ''aSECRET_WRAPPING''" by code_simp
  have none: "getKeyByVersion ?k KT_Secret_Wrapping (getActiveVersion ?k KT_Encryption) = None" by code_simp
  have plain: "\<not> isEncryptedEnvelope (JStr ''pw'')" by (simp add: isEncryptedEnvelope_def js_starts_with_def)
  obtain w where w: "wrapSecret toy_crypto ?k 0 ''pw'' ''api_key'' [] = Inr w"
    using key plain by (simp add: wrapSecret_def encryptEnvelope_def Let_def del: rotations.simps)
  from wrapped_secret_lost [OF toy_sound w _ plain none] w show ?thesis by auto
qed

end
