(* ===== verification/Kms_Recovery.thy ===== *)
theory Kms_Recovery
  imports Kms
begin

text \<open>
  The master secret of the key store (\<open>backend/security/kms.ts\<close>): which secrets a start tries, the keys of a process
  without a database, and the re-wrapping of all keys under a new secret.

  The derivation of a key, its wrapping and the unwrapping are parameters.
\<close>

section \<open>Secrets\<close>

text \<open>The secret of \<open>platform_configs\<close> comes before that of the environment; a failed query counts as no secret.\<close>

definition getPossibleSecrets :: "string option \<Rightarrow> string option \<Rightarrow> string list outcome" where
  "getPossibleSecrets config environment =
     (let ss = distinct_first (filter (\<lambda>s. s \<noteq> []) (List.map_filter id [config, environment])) in
      if ss = [] then throw ''[KMS] Master secret is not configured.'' else Inr ss)"

section \<open>Without a database\<close>

definition deterministic_id :: "key_type \<Rightarrow> string" where
  "deterministic_id t = ''key-v1-det-'' @ js_lower (key_type_text t)"

definition det_register :: "(key_type \<Rightarrow> string) \<Rightarrow> key_type \<Rightarrow> kms \<Rightarrow> kms" where
  "det_register derive t k = k\<lparr>
     ks_keys := map_set \<lparr>km_id = deterministic_id t, km_version = 1, km_type = t, km_active = True, km_wrapped = ''DETERMINISTIC''\<rparr> (ks_keys k),
     ks_material := (ks_material k)(deterministic_id t \<mapsto> derive t), ks_active := (ks_active k)(t := deterministic_id t)\<rparr>"

definition initDeterministic :: "(string \<Rightarrow> key_type \<Rightarrow> string) \<Rightarrow> string \<Rightarrow> kms \<Rightarrow> kms" where
  "initDeterministic derive secret k = (fold (det_register (derive secret)) key_types k)\<lparr>ks_ready := True\<rparr>"

text \<open>\<open>init\<close> when there is no database or its keys cannot be read: an error in production, else derived keys.\<close>

definition init_without_db :: "(string \<Rightarrow> key_type \<Rightarrow> string) \<Rightarrow> bool \<Rightarrow> string \<Rightarrow> string list outcome \<Rightarrow> kms \<Rightarrow> kms outcome" where
  "init_without_db derive production msg secrets k =
     (if production then throw msg
      else bind_outcome secrets (\<lambda>ss. Inr (initDeterministic derive (hd ss) k)))"

section \<open>Re-wrapping\<close>

text \<open>
  Every key in memory is wrapped under the new secret and written, one update at a time; \<open>fault\<close> is the error of the
  update of a key. The first error ends the loop.
\<close>

fun rewrap_keys ::
    "(string \<Rightarrow> string \<Rightarrow> string) \<Rightarrow> string \<Rightarrow> (string \<Rightarrow> js_error option) \<Rightarrow> key_meta list \<Rightarrow> kms_state \<Rightarrow> js_error option \<times> kms_state" where
  "rewrap_keys wrap new fault [] s = (None, s)"
| "rewrap_keys wrap new fault (m # ms) s =
     (case ks_material (snd s) (km_id m) of
        None \<Rightarrow> rewrap_keys wrap new fault ms s
      | Some key \<Rightarrow>
          (case fault (km_id m) of
             Some e \<Rightarrow> (Some e, s)
           | None \<Rightarrow> rewrap_keys wrap new fault ms
               (upd (\<lambda>r. kr_id r = km_id m) (\<lambda>r. r\<lparr>kr_wrapped := wrap new key\<rparr>) (fst s),
                (snd s)\<lparr>ks_keys := map (\<lambda>x. if km_id x = km_id m then x\<lparr>km_wrapped := wrap new key\<rparr> else x) (ks_keys (snd s))\<rparr>)))"

text \<open>
  The new secret is recorded last, and the error of that write is not looked at. Without a conflict column the \<open>upsert\<close>
  of \<open>services/localPostgresClient.ts\<close> is an insert with \<open>ON CONFLICT DO NOTHING\<close>, which keeps a secret that is there;
  the one of the Supabase client (\<open>on_server\<close>) overwrites it.
\<close>

definition record_secret :: "bool \<Rightarrow> bool \<Rightarrow> string \<Rightarrow> string option \<Rightarrow> string option" where
  "record_secret on_server fails new cfg = (if fails \<or> \<not> on_server \<and> cfg \<noteq> None then cfg else Some new)"

definition reWrapAllKeys ::
    "(string \<Rightarrow> string \<Rightarrow> string) \<Rightarrow> string \<Rightarrow> (string \<Rightarrow> js_error option) \<Rightarrow> bool \<Rightarrow> bool \<Rightarrow> string option \<times> kms_state \<Rightarrow>
     js_error option \<times> string option \<times> kms_state" where
  "reWrapAllKeys wrap new fault on_server fails s =
     (case rewrap_keys wrap new fault (ks_keys (snd (snd s))) (snd s) of
        (Some e, t) \<Rightarrow> (Some e, fst s, t)
      | (None, t) \<Rightarrow> (None, record_secret on_server fails new (fst s), t))"

text \<open>A wrapped key opens under its own secret only (AES-GCM authenticates the key it is opened with).\<close>

definition wrapping_sound :: "(string \<Rightarrow> string \<Rightarrow> string) \<Rightarrow> (string \<Rightarrow> string \<Rightarrow> string option) \<Rightarrow> bool" where
  "wrapping_sound wrap unwrap \<longleftrightarrow> (\<forall>s s' key. unwrap s' (wrap s key) = (if s' = s then Some key else None))"

text \<open>Every row of the table is loaded.\<close>

definition all_loaded :: "kms_state \<Rightarrow> bool" where
  "all_loaded s \<longleftrightarrow> (\<forall>r \<in> set (fst s). kr_id r \<in> km_id ` set (ks_keys (snd s)) \<and> ks_material (snd s) (kr_id r) \<noteq> None)"

lemma rewrap_material: "rewrap_keys wrap new fault ms s = (x, t) \<Longrightarrow> ks_material (snd t) = ks_material (snd s)"
  by (induction wrap new fault ms s rule: rewrap_keys.induct) (auto split: option.splits)

lemma rewrap_rows:
  "rewrap_keys wrap new fault ms s = (None, t) \<Longrightarrow> r' \<in> set (fst t) \<Longrightarrow>
     \<exists>r \<in> set (fst s). kr_id r' = kr_id r \<and> kr_wrapped r' = (case ks_material (snd s) (kr_id r) of
        Some key \<Rightarrow> if kr_id r \<in> km_id ` set ms then wrap new key else kr_wrapped r | None \<Rightarrow> kr_wrapped r)"
proof (induction wrap new fault ms s rule: rewrap_keys.induct)
  case (2 wrap new fault m ms s)
  show ?case
  proof (cases "ks_material (snd s) (km_id m)")
    case None
    with 2 obtain r where "r \<in> set (fst s)" "kr_id r' = kr_id r" "kr_wrapped r' = (case ks_material (snd s) (kr_id r) of
        Some key \<Rightarrow> if kr_id r \<in> km_id ` set ms then wrap new key else kr_wrapped r | None \<Rightarrow> kr_wrapped r)" by auto
    with None show ?thesis by (intro bexI [of _ r]) (auto split: option.splits)
  next
    case (Some key)
    let ?s = "(upd (\<lambda>r. kr_id r = km_id m) (\<lambda>r. r\<lparr>kr_wrapped := wrap new key\<rparr>) (fst s),
      (snd s)\<lparr>ks_keys := map (\<lambda>x. if km_id x = km_id m then x\<lparr>km_wrapped := wrap new key\<rparr> else x) (ks_keys (snd s))\<rparr>)"
    from Some "2.prems"(1) have f: "fault (km_id m) = None" by (auto split: option.splits)
    with Some "2.prems"(1) have "rewrap_keys wrap new fault ms ?s = (None, t)" by simp
    from "2.IH"(2) [OF Some f this "2.prems"(2)] obtain r1 where r1: "r1 \<in> set (fst ?s)" "kr_id r' = kr_id r1"
        "kr_wrapped r' = (case ks_material (snd s) (kr_id r1) of
          Some key \<Rightarrow> if kr_id r1 \<in> km_id ` set ms then wrap new key else kr_wrapped r1 | None \<Rightarrow> kr_wrapped r1)" by auto
    from r1(1) obtain r where r: "r \<in> set (fst s)" "r1 = (if kr_id r = km_id m then r\<lparr>kr_wrapped := wrap new key\<rparr> else r)"
      by (auto simp: in_set_upd)
    with r1 Some show ?thesis by (intro bexI [of _ r]) (auto split: option.splits if_splits)
  qed
next
  case (1 wrap new fault s)
  then show ?case by (intro bexI [of _ r']) (auto split: option.splits)
qed

lemma try_unwrap_wrapped:
  "wrapping_sound wrap unwrap \<Longrightarrow> kr_wrapped r = wrap new key \<Longrightarrow>
     tryUnwrapDbKeyWithKnownSecrets unwrap ss r = (if new \<in> set ss then Some key else None)"
  by (induction ss) (auto simp: wrapping_sound_def split: option.splits)

section \<open>The next start\<close>

lemma hydrate_readable:
  "\<forall>r \<in> set rows. tryUnwrapDbKeyWithKnownSecrets (ke_unwrap e) (ke_secrets e) r = f (kr_id r) \<and> f (kr_id r) \<noteq> None \<Longrightarrow>
     hydrate_rows e rows k us un = (k', us', un') \<Longrightarrow>
     un' = un \<and> (\<forall>i. ks_material k' i = (if i \<in> kr_id ` set rows then f i else ks_material k i))"
proof (induction e rows k us un rule: hydrate_rows.induct)
  case (2 e r rs k us un)
  then obtain key where "tryUnwrapDbKeyWithKnownSecrets (ke_unwrap e) (ke_secrets e) r = Some key" "f (kr_id r) = Some key" by auto
  with 2 show ?case by (auto simp: registerHydratedDbKey_def)
qed simp

lemma hydrate_unreadable:
  "\<forall>r \<in> set rows. tryUnwrapDbKeyWithKnownSecrets (ke_unwrap e) (ke_secrets e) r = None \<Longrightarrow>
     hydrate_rows e rows k us un = (k, us, un @ filter kr_active rows)"
  by (induction e rows k us un rule: hydrate_rows.induct) auto

lemma possible_secrets: "getPossibleSecrets cfg env = Inr ss \<Longrightarrow> set ss = {s. s \<noteq> [] \<and> (cfg = Some s \<or> env = Some s)}"
  by (cases cfg; cases env) (auto simp: getPossibleSecrets_def distinct_first_def Let_def split: if_splits)

lemma rewrapped_row:
  assumes "wrapping_sound wrap unwrap" and "all_loaded s" and "reWrapAllKeys wrap new fault srv rf (cfg, s) = (None, cfg', t)" and "r \<in> set (fst t)"
  shows "tryUnwrapDbKeyWithKnownSecrets unwrap ss r = (if new \<in> set ss then ks_material (snd s) (kr_id r) else None) \<and>
    ks_material (snd s) (kr_id r) \<noteq> None"
proof -
  from assms(3) have k: "rewrap_keys wrap new fault (ks_keys (snd s)) s = (None, t)"
    by (auto simp: reWrapAllKeys_def split: prod.splits option.splits)
  from rewrap_rows [OF k assms(4)] obtain q where q: "q \<in> set (fst s)" "kr_id r = kr_id q"
      "kr_wrapped r = (case ks_material (snd s) (kr_id q) of
        Some key \<Rightarrow> if kr_id q \<in> km_id ` set (ks_keys (snd s)) then wrap new key else kr_wrapped q | None \<Rightarrow> kr_wrapped q)" by blast
  from assms(2) q(1) have "kr_id q \<in> km_id ` set (ks_keys (snd s))" "ks_material (snd s) (kr_id q) \<noteq> None"
    by (auto simp: all_loaded_def)
  then obtain key where key: "ks_material (snd s) (kr_id q) = Some key" by blast
  with q(2,3) \<open>kr_id q \<in> km_id ` set (ks_keys (snd s))\<close> have "kr_wrapped r = wrap new key" by simp
  from try_unwrap_wrapped [OF assms(1) this, of ss] key q(2) show ?thesis by simp
qed

section \<open>Properties\<close>

text \<open>C33: A re-wrapping of all keys that returns normally has either recorded its secret, and then the next start loads
  every row of the table with the key material the process had; or it has not, because the write failed or because a secret was
  recorded before and the local database client keeps it, and then the next start, which knows the old secrets only, can read
  no row and retires every active key: nothing encrypted so far can be decrypted any more. The new secret is no old
  one, and all rows were loaded.\<close>

theorem rewrap_survives_if_recorded:
  assumes "wrapping_sound wrap (ke_unwrap e)" and "all_loaded s" and "new \<noteq> []" and "cfg \<noteq> Some new" and "env \<noteq> Some new"
    and "reWrapAllKeys wrap new fault on_server fails (cfg, s) = (None, cfg', t)"
    and "getPossibleSecrets cfg' env = Inr (ke_secrets e)"
    and "hydrate_rows e (sort_key (\<lambda>r. - kr_version r) (fst t)) empty_kms [] [] = (k, usable, unusable)"
  shows "if fails \<or> \<not> on_server \<and> cfg \<noteq> None
    then k = empty_kms \<and> usable = [] \<and> set unusable = {r \<in> set (fst t). kr_active r}
    else unusable = [] \<and> (\<forall>r \<in> set (fst t). ks_material k (kr_id r) = ks_material (snd s) (kr_id r))"
proof -
  let ?lost = "fails \<or> \<not> on_server \<and> cfg \<noteq> None"
  have cfg': "cfg' = (if ?lost then cfg else Some new)"
    using assms(6) by (auto simp: reWrapAllKeys_def record_secret_def split: prod.splits option.splits)
  have known: "new \<in> set (ke_secrets e) \<longleftrightarrow> \<not> ?lost"
    using possible_secrets [OF assms(7)] assms(3-5) cfg' by auto
  note row = rewrapped_row [OF assms(1,2,6)]
  show ?thesis
  proof (cases ?lost)
    case True
    have "hydrate_rows e (sort_key (\<lambda>r. - kr_version r) (fst t)) empty_kms [] [] =
        (empty_kms, [], [] @ filter kr_active (sort_key (\<lambda>r. - kr_version r) (fst t)))"
      by (rule hydrate_unreadable) (use row known True in auto)
    with assms(8) True show ?thesis by auto
  next
    case False
    have "\<forall>r \<in> set (sort_key (\<lambda>r. - kr_version r) (fst t)). tryUnwrapDbKeyWithKnownSecrets (ke_unwrap e) (ke_secrets e) r =
        ks_material (snd s) (kr_id r) \<and> ks_material (snd s) (kr_id r) \<noteq> None"
      using row known False by auto
    from hydrate_readable [OF this assms(8)] False show ?thesis by (simp only: if_False) simp
  qed
qed

text \<open>A toy wrapping that writes the secret before the key.\<close>

definition toy_wrap :: "string \<Rightarrow> string \<Rightarrow> string" where
  "toy_wrap s key = concat (map (\<lambda>c. [CHR ''a'', c]) s) @ CHR ''b'' # key"

fun toy_unwrap :: "string \<Rightarrow> string \<Rightarrow> string option" where
  "toy_unwrap [] [] = None"
| "toy_unwrap [] (x # w) = (if x = CHR ''b'' then Some w else None)"
| "toy_unwrap (c # s) (x # y # w) = (if x = CHR ''a'' \<and> y = c then toy_unwrap s w else None)"
| "toy_unwrap (c # s) w = None"

lemma toy_wrapping_sound: "wrapping_sound toy_wrap toy_unwrap"
proof -
  have "toy_unwrap s' (toy_wrap s key) = (if s' = s then Some key else None)" for s s' key
  proof (induction s' arbitrary: s)
    case Nil
    show ?case by (cases s) (simp_all add: toy_wrap_def)
  next
    case (Cons c s')
    show ?case
    proof (cases s)
      case Nil
      then show ?thesis by (cases key) (simp_all add: toy_wrap_def)
    next
      case (Cons d r)
      then show ?thesis using Cons.IH [of r] by (auto simp: toy_wrap_def)
    qed
  qed
  then show ?thesis by (simp add: wrapping_sound_def)
qed

definition recovery_env :: "string list \<Rightarrow> kms_env" where
  "recovery_env ss = (sample_env ''b'' KT_Auth)\<lparr>ke_unwrap := toy_unwrap, ke_secrets := ss\<rparr>"

definition rewrapped :: "bool \<Rightarrow> js_error option \<times> string option \<times> kms_state" where
  "rewrapped on_server = reWrapAllKeys toy_wrap ''new'' (\<lambda>_. None) on_server False (Some ''m'', sample_kms)"

definition secrets_after :: "bool \<Rightarrow> string list" where
  "secrets_after on_server = [if on_server then ''new'' else ''m'', ''e'']"

definition restarted :: "bool \<Rightarrow> kms \<times> kms_row list \<times> kms_row list" where
  "restarted on_server = hydrate_rows (recovery_env (secrets_after on_server))
     (sort_key (\<lambda>r. - kr_version r) (fst (snd (snd (rewrapped on_server))))) empty_kms [] []"

theorem rewrap_survives_if_recorded_witness:
  "fst (restarted False) = empty_kms \<and> fst (snd (restarted False)) = [] \<and> snd (snd (restarted True)) = []"
proof -
  have l: "all_loaded sample_kms" by code_simp
  have r: "reWrapAllKeys toy_wrap ''new'' (\<lambda>_. None) f False (Some ''m'', sample_kms) =
      (None, (if f then Some ''new'' else Some ''m''), snd (snd (rewrapped f)))" for f
  proof -
    have "fst (rewrapped True) = None" "fst (rewrapped False) = None"
      "fst (snd (rewrapped True)) = Some ''new''" "fst (snd (rewrapped False)) = Some ''m''" by code_simp+
    then have "fst (rewrapped f) = None" "fst (snd (rewrapped f)) = (if f then Some ''new'' else Some ''m'')"
      by (cases f; simp only: if_True if_False simp_thms)+
    then show ?thesis unfolding rewrapped_def [symmetric] by (simp only: prod_eq_iff fst_conv snd_conv simp_thms)
  qed
  have s: "getPossibleSecrets (if f then Some ''new'' else Some ''m'') (Some ''e'') = Inr (ke_secrets (recovery_env (secrets_after f)))" for f
  proof -
    have "getPossibleSecrets (Some ''m'') (Some ''e'') = Inr [''m'', ''e'']" "getPossibleSecrets (Some ''new'') (Some ''e'') = Inr [''new'', ''e'']"
      by code_simp+
    then show ?thesis by (cases f) (simp_all add: recovery_env_def secrets_after_def)
  qed
  have h: "hydrate_rows (recovery_env (secrets_after f)) (sort_key (\<lambda>r. - kr_version r) (fst (snd (snd (rewrapped f))))) empty_kms [] []
      = (fst (restarted f), fst (snd (restarted f)), snd (snd (restarted f)))" for f
    unfolding restarted_def by simp
  have w: "wrapping_sound toy_wrap (ke_unwrap (recovery_env ss))" for ss using toy_wrapping_sound by (simp add: recovery_env_def)
  note th = rewrap_survives_if_recorded [OF w l _ _ _ r s h]
  from th [of True] th [of False] show ?thesis by simp
qed

end
