(* ===== verification/Platform_Fee.thy ===== *)
theory Platform_Fee
  imports Orbi_Prelude
begin

text \<open>
  \<open>backend/payments/PlatformFeeService.ts\<close>: the fee configurations of the platform, the two
  caches in front of their table, the choice of the configuration that applies to a payment
  and the computation of the fee.
\<close>

section \<open>Values\<close>

definition roundAmount :: "rat \<Rightarrow> rat" where
  "roundAmount x = of_int (js_round (x * 100)) / 100"

definition nullish :: "jsv option \<Rightarrow> bool" where
  "nullish v \<longleftrightarrow> v = None \<or> v = Some JNull"

text \<open>\<open>a ?? b ?? ...\<close>.\<close>

fun coalesce :: "jsv option list \<Rightarrow> jsv option" where
  "coalesce [] = None"
| "coalesce (v # vs) = (if nullish v then coalesce vs else v)"

definition text_of :: "jsv option \<Rightarrow> string" where
  "text_of v = (case v of None \<Rightarrow> [] | Some x \<Rightarrow> if x = JNull then [] else js_text x)"

definition normalizeNullableText :: "jsv option \<Rightarrow> string option" where
  "normalizeNullableText v = (let t = js_trim (text_of v) in if t = [] then None else Some (js_upper t))"

definition parseRate :: "jsv option \<Rightarrow> rat" where
  "parseRate v = (case number_coalesce v of None \<Rightarrow> 0 | Some x \<Rightarrow> x)"

definition parseAmount :: "jsv option \<Rightarrow> rat" where
  "parseAmount v = (case number_coalesce v of None \<Rightarrow> 0 | Some x \<Rightarrow> roundAmount x)"

definition parseNullableAmount :: "jsv option \<Rightarrow> rat option" where
  "parseNullableAmount v = (case v of None \<Rightarrow> None
     | Some x \<Rightarrow> if x = JNull \<or> x = JStr [] then None else map_option roundAmount (js_number x))"

text \<open>\<open>Number.parseInt(text, 10)\<close>: leading space, a sign, then the digits up to the first other
  character.\<close>

definition parse_int :: "string \<Rightarrow> int option" where
  "parse_int s0 =
     (let s = js_trim s0;
          neg = (take 1 s = ''-'');
          ds = takeWhile (\<lambda>c. digit_val c \<noteq> None) (if take 1 s = ''-'' \<or> take 1 s = ''+'' then drop 1 s else s) in
      if ds = [] then None
      else map_option (\<lambda>n. if neg then - int n else int n) (digits_val 0 ds))"

definition parseInteger :: "jsv option \<Rightarrow> int" where
  "parseInteger v = (case parse_int (if nullish v then ''100'' else text_of v) of None \<Rightarrow> 100 | Some n \<Rightarrow> n)"

section \<open>Configurations\<close>

record fee_config =
  fc_id :: string
  fc_name :: string
  fc_flow_code :: string
  fc_transaction_model :: "string option"
  fc_category_code :: "string option"
  fc_category_id :: "string option"
  fc_transaction_type :: "string option"
  fc_operation_type :: "string option"
  fc_direction :: "string option"
  fc_rail :: "string option"
  fc_channel :: "string option"
  fc_provider_id :: "string option"
  fc_currency :: "string option"
  fc_country_code :: "string option"
  fc_percentage_rate :: "rat option"
  fc_fixed_amount :: "rat option"
  fc_minimum_fee :: "rat option"
  fc_maximum_fee :: "rat option"
  fc_tax_rate :: "rat option"
  fc_gov_fee_rate :: "rat option"
  fc_stamp_duty_fixed :: "rat option"
  fc_priority :: "int option"
  fc_status :: string
  fc_metadata :: metadata
  fc_updated_at :: int

record fee_input =
  fi_flow_code :: string
  fi_amount :: "jsv option"
  fi_currency :: "string option"
  fi_provider_id :: "string option"
  fi_country_code :: "string option"
  fi_rail :: "string option"
  fi_channel :: "string option"
  fi_direction :: "string option"
  fi_transaction_model :: "string option"
  fi_category_code :: "string option"
  fi_category_id :: "string option"
  fi_operation_type :: "string option"
  fi_transaction_type :: "string option"
  fi_metadata :: metadata

section \<open>Choosing a configuration\<close>

definition matchesOptionalField :: "jsv option \<Rightarrow> jsv option \<Rightarrow> bool" where
  "matchesOptionalField cv iv =
     (if nullish cv \<or> js_trim (text_of cv) = [] then True
      else if nullish iv \<or> js_trim (text_of iv) = [] then False
      else js_upper (js_trim (text_of cv)) = js_upper (js_trim (text_of iv)))"

abbreviation col :: "string option \<Rightarrow> jsv option" where
  "col s \<equiv> map_option JStr s"

text \<open>\<open>config.x ?? config.metadata?.x\<close>.\<close>

definition col_or_metadata :: "fee_config \<Rightarrow> string option \<Rightarrow> string \<Rightarrow> jsv option" where
  "col_or_metadata c s k = (case s of Some t \<Rightarrow> Some (JStr t) | None \<Rightarrow> fc_metadata c k)"

text \<open>The eleven dimensions in the order the filters and the score list them.\<close>

definition config_dims :: "fee_config \<Rightarrow> jsv option list" where
  "config_dims c = [col (fc_provider_id c), col (fc_currency c), col (fc_country_code c), col (fc_rail c),
     col (fc_channel c), col (fc_direction c),
     col_or_metadata c (fc_transaction_model c) ''transaction_model'',
     col_or_metadata c (fc_category_code c) ''category_code'',
     col_or_metadata c (fc_category_id c) ''category_id'',
     col (fc_operation_type c), col (fc_transaction_type c)]"

definition input_dims :: "fee_input \<Rightarrow> jsv option list" where
  "input_dims i = (case fi_provider_id i of None \<Rightarrow> None | Some p \<Rightarrow> if p = [] then None else Some (JStr p)) #
     map (\<lambda>t. col (normalizeNullableText (col t)))
       [fi_currency i, fi_country_code i, fi_rail i, fi_channel i, fi_direction i, fi_transaction_model i,
        fi_category_code i, fi_category_id i, fi_operation_type i, fi_transaction_type i]"

definition specificityScore :: "fee_config \<Rightarrow> nat" where
  "specificityScore c = length (filter (\<lambda>v. \<not> nullish v \<and> js_trim (text_of v) \<noteq> []) (config_dims c))"

text \<open>\<open>Number(priority || 100)\<close>: a priority of 0 counts as 100.\<close>

definition effective_priority :: "fee_config \<Rightarrow> int" where
  "effective_priority c = (case fc_priority c of None \<Rightarrow> 100 | Some p \<Rightarrow> if p = 0 then 100 else p)"

definition config_matches :: "fee_input \<Rightarrow> fee_config \<Rightarrow> bool" where
  "config_matches i c = list_all2 matchesOptionalField (config_dims c) (input_dims i)"

definition selectBestConfig :: "fee_config list \<Rightarrow> fee_input \<Rightarrow> fee_config option" where
  "selectBestConfig cs i =
     (case sort_key (\<lambda>c. (- int (specificityScore c), effective_priority c)) (filter (config_matches i) cs) of
        [] \<Rightarrow> None
      | c # _ \<Rightarrow> Some c)"

section \<open>The fee\<close>

record fee_computation =
  fe_flow_code :: string
  fe_config_id :: "string option"
  fe_config_name :: string
  fe_currency :: string
  fe_amount :: rat
  fe_percentage_fee :: rat
  fe_service_fee :: rat
  fe_tax_amount :: rat
  fe_gov_fee_amount :: rat
  fe_stamp_duty :: rat
  fe_total_fee :: rat
  fe_net_amount :: rat

definition num_col :: "rat option \<Rightarrow> jsv option" where
  "num_col x = map_option JNum x"

definition service_fee :: "fee_config \<Rightarrow> rat \<Rightarrow> rat" where
  "service_fee c amount =
     (let pct = roundAmount (amount * parseRate (num_col (fc_percentage_rate c)));
          base = roundAmount (pct + parseAmount (num_col (fc_fixed_amount c)));
          low = parseAmount (num_col (fc_minimum_fee c));
          floored = (if low > 0 then max base low else base) in
      case parseNullableAmount (num_col (fc_maximum_fee c)) of None \<Rightarrow> floored | Some high \<Rightarrow> min floored high)"

definition computeFromConfig :: "fee_config \<Rightarrow> rat \<Rightarrow> string \<Rightarrow> fee_input \<Rightarrow> fee_computation" where
  "computeFromConfig c amount currency i =
     (let stamp = parseAmount (num_col (fc_stamp_duty_fixed c));
          service = service_fee c amount;
          tax = roundAmount (amount * parseRate (num_col (fc_tax_rate c)));
          gov = roundAmount (amount * parseRate (num_col (fc_gov_fee_rate c)));
          total = roundAmount (service + tax + gov + stamp) in
      \<lparr>fe_flow_code = js_upper (js_trim (if fc_flow_code c = [] then fi_flow_code i else fc_flow_code c)),
       fe_config_id = (if fc_id c = [] then None else Some (fc_id c)),
       fe_config_name = (if fc_name c = [] then ''CONFIGURED_FEE'' else fc_name c),
       fe_currency = currency, fe_amount = amount,
       fe_percentage_fee = roundAmount (amount * parseRate (num_col (fc_percentage_rate c))),
       fe_service_fee = service, fe_tax_amount = tax, fe_gov_fee_amount = gov, fe_stamp_duty = stamp,
       fe_total_fee = total, fe_net_amount = roundAmount (amount - total)\<rparr>)"

section \<open>Listing through the caches\<close>

record fee_filters =
  ff_flow_code :: "string option"
  ff_status :: "string option"
  ff_provider_id :: "string option"
  ff_currency :: "string option"
  ff_country_code :: "string option"
  ff_rail :: "string option"
  ff_transaction_model :: "string option"
  ff_category_code :: "string option"
  ff_category_id :: "string option"

text \<open>The JSON text of the normalised filters; its nine texts in order determine it.\<close>

definition buildCacheKey :: "fee_filters \<Rightarrow> string list" where
  "buildCacheKey f = map (\<lambda>t. js_upper (js_trim (text_or t []))) [ff_flow_code f, ff_status f] @
     [text_or (ff_provider_id f) []] @
     map (\<lambda>t. js_upper (js_trim (text_or t [])))
       [ff_currency f, ff_country_code f, ff_rail f, ff_transaction_model f, ff_category_code f] @
     [js_trim (text_or (ff_category_id f) [])]"

definition query_matches :: "fee_filters \<Rightarrow> fee_config \<Rightarrow> bool" where
  "query_matches f c \<longleftrightarrow>
     (text_or (ff_flow_code f) [] = [] \<or> fc_flow_code c = js_upper (js_trim (text_or (ff_flow_code f) []))) \<and>
     (text_or (ff_status f) [] = [] \<or> fc_status c = js_upper (js_trim (text_or (ff_status f) [])))"

text \<open>Ordered by flow code, priority (nulls last) and the newest update.\<close>

definition query_configs :: "fee_filters \<Rightarrow> fee_config list \<Rightarrow> fee_config list" where
  "query_configs f db = sort_key (\<lambda>c. (fc_flow_code c, (fc_priority c = None, case fc_priority c of None \<Rightarrow> 0 | Some p \<Rightarrow> p),
     - fc_updated_at c)) (filter (query_matches f) db)"

text \<open>A cache maps a key to its expiry and data; \<open>redis\<close> is \<open>None\<close> when there is no client or the
  cache is disabled. A failing Redis call is ignored.\<close>

type_synonym fee_cache = "string list \<Rightarrow> (int \<times> fee_config list) option"

definition cacheTtlMs :: int where
  "cacheTtlMs = 60 * 1000"

definition cache_hit :: "int \<Rightarrow> fee_cache \<Rightarrow> string list \<Rightarrow> fee_config list option" where
  "cache_hit now m k = (case m k of None \<Rightarrow> None | Some (e, d) \<Rightarrow> if now < e then Some d else None)"

definition listConfigs ::
    "int \<Rightarrow> bool \<Rightarrow> js_error option \<Rightarrow> fee_filters \<Rightarrow> fee_cache \<Rightarrow> fee_cache option \<Rightarrow> fee_config list \<Rightarrow>
     fee_config list outcome \<times> fee_cache \<times> fee_cache option" where
  "listConfigs now redis_fails db_fault f local redis db =
     (let k = buildCacheKey f; e = now + cacheTtlMs in
      case cache_hit now local k of
        Some d \<Rightarrow> (Inr d, local, redis)
      | None \<Rightarrow>
          (case (if redis_fails then None else Option.bind redis (\<lambda>r. cache_hit now r k)) of
             Some d \<Rightarrow> (Inr d, local(k \<mapsto> (e, d)), redis)
           | None \<Rightarrow>
               (case db_fault of
                  Some x \<Rightarrow> (throw (err_message x), local, redis)
                | None \<Rightarrow>
                    (let d = query_configs f db in
                     (Inr d, local(k \<mapsto> (e, d)),
                      (if redis_fails then redis else map_option (\<lambda>r. r(k \<mapsto> (e, d))) redis))))))"

definition fee_filters_of :: "fee_input \<Rightarrow> string \<Rightarrow> string \<Rightarrow> fee_filters" where
  "fee_filters_of i flow currency = \<lparr>ff_flow_code = Some flow, ff_status = Some ''ACTIVE'',
     ff_provider_id = fi_provider_id i, ff_currency = Some currency, ff_country_code = fi_country_code i,
     ff_rail = fi_rail i, ff_transaction_model = fi_transaction_model i,
     ff_category_code = fi_category_code i, ff_category_id = fi_category_id i\<rparr>"

definition fee_from_configs :: "fee_config list \<Rightarrow> fee_input \<Rightarrow> string \<Rightarrow> string \<Rightarrow> fee_computation outcome" where
  "fee_from_configs cs i flow currency =
     (case selectBestConfig cs i of
        None \<Rightarrow> throw (''PLATFORM_FEE_CONFIG_REQUIRED:'' @ flow @ '':'' @ currency @ '':'' @ text_or (fi_provider_id i) ''ANY'')
      | Some c \<Rightarrow> Inr (computeFromConfig c (parseAmount (fi_amount i)) currency i))"

definition resolveFee ::
    "int \<Rightarrow> bool \<Rightarrow> js_error option \<Rightarrow> fee_input \<Rightarrow> fee_cache \<Rightarrow> fee_cache option \<Rightarrow> fee_config list \<Rightarrow>
     fee_computation outcome \<times> fee_cache \<times> fee_cache option" where
  "resolveFee now redis_fails db_fault i local redis db =
     (let flow = js_upper (js_trim (fi_flow_code i));
          currency = js_upper (js_trim (text_or (fi_currency i) [])) in
      if currency = [] then (throw (''FEE_CURRENCY_REQUIRED:'' @ flow), local, redis)
      else case listConfigs now redis_fails db_fault (fee_filters_of i flow currency) local redis db of
          (r, local', redis') \<Rightarrow> (bind_outcome r (\<lambda>cs. fee_from_configs cs i flow currency), local', redis'))"

section \<open>Changing a configuration\<close>

text \<open>The payload is the map of its keys; \<open>cur\<close> is the existing row, if an id was given.\<close>

definition of_current :: "fee_config option \<Rightarrow> (fee_config \<Rightarrow> jsv option) \<Rightarrow> jsv option" where
  "of_current cur f = (case cur of None \<Rightarrow> None | Some c \<Rightarrow> f c)"

definition merged_metadata :: "metadata \<Rightarrow> fee_config option \<Rightarrow> string \<Rightarrow> jsv \<Rightarrow> metadata" where
  "merged_metadata p cur actor now =
     (let m0 = (case cur of None \<Rightarrow> (\<lambda>_. None) | Some c \<Rightarrow> fc_metadata c);
          pm = md_spread (\<lambda>_. None) (p ''metadata'');
          audit = obj_set (obj_set (obj_spread (obj_spread [] (m0 ''admin_audit'')) (pm ''admin_audit''))
                    ''updated_by'' (JStr actor)) ''updated_at'' now in
      (md_spread m0 (p ''metadata''))(''admin_audit'' \<mapsto> JObj audit))"

definition normalized_config :: "metadata \<Rightarrow> fee_config option \<Rightarrow> string \<Rightarrow> string \<Rightarrow> int \<Rightarrow> fee_config" where
  "normalized_config p cur cid actor now =
     (let t = (\<lambda>ks f. normalizeNullableText (coalesce (map p ks @ [of_current cur (\<lambda>c. col (f c))])));
          n = (\<lambda>ks f. coalesce (map p ks @ [of_current cur (\<lambda>c. num_col (f c))])) in
      \<lparr>fc_id = cid,
       fc_name = js_trim (text_of (coalesce [p ''name'', of_current cur (\<lambda>c. Some (JStr (fc_name c)))])),
       fc_flow_code = js_upper (js_trim (text_of (coalesce [p ''flowCode'', p ''flow_code'',
          of_current cur (\<lambda>c. Some (JStr (fc_flow_code c)))]))),
       fc_transaction_model = t [''transactionModel'', ''transaction_model''] fc_transaction_model,
       fc_category_code = t [''categoryCode'', ''category_code''] fc_category_code,
       fc_category_id = t [''categoryId'', ''category_id''] fc_category_id,
       fc_transaction_type = t [''transactionType'', ''transaction_type''] fc_transaction_type,
       fc_operation_type = t [''operationType'', ''operation_type''] fc_operation_type,
       fc_direction = t [''direction''] fc_direction, fc_rail = t [''rail''] fc_rail,
       fc_channel = t [''channel''] fc_channel,
       fc_provider_id = map_option js_text (coalesce [p ''providerId'', p ''provider_id'',
          of_current cur (\<lambda>c. col (fc_provider_id c))]),
       fc_currency = t [''currency''] fc_currency,
       fc_country_code = t [''countryCode'', ''country_code''] fc_country_code,
       fc_percentage_rate = Some (parseRate (n [''percentageRate'', ''percentage_rate''] fc_percentage_rate)),
       fc_fixed_amount = Some (parseAmount (n [''fixedAmount'', ''fixed_amount''] fc_fixed_amount)),
       fc_minimum_fee = Some (parseAmount (n [''minimumFee'', ''minimum_fee''] fc_minimum_fee)),
       fc_maximum_fee = parseNullableAmount (n [''maximumFee'', ''maximum_fee''] fc_maximum_fee),
       fc_tax_rate = Some (parseRate (n [''taxRate'', ''tax_rate''] fc_tax_rate)),
       fc_gov_fee_rate = Some (parseRate (n [''govFeeRate'', ''gov_fee_rate''] fc_gov_fee_rate)),
       fc_stamp_duty_fixed = Some (parseAmount (n [''stampDutyFixed'', ''stamp_duty_fixed''] fc_stamp_duty_fixed)),
       fc_priority = Some (parseInteger (coalesce [p ''priority'',
          of_current cur (\<lambda>c. map_option (\<lambda>x. JNum (of_int x)) (fc_priority c)), Some (JNum 100)])),
       fc_status = js_upper (js_trim (text_of (coalesce [p ''status'',
          of_current cur (\<lambda>c. Some (JStr (fc_status c))), Some (JStr ''ACTIVE'')]))),
       fc_metadata = merged_metadata p cur actor (JNum (of_int now)),
       fc_updated_at = now\<rparr>)"

text \<open>The local cache is cleared; the shared one is left to expire. \<open>fresh\<close> is the id the
  database generates for an insert.\<close>

definition upsertConfig ::
    "int \<Rightarrow> js_error option \<Rightarrow> string \<Rightarrow> metadata \<Rightarrow> string \<Rightarrow> string option \<Rightarrow> fee_cache \<Rightarrow> fee_config list \<Rightarrow>
     fee_config outcome \<times> fee_cache \<times> fee_config list" where
  "upsertConfig now fault fresh p actor cid local db =
     (let given = (case cid of None \<Rightarrow> None | Some i \<Rightarrow> if i = [] then None else Some i);
          cur = (case given of None \<Rightarrow> None | Some i \<Rightarrow> single (sel (\<lambda>c. fc_id c = i) db)) in
      if given \<noteq> None \<and> cur = None then (throw ''PLATFORM_FEE_CONFIG_NOT_FOUND'', local, db)
      else let c = normalized_config p cur (case given of None \<Rightarrow> fresh | Some i \<Rightarrow> i) actor now in
        if fc_name c = [] \<or> fc_flow_code c = [] then (throw ''INVALID_PLATFORM_FEE_CONFIG'', local, db)
        else case fault of
            Some e \<Rightarrow> (throw (err_message e), local, db)
          | None \<Rightarrow> (Inr c, (\<lambda>_. None),
              (case given of None \<Rightarrow> db @ [c] | Some i \<Rightarrow> upd (\<lambda>x. fc_id x = i) (\<lambda>_. c) db)))"

section \<open>Processes sharing the table\<close>

text \<open>Every process has its own cache; Redis and the table are shared.\<close>

record fee_world =
  fw_local :: "nat \<Rightarrow> fee_cache"
  fw_redis :: "fee_cache option"
  fw_db :: "fee_config list"

datatype fee_event =
    Ev_List nat bool "js_error option" fee_filters
  | Ev_Upsert nat "js_error option" string metadata string "string option"

fun fee_step :: "int \<Rightarrow> fee_event \<Rightarrow> fee_world \<Rightarrow> fee_world" where
  "fee_step now (Ev_List p rf x f) w =
     (case listConfigs now rf x f (fw_local w p) (fw_redis w) (fw_db w) of
        (_, l, r) \<Rightarrow> w\<lparr>fw_local := (fw_local w)(p := l), fw_redis := r\<rparr>)"
| "fee_step now (Ev_Upsert p x fresh pl actor cid) w =
     (case upsertConfig now x fresh pl actor cid (fw_local w p) (fw_db w) of
        (_, l, d) \<Rightarrow> w\<lparr>fw_local := (fw_local w)(p := l), fw_db := d\<rparr>)"

fun fee_run :: "(int \<times> fee_event) list \<Rightarrow> fee_world \<Rightarrow> fee_world" where
  "fee_run [] w = w"
| "fee_run ((now, e) # es) w = fee_run es (fee_step now e w)"

end
