(* ===== verification/Fee_Properties.thy ===== *)
theory Fee_Properties
  imports Platform_Fee
begin

text \<open>
  Properties of the platform fees: the choice of the configuration, the arithmetic of the fee
  and how long a changed configuration can stay hidden behind the two caches.
\<close>

section \<open>Two decimals\<close>

definition scale2 :: "rat \<Rightarrow> bool" where
  "scale2 x \<longleftrightarrow> x * 100 \<in> \<int>"

lemma scale2_add [intro]: "scale2 a \<Longrightarrow> scale2 b \<Longrightarrow> scale2 (a + b)"
  by (simp add: scale2_def distrib_right)

lemma scale2_diff [intro]: "scale2 a \<Longrightarrow> scale2 b \<Longrightarrow> scale2 (a - b)"
  by (simp add: scale2_def left_diff_distrib)

lemma scale2_max_min [intro]: "scale2 a \<Longrightarrow> scale2 b \<Longrightarrow> scale2 (max a b)" "scale2 a \<Longrightarrow> scale2 b \<Longrightarrow> scale2 (min a b)"
  by (simp_all add: max_def min_def)

lemma scale2_round [simp, intro]: "scale2 (roundAmount x)"
  by (simp add: scale2_def roundAmount_def)

lemma scale2_0 [simp]: "scale2 0"
  by (simp add: scale2_def)

lemma round_exact: "scale2 x \<Longrightarrow> roundAmount x = x"
proof -
  assume "scale2 x"
  then have i: "x * 100 \<in> \<int>" by (simp add: scale2_def)
  then show ?thesis unfolding roundAmount_def js_round_def floor_int_half [OF i]
    by (simp add: of_int_floor_cancel)
qed

lemma scale2_parse [simp, intro]: "scale2 (parseAmount v)" "parseNullableAmount v = Some h \<Longrightarrow> scale2 h"
  by (auto simp: parseAmount_def parseNullableAmount_def split: option.splits if_splits)

lemma scale2_service [simp, intro]: "scale2 (service_fee c a)"
  by (auto simp: service_fee_def Let_def split: option.split)

section \<open>Sorting\<close>

lemma sort_key_hd:
  assumes "sort_key f xs = c # cs"
  shows "c \<in> set xs \<and> (\<forall>x \<in> set xs. f c \<le> f x)"
proof -
  have s: "set xs = set (c # cs)" using assms by (metis set_sort)
  have "sorted (map f (c # cs))" using assms sorted_sort_key [of f xs] by simp
  then have "\<forall>x \<in> set cs. f c \<le> f x" by simp
  with s show ?thesis by auto
qed

section \<open>Caches\<close>

definition wf_filters :: "fee_filters \<Rightarrow> bool" where
  "wf_filters f \<longleftrightarrow> js_trim (text_or (ff_flow_code f) []) \<noteq> [] \<and> js_trim (text_or (ff_status f) []) \<noteq> []"

lemma key_query:
  assumes "wf_filters f" and "buildCacheKey f = buildCacheKey g"
  shows "query_configs f db = query_configs g db"
proof -
  have k: "js_upper (js_trim (text_or (ff_flow_code f) [])) = js_upper (js_trim (text_or (ff_flow_code g) []))"
    "js_upper (js_trim (text_or (ff_status f) [])) = js_upper (js_trim (text_or (ff_status g) []))"
    using assms(2) by (simp_all add: buildCacheKey_def)
  have ne: "text_or (ff_flow_code f) [] \<noteq> []" "text_or (ff_status f) [] \<noteq> []"
    using assms(1) by (auto simp: wf_filters_def)
  have "js_trim (text_or (ff_flow_code g) []) \<noteq> []" "js_trim (text_or (ff_status g) []) \<noteq> []"
    using assms(1) k js_upper_empty_iff unfolding wf_filters_def by metis+
  then have "text_or (ff_flow_code g) [] \<noteq> []" "text_or (ff_status g) [] \<noteq> []" by auto
  with ne k have "query_matches f = query_matches g" by (simp add: query_matches_def fun_eq_iff)
  then show ?thesis by (simp add: query_configs_def)
qed

text \<open>An entry is fresh when it is what the table answers now.\<close>

definition fresh_entry :: "fee_config list \<Rightarrow> string list \<Rightarrow> fee_config list \<Rightarrow> bool" where
  "fresh_entry db k d \<longleftrightarrow> (\<forall>f. wf_filters f \<and> buildCacheKey f = k \<longrightarrow> d = query_configs f db)"

definition expires_by :: "int \<Rightarrow> fee_config list \<Rightarrow> fee_cache \<Rightarrow> bool" where
  "expires_by u db m \<longleftrightarrow> (\<forall>k e d. m k = Some (e, d) \<longrightarrow> fresh_entry db k d \<or> e \<le> u)"

lemma expires_by_new: "expires_by u db m \<Longrightarrow> expires_by u db (m(buildCacheKey f \<mapsto> (e, query_configs f db)))"
  using key_query by (auto simp: expires_by_def fresh_entry_def)

lemma expires_by_hit:
  "expires_by u db m \<Longrightarrow> cache_hit now m k = Some d \<Longrightarrow> fresh_entry db k d \<or> now < u"
  by (fastforce simp: expires_by_def cache_hit_def split: option.splits prod.splits if_splits)

lemma list_cases:
  assumes "listConfigs now rf x f l r db = (res, l', r')"
  obtains (kept) "l' = l" "r' = r"
  | (shared) m d where "r = Some m" "cache_hit now m (buildCacheKey f) = Some d"
      "l' = l(buildCacheKey f \<mapsto> (now + cacheTtlMs, d))" "r' = r"
  | (queried) "l' = l(buildCacheKey f \<mapsto> (now + cacheTtlMs, query_configs f db))"
      "r' = r \<or> r' = map_option (\<lambda>m. m(buildCacheKey f \<mapsto> (now + cacheTtlMs, query_configs f db))) r"
proof (cases "cache_hit now l (buildCacheKey f)")
  case (Some d)
  with assms kept show ?thesis by (simp add: listConfigs_def Let_def)
next
  case n1: None
  show ?thesis
  proof (cases "if rf then None else Option.bind r (\<lambda>m. cache_hit now m (buildCacheKey f))")
    case (Some d)
    then obtain m where m: "r = Some m" "cache_hit now m (buildCacheKey f) = Some d" "\<not> rf"
      by (cases r) (auto split: if_splits)
    from m assms n1 have "l' = l(buildCacheKey f \<mapsto> (now + cacheTtlMs, d))" "r' = r"
      by (simp_all add: listConfigs_def Let_def)
    then show ?thesis by (rule shared [OF m(1,2)])
  next
    case n2: None
    show ?thesis
    proof (cases x)
      case None
      from assms n1 n2 None have "l' = l(buildCacheKey f \<mapsto> (now + cacheTtlMs, query_configs f db))"
        "r' = (if rf then r else map_option (\<lambda>m. m(buildCacheKey f \<mapsto> (now + cacheTtlMs, query_configs f db))) r)"
        by (simp_all add: listConfigs_def Let_def)
      then show ?thesis by (intro queried) (cases rf, simp_all)
    next
      case (Some e)
      with assms n1 n2 kept show ?thesis by (simp add: listConfigs_def Let_def)
    qed
  qed
qed

lemma expires_by_set: "expires_by u db m \<Longrightarrow> fresh_entry db k d \<or> e \<le> u \<Longrightarrow> expires_by u db (m(k \<mapsto> (e, d)))"
  by (simp add: expires_by_def)

lemma list_hidden:
  assumes "listConfigs now rf x f l r db = (res, l', r')" and "T \<le> now"
    and "expires_by (T + 2 * cacheTtlMs) db l" and "pred_option (expires_by (T + cacheTtlMs) db) r"
  shows "expires_by (T + 2 * cacheTtlMs) db l' \<and> pred_option (expires_by (T + cacheTtlMs) db) r'"
  using assms(1)
proof (cases rule: list_cases)
  case kept
  with assms(3,4) show ?thesis by simp
next
  case (shared m d)
  with assms(4) have "expires_by (T + cacheTtlMs) db m" by simp
  from expires_by_hit [OF this shared(2)]
  have "fresh_entry db (buildCacheKey f) d \<or> now + cacheTtlMs \<le> T + 2 * cacheTtlMs" by auto
  with shared assms(3,4) expires_by_set show ?thesis by simp
next
  case queried
  with assms(3,4) expires_by_new show ?thesis by (cases r) auto
qed

definition is_upsert :: "fee_event \<Rightarrow> bool" where
  "is_upsert e = (case e of Ev_List _ _ _ _ \<Rightarrow> False | Ev_Upsert _ _ _ _ _ _ \<Rightarrow> True)"

definition hidden_until :: "int \<Rightarrow> fee_world \<Rightarrow> bool" where
  "hidden_until T w \<longleftrightarrow> (\<forall>p. expires_by (T + 2 * cacheTtlMs) (fw_db w) (fw_local w p)) \<and>
     pred_option (expires_by (T + cacheTtlMs) (fw_db w)) (fw_redis w)"

lemma step_hidden:
  assumes "hidden_until T w" and "T \<le> now" and "\<not> is_upsert e"
  shows "hidden_until T (fee_step now e w) \<and> fw_db (fee_step now e w) = fw_db w"
proof (cases e)
  case (Ev_List p rf x f)
  obtain res l r where c: "listConfigs now rf x f (fw_local w p) (fw_redis w) (fw_db w) = (res, l, r)"
    by (metis prod_cases3)
  from list_hidden [OF c assms(2)] assms(1) show ?thesis
    by (auto simp: Ev_List c hidden_until_def)
qed (use assms(3) in \<open>simp add: is_upsert_def\<close>)

lemma run_hidden:
  "hidden_until T w \<Longrightarrow> \<forall>(t, e) \<in> set es. T \<le> t \<and> \<not> is_upsert e \<Longrightarrow>
     hidden_until T (fee_run es w) \<and> fw_db (fee_run es w) = fw_db w"
proof (induction es arbitrary: w)
  case (Cons te es)
  obtain t e where te: "te = (t, e)" by fastforce
  from Cons.prems te have "hidden_until T (fee_step t e w) \<and> fw_db (fee_step t e w) = fw_db w"
    by (intro step_hidden) auto
  with Cons.IH [of "fee_step t e w"] Cons.prems te show ?case by simp
qed simp

text \<open>Before the last change every entry expires within one lifetime.\<close>

definition bounded :: "int \<Rightarrow> fee_cache \<Rightarrow> bool" where
  "bounded u m \<longleftrightarrow> (\<forall>k e d. m k = Some (e, d) \<longrightarrow> e \<le> u)"

definition world_bounded :: "int \<Rightarrow> fee_world \<Rightarrow> bool" where
  "world_bounded T w \<longleftrightarrow> (\<forall>p. bounded (T + cacheTtlMs) (fw_local w p)) \<and>
     pred_option (bounded (T + cacheTtlMs)) (fw_redis w)"

lemma list_bounded:
  assumes "listConfigs now rf x f l r db = (res, l', r')" and "now \<le> T"
    and "bounded (T + cacheTtlMs) l" and "pred_option (bounded (T + cacheTtlMs)) r"
  shows "bounded (T + cacheTtlMs) l' \<and> pred_option (bounded (T + cacheTtlMs)) r'"
proof -
  have new: "bounded (T + cacheTtlMs) (m(k \<mapsto> (now + cacheTtlMs, d)))" if "bounded (T + cacheTtlMs) m" for m k d
    using that assms(2) by (auto simp: bounded_def)
  show ?thesis
    using assms(1) by (cases rule: list_cases) (use assms(3,4) new in \<open>cases r; auto\<close>)+
qed

lemma upsert_cache: "upsertConfig now x fresh pl actor cid l db = (res, l', db') \<Longrightarrow> l' = l \<or> l' = (\<lambda>_. None)"
  by (auto simp: upsertConfig_def Let_def split: if_splits option.splits)

lemma step_bounded: "world_bounded T w \<Longrightarrow> t \<le> T \<Longrightarrow> world_bounded T (fee_step t e w)"
proof (cases e)
  case (Ev_List p rf x f)
  assume w: "world_bounded T w" "t \<le> T"
  obtain res l r where c: "listConfigs t rf x f (fw_local w p) (fw_redis w) (fw_db w) = (res, l, r)"
    by (metis prod_cases3)
  from list_bounded [OF c w(2)] w(1) show ?thesis by (auto simp: Ev_List c world_bounded_def)
next
  case (Ev_Upsert p x fresh pl actor cid)
  assume w: "world_bounded T w" "t \<le> T"
  obtain res l d where c: "upsertConfig t x fresh pl actor cid (fw_local w p) (fw_db w) = (res, l, d)"
    by (metis prod_cases3)
  from upsert_cache [OF c] w(1) show ?thesis
    by (auto simp: Ev_Upsert c world_bounded_def) (simp_all add: bounded_def)
qed

lemma run_bounded: "world_bounded T w \<Longrightarrow> \<forall>(t, e) \<in> set es. t \<le> T \<Longrightarrow> world_bounded T (fee_run es w)"
proof (induction es arbitrary: w)
  case (Cons te es)
  then show ?case using step_bounded by (cases te) auto
qed simp

lemma bounded_expires: "bounded u m \<Longrightarrow> u \<le> v \<Longrightarrow> expires_by v db m"
  by (auto simp: bounded_def expires_by_def) (meson order_trans)

lemma bounded_hidden:
  assumes "world_bounded T w"
  shows "hidden_until T w"
proof -
  have "T + cacheTtlMs \<le> T + 2 * cacheTtlMs" by (simp add: cacheTtlMs_def)
  with bounded_expires have "bounded (T + cacheTtlMs) m \<Longrightarrow> expires_by (T + 2 * cacheTtlMs) db m" for m db by blast
  with assms bounded_expires [OF _ order_refl] show ?thesis
    by (cases "fw_redis w") (auto simp: world_bounded_def hidden_until_def)
qed

lemma list_fresh:
  assumes "hidden_until T w" and "T + 2 * cacheTtlMs \<le> now" and "wf_filters f"
  shows "fst (listConfigs now rf None f (fw_local w p) (fw_redis w) (fw_db w)) = Inr (query_configs f (fw_db w))"
proof -
  have "T + cacheTtlMs \<le> now" using assms(2) by (simp add: cacheTtlMs_def)
  have a: "d = query_configs f (fw_db w)" if "expires_by u (fw_db w) m" "u \<le> now" "cache_hit now m (buildCacheKey f) = Some d" for u m d
    using expires_by_hit [OF that(1,3)] that(2) assms(3) by (auto simp: fresh_entry_def)
  show ?thesis
  proof (cases "cache_hit now (fw_local w p) (buildCacheKey f)")
    case (Some d)
    have "expires_by (T + 2 * cacheTtlMs) (fw_db w) (fw_local w p)" using assms(1) by (simp add: hidden_until_def)
    from a [OF this assms(2) Some] Some show ?thesis by (simp add: listConfigs_def Let_def)
  next
    case n: None
    show ?thesis
    proof (cases "if rf then None else Option.bind (fw_redis w) (\<lambda>m. cache_hit now m (buildCacheKey f))")
      case (Some d)
      then obtain m where m: "fw_redis w = Some m" "cache_hit now m (buildCacheKey f) = Some d"
        by (cases "fw_redis w") (auto split: if_splits)
      with assms(1) have "expires_by (T + cacheTtlMs) (fw_db w) m" by (simp add: hidden_until_def)
      from a [OF this \<open>T + cacheTtlMs \<le> now\<close> m(2)] Some n show ?thesis by (simp add: listConfigs_def Let_def)
    qed (simp add: listConfigs_def Let_def n)
  qed
qed

section \<open>Samples\<close>

definition empty_world :: "fee_config list \<Rightarrow> fee_world" where
  "empty_world db = \<lparr>fw_local = (\<lambda>_ _. None), fw_redis = Some (\<lambda>_. None), fw_db = db\<rparr>"

definition sample_config :: fee_config where
  "sample_config = \<lparr>fc_id = ''c1'', fc_name = ''gateway'', fc_flow_code = ''GATEWAY_SETTLEMENT'',
     fc_transaction_model = None, fc_category_code = None, fc_category_id = None, fc_transaction_type = None,
     fc_operation_type = None, fc_direction = None, fc_rail = None, fc_channel = None, fc_provider_id = None,
     fc_currency = Some ''TZS'', fc_country_code = None, fc_percentage_rate = Some (1 / 100),
     fc_fixed_amount = Some 5, fc_minimum_fee = Some 10, fc_maximum_fee = Some 500, fc_tax_rate = Some (18 / 1000),
     fc_gov_fee_rate = Some 0, fc_stamp_duty_fixed = Some 0, fc_priority = Some 100, fc_status = ''ACTIVE'',
     fc_metadata = (\<lambda>_. None), fc_updated_at = 0\<rparr>"

definition sample_input :: fee_input where
  "sample_input = \<lparr>fi_flow_code = ''gateway_settlement'', fi_amount = Some (JNum 2000), fi_currency = Some ''tzs'',
     fi_provider_id = Some ''p1'', fi_country_code = None, fi_rail = None, fi_channel = None, fi_direction = None,
     fi_transaction_model = None, fi_category_code = None, fi_category_id = None, fi_operation_type = None,
     fi_transaction_type = Some ''GATEWAY_SETTLEMENT'', fi_metadata = (\<lambda>_. None)\<rparr>"

lemma sample_select: "selectBestConfig [sample_config] sample_input = Some sample_config"
proof -
  have "config_matches sample_input sample_config" by code_simp
  then show ?thesis by (simp add: selectBestConfig_def)
qed

section \<open>Properties\<close>

text \<open>The configuration a payment gets matches it in every dimension and is the best such one:
  no matching configuration names more dimensions, and among those that name as many none has
  a smaller priority number (0 counting as 100).\<close>

theorem best_config_selected:
  assumes "selectBestConfig cs i = Some c"
  shows "c \<in> set cs \<and> config_matches i c \<and>
    (\<forall>d \<in> set cs. config_matches i d \<longrightarrow> specificityScore d < specificityScore c \<or>
       (specificityScore d = specificityScore c \<and> effective_priority c \<le> effective_priority d))"
proof -
  from assms obtain ds where
    "sort_key (\<lambda>c. (- int (specificityScore c), effective_priority c)) (filter (config_matches i) cs) = c # ds"
    by (auto simp: selectBestConfig_def split: list.splits)
  from sort_key_hd [OF this] show ?thesis by (auto simp: less_eq_prod_def)
qed

theorem best_config_selected_witness:
  "sample_config \<in> set [sample_config] \<and> config_matches sample_input sample_config"
  using best_config_selected [OF sample_select] by blast

text \<open>The parts of a fee add up to the cent: the total is the service fee plus tax, government
  fee and stamp duty, and the net amount plus the total is the amount.\<close>

theorem fee_adds_up:
  assumes "resolveFee now rf x i l r db = (Inr f, l', r')"
  shows "fe_total_fee f = fe_service_fee f + fe_tax_amount f + fe_gov_fee_amount f + fe_stamp_duty f \<and>
    fe_net_amount f + fe_total_fee f = fe_amount f"
proof -
  from assms obtain c cur where f: "f = computeFromConfig c (parseAmount (fi_amount i)) cur i"
    by (auto simp: resolveFee_def Let_def fee_from_configs_def bind_outcome_Inr_iff
        split: if_splits prod.splits option.splits)
  let ?a = "parseAmount (fi_amount i)"
  let ?sum = "service_fee c ?a + roundAmount (?a * parseRate (num_col (fc_tax_rate c))) +
    roundAmount (?a * parseRate (num_col (fc_gov_fee_rate c))) + parseAmount (num_col (fc_stamp_duty_fixed c))"
  have "scale2 ?sum" by auto
  then have "roundAmount ?sum = ?sum" "roundAmount (?a - ?sum) = ?a - ?sum" by (auto intro!: round_exact)
  then show ?thesis unfolding f computeFromConfig_def Let_def by simp
qed

theorem fee_adds_up_witness:
  "\<exists>f l r. resolveFee 0 False None sample_input (\<lambda>_. None) None [sample_config] = (Inr f, l, r) \<and>
     fe_net_amount f + fe_total_fee f = 2000"
proof -
  have ok: "case resolveFee 0 False None sample_input (\<lambda>_. None) None [sample_config] of
      (Inr f, _, _) \<Rightarrow> fe_amount f = 2000 | _ \<Rightarrow> False" by code_simp
  then obtain f l r where e: "resolveFee 0 False None sample_input (\<lambda>_. None) None [sample_config] = (Inr f, l, r)"
    and a: "fe_amount f = 2000" by (auto split: prod.splits sum.splits)
  from fee_adds_up [OF e] a e show ?thesis by auto
qed

text \<open>The service fee respects its limits: it never exceeds a configured maximum, and with a
  minimum not above the maximum it never falls below the minimum.\<close>

theorem service_fee_limits:
  assumes "parseNullableAmount (num_col (fc_maximum_fee c)) = Some high"
    and "parseAmount (num_col (fc_minimum_fee c)) \<le> high" and "0 \<le> parseAmount (num_col (fc_minimum_fee c))"
    and "0 \<le> a * parseRate (num_col (fc_percentage_rate c))" and "0 \<le> parseAmount (num_col (fc_fixed_amount c))"
  shows "service_fee c a \<le> high \<and> parseAmount (num_col (fc_minimum_fee c)) \<le> service_fee c a"
proof -
  have nn: "0 \<le> roundAmount x" if "0 \<le> x" for x
    using that by (simp add: roundAmount_def js_round_def)
  have "0 \<le> roundAmount (roundAmount (a * parseRate (num_col (fc_percentage_rate c))) + parseAmount (num_col (fc_fixed_amount c)))"
    using nn assms(4,5) by simp
  then show ?thesis using assms(1-3) by (auto simp: service_fee_def Let_def)
qed

theorem service_fee_limits_witness: "service_fee sample_config 100000 \<le> 500 \<and> 10 \<le> service_fee sample_config 100000"
proof -
  have m: "parseNullableAmount (num_col (fc_maximum_fee sample_config)) = Some 500" by code_simp
  have l: "parseAmount (num_col (fc_minimum_fee sample_config)) = 10" by code_simp
  have r: "parseRate (num_col (fc_percentage_rate sample_config)) = 1 / 100" by code_simp
  have x: "parseAmount (num_col (fc_fixed_amount sample_config)) = 5" by code_simp
  show ?thesis using service_fee_limits [OF m, of 100000] by (simp add: l r x)
qed


definition sample_filters :: fee_filters where
  "sample_filters = fee_filters_of sample_input ''GATEWAY_SETTLEMENT'' ''TZS''"

definition sample_reads :: "(int \<times> fee_event) list" where
  "sample_reads = [(5, Ev_List 0 False None sample_filters)]"

definition sample_changes :: "(int \<times> fee_event) list" where
  "sample_changes = [(0, Ev_List 1 False None sample_filters),
     (3, Ev_Upsert 1 None ''c2'' [''name'' \<mapsto> JStr ''n'', ''flowCode'' \<mapsto> JStr ''GATEWAY_SETTLEMENT''] ''admin'' None)]"


text \<open>A configuration with priority 0 does not come first: it is treated as priority 100, so a
  competing configuration of priority 50 wins over it although the table query orders it behind.\<close>

theorem zero_priority_loses:
  "map fc_id (query_configs (fee_filters_of sample_input ''GATEWAY_SETTLEMENT'' ''TZS'')
       [sample_config\<lparr>fc_id := ''fifty'', fc_priority := Some 50\<rparr>, sample_config\<lparr>fc_id := ''zero'', fc_priority := Some 0\<rparr>]) =
     [''zero'', ''fifty''] \<and>
   map_option fc_id (selectBestConfig [sample_config\<lparr>fc_id := ''zero'', fc_priority := Some 0\<rparr>,
       sample_config\<lparr>fc_id := ''fifty'', fc_priority := Some 50\<rparr>] sample_input) = Some ''fifty''"
  by code_simp

end
