(* ===== verification/Fee_Classifier.thy ===== *)
theory Fee_Classifier
  imports Platform_Fee
begin

text \<open>
  \<open>backend/payments/TransactionFeeClassifier.ts\<close>: the dimensions of a payment that select its
  fee configuration and its provider operation.
\<close>

text \<open>\<open>a || b || ...\<close>: the first truthy value, or the last one.\<close>

fun first_truthy :: "jsv option list \<Rightarrow> jsv option" where
  "first_truthy [] = None"
| "first_truthy [v] = v"
| "first_truthy (v # vs) = (case v of Some x \<Rightarrow> if truthy x then v else first_truthy vs | None \<Rightarrow> first_truthy vs)"

definition normalize :: "jsv option \<Rightarrow> string" where
  "normalize v = js_upper (js_trim (text_of v))"

definition normalizeNullable :: "jsv option \<Rightarrow> string option" where
  "normalizeNullable v = (let t = js_trim (text_of v) in if t = [] then None else Some t)"

definition normalizeCategoryCode :: "jsv option \<Rightarrow> string option" where
  "normalizeCategoryCode v = (if normalize v = [] then None else Some (normalize v))"

definition normalizeType :: "jsv option \<Rightarrow> string" where
  "normalizeType v =
     (let n = normalize (first_truthy [v, Some (JStr ''INTERNAL_TRANSFER'')]) in
      if n = ''INTERNAL'' then ''INTERNAL_TRANSFER'' else if n = ''EXTERNAL'' then ''EXTERNAL_PAYMENT'' else n)"

definition external_types :: "string list" where
  "external_types = [''EXTERNAL_PAYMENT'', ''BILL_PAYMENT'', ''WITHDRAWAL'', ''DEPOSIT'', ''MERCHANT_PAYMENT'']"

definition transfer_types :: "string list" where
  "transfer_types = [''INTERNAL_TRANSFER'', ''PEER_TRANSFER'']"

definition payout_types :: "string list" where
  "payout_types = [''WITHDRAWAL'', ''EXTERNAL_PAYMENT'', ''BILL_PAYMENT'', ''MERCHANT_PAYMENT'']"

definition resolveRail :: "jsv option \<Rightarrow> string \<Rightarrow> string" where
  "resolveRail v t = (if normalize v \<noteq> [] then normalize v
     else if t \<in> set transfer_types then ''WALLET'' else ''MOBILE_MONEY'')"

definition resolveFlowCode :: "jsv option \<Rightarrow> string \<Rightarrow> string \<Rightarrow> string \<Rightarrow> string" where
  "resolveFlowCode v t svc cash =
     (if normalize v \<noteq> [] then normalize v
      else if svc = ''MERCHANT'' then ''MERCHANT_PAYMENT''
      else if svc = ''AGENT_CASH'' \<and> cash = ''withdrawal'' then ''AGENT_CASH_WITHDRAWAL''
      else if svc = ''AGENT_CASH'' then ''AGENT_CASH_DEPOSIT''
      else if svc = ''SERVICE_COMMISSION'' \<or> svc = ''SYSTEM'' then ''SYSTEM_OPERATION''
      else if t = ''BILL_PAYMENT'' then ''EXTERNAL_PAYMENT''
      else if t = ''EXTERNAL_PAYMENT'' then ''EXTERNAL_PAYMENT''
      else if t = ''WITHDRAWAL'' then ''WITHDRAWAL''
      else if t = ''DEPOSIT'' then ''DEPOSIT''
      else if t \<in> set transfer_types then ''INTERNAL_TRANSFER''
      else ''CORE_TRANSACTION'')"

definition resolveTransactionModel :: "string \<Rightarrow> string \<Rightarrow> string \<Rightarrow> string" where
  "resolveTransactionModel t svc rail =
     (if svc = ''AGENT_CASH'' then ''AGENT_CASH''
      else if svc = ''MERCHANT'' \<or> t = ''MERCHANT_PAYMENT'' then ''MERCHANT_PAYMENT''
      else if t = ''BILL_PAYMENT'' then ''BILL_PAYMENT''
      else if t \<in> set transfer_types then ''WALLET_TRANSFER''
      else if t \<in> set external_types then ''EXTERNAL_'' @ (if rail = [] then ''WALLET'' else rail)
      else ''CORE_LEDGER'')"

definition resolveOperationType :: "jsv option \<Rightarrow> string \<Rightarrow> string \<Rightarrow> string \<Rightarrow> string" where
  "resolveOperationType v t svc cash =
     (if normalize v \<noteq> [] then normalize v
      else if svc = ''AGENT_CASH'' \<and> cash = ''withdrawal'' then ''DISBURSEMENT_REQUEST''
      else if svc = ''AGENT_CASH'' then ''COLLECTION_REQUEST''
      else if t = ''DEPOSIT'' then ''COLLECTION_REQUEST''
      else if t \<in> set payout_types then ''DISBURSEMENT_REQUEST''
      else if t \<in> set transfer_types then ''LEDGER_TRANSFER''
      else ''CORE_TRANSACTION'')"

definition resolveDirection :: "jsv option \<Rightarrow> string \<Rightarrow> string \<Rightarrow> string \<Rightarrow> string" where
  "resolveDirection v t svc cash =
     (if normalize v \<noteq> [] then normalize v
      else if svc = ''AGENT_CASH'' \<and> cash = ''deposit'' then ''EXTERNAL_TO_INTERNAL''
      else if svc = ''AGENT_CASH'' \<and> cash = ''withdrawal'' then ''INTERNAL_TO_EXTERNAL''
      else if t = ''DEPOSIT'' then ''EXTERNAL_TO_INTERNAL''
      else if t \<in> set payout_types then ''INTERNAL_TO_EXTERNAL''
      else ''INTERNAL_TO_INTERNAL'')"

record classification_input =
  ci_type :: "jsv option"
  ci_category :: "jsv option"
  ci_category_id :: "jsv option"
  ci_metadata :: metadata
  ci_channel :: "jsv option"
  ci_rail :: "jsv option"
  ci_operation :: "jsv option"

record fee_classification =
  cl_transaction_type :: string
  cl_transaction_model :: string
  cl_flow_code :: string
  cl_operation_type :: string
  cl_direction :: string
  cl_rail :: string
  cl_channel :: "string option"
  cl_category_code :: "string option"
  cl_category_id :: "string option"
  cl_service_context :: "string option"

definition classify :: "classification_input \<Rightarrow> fee_classification" where
  "classify i =
     (let m = ci_metadata i;
          t = normalizeType (ci_type i);
          svc = normalize (m ''service_context'');
          cash = js_lower (normalize (m ''cash_direction''));
          rail = resolveRail (first_truthy [ci_rail i, m ''rail'', m ''provider_rail'']) t in
      \<lparr>cl_transaction_type = t,
       cl_transaction_model = resolveTransactionModel t svc rail,
       cl_flow_code = resolveFlowCode (first_truthy [m ''flowCode'', m ''flow_code'']) t svc cash,
       cl_operation_type = resolveOperationType (first_truthy [ci_operation i, m ''operation'', m ''operation_code'']) t svc cash,
       cl_direction = resolveDirection (m ''direction'') t svc cash,
       cl_rail = rail,
       cl_channel = normalizeNullable (first_truthy [ci_channel i, m ''channel'', m ''payment_channel'']),
       cl_category_code = normalizeCategoryCode (first_truthy [m ''fee_category'', m ''category_code'', m ''bill_category'',
          m ''service_category'', ci_category i]),
       cl_category_id = normalizeNullable (coalesce [ci_category_id i, m ''category_id'', m ''categoryId'']),
       cl_service_context = (if svc = [] then None else Some svc)\<rparr>)"

definition resolveProviderOperation :: "fee_classification \<Rightarrow> string" where
  "resolveProviderOperation c =
     (let n = js_upper (js_trim (cl_operation_type c)) in
      if n \<noteq> [] then n
      else if cl_direction c = ''EXTERNAL_TO_INTERNAL'' then ''COLLECTION_REQUEST'' else ''DISBURSEMENT_REQUEST'')"

section \<open>Properties\<close>

definition plain_input :: "classification_input \<Rightarrow> bool" where
  "plain_input i \<longleftrightarrow> normalize (first_truthy [ci_operation i, ci_metadata i ''operation'', ci_metadata i ''operation_code'']) = [] \<and>
     normalize (ci_metadata i ''direction'') = []"

definition agent_direction_given :: "classification_input \<Rightarrow> bool" where
  "agent_direction_given i \<longleftrightarrow> normalize (ci_metadata i ''service_context'') \<noteq> ''AGENT_CASH'' \<or>
     js_lower (normalize (ci_metadata i ''cash_direction'')) \<in> {''deposit'', ''withdrawal''}"

text \<open>Operation and direction of a payment agree: without explicit overrides, and with a cash
  direction on every agent cash payment, money is collected exactly when the direction is
  inward and disbursed exactly when it is outward.\<close>

theorem classification_coherent:
  assumes "plain_input i" and "agent_direction_given i"
  shows "(cl_operation_type (classify i) = ''COLLECTION_REQUEST'' \<longleftrightarrow> cl_direction (classify i) = ''EXTERNAL_TO_INTERNAL'') \<and>
    (cl_operation_type (classify i) = ''DISBURSEMENT_REQUEST'' \<longleftrightarrow> cl_direction (classify i) = ''INTERNAL_TO_EXTERNAL'')"
proof -
  have coh: "(resolveOperationType v t svc cash = ''COLLECTION_REQUEST'' \<longleftrightarrow> resolveDirection u t svc cash = ''EXTERNAL_TO_INTERNAL'') \<and>
      (resolveOperationType v t svc cash = ''DISBURSEMENT_REQUEST'' \<longleftrightarrow> resolveDirection u t svc cash = ''INTERNAL_TO_EXTERNAL'')"
    if "normalize v = []" "normalize u = []" "svc \<noteq> ''AGENT_CASH'' \<or> cash \<in> {''deposit'', ''withdrawal''}" for u v t svc cash
    using that by (auto simp: resolveOperationType_def resolveDirection_def payout_types_def transfer_types_def)
  show ?thesis
    using coh assms by (simp add: classify_def Let_def plain_input_def agent_direction_given_def)
qed

definition bare_input :: "string \<Rightarrow> metadata \<Rightarrow> classification_input" where
  "bare_input t m = \<lparr>ci_type = Some (JStr t), ci_category = None, ci_category_id = None, ci_metadata = m,
     ci_channel = None, ci_rail = None, ci_operation = None\<rparr>"

theorem classification_coherent_witness:
  "cl_operation_type (classify (bare_input ''withdrawal'' (\<lambda>_. None))) = ''DISBURSEMENT_REQUEST'' \<longleftrightarrow>
   cl_direction (classify (bare_input ''withdrawal'' (\<lambda>_. None))) = ''INTERNAL_TO_EXTERNAL''"
proof -
  have "plain_input (bare_input ''withdrawal'' (\<lambda>_. None))" "agent_direction_given (bare_input ''withdrawal'' (\<lambda>_. None))"
    by code_simp+
  from classification_coherent [OF this] show ?thesis by blast
qed

text \<open>An agent cash payment without a cash direction is classified incoherently: the flow is a
  cash deposit and the operation a collection, but a withdrawal keeps the outward direction.\<close>

theorem agent_cash_incoherent:
  "let c = classify (bare_input ''withdrawal'' [''service_context'' \<mapsto> JStr ''agent_cash'']) in
   cl_flow_code c = ''AGENT_CASH_DEPOSIT'' \<and> cl_operation_type c = ''COLLECTION_REQUEST'' \<and>
   cl_direction c = ''INTERNAL_TO_EXTERNAL''"
  by code_simp

end
