(* ===== verification/Ledger_Service.thy ===== *)
theory Ledger_Service
  imports Financial_Invariants Ledger_Properties Crypto_Envelope
begin

text \<open>
  \<open>ledger/transactionService.ts\<close>: the service in front of the ledger procedures. It encrypts
  amounts, prepares the legs, posts and appends, derives balances from the ledger, moves the
  status of a transaction, enforces budgets and reverses transactions.

  Its state is the ledger store with the key store and the tables it writes: transaction
  events, financial events, budget alerts, reconciliation reports, settlement lifecycles and the
  INTERNAL_TRANSFER vault of each user. Notifications, sockets and
  audit entries leave no state the modelled code reads and are left out, as is the AML monitor
  whose errors are swallowed.
\<close>

section \<open>State\<close>

record budget_category =
  bc_id :: string
  bc_name :: string
  bc_corporate :: bool
  bc_hard_limit :: bool
  bc_currency :: "string option"
  bc_period :: "string option"
  bc_target :: "jsv option"
  bc_budget :: "jsv option"

record status_event =
  se_tx :: string
  se_old :: "string option"
  se_new :: string
  se_actor :: string

record fin_event =
  fv_type :: string
  fv_aggregate :: string

record budget_alert =
  ba_category :: string
  ba_user :: string
  ba_tx :: string
  ba_amount :: rat
  ba_type :: string

record drift_report =
  dr_wallet :: string
  dr_expected :: rat
  dr_actual :: rat
  dr_difference :: rat

text \<open>A row of \<open>settlement_lifecycle\<close> as the internal transfer settlement uses it.\<close>

record lifecycle =
  lc_key :: string
  lc_stage :: string
  lc_status :: string
  lc_claim :: "string option"
  lc_processing_at :: "int option"
  lc_error :: "string option"

record world =
  w_store :: store
  w_kms :: kms
  w_events :: "status_event list"
  w_fin_events :: "fin_event list"
  w_categories :: "budget_category list"
  w_alerts :: "budget_alert list"
  w_reports :: "drift_report list"
  w_lifecycles :: "lifecycle list"
  w_transfer_vault :: "string \<Rightarrow> string option"

text \<open>
  The clock: the time in milliseconds, the local calendar year and month, the start of a local
  month, and the ISO text of a time with its parser (\<open>None\<close> is an invalid date).
\<close>

record clock =
  ck_now :: int
  ck_year :: int
  ck_month :: int
  ck_month_start :: "int \<Rightarrow> int \<Rightarrow> int"
  ck_iso :: "int \<Rightarrow> string"
  ck_parse :: "string \<Rightarrow> int option"

section \<open>Reading the ledger\<close>

definition leg_side :: "ledger_row \<Rightarrow> string" where
  "leg_side r = js_upper (text_or (lr_side r) (lr_type r))"

definition side_sign :: "string \<Rightarrow> rat \<Rightarrow> rat" where
  "side_sign side a = (if side \<in> {''CREDIT'', ''DEPOSIT'', ''REFUND''} then a
     else if side \<in> {''DEBIT'', ''WITHDRAWAL'', ''PAYMENT''} then - a else 0)"

fun sum_rows :: "crypto \<Rightarrow> kms \<Rightarrow> ledger_row list \<Rightarrow> rat \<Rightarrow> rat outcome" where
  "sum_rows c k [] b = Inr b"
| "sum_rows c k (r # rs) b =
     (case decryptAmount c k (Some (JStr (lr_amount r))) 0 of
        Inl e \<Rightarrow> Inl e
      | Inr a \<Rightarrow> sum_rows c k rs (b + side_sign (leg_side r) a))"

text \<open>A failed query or an amount that does not decrypt makes the balance unavailable.\<close>

definition calculateBalanceFromLedger :: "crypto \<Rightarrow> js_error option \<Rightarrow> world \<Rightarrow> string \<Rightarrow> rat outcome" where
  "calculateBalanceFromLedger c fault w wallet =
     (case (case fault of Some e \<Rightarrow> Inl e
            | None \<Rightarrow> sum_rows c (w_kms w) (sel (\<lambda>r. lr_wallet r = wallet) (st_ledger (w_store w))) 0) of
        Inl e \<Rightarrow> throw (''LEDGER_BALANCE_UNAVAILABLE:'' @ wallet)
      | Inr b \<Rightarrow> Inr (round4 b))"

definition getCachedBalanceSnapshot :: "store \<Rightarrow> string \<Rightarrow> rat option" where
  "getCachedBalanceSnapshot st k =
     (case st_wallets st k of
        Some e \<Rightarrow> Some (ent_balance e)
      | None \<Rightarrow> (case st_vaults st k of
            Some e \<Rightarrow> Some (ent_balance e)
          | None \<Rightarrow> map_option ent_balance (st_goals st k)))"

text \<open>The drift between the two is only logged: the ledger's answer is returned.\<close>

definition getLatestBalance :: "crypto \<Rightarrow> js_error option \<Rightarrow> world \<Rightarrow> string option \<Rightarrow> rat outcome" where
  "getLatestBalance c fault w wallet =
     (case wallet of
        None \<Rightarrow> throw ''SOURCE_WALLET_REQUIRED_FOR_BALANCE''
      | Some k \<Rightarrow> if k = [] then throw ''SOURCE_WALLET_REQUIRED_FOR_BALANCE''
          else calculateBalanceFromLedger c fault w k)"

definition resolveLedgerWalletOwners :: "store \<Rightarrow> string list \<Rightarrow> string \<Rightarrow> string option" where
  "resolveLedgerWalletOwners st ids k =
     (let owner = (\<lambda>tbl. case Option.bind (tbl k) ent_owner of None \<Rightarrow> None
          | Some u \<Rightarrow> if js_trim u = [] then None else Some (js_trim u)) in
      if k \<in> js_trim ` set ids \<and> k \<noteq> [] then
        (case owner (st_goals st) of Some u \<Rightarrow> Some u
         | None \<Rightarrow> (case owner (st_vaults st) of Some u \<Rightarrow> Some u | None \<Rightarrow> owner (st_wallets st)))
      else None)"

section \<open>Posting\<close>

text \<open>A leg as callers build it; \<open>le_amount\<close> is \<open>None\<close> when \<open>Number(amount)\<close> is not finite.\<close>

record ledger_entry =
  le_wallet :: "string option"
  le_user :: "string option"
  le_type :: string
  le_amount :: "rat option"
  le_currency :: "string option"
  le_description :: "string option"

record partial_tx =
  pt_id :: "string option"
  pt_reference :: "string option"
  pt_user :: "string option"
  pt_wallet :: "string option"
  pt_to_wallet :: "string option"
  pt_amount :: rat
  pt_description :: "string option"
  pt_type :: "string option"
  pt_status :: "string option"
  pt_metadata :: metadata
  pt_category :: "string option"

text \<open>
  What one call meets: the generated id and short code, and a fault of the RPC that hits before
  the procedure runs or after it committed.
\<close>

datatype rpc_fault = Rpc_Ok | Rpc_Lost js_error | Rpc_Late js_error

record post_env =
  pe_uuid :: string
  pe_code :: string
  pe_rpc :: rpc_fault

definition entry_wallet :: "ledger_entry \<Rightarrow> string option" where
  "entry_wallet l = (case le_wallet l of None \<Rightarrow> None | Some x \<Rightarrow> if x = [] then None else Some x)"

definition entry_wallets :: "ledger_entry list \<Rightarrow> string list" where
  "entry_wallets ls = distinct_first (List.map_filter entry_wallet ls)"

definition internal_wallet :: "store \<Rightarrow> string \<Rightarrow> bool" where
  "internal_wallet st k \<longleftrightarrow> entity_kinds st k \<noteq> []"

definition truthy_text :: "string option \<Rightarrow> string option" where
  "truthy_text s = (case s of None \<Rightarrow> None | Some t \<Rightarrow> if t = [] then None else Some t)"

fun first_some :: "'a option list \<Rightarrow> 'a option" where
  "first_some [] = None"
| "first_some (v # vs) = (case v of Some x \<Rightarrow> Some x | None \<Rightarrow> first_some vs)"

fun prepare_legs ::
    "crypto \<Rightarrow> kms \<Rightarrow> int \<Rightarrow> (string \<Rightarrow> string option) \<Rightarrow> string option \<Rightarrow> ledger_entry list \<Rightarrow> leg_in list outcome" where
  "prepare_legs c k now owner fallback [] = Inr []"
| "prepare_legs c k now owner fallback (l # ls) =
     (case entry_wallet l of
        None \<Rightarrow> prepare_legs c k now owner fallback ls
      | Some w \<Rightarrow>
          (case le_amount l of
             None \<Rightarrow> throw (''LEG_AMOUNT_INVALID: Leg for '' @ w @ '' must have a positive numeric amount.'')
           | Some a \<Rightarrow>
               (if a \<le> 0 then throw (''LEG_AMOUNT_INVALID: Leg for '' @ w @ '' must have a positive numeric amount.'')
                else bind_outcome (encryptAmount c k now a) (\<lambda>e.
                  bind_outcome (prepare_legs c k now owner fallback ls) (\<lambda>rest.
                    Inr (\<lparr>li_wallet = Some w, li_user = first_some [truthy_text (le_user l), owner w, truthy_text fallback],
                          li_type = le_type l, li_currency = le_currency l, li_plain = Some a, li_amount = e,
                          li_description = le_description l\<rparr> # rest))))))"

text \<open>The remote call: its result and the store it leaves.\<close>

definition run_rpc :: "rpc_fault \<Rightarrow> (store \<Rightarrow> store outcome) \<Rightarrow> store \<Rightarrow> js_error option \<times> store" where
  "run_rpc f proc st =
     (case f of
        Rpc_Lost e \<Rightarrow> (Some e, st)
      | Rpc_Ok \<Rightarrow> (case proc st of Inl e \<Rightarrow> (Some e, st) | Inr st' \<Rightarrow> (None, st'))
      | Rpc_Late e \<Rightarrow> (case proc st of Inl x \<Rightarrow> (Some x, st) | Inr st' \<Rightarrow> (Some e, st')))"

definition log_event :: "string \<Rightarrow> string option \<Rightarrow> string \<Rightarrow> string \<Rightarrow> world \<Rightarrow> world" where
  "log_event t old new actor w = w\<lparr>w_events := w_events w @ [\<lparr>se_tx = t, se_old = old, se_new = new, se_actor = actor\<rparr>]\<rparr>"

definition emit_event :: "string \<Rightarrow> string \<Rightarrow> world \<Rightarrow> world" where
  "emit_event ty agg w = w\<lparr>w_fin_events := w_fin_events w @ [\<lparr>fv_type = ty, fv_aggregate = agg\<rparr>]\<rparr>"

section \<open>Budgets\<close>

text \<open>A text is decrypted, anything else goes through \<open>Number\<close>; only a positive number counts.\<close>

definition budget_value :: "crypto \<Rightarrow> kms \<Rightarrow> jsv option \<Rightarrow> rat option outcome" where
  "budget_value c k v =
     (case v of
        None \<Rightarrow> Inr None
      | Some x \<Rightarrow>
          (if x = JNull then Inr None
           else bind_outcome (case x of JStr s \<Rightarrow> map_sum id Some (decryptAmount c k (Some x) 0) | _ \<Rightarrow> Inr (js_number x)) (\<lambda>n.
             Inr (case n of None \<Rightarrow> None | Some a \<Rightarrow> if 0 < a then Some a else None))))"

definition resolveBudgetTarget :: "crypto \<Rightarrow> kms \<Rightarrow> budget_category \<Rightarrow> rat outcome" where
  "resolveBudgetTarget c k cat =
     bind_outcome (budget_value c k (bc_target cat)) (\<lambda>a. case a of
        Some x \<Rightarrow> Inr x
      | None \<Rightarrow> bind_outcome (budget_value c k (bc_budget cat)) (\<lambda>b. Inr (case b of Some x \<Rightarrow> x | None \<Rightarrow> 0)))"

definition resolveBudgetPeriodStart :: "clock \<Rightarrow> string option \<Rightarrow> int" where
  "resolveBudgetPeriodStart ck p =
     (if p = Some ''QUARTERLY'' then ck_month_start ck (ck_year ck) (ck_month ck div 3 * 3)
      else if p = Some ''ANNUAL'' then ck_month_start ck (ck_year ck) 0
      else ck_month_start ck (ck_year ck) (ck_month ck))"

definition period_txs :: "string \<Rightarrow> int \<Rightarrow> store \<Rightarrow> tx_row list" where
  "period_txs cat start st = sel (\<lambda>t. tx_category t = Some cat \<and> start \<le> tx_created t \<and>
     tx_status t \<noteq> ''failed'' \<and> tx_status t \<noteq> ''reversed'') (st_txs st)"

fun sum_txs :: "crypto \<Rightarrow> kms \<Rightarrow> tx_row list \<Rightarrow> rat \<Rightarrow> rat outcome" where
  "sum_txs c k [] s = Inr s"
| "sum_txs c k (t # ts) s =
     (case decryptAmount c k (Some (JStr (tx_amount t))) 0 of Inl e \<Rightarrow> Inl e | Inr a \<Rightarrow> sum_txs c k ts (s + a))"

definition add_alert :: "string \<Rightarrow> string \<Rightarrow> string \<Rightarrow> rat \<Rightarrow> string \<Rightarrow> world \<Rightarrow> world" where
  "add_alert cat user t a ty w = w\<lparr>w_alerts := w_alerts w @
     [\<lparr>ba_category = cat, ba_user = user, ba_tx = t, ba_amount = a, ba_type = ty\<rparr>]\<rparr>"

definition category_of :: "world \<Rightarrow> string \<Rightarrow> budget_category option" where
  "category_of w i = single (sel (\<lambda>x. bc_id x = i) (w_categories w))"

text \<open>The body of the \<open>try\<close>; an error other than BUDGET_EXCEEDED is logged and forgotten.\<close>

definition budget_body ::
    "crypto \<Rightarrow> clock \<Rightarrow> string \<Rightarrow> string \<Rightarrow> rat \<Rightarrow> string \<Rightarrow> world \<Rightarrow> unit outcome \<times> world" where
  "budget_body c ck user cat amount t w =
     (case category_of w cat of
        None \<Rightarrow> (Inr (), w)
      | Some b \<Rightarrow>
          (case resolveBudgetTarget c (w_kms w) b of
             Inl e \<Rightarrow> (Inl e, w)
           | Inr target \<Rightarrow>
               (if target \<le> 0 then (Inr (), w)
                else case sum_txs c (w_kms w) (period_txs cat (resolveBudgetPeriodStart ck (bc_period b)) (w_store w)) 0 of
                    Inl e \<Rightarrow> (Inl e, w)
                  | Inr spent \<Rightarrow>
                      (let total = spent + amount in
                       if target < total then
                         (if bc_corporate b \<and> bc_hard_limit b then
                            (throw (''BUDGET_EXCEEDED: Transaction blocked. Enterprise hard limit of '' @ num_text target @ '' '' @
                               text_or (bc_currency b) ''TZS'' @ '' for '' @ bc_name b @ '' exceeded.''),
                             add_alert cat user t amount ''EXCEEDED_BLOCKED'' w)
                          else (Inr (), add_alert cat user t amount
                            (if bc_corporate b then ''EXCEEDED_WARNING'' else ''PERSONAL_BUDGET_EXCEEDED'') w))
                       else if target * (8 / 10) \<le> total \<and> spent < target * (8 / 10) then
                         (Inr (), add_alert cat user t amount
                            (if bc_corporate b then ''WARNING_80_PERCENT'' else ''PERSONAL_WARNING_80_PERCENT'') w)
                       else (Inr (), w)))))"

definition enforceBudgetLimits ::
    "crypto \<Rightarrow> clock \<Rightarrow> string \<Rightarrow> string \<Rightarrow> rat \<Rightarrow> string \<Rightarrow> world \<Rightarrow> unit outcome \<times> world" where
  "enforceBudgetLimits c ck user cat amount t w =
     (if cat = [] then (Inr (), w)
      else case budget_body c ck user cat amount t w of
          (Inr u, w') \<Rightarrow> (Inr u, w')
        | (Inl e, w') \<Rightarrow> (if js_includes (err_message e) ''BUDGET_EXCEEDED'' then Inl e else Inr (), w'))"

record budget_snapshot =
  bs_target :: rat
  bs_spent :: rat
  bs_remaining :: rat
  bs_ratio :: rat
  bs_start :: int

definition buildBudgetSnapshot :: "crypto \<Rightarrow> clock \<Rightarrow> world \<Rightarrow> string \<Rightarrow> budget_snapshot option outcome" where
  "buildBudgetSnapshot c ck w cat =
     (case category_of w cat of
        None \<Rightarrow> Inr None
      | Some b \<Rightarrow> bind_outcome (resolveBudgetTarget c (w_kms w) b) (\<lambda>target.
          if target \<le> 0 then Inr None
          else let start = resolveBudgetPeriodStart ck (bc_period b) in
            bind_outcome (sum_txs c (w_kms w) (period_txs cat start (w_store w)) 0) (\<lambda>spent.
              Inr (Some \<lparr>bs_target = target, bs_spent = round4 spent, bs_remaining = round4 (max (target - spent) 0),
                bs_ratio = round4 (spent / target), bs_start = start\<rparr>))))"

text \<open>An error while building the snapshot escapes to the caller of the posting.\<close>

definition emitPurposeLifecycleEvents :: "crypto \<Rightarrow> clock \<Rightarrow> partial_tx \<Rightarrow> world \<Rightarrow> unit outcome \<times> world" where
  "emitPurposeLifecycleEvents c ck t w =
     (let cat = text_or (pt_category t) [];
          goal = md_text (pt_metadata t) ''goal_id'';
          movement = js_lower (md_text (pt_metadata t) ''movement'') in
      case (if cat = [] then Inr None else buildBudgetSnapshot c ck w cat) of
        Inl e \<Rightarrow> (Inl e, w)
      | Inr snap \<Rightarrow>
          (let w1 = (if snap = None then w else emit_event ''BUDGET_BUCKET_UPDATED'' cat w);
               w2 = (if goal \<noteq> [] \<and> movement = ''allocate_to_goal'' then emit_event ''GOAL_FUNDS_LOCKED'' goal w1 else w1);
               w3 = (if goal \<noteq> [] \<and> movement = ''withdraw_from_goal'' then emit_event ''GOAL_FUNDS_RELEASED'' goal w2 else w2) in
           (Inr (), w3)))"

end
