(* ===== verification/Ledger_Operations.thy ===== *)
theory Ledger_Operations
  imports Ledger_Service
begin

text \<open>
  The operations of \<open>ledger/transactionService.ts\<close> that change money or statuses: posting,
  appending, balance verification, status changes, reversal and the review of held
  transactions; with the theorems that tie them to the ledger store. Every operation returns its
  outcome with the world it leaves, since a thrown error does not undo what was written.
  Database calls other than the two procedures are taken to answer.
\<close>

type_synonym 'a action = "'a outcome \<times> world"

section \<open>Posting and appending\<close>

definition posted_id :: "post_env \<Rightarrow> partial_tx \<Rightarrow> string" where
  "posted_id env t = text_or (pt_id t) (pe_uuid env)"

definition posted_reference :: "post_env \<Rightarrow> partial_tx \<Rightarrow> string" where
  "posted_reference env t = text_or (pt_reference t) (''REF-'' @ pe_code env)"

definition legs_for ::
    "crypto \<Rightarrow> clock \<Rightarrow> world \<Rightarrow> string \<Rightarrow> string option \<Rightarrow> ledger_entry list \<Rightarrow> leg_in list outcome" where
  "legs_for c ck w what fallback ls =
     (let ids = entry_wallets ls in
      if ids \<noteq> [] \<and> \<not> list_ex (internal_wallet (w_store w)) ids
      then throw (''INTERNAL_WALLET_REQUIRED: Ledger '' @ what @ '' must involve ORBI internal wallets.'')
      else prepare_legs c (w_kms w) (ck_now ck) (resolveLedgerWalletOwners (w_store w) ids) fallback ls)"

definition commit_args ::
    "crypto \<Rightarrow> clock \<Rightarrow> post_env \<Rightarrow> partial_tx \<Rightarrow> ledger_entry list \<Rightarrow> world \<Rightarrow> post_args outcome" where
  "commit_args c ck env t ls w =
     bind_outcome (encryptAmount c (w_kms w) (ck_now ck) (pt_amount t)) (\<lambda>amt.
     bind_outcome (encryptDescription c (w_kms w) (ck_now ck) (text_or (pt_description t) ''Sovereign Transaction'')) (\<lambda>desc.
     bind_outcome (legs_for c ck w ''commits'' (pt_user t) ls) (\<lambda>legs.
       Inr \<lparr>pa_tx_id = posted_id env t, pa_user = pt_user t, pa_wallet = truthy_text (pt_wallet t),
         pa_to_wallet = truthy_text (pt_to_wallet t), pa_amount = amt, pa_description = desc,
         pa_type = text_or (pt_type t) ''expense'', pa_status = text_or (pt_status t) ''completed'',
         pa_metadata = pt_metadata t, pa_legs = legs, pa_reference = Some (posted_reference env t),
         pa_category = truthy_text (pt_category t), pa_now = ck_now ck\<rparr>)))"

text \<open>Once the procedure has committed, an error of the purpose events still reaches the caller.\<close>

definition after_post :: "crypto \<Rightarrow> clock \<Rightarrow> post_env \<Rightarrow> partial_tx \<Rightarrow> world \<Rightarrow> unit action" where
  "after_post c ck env t w =
     emitPurposeLifecycleEvents c ck t (emit_event ''TRANSACTION_POSTED'' (posted_id env t)
       (log_event (posted_id env t) None ''created'' ''system'' w))"

definition postTransactionWithLedger ::
    "crypto \<Rightarrow> clock \<Rightarrow> post_env \<Rightarrow> partial_tx \<Rightarrow> ledger_entry list \<Rightarrow> world \<Rightarrow> unit action" where
  "postTransactionWithLedger c ck env t ls w =
     (case commit_args c ck env t ls w of
        Inl e \<Rightarrow> (Inl e, w)
      | Inr args \<Rightarrow>
          (case run_rpc (pe_rpc env) (\<lambda>st. post_transaction_v2 st args) (w_store w) of
             (Some e, st) \<Rightarrow> (Inl (normalizeFinancialAuthorityError (thrown_of e) ''LEDGER_COMMIT_FAULT''), w\<lparr>w_store := st\<rparr>)
           | (None, st) \<Rightarrow> after_post c ck env t (w\<lparr>w_store := st\<rparr>)))"

definition addLedgerEntries ::
    "crypto \<Rightarrow> clock \<Rightarrow> rpc_fault \<Rightarrow> string \<Rightarrow> ledger_entry list \<Rightarrow> string option \<Rightarrow> string option \<Rightarrow> world \<Rightarrow> unit action" where
  "addLedgerEntries c ck f txid ls key phase w =
     (case legs_for c ck w ''updates'' None ls of
        Inl e \<Rightarrow> (Inl e, w)
      | Inr legs \<Rightarrow>
          (case run_rpc f (\<lambda>st. append_ledger_entries_v1 st txid legs (truthy_text key) (truthy_text phase)) (w_store w) of
             (Some e, st) \<Rightarrow> (Inl (normalizeFinancialAuthorityError (thrown_of e) ''LEDGER_APPEND_FAULT''), w\<lparr>w_store := st\<rparr>)
           | (None, st) \<Rightarrow> (Inr (), w\<lparr>w_store := st\<rparr>)))"

section \<open>Verification of a balance\<close>

definition verifyWalletBalance :: "crypto \<Rightarrow> js_error option \<Rightarrow> string \<Rightarrow> world \<Rightarrow> (bool \<times> rat) \<times> world" where
  "verifyWalletBalance c fault k w =
     (let cached = (case st_wallets (w_store w) k of None \<Rightarrow> 0 | Some e \<Rightarrow> ent_balance e) in
      case calculateBalanceFromLedger c fault w k of
        Inl e \<Rightarrow> ((False, 0), w)
      | Inr b \<Rightarrow>
          (let drift = round4 (cached - b) in
           if \<bar>drift\<bar> < 1 / 10000 then ((True, drift), w)
           else ((False, drift), w\<lparr>w_reports := w_reports w @
             [\<lparr>dr_wallet = k, dr_expected = b, dr_actual = cached, dr_difference = drift\<rparr>]\<rparr>)))"

section \<open>Status changes\<close>

definition find_tx :: "world \<Rightarrow> string \<Rightarrow> tx_row option" where
  "find_tx w i = single (sel (\<lambda>t. tx_id t = i) (st_txs (w_store w)))"

definition update_tx :: "string \<Rightarrow> (tx_row \<Rightarrow> tx_row) \<Rightarrow> world \<Rightarrow> world" where
  "update_tx i f w = w\<lparr>w_store := (w_store w)\<lparr>st_txs := upd (\<lambda>t. tx_id t = i) f (st_txs (w_store w))\<rparr>\<rparr>"

text \<open>
  An unknown transaction and a transition the state machine refuses are silently ignored. After a
  change to completed or settled the balance of the source wallet is read for the notification;
  its error escapes after the change (a null wallet id is not a valid uuid for the query).
\<close>

definition updateTransactionStatus ::
    "crypto \<Rightarrow> js_error option \<Rightarrow> string \<Rightarrow> string \<Rightarrow> string option \<Rightarrow> world \<Rightarrow> unit action" where
  "updateTransactionStatus c fault i status notes w =
     (case find_tx w i of
        None \<Rightarrow> (Inr (), w)
      | Some tx \<Rightarrow>
          (if \<not> isValidTransition (tx_status tx) status then (Inr (), w)
           else
             (let w1 = log_event i (Some (tx_status tx)) status ''system''
                    (update_tx i (\<lambda>t. t\<lparr>tx_status := status, tx_notes := notes\<rparr>) w) in
              if status = ''completed'' \<or> status = ''settled'' then
                (case tx_wallet tx of
                   None \<Rightarrow> (throw ''LEDGER_BALANCE_UNAVAILABLE:null'', w1)
                 | Some k \<Rightarrow> (case calculateBalanceFromLedger c fault w1 k of
                       Inl e \<Rightarrow> (Inl e, w1) | Inr b \<Rightarrow> (Inr (), w1)))
              else (Inr (), w1))))"

section \<open>Reversal\<close>

definition tx_legs :: "world \<Rightarrow> string \<Rightarrow> ledger_row list" where
  "tx_legs w i = sel (\<lambda>r. lr_tx r = i) (st_ledger (w_store w))"

definition reversal_note :: "string \<Rightarrow> string" where
  "reversal_note i = ''FORENSIC_REVERSAL: Ref '' @ take 8 i"

fun reversal_legs :: "crypto \<Rightarrow> kms \<Rightarrow> tx_row \<Rightarrow> ledger_row list \<Rightarrow> ledger_entry list outcome" where
  "reversal_legs c k tx [] = Inr []"
| "reversal_legs c k tx (r # rs) =
     bind_outcome (decryptAmount c k (Some (JStr (lr_amount r))) 0) (\<lambda>a.
     bind_outcome (reversal_legs c k tx rs) (\<lambda>es.
       Inr (\<lparr>le_wallet = Some (lr_wallet r), le_user = None,
             le_type = (if lr_type r = ''CREDIT'' then ''DEBIT'' else ''CREDIT''), le_amount = Some a,
             le_currency = Some (text_or (lr_currency r) (text_or (tx_currency tx) ''TZS'')),
             le_description = Some (reversal_note (tx_id tx))\<rparr> # es)))"

definition reversal_header :: "string \<Rightarrow> tx_row \<Rightarrow> rat \<Rightarrow> partial_tx" where
  "reversal_header uuid tx a = \<lparr>pt_id = Some uuid, pt_reference = None, pt_user = tx_user tx, pt_wallet = None,
     pt_to_wallet = None, pt_amount = a, pt_description = Some (''Auto-Reversal of '' @ take 8 (tx_id tx)),
     pt_type = Some ''transfer'', pt_status = Some ''completed'', pt_metadata = Map.empty, pt_category = None\<rparr>"

definition authorized_by :: "string \<Rightarrow> string" where
  "authorized_by actor = ''Authorized by forensic agent: '' @ actor"

definition reverseTransaction ::
    "crypto \<Rightarrow> clock \<Rightarrow> post_env \<Rightarrow> js_error option \<Rightarrow> string \<Rightarrow> string \<Rightarrow> world \<Rightarrow> unit action" where
  "reverseTransaction c ck env fault i actor w =
     (case find_tx w i of
        None \<Rightarrow> (throw ''FORENSIC_VOID: Transaction history not found.'', w)
      | Some tx \<Rightarrow>
          (case bind_outcome (reversal_legs c (w_kms w) tx (tx_legs w i)) (\<lambda>ls.
                  map_sum id (Pair ls) (decryptAmount c (w_kms w) (Some (JStr (tx_amount tx))) 0)) of
             Inl e \<Rightarrow> (Inl e, w)
           | Inr (ls, a) \<Rightarrow>
               (case postTransactionWithLedger c ck env (reversal_header (pe_uuid env) tx a) ls w of
                  (Inl e, w') \<Rightarrow> (Inl e, w')
                | (Inr u, w') \<Rightarrow> updateTransactionStatus c fault i ''reversed'' (Some (authorized_by actor)) w')))"

definition reversal_md :: "clock \<Rightarrow> string \<Rightarrow> string \<Rightarrow> string \<Rightarrow> metadata \<Rightarrow> metadata" where
  "reversal_md ck actor reason role md = md(''reversal_reason'' \<mapsto> JStr reason, ''reversed_at'' \<mapsto> JStr (ck_iso ck (ck_now ck)),
     ''reversed_by'' \<mapsto> JStr actor, ''reversed_by_role'' \<mapsto> JStr role)"

definition reverseTransactionWithReason ::
    "crypto \<Rightarrow> clock \<Rightarrow> post_env \<Rightarrow> js_error option \<Rightarrow> string \<Rightarrow> string \<Rightarrow> string \<Rightarrow> string \<Rightarrow> world \<Rightarrow> unit action" where
  "reverseTransactionWithReason c ck env fault i actor reason role w =
     (case find_tx w i of
        None \<Rightarrow> (throw ''TRANSACTION_NOT_FOUND'', w)
      | Some tx \<Rightarrow>
          (case assertReversalEligible (Some (tx_status tx)) of
             Inl e \<Rightarrow> (Inl e, w)
           | Inr u \<Rightarrow>
               (case reverseTransaction c ck env fault i actor w of
                  (Inl e, w') \<Rightarrow> (Inl e, w')
                | (Inr v, w') \<Rightarrow> (Inr (), update_tx i (\<lambda>t. t\<lparr>tx_metadata := reversal_md ck actor reason role (tx_metadata tx),
                    tx_notes := Some reason, tx_updated := ck_now ck\<rparr>) w'))))"

end
