(* ===== verification/Settlement_Accounts.thy ===== *)
theory Settlement_Accounts
  imports Ledger_Store
begin

text \<open>
  \<open>backend/ledger/SystemSettlementAccountService.ts\<close>: the company accounts that take fees and
  carry settlements, resolved by role and currency.
\<close>

record settlement_account =
  sa_role :: string
  sa_currency :: string
  sa_status :: string
  sa_vault :: "string option"

definition normalizeCurrency :: "string option \<Rightarrow> string" where
  "normalizeCurrency c = js_upper (js_trim (text_or_empty c))"

definition currency_code :: "string \<Rightarrow> bool" where
  "currency_code s \<longleftrightarrow> length s = 3 \<and> list_all (\<lambda>c. 65 \<le> (of_char c :: nat) \<and> (of_char c :: nat) \<le> 90) s"

text \<open>\<open>.maybeSingle()\<close>: an error when several rows match.\<close>

definition maybe_single :: "'r list \<Rightarrow> 'r option outcome" where
  "maybe_single rs = (case rs of [] \<Rightarrow> Inr None | [r] \<Rightarrow> Inr (Some r) | _ \<Rightarrow> throw ''multiple (or no) rows returned'')"

text \<open>The two lookups may fail with a database error.\<close>

record lookup_faults =
  lf_account :: "js_error option"
  lf_vault :: "js_error option"

definition vault_usable :: "string \<Rightarrow> entity \<Rightarrow> bool" where
  "vault_usable code v \<longleftrightarrow> normalizeCurrency (ent_currency v) = code \<and> \<not> ent_locked v \<and> js_lower (ent_status v) = ''active''"

definition resolve_account ::
    "lookup_faults \<Rightarrow> settlement_account list \<Rightarrow> store \<Rightarrow> string \<Rightarrow> string \<Rightarrow> string outcome" where
  "resolve_account f accounts st role currency =
     (let code = normalizeCurrency (Some currency) in
      if \<not> currency_code code then throw (''SETTLEMENT_CURRENCY_INVALID:'' @ currency)
      else case (case lf_account f of Some e \<Rightarrow> Inl e
             | None \<Rightarrow> maybe_single (sel (\<lambda>a. sa_role a = role \<and> sa_currency a = code \<and> sa_status a = ''ACTIVE'') accounts)) of
          Inl e \<Rightarrow> throw (''SETTLEMENT_ACCOUNT_LOOKUP_FAILED:'' @ err_message e)
        | Inr row \<Rightarrow>
            (case Option.bind row sa_vault of
               None \<Rightarrow> throw (''SETTLEMENT_ACCOUNT_NOT_CONFIGURED:'' @ role @ '':'' @ code)
             | Some i \<Rightarrow>
                 (if i = [] then throw (''SETTLEMENT_ACCOUNT_NOT_CONFIGURED:'' @ role @ '':'' @ code)
                  else case lf_vault f of
                      Some e \<Rightarrow> throw (''SETTLEMENT_VAULT_LOOKUP_FAILED:'' @ err_message e)
                    | None \<Rightarrow>
                        (case st_vaults st i of
                           None \<Rightarrow> throw (''SETTLEMENT_ACCOUNT_INVALID:'' @ role @ '':'' @ code)
                         | Some v \<Rightarrow> if vault_usable code v then Inr i
                             else throw (''SETTLEMENT_ACCOUNT_INVALID:'' @ role @ '':'' @ code)))))"

text \<open>\<open>required\<close> is \<open>None\<close> when it is not a finite number; the balance column is a number.\<close>

definition fixed4_text :: "rat \<Rightarrow> string" where
  "fixed4_text x =
     (let r = to_fixed 4 x; a = \<bar>r\<bar>; i = \<lfloor>a\<rfloor>; f = nat \<lfloor>(a - of_int i) * 10000\<rfloor>; t = nat_text f in
      (if r < 0 then ''-'' else []) @ nat_text (nat i) @ ''.'' @ replicate (4 - length t) (CHR ''0'') @ t)"

definition requireAvailableBalance ::
    "lookup_faults \<Rightarrow> js_error option \<Rightarrow> settlement_account list \<Rightarrow> store \<Rightarrow> string \<Rightarrow> string \<Rightarrow> rat option \<Rightarrow>
     (string \<times> rat) outcome" where
  "requireAvailableBalance f vfault accounts st role currency required =
     (let code = normalizeCurrency (Some currency) in
      case required of
        None \<Rightarrow> throw (''SETTLEMENT_LIQUIDITY_AMOUNT_INVALID:'' @ role @ '':'' @ code)
      | Some q \<Rightarrow>
          (if q \<le> 0 then throw (''SETTLEMENT_LIQUIDITY_AMOUNT_INVALID:'' @ role @ '':'' @ code)
           else bind_outcome (resolve_account f accounts st role code) (\<lambda>i.
             case vfault of
               Some e \<Rightarrow> throw (''SETTLEMENT_VAULT_LOOKUP_FAILED:'' @ err_message e)
             | None \<Rightarrow>
                 (case st_vaults st i of
                    None \<Rightarrow> throw (''SETTLEMENT_ACCOUNT_INVALID:'' @ role @ '':'' @ code)
                  | Some v \<Rightarrow>
                      (if \<not> vault_usable code v then throw (''SETTLEMENT_ACCOUNT_INVALID:'' @ role @ '':'' @ code)
                       else if ent_balance v < q then
                         throw (''FX_SETTLEMENT_LIQUIDITY_UNAVAILABLE:'' @ code @ '':required='' @ fixed4_text q @
                           '':available='' @ fixed4_text (ent_balance v))
                       else Inr (i, ent_balance v))))))"

lemma resolve_account_usable:
  assumes "resolve_account f accounts st role currency = Inr i"
  shows "\<exists>v. st_vaults st i = Some v \<and> vault_usable (normalizeCurrency (Some currency)) v \<and>
    (\<exists>a \<in> set accounts. sa_role a = role \<and> sa_currency a = normalizeCurrency (Some currency) \<and>
       sa_status a = ''ACTIVE'' \<and> sa_vault a = Some i)"
  using assms
  by (auto simp: resolve_account_def Let_def maybe_single_def bind_eq_Some_conv sel_def filter_eq_Cons_iff
      split: if_splits option.splits sum.splits list.splits)

section \<open>Properties\<close>

text \<open>Settlement accounts never cross roles or currencies: an account that is resolved and found
  able to cover an amount is the vault of an active entry for exactly the requested role and
  currency, holds that currency itself, is active and unlocked, and has the amount.\<close>

theorem settlement_account_exact:
  assumes "requireAvailableBalance f vf accounts st role currency (Some q) = Inr (i, b)"
  shows "\<exists>a v. a \<in> set accounts \<and> sa_role a = role \<and> sa_currency a = js_upper (js_trim currency) \<and>
    sa_vault a = Some i \<and> st_vaults st i = Some v \<and>
    js_upper (js_trim (text_or_empty (ent_currency v))) = js_upper (js_trim currency) \<and>
    js_lower (ent_status v) = ''active'' \<and> \<not> ent_locked v \<and> b = ent_balance v \<and> 0 < q \<and> q \<le> b"
proof -
  let ?code = "normalizeCurrency (Some currency)"
  from assms have r: "resolve_account f accounts st role ?code = Inr i" and q: "0 < q"
    by (auto simp: requireAvailableBalance_def Let_def bind_outcome_Inr_iff split: if_splits option.splits)
  from resolve_account_usable [OF r] obtain a where
    a: "a \<in> set accounts" "sa_role a = role" "sa_currency a = normalizeCurrency (Some ?code)" "sa_vault a = Some i" by blast
  from assms obtain v where v: "st_vaults st i = Some v" "vault_usable ?code v" "b = ent_balance v" "q \<le> b"
    by (auto simp: requireAvailableBalance_def Let_def bind_outcome_Inr_iff split: if_splits option.splits)
  from resolve_account_usable [OF r] v(1) have "vault_usable (normalizeCurrency (Some ?code)) v" by auto
  with v(2) have "normalizeCurrency (Some ?code) = ?code" by (simp add: vault_usable_def)
  with a v q show ?thesis by (auto simp: vault_usable_def normalizeCurrency_def text_or_empty_def)
qed

theorem settlement_account_exact_witness:
  "\<exists>st accounts. requireAvailableBalance \<lparr>lf_account = None, lf_vault = None\<rparr> None accounts st ''SERVICE_REVENUE'' '' tzs '' (Some 40) = Inr (''v'', 50) \<and>
     sa_currency (hd accounts) = ''TZS''"
proof -
  let ?st = "\<lparr>st_wallets = (\<lambda>_. None), st_vaults = [''v'' \<mapsto> \<lparr>ent_balance = 50, ent_currency = Some ''TZS'', ent_locked = False,
      ent_status = ''active'', ent_owner = None\<rparr>], st_goals = (\<lambda>_. None), st_txs = [], st_ledger = [], st_markers = []\<rparr>"
  let ?accounts = "[\<lparr>sa_role = ''SERVICE_REVENUE'', sa_currency = ''TZS'', sa_status = ''ACTIVE'', sa_vault = Some ''v''\<rparr>]"
  have e: "requireAvailableBalance \<lparr>lf_account = None, lf_vault = None\<rparr> None ?accounts ?st ''SERVICE_REVENUE'' '' tzs '' (Some 40) = Inr (''v'', 50)"
    by code_simp
  have "js_upper (js_trim '' tzs '') = ''TZS''" by code_simp
  with settlement_account_exact [OF e] e show ?thesis by (intro exI [of _ ?st] exI [of _ ?accounts]) auto
qed

end
