(* ===== verification/Settlement_Lifecycle.thy ===== *)
theory Settlement_Lifecycle
  imports Ledger_Operations Platform_Fee Settlement_Accounts
begin

text \<open>
  \<open>backend/payments/settlementLifecycleManager.ts\<close>: the lifecycle of a payment received through an
  external gateway. A payment is recorded as pending, its provider proof is checked, and its
  amount is committed to the internal ledger under a fixed reference.

  Each operation is cut where the code waits for the database, so that the theories above can
  interleave the pieces of several workers; the whole operation is their composition. Audit
  entries leave no state the code reads. The reads and the update of \<open>recordFailure\<close> are taken
  to answer, since the code ignores their errors.
\<close>

section \<open>Rows\<close>

datatype phase = External_Pending | Reconciliation_Running | Ready_For_Commit | Internally_Settled
  | Settlement_Failed | Dispute_Under_Review | Phase_Reversed

fun phase_text :: "phase \<Rightarrow> string" where
  "phase_text External_Pending = ''EXTERNAL_PENDING''"
| "phase_text Reconciliation_Running = ''RECONCILIATION_RUNNING''"
| "phase_text Ready_For_Commit = ''READY_FOR_INTERNAL_COMMIT''"
| "phase_text Internally_Settled = ''INTERNALLY_SETTLED''"
| "phase_text Settlement_Failed = ''SETTLEMENT_FAILED''"
| "phase_text Dispute_Under_Review = ''DISPUTE_UNDER_REVIEW''"
| "phase_text Phase_Reversed = ''REVERSED''"

datatype failure_reason = Transition_Denied | Verification_Failed | Confirmation_Required
  | Confirmation_Already_Applied | Commit_Transition_Denied | Commit_In_Progress | Append_Already_Applied | Commit_Failed

fun reason_text :: "failure_reason \<Rightarrow> string" where
  "reason_text Transition_Denied = ''RECONCILIATION_TRANSITION_DENIED''"
| "reason_text Verification_Failed = ''RECONCILIATION_VERIFICATION_FAILED''"
| "reason_text Confirmation_Required = ''PROVIDER_CONFIRMATION_REQUIRED''"
| "reason_text Confirmation_Already_Applied = ''PROVIDER_CONFIRMATION_ALREADY_APPLIED''"
| "reason_text Commit_Transition_Denied = ''INTERNAL_COMMIT_TRANSITION_DENIED''"
| "reason_text Commit_In_Progress = ''INTERNAL_COMMIT_ALREADY_IN_PROGRESS''"
| "reason_text Append_Already_Applied = ''INTERNAL_COMMIT_APPEND_ALREADY_APPLIED''"
| "reason_text Commit_Failed = ''INTERNAL_COMMIT_FAILED''"

record recon_result =
  rr_verified :: bool
  rr_discrepancy :: "rat option"
  rr_notes :: string
  rr_source :: "string option"
  rr_reason :: "failure_reason option"

text \<open>A row of \<open>settlement_lifecycle\<close> as the gateway settlement uses it.\<close>

record gw_row =
  gw_id :: string
  gw_user :: "string option"
  gw_order :: string
  gw_amount :: rat
  gw_currency :: "string option"
  gw_phase :: phase
  gw_phase_started :: int
  gw_phase_completed :: "int option"
  gw_external :: string
  gw_provider :: string
  gw_tx :: "string option"
  gw_wallet :: string
  gw_movement :: "string option"
  gw_reconciliation :: "string option"
  gw_result :: "recon_result option"
  gw_auto_after :: int
  gw_auto_at :: "int option"
  gw_auto_executed :: "int option"
  gw_retry :: nat
  gw_last_error :: "string option"
  gw_metadata :: metadata
  gw_created :: int
  gw_updated :: int

text \<open>A row of \<open>external_fund_movements\<close>.\<close>

record movement =
  mv_id :: string
  mv_user :: "string option"
  mv_tx :: "string option"
  mv_status :: string
  mv_updated :: int
  mv_metadata :: metadata
  mv_lifecycle :: "string option"

record gateway =
  gs_world :: world
  gs_rows :: "gw_row list"
  gs_movements :: "movement list"
  gs_accounts :: "settlement_account list"
  gs_fees :: "fee_config list"
  gs_local :: fee_cache
  gs_redis :: "fee_cache option"

fun allowedTransitions :: "phase \<Rightarrow> phase list" where
  "allowedTransitions External_Pending = [Reconciliation_Running, Settlement_Failed]"
| "allowedTransitions Reconciliation_Running = [Ready_For_Commit, Settlement_Failed]"
| "allowedTransitions Ready_For_Commit = [Internally_Settled, Settlement_Failed]"
| "allowedTransitions Internally_Settled = [Phase_Reversed]"
| "allowedTransitions Settlement_Failed = []"
| "allowedTransitions Dispute_Under_Review = [Phase_Reversed, Settlement_Failed]"
| "allowedTransitions Phase_Reversed = []"

definition row_of :: "string \<Rightarrow> gw_row list \<Rightarrow> gw_row option" where
  "row_of i rows = single (sel (\<lambda>r. gw_id r = i) rows)"

text \<open>An update; the trigger of the table stamps \<open>updated_at\<close>.\<close>

definition upd_row :: "int \<Rightarrow> string \<Rightarrow> (gw_row \<Rightarrow> bool) \<Rightarrow> (gw_row \<Rightarrow> gw_row) \<Rightarrow> gw_row list \<Rightarrow> gw_row list" where
  "upd_row now i p f rows = upd (\<lambda>r. gw_id r = i \<and> p r) (\<lambda>r. (f r)\<lparr>gw_updated := now\<rparr>) rows"

definition stamp :: "clock \<Rightarrow> jsv" where
  "stamp ck = JStr (ck_iso ck (ck_now ck))"

section \<open>Keys and proofs\<close>

definition getProviderConfirmationKey :: "gw_row \<Rightarrow> string" where
  "getProviderConfirmationKey s = ''provider_confirmation:'' @ gw_provider s @ '':'' @ gw_external s"

definition buildInternalCommitReference :: "string \<Rightarrow> string" where
  "buildInternalCommitReference i = ''SETTLEMENT:'' @ i @ '':INTERNAL_COMMIT''"

definition buildInternalCommitAppendKey :: "string \<Rightarrow> string" where
  "buildInternalCommitAppendKey i = ''settlement:'' @ i @ '':GATEWAY_INTERNAL_COMMIT:v1''"

record provider_proof =
  pp_verified :: bool
  pp_source :: string
  pp_notes :: string

definition trusted_sources :: "string list" where
  "trusted_sources = [''TRUSTED_GATEWAY'', ''VERIFIED_PROVIDER_WEBHOOK'', ''PROVIDER_API_RECONCILIATION'', ''ADMIN_DUAL_CONTROL'']"

definition proof_source :: "metadata \<Rightarrow> string" where
  "proof_source md = js_upper (js_trim (md_first_text md
     [''provider_confirmation_source'', ''provider_proof_source'', ''trusted_gateway_event_source'']))"

definition proof_timestamp :: "metadata \<Rightarrow> bool" where
  "proof_timestamp md \<longleftrightarrow> list_ex (md_has md) [''provider_confirmation_applied_at'', ''trusted_gateway_event_applied_at'',
     ''verified_provider_webhook_at'', ''provider_api_reconciled_at'']"

definition proof_key_matches :: "metadata \<Rightarrow> string \<Rightarrow> bool" where
  "proof_key_matches md key = (let k = js_trim (md_text md ''provider_confirmation_key'') in k = [] \<or> k = key)"

definition missing_proof :: string where
  "missing_proof = ''Provider proof is required before internal ledger commit. Expected trusted gateway, verified provider webhook, provider API reconciliation, or admin dual-control confirmation metadata.''"

text \<open>\<open>stub\<close> is \<open>allowStubProviderReconciliation()\<close>, from the environment variables of the process.\<close>

definition allowStubProviderReconciliation :: "string option \<Rightarrow> string option \<Rightarrow> bool" where
  "allowStubProviderReconciliation node_env allow \<longleftrightarrow> node_env \<noteq> Some ''production'' \<and> allow = Some ''true''"

definition getTrustedProviderProof :: "bool \<Rightarrow> gw_row \<Rightarrow> string \<Rightarrow> provider_proof" where
  "getTrustedProviderProof stub s key =
     (let md = gw_metadata s; src = proof_source md in
      if src \<in> set trusted_sources \<and> proof_key_matches md key \<and> proof_timestamp md then
        \<lparr>pp_verified = True, pp_source = src, pp_notes = ''Trusted provider proof accepted from '' @ src @ ''.''\<rparr>
      else if stub then
        \<lparr>pp_verified = True, pp_source = ''NON_PRODUCTION_STUB'', pp_notes = ''Non-production stub reconciliation override accepted.''\<rparr>
      else \<lparr>pp_verified = False, pp_source = (if src = [] then ''MISSING'' else src), pp_notes = missing_proof\<rparr>)"

section \<open>Transitions and failures\<close>

definition transition_error :: "phase \<Rightarrow> phase \<Rightarrow> string \<Rightarrow> string" where
  "transition_error p q i = ''INVALID_SETTLEMENT_TRANSITION: '' @ phase_text p @ '' -> '' @ phase_text q @ '' is not allowed for settlement '' @ i"

definition transitionLifecyclePhase ::
    "clock \<Rightarrow> js_error option \<Rightarrow> string \<Rightarrow> phase \<Rightarrow> phase \<Rightarrow> (gw_row \<Rightarrow> gw_row) \<Rightarrow> gw_row list \<Rightarrow> unit outcome \<times> gw_row list" where
  "transitionLifecyclePhase ck fault i p q f rows =
     (if q \<notin> set (allowedTransitions p) then (throw (transition_error p q i), rows)
      else case fault of
          Some e \<Rightarrow> (Inl e, rows)
        | None \<Rightarrow>
            (if \<not> (\<exists>r \<in> set rows. gw_id r = i \<and> gw_phase r = p)
             then (throw (''INVALID_SETTLEMENT_TRANSITION: Settlement '' @ i @ '' is no longer in '' @ phase_text p), rows)
             else (Inr (), upd_row (ck_now ck) i (\<lambda>r. gw_phase r = p)
               (\<lambda>r. f (r\<lparr>gw_phase := q, gw_phase_started := ck_now ck\<rparr>)) rows)))"

definition failure_md :: "clock \<Rightarrow> failure_reason \<Rightarrow> string \<Rightarrow> (string \<times> jsv) list \<Rightarrow> metadata \<Rightarrow> metadata" where
  "failure_md ck reason msg extra md = md(''failure_reason'' \<mapsto> JStr (reason_text reason), ''failure_recorded_at'' \<mapsto> stamp ck,
     ''failure_details'' \<mapsto> JObj ([(''reason'', JStr (reason_text reason)), (''message'', JStr msg)] @ extra))"

text \<open>The update names the id only: whatever the phase is, it becomes the failed one.\<close>

definition recordFailure :: "clock \<Rightarrow> string \<Rightarrow> failure_reason \<Rightarrow> string \<Rightarrow> (string \<times> jsv) list \<Rightarrow> gw_row list \<Rightarrow> gw_row list" where
  "recordFailure ck i reason msg extra rows =
     (let md = failure_md ck reason msg extra (case row_of i rows of None \<Rightarrow> Map.empty | Some s \<Rightarrow> gw_metadata s) in
      upd_row (ck_now ck) i (\<lambda>r. True) (\<lambda>r. r\<lparr>gw_phase := Settlement_Failed, gw_phase_completed := Some (ck_now ck),
        gw_last_error := Some (reason_text reason), gw_metadata := md\<rparr>) rows)"

text \<open>\<open>String(error?.message || error || reason)\<close>: an error without a message prints as its class.\<close>

definition error_message :: "js_error \<Rightarrow> string" where
  "error_message e = (if err_message e = [] then ''Error'' else err_message e)"

section \<open>Recording a payment\<close>

record payment =
  py_user :: string
  py_order :: string
  py_external :: string
  py_provider :: string
  py_amount :: rat
  py_currency :: string
  py_wallet :: string
  py_auto_after :: int
  py_movement :: "string option"

record record_env =
  rx_uuid :: string
  rx_insert :: "js_error option"
  rx_movement :: "js_error option"

definition payment_row :: "clock \<Rightarrow> string \<Rightarrow> payment \<Rightarrow> gw_row" where
  "payment_row ck i p = \<lparr>gw_id = i, gw_user = Some (py_user p), gw_order = py_order p, gw_amount = py_amount p,
     gw_currency = Some (py_currency p), gw_phase = External_Pending, gw_phase_started = ck_now ck, gw_phase_completed = None,
     gw_external = py_external p, gw_provider = py_provider p, gw_tx = None, gw_wallet = py_wallet p,
     gw_movement = truthy_text (py_movement p), gw_reconciliation = None, gw_result = None, gw_auto_after = py_auto_after p,
     gw_auto_at = Some (ck_now ck + py_auto_after p * 60 * 1000), gw_auto_executed = None, gw_retry = 0, gw_last_error = None,
     gw_metadata = Map.empty, gw_created = ck_now ck, gw_updated = ck_now ck\<rparr>"

definition recordExternalPayment :: "clock \<Rightarrow> record_env \<Rightarrow> payment \<Rightarrow> gateway \<Rightarrow> gw_row outcome \<times> gateway" where
  "recordExternalPayment ck env p st =
     (let i = ''settle_lifecycle_'' @ rx_uuid env; row = payment_row ck i p;
          failed = (\<lambda>e. throw (''Failed to record external payment: '' @ err_message e)) in
      case rx_insert env of
        Some e \<Rightarrow> (failed e, st)
      | None \<Rightarrow>
          (let st1 = st\<lparr>gs_rows := gs_rows st @ [row]\<rparr> in
           case truthy_text (py_movement p) of
             None \<Rightarrow> (Inr row, st1)
           | Some m \<Rightarrow>
               (case rx_movement env of
                  Some e \<Rightarrow> (failed e, st1)
                | None \<Rightarrow> (Inr row, st1\<lparr>gs_movements := upd (\<lambda>v. mv_id v = m)
                    (\<lambda>v. v\<lparr>mv_lifecycle := Some i, mv_updated := ck_now ck\<rparr>) (gs_movements st1)\<rparr>))))"

section \<open>Reconciliation\<close>

datatype recon_move = Recon_Done | Recon_Duplicate | Recon_Wrong_Phase | Recon_Go

definition already_confirmed :: "gw_row \<Rightarrow> bool" where
  "already_confirmed s \<longleftrightarrow> gw_metadata s ''provider_confirmation_key'' = Some (JStr (getProviderConfirmationKey s)) \<and>
     md_has (gw_metadata s) ''provider_confirmation_applied_at''"

definition recon_entry :: "gw_row \<Rightarrow> recon_move" where
  "recon_entry s = (if gw_phase s = Ready_For_Commit \<or> gw_phase s = Internally_Settled then Recon_Done
     else if already_confirmed s then Recon_Duplicate
     else if gw_phase s \<noteq> External_Pending then Recon_Wrong_Phase else Recon_Go)"

text \<open>Nothing in the verification can throw: the catch branch of \<open>performReconciliation\<close> is dead.\<close>

definition performReconciliation :: "bool \<Rightarrow> gw_row \<Rightarrow> string \<Rightarrow> recon_result" where
  "performReconciliation stub s key =
     (let pr = getTrustedProviderProof stub s key in
      if \<not> pp_verified pr then
        \<lparr>rr_verified = False, rr_discrepancy = Some (gw_amount s), rr_notes = pp_notes pr, rr_source = Some (pp_source pr),
         rr_reason = Some Confirmation_Required\<rparr>
      else \<lparr>rr_verified = True, rr_discrepancy = None, rr_notes = pp_notes pr, rr_source = Some (pp_source pr), rr_reason = None\<rparr>)"

record recon_env =
  rn_uuid :: string
  rn_stub :: bool
  rn_begin :: "js_error option"
  rn_store :: "js_error option"
  rn_finish :: "js_error option"

definition source_value :: "recon_result \<Rightarrow> jsv" where
  "source_value res = (case rr_source res of None \<Rightarrow> JNull | Some t \<Rightarrow> JStr t)"

definition recon_begin :: "clock \<Rightarrow> recon_env \<Rightarrow> gw_row \<Rightarrow> gw_row list \<Rightarrow> unit outcome \<times> gw_row list" where
  "recon_begin ck env s rows =
     transitionLifecyclePhase ck (rn_begin env) (gw_id s) External_Pending Reconciliation_Running
       (\<lambda>r. r\<lparr>gw_reconciliation := Some (''recon_'' @ rn_uuid env),
          gw_metadata := (gw_metadata s)(''reconciliation_started_at'' \<mapsto> stamp ck)\<rparr>) rows"

definition recon_store :: "clock \<Rightarrow> recon_env \<Rightarrow> gw_row \<Rightarrow> recon_result \<Rightarrow> gw_row list \<Rightarrow> unit outcome \<times> gw_row list" where
  "recon_store ck env s res rows =
     (case rn_store env of
        Some e \<Rightarrow> (Inl e, rows)
      | None \<Rightarrow> (Inr (), upd_row (ck_now ck) (gw_id s) (\<lambda>r. True)
          (\<lambda>r. r\<lparr>gw_result := Some res, gw_phase_completed := Some (ck_now ck)\<rparr>) rows))"

definition recon_finish :: "clock \<Rightarrow> recon_env \<Rightarrow> gw_row \<Rightarrow> recon_result \<Rightarrow> gw_row list \<Rightarrow> bool outcome \<times> gw_row list" where
  "recon_finish ck env s res rows =
     (let key = getProviderConfirmationKey s in
      if rr_verified res then
        (case transitionLifecyclePhase ck (rn_finish env) (gw_id s) Reconciliation_Running Ready_For_Commit
            (\<lambda>r. r\<lparr>gw_metadata := (gw_metadata s)(''provider_confirmation_key'' \<mapsto> JStr key,
               ''provider_confirmation_source'' \<mapsto> source_value res, ''reconciliation_verified_at'' \<mapsto> stamp ck)\<rparr>) rows of
           (Inl e, rows') \<Rightarrow> (Inl e, rows') | (Inr u, rows') \<Rightarrow> (Inr True, rows'))
      else (Inr False, recordFailure ck (gw_id s)
        (if rr_reason res = Some Confirmation_Required then Confirmation_Required else Verification_Failed)
        (rr_notes res)
        ((case rr_discrepancy res of None \<Rightarrow> [] | Some d \<Rightarrow> [(''discrepancy'', JNum d)]) @
         [(''reconciliationId'', JStr (''recon_'' @ rn_uuid env)), (''providerConfirmationKey'', JStr key),
          (''proofSource'', source_value res)]) rows))"

definition recon_body :: "clock \<Rightarrow> recon_env \<Rightarrow> string \<Rightarrow> gw_row list \<Rightarrow> bool outcome \<times> gw_row list" where
  "recon_body ck env i rows =
     (case row_of i rows of
        None \<Rightarrow> (throw ''Settlement not found'', rows)
      | Some s \<Rightarrow>
          (case recon_entry s of
             Recon_Done \<Rightarrow> (Inr True, rows)
           | Recon_Duplicate \<Rightarrow> (Inr False, recordFailure ck i Confirmation_Already_Applied
               (''Provider confirmation already applied while settlement is in '' @ phase_text (gw_phase s))
               [(''providerConfirmationKey'', JStr (getProviderConfirmationKey s)), (''currentPhase'', JStr (phase_text (gw_phase s)))] rows)
           | Recon_Wrong_Phase \<Rightarrow> (throw (''Cannot reconcile settlement in phase: '' @ phase_text (gw_phase s)), rows)
           | Recon_Go \<Rightarrow>
               (case recon_begin ck env s rows of
                  (Inl e, rows1) \<Rightarrow> (Inl e, rows1)
                | (Inr u, rows1) \<Rightarrow>
                    (let res = performReconciliation (rn_stub env) s (getProviderConfirmationKey s) in
                     case recon_store ck env s res rows1 of
                       (Inl e, rows2) \<Rightarrow> (Inl e, rows2)
                     | (Inr u, rows2) \<Rightarrow> recon_finish ck env s res rows2))))"

text \<open>Any error is recorded as a failure of the settlement before it is thrown again.\<close>

definition startReconciliation :: "clock \<Rightarrow> recon_env \<Rightarrow> string \<Rightarrow> gw_row list \<Rightarrow> bool outcome \<times> gw_row list" where
  "startReconciliation ck env i rows =
     (case recon_body ck env i rows of
        (Inr b, rows') \<Rightarrow> (Inr b, rows')
      | (Inl e, rows') \<Rightarrow> (Inl e, recordFailure ck i Transition_Denied (error_message e) [] rows'))"

section \<open>Committing to the ledger\<close>

record commit_env =
  ce_claim :: string
  ce_tx :: string
  ce_suspense :: "string option"
  ce_claim_fault :: "js_error option"
  ce_redis_fails :: bool
  ce_fee_fault :: "js_error option"
  ce_lookup :: lookup_faults
  ce_post :: post_env
  ce_finish_fault :: "js_error option"
  ce_balance_fault :: "js_error option"

definition claim_md :: "clock \<Rightarrow> commit_env \<Rightarrow> gw_row \<Rightarrow> metadata" where
  "claim_md ck env s = (gw_metadata s)(''internal_commit_claim_id'' \<mapsto> JStr (ce_claim env), ''internal_commit_claimed_at'' \<mapsto> stamp ck,
     ''internal_commit_append_phase'' \<mapsto> JStr ''GATEWAY_INTERNAL_COMMIT'',
     ''internal_commit_append_key'' \<mapsto> JStr (buildInternalCommitAppendKey (gw_id s)))"

text \<open>The claim succeeds only on the row that was read: same phase, same start, no transaction.\<close>

definition claimable :: "gw_row \<Rightarrow> gw_row \<Rightarrow> bool" where
  "claimable s r \<longleftrightarrow> gw_id r = gw_id s \<and> gw_phase r = Ready_For_Commit \<and> gw_phase_started r = gw_phase_started s \<and> gw_tx r = None"

definition commit_claim :: "clock \<Rightarrow> commit_env \<Rightarrow> gw_row \<Rightarrow> gw_row list \<Rightarrow> bool outcome \<times> gw_row list" where
  "commit_claim ck env s rows =
     (case ce_claim_fault env of
        Some e \<Rightarrow> (Inl e, rows)
      | None \<Rightarrow> (Inr (list_ex (claimable s) rows), upd_row (ck_now ck) (gw_id s) (claimable s)
          (\<lambda>r. r\<lparr>gw_phase_started := ck_now ck, gw_metadata := claim_md ck env s\<rparr>) rows))"

text \<open>The answer for a settlement that is already committed.\<close>

definition settled_tx :: "gw_row \<Rightarrow> string option" where
  "settled_tx s = (if gw_phase s = Internally_Settled then truthy_text (gw_tx s) else None)"

definition commit_answer :: "crypto \<Rightarrow> commit_env \<Rightarrow> world \<Rightarrow> string \<Rightarrow> string \<Rightarrow> (string \<times> rat) outcome" where
  "commit_answer c env w t wallet = map_sum id (Pair t) (calculateBalanceFromLedger c (ce_balance_fault env) w wallet)"

definition gateway_fee_input :: "gw_row \<Rightarrow> string \<Rightarrow> fee_input" where
  "gateway_fee_input s cur = \<lparr>fi_flow_code = ''GATEWAY_SETTLEMENT'', fi_amount = Some (JNum (gw_amount s)), fi_currency = Some cur,
     fi_provider_id = truthy_text (Some (gw_provider s)), fi_country_code = None, fi_rail = None, fi_channel = None, fi_direction = None,
     fi_transaction_model = None, fi_category_code = None, fi_category_id = None, fi_operation_type = None,
     fi_transaction_type = Some ''GATEWAY_SETTLEMENT'',
     fi_metadata = [''settlement_id'' \<mapsto> JStr (gw_id s), ''external_settlement_id'' \<mapsto> JStr (gw_external s)]\<rparr>"

definition settlement_leg :: "string \<Rightarrow> string \<Rightarrow> rat \<Rightarrow> string \<Rightarrow> string \<Rightarrow> ledger_entry" where
  "settlement_leg k ty a cur d = \<lparr>le_wallet = Some k, le_user = None, le_type = ty, le_amount = Some a, le_currency = Some cur,
     le_description = Some d\<rparr>"

definition commit_legs :: "gw_row \<Rightarrow> string \<Rightarrow> string \<Rightarrow> rat \<Rightarrow> string option \<Rightarrow> ledger_entry list" where
  "commit_legs s source cur fee fee_wallet =
     [settlement_leg source ''DEBIT'' (gw_amount s + fee) cur (gw_provider s @ '' settlement debit for '' @ gw_external s),
      settlement_leg (gw_wallet s) ''CREDIT'' (gw_amount s) cur (''Received via '' @ gw_provider s @ '' payment gateway'')] @
     (case truthy_text fee_wallet of None \<Rightarrow> []
      | Some k \<Rightarrow> [settlement_leg k ''CREDIT'' fee cur (''Gateway settlement fee from '' @ gw_provider s)])"

definition commit_header :: "commit_env \<Rightarrow> gw_row \<Rightarrow> string \<Rightarrow> partial_tx" where
  "commit_header env s source = \<lparr>pt_id = Some (ce_tx env), pt_reference = Some (buildInternalCommitReference (gw_id s)),
     pt_user = gw_user s, pt_wallet = Some source, pt_to_wallet = Some (gw_wallet s), pt_amount = gw_amount s,
     pt_description = Some (''External '' @ gw_provider s @ '' payment settlement''), pt_type = Some ''deposit'',
     pt_status = Some ''completed'',
     pt_metadata = [''settlement_lifecycle_id'' \<mapsto> JStr (gw_id s), ''external_settlement_id'' \<mapsto> JStr (gw_external s),
       ''reconciliation_id'' \<mapsto> (case gw_reconciliation s of None \<Rightarrow> JNull | Some x \<Rightarrow> JStr x),
       ''settlement_path'' \<mapsto> JStr (''GATEWAY_'' @ gw_provider s),
       ''settlement_append_phase'' \<mapsto> JStr ''GATEWAY_INTERNAL_COMMIT'',
       ''settlement_append_key'' \<mapsto> JStr (buildInternalCommitAppendKey (gw_id s))],
     pt_category = None\<rparr>"

text \<open>The source wallet, the currency, the fee and its wallet; each may end the commit.\<close>

definition commit_source :: "commit_env \<Rightarrow> string option \<Rightarrow> string" where
  "commit_source env src = js_trim (first_text [src, ce_suspense env])"

definition commit_currency :: "gw_row \<Rightarrow> string" where
  "commit_currency s = js_upper (js_trim (text_or_empty (gw_currency s)))"

definition fee_wallet :: "commit_env \<Rightarrow> gateway \<Rightarrow> string \<Rightarrow> rat \<Rightarrow> string option outcome" where
  "fee_wallet env st cur fee = (if 0 < fee then map_sum id Some
     (resolve_account (ce_lookup env) (gs_accounts st) (w_store (gs_world st)) ''SERVICE_REVENUE'' cur) else Inr None)"

definition commit_prepare ::
    "clock \<Rightarrow> commit_env \<Rightarrow> string option \<Rightarrow> gw_row \<Rightarrow> gateway \<Rightarrow> (partial_tx \<times> ledger_entry list) outcome \<times> gateway" where
  "commit_prepare ck env src s st =
     (let source = commit_source env src; cur = commit_currency s in
      if st_wallets (w_store (gs_world st)) (gw_wallet s) = None then (throw ''Target wallet not found'', st)
      else if source = [] then (throw ''SETTLEMENT_SOURCE_WALLET_REQUIRED'', st)
      else if cur = [] then (throw ''SETTLEMENT_CURRENCY_REQUIRED'', st)
      else case resolveFee (ck_now ck) (ce_redis_fails env) (ce_fee_fault env) (gateway_fee_input s cur)
              (gs_local st) (gs_redis st) (gs_fees st) of
          (r, l, d) \<Rightarrow>
            (bind_outcome r (\<lambda>f. bind_outcome (fee_wallet env st cur (fe_service_fee f)) (\<lambda>k.
               Inr (commit_header env s source, commit_legs s source cur (fe_service_fee f) k))),
             st\<lparr>gs_local := l, gs_redis := d\<rparr>))"

definition commit_post :: "crypto \<Rightarrow> clock \<Rightarrow> commit_env \<Rightarrow> string option \<Rightarrow> gw_row \<Rightarrow> gateway \<Rightarrow> unit outcome \<times> gateway" where
  "commit_post c ck env src s st =
     (case commit_prepare ck env src s st of
        (Inl e, st1) \<Rightarrow> (Inl e, st1)
      | (Inr (t, ls), st1) \<Rightarrow>
          (case postTransactionWithLedger c ck (ce_post env) t ls (gs_world st1) of (r, w) \<Rightarrow> (r, st1\<lparr>gs_world := w\<rparr>)))"

text \<open>The last update again names the id only.\<close>

definition commit_finish :: "clock \<Rightarrow> commit_env \<Rightarrow> gw_row \<Rightarrow> metadata \<Rightarrow> gw_row list \<Rightarrow> unit outcome \<times> gw_row list" where
  "commit_finish ck env s md rows =
     (case ce_finish_fault env of
        Some e \<Rightarrow> (Inl e, rows)
      | None \<Rightarrow> (Inr (), upd_row (ck_now ck) (gw_id s) (\<lambda>r. True)
          (\<lambda>r. r\<lparr>gw_phase := Internally_Settled, gw_tx := Some (ce_tx env), gw_phase_completed := Some (ck_now ck),
             gw_metadata := md(''internal_commit_completed_at'' \<mapsto> stamp ck,
               ''internal_commit_reference'' \<mapsto> JStr (buildInternalCommitReference (gw_id s)),
               ''internal_commit_result'' \<mapsto> JStr ''COMPLETED'')\<rparr>) rows))"

definition commit_lost :: "crypto \<Rightarrow> commit_env \<Rightarrow> string \<Rightarrow> gateway \<Rightarrow> (string \<times> rat) outcome" where
  "commit_lost c env i st =
     (case row_of i (gs_rows st) of
        None \<Rightarrow> throw ''JSON object requested, multiple (or no) rows returned''
      | Some r \<Rightarrow> (case settled_tx r of
            Some t \<Rightarrow> commit_answer c env (gs_world st) t (gw_wallet r)
          | None \<Rightarrow> throw ''SETTLEMENT_COMMIT_ALREADY_IN_PROGRESS''))"

text \<open>What follows a claim: the posting, the final update and the balance of the answer.\<close>

definition commit_settle :: "crypto \<Rightarrow> clock \<Rightarrow> commit_env \<Rightarrow> string option \<Rightarrow> gw_row \<Rightarrow> gateway \<Rightarrow> (string \<times> rat) outcome \<times> gateway" where
  "commit_settle c ck env src s st =
     (case commit_post c ck env src s st of
        (Inl e, st1) \<Rightarrow> (Inl e, st1)
      | (Inr u, st1) \<Rightarrow>
          (case commit_finish ck env s (claim_md ck env s) (gs_rows st1) of
             (Inl e, rows) \<Rightarrow> (Inl e, st1\<lparr>gs_rows := rows\<rparr>)
           | (Inr u, rows) \<Rightarrow> (commit_answer c env (gs_world st1) (ce_tx env) (gw_wallet s), st1\<lparr>gs_rows := rows\<rparr>)))"

definition commit_body :: "crypto \<Rightarrow> clock \<Rightarrow> commit_env \<Rightarrow> string \<Rightarrow> string option \<Rightarrow> gateway \<Rightarrow> (string \<times> rat) outcome \<times> gateway" where
  "commit_body c ck env i src st =
     (case row_of i (gs_rows st) of
        None \<Rightarrow> (throw ''Settlement not found'', st)
      | Some s \<Rightarrow>
          (case settled_tx s of
             Some t \<Rightarrow> (commit_answer c env (gs_world st) t (gw_wallet s), st)
           | None \<Rightarrow>
               (if gw_phase s \<noteq> Ready_For_Commit then (throw (''Cannot commit settlement in phase: '' @ phase_text (gw_phase s)), st)
                else case commit_claim ck env s (gs_rows st) of
                    (Inl e, rows) \<Rightarrow> (Inl e, st\<lparr>gs_rows := rows\<rparr>)
                  | (Inr won, rows) \<Rightarrow>
                      (if won then commit_settle c ck env src s (st\<lparr>gs_rows := rows\<rparr>)
                       else (commit_lost c env i (st\<lparr>gs_rows := rows\<rparr>), st\<lparr>gs_rows := rows\<rparr>)))))"

definition commit_reason :: "string \<Rightarrow> failure_reason" where
  "commit_reason m =
     (if js_includes m ''SETTLEMENT_COMMIT_ALREADY_IN_PROGRESS'' then Commit_In_Progress
      else if js_includes m ''APPEND_ALREADY_APPLIED'' \<or> js_includes m ''IDEMPOTENCY_VIOLATION'' then Append_Already_Applied
      else if js_includes m ''Cannot commit settlement in phase'' then Commit_Transition_Denied else Commit_Failed)"

definition commit_failed :: "clock \<Rightarrow> string \<Rightarrow> js_error \<Rightarrow> gw_row list \<Rightarrow> gw_row list" where
  "commit_failed ck i e rows = recordFailure ck i (commit_reason (err_message e)) (error_message e) [(''phase'', JStr ''INTERNAL_COMMIT'')] rows"

definition commitToInternalLedger ::
    "crypto \<Rightarrow> clock \<Rightarrow> commit_env \<Rightarrow> string \<Rightarrow> string option \<Rightarrow> gateway \<Rightarrow> (string \<times> rat) outcome \<times> gateway" where
  "commitToInternalLedger c ck env i src st =
     (case commit_body c ck env i src st of
        (Inr a, st') \<Rightarrow> (Inr a, st')
      | (Inl e, st') \<Rightarrow> (Inl e, st'\<lparr>gs_rows := commit_failed ck i e (gs_rows st')\<rparr>))"

definition getLifecycleStatus :: "string \<Rightarrow> gateway \<Rightarrow> gw_row option" where
  "getLifecycleStatus i st = row_of i (gs_rows st)"

end
