(* ===== verification/Settlement_Scheduler.thy ===== *)
theory Settlement_Scheduler
  imports Settlement_Lifecycle
begin

text \<open>
  \<open>backend/payments/settlementScheduler.ts\<close>: the periodic work on gateway settlements (automatic
  settlement, reaping of stuck reconciliations and movements, requeueing of failures) and the
  manual confirmation and dispute operations. The timer that starts a round every minute and the
  audit entries are left out; what each settlement of a round meets is given by its id.
\<close>

type_synonym round_env = "string \<Rightarrow> recon_env \<times> commit_env"

definition set_rows :: "gateway \<Rightarrow> gw_row list \<Rightarrow> gateway" where
  "set_rows st rows = st\<lparr>gs_rows := rows\<rparr>"

definition ids_where :: "(gw_row \<Rightarrow> bool) \<Rightarrow> gateway \<Rightarrow> string list" where
  "ids_where p st = map gw_id (sel p (gs_rows st))"

section \<open>Failure metadata\<close>

definition buildLifecycleFailureMetadata :: "string \<Rightarrow> string \<Rightarrow> (string \<times> jsv) list \<Rightarrow> metadata \<Rightarrow> metadata" where
  "buildLifecycleFailureMetadata reason msg extra md = md(''failure_reason'' \<mapsto> JStr reason,
     ''failure_details'' \<mapsto> JObj ([(''reason'', JStr reason), (''message'', JStr msg)] @ extra))"

section \<open>Automatic settlement\<close>

definition auto_due :: "int \<Rightarrow> gw_row \<Rightarrow> bool" where
  "auto_due now r \<longleftrightarrow> gw_phase r = External_Pending \<and> (case gw_auto_at r of None \<Rightarrow> False | Some t \<Rightarrow> t \<le> now) \<and> gw_auto_executed r = None"

definition auto_settle_one :: "crypto \<Rightarrow> clock \<Rightarrow> round_env \<Rightarrow> string \<Rightarrow> gateway \<Rightarrow> gateway" where
  "auto_settle_one c ck env i st =
     (case startReconciliation ck (fst (env i)) i (gs_rows st) of
        (Inl e, rows) \<Rightarrow> set_rows st rows
      | (Inr passed, rows) \<Rightarrow>
          (let st1 = set_rows st (upd_row (ck_now ck) i (\<lambda>r. True) (\<lambda>r. r\<lparr>gw_auto_executed := Some (ck_now ck)\<rparr>) rows) in
           if passed then snd (commitToInternalLedger c ck (snd (env i)) i None st1) else st1))"

definition processAutoSettleTimeouts :: "crypto \<Rightarrow> clock \<Rightarrow> round_env \<Rightarrow> gateway \<Rightarrow> gateway" where
  "processAutoSettleTimeouts c ck env st = fold (auto_settle_one c ck env) (ids_where (auto_due (ck_now ck)) st) st"

section \<open>Stuck reconciliations\<close>

definition recon_stuck :: "int \<Rightarrow> gw_row \<Rightarrow> bool" where
  "recon_stuck now r \<longleftrightarrow> gw_phase r = Reconciliation_Running \<and> gw_phase_started r < now - 10 * 60 * 1000"

definition reap_reconciliation :: "clock \<Rightarrow> gw_row \<Rightarrow> gateway \<Rightarrow> gateway" where
  "reap_reconciliation ck s st = set_rows st (upd_row (ck_now ck) (gw_id s) (\<lambda>r. True)
     (\<lambda>r. r\<lparr>gw_phase := Settlement_Failed, gw_phase_completed := Some (ck_now ck),
        gw_metadata := buildLifecycleFailureMetadata ''RECONCILIATION_TIMEOUT'' ''Reconciliation exceeded the allowed processing window.''
          [(''source'', JStr ''scheduler''), (''previous_phase'', JStr (phase_text Reconciliation_Running)),
           (''phase_started_at'', JStr (ck_iso ck (gw_phase_started s)))] (gw_metadata s)\<rparr>) (gs_rows st))"

definition processStuckReconciliations :: "clock \<Rightarrow> gateway \<Rightarrow> gateway" where
  "processStuckReconciliations ck st = fold (reap_reconciliation ck) (sel (recon_stuck (ck_now ck)) (gs_rows st)) st"

section \<open>Requeueing failures\<close>

definition backoff_minutes :: "nat \<Rightarrow> int" where
  "backoff_minutes n = (if n = 0 then 1 else if n = 1 then 5 else if n = 2 then 30 else 60)"

definition failed_at :: "gw_row \<Rightarrow> int" where
  "failed_at r = (case gw_phase_completed r of Some t \<Rightarrow> t | None \<Rightarrow> gw_updated r)"

definition retry_candidate :: "gw_row \<Rightarrow> bool" where
  "retry_candidate r \<longleftrightarrow> gw_phase r = Settlement_Failed \<and> gw_retry r < 3"

definition retry_due :: "int \<Rightarrow> gw_row \<Rightarrow> bool" where
  "retry_due now r \<longleftrightarrow> backoff_minutes (gw_retry r) \<le> (now - failed_at r) div 60000"

definition requeued :: "clock \<Rightarrow> gw_row \<Rightarrow> gw_row \<Rightarrow> gw_row" where
  "requeued ck s r = r\<lparr>gw_phase := External_Pending, gw_phase_started := ck_now ck, gw_retry := gw_retry s + 1, gw_auto_at := Some (ck_now ck),
     gw_metadata := (gw_metadata s)(''retry_requeued_at'' \<mapsto> stamp ck, ''retry_requeued_by'' \<mapsto> JStr ''scheduler'',
       ''retry_backoff_minutes'' \<mapsto> JNum (of_int (backoff_minutes (gw_retry s))), ''retry_attempt'' \<mapsto> JNum (of_nat (gw_retry s + 1)))\<rparr>"

definition retry_one :: "clock \<Rightarrow> gw_row \<Rightarrow> gateway \<Rightarrow> gateway" where
  "retry_one ck s st = (if \<not> retry_due (ck_now ck) s then st
     else set_rows st (upd_row (ck_now ck) (gw_id s) (\<lambda>r. True) (requeued ck s) (gs_rows st)))"

definition retryFailedSettlements :: "clock \<Rightarrow> gateway \<Rightarrow> gateway" where
  "retryFailedSettlements ck st = fold (retry_one ck) (sel retry_candidate (gs_rows st)) st"

section \<open>Stuck movements\<close>

definition movement_stuck :: "int \<Rightarrow> string \<Rightarrow> int \<Rightarrow> movement \<Rightarrow> bool" where
  "movement_stuck now status minutes v \<longleftrightarrow> mv_tx v = None \<and> mv_status v = status \<and> mv_updated v < now - minutes * 60 * 1000"

definition timeout_reason :: "string \<Rightarrow> string" where
  "timeout_reason status = (if status = ''processing'' then ''EXTERNAL_SETTLEMENT_TIMEOUT: Provider processing exceeded recovery window.''
     else ''EXTERNAL_SETTLEMENT_TIMEOUT: No provider confirmation received in time.'')"

definition reap_movement :: "clock \<Rightarrow> movement \<Rightarrow> gateway \<Rightarrow> gateway" where
  "reap_movement ck m st = (let why = timeout_reason (mv_status m) in
     st\<lparr>gs_movements := upd (\<lambda>v. mv_id v = mv_id m)
       (\<lambda>v. v\<lparr>mv_status := ''failed'', mv_updated := ck_now ck,
          mv_metadata := buildLifecycleFailureMetadata ''EXTERNAL_SETTLEMENT_TIMEOUT'' why
            [(''source'', JStr ''scheduler''), (''previous_status'', JStr (mv_status m))]
            ((mv_metadata m)(''timeout_reaped_at'' \<mapsto> stamp ck, ''timeout_reason'' \<mapsto> JStr why))\<rparr>) (gs_movements st)\<rparr>)"

text \<open>A failing query ends the round.\<close>

definition processStuckExternalMovements :: "clock \<Rightarrow> js_error option \<Rightarrow> js_error option \<Rightarrow> gateway \<Rightarrow> unit outcome \<times> gateway" where
  "processStuckExternalMovements ck f1 f2 st =
     (case first_some [f1, f2] of
        Some e \<Rightarrow> (throw (text_or (truthy_text (Some (first_text [map_option err_message f1, map_option err_message f2])))
          ''EXTERNAL_MOVEMENT_STUCK_QUERY_FAILED''), st)
      | None \<Rightarrow> (Inr (), fold (reap_movement ck)
          (sel (movement_stuck (ck_now ck) ''initiated'' 10) (gs_movements st) @
           sel (movement_stuck (ck_now ck) ''processing'' 30) (gs_movements st)) st))"

section \<open>A round\<close>

definition processSettlements ::
    "crypto \<Rightarrow> clock \<Rightarrow> round_env \<Rightarrow> js_error option \<Rightarrow> js_error option \<Rightarrow> gateway \<Rightarrow> unit outcome \<times> gateway" where
  "processSettlements c ck env f1 f2 st =
     (case processStuckExternalMovements ck f1 f2
             (processStuckReconciliations ck (processAutoSettleTimeouts c ck env st)) of
        (Inl e, st') \<Rightarrow> (Inl e, st')
      | (Inr u, st') \<Rightarrow> (Inr (), retryFailedSettlements ck st'))"

section \<open>Manual operations\<close>

definition confirm_and_commit :: "crypto \<Rightarrow> clock \<Rightarrow> recon_env \<times> commit_env \<Rightarrow> string \<Rightarrow> bool outcome \<Rightarrow> gateway \<Rightarrow> unit outcome \<times> gateway" where
  "confirm_and_commit c ck env i rejected st =
     (case startReconciliation ck (fst env) i (gs_rows st) of
        (Inl e, rows) \<Rightarrow> (Inl e, set_rows st rows)
      | (Inr passed, rows) \<Rightarrow>
          (if \<not> passed then (map_sum id (\<lambda>_. ()) rejected, set_rows st rows)
           else case commitToInternalLedger c ck (snd env) i None (set_rows st rows) of
               (Inl e, st') \<Rightarrow> (Inl e, st') | (Inr a, st') \<Rightarrow> (Inr (), st')))"

definition settlementReceivedManually :: "crypto \<Rightarrow> clock \<Rightarrow> recon_env \<times> commit_env \<Rightarrow> string \<Rightarrow> gateway \<Rightarrow> unit outcome \<times> gateway" where
  "settlementReceivedManually c ck env i st =
     (if row_of i (gs_rows st) = None then (throw ''Settlement not found'', st)
      else confirm_and_commit c ck env i (throw ''Reconciliation check failed'') st)"

definition disputeSettlement :: "clock \<Rightarrow> string \<Rightarrow> string \<Rightarrow> string \<Rightarrow> gateway \<Rightarrow> unit outcome \<times> gateway" where
  "disputeSettlement ck i user reason st =
     (case single (sel (\<lambda>r. gw_id r = i \<and> gw_user r = Some user) (gs_rows st)) of
        None \<Rightarrow> (throw ''Settlement not found'', st)
      | Some s \<Rightarrow> (Inr (), set_rows st (upd_row (ck_now ck) i (\<lambda>r. True)
          (\<lambda>r. r\<lparr>gw_phase := Dispute_Under_Review, gw_phase_started := ck_now ck,
             gw_metadata := (gw_metadata s)(''dispute_reason'' \<mapsto> JStr reason, ''disputed_at'' \<mapsto> stamp ck)\<rparr>) (gs_rows st))))"

datatype resolution = Approve | Reject

definition resolveDispute :: "crypto \<Rightarrow> clock \<Rightarrow> recon_env \<times> commit_env \<Rightarrow> string \<Rightarrow> resolution \<Rightarrow> gateway \<Rightarrow> unit outcome \<times> gateway" where
  "resolveDispute c ck env i res st =
     (if row_of i (gs_rows st) = None then (throw ''Settlement not found'', st)
      else if res = Approve then confirm_and_commit c ck env i (Inr False) st
      else (Inr (), set_rows st (upd_row (ck_now ck) i (\<lambda>r. True)
        (\<lambda>r. r\<lparr>gw_phase := Phase_Reversed, gw_phase_completed := Some (ck_now ck)\<rparr>) (gs_rows st))))"

definition pending_phases :: "phase list" where
  "pending_phases = [External_Pending, Reconciliation_Running, Ready_For_Commit, Settlement_Failed, Dispute_Under_Review]"

definition healthCheck :: "gateway \<Rightarrow> (string \<times> nat) list" where
  "healthCheck st = map (\<lambda>p. (phase_text p, length (ids_where (\<lambda>r. gw_phase r = p) st))) pending_phases"

end
