(* ===== verification/Service_Properties.thy ===== *)
theory Service_Properties
  imports Ledger_Operations
begin

text \<open>
  Theorems on the ledger service: the balance derived from the encrypted ledger rows agrees with
  the stored one whatever the calls do, a posting moves exactly the money of its entries, and a
  reversal takes exactly that money back.
\<close>

section \<open>Amounts\<close>

text \<open>The active version of the family ENCRYPTION is one of its keys, and is the active key.\<close>

definition kms_ready :: "kms \<Rightarrow> bool" where
  "kms_ready k \<longleftrightarrow> getKeyByVersion k KT_Encryption (getActiveVersion k KT_Encryption) = getActiveKey k KT_Encryption"

lemma amount_roundtrip:
  assumes "crypto_sound c" "kms_ready k" "encryptAmount c k now a = Inr e"
  shows "decryptAmount c k (Some (JStr e)) fb = Inr a"
proof -
  have enc: "encryptEnvelope c k now (Some (JNum a)) ''FINANCIAL_AMOUNT'' [] KT_Encryption = Inr e"
    using assms(3) by (simp add: encryptAmount_def)
  have plain: "\<not> isEncryptedEnvelope (JNum a)" by (simp add: isEncryptedEnvelope_def)
  from enc plain obtain key where key: "getActiveKey k KT_Encryption = Some key"
    by (auto simp: encryptEnvelope_def split: option.splits)
  with decrypt_encrypt [OF assms(1) enc _ plain, of k KT_Encryption] assms(2)
  have "decryptEnvelope c k e KT_Encryption = Inr (JNum a)" "isEncryptedEnvelope (JStr e)"
    by (simp_all add: kms_ready_def)
  then show ?thesis by (auto simp: decryptAmount_def js_number_def isEncryptedEnvelope_def js_starts_with_def)
qed

section \<open>Prepared legs\<close>

definition entry_value :: "ledger_entry \<Rightarrow> rat" where
  "entry_value l = (case le_amount l of None \<Rightarrow> 0 | Some a \<Rightarrow> a)"

definition entry_signed :: "string \<Rightarrow> ledger_entry \<Rightarrow> rat" where
  "entry_signed k l = (if entry_wallet l = Some k
     then (if js_upper (le_type l) = ''CREDIT'' then entry_value l else - entry_value l) else 0)"

definition entry_net :: "string \<Rightarrow> ledger_entry list \<Rightarrow> rat" where
  "entry_net k ls = (\<Sum>l\<leftarrow>ls. entry_signed k l)"

lemma entry_net_simps [simp]: "entry_net k [] = 0" "entry_net k (l # ls) = entry_signed k l + entry_net k ls"
  by (simp_all add: entry_net_def)

definition readable_leg :: "crypto \<Rightarrow> kms \<Rightarrow> leg_in \<Rightarrow> bool" where
  "readable_leg c k l \<longleftrightarrow> decryptAmount c k (Some (JStr (li_amount l))) 0 = Inr (leg_value l) \<and> li_wallet l \<noteq> Some []"

lemma entry_wallet_nonempty: "entry_wallet l = Some x \<Longrightarrow> x \<noteq> []"
  by (auto simp: entry_wallet_def split: option.splits if_splits)

lemma prepared:
  assumes "crypto_sound c" "kms_ready k" "prepare_legs c k now owner fb ls = Inr legs"
    and "list_all (\<lambda>l. scale4 (entry_value l)) ls"
  shows "net_of w legs = entry_net w ls \<and> list_all (readable_leg c k) legs \<and> list_all (\<lambda>l. scale4 (leg_value l)) legs"
  using assms(3,4)
proof (induction ls arbitrary: legs)
  case (Cons l ls)
  show ?case
  proof (cases "entry_wallet l")
    case None
    with Cons show ?thesis by (simp add: entry_signed_def)
  next
    case (Some x)
    with Cons.prems(1) obtain a e rest where a: "le_amount l = Some a" and e: "encryptAmount c k now a = Inr e"
      and r: "prepare_legs c k now owner fb ls = Inr rest"
      and legs: "legs = \<lparr>li_wallet = Some x, li_user = first_some [truthy_text (le_user l), owner x, truthy_text fb],
          li_type = le_type l, li_currency = le_currency l, li_plain = Some a, li_amount = e,
          li_description = le_description l\<rparr> # rest"
      by (auto simp: bind_outcome_Inr_iff split: option.splits if_splits)
    from Cons.IH [OF r] Cons.prems(2) amount_roundtrip [OF assms(1,2) e] Some a entry_wallet_nonempty [OF Some] show ?thesis
      by (auto simp: legs readable_leg_def leg_value_def wallet_signed_def leg_signed_def entry_signed_def entry_value_def)
  qed
qed simp

lemma legs_for_prepared:
  assumes "crypto_sound c" "kms_ready (w_kms w)" "legs_for c ck w what fb ls = Inr legs"
    and "list_all (\<lambda>l. scale4 (entry_value l)) ls"
  shows "net_of k legs = entry_net k ls \<and> list_all (readable_leg c (w_kms w)) legs \<and> list_all (\<lambda>l. scale4 (leg_value l)) legs"
  using assms prepared [OF assms(1,2)] by (auto simp: legs_for_def Let_def split: if_splits)

definition entry_total :: "ledger_entry list \<Rightarrow> rat" where
  "entry_total ls = (\<Sum>l\<leftarrow>ls. case entry_wallet l of None \<Rightarrow> 0 | Some k \<Rightarrow> entry_signed k l)"

lemma entry_total_simps [simp]: "entry_total [] = 0" "entry_total (xs @ ys) = entry_total xs + entry_total ys"
  by (simp_all add: entry_total_def)

lemma prepared_total:
  "prepare_legs c k now owner fb ls = Inr legs \<Longrightarrow> (\<Sum>l\<leftarrow>legs. leg_signed l) = entry_total ls"
proof (induction ls arbitrary: legs)
  case (Cons l ls)
  then show ?case
    by (cases "entry_wallet l")
      (auto simp: bind_outcome_Inr_iff entry_total_def entry_signed_def entry_value_def leg_signed_def leg_value_def split: option.splits if_splits)
qed (simp add: entry_total_def)

section \<open>Sums of rows\<close>

lemma sel_append [simp]: "sel p (xs @ ys) = sel p xs @ sel p ys"
  by (simp add: sel_def)

lemma sum_rows_append: "sum_rows c k (rs @ rs') b = bind_outcome (sum_rows c k rs b) (sum_rows c k rs')"
  by (induction rs arbitrary: b) (auto split: sum.splits)

lemma sum_rows_legs:
  "list_all2 (row_of_leg t cur) legs rs \<Longrightarrow> list_all (readable_leg c k) legs \<Longrightarrow>
     sum_rows c k (sel (\<lambda>r. lr_wallet r = w) rs) b = Inr (b + net_of w legs)"
proof (induction arbitrary: b rule: list_all2_induct)
  case (Cons l ls r rs)
  have up: "js_upper ''CREDIT'' = ''CREDIT''" "js_upper ''DEBIT'' = ''DEBIT''" by code_simp+
  from Cons have "side_sign (leg_side r) (leg_value l) = leg_signed l"
    by (auto simp: row_of_leg_def leg_side_def text_or_def side_sign_def leg_signed_def up)
  with Cons show ?case by (auto simp: row_of_leg_def readable_leg_def wallet_signed_def)
qed simp

section \<open>Stored and derived balances agree\<close>

definition readable_row :: "crypto \<Rightarrow> kms \<Rightarrow> ledger_row \<Rightarrow> bool" where
  "readable_row c k r \<longleftrightarrow> (\<exists>a. decryptAmount c k (Some (JStr (lr_amount r))) 0 = Inr a \<and> scale4 a) \<and>
     lr_type r \<in> {''CREDIT'', ''DEBIT''} \<and> lr_side r = None \<and> lr_wallet r \<noteq> []"

lemma sides: "js_upper ''CREDIT'' = ''CREDIT''" "js_upper ''DEBIT'' = ''DEBIT''"
  by code_simp+

definition row_value :: "crypto \<Rightarrow> kms \<Rightarrow> ledger_row \<Rightarrow> rat" where
  "row_value c k r = (case decryptAmount c k (Some (JStr (lr_amount r))) 0 of Inl e \<Rightarrow> 0
     | Inr a \<Rightarrow> side_sign (leg_side r) a)"

text \<open>The rows of one entity, oldest first, carry the running sum of their values.\<close>

fun timeline :: "crypto \<Rightarrow> kms \<Rightarrow> rat \<Rightarrow> ledger_row list \<Rightarrow> bool" where
  "timeline c k b [] = True"
| "timeline c k b (r # rs) = (lr_balance_after r = b + row_value c k r \<and> timeline c k (b + row_value c k r) rs)"

definition tx_sum :: "crypto \<Rightarrow> kms \<Rightarrow> string \<Rightarrow> ledger_row list \<Rightarrow> rat" where
  "tx_sum c k t rs = (\<Sum>r\<leftarrow>rs. if lr_tx r = t then row_value c k r else 0)"

lemma tx_sum_simps [simp]: "tx_sum c k t [] = 0"
  "tx_sum c k t (r # rs) = (if lr_tx r = t then row_value c k r else 0) + tx_sum c k t rs"
  "tx_sum c k t (rs @ rs') = tx_sum c k t rs + tx_sum c k t rs'"
  by (simp_all add: tx_sum_def)

text \<open>
  Every amount reads back, every balance is the sum of its rows and every row carries the running
  sum; the rows of each transaction of \<open>T\<close> cancel.
\<close>

definition agrees :: "string set \<Rightarrow> crypto \<Rightarrow> kms \<Rightarrow> store \<Rightarrow> bool" where
  "agrees T c k st \<longleftrightarrow> (\<forall>t \<in> T. tx_sum c k t (st_ledger st) = 0) \<and> list_all (readable_row c k) (st_ledger st) \<and> (\<forall>i. scale4 (balance_of st i) \<and>
     sum_rows c k (sel (\<lambda>r. lr_wallet r = i) (st_ledger st)) 0 = Inr (balance_of st i) \<and>
     timeline c k 0 (sel (\<lambda>r. lr_wallet r = i) (st_ledger st)))"

lemma row_value_leg: "row_of_leg t cur l r \<Longrightarrow> readable_leg c k l \<Longrightarrow> row_value c k r = leg_signed l"
  by (auto simp: row_of_leg_def readable_leg_def row_value_def leg_side_def text_or_def side_sign_def leg_signed_def sides)

lemma tx_sum_legs:
  "list_all2 (row_of_leg t cur) legs rs \<Longrightarrow> list_all (readable_leg c k) legs \<Longrightarrow>
     tx_sum c k t' rs = (if t' = t then \<Sum>l\<leftarrow>legs. leg_signed l else 0)"
proof (induction rule: list_all2_induct)
  case (Cons l ls r rs)
  then have "lr_tx r = t" by (simp add: row_of_leg_def)
  with Cons row_value_leg [OF Cons(1), of c k] show ?case by auto
qed simp

lemma timeline_legs:
  "list_all2 (row_of_leg t cur) legs rs \<Longrightarrow> list_all (readable_leg c k) legs \<Longrightarrow> traced i b legs rs \<Longrightarrow>
     timeline c k b (sel (\<lambda>r. lr_wallet r = i) rs)"
proof (induction arbitrary: b rule: list_all2_induct)
  case (Cons l ls r rs)
  from Cons(1) have "li_wallet l = Some (lr_wallet r)" by (simp add: row_of_leg_def)
  with Cons row_value_leg [OF Cons(1), of c k] show ?case by (auto split: if_splits)
qed simp

lemma timeline_append:
  "sum_rows c k rs b = Inr s \<Longrightarrow> list_all (readable_row c k) rs \<Longrightarrow> timeline c k b rs \<Longrightarrow> timeline c k s rs' \<Longrightarrow>
     timeline c k b (rs @ rs')"
  by (induction rs arbitrary: b) (auto simp: readable_row_def row_value_def)

lemma agreesD: "agrees T c k st \<Longrightarrow> \<forall>i. scale4 (balance_of st i)"
  by (simp add: agrees_def)

lemma readable_rows:
  "list_all2 (row_of_leg t cur) legs rs \<Longrightarrow> list_all (readable_leg c k) legs \<Longrightarrow>
     list_all (\<lambda>l. scale4 (leg_value l)) legs \<Longrightarrow> list_all (readable_row c k) rs"
  by (induction rule: list_all2_induct) (auto simp: readable_row_def readable_leg_def row_of_leg_def)

lemma agrees_rows:
  assumes "agrees T c k st" "st_ledger st' = st_ledger st @ rs" "list_all2 (row_of_leg t cur) legs rs"
    and "list_all (readable_leg c k) legs" "list_all (\<lambda>l. scale4 (leg_value l)) legs"
    and "\<And>i. balance_of st' i = balance_of st i + net_of i legs" and "\<And>i. traced i (balance_of st i) legs rs"
    and "(\<Sum>l\<leftarrow>legs. leg_signed l) = 0"
  shows "agrees T c k st'"
proof -
  have t: "timeline c k 0 (sel (\<lambda>r. lr_wallet r = i) (st_ledger st'))" for i
    using assms(1) timeline_append [OF _ _ _ timeline_legs [OF assms(3,4,7)], of "sel (\<lambda>r. lr_wallet r = i) (st_ledger st)" 0 i]
    by (auto simp: agrees_def assms(2) list_all_iff row_simps)
  have "scale4 (net_of i legs)" for i using assms(5) by (simp add: scale4_net_of list_all_iff)
  with assms have "scale4 (balance_of st' i) \<and> sum_rows c k (sel (\<lambda>r. lr_wallet r = i) (st_ledger st')) 0 = Inr (balance_of st' i)" for i
    unfolding agrees_def by (auto simp: sum_rows_append sum_rows_legs [OF assms(3,4)])
  with t assms(1) readable_rows [OF assms(3-5)] tx_sum_legs [OF assms(3,4)] show ?thesis
    by (simp add: agrees_def assms(2,8))
qed

lemma agrees_run:
  assumes "agrees T c k st" "\<And>st'. proc st = Inr st' \<Longrightarrow> agrees T c k st'"
  shows "agrees T c k (snd (run_rpc f proc st))"
  using assms by (auto simp: run_rpc_def split: rpc_fault.splits sum.splits)

lemma agrees_post:
  assumes "agrees T c k st" "list_all (readable_leg c k) (pa_legs a)" "list_all (\<lambda>l. scale4 (leg_value l)) (pa_legs a)"
    and "post_transaction_v2 st a = Inr st'"
  shows "agrees T c k st'"
proof -
  from post_rows_of_legs [OF assms(4)] assms(3) agreesD [OF assms(1)] obtain rs where
    "st_ledger st' = st_ledger st @ rs" "list_all2 (row_of_leg (pa_tx_id a) (currency_of st)) (pa_legs a) rs"
    "\<And>i. traced i (balance_of st i) (pa_legs a) rs" unfolding list_all_iff by blast
  moreover have "\<And>i. balance_of st' i = balance_of st i + net_of i (pa_legs a)"
    using post_balance [OF assms(4)] assms(3) agreesD [OF assms(1)] by (simp add: list_all_iff)
  moreover have "(\<Sum>l\<leftarrow>pa_legs a. leg_signed l) = 0"
    using post_total [OF assms(4)] assms(3) by (simp add: list_all_iff)
  ultimately show ?thesis using assms(2,3) by (intro agrees_rows [OF assms(1)])
qed

lemma agrees_append:
  assumes "agrees T c k st" "list_all (readable_leg c k) legs" "list_all (\<lambda>l. scale4 (leg_value l)) legs"
    and "append_ledger_entries_v1 st t legs key phase = Inr st'"
  shows "agrees T c k st'"
proof -
  from append_rows_of_legs [OF assms(4)] assms(3) agreesD [OF assms(1)] obtain rs where
    "st_ledger st' = st_ledger st @ rs" "list_all2 (row_of_leg t (\<lambda>_. None)) legs rs"
    "\<And>i. traced i (balance_of st i) legs rs" unfolding list_all_iff by blast
  moreover have "\<And>i. balance_of st' i = balance_of st i + net_of i legs"
    using append_balance [OF assms(4)] assms(3) agreesD [OF assms(1)] by (simp add: list_all_iff)
  moreover have "(\<Sum>l\<leftarrow>legs. leg_signed l) = 0"
    using append_total [OF assms(4)] assms(3) by (simp add: list_all_iff)
  ultimately show ?thesis using assms(2,3) by (intro agrees_rows [OF assms(1)])
qed

section \<open>What the operations leave alone\<close>

lemma log_event_sel [simp]: "w_store (log_event t a b d w) = w_store w" "w_kms (log_event t a b d w) = w_kms w"
  by (simp_all add: log_event_def)

lemma emit_event_sel [simp]: "w_store (emit_event a b w) = w_store w" "w_kms (emit_event a b w) = w_kms w"
  by (simp_all add: emit_event_def)

lemma purpose_events_sel [simp]:
  "w_store (snd (emitPurposeLifecycleEvents c ck t w)) = w_store w"
  "w_kms (snd (emitPurposeLifecycleEvents c ck t w)) = w_kms w"
  by (auto simp: emitPurposeLifecycleEvents_def Let_def split: sum.splits)

lemma after_post_sel [simp]:
  "w_store (snd (after_post c ck env t w)) = w_store w" "w_kms (snd (after_post c ck env t w)) = w_kms w"
  by (simp_all add: after_post_def)

lemma agrees_txs [simp]: "agrees T c k (st\<lparr>st_txs := t\<rparr>) = agrees T c k st"
  by (simp add: agrees_def)

lemma update_tx_sel [simp]: "w_kms (update_tx i f w) = w_kms w" "agrees T c k (w_store (update_tx i f w)) = agrees T c k (w_store w)"
  "balance_of (w_store (update_tx i f w)) j = balance_of (w_store w) j"
  by (simp_all add: update_tx_def)

lemma commit_args_legs:
  "commit_args c ck env t ls w = Inr a \<Longrightarrow>
     legs_for c ck w ''commits'' (pt_user t) ls = Inr (pa_legs a) \<and> pa_tx_id a = posted_id env t \<and>
     pa_status a = text_or (pt_status t) ''completed'' \<and> encryptAmount c (w_kms w) (ck_now ck) (pt_amount t) = Inr (pa_amount a)"
  by (auto simp: commit_args_def bind_outcome_Inr_iff)

lemma post_service_agrees:
  assumes "crypto_sound c" "kms_ready (w_kms w)" "list_all (\<lambda>l. scale4 (entry_value l)) ls"
    and "agrees T c (w_kms w) (w_store w)" "postTransactionWithLedger c ck env t ls w = (r, w')"
  shows "w_kms w' = w_kms w \<and> agrees T c (w_kms w) (w_store w')"
proof (cases "commit_args c ck env t ls w")
  case (Inl e)
  with assms show ?thesis by (simp add: postTransactionWithLedger_def)
next
  case (Inr a)
  from legs_for_prepared [OF assms(1,2) _ assms(3)] commit_args_legs [OF Inr]
  have l: "list_all (readable_leg c (w_kms w)) (pa_legs a)" "list_all (\<lambda>l. scale4 (leg_value l)) (pa_legs a)" by blast+
  obtain er st where r: "run_rpc (pe_rpc env) (\<lambda>st. post_transaction_v2 st a) (w_store w) = (er, st)" by fastforce
  have "agrees T c (w_kms w) (snd (run_rpc (pe_rpc env) (\<lambda>st. post_transaction_v2 st a) (w_store w)))"
    by (rule agrees_run [OF assms(4)]) (rule agrees_post [OF assms(4) l])
  then have "agrees T c (w_kms w) st" by (simp add: r)
  moreover have "w_kms w' = w_kms w \<and> w_store w' = st"
    using assms(5) after_post_sel [of c ck env t "w\<lparr>w_store := st\<rparr>"]
    by (cases er) (auto simp: postTransactionWithLedger_def Inr r simp del: after_post_sel)
  ultimately show ?thesis by simp
qed

lemma append_service_agrees:
  assumes "crypto_sound c" "kms_ready (w_kms w)" "list_all (\<lambda>l. scale4 (entry_value l)) ls"
    and "agrees T c (w_kms w) (w_store w)" "addLedgerEntries c ck f txid ls key phase w = (r, w')"
  shows "w_kms w' = w_kms w \<and> agrees T c (w_kms w) (w_store w')"
proof (cases "legs_for c ck w ''updates'' None ls")
  case (Inl e)
  with assms show ?thesis by (simp add: addLedgerEntries_def)
next
  case (Inr legs)
  from legs_for_prepared [OF assms(1,2) Inr assms(3)]
  have l: "list_all (readable_leg c (w_kms w)) legs" "list_all (\<lambda>l. scale4 (leg_value l)) legs" by blast+
  let ?p = "\<lambda>st. append_ledger_entries_v1 st txid legs (truthy_text key) (truthy_text phase)"
  obtain er st where r: "run_rpc f ?p (w_store w) = (er, st)" by fastforce
  have "agrees T c (w_kms w) (snd (run_rpc f ?p (w_store w)))"
    by (rule agrees_run [OF assms(4)]) (rule agrees_append [OF assms(4) l])
  then show ?thesis using assms(5) by (auto simp: addLedgerEntries_def Inr r split: option.splits)
qed

section \<open>Exact movements\<close>

lemma run_rpc_None: "run_rpc f proc st = (None, st') \<Longrightarrow> proc st = Inr st'"
  by (cases f; cases "proc st") (auto simp: run_rpc_def)

lemma post_ok:
  assumes "postTransactionWithLedger c ck env t ls w = (Inr u, w')"
  shows "\<exists>a st. commit_args c ck env t ls w = Inr a \<and> post_transaction_v2 (w_store w) a = Inr st \<and>
    w' = snd (after_post c ck env t (w\<lparr>w_store := st\<rparr>))"
proof (cases "commit_args c ck env t ls w")
  case (Inr a)
  obtain er st where r: "run_rpc (pe_rpc env) (\<lambda>st. post_transaction_v2 st a) (w_store w) = (er, st)" by fastforce
  show ?thesis
  proof (cases er)
    case None
    with assms have "w' = snd (after_post c ck env t (w\<lparr>w_store := st\<rparr>))" by (simp add: postTransactionWithLedger_def Inr r)
    with run_rpc_None [OF r [unfolded None]] Inr show ?thesis by blast
  next
    case (Some e)
    with assms show ?thesis by (simp add: postTransactionWithLedger_def Inr r)
  qed
qed (use assms in \<open>simp add: postTransactionWithLedger_def\<close>)

lemma post_moves:
  assumes "crypto_sound c" "kms_ready (w_kms w)" "list_all (\<lambda>l. scale4 (entry_value l)) ls"
    and "agrees T c (w_kms w) (w_store w)" "postTransactionWithLedger c ck env t ls w = (Inr u, w')"
  shows "balance_of (w_store w') k = balance_of (w_store w) k + entry_net k ls \<and> w_kms w' = w_kms w \<and>
    (\<exists>rs. st_ledger (w_store w') = st_ledger (w_store w) @ rs \<and> list_all (\<lambda>r. lr_tx r = posted_id env t) rs) \<and>
    agrees T c (w_kms w) (w_store w')"
proof -
  obtain a st where a: "commit_args c ck env t ls w = Inr a" and st: "post_transaction_v2 (w_store w) a = Inr st"
    and w': "w' = snd (after_post c ck env t (w\<lparr>w_store := st\<rparr>))"
    using post_ok [OF assms(5)] by blast
  from commit_args_legs [OF a] have l: "legs_for c ck w ''commits'' (pt_user t) ls = Inr (pa_legs a)"
    and i: "pa_tx_id a = posted_id env t" by simp_all
  note pl = legs_for_prepared [OF assms(1,2) l assms(3)]
  have "balance_of st k = balance_of (w_store w) k + entry_net k ls"
    using post_balance [OF st] pl [of k] agreesD [OF assms(4)] by (simp add: list_all_iff)
  moreover from post_rows_of_legs [OF st] obtain rs where rs: "st_ledger st = st_ledger (w_store w) @ rs"
    "list_all2 (row_of_leg (posted_id env t) (currency_of (w_store w))) (pa_legs a) rs" by (auto simp: i)
  have "list_all (\<lambda>r. lr_tx r = posted_id env t) rs"
    using rs(2) by (induction rule: list_all2_induct) (auto simp: row_of_leg_def)
  ultimately show ?thesis
    using rs(1) post_service_agrees [OF assms] by (auto simp: w')
qed

lemma post_entries_balance:
  assumes "crypto_sound c" "kms_ready (w_kms w)" "list_all (\<lambda>l. scale4 (entry_value l)) ls"
    and "postTransactionWithLedger c ck env t ls w = (Inr u, w')"
  shows "entry_total ls = 0"
proof -
  from post_ok [OF assms(4)] obtain a st where a: "commit_args c ck env t ls w = Inr a" "post_transaction_v2 (w_store w) a = Inr st"
    by blast
  from commit_args_legs [OF a(1)] have l: "legs_for c ck w ''commits'' (pt_user t) ls = Inr (pa_legs a)" by simp
  from post_total [OF a(2)] legs_for_prepared [OF assms(1,2) l assms(3)] have "(\<Sum>l\<leftarrow>pa_legs a. leg_signed l) = 0"
    by (simp add: list_all_iff)
  with l show ?thesis by (auto simp: legs_for_def Let_def prepared_total split: if_splits)
qed

lemma agrees_derived: "agrees T c (w_kms w) (w_store w) \<Longrightarrow> calculateBalanceFromLedger c None w k = Inr (balance_of (w_store w) k)"
  by (simp add: calculateBalanceFromLedger_def agrees_def round4_exact)

definition row_net :: "crypto \<Rightarrow> kms \<Rightarrow> string \<Rightarrow> ledger_row list \<Rightarrow> rat" where
  "row_net c k i rs = (\<Sum>r\<leftarrow>rs. if lr_wallet r = i then row_value c k r else 0)"

lemma row_net_simps [simp]: "row_net c k i [] = 0"
  "row_net c k i (r # rs) = (if lr_wallet r = i then row_value c k r else 0) + row_net c k i rs"
  by (simp_all add: row_net_def)

lemma sum_rows_net:
  "list_all (readable_row c k) rs \<Longrightarrow> sum_rows c k (sel (\<lambda>r. lr_wallet r = i) rs) b = Inr (b + row_net c k i rs)"
  by (induction rs arbitrary: b) (auto simp: readable_row_def row_value_def)

lemma reversal_net:
  assumes "reversal_legs c k tx rs = Inr es" "list_all (readable_row c k) rs"
  shows "entry_net i es = - row_net c k i rs \<and> list_all (\<lambda>l. scale4 (entry_value l)) es"
  using assms
proof (induction rs arbitrary: es)
  case (Cons r rs)
  then obtain a es' where a: "decryptAmount c k (Some (JStr (lr_amount r))) 0 = Inr a"
    and es: "reversal_legs c k tx rs = Inr es'"
    "es = \<lparr>le_wallet = Some (lr_wallet r), le_user = None,
             le_type = (if lr_type r = ''CREDIT'' then ''DEBIT'' else ''CREDIT''), le_amount = Some a,
             le_currency = Some (text_or (lr_currency r) (text_or (tx_currency tx) ''TZS'')),
             le_description = Some (reversal_note (tx_id tx))\<rparr> # es'"
    by (auto simp: bind_outcome_Inr_iff)
  from Cons.prems(2) a have p: "lr_type r \<in> {''CREDIT'', ''DEBIT''}" "lr_side r = None" "lr_wallet r \<noteq> []" "scale4 a"
    by (auto simp: readable_row_def)
  have v: "entry_signed i (hd es) = - (if lr_wallet r = i then row_value c k r else 0)"
    using p a by (auto simp: es(2) entry_signed_def entry_wallet_def entry_value_def row_value_def side_sign_def
        leg_side_def text_or_def sides)
  have "scale4 (entry_value (hd es))" using p(4) by (simp add: es(2) entry_value_def)
  with Cons.IH [OF es(1)] Cons.prems(2) v show ?case by (simp add: es(2))
qed simp

lemma status_sel:
  assumes "updateTransactionStatus c fault i s n w = (r, w')"
  shows "w_kms w' = w_kms w \<and> balance_of (w_store w') j = balance_of (w_store w) j \<and>
    agrees T c' k (w_store w') = agrees T c' k (w_store w) \<and> st_ledger (w_store w') = st_ledger (w_store w)"
  using assms by (auto simp: updateTransactionStatus_def Let_def update_tx_def split: option.splits if_splits sum.splits)

lemma reverse_cases:
  assumes "reverseTransaction c ck env fault i actor w = (r, w')"
  shows "(isl r \<and> w' = w) \<or> (\<exists>tx ls a r1 w1. find_tx w i = Some tx \<and> reversal_legs c (w_kms w) tx (tx_legs w i) = Inr ls \<and>
      postTransactionWithLedger c ck env (reversal_header (pe_uuid env) tx a) ls w = (r1, w1) \<and>
      (case r1 of Inl e \<Rightarrow> r = Inl e \<and> w' = w1
       | Inr u \<Rightarrow> updateTransactionStatus c fault i ''reversed'' (Some (authorized_by actor)) w1 = (r, w')))"
proof (cases "find_tx w i")
  case (Some tx)
  note tx = this
  show ?thesis
  proof (cases "reversal_legs c (w_kms w) tx (tx_legs w i)")
    case (Inr ls)
    note ls = this
    show ?thesis
    proof (cases "decryptAmount c (w_kms w) (Some (JStr (tx_amount tx))) 0")
      case (Inr a)
      obtain r1 w1 where "postTransactionWithLedger c ck env (reversal_header (pe_uuid env) tx a) ls w = (r1, w1)" by fastforce
      moreover from this assms tx ls Inr have "case r1 of Inl e \<Rightarrow> r = Inl e \<and> w' = w1
       | Inr u \<Rightarrow> updateTransactionStatus c fault i ''reversed'' (Some (authorized_by actor)) w1 = (r, w')"
        by (cases r1) (auto simp: reverseTransaction_def)
      ultimately show ?thesis using tx ls by blast
    qed (use assms tx ls in \<open>auto simp: reverseTransaction_def\<close>)
  qed (use assms tx in \<open>auto simp: reverseTransaction_def\<close>)
qed (use assms in \<open>auto simp: reverseTransaction_def\<close>)

lemma reverse_ok:
  assumes "reverseTransaction c ck env fault i actor w = (Inr u, w')"
  shows "\<exists>tx ls a w1. find_tx w i = Some tx \<and> reversal_legs c (w_kms w) tx (tx_legs w i) = Inr ls \<and>
    postTransactionWithLedger c ck env (reversal_header (pe_uuid env) tx a) ls w = (Inr (), w1) \<and>
    updateTransactionStatus c fault i ''reversed'' (Some (authorized_by actor)) w1 = (Inr u, w')"
proof -
  from reverse_cases [OF assms] obtain tx ls a r1 w1 where x: "find_tx w i = Some tx"
    "reversal_legs c (w_kms w) tx (tx_legs w i) = Inr ls"
    "postTransactionWithLedger c ck env (reversal_header (pe_uuid env) tx a) ls w = (r1, w1)"
    "case r1 of Inl e \<Rightarrow> (Inr u :: unit outcome) = Inl e \<and> w' = w1
      | Inr v \<Rightarrow> updateTransactionStatus c fault i ''reversed'' (Some (authorized_by actor)) w1 = (Inr u, w')" by auto
  then show ?thesis by (cases r1) auto
qed

lemma tx_legs_readable: "agrees T c k (w_store w) \<Longrightarrow> list_all (readable_row c k) (tx_legs w i)"
  by (auto simp: agrees_def tx_legs_def sel_def list_all_iff)

lemma reverse_moves:
  assumes "crypto_sound c" "kms_ready (w_kms w)" "agrees T c (w_kms w) (w_store w)"
    and "reverseTransaction c ck env fault i actor w = (Inr u, w')"
  shows "balance_of (w_store w') k = balance_of (w_store w) k - row_net c (w_kms w) k (tx_legs w i)"
proof -
  from reverse_ok [OF assms(4)] obtain tx ls a w1 where ls: "reversal_legs c (w_kms w) tx (tx_legs w i) = Inr ls"
    and p: "postTransactionWithLedger c ck env (reversal_header (pe_uuid env) tx a) ls w = (Inr (), w1)"
    and up: "updateTransactionStatus c fault i ''reversed'' (Some (authorized_by actor)) w1 = (Inr u, w')" by blast
  from reversal_net [OF ls tx_legs_readable [OF assms(3)]]
  have n: "entry_net k ls = - row_net c (w_kms w) k (tx_legs w i)" "list_all (\<lambda>l. scale4 (entry_value l)) ls" by blast+
  from post_moves [OF assms(1,2) n(2) assms(3) p, of k] status_sel [OF up] n(1) show ?thesis by simp
qed

lemma reverse_agrees:
  assumes "crypto_sound c" "kms_ready (w_kms w)" "agrees T c (w_kms w) (w_store w)"
    and "reverseTransaction c ck env fault i actor w = (r, w')"
  shows "w_kms w' = w_kms w \<and> agrees T c (w_kms w) (w_store w')"
  using reverse_cases [OF assms(4)]
proof (elim disjE exE conjE)
  fix tx ls a r1 w1
  assume ls: "reversal_legs c (w_kms w) tx (tx_legs w i) = Inr ls"
    and p: "postTransactionWithLedger c ck env (reversal_header (pe_uuid env) tx a) ls w = (r1, w1)"
    and f: "case r1 of Inl e \<Rightarrow> r = Inl e \<and> w' = w1
       | Inr u \<Rightarrow> updateTransactionStatus c fault i ''reversed'' (Some (authorized_by actor)) w1 = (r, w')"
  from reversal_net [OF ls tx_legs_readable [OF assms(3)]]
  have n: "list_all (\<lambda>l. scale4 (entry_value l)) ls" by blast
  from post_service_agrees [OF assms(1,2) n assms(3) p]
  have "w_kms w1 = w_kms w" "agrees T c (w_kms w) (w_store w1)" by blast+
  with f show ?thesis by (cases r1) (auto dest!: status_sel)
qed (use assms(3) in simp)

section \<open>Runs\<close>

text \<open>The calls of the service that write; each meets its own clock, generated ids and faults.\<close>

datatype call =
    Post_Call clock post_env partial_tx "ledger_entry list"
  | Append_Call clock rpc_fault string "ledger_entry list" "string option" "string option"
  | Reverse_Call clock post_env "js_error option" string string string string
  | Status_Call "js_error option" string string "string option"

fun run_call :: "crypto \<Rightarrow> call \<Rightarrow> world \<Rightarrow> world" where
  "run_call c (Post_Call ck env t ls) w = snd (postTransactionWithLedger c ck env t ls w)"
| "run_call c (Append_Call ck f i ls key phase) w = snd (addLedgerEntries c ck f i ls key phase w)"
| "run_call c (Reverse_Call ck env fault i actor reason role) w =
     snd (reverseTransactionWithReason c ck env fault i actor reason role w)"
| "run_call c (Status_Call fault i s nt) w = snd (updateTransactionStatus c fault i s nt w)"

fun call_scale4 :: "call \<Rightarrow> bool" where
  "call_scale4 (Post_Call ck env t ls) = list_all (\<lambda>l. scale4 (entry_value l)) ls"
| "call_scale4 (Append_Call ck f i ls key phase) = list_all (\<lambda>l. scale4 (entry_value l)) ls"
| "call_scale4 _ = True"

definition run_calls :: "crypto \<Rightarrow> call list \<Rightarrow> world \<Rightarrow> world" where
  "run_calls c cs w = fold (run_call c) cs w"

lemma run_call_agrees:
  assumes "crypto_sound c" "kms_ready (w_kms w)" "call_scale4 x" "agrees T c (w_kms w) (w_store w)"
  shows "w_kms (run_call c x w) = w_kms w \<and> agrees T c (w_kms w) (w_store (run_call c x w))"
proof (cases x)
  case (Post_Call ck env t ls)
  obtain r w' where e: "postTransactionWithLedger c ck env t ls w = (r, w')" by fastforce
  from assms(3) have "list_all (\<lambda>l. scale4 (entry_value l)) ls" by (simp add: Post_Call)
  from post_service_agrees [OF assms(1,2) this assms(4) e] show ?thesis by (simp add: Post_Call e)
next
  case (Append_Call ck f i ls key phase)
  obtain r w' where e: "addLedgerEntries c ck f i ls key phase w = (r, w')" by fastforce
  from assms(3) have "list_all (\<lambda>l. scale4 (entry_value l)) ls" by (simp add: Append_Call)
  from append_service_agrees [OF assms(1,2) this assms(4) e] show ?thesis by (simp add: Append_Call e)
next
  case (Reverse_Call ck env fault i actor reason role)
  obtain r w' where e: "reverseTransaction c ck env fault i actor w = (r, w')" by fastforce
  show ?thesis using reverse_agrees [OF assms(1,2,4) e] assms(4)
    by (auto simp: Reverse_Call e reverseTransactionWithReason_def split: option.splits sum.splits)
next
  case (Status_Call fault i s nt)
  obtain r w' where e: "updateTransactionStatus c fault i s nt w = (r, w')" by fastforce
  show ?thesis using status_sel [OF e] assms(4) by (simp add: Status_Call e)
qed

lemma run_calls_agrees:
  "crypto_sound c \<Longrightarrow> kms_ready (w_kms w) \<Longrightarrow> list_all call_scale4 cs \<Longrightarrow> agrees T c (w_kms w) (w_store w) \<Longrightarrow>
     w_kms (run_calls c cs w) = w_kms w \<and> agrees T c (w_kms w) (w_store (run_calls c cs w))"
proof (induction cs arbitrary: w)
  case (Cons x cs)
  from run_call_agrees [OF Cons.prems(1,2) _ Cons.prems(4), of x] Cons.prems(3)
  have "w_kms (run_call c x w) = w_kms w" "agrees T c (w_kms w) (w_store (run_call c x w))" by simp_all
  with Cons.IH [of "run_call c x w"] Cons.prems show ?case by (simp add: run_calls_def)
qed (simp add: run_calls_def)

section \<open>A sample world\<close>

definition wallet_row :: "rat \<Rightarrow> string \<Rightarrow> entity" where
  "wallet_row b owner = \<lparr>ent_balance = b, ent_currency = Some ''TZS'', ent_locked = False, ent_status = ''active'', ent_owner = Some owner\<rparr>"

definition sample_tx :: "string \<Rightarrow> string \<Rightarrow> tx_row" where
  "sample_tx i s = \<lparr>tx_id = i, tx_reference = ''R'' @ i, tx_user = Some ''u1'', tx_wallet = Some ''a'', tx_to_wallet = Some ''b'',
     tx_amount = ''30'', tx_description = ''d'', tx_type = ''transfer'', tx_status = s, tx_notes = None,
     tx_metadata = Map.empty, tx_category = None, tx_currency = Some ''TZS'', tx_created = 0, tx_updated = 0\<rparr>"

definition sample_row :: "string \<Rightarrow> string \<Rightarrow> string \<Rightarrow> string \<Rightarrow> rat \<Rightarrow> ledger_row" where
  "sample_row t k ty amt after = \<lparr>lr_tx = t, lr_user = Some ''u1'', lr_wallet = k, lr_type = ty, lr_amount = amt,
     lr_balance_after = after, lr_description = None, lr_currency = Some ''TZS'', lr_side = None\<rparr>"

text \<open>Wallet a was funded with 100 and paid 30 to b in transaction t1, whose status is \<open>s\<close>.\<close>

definition sample_store :: "string \<Rightarrow> store" where
  "sample_store s = \<lparr>st_wallets = [''a'' \<mapsto> wallet_row 70 ''u1'', ''b'' \<mapsto> wallet_row 30 ''u2''], st_vaults = Map.empty,
     st_goals = Map.empty, st_txs = [sample_tx ''t1'' s],
     st_ledger = [sample_row ''t0'' ''a'' ''CREDIT'' ''100'' 100, sample_row ''t1'' ''a'' ''DEBIT'' ''30'' 70, sample_row ''t1'' ''b'' ''CREDIT'' ''30'' 30],
     st_markers = []\<rparr>"

definition sample_world :: "string \<Rightarrow> world" where
  "sample_world s = \<lparr>w_store = sample_store s, w_kms = snd sample_kms, w_events = [], w_fin_events = [], w_categories = [],
     w_alerts = [], w_reports = [], w_lifecycles = [], w_transfer_vault = Map.empty\<rparr>"

definition sample_clock :: clock where
  "sample_clock = \<lparr>ck_now = 1000, ck_year = 2026, ck_month = 4, ck_month_start = (\<lambda>y m. 0), ck_iso = (\<lambda>t. num_text (of_int t)),
     ck_parse = (\<lambda>s. map_option floor (js_number_text s))\<rparr>"

definition sample_post_env :: "string \<Rightarrow> post_env" where
  "sample_post_env i = \<lparr>pe_uuid = i, pe_code = ''C'' @ i, pe_rpc = Rpc_Ok\<rparr>"

lemma sample_plain: "decryptAmount c k (Some (JStr ''100'')) 0 = Inr 100" "decryptAmount c k (Some (JStr ''30'')) 0 = Inr 30"
  by code_simp+

lemma sample_ready: "kms_ready (w_kms (sample_world s))"
proof -
  have "kms_ready (snd sample_kms)" by code_simp
  then show ?thesis by (simp add: sample_world_def)
qed

lemma sample_world_balance: "balance_of (sample_store s) i = (if i = ''a'' then 70 else if i = ''b'' then 30 else 0)"
  by (auto simp: balance_of_def entity_kinds_def sample_store_def wallet_row_def)

lemma sample_agrees: "T \<subseteq> {''t1''} \<Longrightarrow> agrees T c (w_kms (sample_world s)) (w_store (sample_world s))"
proof -
  have "list_all (readable_row c k) (st_ledger (sample_store s))" for k
    by (simp add: readable_row_def sample_store_def sample_row_def sample_plain)
  moreover have "sum_rows c k (sel (\<lambda>r. lr_wallet r = i) (st_ledger (sample_store s))) 0 = Inr (balance_of (sample_store s) i)" for k i
    unfolding sample_world_balance
    by (simp add: sample_store_def sample_row_def sample_plain leg_side_def text_or_def sides side_sign_def)
  moreover have "timeline c k 0 (sel (\<lambda>r. lr_wallet r = i) (st_ledger (sample_store s)))" for k i
    by (auto simp: sample_store_def sample_row_def row_value_def sample_plain leg_side_def text_or_def sides side_sign_def)
  moreover have "tx_sum c k ''t1'' (st_ledger (sample_store s)) = 0" for k
    by (simp add: sample_store_def sample_row_def row_value_def sample_plain leg_side_def text_or_def sides side_sign_def)
  moreover assume "T \<subseteq> {''t1''}"
  ultimately show ?thesis by (auto simp: agrees_def sample_world_def sample_world_balance)
qed

section \<open>Properties\<close>

text \<open>C7: Starting from a store whose balances are the sums of their decrypted ledger rows, every run of
  postings, appends, reversals and status changes, each of which may fail at any point or lose
  the answer of a call that committed, ends with the balance derived from the ledger equal to the stored
  one for every wallet, vault and goal; the verification of a wallet then reports no drift and writes no report.\<close>

theorem derived_balance_is_stored:
  assumes "crypto_sound c" and "kms_ready (w_kms w)" and "agrees {} c (w_kms w) (w_store w)" and "list_all call_scale4 cs"
  shows "calculateBalanceFromLedger c None (run_calls c cs w) k = Inr (balance_of (w_store (run_calls c cs w)) k) \<and>
    (entity_kinds (w_store (run_calls c cs w)) k = [Wallet_Entity] \<longrightarrow>
       verifyWalletBalance c None k (run_calls c cs w) = ((True, 0), run_calls c cs w))"
proof -
  let ?w = "run_calls c cs w"
  from run_calls_agrees [OF assms(1,2,4,3)] have a: "agrees {} c (w_kms ?w) (w_store ?w)" by simp
  then have b: "calculateBalanceFromLedger c None ?w k = Inr (balance_of (w_store ?w) k)" by (rule agrees_derived)
  moreover have "verifyWalletBalance c None k ?w = ((True, 0), ?w)" if "entity_kinds (w_store ?w) k = [Wallet_Entity]"
  proof -
    from that obtain e where "st_wallets (w_store ?w) k = Some e" "balance_of (w_store ?w) k = ent_balance e"
      by (auto simp: balance_of_def entity_kinds_def split: if_splits option.splits)
    with b show ?thesis by (simp add: verifyWalletBalance_def Let_def round4_exact)
  qed
  ultimately show ?thesis by blast
qed

definition sample_entry :: "string \<Rightarrow> string \<Rightarrow> rat \<Rightarrow> ledger_entry" where
  "sample_entry k ty a = \<lparr>le_wallet = Some k, le_user = None, le_type = ty, le_amount = Some a, le_currency = Some ''TZS'', le_description = None\<rparr>"

definition sample_entries :: "ledger_entry list" where
  "sample_entries = [sample_entry ''a'' ''DEBIT'' 20, sample_entry ''b'' ''CREDIT'' 20]"

definition sample_header :: partial_tx where
  "sample_header = reversal_header ''t2'' (sample_tx ''t1'' ''completed'') 20"

lemma sample_entries_ok [simp]: "list_all (\<lambda>l. scale4 (entry_value l)) sample_entries" "entry_net ''a'' sample_entries = - 20"
  by (simp_all add: sample_entries_def sample_entry_def entry_value_def entry_signed_def entry_wallet_def sides)

definition sample_calls :: "call list" where
  "sample_calls =
     [Post_Call sample_clock (sample_post_env ''t2'') sample_header
        sample_entries,
      Reverse_Call sample_clock (sample_post_env ''t3'') None ''t1'' ''admin'' ''r'' ''STAFF'',
      Status_Call None ''t2'' ''settled'' None]"

theorem derived_balance_is_stored_witness:
  "calculateBalanceFromLedger toy_crypto None (run_calls toy_crypto sample_calls (sample_world ''completed'')) ''a'' =
     Inr (balance_of (w_store (run_calls toy_crypto sample_calls (sample_world ''completed''))) ''a'')"
proof -
  have "list_all call_scale4 sample_calls" by (simp add: sample_calls_def)
  from derived_balance_is_stored [OF toy_sound sample_ready sample_agrees [OF empty_subsetI] this] show ?thesis by blast
qed

lemma after_post_ok:
  "text_or (pt_category t) [] = [] \<Longrightarrow> \<exists>u. fst (after_post c ck env t w) = Inr u"
  by (simp add: after_post_def emitPurposeLifecycleEvents_def Let_def)

text \<open>C8: A posting is all or nothing: whatever it answers, either the store is the one it found, and
  the answer is an error, or every balance has moved by exactly the signed amounts of the
  entries. An error after the money moved happens only when the answer of the committed
  procedure is lost or when the transaction has a budget category whose snapshot fails.\<close>

theorem posting_all_or_nothing:
  assumes "crypto_sound c" and "kms_ready (w_kms w)" and "agrees {} c (w_kms w) (w_store w)"
    and "list_all (\<lambda>l. scale4 (entry_value l)) ls" and "postTransactionWithLedger c ck env t ls w = (r, w')"
  shows "(w_store w' = w_store w \<and> isl r \<or>
      (\<forall>k. balance_of (w_store w') k = balance_of (w_store w) k + entry_net k ls)) \<and>
    (isl r \<and> w_store w' \<noteq> w_store w \<longrightarrow> text_or (pt_category t) [] \<noteq> [] \<or> (\<exists>e. pe_rpc env = Rpc_Late e))"
proof (cases "commit_args c ck env t ls w")
  case (Inl e)
  with assms(5) show ?thesis by (auto simp: postTransactionWithLedger_def)
next
  case (Inr a)
  let ?p = "\<lambda>st. post_transaction_v2 st a"
  obtain er st where run: "run_rpc (pe_rpc env) ?p (w_store w) = (er, st)" by fastforce
  have st: "st = w_store w \<and> er \<noteq> None \<or> ?p (w_store w) = Inr st \<and> (er \<noteq> None \<longrightarrow> (\<exists>e. pe_rpc env = Rpc_Late e))"
    using run by (cases "pe_rpc env"; cases "?p (w_store w)") (auto simp: run_rpc_def)
  have move: "balance_of st k = balance_of (w_store w) k + entry_net k ls" if "?p (w_store w) = Inr st" for k
    using post_balance [OF that] legs_for_prepared [OF assms(1,2) conjunct1 [OF commit_args_legs [OF Inr]] assms(4), of k]
      agreesD [OF assms(3)] by (simp add: list_all_iff)
  show ?thesis
  proof (cases er)
    case None
    with assms(5) have ap: "after_post c ck env t (w\<lparr>w_store := st\<rparr>) = (r, w')"
      by (simp add: postTransactionWithLedger_def Inr run)
    then have "w_store w' = st" using after_post_sel(1) [of c ck env t "w\<lparr>w_store := st\<rparr>"] by simp
    with st move None after_post_ok [of t c ck env "w\<lparr>w_store := st\<rparr>"] ap show ?thesis by auto
  next
    case (Some e)
    with assms(5) have "isl r \<and> w_store w' = st" by (auto simp: postTransactionWithLedger_def Inr run)
    with st move Some show ?thesis by auto
  qed
qed

theorem posting_all_or_nothing_witness:
  "\<exists>w'. postTransactionWithLedger toy_crypto sample_clock (sample_post_env ''t2'') sample_header sample_entries (sample_world ''completed'') = (Inr (), w') \<and>
     balance_of (w_store w') ''a'' = 50"
proof -
  have "fst (postTransactionWithLedger c sample_clock (sample_post_env ''t2'') sample_header sample_entries (sample_world ''completed'')) = Inr ()" for c
    by code_simp
  then obtain w' where p: "postTransactionWithLedger toy_crypto sample_clock (sample_post_env ''t2'') sample_header sample_entries (sample_world ''completed'') = (Inr (), w')"
    by (metis prod.collapse)
  have b: "balance_of (w_store (sample_world ''completed'')) ''a'' = 70" by (simp add: sample_world_def sample_world_balance)
  from posting_all_or_nothing [OF toy_sound sample_ready sample_agrees [OF empty_subsetI] sample_entries_ok(1) p]
  have "balance_of (w_store w') ''a'' = 50" by (auto simp: b)
  with p show ?thesis by blast
qed

end
