(* ===== verification/Reversal_Properties.thy ===== *)
theory Reversal_Properties
  imports Service_Properties
begin

text \<open>
  Theorems on reversals and status changes of the ledger service and on the budget limits: what a
  reversal takes back and when its status change is lost, which status changes happen, and
  when a hard budget blocks a payment.
\<close>

section \<open>Reversals\<close>

lemma post_tx_rows:
  assumes "post_transaction_v2 st a = Inr st'"
  shows "st_txs st' = st_txs st @ [new_tx a] \<and> (\<forall>t \<in> set (st_txs st). tx_id t \<noteq> pa_tx_id a)"
  by (rule post_success [OF assms]) (simp add: write_back_def)

lemma post_keeps_tx:
  assumes "postTransactionWithLedger c ck env t ls w = (Inr u, w')" "find_tx w i = Some tx"
  shows "find_tx w' i = Some tx"
proof -
  from post_ok [OF assms(1)] obtain a st where st: "post_transaction_v2 (w_store w) a = Inr st"
    and w': "w_store w' = st" by auto
  from assms(2) have i: "tx_id tx = i" "tx \<in> set (st_txs (w_store w))"
    unfolding find_tx_def by (auto dest!: single_SomeD simp: sel_def filter_eq_Cons_iff)
  from post_tx_rows [OF st] i have "pa_tx_id a \<noteq> i" by auto
  with post_tx_rows [OF st] assms(2) show ?thesis by (simp add: find_tx_def w' new_tx_def)
qed

lemma find_update [simp]:
  assumes "\<And>t. tx_id (f t) = tx_id t"
  shows "find_tx (update_tx i f w) j = (if j = i then map_option f (find_tx w j) else find_tx w j)"
proof -
  have "sel (\<lambda>t. tx_id t = j) (upd (\<lambda>t. tx_id t = i) f ts) =
      (if j = i then map f (sel (\<lambda>t. tx_id t = j) ts) else sel (\<lambda>t. tx_id t = j) ts)" for ts
    by (induction ts) (auto simp: assms)
  then show ?thesis by (simp add: find_tx_def update_tx_def single_def split: list.splits)
qed

lemma find_log [simp]: "find_tx (log_event t a b d w) i = find_tx w i"
  by (simp add: find_tx_def)

lemma reason_ok:
  assumes "reverseTransactionWithReason c ck env fault i actor reason role w = (Inr u, w')"
  shows "\<exists>tx w1 v. find_tx w i = Some tx \<and> isReversalEligibleStatus (Some (tx_status tx)) \<and>
    reverseTransaction c ck env fault i actor w = (Inr v, w1) \<and>
    w' = update_tx i (\<lambda>t. t\<lparr>tx_metadata := reversal_md ck actor reason role (tx_metadata tx), tx_notes := Some reason,
      tx_updated := ck_now ck\<rparr>) w1"
  using assms
  by (auto simp: reverseTransactionWithReason_def assertReversalEligible_def split: option.splits sum.splits if_splits prod.splits)

text \<open>C23: A reversal that succeeds was applied to an existing transaction that is not failed, reversed,
  refunded or cancelled, and takes back exactly the money its ledger rows moved: every balance
  falls by the net of the decrypted rows of the transaction on that wallet, vault or goal.\<close>

theorem reversal_takes_back:
  assumes "crypto_sound c" and "kms_ready (w_kms w)" and "agrees {} c (w_kms w) (w_store w)"
    and "reverseTransactionWithReason c ck env fault i actor reason role w = (Inr u, w')"
  shows "balance_of (w_store w') k = balance_of (w_store w) k - row_net c (w_kms w) k (tx_legs w i) \<and>
    (\<exists>tx. find_tx w i = Some tx \<and> js_lower (tx_status tx) \<notin> {''reversed'', ''failed'', ''refunded'', ''cancelled''})"
proof -
  from reason_ok [OF assms(4)] obtain tx w1 v where tx: "find_tx w i = Some tx" "isReversalEligibleStatus (Some (tx_status tx))"
    and r: "reverseTransaction c ck env fault i actor w = (Inr v, w1)"
    and w': "balance_of (w_store w') k = balance_of (w_store w1) k" by auto
  have "js_lower (tx_status tx) \<notin> {''reversed'', ''failed'', ''refunded'', ''cancelled''}"
    using tx(2) by (auto simp: isReversalEligibleStatus_def text_or_def reversalBlockedStatuses_def split: if_splits)
  with tx reverse_moves [OF assms(1-3) r, of k] w' show ?thesis by auto
qed

lemma sample_reversal:
  "fst (reverseTransactionWithReason c sample_clock (sample_post_env ''t9'') None ''t1'' ''admin'' ''r'' ''STAFF'' (sample_world ''completed'')) = Inr ()"
  "fst (reverseTransactionWithReason c sample_clock (sample_post_env ''t9'') None ''t1'' ''admin'' ''r'' ''STAFF'' (sample_world ''pending'')) = Inr ()"
  by code_simp+

lemma sample_row_net:
  "row_net c (w_kms (sample_world s)) ''a'' (tx_legs (sample_world s) ''t1'') = - 30"
  "balance_of (w_store (sample_world s)) ''a'' = 70"
proof -
  have "side_sign ''DEBIT'' x = - x" "side_sign ''CREDIT'' x = x" for x by (simp_all add: side_sign_def)
  then show "row_net c (w_kms (sample_world s)) ''a'' (tx_legs (sample_world s) ''t1'') = - 30"
    by (simp add: tx_legs_def sample_world_def sample_store_def sample_row_def row_value_def sample_plain leg_side_def text_or_def sides)
  show "balance_of (w_store (sample_world s)) ''a'' = 70" by (simp add: sample_world_def sample_world_balance)
qed

theorem reversal_takes_back_witness:
  "\<exists>w'. reverseTransactionWithReason toy_crypto sample_clock (sample_post_env ''t9'') None ''t1'' ''admin'' ''r'' ''STAFF'' (sample_world ''completed'') = (Inr (), w') \<and>
     balance_of (w_store w') ''a'' = 100"
proof -
  obtain w' where r: "reverseTransactionWithReason toy_crypto sample_clock (sample_post_env ''t9'') None ''t1'' ''admin'' ''r'' ''STAFF'' (sample_world ''completed'') = (Inr (), w')"
    by (metis prod.collapse sample_reversal(1))
  with reversal_takes_back [OF toy_sound sample_ready sample_agrees [OF empty_subsetI] r, of "''a''"] show ?thesis
    by (simp add: sample_row_net)
qed

text \<open>The reversal check lets a transaction through whose status has no transition to reversed (pending
  or created). Its money is moved back all the same, but the status change is silently ignored: the transaction
  keeps its status, is still eligible, and can be reversed again.\<close>

theorem unrecorded_reversal:
  assumes "crypto_sound c" and "kms_ready (w_kms w)" and "agrees {} c (w_kms w) (w_store w)"
    and "find_tx w i = Some tx" and "\<not> isValidTransition (tx_status tx) ''reversed''"
    and "reverseTransactionWithReason c ck env fault i actor reason role w = (Inr u, w')"
  shows "balance_of (w_store w') k = balance_of (w_store w) k - row_net c (w_kms w) k (tx_legs w i) \<and>
    (\<exists>tx'. find_tx w' i = Some tx' \<and> tx_status tx' = tx_status tx \<and>
       assertReversalEligible (Some (tx_status tx')) = Inr ())"
proof -
  from reason_ok [OF assms(6)] obtain w1 v where e: "isReversalEligibleStatus (Some (tx_status tx))"
    and r: "reverseTransaction c ck env fault i actor w = (Inr v, w1)"
    and w': "w' = update_tx i (\<lambda>t. t\<lparr>tx_metadata := reversal_md ck actor reason role (tx_metadata tx), tx_notes := Some reason,
      tx_updated := ck_now ck\<rparr>) w1" using assms(4) by auto
  from reverse_ok [OF r] obtain ls a w2 where
    p: "postTransactionWithLedger c ck env (reversal_header (pe_uuid env) tx a) ls w = (Inr (), w2)"
    and up: "updateTransactionStatus c fault i ''reversed'' (Some (authorized_by actor)) w2 = (Inr v, w1)"
    using assms(4) by auto
  from post_keeps_tx [OF p assms(4)] have "find_tx w2 i = Some tx" .
  with up assms(5) have "w1 = w2" by (simp add: updateTransactionStatus_def)
  let ?t = "tx\<lparr>tx_metadata := reversal_md ck actor reason role (tx_metadata tx), tx_notes := Some reason, tx_updated := ck_now ck\<rparr>"
  have "find_tx w' i = Some ?t" using post_keeps_tx [OF p assms(4)] \<open>w1 = w2\<close> by (simp add: w')
  moreover have "tx_status ?t = tx_status tx" by simp
  moreover from this e have "assertReversalEligible (Some (tx_status ?t)) = Inr ()" by (simp add: assertReversalEligible_def)
  moreover have "balance_of (w_store w') k = balance_of (w_store w1) k" by (simp add: w')
  ultimately show ?thesis using reverse_moves [OF assms(1-3) r, of k] by metis
qed

theorem unrecorded_reversal_witness:
  "\<exists>w' tx'. reverseTransactionWithReason toy_crypto sample_clock (sample_post_env ''t9'') None ''t1'' ''admin'' ''r'' ''STAFF'' (sample_world ''pending'') = (Inr (), w') \<and>
     balance_of (w_store w') ''a'' = 100 \<and> find_tx w' ''t1'' = Some tx' \<and> tx_status tx' = ''pending'' \<and>
     assertReversalEligible (Some (tx_status tx')) = Inr ()"
proof -
  obtain w' where r: "reverseTransactionWithReason toy_crypto sample_clock (sample_post_env ''t9'') None ''t1'' ''admin'' ''r'' ''STAFF'' (sample_world ''pending'') = (Inr (), w')"
    by (metis prod.collapse sample_reversal(2))
  have t: "find_tx (sample_world ''pending'') ''t1'' = Some (sample_tx ''t1'' ''pending'')"
    by (simp add: find_tx_def sample_world_def sample_store_def sample_tx_def)
  have n: "\<not> isValidTransition (tx_status (sample_tx ''t1'' ''pending'')) ''reversed''" by code_simp
  have s: "tx_status (sample_tx ''t1'' ''pending'') = ''pending''" by (simp add: sample_tx_def)
  from unrecorded_reversal [OF toy_sound sample_ready sample_agrees [OF empty_subsetI] t n r, of "''a''"] r show ?thesis
    by (auto simp: sample_row_net s)
qed

section \<open>Statuses over a run\<close>

lemma run_rpc_cases: "run_rpc f proc st = (e, st') \<Longrightarrow> st' = st \<or> proc st = Inr st'"
  by (cases f; cases "proc st") (auto simp: run_rpc_def)

definition fresh_tx_only :: "world \<Rightarrow> world \<Rightarrow> bool" where
  "fresh_tx_only w w' \<longleftrightarrow> st_txs (w_store w') = st_txs (w_store w) \<or>
     (\<exists>n. st_txs (w_store w') = st_txs (w_store w) @ [n] \<and> (\<forall>t \<in> set (st_txs (w_store w)). tx_id t \<noteq> tx_id n))"

lemma fresh_tx_find: "fresh_tx_only w w' \<Longrightarrow> find_tx w i = Some tx \<Longrightarrow> find_tx w' i = Some tx"
proof -
  assume f: "fresh_tx_only w w'" and tx: "find_tx w i = Some tx"
  from tx have "tx \<in> set (st_txs (w_store w))" "tx_id tx = i"
    unfolding find_tx_def by (auto dest!: single_SomeD simp: sel_def filter_eq_Cons_iff)
  with f tx show ?thesis by (auto simp: fresh_tx_only_def find_tx_def)
qed

lemma post_fresh_tx: "fresh_tx_only w (snd (postTransactionWithLedger c ck env t ls w))"
proof (cases "commit_args c ck env t ls w")
  case (Inr a)
  obtain er st where r: "run_rpc (pe_rpc env) (\<lambda>st. post_transaction_v2 st a) (w_store w) = (er, st)" by fastforce
  have "w_store (snd (postTransactionWithLedger c ck env t ls w)) = st"
    by (cases er) (simp_all add: postTransactionWithLedger_def Inr r)
  with run_rpc_cases [OF r] post_tx_rows [of "w_store w" a st] show ?thesis
    by (auto simp: fresh_tx_only_def new_tx_def)
qed (simp add: postTransactionWithLedger_def fresh_tx_only_def)

lemma append_tx_rows: "append_ledger_entries_v1 st t ls key phase = Inr st' \<Longrightarrow> st_txs st' = st_txs st"
  by (erule append_success) (simp add: write_back_def)

lemma append_fresh_tx: "fresh_tx_only w (snd (addLedgerEntries c ck f txid ls key phase w))"
proof (cases "legs_for c ck w ''updates'' None ls")
  case (Inr legs)
  obtain er st where r: "run_rpc f (\<lambda>st. append_ledger_entries_v1 st txid legs (truthy_text key) (truthy_text phase)) (w_store w) = (er, st)"
    by fastforce
  have "w_store (snd (addLedgerEntries c ck f txid ls key phase w)) = st"
    by (cases er) (simp_all add: addLedgerEntries_def Inr r)
  with run_rpc_cases [OF r] append_tx_rows [of "w_store w" txid legs _ _ st] show ?thesis
    by (auto simp: fresh_tx_only_def)
qed (simp add: addLedgerEntries_def fresh_tx_only_def)

text \<open>The status of a transaction moves along the table, or does not move.\<close>

definition moved_on :: "string \<Rightarrow> world \<Rightarrow> world \<Rightarrow> bool" where
  "moved_on i w w' \<longleftrightarrow> (\<forall>tx. find_tx w i = Some tx \<longrightarrow>
     (\<exists>tx'. find_tx w' i = Some tx' \<and> isValidTransition\<^sup>*\<^sup>* (tx_status tx) (tx_status tx')))"

lemma moved_on_refl [simp]: "moved_on i w w"
  by (simp add: moved_on_def)

lemma moved_on_trans: "moved_on i w w1 \<Longrightarrow> moved_on i w1 w2 \<Longrightarrow> moved_on i w w2"
  unfolding moved_on_def by (meson rtranclp_trans)

lemma moved_on_fresh: "fresh_tx_only w w' \<Longrightarrow> moved_on i w w'"
  using fresh_tx_find by (auto simp: moved_on_def)

lemma status_moved: "moved_on i w (snd (updateTransactionStatus c fault j s n w))"
proof (cases "find_tx w j")
  case (Some tx)
  show ?thesis
  proof (cases "isValidTransition (tx_status tx) s")
    case True
    let ?w = "log_event j (Some (tx_status tx)) s ''system'' (update_tx j (\<lambda>t. t\<lparr>tx_status := s, tx_notes := n\<rparr>) w)"
    have "snd (updateTransactionStatus c fault j s n w) = ?w"
      using True Some by (auto simp: updateTransactionStatus_def Let_def split: option.splits sum.splits)
    moreover have "moved_on i w ?w" using True Some by (auto simp: moved_on_def)
    ultimately show ?thesis by simp
  qed (use Some in \<open>simp add: updateTransactionStatus_def\<close>)
qed (simp add: updateTransactionStatus_def)

lemma reverse_moved: "moved_on j w (snd (reverseTransaction c ck env fault i actor w))"
proof -
  obtain r w' where e: "reverseTransaction c ck env fault i actor w = (r, w')" by fastforce
  from reverse_cases [OF e] show ?thesis
  proof (elim disjE exE conjE)
    fix tx ls a r1 w1
    assume p: "postTransactionWithLedger c ck env (reversal_header (pe_uuid env) tx a) ls w = (r1, w1)"
      and f: "case r1 of Inl e \<Rightarrow> r = Inl e \<and> w' = w1
        | Inr u \<Rightarrow> updateTransactionStatus c fault i ''reversed'' (Some (authorized_by actor)) w1 = (r, w')"
    have "moved_on j w w1"
      using moved_on_fresh [OF post_fresh_tx [of w c ck env "reversal_header (pe_uuid env) tx a" ls], of j] by (simp add: p)
    moreover have "moved_on j w1 w'"
      using f status_moved [of j w1 c fault i "''reversed''" "Some (authorized_by actor)"] by (cases r1) auto
    ultimately show ?thesis by (simp add: e moved_on_trans [of j w w1])
  qed (simp add: e)
qed

lemma moved_on_same_status:
  "(\<And>t. tx_id (f t) = tx_id t \<and> tx_status (f t) = tx_status t) \<Longrightarrow> moved_on j w w1 \<Longrightarrow> moved_on j w (update_tx i f w1)"
  by (fastforce simp: moved_on_def)

lemma run_call_moved: "moved_on i w (run_call c x w)"
proof (cases x)
  case (Reverse_Call ck env fault j actor reason role)
  obtain r w1 where e: "reverseTransaction c ck env fault j actor w = (r, w1)" by fastforce
  have m: "moved_on i w w1" using reverse_moved [of i w c ck env fault j actor] by (simp add: e)
  then show ?thesis
    by (auto simp: Reverse_Call e reverseTransactionWithReason_def intro!: moved_on_same_status split: option.splits sum.splits)
qed (simp_all add: moved_on_fresh [OF post_fresh_tx] moved_on_fresh [OF append_fresh_tx] status_moved)

lemma run_calls_moved: "moved_on i w (run_calls c cs w)"
proof (induction cs arbitrary: w)
  case (Cons x cs)
  then show ?case using moved_on_trans [OF run_call_moved [of i w c x] Cons] by (simp add: run_calls_def)
qed (simp add: run_calls_def)



section \<open>Budgets\<close>

lemma includes_prefix: "prefix p s \<Longrightarrow> js_includes s p"
  by (simp add: js_includes_def prefix_imp_sublist)

text \<open>When the target and the amounts of the period can be read, a hard limit of a corporate category
  is exact: a payment is refused if and only if it would take the spending of the period over the
  target, and a refusal records a blocking alert.\<close>

theorem hard_limit_exact:
  assumes "cat \<noteq> []" and "category_of w cat = Some b" and "bc_corporate b" and "bc_hard_limit b"
    and "resolveBudgetTarget c (w_kms w) b = Inr target" and "0 < target"
    and "sum_txs c (w_kms w) (period_txs cat (resolveBudgetPeriodStart ck (bc_period b)) (w_store w)) 0 = Inr spent"
  shows "(isl (fst (enforceBudgetLimits c ck user cat amount t w)) \<longleftrightarrow> target < spent + amount) \<and>
    (isl (fst (enforceBudgetLimits c ck user cat amount t w)) \<longrightarrow>
       w_alerts (snd (enforceBudgetLimits c ck user cat amount t w)) = w_alerts w @
         [\<lparr>ba_category = cat, ba_user = user, ba_tx = t, ba_amount = amount, ba_type = ''EXCEEDED_BLOCKED''\<rparr>])"
proof -
  have "js_includes (''BUDGET_EXCEEDED: Transaction blocked. Enterprise hard limit of '' @ x) ''BUDGET_EXCEEDED''" for x
    by (rule includes_prefix) simp
  then show ?thesis
    using assms by (auto simp: enforceBudgetLimits_def budget_body_def Let_def add_alert_def not_less split: if_splits)
qed

definition budget_world :: "string \<Rightarrow> world" where
  "budget_world amt = (sample_world ''completed'')\<lparr>
     w_categories := [\<lparr>bc_id = ''c1'', bc_name = ''Travel'', bc_corporate = True, bc_hard_limit = True, bc_currency = None,
       bc_period = None, bc_target = Some (JNum 100), bc_budget = None\<rparr>],
     w_store := (sample_store ''completed'')\<lparr>st_txs := [(sample_tx ''t1'' ''completed'')\<lparr>tx_category := Some ''c1'', tx_amount := amt\<rparr>]\<rparr>\<rparr>"

definition sample_category :: budget_category where
  "sample_category = \<lparr>bc_id = ''c1'', bc_name = ''Travel'', bc_corporate = True, bc_hard_limit = True, bc_currency = None,
     bc_period = None, bc_target = Some (JNum 100), bc_budget = None\<rparr>"

lemma sample_budget:
  "category_of (budget_world amt) ''c1'' = Some sample_category"
  "resolveBudgetTarget c k sample_category = Inr 100"
  "sum_txs c k (period_txs ''c1'' (resolveBudgetPeriodStart sample_clock (bc_period sample_category)) (w_store (budget_world ''30''))) 0 = Inr 30"
  "sum_txs c k (period_txs ''c1'' (resolveBudgetPeriodStart sample_clock (bc_period sample_category)) (w_store (budget_world ''x''))) 0 =
     Inl (JsError ''Amount is not numeric: x'' ''INVALID_FINANCIAL_AMOUNT'')"
  by (simp add: budget_world_def sample_category_def category_of_def, code_simp+)

theorem hard_limit_exact_witness:
  "isl (fst (enforceBudgetLimits toy_crypto sample_clock ''u1'' ''c1'' 80 ''t2'' (budget_world ''30''))) \<and>
   \<not> isl (fst (enforceBudgetLimits toy_crypto sample_clock ''u1'' ''c1'' 70 ''t2'' (budget_world ''30'')))"
proof -
  have "bc_corporate sample_category" "bc_hard_limit sample_category" by (simp_all add: sample_category_def)
  from hard_limit_exact [OF _ sample_budget(1) this sample_budget(2) _ sample_budget(3)] show ?thesis by simp
qed

text \<open>The budget check fails open: when the target or one amount of the period does not decrypt, the
  payment is accepted whatever its size, hard limit or not, unless the error text itself says
  BUDGET_EXCEEDED.\<close>

theorem budget_fails_open:
  assumes "category_of w cat = Some b"
    and "resolveBudgetTarget c (w_kms w) b = Inl e \<or>
      (\<exists>target. resolveBudgetTarget c (w_kms w) b = Inr target \<and> 0 < target \<and>
        sum_txs c (w_kms w) (period_txs cat (resolveBudgetPeriodStart ck (bc_period b)) (w_store w)) 0 = Inl e)"
    and "\<not> js_includes (err_message e) ''BUDGET_EXCEEDED''"
  shows "enforceBudgetLimits c ck user cat amount t w = (Inr (), w)"
  using assms by (auto simp: enforceBudgetLimits_def budget_body_def)

theorem budget_fails_open_witness:
  "enforceBudgetLimits toy_crypto sample_clock ''u1'' ''c1'' 1000000 ''t2'' (budget_world ''x'') = (Inr (), budget_world ''x'')"
proof -
  have "\<not> js_includes (err_message (JsError ''Amount is not numeric: x'' ''INVALID_FINANCIAL_AMOUNT'')) ''BUDGET_EXCEEDED''"
    by code_simp
  from budget_fails_open [OF sample_budget(1) disjI2 this] sample_budget(2,4) show ?thesis by (meson zero_less_numeral)
qed

end
