(* ===== verification/Settlement_Steps.thy ===== *)
theory Settlement_Steps
  imports Settlement_Scheduler Reversal_Properties
begin

text \<open>
  Gateway settlements under concurrency: workers that commit settlements advance one database
  call at a time, interleaved with each other, with reconciliations, failures, disputes and
  requeues, and with calls of the ledger service. The invariant is that a settled row names a
  transaction posted for it; the whole operations of the lifecycle are runs of the steps.
\<close>

section \<open>The tables\<close>

interpretation phases: transition_table allowedTransitions "{Settlement_Failed, Phase_Reversed}"
  by unfold_locales auto

interpretation settlements: keyed_table gw_id .

interpretation transactions: keyed_table tx_id .

lemma row_of_SomeD: "row_of i rows = Some r \<Longrightarrow> r \<in> set rows \<and> gw_id r = i"
  unfolding row_of_def by (rule settlements.by_key_SomeD)

lemma row_of_upd [simp]:
  assumes "row_of i rows = Some r" "p r" "\<And>x. gw_id (f x) = gw_id x"
  shows "row_of i (upd_row now i p f rows) = Some ((f r)\<lparr>gw_updated := now\<rparr>)"
proof -
  from row_of_SomeD [OF assms(1)] have "gw_id r = i" by simp
  with assms show ?thesis unfolding row_of_def upd_row_def
    by (intro settlements.by_key_upd_same) auto
qed

lemma row_of_upd_other [simp]:
  assumes "i \<noteq> j" "\<And>x. gw_id (f x) = gw_id x"
  shows "row_of i (upd_row now j p f rows) = row_of i rows"
  unfolding row_of_def upd_row_def using assms by (intro settlements.by_key_upd_other [where k' = j]) auto

lemma in_upd_row: "x \<in> set (upd_row now i p f rows) \<longleftrightarrow>
    (\<exists>r \<in> set rows. x = (if gw_id r = i \<and> p r then (f r)\<lparr>gw_updated := now\<rparr> else r))"
  by (simp add: upd_row_def in_set_upd)

section \<open>Steps\<close>

datatype worker = Idle | Claiming gw_row | Posting gw_row metadata | Finishing gw_row metadata string

type_synonym config = "gateway \<times> (nat \<Rightarrow> worker)"

text \<open>The single updates of the other operations on a settlement.\<close>

inductive row_step :: "gw_row list \<Rightarrow> gw_row list \<Rightarrow> bool" where
  Record: "row_step rows (rows @ [payment_row ck i p])"
| Begin: "row_step rows (snd (recon_begin ck env s rows))"
| Store: "row_step rows (snd (recon_store ck env s res rows))"
| Check: "row_step rows (snd (recon_finish ck env s res rows))"
| Fail: "row_step rows (recordFailure ck i reason msg extra rows)"
| Executed: "row_step rows (upd_row now i (\<lambda>r. True) (\<lambda>r. r\<lparr>gw_auto_executed := t\<rparr>) rows)"
| Reap: "row_step rows (gs_rows (reap_reconciliation ck s (set_rows st rows)))"
| Requeue: "row_step rows (gs_rows (retry_one ck s (set_rows st rows)))"
| Dispute: "row_step rows (gs_rows (snd (disputeSettlement ck i user reason (set_rows st rows))))"
| Rejected: "row_step rows (gs_rows (snd (resolveDispute c ck env2 i Reject (set_rows st rows))))"

inductive gw_step :: "crypto \<Rightarrow> config \<Rightarrow> config \<Rightarrow> bool" for c :: crypto where
  Read: "ws n = Idle \<Longrightarrow> row_of i (gs_rows st) = Some s \<Longrightarrow> gw_phase s = Ready_For_Commit \<Longrightarrow>
     gw_step c (st, ws) (st, ws(n := Claiming s))"
| Claim: "ws n = Claiming s \<Longrightarrow> commit_claim ck env s (gs_rows st) = (r, rows) \<Longrightarrow>
     gw_step c (st, ws) (set_rows st rows, ws(n := (if r = Inr True then Posting s (claim_md ck env s) else Idle)))"
| Post: "ws n = Posting s md \<Longrightarrow> ce_tx env \<noteq> [] \<Longrightarrow> commit_post c ck env src s st = (r, st') \<Longrightarrow>
     gw_step c (st, ws) (st', ws(n := (if isl r then Idle else Finishing s md (ce_tx env))))"
| Finish: "ws n = Finishing s md (ce_tx env) \<Longrightarrow> commit_finish ck env s md (gs_rows st) = (r, rows) \<Longrightarrow>
     gw_step c (st, ws) (set_rows st rows, ws(n := Idle))"
| Crash: "gw_step c (st, ws) (st, ws(n := Idle))"
| Row: "row_step (gs_rows st) rows \<Longrightarrow> gw_step c (st, ws) (set_rows st rows, ws)"
| Ledger: "gw_step c (st, ws) (st\<lparr>gs_world := run_call c x (gs_world st)\<rparr>, ws)"
| Tables: "gw_step c (st, ws) (st\<lparr>gs_movements := m, gs_accounts := a, gs_fees := f, gs_local := l, gs_redis := d\<rparr>, ws)"

inductive_cases row_stepE: "row_step rows rows'"

section \<open>What is booked\<close>

definition tx_keys :: "store \<Rightarrow> (string \<times> string) list" where
  "tx_keys s = map (\<lambda>x. (tx_id x, tx_reference x)) (st_txs s)"

definition settled_in :: "store \<Rightarrow> string \<Rightarrow> string \<Rightarrow> bool" where
  "settled_in s i t \<longleftrightarrow> (t, buildInternalCommitReference i) \<in> set (tx_keys s)"

text \<open>The transactions only grow, in ids and references; references stay unique.\<close>

definition tx_grows :: "store \<Rightarrow> store \<Rightarrow> bool" where
  "tx_grows s s' \<longleftrightarrow> set (tx_keys s) \<subseteq> set (tx_keys s') \<and> (distinct (map snd (tx_keys s)) \<longrightarrow> distinct (map snd (tx_keys s')))"

lemma tx_grows_refl [simp]: "tx_grows s s"
  by (simp add: tx_grows_def)

lemma tx_grows_trans: "tx_grows a b \<Longrightarrow> tx_grows b d \<Longrightarrow> tx_grows a d"
  unfolding tx_grows_def by (meson subset_trans)

lemma settled_in_grows: "settled_in s i t \<Longrightarrow> tx_grows s s' \<Longrightarrow> settled_in s' i t"
  unfolding settled_in_def tx_grows_def by (meson subsetD)

lemma snd_tx_keys [simp]: "map snd (tx_keys s) = map tx_reference (st_txs s)"
  by (simp add: tx_keys_def)

lemma posted_grows:
  assumes "post_transaction_v2 s a = Inr s'"
  shows "tx_grows s s' \<and> (pa_tx_id a, effective_reference a) \<in> set (tx_keys s')"
proof -
  from post_tx_rows [OF assms] have "st_txs s' = st_txs s @ [new_tx a]" by simp
  moreover have "tx_id (new_tx a) = pa_tx_id a" by (simp add: new_tx_def)
  ultimately show ?thesis using post_fresh [OF assms] by (simp add: tx_grows_def) (auto simp: tx_keys_def)
qed

lemma same_keys_grows: "tx_keys s' = tx_keys s \<Longrightarrow> tx_grows s s'"
  by (simp add: tx_grows_def del: snd_tx_keys)

lemma upd_grows:
  assumes "\<And>x. tx_id (f x) = tx_id x \<and> tx_reference (f x) = tx_reference x"
  shows "tx_grows (w_store w) (w_store (update_tx i f w))"
  by (rule same_keys_grows) (simp add: tx_keys_def update_tx_def assms map_upd_key)

lemma run_rpc_grows: "(\<And>s'. proc s = Inr s' \<Longrightarrow> tx_grows s s') \<Longrightarrow> tx_grows s (snd (run_rpc f proc s))"
  by (cases "run_rpc f proc s") (use run_rpc_cases in fastforce)

lemma post_service_grows: "tx_grows (w_store w) (w_store (snd (postTransactionWithLedger c ck env t ls w)))"
proof (cases "commit_args c ck env t ls w")
  case (Inr a)
  obtain er st where r: "run_rpc (pe_rpc env) (\<lambda>st. post_transaction_v2 st a) (w_store w) = (er, st)" by fastforce
  have "w_store (snd (postTransactionWithLedger c ck env t ls w)) = st"
    by (cases er) (simp_all add: postTransactionWithLedger_def Inr r)
  then show ?thesis using run_rpc_grows [of "\<lambda>st. post_transaction_v2 st a" "w_store w" "pe_rpc env"] posted_grows
    by (simp add: r)
qed (simp add: postTransactionWithLedger_def)

lemma append_service_grows: "tx_grows (w_store w) (w_store (snd (addLedgerEntries c ck f txid ls key phase w)))"
proof (cases "legs_for c ck w ''updates'' None ls")
  case (Inr legs)
  let ?proc = "\<lambda>st. append_ledger_entries_v1 st txid legs (truthy_text key) (truthy_text phase)"
  obtain er st where r: "run_rpc f ?proc (w_store w) = (er, st)" by fastforce
  have "w_store (snd (addLedgerEntries c ck f txid ls key phase w)) = st"
    by (cases er) (simp_all add: addLedgerEntries_def Inr r)
  then show ?thesis using run_rpc_grows [of ?proc "w_store w" f] append_tx_rows
      same_keys_grows by (simp add: r tx_keys_def)
qed (simp add: addLedgerEntries_def)

lemma status_grows: "tx_grows (w_store w) (w_store (snd (updateTransactionStatus c fault i s n w)))"
proof -
  have "tx_grows (w_store w) (w_store (update_tx i (\<lambda>t. t\<lparr>tx_status := s, tx_notes := n\<rparr>) w))" by (rule upd_grows) simp
  then show ?thesis by (auto simp: updateTransactionStatus_def Let_def split: option.splits sum.splits)
qed

lemma reverse_grows: "tx_grows (w_store w) (w_store (snd (reverseTransaction c ck env fault i actor w)))"
proof -
  obtain r w' where e: "reverseTransaction c ck env fault i actor w = (r, w')" by fastforce
  from reverse_cases [OF e] show ?thesis
  proof (elim disjE exE conjE)
    fix tx ls a r1 w1
    assume p: "postTransactionWithLedger c ck env (reversal_header (pe_uuid env) tx a) ls w = (r1, w1)"
      and r: "case r1 of Inl e \<Rightarrow> r = Inl e \<and> w' = w1
        | Inr u \<Rightarrow> updateTransactionStatus c fault i ''reversed'' (Some (authorized_by actor)) w1 = (r, w')"
    have "tx_grows (w_store w) (w_store w1)"
      using post_service_grows [of w c ck env "reversal_header (pe_uuid env) tx a" ls] by (simp add: p)
    moreover have "tx_grows (w_store w1) (w_store w')"
      using r status_grows [of w1 c fault i "''reversed''" "Some (authorized_by actor)"] by (cases r1) auto
    ultimately show ?thesis by (simp add: e) (rule tx_grows_trans)
  qed (simp add: e)
qed

lemma run_call_grows: "tx_grows (w_store w) (w_store (run_call c x w))"
proof (cases x)
  case (Reverse_Call ck env fault j actor reason role)
  obtain r w1 where e: "reverseTransaction c ck env fault j actor w = (r, w1)" by fastforce
  have m: "tx_grows (w_store w) (w_store w1)" using reverse_grows [of w c ck env fault j actor] by (simp add: e)
  have "tx_grows (w_store w1) (w_store (update_tx j (\<lambda>t. t\<lparr>tx_metadata := md t, tx_notes := n, tx_updated := u\<rparr>) w1))" for md n u
    by (rule upd_grows) simp
  with m show ?thesis
    by (auto simp: Reverse_Call e reverseTransactionWithReason_def intro: tx_grows_trans split: option.splits sum.splits)
qed (simp_all add: post_service_grows append_service_grows status_grows)

section \<open>The invariant\<close>

definition row_backed :: "store \<Rightarrow> gw_row \<Rightarrow> bool" where
  "row_backed s r \<longleftrightarrow> (gw_phase r = Internally_Settled \<longrightarrow> (\<exists>t. gw_tx r = Some t \<and> settled_in s (gw_id r) t))"

definition rows_backed :: "store \<Rightarrow> gw_row list \<Rightarrow> bool" where
  "rows_backed s rows \<longleftrightarrow> (\<forall>r \<in> set rows. row_backed s r)"

fun worker_backed :: "store \<Rightarrow> worker \<Rightarrow> bool" where
  "worker_backed s (Finishing r md t) = settled_in s (gw_id r) t"
| "worker_backed s _ = True"

definition backed :: "config \<Rightarrow> bool" where
  "backed cfg = (case cfg of (st, ws) \<Rightarrow>
     distinct (map tx_reference (st_txs (w_store (gs_world st)))) \<and>
     rows_backed (w_store (gs_world st)) (gs_rows st) \<and>
     (\<forall>n. worker_backed (w_store (gs_world st)) (ws n)))"

lemma row_backed_grows: "row_backed s r \<Longrightarrow> tx_grows s s' \<Longrightarrow> row_backed s' r"
  using settled_in_grows by (auto simp: row_backed_def)

lemma worker_backed_grows: "worker_backed s w \<Longrightarrow> tx_grows s s' \<Longrightarrow> worker_backed s' w"
  using settled_in_grows by (cases w) auto

lemma backed_grows:
  assumes "backed (st, ws)" "tx_grows (w_store (gs_world st)) (w_store (gs_world st'))" "gs_rows st' = gs_rows st"
    and "\<And>n. ws' n = ws n \<or> worker_backed (w_store (gs_world st')) (ws' n)"
  shows "backed (st', ws')"
  using assms(1,2,3) row_backed_grows worker_backed_grows assms(4)
  by (auto simp: backed_def tx_grows_def rows_backed_def) metis

lemma backed_upd_row:
  assumes "rows_backed s rows"
    and "\<And>r. r \<in> set rows \<Longrightarrow> gw_id r = i \<Longrightarrow> p r \<Longrightarrow> row_backed s r \<Longrightarrow> row_backed s ((f r)\<lparr>gw_updated := now\<rparr>)"
  shows "rows_backed s (upd_row now i p f rows)"
  using assms by (auto simp: rows_backed_def in_upd_row)

text \<open>An update that does not settle, or keeps what matters, keeps every row backed.\<close>

lemma backed_upd_keep:
  assumes "rows_backed s rows"
    and "\<And>r. p r \<Longrightarrow> gw_phase (f r) = Internally_Settled \<Longrightarrow> gw_phase r = Internally_Settled \<and> gw_tx (f r) = gw_tx r \<and> gw_id (f r) = gw_id r"
  shows "rows_backed s (upd_row now i p f rows)"
  using assms(1) by (rule backed_upd_row) (use assms(2) in \<open>fastforce simp: row_backed_def\<close>)

lemma transition_backed:
  assumes "rows_backed s rows" "\<And>r. gw_phase (f r) = gw_phase r" "q \<noteq> Internally_Settled"
  shows "rows_backed s (snd (transitionLifecyclePhase ck fault i p q f rows))"
  using assms unfolding transitionLifecyclePhase_def
  by (auto intro!: backed_upd_keep split: option.splits)

lemma failure_backed:
  "rows_backed s rows \<Longrightarrow> rows_backed s (recordFailure ck i reason msg extra rows)"
  unfolding recordFailure_def Let_def by (rule backed_upd_keep) auto

lemma snd_case_outcome: "snd (case x of (Inl e, r) \<Rightarrow> (Inl e, r) | (Inr u, r) \<Rightarrow> (Inr b, r)) = snd x"
  by (cases x; cases "fst x") auto

lemma row_step_backed: "row_step rows rows' \<Longrightarrow> rows_backed s rows \<Longrightarrow> rows_backed s rows'"
proof (induction rule: row_step.induct)
  case (Record rows ck i p)
  then show ?case by (auto simp: rows_backed_def row_backed_def payment_row_def)
next
  case (Begin rows ck env x)
  then show ?case unfolding recon_begin_def by (intro transition_backed) auto
next
  case (Store rows ck env x res)
  then show ?case unfolding recon_store_def by (auto intro!: backed_upd_keep split: option.splits)
next
  case (Check rows ck env x res)
  have "rows_backed s (snd (transitionLifecyclePhase ck (rn_finish env) (gw_id x) Reconciliation_Running Ready_For_Commit f rows))"
    if "\<And>r. gw_phase (f r) = gw_phase r" for f
    using Check that by (intro transition_backed) auto
  with failure_backed [OF Check] show ?case
    unfolding recon_finish_def Let_def by (simp add: snd_case_outcome)
next
  case (Fail rows ck i reason msg extra)
  then show ?case by (rule failure_backed)
next
  case (Executed rows now i t)
  then show ?case by (auto intro!: backed_upd_keep)
next
  case (Reap rows ck x st)
  then show ?case unfolding reap_reconciliation_def by (auto simp: set_rows_def requeued_def intro!: backed_upd_keep)
next
  case (Requeue rows ck x st)
  then show ?case unfolding retry_one_def by (auto simp: set_rows_def requeued_def intro!: backed_upd_keep)
next
  case (Dispute rows ck i user reason st)
  then show ?case unfolding disputeSettlement_def
    by (auto simp: set_rows_def intro!: backed_upd_keep split: option.splits)
next
  case (Rejected rows c ck env2 i st)
  then show ?case unfolding resolveDispute_def
    by (auto simp: set_rows_def intro!: backed_upd_keep split: if_splits)
qed

lemma commit_prepare_header:
  assumes "commit_prepare ck env src s st = (r, st')"
  shows "gs_world st' = gs_world st \<and> gs_rows st' = gs_rows st \<and>
    (\<forall>t ls. r = Inr (t, ls) \<longrightarrow> t = commit_header env s (commit_source env src))"
  using assms
  by (auto simp: commit_prepare_def Let_def bind_outcome_def split: if_splits prod.splits sum.splits)

lemma btrim_id: "hd s \<noteq> CHR '' '' \<Longrightarrow> last s \<noteq> CHR '' '' \<Longrightarrow> s \<noteq> [] \<Longrightarrow> sql_btrim s = s"
proof -
  assume a: "hd s \<noteq> CHR '' ''" "last s \<noteq> CHR '' ''" "s \<noteq> []"
  have "dropWhile (\<lambda>c. c = CHR '' '') s = s" using a(1,3) by (cases s) auto
  moreover have "dropWhile (\<lambda>c. c = CHR '' '') (rev s) = rev s"
    using a(2,3) by (cases s rule: rev_cases) auto
  ultimately show ?thesis by (simp add: sql_btrim_def)
qed

lemma reference_trimmed [simp]: "sql_btrim (buildInternalCommitReference i) = buildInternalCommitReference i"
  by (rule btrim_id) (simp_all add: buildInternalCommitReference_def)

lemma commit_reference:
  assumes "commit_args c ck (ce_post env) (commit_header env s src) ls w = Inr a" "ce_tx env \<noteq> []"
  shows "pa_tx_id a = ce_tx env \<and> effective_reference a = buildInternalCommitReference (gw_id s)"
proof -
  have "buildInternalCommitReference (gw_id s) \<noteq> []" by (simp add: buildInternalCommitReference_def)
  with assms show ?thesis
    by (auto simp: commit_args_def bind_outcome_Inr_iff effective_reference_def posted_id_def posted_reference_def
        commit_header_def text_or_def)
qed

text \<open>A posting that succeeds books the settlement under its reference.\<close>

lemma commit_post_rows:
  assumes "commit_post c ck env src s st = (r, st')"
  shows "gs_rows st' = gs_rows st \<and> tx_grows (w_store (gs_world st)) (w_store (gs_world st'))"
proof -
  obtain q st1 where p: "commit_prepare ck env src s st = (q, st1)" by fastforce
  note h = commit_prepare_header [OF p]
  show ?thesis
  proof (cases q)
    case (Inl e)
    with assms p h show ?thesis by (simp add: commit_post_def)
  next
    case (Inr x)
    obtain t ls where x: "x = (t, ls)" by fastforce
    from assms have "gs_world st' = snd (postTransactionWithLedger c ck (ce_post env) t ls (gs_world st))" "gs_rows st' = gs_rows st"
      using h by (auto simp: commit_post_def p Inr x split: prod.splits)
    then show ?thesis by (simp add: post_service_grows)
  qed
qed

lemma commit_post_booked:
  assumes "commit_post c ck env src s st = (Inr u, st')" "ce_tx env \<noteq> []"
  shows "settled_in (w_store (gs_world st')) (gw_id s) (ce_tx env)"
proof -
  from assms(1) obtain t ls st1 where p: "commit_prepare ck env src s st = (Inr (t, ls), st1)"
    by (auto simp: commit_post_def split: prod.splits sum.splits)
  note h = commit_prepare_header [OF p]
  from assms(1) p obtain w where q: "postTransactionWithLedger c ck (ce_post env) t ls (gs_world st1) = (Inr u, w)"
    and w: "gs_world st' = w" by (auto simp: commit_post_def split: prod.splits)
  from post_ok [OF q] obtain a s1 where a: "commit_args c ck (ce_post env) t ls (gs_world st1) = Inr a"
    "post_transaction_v2 (w_store (gs_world st1)) a = Inr s1" "w_store w = s1" by auto
  from h have "t = commit_header env s (commit_source env src)" by simp
  with commit_reference [OF a(1) [unfolded this] assms(2)] posted_grows [OF a(2)] a(3) w
  show ?thesis by (simp add: settled_in_def)
qed

lemma commit_claim_rows:
  assumes "commit_claim ck env s rows = (r, rows')" "rows_backed st rows"
  shows "rows_backed st rows'"
proof -
  have "rows_backed st (upd_row (ck_now ck) (gw_id s) (claimable s) f rows)"
    if "\<And>r. gw_phase (f r) = gw_phase r" for f
    using assms(2) that by (rule_tac backed_upd_keep) (auto simp: claimable_def)
  with assms show ?thesis by (auto simp: commit_claim_def split: option.splits)
qed

lemma commit_finish_rows:
  assumes "commit_finish ck env s md rows = (r, rows')" "rows_backed st rows" "settled_in st (gw_id s) (ce_tx env)"
  shows "rows_backed st rows'"
proof -
  have "rows_backed st (upd_row (ck_now ck) (gw_id s) (\<lambda>r. True) (\<lambda>r. r\<lparr>gw_phase := Internally_Settled, gw_tx := Some (ce_tx env),
      gw_phase_completed := a, gw_metadata := m\<rparr>) rows)" for a m
    using assms(2) by (rule backed_upd_row) (use assms(3) in \<open>auto simp: row_backed_def\<close>)
  with assms(1,2) show ?thesis by (auto simp: commit_finish_def split: option.splits)
qed

lemma gw_step_backed: "gw_step c cfg cfg' \<Longrightarrow> backed cfg \<Longrightarrow> backed cfg'"
proof (induction rule: gw_step.induct)
  case Claim
  then show ?case by (auto simp: backed_def set_rows_def intro: commit_claim_rows)
next
  case (Post ws n s md env ck src st r st')
  from commit_post_rows [OF Post(3)] have "gs_rows st' = gs_rows st" "tx_grows (w_store (gs_world st)) (w_store (gs_world st'))" by simp_all
  moreover have "worker_backed (w_store (gs_world st')) (if isl r then Idle else Finishing s md (ce_tx env))"
    using Post commit_post_booked by (cases r) auto
  ultimately show ?case using backed_grows [OF Post.prems] by simp
next
  case (Finish ws n s md env ck st r rows)
  then have "settled_in (w_store (gs_world st)) (gw_id s) (ce_tx env)"
    by (metis (no_types, lifting) backed_def case_prod_conv worker_backed.simps(1))
  with Finish commit_finish_rows show ?case by (auto simp: backed_def set_rows_def)
next
  case (Row st rows ws)
  then show ?case using row_step_backed by (auto simp: backed_def set_rows_def)
next
  case (Ledger st ws x)
  then show ?case by (rule backed_grows) (simp_all add: run_call_grows)
qed (auto simp: backed_def)

end
