(* ===== verification/Settlement_Properties.thy ===== *)
theory Settlement_Properties
  imports Settlement_Steps
begin

text \<open>
  Properties of gateway settlements: the whole operations are runs of the atomic steps, a settled
  row is backed by one posting however workers interleave, a commit moves exactly the amount and
  the fee, provider proof decides a reconciliation, and what requeueing does and does not achieve.
\<close>

section \<open>Whole operations as runs\<close>

lemma row_run: "row_step\<^sup>*\<^sup>* (gs_rows st) rows \<Longrightarrow> (gw_step c)\<^sup>*\<^sup>* (st, ws) (set_rows st rows, ws)"
proof (induction rule: rtranclp_induct)
  case base
  then show ?case by (simp add: set_rows_def)
next
  case (step r1 r2)
  have "gw_step c (set_rows st r1, ws) (set_rows (set_rows st r1) r2, ws)"
    by (rule gw_step.Row) (simp add: set_rows_def step)
  with step show ?case by (simp add: set_rows_def)
qed

lemma recon_body_run: "row_step\<^sup>*\<^sup>* rows (snd (recon_body ck env i rows))"
proof (cases "row_of i rows")
  case (Some s)
  note s = this
  show ?thesis
  proof (cases "recon_entry s")
    case Recon_Duplicate
    with s show ?thesis by (auto simp: recon_body_def intro: row_step.Fail)
  next
    case Recon_Go
    obtain r1 rows1 where b: "recon_begin ck env s rows = (r1, rows1)" by fastforce
    have 1: "row_step rows rows1" using row_step.Begin [of rows ck env s] by (simp add: b)
    let ?res = "performReconciliation (rn_stub env) s (getProviderConfirmationKey s)"
    obtain r2 rows2 where st: "recon_store ck env s ?res rows1 = (r2, rows2)" by fastforce
    have 2: "row_step rows1 rows2" using row_step.Store [of rows1 ck env s ?res] by (simp add: st)
    have 3: "row_step rows2 (snd (recon_finish ck env s ?res rows2))" by (rule row_step.Check)
    have "snd (recon_body ck env i rows) \<in> {rows1, rows2, snd (recon_finish ck env s ?res rows2)}"
      using s Recon_Go by (cases r1; cases r2) (simp_all add: recon_body_def b st Let_def)
    with 1 2 3 show ?thesis by (auto intro: rtranclp.rtrancl_into_rtrancl)
  qed (simp_all add: recon_body_def s)
qed (simp add: recon_body_def)

lemma recon_run: "row_step\<^sup>*\<^sup>* rows (snd (startReconciliation ck env i rows))"
proof -
  obtain r rows1 where b: "recon_body ck env i rows = (r, rows1)" by fastforce
  with recon_body_run [of rows ck env i] have 1: "row_step\<^sup>*\<^sup>* rows rows1" by simp
  show ?thesis
  proof (cases r)
    case (Inl e)
    then have "snd (startReconciliation ck env i rows) = recordFailure ck i Transition_Denied (error_message e) [] rows1"
      by (simp add: startReconciliation_def b)
    with 1 show ?thesis using row_step.Fail by (metis rtranclp.rtrancl_into_rtrancl)
  qed (simp add: startReconciliation_def b 1)
qed

lemma commit_settle_run:
  assumes "ce_tx env \<noteq> []" "ws n = Posting s (claim_md ck env s)"
  shows "(gw_step c)\<^sup>*\<^sup>* (st, ws) (snd (commit_settle c ck env src s st), ws(n := Idle))"
proof -
  obtain r1 st1 where p: "commit_post c ck env src s st = (r1, st1)" by fastforce
  from gw_step.Post [where ws = ws and n = n, OF assms(2,1) p]
  have 1: "gw_step c (st, ws) (st1, ws(n := (if isl r1 then Idle else Finishing s (claim_md ck env s) (ce_tx env))))" .
  show ?thesis
  proof (cases r1)
    case (Inl e)
    with 1 p show ?thesis by (auto simp: commit_settle_def)
  next
    case (Inr u)
    obtain r2 rows where f: "commit_finish ck env s (claim_md ck env s) (gs_rows st1) = (r2, rows)" by fastforce
    have "gw_step c (st1, ws(n := Finishing s (claim_md ck env s) (ce_tx env))) (set_rows st1 rows, ws(n := Idle))"
      using gw_step.Finish [OF _ f, of "ws(n := Finishing s (claim_md ck env s) (ce_tx env))" n c] by simp
    moreover have "snd (commit_settle c ck env src s st) = set_rows st1 rows"
      by (cases r2) (simp_all add: commit_settle_def p Inr f set_rows_def)
    ultimately show ?thesis using 1 Inr by (simp add: converse_rtranclp_into_rtranclp r_into_rtranclp)
  qed
qed

lemma commit_body_run:
  assumes "ce_tx env \<noteq> []" "ws n = Idle"
  shows "(gw_step c)\<^sup>*\<^sup>* (st, ws) (snd (commit_body c ck env i src st), ws)"
proof (cases "\<exists>s. row_of i (gs_rows st) = Some s \<and> settled_tx s = None \<and> gw_phase s = Ready_For_Commit")
  case True
  then obtain s where s: "row_of i (gs_rows st) = Some s" "settled_tx s = None" "gw_phase s = Ready_For_Commit" by blast
  from gw_step.Read [where ws = ws and n = n, OF assms(2) s(1,3)] have 1: "gw_step c (st, ws) (st, ws(n := Claiming s))" .
  obtain r rows where cl: "commit_claim ck env s (gs_rows st) = (r, rows)" by fastforce
  let ?ws = "ws(n := (if r = Inr True then Posting s (claim_md ck env s) else Idle))"
  have 2: "gw_step c (st, ws(n := Claiming s)) (set_rows st rows, ?ws)"
    using gw_step.Claim [OF _ cl, of "ws(n := Claiming s)" n c] by simp
  show ?thesis
  proof (cases "r = Inr True")
    case True
    then have "snd (commit_body c ck env i src st) = snd (commit_settle c ck env src s (set_rows st rows))"
      using s cl by (simp add: commit_body_def set_rows_def)
    moreover have "(gw_step c)\<^sup>*\<^sup>* (set_rows st rows, ?ws) (snd (commit_settle c ck env src s (set_rows st rows)), ?ws(n := Idle))"
      using assms(1) True by (intro commit_settle_run) simp_all
    moreover have "?ws(n := Idle) = ws" using assms(2) by (simp add: fun_upd_idem)
    ultimately show ?thesis using 1 2 by (metis (no_types, lifting) converse_rtranclp_into_rtranclp)
  next
    case False
    then have "snd (commit_body c ck env i src st) = set_rows st rows"
      using s cl by (cases r) (auto simp: commit_body_def set_rows_def)
    moreover from False have "?ws = ws" using assms(2) by (simp add: fun_upd_idem)
    ultimately show ?thesis using 1 2 by (metis (no_types, lifting) converse_rtranclp_into_rtranclp rtranclp.rtrancl_refl)
  qed
next
  case False
  then have "snd (commit_body c ck env i src st) = st"
    by (auto simp: commit_body_def split: option.splits)
  then show ?thesis by simp
qed

lemma commit_run:
  assumes "ce_tx env \<noteq> []" "ws n = Idle"
  shows "(gw_step c)\<^sup>*\<^sup>* (st, ws) (snd (commitToInternalLedger c ck env i src st), ws)"
proof -
  obtain r st1 where b: "commit_body c ck env i src st = (r, st1)" by fastforce
  with commit_body_run [where ws = ws and n = n, OF assms, of c st ck i src] have 1: "(gw_step c)\<^sup>*\<^sup>* (st, ws) (st1, ws)" by simp
  show ?thesis
  proof (cases r)
    case (Inl e)
    have "gw_step c (st1, ws) (set_rows st1 (commit_failed ck i e (gs_rows st1)), ws)"
      unfolding commit_failed_def by (intro gw_step.Row row_step.Fail)
    with 1 show ?thesis by (simp add: commitToInternalLedger_def b Inl set_rows_def)
  qed (simp add: commitToInternalLedger_def b 1)
qed

lemma set_rows_simps [simp]: "gs_rows (set_rows st rows) = rows" "set_rows (set_rows st rows) rows' = set_rows st rows'"
  "set_rows st (gs_rows st) = st" "gs_world (set_rows st rows) = gs_world st"
  by (simp_all add: set_rows_def)

lemma auto_settle_run:
  assumes "ce_tx (snd (env i)) \<noteq> []" "ws n = Idle"
  shows "(gw_step c)\<^sup>*\<^sup>* (st, ws) (auto_settle_one c ck env i st, ws)"
proof -
  obtain r rows where b: "startReconciliation ck (fst (env i)) i (gs_rows st) = (r, rows)" by fastforce
  with recon_run [of "gs_rows st" ck "fst (env i)" i] have 1: "row_step\<^sup>*\<^sup>* (gs_rows st) rows" by simp
  let ?rows = "upd_row (ck_now ck) i (\<lambda>r. True) (\<lambda>r. r\<lparr>gw_auto_executed := Some (ck_now ck)\<rparr>) rows"
  from 1 have 2: "row_step\<^sup>*\<^sup>* (gs_rows st) ?rows"
    by (rule rtranclp.rtrancl_into_rtrancl) (rule row_step.Executed)
  have "(gw_step c)\<^sup>*\<^sup>* (set_rows st ?rows, ws) (snd (commitToInternalLedger c ck (snd (env i)) i None (set_rows st ?rows)), ws)"
    by (rule commit_run [where ws = ws and n = n, OF assms])
  with row_run [OF 2, of c ws] row_run [OF 1, of c ws] show ?thesis
    by (cases r) (auto simp: auto_settle_one_def b Let_def)
qed

lemma fold_run:
  assumes "\<And>x st. x \<in> set xs \<Longrightarrow> R\<^sup>*\<^sup>* (st, ws) (f x st, ws)"
  shows "R\<^sup>*\<^sup>* (st, ws) (fold f xs st, ws)"
  using assms
proof (induction xs arbitrary: st)
  case (Cons x xs)
  from Cons.prems [of x st] have "R\<^sup>*\<^sup>* (st, ws) (f x st, ws)" by simp
  also have "R\<^sup>*\<^sup>* (f x st, ws) (fold f xs (f x st), ws)" using Cons by simp
  finally show ?case by simp
qed simp

lemma reap_recon_run: "(gw_step c)\<^sup>*\<^sup>* (st, ws) (reap_reconciliation ck s st, ws)"
  using gw_step.Row [OF row_step.Reap [of "gs_rows st" ck s st], of c ws]
  by (simp add: reap_reconciliation_def r_into_rtranclp)

lemma retry_one_run: "(gw_step c)\<^sup>*\<^sup>* (st, ws) (retry_one ck s st, ws)"
  using gw_step.Row [OF row_step.Requeue [of "gs_rows st" ck s st], of c ws]
  by (cases "retry_due (ck_now ck) s") (simp_all add: retry_one_def r_into_rtranclp)

lemma reap_movement_run: "(gw_step c)\<^sup>*\<^sup>* (st, ws) (reap_movement ck m st, ws)"
proof -
  have "st\<lparr>gs_movements := mv\<rparr> = st\<lparr>gs_movements := mv, gs_accounts := gs_accounts st, gs_fees := gs_fees st,
      gs_local := gs_local st, gs_redis := gs_redis st\<rparr>" for mv by simp
  then show ?thesis using gw_step.Tables [of c st ws] unfolding reap_movement_def Let_def by (metis r_into_rtranclp)
qed


section \<open>Settled means booked, once\<close>

text \<open>C9: Whatever the interleaving of committing workers, crashes, reconciliations, failures, disputes,
  requeues and other calls of the ledger service: a settlement marked as internally settled names
  a transaction that was posted under its own reference, and the reference is posted at most once.\<close>

theorem settled_once:
  assumes "(gw_step c)\<^sup>*\<^sup>* (st0, \<lambda>_. Idle) (st, ws)"
    and "distinct (map tx_reference (st_txs (w_store (gs_world st0))))"
    and "\<forall>r \<in> set (gs_rows st0). gw_phase r \<noteq> Internally_Settled"
  shows "(\<forall>r \<in> set (gs_rows st). gw_phase r = Internally_Settled \<longrightarrow>
      (\<exists>x \<in> set (st_txs (w_store (gs_world st))). gw_tx r = Some (tx_id x) \<and> tx_reference x = buildInternalCommitReference (gw_id r))) \<and>
    length (filter (\<lambda>x. tx_reference x = buildInternalCommitReference i) (st_txs (w_store (gs_world st)))) \<le> 1"
proof -
  from assms(2,3) have "backed (st0, \<lambda>_. Idle)" by (auto simp: backed_def rows_backed_def row_backed_def)
  with assms(1) have b: "backed (st, ws)"
    by (induction "(st, ws)" arbitrary: st ws rule: rtranclp_induct) (auto intro: gw_step_backed)
  then have d: "distinct (map tx_reference (st_txs (w_store (gs_world st))))" by (simp add: backed_def)
  have "length (filter (\<lambda>x. tx_reference x = k) xs) \<le> 1" if "distinct (map tx_reference xs)" for k xs
    using that by (induction xs) (auto simp: filter_empty_conv image_iff)
  with d b show ?thesis
    by (fastforce simp: backed_def rows_backed_def row_backed_def settled_in_def tx_keys_def)
qed

section \<open>What a commit moves\<close>

lemma settlement_leg_values [simp]: "entry_value (settlement_leg k ty a cur d) = a"
  "entry_wallet (settlement_leg k ty a cur d) = (if k = [] then None else Some k)"
  "le_type (settlement_leg k ty a cur d) = ty"
  by (simp_all add: settlement_leg_def entry_value_def entry_wallet_def)

lemma roundAmount_scale4 [simp]: "scale4 (roundAmount x)"
proof -
  have "roundAmount x * 10000 = of_int (js_round (x * 100) * 100)" by (simp add: roundAmount_def)
  then show ?thesis unfolding scale4_def by (metis Ints_of_int)
qed

lemma service_fee_scale4: "scale4 (service_fee cfg a)"
  by (auto simp: service_fee_def Let_def parseAmount_def parseNullableAmount_def max_def min_def split: option.splits if_splits)

lemma resolved_fee_scale4: "resolveFee now rf f i l r db = (Inr fee, l', r') \<Longrightarrow> scale4 (fe_service_fee fee)"
  by (auto simp: resolveFee_def Let_def bind_outcome_Inr_iff fee_from_configs_def computeFromConfig_def service_fee_scale4
      split: if_splits prod.splits option.splits)

lemma resolve_account_nonempty: "resolve_account f accounts st role cur = Inr k \<Longrightarrow> k \<noteq> []"
  by (auto simp: resolve_account_def Let_def split: if_splits option.splits sum.splits)

text \<open>A prepared commit: its legs, with the fee and the wallet the fee goes to.\<close>

lemma commit_prepare_legs:
  assumes "commit_prepare ck env src s st = (Inr (t, ls), st')"
  shows "\<exists>fee fk. ls = commit_legs s (commit_source env src) (commit_currency s) fee fk \<and> scale4 fee \<and> commit_source env src \<noteq> [] \<and>
    (case fk of None \<Rightarrow> fee \<le> 0 | Some k \<Rightarrow> 0 < fee \<and> k \<noteq> [])"
proof -
  from assms obtain f k l r where f: "resolveFee (ck_now ck) (ce_redis_fails env) (ce_fee_fault env)
      (gateway_fee_input s (commit_currency s)) (gs_local st) (gs_redis st) (gs_fees st) = (Inr f, l, r)"
    and k: "fee_wallet env st (commit_currency s) (fe_service_fee f) = Inr k"
    and ls: "ls = commit_legs s (commit_source env src) (commit_currency s) (fe_service_fee f) k" "commit_source env src \<noteq> []"
    by (auto simp: commit_prepare_def Let_def bind_outcome_Inr_iff split: if_splits prod.splits)
  have "case k of None \<Rightarrow> fe_service_fee f \<le> 0 | Some k \<Rightarrow> 0 < fe_service_fee f \<and> k \<noteq> []"
    using k resolve_account_nonempty
    by (auto simp: fee_wallet_def map_sum_def split: if_splits sum.splits)
  with ls resolved_fee_scale4 [OF f] show ?thesis by blast
qed

lemma commit_legs_net:
  assumes "gw_wallet s \<noteq> []" "source \<noteq> []" "case fk of None \<Rightarrow> fee \<le> 0 | Some k \<Rightarrow> 0 < fee \<and> k \<noteq> []"
  shows "entry_net k (commit_legs s source cur fee fk) = (if k = gw_wallet s then gw_amount s else 0) + (if fk = Some k then fee else 0)
      - (if k = source then gw_amount s + fee else 0)"
    and "entry_total (commit_legs s source cur fee fk) = (if fk = None then - fee else 0)"
    and "scale4 (gw_amount s) \<Longrightarrow> scale4 fee \<Longrightarrow> list_all (\<lambda>l. scale4 (entry_value l)) (commit_legs s source cur fee fk)"
  using assms by (auto simp: commit_legs_def entry_signed_def entry_total_def truthy_text_def sides split: option.splits)

lemma commit_post_moves:
  assumes "crypto_sound c" "kms_ready (w_kms (gs_world st))" "agrees T c (w_kms (gs_world st)) (w_store (gs_world st))"
    and "scale4 (gw_amount s)" "gw_wallet s \<noteq> []" "commit_post c ck env src s st = (Inr u, st')"
  shows "agrees T c (w_kms (gs_world st')) (w_store (gs_world st')) \<and> (\<exists>fee fk. 0 \<le> fee \<and> (fk = None \<longleftrightarrow> fee = 0) \<and>
    (\<forall>k. balance_of (w_store (gs_world st')) k = balance_of (w_store (gs_world st)) k
      + (if k = gw_wallet s then gw_amount s else 0) + (if fk = Some k then fee else 0)
      - (if k = commit_source env src then gw_amount s + fee else 0)))"
proof -
  from assms(6) obtain t ls st1 where p: "commit_prepare ck env src s st = (Inr (t, ls), st1)"
    by (auto simp: commit_post_def split: prod.splits sum.splits)
  from commit_prepare_header [OF p] have w: "gs_world st1 = gs_world st" by simp
  from assms(6) p w have q: "postTransactionWithLedger c ck (ce_post env) t ls (gs_world st) = (Inr u, gs_world st')"
    by (auto simp: commit_post_def split: prod.splits)
  from commit_prepare_legs [OF p] obtain fee fk where ls: "ls = commit_legs s (commit_source env src) (commit_currency s) fee fk"
    and f: "scale4 fee" "commit_source env src \<noteq> []" "case fk of None \<Rightarrow> fee \<le> 0 | Some k \<Rightarrow> 0 < fee \<and> k \<noteq> []" by blast
  note net = commit_legs_net [OF assms(5) f(2,3)]
  from net(3) [OF assms(4) f(1)] have sc: "list_all (\<lambda>l. scale4 (entry_value l)) ls" by (simp add: ls)
  have fee: "0 \<le> fee \<and> (fk = None \<longleftrightarrow> fee = 0)"
    using post_entries_balance [OF assms(1,2) sc q] net(2) f(3) by (cases fk) (simp_all add: ls)
  have m: "balance_of (w_store (gs_world st')) k = balance_of (w_store (gs_world st)) k + entry_net k ls"
    "w_kms (gs_world st') = w_kms (gs_world st)" "agrees T c (w_kms (gs_world st)) (w_store (gs_world st'))" for k
    using post_moves [OF assms(1,2) sc assms(3) q, of k] by simp_all
  have "balance_of (w_store (gs_world st')) k = balance_of (w_store (gs_world st)) k
      + (if k = gw_wallet s then gw_amount s else 0) + (if fk = Some k then fee else 0)
      - (if k = commit_source env src then gw_amount s + fee else 0)" for k
    unfolding m(1) [of k] ls net(1) by simp
  with fee m(2,3) show ?thesis by (intro conjI exI [of _ fee] exI [of _ fk] allI) simp_all
qed

lemma claimed:
  assumes "row_of i rows = Some s" "gw_phase s = Ready_For_Commit"
  shows "commit_claim ck env s rows = (Inr True, rows') \<Longrightarrow>
      row_of i rows' = Some (s\<lparr>gw_phase_started := ck_now ck, gw_metadata := claim_md ck env s, gw_updated := ck_now ck\<rparr>)"
    and "gw_tx s = None \<Longrightarrow> ce_claim_fault env = None \<Longrightarrow> fst (commit_claim ck env s rows) = Inr True"
    and "commit_claim ck env s rows = (Inr False, rows') \<Longrightarrow> row_of i rows' = Some s"
proof -
  from row_of_SomeD [OF assms(1)] have s: "s \<in> set rows" "gw_id s = i" by simp_all
  have u: "r = s" if "r \<in> set rows" "gw_id r = i" for r
  proof -
    from that have "r \<in> set (sel (\<lambda>r. gw_id r = i) rows)" by (simp add: set_sel)
    with single_SomeD [OF assms(1) [unfolded row_of_def]] show ?thesis by simp
  qed
  show "row_of i rows' = Some (s\<lparr>gw_phase_started := ck_now ck, gw_metadata := claim_md ck env s, gw_updated := ck_now ck\<rparr>)"
    if c: "commit_claim ck env s rows = (Inr True, rows')"
  proof -
    from c obtain r where r: "r \<in> set rows" "claimable s r" by (auto simp: commit_claim_def list_ex_iff split: option.splits)
    then have "gw_id r = i" by (simp add: claimable_def s(2))
    with r u have "claimable s s" by metis
    with c s row_of_upd [OF assms(1), of "claimable s" "\<lambda>r. r\<lparr>gw_phase_started := ck_now ck, gw_metadata := claim_md ck env s\<rparr>" "ck_now ck"]
    show ?thesis by (auto simp: commit_claim_def split: option.splits)
  qed
  show "fst (commit_claim ck env s rows) = Inr True" if "gw_tx s = None" "ce_claim_fault env = None"
    using that s assms(2) by (auto simp: commit_claim_def list_ex_iff claimable_def)
  show "row_of i rows' = Some s" if c: "commit_claim ck env s rows = (Inr False, rows')"
  proof -
    from c have n: "\<not> list_ex (claimable s) rows" and r: "rows' = upd_row (ck_now ck) (gw_id s) (claimable s)
        (\<lambda>r. r\<lparr>gw_phase_started := ck_now ck, gw_metadata := claim_md ck env s\<rparr>) rows"
      by (auto simp: commit_claim_def split: option.splits)
    from n have "rows' = rows" unfolding r upd_row_def upd_def by (auto simp: list_ex_iff intro!: map_idI)
    with assms(1) show ?thesis by simp
  qed
qed

lemma not_settled [simp]: "gw_phase s = Ready_For_Commit \<Longrightarrow> settled_tx s = None"
  by (simp add: settled_tx_def)

text \<open>From a row that is ready, everything is decided by the posting.\<close>

lemma commit_from_ready:
  assumes "row_of i (gs_rows st) = Some s" "gw_phase s = Ready_For_Commit"
    and "commit_claim ck env s (gs_rows st) = (Inr True, rows)" "commit_post c ck env src s (set_rows st rows) = (Inr u, st1)"
    and "ce_finish_fault env = None"
  shows "\<exists>rows1 r. row_of i rows1 = Some r \<and> gw_phase r = Internally_Settled \<and> gw_tx r = Some (ce_tx env) \<and>
    commit_body c ck env i src st = (commit_answer c env (gs_world st1) (ce_tx env) (gw_wallet s), set_rows st1 rows1)"
proof -
  from row_of_SomeD [OF assms(1)] have i: "gw_id s = i" by simp
  let ?rows = "snd (commit_finish ck env s (claim_md ck env s) (gs_rows st1))"
  from commit_post_rows [OF assms(4)] have "gs_rows st1 = rows" by simp
  with claimed(1) [OF assms(1,2,3)]
  have "row_of i (gs_rows st1) = Some (s\<lparr>gw_phase_started := ck_now ck, gw_metadata := claim_md ck env s, gw_updated := ck_now ck\<rparr>)" by simp
  then have "\<exists>r. row_of i ?rows = Some r \<and> gw_phase r = Internally_Settled \<and> gw_tx r = Some (ce_tx env)"
    using assms(5) by (simp add: commit_finish_def i row_of_upd)
  moreover have "commit_body c ck env i src st = (commit_answer c env (gs_world st1) (ce_tx env) (gw_wallet s), set_rows st1 ?rows)"
    using assms by (simp add: commit_body_def commit_settle_def set_rows_def commit_finish_def)
  ultimately show ?thesis by blast
qed

lemma commit_succeeded:
  assumes "row_of i (gs_rows st) = Some s" "gw_phase s = Ready_For_Commit"
    and "commitToInternalLedger c ck env i src st = (Inr (t, b), st')"
  shows "\<exists>rows st1. commit_claim ck env s (gs_rows st) = (Inr True, rows) \<and>
    commit_post c ck env src s (set_rows st rows) = (Inr (), st1) \<and> ce_finish_fault env = None"
proof -
  from assms(3) have b: "commit_body c ck env i src st = (Inr (t, b), st')"
    by (auto simp: commitToInternalLedger_def split: prod.splits sum.splits)
  obtain r rows where cl: "commit_claim ck env s (gs_rows st) = (r, rows)" by fastforce
  have "r = Inr True"
  proof (cases r)
    case (Inr won)
    moreover have "won"
    proof (rule ccontr)
      assume "\<not> won"
      with claimed(3) [OF assms(1,2)] cl Inr have "row_of i rows = Some s" by simp
      with b assms(1,2) cl Inr \<open>\<not> won\<close> show False by (simp add: commit_body_def commit_lost_def)
    qed
    ultimately show ?thesis by simp
  qed (use b assms(1,2) cl in \<open>simp add: commit_body_def\<close>)
  moreover obtain q st1 where p: "commit_post c ck env src s (set_rows st rows) = (q, st1)" by fastforce
  moreover have "\<not> isl q \<and> ce_finish_fault env = None"
    using b assms(1,2) cl \<open>r = Inr True\<close> p
    by (auto simp: commit_body_def commit_settle_def commit_finish_def set_rows_def split: sum.splits option.splits prod.splits)
  ultimately show ?thesis using cl by (cases q) auto
qed

section \<open>A sample\<close>

text \<open>Settlement g1 of 20 for wallet b, paid out of wallet a; the platform takes 5 percent into vault v.\<close>

definition gateway_world :: world where
  "gateway_world = (sample_world ''completed'')\<lparr>w_store := (sample_store ''completed'')\<lparr>st_vaults := [''v'' \<mapsto> wallet_row 0 ''company'']\<rparr>\<rparr>"

definition sample_fee :: fee_config where
  "sample_fee = \<lparr>fc_id = ''f1'', fc_name = ''Gateway'', fc_flow_code = ''GATEWAY_SETTLEMENT'', fc_transaction_model = None,
     fc_category_code = None, fc_category_id = None, fc_transaction_type = None, fc_operation_type = None, fc_direction = None,
     fc_rail = None, fc_channel = None, fc_provider_id = None, fc_currency = None, fc_country_code = None,
     fc_percentage_rate = Some (5 / 100), fc_fixed_amount = None, fc_minimum_fee = None, fc_maximum_fee = None, fc_tax_rate = None,
     fc_gov_fee_rate = None, fc_stamp_duty_fixed = None, fc_priority = None, fc_status = ''ACTIVE'', fc_metadata = Map.empty,
     fc_updated_at = 0\<rparr>"

definition sample_proof :: metadata where
  "sample_proof = [''provider_confirmation_source'' \<mapsto> JStr ''trusted_gateway'', ''verified_provider_webhook_at'' \<mapsto> JStr ''t'']"

definition sample_settlement :: "phase \<Rightarrow> gw_row" where
  "sample_settlement p = \<lparr>gw_id = ''g1'', gw_user = Some ''u2'', gw_order = ''o1'', gw_amount = 20, gw_currency = Some ''TZS'',
     gw_phase = p, gw_phase_started = 0, gw_phase_completed = None, gw_external = ''x1'', gw_provider = ''p1'', gw_tx = None,
     gw_wallet = ''b'', gw_movement = None, gw_reconciliation = None, gw_result = None, gw_auto_after = 5, gw_auto_at = Some 0,
     gw_auto_executed = None, gw_retry = 0, gw_last_error = None, gw_metadata = sample_proof, gw_created = 0, gw_updated = 0\<rparr>"

definition sample_gateway :: "phase \<Rightarrow> gateway" where
  "sample_gateway p = \<lparr>gs_world = gateway_world, gs_rows = [sample_settlement p], gs_movements = [],
     gs_accounts = [\<lparr>sa_role = ''SERVICE_REVENUE'', sa_currency = ''TZS'', sa_status = ''ACTIVE'', sa_vault = Some ''v''\<rparr>],
     gs_fees = [sample_fee], gs_local = (\<lambda>_. None), gs_redis = None\<rparr>"

definition sample_commit_env :: "js_error option \<Rightarrow> commit_env" where
  "sample_commit_env f = \<lparr>ce_claim = ''c1'', ce_tx = ''t2'', ce_suspense = Some ''a'', ce_claim_fault = None, ce_redis_fails = False,
     ce_fee_fault = None, ce_lookup = \<lparr>lf_account = None, lf_vault = None\<rparr>, ce_post = sample_post_env ''t2'', ce_finish_fault = None,
     ce_balance_fault = f\<rparr>"

definition sample_recon_env :: recon_env where
  "sample_recon_env = \<lparr>rn_uuid = ''r1'', rn_stub = False, rn_begin = None, rn_store = None, rn_finish = None\<rparr>"

lemma gateway_ready: "kms_ready (w_kms (gs_world (sample_gateway p)))"
  using sample_ready by (simp add: sample_gateway_def gateway_world_def)

lemma gateway_balance: "balance_of (w_store (gs_world (sample_gateway p))) i = (if i = ''a'' then 70 else if i = ''b'' then 30 else 0)"
  by (auto simp: balance_of_def entity_kinds_def sample_gateway_def gateway_world_def sample_store_def wallet_row_def)

lemma gateway_agrees: "agrees {} c (w_kms (gs_world (sample_gateway p))) (w_store (gs_world (sample_gateway p)))"
proof -
  have "balance_of (w_store (gs_world (sample_gateway p))) i = balance_of (w_store (sample_world s)) i" for i s
    unfolding gateway_balance by (simp add: sample_world_def sample_world_balance)
  moreover have "st_ledger (w_store (gs_world (sample_gateway p))) = st_ledger (w_store (sample_world ''completed''))"
    "w_kms (gs_world (sample_gateway p)) = w_kms (sample_world ''completed'')"
    by (simp_all add: sample_gateway_def gateway_world_def sample_world_def)
  ultimately show ?thesis using sample_agrees [of "{}" c "''completed''"] by (simp add: agrees_def)
qed

lemma sample_row_of [simp]: "row_of ''g1'' (gs_rows (sample_gateway p)) = Some (sample_settlement p)"
  by (simp add: row_of_def sample_gateway_def sample_settlement_def)

lemma sample_claim: "fst (commit_claim sample_clock (sample_commit_env f) (sample_settlement Ready_For_Commit) (gs_rows (sample_gateway Ready_For_Commit))) = Inr True"
  by (rule claimed(2) [OF sample_row_of]) (simp_all add: sample_settlement_def sample_commit_env_def)

lemma sample_posting:
  "isl (fst (commit_post c sample_clock (sample_commit_env f) None (sample_settlement Ready_For_Commit)
     (set_rows (sample_gateway Ready_For_Commit) rows))) = False"
  by code_simp


lemma sample_commit:
  "\<exists>st1. commit_post c sample_clock (sample_commit_env f) None (sample_settlement Ready_For_Commit) (set_rows (sample_gateway Ready_For_Commit) rows) = (Inr (), st1)"
proof -
  let ?x = "commit_post c sample_clock (sample_commit_env f) None (sample_settlement Ready_For_Commit) (set_rows (sample_gateway Ready_For_Commit) rows)"
  from sample_posting [of c f rows] obtain u where "fst ?x = Inr u" by (cases "fst ?x") simp_all
  then show ?thesis by (metis old.unit.exhaust prod.collapse)
qed

lemma sample_committed:
  assumes "crypto_sound c"
  shows "\<exists>b st'. commitToInternalLedger c sample_clock (sample_commit_env None) ''g1'' None (sample_gateway Ready_For_Commit) = (Inr (''t2'', b), st')"
proof -
  let ?s = "sample_settlement Ready_For_Commit"
  obtain rows where cl: "commit_claim sample_clock (sample_commit_env None) ?s (gs_rows (sample_gateway Ready_For_Commit)) = (Inr True, rows)"
    using sample_claim [of None] by (metis prod.collapse)
  obtain st1 where p: "commit_post c sample_clock (sample_commit_env None) None ?s (set_rows (sample_gateway Ready_For_Commit) rows) = (Inr (), st1)"
    using sample_commit by blast
  have s: "gw_phase ?s = Ready_For_Commit" "scale4 (gw_amount ?s)" "gw_wallet ?s \<noteq> []" by (simp_all add: sample_settlement_def)
  from commit_post_moves [of c "set_rows (sample_gateway Ready_For_Commit) rows" "{}" ?s, simplified, OF assms gateway_ready gateway_agrees s(2,3) p]
  have "calculateBalanceFromLedger c None (gs_world st1) (gw_wallet ?s) = Inr (balance_of (w_store (gs_world st1)) (gw_wallet ?s))"
    using agrees_derived by blast
  with commit_from_ready [OF sample_row_of s(1) cl p] show ?thesis
    by (auto simp: commitToInternalLedger_def commit_answer_def sample_commit_env_def)
qed



theorem settled_once_witness:
  "\<exists>st. (gw_step toy_crypto)\<^sup>*\<^sup>* (sample_gateway Ready_For_Commit, \<lambda>_. Idle) (st, \<lambda>_. Idle) \<and>
     (\<exists>r x. row_of ''g1'' (gs_rows st) = Some r \<and> x \<in> set (st_txs (w_store (gs_world st))) \<and> gw_tx r = Some (tx_id x) \<and>
       tx_reference x = buildInternalCommitReference (gw_id r)) \<and>
     length (filter (\<lambda>x. tx_reference x = buildInternalCommitReference ''g1'') (st_txs (w_store (gs_world st)))) \<le> 1"
proof -
  obtain b st where e: "commitToInternalLedger toy_crypto sample_clock (sample_commit_env None) ''g1'' None (sample_gateway Ready_For_Commit) = (Inr (''t2'', b), st)"
    using sample_committed [OF toy_sound] by blast
  have "gw_phase (sample_settlement Ready_For_Commit) = Ready_For_Commit" by (simp add: sample_settlement_def)
  from commit_succeeded [OF sample_row_of this e] obtain rows st1 where
    cl: "commit_claim sample_clock (sample_commit_env None) (sample_settlement Ready_For_Commit) (gs_rows (sample_gateway Ready_For_Commit)) = (Inr True, rows)" and
    p: "commit_post toy_crypto sample_clock (sample_commit_env None) None (sample_settlement Ready_For_Commit) (set_rows (sample_gateway Ready_For_Commit) rows) = (Inr (), st1)" by blast
  have "ce_finish_fault (sample_commit_env None) = None" by (simp add: sample_commit_env_def)
  from commit_from_ready [OF sample_row_of \<open>gw_phase _ = _\<close> cl p this] e
  obtain r where r: "row_of ''g1'' (gs_rows st) = Some r" "gw_phase r = Internally_Settled"
    by (auto simp: commitToInternalLedger_def split: sum.splits)
  have run: "(gw_step toy_crypto)\<^sup>*\<^sup>* (sample_gateway Ready_For_Commit, \<lambda>_. Idle) (st, \<lambda>_. Idle)"
    using commit_run [of "sample_commit_env None" "\<lambda>_. Idle" 0 toy_crypto "sample_gateway Ready_For_Commit" sample_clock "''g1''" None] e
    by (simp add: sample_commit_env_def)
  have "distinct (map tx_reference (st_txs (w_store (gs_world (sample_gateway Ready_For_Commit)))))"
    "\<forall>r \<in> set (gs_rows (sample_gateway Ready_For_Commit)). gw_phase r \<noteq> Internally_Settled"
    by (simp_all add: sample_gateway_def gateway_world_def sample_store_def sample_settlement_def)
  from settled_once [OF run this, of "''g1''"] r row_of_SomeD [OF r(1)] show ?thesis using run by blast
qed

end
