(* ===== verification/Settlement_Outcomes.thy ===== *)
theory Settlement_Outcomes
  imports Settlement_Properties
begin

text \<open>
  What the outcomes of the gateway settlement mean: a failed commit may have moved the money, a
  reconciliation is decided by the provider proof, and the requeueing of failed settlements ends.
\<close>

section \<open>Failed commits\<close>

lemma post_store_cases:
  assumes "postTransactionWithLedger c ck env t ls w = (r, w')"
  shows "w_store w' = w_store w \<or> (\<exists>a. commit_args c ck env t ls w = Inr a \<and> post_transaction_v2 (w_store w) a = Inr (w_store w'))"
proof (cases "commit_args c ck env t ls w")
  case (Inr a)
  obtain er st where run: "run_rpc (pe_rpc env) (\<lambda>st. post_transaction_v2 st a) (w_store w) = (er, st)" by fastforce
  have "w_store w' = st"
  proof (cases er)
    case None
    with assms after_post_sel(1) [of c ck env t "w\<lparr>w_store := st\<rparr>"] show ?thesis
      by (simp add: postTransactionWithLedger_def Inr run)
  qed (use assms in \<open>auto simp: postTransactionWithLedger_def Inr run\<close>)
  with run_rpc_cases [OF run] Inr show ?thesis by auto
qed (use assms in \<open>simp add: postTransactionWithLedger_def\<close>)

lemma posted_moves:
  assumes "crypto_sound c" "kms_ready (w_kms w)" "list_all (\<lambda>l. scale4 (entry_value l)) ls"
    and "agrees T c (w_kms w) (w_store w)" "commit_args c ck env t ls w = Inr a" "post_transaction_v2 (w_store w) a = Inr s'"
  shows "balance_of s' k = balance_of (w_store w) k + entry_net k ls" and "entry_total ls = 0"
proof -
  from commit_args_legs [OF assms(5)] have l: "legs_for c ck w ''commits'' (pt_user t) ls = Inr (pa_legs a)" by simp
  note pl = legs_for_prepared [OF assms(1,2) l assms(3)]
  from post_balance [OF assms(6)] pl [of k] agreesD [OF assms(4)] show "balance_of s' k = balance_of (w_store w) k + entry_net k ls"
    by (simp add: list_all_iff)
  from post_total [OF assms(6)] pl have "(\<Sum>l\<leftarrow>pa_legs a. leg_signed l) = 0" by (simp add: list_all_iff)
  with l show "entry_total ls = 0" by (auto simp: legs_for_def Let_def prepared_total split: if_splits)
qed

definition money_moved :: "string \<Rightarrow> gw_row \<Rightarrow> store \<Rightarrow> store \<Rightarrow> bool" where
  "money_moved source s st st' \<longleftrightarrow> (\<exists>fee fk. 0 \<le> fee \<and> (fk = None \<longleftrightarrow> fee = 0) \<and>
     (\<forall>k. balance_of st' k = balance_of st k + (if k = gw_wallet s then gw_amount s else 0) + (if fk = Some k then fee else 0)
        - (if k = source then gw_amount s + fee else 0)))"

lemma commit_post_any:
  assumes "crypto_sound c" "kms_ready (w_kms (gs_world st))" "agrees T c (w_kms (gs_world st)) (w_store (gs_world st))"
    and "scale4 (gw_amount s)" "gw_wallet s \<noteq> []" "commit_post c ck env src s st = (r, st')"
  shows "w_store (gs_world st') = w_store (gs_world st) \<or>
    money_moved (commit_source env src) s (w_store (gs_world st)) (w_store (gs_world st'))"
proof -
  obtain q st1 where p: "commit_prepare ck env src s st = (q, st1)" by fastforce
  note h = commit_prepare_header [OF p]
  show ?thesis
  proof (cases q)
    case (Inr x)
    obtain t ls where x: "x = (t, ls)" by fastforce
    from assms(6) h obtain r1 where q: "postTransactionWithLedger c ck (ce_post env) t ls (gs_world st) = (r1, gs_world st')"
      by (auto simp: commit_post_def p Inr x split: prod.splits)
    from commit_prepare_legs [OF p [unfolded Inr x]] obtain fee fk where ls: "ls = commit_legs s (commit_source env src) (commit_currency s) fee fk"
      and f: "scale4 fee" "commit_source env src \<noteq> []" "case fk of None \<Rightarrow> fee \<le> 0 | Some k \<Rightarrow> 0 < fee \<and> k \<noteq> []" by blast
    note net = commit_legs_net [OF assms(5) f(2,3)]
    from net(3) [OF assms(4) f(1)] have sc: "list_all (\<lambda>l. scale4 (entry_value l)) ls" by (simp add: ls)
    from post_store_cases [OF q] show ?thesis
    proof
      assume "\<exists>a. commit_args c ck (ce_post env) t ls (gs_world st) = Inr a \<and>
        post_transaction_v2 (w_store (gs_world st)) a = Inr (w_store (gs_world st'))"
      then obtain a where a: "commit_args c ck (ce_post env) t ls (gs_world st) = Inr a"
        "post_transaction_v2 (w_store (gs_world st)) a = Inr (w_store (gs_world st'))" by blast
      note m = posted_moves [OF assms(1,2) sc assms(3) a]
      have "0 \<le> fee \<and> (fk = None \<longleftrightarrow> fee = 0)" using m(2) net(2) f(3) by (cases fk) (simp_all add: ls)
      then show ?thesis unfolding money_moved_def m(1) ls net(1)
        by (intro disjI2 exI [of _ fee] exI [of _ fk]) simp
    qed simp
  qed (use assms(6) p h in \<open>simp add: commit_post_def\<close>)
qed

lemma failure_row:
  assumes "row_of i rows = Some r"
  shows "\<exists>r'. row_of i (recordFailure ck i reason msg extra rows) = Some r' \<and> gw_phase r' = Settlement_Failed \<and>
    gw_retry r' = gw_retry r \<and> gw_tx r' = gw_tx r"
  using assms by (simp add: recordFailure_def Let_def row_of_upd)



section \<open>Reconciliation\<close>

text \<open>A pending settlement is reconciled exactly by its provider proof: if no database call fails and no
  earlier confirmation was applied, it becomes ready for the commit if and only if its metadata
  names a trusted source with a matching key and a timestamp (or the stub of a non-production
  process is on); otherwise it fails, and no other settlement changes either way.\<close>

theorem reconciliation_needs_proof:
  assumes "row_of i rows = Some s" and "gw_phase s = External_Pending" and "\<not> already_confirmed s"
    and "rn_begin env = None" and "rn_store env = None" and "rn_finish env = None"
    and "ok = (proof_source (gw_metadata s) \<in> set trusted_sources \<and> proof_key_matches (gw_metadata s) (getProviderConfirmationKey s) \<and>
      proof_timestamp (gw_metadata s) \<or> rn_stub env)"
  shows "fst (startReconciliation ck env i rows) = Inr ok \<and>
    (\<exists>r. row_of i (snd (startReconciliation ck env i rows)) = Some r \<and> gw_phase r = (if ok then Ready_For_Commit else Settlement_Failed)) \<and>
    (j \<noteq> i \<longrightarrow> row_of j (snd (startReconciliation ck env i rows)) = row_of j rows)"
proof -
  from row_of_SomeD [OF assms(1)] have i: "gw_id s = i" by simp
  let ?res = "performReconciliation (rn_stub env) s (getProviderConfirmationKey s)"
  have res: "rr_verified ?res = ok" by (auto simp: performReconciliation_def getTrustedProviderProof_def Let_def assms(7))
  have entry: "recon_entry s = Recon_Go" using assms(2,3) by (simp add: recon_entry_def)
  have tr: "\<exists>rows2 r2. transitionLifecyclePhase ck None i p q f rows1 = (Inr (), rows2) \<and> row_of i rows2 = Some r2 \<and> gw_phase r2 = q \<and>
      (j \<noteq> i \<longrightarrow> row_of j rows2 = row_of j rows1)"
    if "q \<in> set (allowedTransitions p)" "row_of i rows1 = Some r" "gw_phase r = p" "\<And>x. gw_id (f x) = gw_id x \<and> gw_phase (f x) = gw_phase x"
    for p q f rows1 r
  proof -
    from row_of_SomeD [OF that(2)] that have "\<exists>r \<in> set rows1. gw_id r = i \<and> gw_phase r = p" by blast
    with that show ?thesis by (simp add: transitionLifecyclePhase_def row_of_upd)
  qed
  have "\<exists>rows1 r1. recon_begin ck env s rows = (Inr (), rows1) \<and> row_of i rows1 = Some r1 \<and> gw_phase r1 = Reconciliation_Running \<and>
      (j \<noteq> i \<longrightarrow> row_of j rows1 = row_of j rows)"
    unfolding recon_begin_def assms(4) i by (rule tr [OF _ assms(1,2)]) simp_all
  then obtain rows1 r1 where b: "recon_begin ck env s rows = (Inr (), rows1)" and r1: "row_of i rows1 = Some r1" "gw_phase r1 = Reconciliation_Running"
    and o1: "j \<noteq> i \<longrightarrow> row_of j rows1 = row_of j rows" by blast
  let ?rows2 = "upd_row (ck_now ck) i (\<lambda>r. True) (\<lambda>r. r\<lparr>gw_result := Some ?res, gw_phase_completed := Some (ck_now ck)\<rparr>) rows1"
  have st: "recon_store ck env s ?res rows1 = (Inr (), ?rows2)" by (simp add: recon_store_def assms(5) i)
  have r2: "\<exists>r. row_of i ?rows2 = Some r \<and> gw_phase r = Reconciliation_Running" "j \<noteq> i \<longrightarrow> row_of j ?rows2 = row_of j rows1"
    using r1 by (simp_all add: row_of_upd)
  have body: "recon_body ck env i rows = recon_finish ck env s ?res ?rows2"
    by (simp add: recon_body_def assms(1) entry b st Let_def)
  show ?thesis
  proof (cases ok)
    case True
    from r2 obtain r where r: "row_of i ?rows2 = Some r" "gw_phase r = Reconciliation_Running" by blast
    let ?f = "\<lambda>r. r\<lparr>gw_metadata := (gw_metadata s)(''provider_confirmation_key'' \<mapsto> JStr (getProviderConfirmationKey s),
               ''provider_confirmation_source'' \<mapsto> source_value ?res, ''reconciliation_verified_at'' \<mapsto> stamp ck)\<rparr>"
    have "\<exists>rows3 r3. transitionLifecyclePhase ck None i Reconciliation_Running Ready_For_Commit ?f ?rows2 = (Inr (), rows3) \<and>
        row_of i rows3 = Some r3 \<and> gw_phase r3 = Ready_For_Commit \<and> (j \<noteq> i \<longrightarrow> row_of j rows3 = row_of j ?rows2)"
      by (rule tr [OF _ r]) simp_all
    then have "\<exists>rows3 r3. recon_finish ck env s ?res ?rows2 = (Inr True, rows3) \<and> row_of i rows3 = Some r3 \<and> gw_phase r3 = Ready_For_Commit \<and>
        (j \<noteq> i \<longrightarrow> row_of j rows3 = row_of j ?rows2)"
      using True res by (auto simp: recon_finish_def Let_def assms(6) i)
    then show ?thesis using o1 r2 True by (auto simp: startReconciliation_def body)
  next
    case False
    with res have "rr_verified ?res = False" by simp
    then have f: "\<exists>reason msg extra. recon_finish ck env s ?res ?rows2 = (Inr False, recordFailure ck i reason msg extra ?rows2)"
      by (simp add: recon_finish_def Let_def i) blast
    then obtain reason msg extra where "recon_finish ck env s ?res ?rows2 = (Inr False, recordFailure ck i reason msg extra ?rows2)" by blast
    moreover from r2 failure_row have "\<exists>r. row_of i (recordFailure ck i reason msg extra ?rows2) = Some r \<and> gw_phase r = Settlement_Failed" by blast
    moreover have "j \<noteq> i \<longrightarrow> row_of j (recordFailure ck i reason msg extra ?rows2) = row_of j ?rows2"
      by (simp add: recordFailure_def Let_def)
    ultimately show ?thesis using o1 r2 False by (auto simp: startReconciliation_def body)
  qed
qed

theorem reconciliation_needs_proof_witness:
  "fst (startReconciliation sample_clock sample_recon_env ''g1'' (gs_rows (sample_gateway External_Pending))) = Inr True"
proof -
  let ?s = "sample_settlement External_Pending"
  have "proof_source sample_proof = ''TRUSTED_GATEWAY''" by code_simp
  then have "True = (proof_source (gw_metadata ?s) \<in> set trusted_sources \<and> proof_key_matches (gw_metadata ?s) (getProviderConfirmationKey ?s) \<and>
      proof_timestamp (gw_metadata ?s) \<or> rn_stub sample_recon_env)"
    by (simp add: sample_settlement_def trusted_sources_def proof_key_matches_def proof_timestamp_def sample_proof_def md_has_def md_text_def)
  moreover have "gw_phase ?s = External_Pending" "\<not> already_confirmed ?s"
    by (simp_all add: sample_settlement_def already_confirmed_def sample_proof_def md_has_def)
  ultimately show ?thesis
    using reconciliation_needs_proof [OF sample_row_of, of External_Pending sample_recon_env True] by (simp add: sample_recon_env_def)
qed

end
