(* ===== verification/Settlement_Requeue.thy ===== *)
theory Settlement_Requeue
  imports Settlement_Outcomes
begin

text \<open>
  The requeueing of failed gateway settlements over any number of scheduler rounds: it ends, and
  it does not bring a settlement back whose automatic attempt has already run.
\<close>

section \<open>What keeps the retry counters\<close>

definition retry_keys :: "gw_row list \<Rightarrow> (string \<times> nat) list" where
  "retry_keys rows = map (\<lambda>r. (gw_id r, gw_retry r)) rows"

lemma upd_retry_keys [simp]:
  "(\<And>r. gw_id (f r) = gw_id r \<and> gw_retry (f r) = gw_retry r) \<Longrightarrow> retry_keys (upd_row now i p f rows) = retry_keys rows"
  unfolding retry_keys_def upd_row_def by (rule map_upd_key) simp

lemma failure_retry_keys [simp]: "retry_keys (recordFailure ck i reason msg extra rows) = retry_keys rows"
  by (simp add: recordFailure_def Let_def)

lemma transition_retry_keys:
  "(\<And>r. gw_id (f r) = gw_id r \<and> gw_retry (f r) = gw_retry r) \<Longrightarrow>
     transitionLifecyclePhase ck fault i p q f rows = (r, rows') \<Longrightarrow> retry_keys rows' = retry_keys rows"
  by (auto simp: transitionLifecyclePhase_def split: if_splits option.splits)

lemma recon_begin_retry: "recon_begin ck env s rows = (r, rows') \<Longrightarrow> retry_keys rows' = retry_keys rows"
  unfolding recon_begin_def by (erule transition_retry_keys [rotated]) simp

lemma recon_store_retry: "recon_store ck env s res rows = (r, rows') \<Longrightarrow> retry_keys rows' = retry_keys rows"
  by (auto simp: recon_store_def split: option.splits)

lemma recon_finish_retry:
  assumes "recon_finish ck env s res rows = (r, rows')"
  shows "retry_keys rows' = retry_keys rows"
proof (cases "rr_verified res")
  case True
  let ?t = "transitionLifecyclePhase ck (rn_finish env) (gw_id s) Reconciliation_Running Ready_For_Commit
    (\<lambda>r. r\<lparr>gw_metadata := (gw_metadata s)(''provider_confirmation_key'' \<mapsto> JStr (getProviderConfirmationKey s),
               ''provider_confirmation_source'' \<mapsto> source_value res, ''reconciliation_verified_at'' \<mapsto> stamp ck)\<rparr>) rows"
  from assms True have "rows' = snd ?t"
    using snd_case_outcome [of True ?t] by (simp add: recon_finish_def Let_def)
  moreover have "retry_keys (snd ?t) = retry_keys rows" by (rule transition_retry_keys [OF _ prod.collapse [symmetric]]) simp
  ultimately show ?thesis by simp
next
  case False
  with assms have "rows' = snd (Inr False :: bool outcome, rows')" "\<exists>reason msg extra. rows' = recordFailure ck (gw_id s) reason msg extra rows"
    by (auto simp: recon_finish_def Let_def)
  then show ?thesis by auto
qed

lemma recon_retry: "retry_keys (snd (startReconciliation ck env i rows)) = retry_keys rows"
proof -
  have "retry_keys rows' = retry_keys rows" if "recon_body ck env i rows = (r, rows')" for r rows'
    using that
    by (auto simp: recon_body_def Let_def split: option.splits recon_move.splits prod.splits sum.splits
        dest!: recon_begin_retry recon_store_retry recon_finish_retry)
  then show ?thesis by (auto simp: startReconciliation_def split: prod.split sum.split)
qed

lemma commit_retry: "retry_keys (gs_rows (snd (commitToInternalLedger c ck env i src st))) = retry_keys (gs_rows st)"
proof -
  have claim: "retry_keys rows' = retry_keys rows" if "commit_claim ck env s rows = (r, rows')" for s r rows rows'
    using that by (auto simp: commit_claim_def split: option.splits)
  have finish: "retry_keys rows' = retry_keys rows" if "commit_finish ck env s md rows = (r, rows')" for s md r rows rows'
    using that by (auto simp: commit_finish_def split: option.splits)
  have settle: "retry_keys (gs_rows st') = retry_keys (gs_rows st)" if "commit_settle c ck env src s st = (r, st')" for s r st st'
    using that commit_post_rows by (auto simp: commit_settle_def split: prod.splits sum.splits dest!: finish)
  have "retry_keys (gs_rows st') = retry_keys (gs_rows st)" if "commit_body c ck env i src st = (r, st')" for r st'
    using that by (auto simp: commit_body_def split: option.splits prod.splits sum.splits if_splits dest!: claim settle)
  then show ?thesis by (auto simp: commitToInternalLedger_def commit_failed_def split: prod.split sum.split)
qed

lemma auto_settle_retry: "retry_keys (gs_rows (auto_settle_one c ck env i st)) = retry_keys (gs_rows st)"
  using recon_retry [of ck "fst (env i)" i "gs_rows st"]
  by (auto simp: auto_settle_one_def Let_def commit_retry split: prod.splits sum.splits)

lemma fold_keeps: "(\<And>x st. k (f x st) = k st) \<Longrightarrow> k (fold f xs st) = k st"
  by (induction xs arbitrary: st) simp_all

lemma stages_retry:
  "retry_keys (gs_rows (processAutoSettleTimeouts c ck env st)) = retry_keys (gs_rows st)"
  "retry_keys (gs_rows (processStuckReconciliations ck st)) = retry_keys (gs_rows st)"
  "gs_rows (snd (processStuckExternalMovements ck f1 f2 st)) = gs_rows st"
proof -
  show "retry_keys (gs_rows (processAutoSettleTimeouts c ck env st)) = retry_keys (gs_rows st)"
    unfolding processAutoSettleTimeouts_def by (rule fold_keeps [where k = "\<lambda>st. retry_keys (gs_rows st)"]) (rule auto_settle_retry)
  show "retry_keys (gs_rows (processStuckReconciliations ck st)) = retry_keys (gs_rows st)"
    unfolding processStuckReconciliations_def
    by (rule fold_keeps [where k = "\<lambda>st. retry_keys (gs_rows st)"]) (simp add: reap_reconciliation_def)
  have "gs_rows (fold (reap_movement ck) ms st) = gs_rows st" for ms
    by (rule fold_keeps [where k = gs_rows]) (simp add: reap_movement_def Let_def)
  then show "gs_rows (snd (processStuckExternalMovements ck f1 f2 st)) = gs_rows st"
    by (simp add: processStuckExternalMovements_def del: fold_append split: option.split)
qed

section \<open>The requeueing ends\<close>

text \<open>The requeues that are left, and those one round makes.\<close>

definition retries_left :: "gw_row list \<Rightarrow> nat" where
  "retries_left rows = (\<Sum>r\<leftarrow>rows. 3 - gw_retry r)"

definition before_retry :: "crypto \<Rightarrow> clock \<Rightarrow> round_env \<Rightarrow> js_error option \<Rightarrow> js_error option \<Rightarrow> gateway \<Rightarrow> unit outcome \<times> gateway" where
  "before_retry c ck env f1 f2 st =
     processStuckExternalMovements ck f1 f2 (processStuckReconciliations ck (processAutoSettleTimeouts c ck env st))"

definition round_requeues :: "crypto \<Rightarrow> clock \<Rightarrow> round_env \<Rightarrow> js_error option \<Rightarrow> js_error option \<Rightarrow> gateway \<Rightarrow> nat" where
  "round_requeues c ck env f1 f2 st =
     (case before_retry c ck env f1 f2 st of
        (Inl e, st') \<Rightarrow> 0
      | (Inr u, st') \<Rightarrow> length (filter (retry_due (ck_now ck)) (sel retry_candidate (gs_rows st'))))"

type_synonym tick = "clock \<times> round_env \<times> js_error option \<times> js_error option"

fun run_rounds :: "crypto \<Rightarrow> tick list \<Rightarrow> gateway \<Rightarrow> gateway" where
  "run_rounds c [] st = st"
| "run_rounds c ((ck, env, f1, f2) # ts) st = run_rounds c ts (snd (processSettlements c ck env f1 f2 st))"

fun total_requeues :: "crypto \<Rightarrow> tick list \<Rightarrow> gateway \<Rightarrow> nat" where
  "total_requeues c [] st = 0"
| "total_requeues c ((ck, env, f1, f2) # ts) st =
     round_requeues c ck env f1 f2 st + total_requeues c ts (snd (processSettlements c ck env f1 f2 st))"

lemma retries_left_keys: "retry_keys rows = retry_keys rows' \<Longrightarrow> retries_left rows = retries_left rows'"
proof -
  have "retries_left rows = (\<Sum>k\<leftarrow>retry_keys rows. 3 - snd k)" for rows
    by (induction rows) (simp_all add: retries_left_def retry_keys_def)
  then show "retry_keys rows = retry_keys rows' \<Longrightarrow> retries_left rows = retries_left rows'" by simp
qed

lemma requeue_ids: "map gw_id (upd_row now i (\<lambda>r. True) (requeued ck s) rows) = map gw_id rows"
  unfolding upd_row_def by (rule map_upd_key) (simp add: requeued_def)

lemma upd_row_absent: "i \<notin> gw_id ` set rows \<Longrightarrow> upd_row now i p f rows = rows"
  unfolding upd_row_def upd_def by (rule map_idI) auto

lemma requeue_counts:
  assumes "distinct (map gw_id rows)" "r \<in> set rows" "gw_id r = gw_id s" "gw_retry r = gw_retry s" "gw_retry s < 3"
  shows "retries_left rows = Suc (retries_left (upd_row now (gw_id s) (\<lambda>r. True) (requeued ck s) rows))"
  using assms(1,2)
proof (induction rows)
  case (Cons a rows)
  show ?case
  proof (cases "a = r")
    case True
    with Cons.prems(1) assms(3) have "gw_id s \<notin> gw_id ` set rows" by auto
    from upd_row_absent [OF this, of now "\<lambda>r. True" "requeued ck s"] True assms(3,4,5) show ?thesis
      by (auto simp: upd_row_def retries_left_def requeued_def)
  next
    case False
    with Cons.prems have "r \<in> set rows" "gw_id a \<noteq> gw_id s" using assms(3) by (auto simp: image_iff)
    with Cons show ?thesis by (simp add: upd_row_def retries_left_def)
  qed
qed simp

lemma retry_fold_counts:
  assumes "distinct (map gw_id (gs_rows st))" "distinct (map gw_id xs)"
    and "\<And>s. s \<in> set xs \<Longrightarrow> gw_retry s < 3 \<and> (\<exists>r \<in> set (gs_rows st). gw_id r = gw_id s \<and> gw_retry r = gw_retry s)"
  shows "retries_left (gs_rows st) = length (filter (retry_due (ck_now ck)) xs) + retries_left (gs_rows (fold (retry_one ck) xs st)) \<and>
    map gw_id (gs_rows (fold (retry_one ck) xs st)) = map gw_id (gs_rows st)"
  using assms
proof (induction xs arbitrary: st)
  case (Cons s xs)
  show ?case
  proof (cases "retry_due (ck_now ck) s")
    case False
    with Cons show ?thesis by (simp add: retry_one_def)
  next
    case True
    let ?rows = "upd_row (ck_now ck) (gw_id s) (\<lambda>r. True) (requeued ck s) (gs_rows st)"
    let ?st = "set_rows st ?rows"
    have one: "retry_one ck s st = ?st" using True by (simp add: retry_one_def)
    from Cons.prems(3) [of s] obtain r where r: "r \<in> set (gs_rows st)" "gw_id r = gw_id s" "gw_retry r = gw_retry s" "gw_retry s < 3"
      by auto
    have later: "gw_retry x < 3 \<and> (\<exists>r \<in> set (gs_rows ?st). gw_id r = gw_id x \<and> gw_retry r = gw_retry x)" if "x \<in> set xs" for x
    proof -
      from that Cons.prems(2) have "gw_id x \<noteq> gw_id s" by (auto simp: image_iff)
      from Cons.prems(3) [of x] that obtain y where "gw_retry x < 3" "y \<in> set (gs_rows st)" "gw_id y = gw_id x" "gw_retry y = gw_retry x" by auto
      with \<open>gw_id x \<noteq> gw_id s\<close> show ?thesis by (auto simp: in_upd_row intro!: bexI [of _ y])
    qed
    have "retries_left (gs_rows ?st) = length (filter (retry_due (ck_now ck)) xs) + retries_left (gs_rows (fold (retry_one ck) xs ?st)) \<and>
        map gw_id (gs_rows (fold (retry_one ck) xs ?st)) = map gw_id (gs_rows ?st)"
      by (rule Cons.IH) (use Cons.prems later in \<open>simp_all add: requeue_ids\<close>)
    with requeue_counts [OF Cons.prems(1) r, of "ck_now ck" ck] True show ?thesis by (simp add: one requeue_ids)
  qed
qed simp

lemma retry_stage_counts:
  assumes "distinct (map gw_id (gs_rows st))"
  shows "retries_left (gs_rows st) = length (filter (retry_due (ck_now ck)) (sel retry_candidate (gs_rows st))) +
      retries_left (gs_rows (retryFailedSettlements ck st)) \<and>
    map gw_id (gs_rows (retryFailedSettlements ck st)) = map gw_id (gs_rows st)"
  unfolding retryFailedSettlements_def
  by (rule retry_fold_counts) (use assms in \<open>auto simp: sel_def retry_candidate_def distinct_map_filter\<close>)

lemma ids_of_keys: "retry_keys rows = retry_keys rows' \<Longrightarrow> map gw_id rows = map gw_id rows'"
proof -
  have "map gw_id rows = map fst (retry_keys rows)" for rows by (simp add: retry_keys_def)
  then show "retry_keys rows = retry_keys rows' \<Longrightarrow> map gw_id rows = map gw_id rows'" by simp
qed

lemma round_counts:
  assumes "distinct (map gw_id (gs_rows st))"
  shows "retries_left (gs_rows st) = round_requeues c ck env f1 f2 st + retries_left (gs_rows (snd (processSettlements c ck env f1 f2 st))) \<and>
    map gw_id (gs_rows (snd (processSettlements c ck env f1 f2 st))) = map gw_id (gs_rows st)"
proof -
  obtain r d where b: "before_retry c ck env f1 f2 st = (r, d)" by fastforce
  have "retry_keys (gs_rows (snd (before_retry c ck env f1 f2 st))) = retry_keys (gs_rows st)"
    by (simp add: before_retry_def stages_retry)
  then have k: "retry_keys (gs_rows d) = retry_keys (gs_rows st)" by (simp add: b)
  have p: "processSettlements c ck env f1 f2 st = (case r of Inl e \<Rightarrow> (Inl e, d) | Inr u \<Rightarrow> (Inr (), retryFailedSettlements ck d))"
    using b by (simp add: before_retry_def processSettlements_def)
  from assms ids_of_keys [OF k] have "distinct (map gw_id (gs_rows d))" by simp
  from retry_stage_counts [OF this, of ck] retries_left_keys [OF k] ids_of_keys [OF k] show ?thesis
    by (cases r) (simp_all add: p round_requeues_def b)
qed

lemma rounds_count:
  "distinct (map gw_id (gs_rows st)) \<Longrightarrow>
     retries_left (gs_rows st) = total_requeues c ts st + retries_left (gs_rows (run_rounds c ts st))"
proof (induction ts arbitrary: st)
  case (Cons t ts)
  obtain ck env f1 f2 where t: "t = (ck, env, f1, f2)" by (cases t) auto
  from round_counts [OF Cons.prems, of c ck env f1 f2] Cons.IH [of "snd (processSettlements c ck env f1 f2 st)"] Cons.prems
  show ?case by (simp add: t)
qed simp



section \<open>Rows a round does not touch\<close>

lemma failure_other [simp]: "i \<noteq> j \<Longrightarrow> row_of i (recordFailure ck j reason msg extra rows) = row_of i rows"
  by (simp add: recordFailure_def Let_def)

lemma transition_other:
  "i \<noteq> j \<Longrightarrow> (\<And>r. gw_id (f r) = gw_id r) \<Longrightarrow> transitionLifecyclePhase ck fault j p q f rows = (r, rows') \<Longrightarrow> row_of i rows' = row_of i rows"
  by (auto simp: transitionLifecyclePhase_def split: if_splits option.splits)

lemma recon_begin_other: "recon_begin ck env s rows = (r, rows') \<Longrightarrow> i \<noteq> gw_id s \<Longrightarrow> row_of i rows' = row_of i rows"
  unfolding recon_begin_def by (erule transition_other [rotated 2]) simp_all

lemma recon_store_other: "recon_store ck env s res rows = (r, rows') \<Longrightarrow> i \<noteq> gw_id s \<Longrightarrow> row_of i rows' = row_of i rows"
  by (auto simp: recon_store_def split: option.splits)

lemma recon_finish_other:
  assumes "recon_finish ck env s res rows = (r, rows')" "i \<noteq> gw_id s"
  shows "row_of i rows' = row_of i rows"
proof (cases "rr_verified res")
  case True
  let ?t = "transitionLifecyclePhase ck (rn_finish env) (gw_id s) Reconciliation_Running Ready_For_Commit
    (\<lambda>r. r\<lparr>gw_metadata := (gw_metadata s)(''provider_confirmation_key'' \<mapsto> JStr (getProviderConfirmationKey s),
               ''provider_confirmation_source'' \<mapsto> source_value res, ''reconciliation_verified_at'' \<mapsto> stamp ck)\<rparr>) rows"
  from assms True have "rows' = snd ?t"
    using snd_case_outcome [of True ?t] by (simp add: recon_finish_def Let_def)
  moreover have "row_of i (snd ?t) = row_of i rows" by (rule transition_other [OF assms(2) _ prod.collapse [symmetric]]) simp
  ultimately show ?thesis by simp
qed (use assms in \<open>auto simp: recon_finish_def Let_def\<close>)

lemma recon_other:
  assumes "i \<noteq> j"
  shows "row_of i (snd (startReconciliation ck env j rows)) = row_of i rows"
proof -
  have "row_of i rows' = row_of i rows" if b: "recon_body ck env j rows = (r, rows')" for r rows'
  proof (cases "row_of j rows")
    case (Some s)
    from row_of_SomeD [OF Some] assms have n: "i \<noteq> gw_id s" by simp
    show ?thesis using b Some assms
      by (auto simp: recon_body_def Let_def split: recon_move.splits prod.splits sum.splits
          dest!: recon_begin_other [OF _ n] recon_store_other [OF _ n] recon_finish_other [OF _ n])
  qed (use b in \<open>simp add: recon_body_def\<close>)
  then show ?thesis using assms by (auto simp: startReconciliation_def split: prod.split sum.split)
qed

lemma commit_other:
  assumes "i \<noteq> j"
  shows "row_of i (gs_rows (snd (commitToInternalLedger c ck env j src st))) = row_of i (gs_rows st)"
proof -
  have claim: "row_of i rows' = row_of i rows" if "commit_claim ck env s rows = (r, rows')" "i \<noteq> gw_id s" for s r rows rows'
    using that by (auto simp: commit_claim_def split: option.splits)
  have finish: "row_of i rows' = row_of i rows" if "commit_finish ck env s md rows = (r, rows')" "i \<noteq> gw_id s" for s md r rows rows'
    using that by (auto simp: commit_finish_def split: option.splits)
  have settle: "row_of i (gs_rows st') = row_of i (gs_rows st)" if "commit_settle c ck env src s st = (r, st')" "i \<noteq> gw_id s" for s r st st'
    using that commit_post_rows by (auto simp: commit_settle_def split: prod.splits sum.splits dest!: finish [OF _ that(2)])
  have "row_of i (gs_rows st') = row_of i (gs_rows st)" if b: "commit_body c ck env j src st = (r, st')" for r st'
  proof (cases "row_of j (gs_rows st)")
    case (Some s)
    from row_of_SomeD [OF Some] assms have n: "i \<noteq> gw_id s" by simp
    show ?thesis using b Some
      by (auto simp: commit_body_def split: option.splits prod.splits sum.splits if_splits dest!: claim [OF _ n] settle [OF _ n])
  qed (use b in \<open>simp add: commit_body_def\<close>)
  then show ?thesis using assms by (auto simp: commitToInternalLedger_def commit_failed_def split: prod.split sum.split)
qed

lemma auto_settle_other: "i \<noteq> j \<Longrightarrow> row_of i (gs_rows (auto_settle_one c ck env j st)) = row_of i (gs_rows st)"
  using recon_other [of i j ck "fst (env j)" "gs_rows st"]
  by (auto simp: auto_settle_one_def Let_def commit_other split: prod.splits sum.splits)

lemma fold_keeps_row:
  "(\<And>x st. x \<in> set xs \<Longrightarrow> row_of i (gs_rows (f x st)) = row_of i (gs_rows st)) \<Longrightarrow> row_of i (gs_rows (fold f xs st)) = row_of i (gs_rows st)"
  by (induction xs arbitrary: st) simp_all

lemma unique_row: "row_of i rows = Some s \<Longrightarrow> r \<in> set rows \<Longrightarrow> gw_id r = i \<Longrightarrow> r = s"
proof -
  assume a: "row_of i rows = Some s" "r \<in> set rows" "gw_id r = i"
  then have "r \<in> set (sel (\<lambda>r. gw_id r = i) rows)" by (simp add: set_sel)
  with single_SomeD [OF a(1) [unfolded row_of_def]] show "r = s" by simp
qed

text \<open>A row that none of the selections of a round picks is left as it is.\<close>

definition idle_row :: "gw_row \<Rightarrow> bool" where
  "idle_row s \<longleftrightarrow> gw_phase s \<noteq> Reconciliation_Running \<and> \<not> retry_candidate s \<and> (gw_phase s = External_Pending \<longrightarrow> gw_auto_executed s \<noteq> None)"

lemma early_stages_keep:
  assumes "row_of i (gs_rows st) = Some s" "gw_phase s \<noteq> Reconciliation_Running"
    and "gw_phase s = External_Pending \<longrightarrow> gw_auto_executed s \<noteq> None" "before_retry c ck env f1 f2 st = (r, d)"
  shows "row_of i (gs_rows d) = Some s"
proof -
  let ?a = "processAutoSettleTimeouts c ck env st"
  have a: "row_of i (gs_rows ?a) = Some s"
    unfolding processAutoSettleTimeouts_def assms(1) [symmetric]
  proof (rule fold_keeps_row)
    fix j st' assume "j \<in> set (ids_where (auto_due (ck_now ck)) st)"
    with unique_row [OF assms(1)] assms(3) have "i \<noteq> j" by (auto simp: ids_where_def sel_def auto_due_def)
    then show "row_of i (gs_rows (auto_settle_one c ck env j st')) = row_of i (gs_rows st')" by (rule auto_settle_other)
  qed
  have "row_of i (gs_rows (processStuckReconciliations ck ?a)) = Some s"
    unfolding processStuckReconciliations_def a [symmetric]
  proof (rule fold_keeps_row)
    fix x st' assume "x \<in> set (sel (recon_stuck (ck_now ck)) (gs_rows ?a))"
    with unique_row [OF a] assms(2) have "i \<noteq> gw_id x" by (auto simp: sel_def recon_stuck_def)
    then show "row_of i (gs_rows (reap_reconciliation ck x st')) = row_of i (gs_rows st')" by (simp add: reap_reconciliation_def)
  qed
  with assms(4) stages_retry(3) [of ck f1 f2 "processStuckReconciliations ck ?a"] show ?thesis by (simp add: before_retry_def)
qed

lemma round_split: "before_retry c ck env f1 f2 st = (r, d) \<Longrightarrow>
    snd (processSettlements c ck env f1 f2 st) = (if isl r then d else retryFailedSettlements ck d)"
  by (cases r) (simp_all add: before_retry_def processSettlements_def)

lemma retry_other: "row_of i rows = Some s \<Longrightarrow> x \<in> set xs \<Longrightarrow> i \<notin> gw_id ` set xs \<Longrightarrow>
    row_of i (gs_rows (retry_one ck x st)) = row_of i (gs_rows st)"
  by (auto simp: retry_one_def requeued_def image_iff)

lemma round_idle:
  assumes "row_of i (gs_rows st) = Some s" "idle_row s"
  shows "row_of i (gs_rows (snd (processSettlements c ck env f1 f2 st))) = Some s"
proof -
  obtain r d where b: "before_retry c ck env f1 f2 st = (r, d)" by fastforce
  have d: "row_of i (gs_rows d) = Some s"
    by (rule early_stages_keep [OF assms(1) _ _ b]) (use assms(2) in \<open>simp_all add: idle_row_def\<close>)
  have "i \<notin> gw_id ` set (sel retry_candidate (gs_rows d))"
    using unique_row [OF d] assms(2) by (auto simp: sel_def idle_row_def)
  then have "row_of i (gs_rows (retryFailedSettlements ck d)) = Some s"
    unfolding retryFailedSettlements_def d [symmetric] by (rule_tac fold_keeps_row) (rule retry_other [OF d])
  with d show ?thesis by (simp add: round_split [OF b])
qed

lemma rounds_idle: "row_of i (gs_rows st) = Some s \<Longrightarrow> idle_row s \<Longrightarrow> row_of i (gs_rows (run_rounds c ts st)) = Some s"
proof (induction ts arbitrary: st)
  case (Cons t ts)
  obtain ck env f1 f2 where t: "t = (ck, env, f1, f2)" by (cases t) auto
  from Cons.IH [OF round_idle [OF Cons.prems] Cons.prems(2)] show ?case by (simp add: t)
qed simp

lemma round_requeues_row:
  assumes "row_of i (gs_rows st) = Some s" "retry_candidate s" "retry_due (ck_now ck) s"
  shows "row_of i (gs_rows (snd (processSettlements c ck env None None st))) = Some ((requeued ck s s)\<lparr>gw_updated := ck_now ck\<rparr>)"
proof -
  obtain r d where b: "before_retry c ck env None None st = (r, d)" by fastforce
  then have r: "\<not> isl r" by (auto simp: before_retry_def processStuckExternalMovements_def)
  have d: "row_of i (gs_rows d) = Some s"
    by (rule early_stages_keep [OF assms(1) _ _ b]) (use assms(2) in \<open>simp_all add: retry_candidate_def\<close>)
  let ?xs = "sel retry_candidate (gs_rows d)"
  from row_of_SomeD [OF d] have i: "gw_id s = i" and s: "s \<in> set (gs_rows d)" by simp_all
  with assms(2) have "s \<in> set ?xs" by (simp add: sel_def)
  then obtain ys zs where xs: "?xs = ys @ s # zs" by (meson split_list)
  have "filter (\<lambda>r. gw_id r = i) ?xs = filter retry_candidate (sel (\<lambda>r. gw_id r = i) (gs_rows d))"
    by (simp add: sel_def conj_commute)
  also have "\<dots> = [s]" using single_SomeD [OF d [unfolded row_of_def]] assms(2) by simp
  finally have "filter (\<lambda>r. gw_id r = i) ys = [] \<and> filter (\<lambda>r. gw_id r = i) zs = []"
    using i by (cases "filter (\<lambda>r. gw_id r = i) ys") (simp_all add: xs)
  then have n: "i \<notin> gw_id ` set ys" "i \<notin> gw_id ` set zs" by (auto simp: filter_empty_conv)
  let ?d1 = "fold (retry_one ck) ys d"
  have 1: "row_of i (gs_rows ?d1) = Some s"
    unfolding d [symmetric] by (rule fold_keeps_row) (rule retry_other [OF d _ n(1)])
  have 2: "row_of i (gs_rows (retry_one ck s ?d1)) = Some ((requeued ck s s)\<lparr>gw_updated := ck_now ck\<rparr>)"
    using 1 assms(3) i by (simp add: retry_one_def row_of_upd requeued_def)
  have "row_of i (gs_rows (fold (retry_one ck) zs (retry_one ck s ?d1))) = row_of i (gs_rows (retry_one ck s ?d1))"
    by (rule fold_keeps_row) (rule retry_other [OF d _ n(2)])
  with 2 r show ?thesis by (simp add: round_split [OF b] retryFailedSettlements_def xs)
qed

text \<open>Requeueing does not bring a settlement back once its automatic attempt has run: the round in
  which its retry is due makes it pending again and counts the retry, but keeps its execution
  time, and from then on no number of rounds, whatever they meet, ever changes its row again.\<close>

theorem requeued_is_stranded:
  assumes "row_of i (gs_rows st) = Some s" and "gw_phase s = Settlement_Failed" and "gw_auto_executed s \<noteq> None"
    and "gw_retry s < 3" and "retry_due (ck_now ck) s"
  shows "\<exists>r. gw_phase r = External_Pending \<and> gw_retry r = gw_retry s + 1 \<and>
    row_of i (gs_rows (run_rounds c ((ck, env, None, None) # ts) st)) = Some r \<and>
    row_of i (gs_rows (snd (processSettlements c ck env None None st))) = Some r"
proof -
  let ?r = "(requeued ck s s)\<lparr>gw_updated := ck_now ck\<rparr>"
  have "retry_candidate s" using assms(2,4) by (simp add: retry_candidate_def)
  note q = round_requeues_row [OF assms(1) this assms(5), of c env]
  have "idle_row ?r" using assms(3) by (simp add: idle_row_def requeued_def retry_candidate_def)
  from rounds_idle [OF q this, of c ts] q show ?thesis by (intro exI [of _ ?r]) (simp add: requeued_def)
qed

text \<open>The witness: an attempt without a provider proof fails; its retry is due a minute later.\<close>

definition unproved_gateway :: gateway where
  "unproved_gateway = (sample_gateway External_Pending)\<lparr>gs_rows := [(sample_settlement External_Pending)\<lparr>gw_metadata := Map.empty\<rparr>]\<rparr>"

theorem requeued_is_stranded_witness:
  "\<exists>s r. row_of ''g1'' (gs_rows (processAutoSettleTimeouts toy_crypto sample_clock (\<lambda>_. (sample_recon_env, sample_commit_env None)) unproved_gateway)) = Some s \<and>
     gw_phase s = Settlement_Failed \<and> gw_phase r = External_Pending \<and>
     row_of ''g1'' (gs_rows (run_rounds toy_crypto
       [(sample_clock\<lparr>ck_now := 70000\<rparr>, (\<lambda>_. (sample_recon_env, sample_commit_env None)), None, None),
        (sample_clock\<lparr>ck_now := 700000\<rparr>, (\<lambda>_. (sample_recon_env, sample_commit_env None)), None, None)]
       (processAutoSettleTimeouts toy_crypto sample_clock (\<lambda>_. (sample_recon_env, sample_commit_env None)) unproved_gateway))) = Some r"
proof -
  let ?env = "\<lambda>i :: string. (sample_recon_env, sample_commit_env None)"
  have e: "map_option (\<lambda>s. (gw_phase s, gw_auto_executed s, gw_retry s, failed_at s))
      (row_of ''g1'' (gs_rows (processAutoSettleTimeouts c sample_clock ?env unproved_gateway))) = Some (Settlement_Failed, Some 1000, 0, 1000)" for c
    by code_simp
  then obtain s where s: "row_of ''g1'' (gs_rows (processAutoSettleTimeouts toy_crypto sample_clock ?env unproved_gateway)) = Some s"
    "gw_phase s = Settlement_Failed" "gw_auto_executed s = Some 1000" "gw_retry s = 0" "failed_at s = 1000"
    using e [of toy_crypto] by auto
  have "retry_due (ck_now (sample_clock\<lparr>ck_now := 70000\<rparr>)) s" by (simp add: retry_due_def s(4,5) backoff_minutes_def)
  from requeued_is_stranded [OF s(1,2) _ _ this, of toy_crypto ?env "[(sample_clock\<lparr>ck_now := 700000\<rparr>, ?env, None, None)]"] s
  show ?thesis by auto
qed

end
