(* ===== verification/Reconciliation.thy ===== *)
theory Reconciliation
  imports Reversal_Properties
begin

text \<open>
  The reconciliation engine (\<open>backend/ledger/reconciliationEngine.ts\<close>) over the ledger service:
  the audit of all wallets, the zero-sum check of a transaction and the timeline audit of a
  wallet. Over a ledger that only the service wrote, all three find nothing.
\<close>

section \<open>The checks\<close>

record discrepancy =
  ds_wallet :: string
  ds_stored :: rat
  ds_ledger :: rat
  ds_diff :: rat

text \<open>\<open>rows\<close> are the ids and balances of the wallets as the query returned them.\<close>

fun audit_wallets :: "crypto \<Rightarrow> js_error option \<Rightarrow> world \<Rightarrow> (string \<times> rat) list \<Rightarrow> discrepancy list outcome" where
  "audit_wallets c fault w [] = Inr []"
| "audit_wallets c fault w ((k, stored) # rest) =
     bind_outcome (calculateBalanceFromLedger c fault w k) (\<lambda>b.
     bind_outcome (audit_wallets c fault w rest) (\<lambda>ds.
       Inr (if 1 / 100 < \<bar>b - stored\<bar>
            then \<lparr>ds_wallet = k, ds_stored = stored, ds_ledger = b, ds_diff = stored - b\<rparr> # ds else ds)))"

definition runFullAudit :: "crypto \<Rightarrow> js_error option \<Rightarrow> world \<Rightarrow> (string \<times> rat) list \<Rightarrow> (nat \<times> discrepancy list) outcome" where
  "runFullAudit c fault w rows = map_sum id (Pair (length rows)) (audit_wallets c fault w rows)"

text \<open>An error of the query or of one decryption yields no entries at all.\<close>

fun entry_views :: "crypto \<Rightarrow> kms \<Rightarrow> ledger_row list \<Rightarrow> (string \<times> rat \<times> rat) list outcome" where
  "entry_views c k [] = Inr []"
| "entry_views c k (r # rs) =
     bind_outcome (decryptAmount c k (Some (JStr (lr_amount r))) 0) (\<lambda>a.
     bind_outcome (entry_views c k rs) (\<lambda>vs. Inr ((lr_type r, a, lr_balance_after r) # vs)))"

definition getLedgerEntries :: "crypto \<Rightarrow> js_error option \<Rightarrow> world \<Rightarrow> string \<Rightarrow> (string \<times> rat \<times> rat) list" where
  "getLedgerEntries c fault w i = (case fault of Some e \<Rightarrow> []
     | None \<Rightarrow> (case entry_views c (w_kms w) (tx_legs w i) of Inl e \<Rightarrow> [] | Inr vs \<Rightarrow> vs))"

definition view_sum :: "(string \<times> rat \<times> rat) list \<Rightarrow> rat" where
  "view_sum vs = foldl (\<lambda>s (ty, a, after). if ty = ''CREDIT'' then s + a else s - a) 0 vs"

definition verifyZeroSum :: "crypto \<Rightarrow> js_error option \<Rightarrow> world \<Rightarrow> string \<Rightarrow> bool \<times> rat" where
  "verifyZeroSum c fault w i = (let s = view_sum (getLedgerEntries c fault w i) in (\<bar>s\<bar> < 1 / 10000, s))"

record timeline_error =
  te_index :: nat
  te_tx :: string
  te_expected :: rat
  te_actual :: rat

fun audit_rows :: "crypto \<Rightarrow> kms \<Rightarrow> nat \<Rightarrow> rat \<Rightarrow> ledger_row list \<Rightarrow> timeline_error list outcome" where
  "audit_rows c k n b [] = Inr []"
| "audit_rows c k n b (r # rs) =
     bind_outcome (decryptAmount c k (Some (JStr (lr_amount r))) 0) (\<lambda>a.
       let b' = (if lr_type r = ''CREDIT'' then b + a else b - a) in
       bind_outcome (audit_rows c k (Suc n) b' rs) (\<lambda>es.
         Inr (if 1 / 100 < \<bar>b' - lr_balance_after r\<bar>
              then \<lparr>te_index = n, te_tx = lr_tx r, te_expected = b', te_actual = lr_balance_after r\<rparr> # es else es)))"

definition auditWalletTimeline :: "crypto \<Rightarrow> js_error option \<Rightarrow> world \<Rightarrow> string \<Rightarrow> (bool \<times> timeline_error list) outcome" where
  "auditWalletTimeline c fault w k = (case fault of
       Some e \<Rightarrow> Inr (True, [])
     | None \<Rightarrow> map_sum id (\<lambda>es. (es = [], es))
         (audit_rows c (w_kms w) 0 0 (sel (\<lambda>r. lr_wallet r = k) (st_ledger (w_store w)))))"

section \<open>What they find\<close>

lemma audit_wallets_clean:
  assumes "agrees T c (w_kms w) (w_store w)" "\<forall>(k, b) \<in> set rows. balance_of (w_store w) k = b"
  shows "audit_wallets c None w rows = Inr []"
  using assms(2)
proof (induction rows)
  case (Cons x rows)
  obtain k b where x: "x = (k, b)" by fastforce
  from Cons.prems x have "balance_of (w_store w) k = b" by simp
  with assms(1) have "calculateBalanceFromLedger c None w k = Inr b"
    by (auto simp: calculateBalanceFromLedger_def agrees_def round4_exact)
  with Cons x show ?case by simp
qed simp

lemma entry_views_error:
  "list_ex (\<lambda>r. isl (decryptAmount c k (Some (JStr (lr_amount r))) 0)) rs \<Longrightarrow> \<exists>e. entry_views c k rs = Inl e"
  by (induction rs) (auto simp: bind_outcome_def isl_def split: sum.splits)

lemma entry_views_sum:
  assumes "list_all (readable_row c k) rs"
  shows "\<exists>vs. entry_views c k rs = Inr vs \<and> (\<forall>s. foldl (\<lambda>s (ty, a, after). if ty = ''CREDIT'' then s + a else s - a) s vs = s + (\<Sum>r\<leftarrow>rs. row_value c k r))"
  using assms
proof (induction rs)
  case (Cons r rs)
  then obtain vs a where "entry_views c k rs = Inr vs" "decryptAmount c k (Some (JStr (lr_amount r))) 0 = Inr a"
    and f: "\<forall>s. foldl (\<lambda>s (ty, a, after). if ty = ''CREDIT'' then s + a else s - a) s vs = s + (\<Sum>r\<leftarrow>rs. row_value c k r)"
    by (auto simp: readable_row_def)
  moreover have "row_value c k r = (if lr_type r = ''CREDIT'' then a else - a)"
    using Cons.prems \<open>decryptAmount c k (Some (JStr (lr_amount r))) 0 = Inr a\<close>
    by (auto simp: row_value_def readable_row_def leg_side_def text_or_def sides side_sign_def)
  ultimately show ?case by auto
qed simp

lemma tx_sum_legs_of: "(\<Sum>r\<leftarrow>sel (\<lambda>r. lr_tx r = t) rs. row_value c k r) = tx_sum c k t rs"
  by (induction rs) auto

lemma zero_sum_of_agrees:
  assumes "agrees T c (w_kms w) (w_store w)" "t \<in> T"
  shows "verifyZeroSum c None w t = (True, 0)"
proof -
  have "list_all (readable_row c (w_kms w)) (tx_legs w t)"
    using assms(1) by (auto simp: agrees_def tx_legs_def list_all_iff row_simps)
  from entry_views_sum [OF this] obtain vs where vs: "entry_views c (w_kms w) (tx_legs w t) = Inr vs"
    "view_sum vs = (\<Sum>r\<leftarrow>tx_legs w t. row_value c (w_kms w) r)" by (auto simp: view_sum_def)
  have "(\<Sum>r\<leftarrow>tx_legs w t. row_value c (w_kms w) r) = 0"
    using assms by (simp add: tx_legs_def tx_sum_legs_of agrees_def)
  with vs show ?thesis by (simp add: verifyZeroSum_def getLedgerEntries_def Let_def)
qed

lemma audit_rows_clean:
  "list_all (readable_row c k) rs \<Longrightarrow> timeline c k b rs \<Longrightarrow> audit_rows c k n b rs = Inr []"
proof (induction rs arbitrary: b n)
  case (Cons r rs)
  then obtain a where a: "decryptAmount c k (Some (JStr (lr_amount r))) 0 = Inr a" by (auto simp: readable_row_def)
  moreover have "row_value c k r = (if lr_type r = ''CREDIT'' then a else - a)"
    using Cons.prems a by (auto simp: row_value_def readable_row_def leg_side_def text_or_def sides side_sign_def)
  moreover have "audit_rows c k (Suc n) (b + row_value c k r) rs = Inr []"
    using Cons by simp
  ultimately show ?case using Cons.prems(2) by (auto simp: Let_def)
qed simp

lemma timeline_clean:
  assumes "agrees T c (w_kms w) (w_store w)"
  shows "auditWalletTimeline c None w i = Inr (True, [])"
proof -
  have "list_all (readable_row c (w_kms w)) (sel (\<lambda>r. lr_wallet r = i) (st_ledger (w_store w)))"
    "timeline c (w_kms w) 0 (sel (\<lambda>r. lr_wallet r = i) (st_ledger (w_store w)))"
    using assms by (auto simp: agrees_def list_all_iff row_simps)
  from audit_rows_clean [OF this] show ?thesis by (simp add: auditWalletTimeline_def)
qed



text \<open>The zero-sum check fails open: a transaction with one row whose amount does not decrypt, or
  whose rows cannot be fetched, is reported valid with sum zero.\<close>

theorem zero_sum_fails_open:
  assumes "fault \<noteq> None \<or> list_ex (\<lambda>r. isl (decryptAmount c (w_kms w) (Some (JStr (lr_amount r))) 0)) (tx_legs w i)"
  shows "verifyZeroSum c fault w i = (True, 0)"
proof -
  have "getLedgerEntries c fault w i = []"
    using assms entry_views_error [of c "w_kms w" "tx_legs w i"] by (cases fault) (auto simp: getLedgerEntries_def)
  then show ?thesis by (simp add: verifyZeroSum_def view_sum_def)
qed

theorem zero_sum_fails_open_witness:
  "verifyZeroSum toy_crypto None
     ((sample_world ''completed'')\<lparr>w_store := (sample_store ''completed'')\<lparr>st_ledger := [sample_row ''t1'' ''a'' ''DEBIT'' ''x'' 70]\<rparr>\<rparr>) ''t1'' = (True, 0)"
proof -
  have "isl (decryptAmount c k (Some (JStr ''x'')) 0)" for c k by code_simp
  then show ?thesis by (intro zero_sum_fails_open) (simp add: tx_legs_def sample_row_def)
qed

end
