(* ===== verification/Internal_Settlement.thy ===== *)
theory Internal_Settlement
  imports Reconciliation
begin

text \<open>
  The settlement of an internal transfer (\<open>completeSettlement\<close> of
  \<open>backend/ledger/transactionEngine.ts\<close>) with the two stored procedures that claim and finalise it
  (\<open>database/main.sql\<close>). The release from the PaySafe vault is appended under a fixed key, so
  that repeated and concurrent attempts move the money once.
\<close>

section \<open>Claiming and finalising\<close>

record claim =
  cl_append_applied :: bool
  cl_completed :: bool
  cl_append_key :: string
  cl_append_phase :: string
  cl_worker_claim :: string
  cl_tx_status :: string

definition lifecycle_of :: "string \<Rightarrow> lifecycle list \<Rightarrow> lifecycle option" where
  "lifecycle_of k ls = single (sel (\<lambda>l. lc_key l = k) ls)"

definition update_lifecycle :: "string \<Rightarrow> (lifecycle \<Rightarrow> lifecycle) \<Rightarrow> world \<Rightarrow> world" where
  "update_lifecycle k f w = w\<lparr>w_lifecycles := upd (\<lambda>l. lc_key l = k) f (w_lifecycles w)\<rparr>"

definition settlement_done :: "tx_row \<Rightarrow> lifecycle \<Rightarrow> bool" where
  "settlement_done tx l \<longleftrightarrow> js_lower (tx_status tx) = ''completed'' \<or> lc_status l = ''COMPLETED'' \<or> lc_stage l = ''SETTLED''"

definition settled_lifecycle :: "lifecycle \<Rightarrow> lifecycle" where
  "settled_lifecycle l = l\<lparr>lc_stage := ''SETTLED'', lc_status := ''COMPLETED''\<rparr>"

definition release_applied :: "world \<Rightarrow> string \<Rightarrow> bool" where
  "release_applied w i \<longleftrightarrow> marker_clash (w_store w) i (Some (buildInternalTransferSettlementAppendKey i))
     (Some internalTransferSettlementAppendPhase)"

definition with_lifecycle :: "string \<Rightarrow> world \<Rightarrow> world" where
  "with_lifecycle k w = (if lifecycle_of k (w_lifecycles w) \<noteq> None then w
     else w\<lparr>w_lifecycles := w_lifecycles w @ [\<lparr>lc_key = k, lc_stage = ''INITIATED'', lc_status = ''ACTIVE'', lc_claim = None,
       lc_processing_at = None, lc_error = None\<rparr>]\<rparr>)"

definition claim_internal_transfer_settlement :: "int \<Rightarrow> string \<Rightarrow> string \<Rightarrow> string \<Rightarrow> world \<Rightarrow> (claim \<times> world) outcome" where
  "claim_internal_transfer_settlement now i worker claimId w =
     (let k = buildInternalTransferSettlementLifecycleKey i; akey = buildInternalTransferSettlementAppendKey i;
          phase = internalTransferSettlementAppendPhase; w1 = with_lifecycle k w in
      if sql_btrim worker = [] then throw ''WORKER_ID_REQUIRED: claim_internal_transfer_settlement requires a worker identifier''
      else case find_tx w i of
          None \<Rightarrow> throw (''INVALID_SETTLEMENT_STATE: Transaction '' @ i @ '' was not found for settlement claim'')
        | Some tx \<Rightarrow>
            (case lifecycle_of k (w_lifecycles w1) of
               None \<Rightarrow> throw (''INVALID_SETTLEMENT_STATE: '' @ i)
             | Some l \<Rightarrow>
                 (if settlement_done tx l then
                    Inr (\<lparr>cl_append_applied = release_applied w i, cl_completed = True, cl_append_key = akey, cl_append_phase = phase,
                          cl_worker_claim = (case lc_claim l of None \<Rightarrow> claimId | Some x \<Rightarrow> x), cl_tx_status = tx_status tx\<rparr>,
                         update_lifecycle k settled_lifecycle w1)
                  else if js_lower (tx_status tx) \<noteq> ''processing'' then
                    throw (''INVALID_SETTLEMENT_STATE: Transaction '' @ i @ '' is '' @ tx_status tx @ '', expected processing under settlement lock'')
                  else if lc_stage l = ''PROCESSING'' \<and> (case lc_claim l of None \<Rightarrow> False | Some x \<Rightarrow> x \<noteq> [] \<and> x \<noteq> claimId) \<and>
                      (case lc_processing_at l of None \<Rightarrow> False | Some t \<Rightarrow> now - internalTransferSettlementClaimTtlMs < t) then
                    throw (''CONCURRENCY_CONFLICT: Settlement '' @ i @ '' is already claimed by another worker'')
                  else
                    Inr (\<lparr>cl_append_applied = release_applied w i, cl_completed = False, cl_append_key = akey, cl_append_phase = phase,
                          cl_worker_claim = claimId, cl_tx_status = tx_status tx\<rparr>,
                         update_lifecycle k (\<lambda>l. l\<lparr>lc_stage := ''PROCESSING'', lc_status := ''ACTIVE'', lc_claim := Some claimId,
                           lc_processing_at := Some now, lc_error := None\<rparr>) w1))))"

record completion =
  cp_previous :: string
  cp_final :: string
  cp_already :: bool

definition complete_internal_transfer_settlement ::
    "int \<Rightarrow> string \<Rightarrow> string \<Rightarrow> string \<Rightarrow> string \<Rightarrow> bool \<Rightarrow> world \<Rightarrow> (completion \<times> world) outcome" where
  "complete_internal_transfer_settlement now i claimId result0 note zero_sum w =
     (let k = buildInternalTransferSettlementLifecycleKey i;
          result1 = (if sql_btrim result0 = [] then ''COMPLETED'' else js_upper (sql_btrim result0));
          result = (if result1 = ''COMPLETED'' \<and> \<not> zero_sum then ''HELD_FOR_REVIEW'' else result1) in
      if sql_btrim claimId = [] then
        throw ''WORKER_CLAIM_REQUIRED: complete_internal_transfer_settlement requires the active worker claim id''
      else case find_tx w i of
          None \<Rightarrow> throw (''INVALID_SETTLEMENT_STATE: Transaction '' @ i @ '' was not found for settlement completion'')
        | Some tx \<Rightarrow>
            (case lifecycle_of k (w_lifecycles w) of
               None \<Rightarrow> throw (''INVALID_SETTLEMENT_STATE: Settlement lifecycle '' @ k @ '' was not found'')
             | Some l \<Rightarrow>
                 (if settlement_done tx l then
                    Inr (\<lparr>cp_previous = tx_status tx, cp_final = ''completed'', cp_already = True\<rparr>, update_lifecycle k settled_lifecycle w)
                  else if text_or (lc_claim l) [] \<noteq> claimId then
                    throw (''CONCURRENCY_CONFLICT: Settlement '' @ i @ '' completion attempted with stale worker claim'')
                  else if lc_stage l \<noteq> ''PROCESSING'' then
                    throw (''INVALID_SETTLEMENT_STATE: Settlement '' @ i @ '' is '' @ lc_stage l @ '', expected PROCESSING before completion'')
                  else if result = ''COMPLETED'' then
                    (if js_lower (tx_status tx) \<noteq> ''processing'' then
                       throw (''INVALID_SETTLEMENT_STATE: Transaction '' @ i @ '' is '' @ tx_status tx @ '', expected processing before settlement completion'')
                     else Inr (\<lparr>cp_previous = tx_status tx, cp_final = ''completed'', cp_already = False\<rparr>,
                       update_lifecycle k (\<lambda>l. (settled_lifecycle l)\<lparr>lc_error := None\<rparr>)
                         (update_tx i (\<lambda>t. t\<lparr>tx_status := ''completed'', tx_notes := Some (text_or (nonblank (Some note))
                            ''Settlement finalized by processor.''), tx_updated := now\<rparr>) w)))
                  else if result = ''HELD_FOR_REVIEW'' then
                    Inr (\<lparr>cp_previous = tx_status tx, cp_final = ''held_for_review'', cp_already = False\<rparr>,
                      update_lifecycle k (\<lambda>l. l\<lparr>lc_stage := ''FAILED'', lc_status := ''FAILED'',
                          lc_error := Some (text_or (nonblank (Some note)) ''HELD_FOR_REVIEW'')\<rparr>)
                        (if js_lower (tx_status tx) = ''processing'' then
                           update_tx i (\<lambda>t. t\<lparr>tx_status := ''held_for_review'', tx_notes := Some (text_or (nonblank (Some note))
                             ''Settlement moved to held_for_review.''), tx_updated := now\<rparr>) w else w))
                  else throw (''INVALID_SETTLEMENT_STATE: Unsupported settlement completion result '' @ result))))"

section \<open>The settlement\<close>

definition rpc_call :: "rpc_fault \<Rightarrow> (world \<Rightarrow> ('a \<times> world) outcome) \<Rightarrow> world \<Rightarrow> 'a action" where
  "rpc_call f proc w =
     (case f of
        Rpc_Lost e \<Rightarrow> (Inl e, w)
      | Rpc_Ok \<Rightarrow> (case proc w of Inl e \<Rightarrow> (Inl e, w) | Inr (a, w') \<Rightarrow> (Inr a, w'))
      | Rpc_Late e \<Rightarrow> (case proc w of Inl x \<Rightarrow> (Inl x, w) | Inr (a, w') \<Rightarrow> (Inl e, w')))"

text \<open>What one attempt meets: its ids, the faults of its three calls and of the ledger queries.\<close>

record settle_env =
  sv_worker :: string
  sv_claim_id :: string
  sv_claim_rpc :: rpc_fault
  sv_append_rpc :: rpc_fault
  sv_final_rpc :: rpc_fault
  sv_zero_fault :: "js_error option"
  sv_balance_fault :: "js_error option"

definition claimInternalTransferSettlement :: "clock \<Rightarrow> settle_env \<Rightarrow> string \<Rightarrow> world \<Rightarrow> claim action" where
  "claimInternalTransferSettlement ck env i w =
     (case rpc_call (sv_claim_rpc env) (claim_internal_transfer_settlement (ck_now ck) i (sv_worker env) (sv_claim_id env)) w of
        (Inl e, w') \<Rightarrow> (Inl (normalizeFinancialAuthorityError (thrown_of e) ''SETTLEMENT_CLAIM''), w')
      | (Inr a, w') \<Rightarrow> (Inr a, w'))"

definition finalizeInternalTransferSettlement ::
    "clock \<Rightarrow> settle_env \<Rightarrow> string \<Rightarrow> string \<Rightarrow> string \<Rightarrow> string \<Rightarrow> bool \<Rightarrow> world \<Rightarrow> completion action" where
  "finalizeInternalTransferSettlement ck env i claimId result note zero_sum w =
     (case rpc_call (sv_final_rpc env) (complete_internal_transfer_settlement (ck_now ck) i claimId result note zero_sum) w of
        (Inl e, w') \<Rightarrow> (Inl (normalizeFinancialAuthorityError (thrown_of e) ''SETTLEMENT_FINALIZE''), w')
      | (Inr a, w') \<Rightarrow> (Inr a, w'))"

definition md_object :: "metadata \<Rightarrow> string \<Rightarrow> metadata" where
  "md_object md k = (case md k of Some (JObj kvs) \<Rightarrow> map_of kvs | _ \<Rightarrow> Map.empty)"

text \<open>\<open>metadata.fx_details.finalAmount || amount\<close> as the number the leg carries.\<close>

definition target_amount :: "tx_row \<Rightarrow> rat \<Rightarrow> rat option" where
  "target_amount tx a = (let fx = md_object (tx_metadata tx) ''fx_details'' in
     if md_has fx ''finalAmount'' then js_number (the (fx ''finalAmount'')) else Some a)"

definition release_legs :: "tx_row \<Rightarrow> string \<Rightarrow> string \<Rightarrow> rat \<Rightarrow> ledger_entry list" where
  "release_legs tx vault target a =
     (let cur = (if md_has (tx_metadata tx) ''target_currency'' then Some (md_text (tx_metadata tx) ''target_currency'') else tx_currency tx);
          leg = (\<lambda>k ty d. \<lparr>le_wallet = Some k, le_user = None, le_type = ty, le_amount = target_amount tx a,
                   le_currency = cur, le_description = Some (d @ tx_id tx)\<rparr>) in
      [leg vault ''DEBIT'' ''PaySafe Release: '', leg target ''CREDIT'' ''PaySafe Settlement: ''])"

definition emitSettlementStatusEffects ::
    "crypto \<Rightarrow> settle_env \<Rightarrow> string \<Rightarrow> tx_row \<Rightarrow> string \<Rightarrow> string \<Rightarrow> world \<Rightarrow> unit action" where
  "emitSettlementStatusEffects c env i tx prev final w =
     (let w1 = log_event i (Some (text_or (Some prev) (tx_status tx))) final ''settlement_worker'' w in
      if final \<noteq> ''completed'' then (Inr (), w1)
      else case transition i (text_or (Some prev) ''processing'') ''completed'' of
          Inl e \<Rightarrow> (Inl e, w1)
        | Inr ev \<Rightarrow>
            (case (truthy_text (tx_user tx), truthy_text (tx_wallet tx)) of
               (Some u, Some k) \<Rightarrow> (case calculateBalanceFromLedger c (sv_balance_fault env) w1 k of Inl e \<Rightarrow> (Inl e, w1) | Inr b \<Rightarrow> (Inr (), w1))
             | _ \<Rightarrow> (Inr (), w1)))"

text \<open>
  The release: appended unless the claim saw its marker; an append that was already applied is no error.
\<close>

definition release :: "crypto \<Rightarrow> clock \<Rightarrow> settle_env \<Rightarrow> string \<Rightarrow> claim \<Rightarrow> ledger_entry list \<Rightarrow> world \<Rightarrow> unit action" where
  "release c ck env i cl legs w =
     (if cl_append_applied cl then (Inr (), w)
      else case addLedgerEntries c ck (sv_append_rpc env) i legs (Some (cl_append_key cl)) (Some (cl_append_phase cl)) w of
          (Inr u, w') \<Rightarrow> (Inr (), w')
        | (Inl e, w') \<Rightarrow>
            (let m = normalizeFinancialAuthorityError (thrown_of e) ''SETTLEMENT_APPEND'' in
             if js_starts_with (err_message m) ''IDEMPOTENCY_VIOLATION'' then (Inr (), w') else (Inl m, w')))"

text \<open>The zero-sum check decides between completion and review.\<close>

definition conclude :: "crypto \<Rightarrow> clock \<Rightarrow> settle_env \<Rightarrow> string \<Rightarrow> tx_row \<Rightarrow> claim \<Rightarrow> world \<Rightarrow> bool action" where
  "conclude c ck env i tx cl w =
     (case verifyZeroSum c (sv_zero_fault env) w i of (valid, s) \<Rightarrow>
        if \<not> valid then
          (case finalizeInternalTransferSettlement ck env i (cl_worker_claim cl) ''HELD_FOR_REVIEW''
                (''Zero-sum violation detected: '' @ num_text s) False w of
             (Inl e, w') \<Rightarrow> (Inl e, w') | (Inr cp, w') \<Rightarrow> (Inr False, w'))
        else
          (case finalizeInternalTransferSettlement ck env i (cl_worker_claim cl) ''COMPLETED'' ''Settlement finalized by processor.'' True w of
             (Inl e, w') \<Rightarrow> (Inl e, w')
           | (Inr cp, w') \<Rightarrow>
               (if cp_already cp then (Inr True, w')
                else case emitSettlementStatusEffects c env i tx
                    (text_or (Some (cp_previous cp)) (text_or (Some (cl_tx_status cl)) ''processing'')) ''completed'' w' of
                   (Inl e, w'') \<Rightarrow> (Inl e, w'') | (Inr u, w'') \<Rightarrow> (Inr True, w''))))"

text \<open>What is released: the legs, or the reason why there are none.\<close>

definition settlement_legs :: "crypto \<Rightarrow> world \<Rightarrow> string \<Rightarrow> tx_row \<Rightarrow> ledger_entry list outcome" where
  "settlement_legs c w i tx =
     bind_outcome (decryptAmount c (w_kms w) (Some (JStr (tx_amount tx))) 0) (\<lambda>a.
       let vault = Option.bind (tx_user tx) (w_transfer_vault w) in
       bind_outcome (assertSettlementEligible i True (Some (tx_status tx)) (Some (vault \<noteq> None))) (\<lambda>_.
         case vault of
           None \<Rightarrow> throw ''Cannot read properties of null''
         | Some v \<Rightarrow> (case truthy_text (tx_to_wallet tx) of
               None \<Rightarrow> throw ''SETTLEMENT_ERROR: Missing target wallet.''
             | Some target \<Rightarrow> Inr (release_legs tx v target a))))"

definition settle_body :: "crypto \<Rightarrow> clock \<Rightarrow> settle_env \<Rightarrow> string \<Rightarrow> tx_row option \<Rightarrow> world \<Rightarrow> bool action" where
  "settle_body c ck env i txData w =
     (let tx = (case txData of Some t \<Rightarrow> Some t | None \<Rightarrow> find_tx w i) in
      case claimInternalTransferSettlement ck env i w of
        (Inl e, w1) \<Rightarrow> (Inl e, w1)
      | (Inr cl, w1) \<Rightarrow>
          (if cl_completed cl then (Inr True, w1)
           else case bind_outcome (assertSettlementEligible i (tx \<noteq> None)
                  (Some (text_or (Some (cl_tx_status cl)) (case tx of None \<Rightarrow> [] | Some t \<Rightarrow> tx_status t))) None)
                  (\<lambda>_. settlement_legs c w1 i (the tx)) of
               Inl e \<Rightarrow> (Inl e, w1)
             | Inr legs \<Rightarrow>
                 (case release c ck env i cl legs w1 of
                    (Inl e, w2) \<Rightarrow> (Inl e, w2)
                  | (Inr u, w2) \<Rightarrow> conclude c ck env i (the tx) cl w2)))"

text \<open>Transient errors and invalid states are rethrown; any other error becomes \<open>false\<close>.\<close>

definition transient_settlement_error :: "string \<Rightarrow> bool" where
  "transient_settlement_error m \<longleftrightarrow> list_ex (js_includes m)
     [''CONCURRENCY_CONFLICT'', ''LEDGER_FAULT'', ''LEDGER_COMMIT_FAULT'', ''LEDGER_APPEND_FAULT'', ''timeout'', ''fetch failed'']"

definition completeSettlement :: "crypto \<Rightarrow> clock \<Rightarrow> settle_env \<Rightarrow> string \<Rightarrow> tx_row option \<Rightarrow> world \<Rightarrow> bool action" where
  "completeSettlement c ck env i txData w =
     (case settle_body c ck env i txData w of
        (Inr b, w') \<Rightarrow> (Inr b, w')
      | (Inl e, w') \<Rightarrow>
          (let m = normalizeFinancialAuthorityError (thrown_of e) ''SETTLEMENT'' in
           if transient_settlement_error (err_message m) \<or> js_starts_with (err_message m) ''INVALID_SETTLEMENT_STATE''
           then (Inl m, w') else (Inr False, w')))"

section \<open>The release happens at most once\<close>

text \<open>What a settlement leaves alone: the money, the markers, and of the transactions all but the status.\<close>

definition tx_core :: "tx_row \<Rightarrow> tx_row" where
  "tx_core t = t\<lparr>tx_status := [], tx_notes := None, tx_updated := 0\<rparr>"

definition same_money :: "world \<Rightarrow> world \<Rightarrow> bool" where
  "same_money w w' \<longleftrightarrow> w_kms w' = w_kms w \<and> w_transfer_vault w' = w_transfer_vault w \<and>
     map tx_core (st_txs (w_store w')) = map tx_core (st_txs (w_store w)) \<and>
     w_store w' = (w_store w)\<lparr>st_txs := st_txs (w_store w')\<rparr>"

lemma same_money_refl [simp]: "same_money w w"
  by (simp add: same_money_def)

lemma same_money_trans: "same_money w w1 \<Longrightarrow> same_money w1 w2 \<Longrightarrow> same_money w w2"
  unfolding same_money_def by (cases "w_store w"; cases "w_store w1"; cases "w_store w2") simp

lemma update_lifecycle_same [simp]: "same_money w (update_lifecycle k f w1) = same_money w w1"
  by (simp add: same_money_def update_lifecycle_def)

lemma with_lifecycle_same [simp]: "same_money w (with_lifecycle k w)"
  by (simp add: same_money_def with_lifecycle_def)

lemma update_tx_same: "(\<And>t. tx_core (f t) = tx_core t) \<Longrightarrow> same_money w (update_tx i f w)"
  by (simp add: same_money_def update_tx_def) (simp add: upd_def)

lemma log_event_same [simp]: "same_money w (log_event t a b d w1) = same_money w w1"
  by (simp add: same_money_def log_event_def)

lemma rpc_call_same:
  "(\<And>a w'. proc w = Inr (a, w') \<Longrightarrow> same_money w w') \<Longrightarrow> same_money w (snd (rpc_call f proc w))"
  by (cases f; cases "proc w") (auto simp: rpc_call_def)

lemma claim_same: "same_money w (snd (claimInternalTransferSettlement ck env i w))"
proof -
  have "same_money w w'" if "claim_internal_transfer_settlement now i worker cid w = Inr (a, w')" for now worker cid a w'
    using that by (auto simp: claim_internal_transfer_settlement_def Let_def split: if_splits option.splits)
  then have "same_money w (snd (rpc_call (sv_claim_rpc env)
      (claim_internal_transfer_settlement (ck_now ck) i (sv_worker env) (sv_claim_id env)) w))" by (rule rpc_call_same)
  then show ?thesis by (auto simp: claimInternalTransferSettlement_def split: prod.splits sum.splits)
qed

lemma finalize_same: "same_money w (snd (finalizeInternalTransferSettlement ck env i cid res note z w))"
proof -
  have "same_money w w'" if "complete_internal_transfer_settlement now i cid res note z w = Inr (a, w')" for now a w'
    using that by (auto simp: complete_internal_transfer_settlement_def Let_def split: if_splits option.splits
        intro!: update_tx_same simp: tx_core_def)
  then have "same_money w (snd (rpc_call (sv_final_rpc env)
      (complete_internal_transfer_settlement (ck_now ck) i cid res note z) w))" by (rule rpc_call_same)
  then show ?thesis by (auto simp: finalizeInternalTransferSettlement_def split: prod.splits sum.splits)
qed

lemma effects_same: "same_money w (snd (emitSettlementStatusEffects c env i tx p f w))"
  by (auto simp: emitSettlementStatusEffects_def Let_def split: sum.splits option.splits)

lemma conclude_same: "same_money w (snd (conclude c ck env i tx cl w))"
proof -
  obtain v s where z: "verifyZeroSum c (sv_zero_fault env) w i = (v, s)" by fastforce
  have h: "same_money w (snd (conclude c ck env i tx cl w))" if "\<not> v"
    using that finalize_same [of w ck env i "cl_worker_claim cl" "''HELD_FOR_REVIEW''" "''Zero-sum violation detected: '' @ num_text s" False]
    by (auto simp: conclude_def z split: prod.splits sum.splits)
  obtain r w1 where f: "finalizeInternalTransferSettlement ck env i (cl_worker_claim cl) ''COMPLETED'' ''Settlement finalized by processor.'' True w = (r, w1)"
    by fastforce
  have w1: "same_money w w1"
    using finalize_same [of w ck env i "cl_worker_claim cl" "''COMPLETED''" "''Settlement finalized by processor.''" True] by (simp add: f)
  have "same_money w (snd (conclude c ck env i tx cl w))" if "v"
  proof (cases r)
    case (Inr cp)
    let ?e = "emitSettlementStatusEffects c env i tx (text_or (Some (cp_previous cp)) (text_or (Some (cl_tx_status cl)) ''processing'')) ''completed'' w1"
    obtain q w2 where q: "?e = (q, w2)" by fastforce
    have "same_money w1 w2" using effects_same [of w1 c env i tx] q by (metis snd_conv)
    then have w2: "same_money w w2" by (rule same_money_trans [OF w1])
    have "snd (conclude c ck env i tx cl w) = (if cp_already cp then w1 else w2)"
      using that q by (cases q) (simp_all add: conclude_def z f Inr)
    then show ?thesis using w1 w2 by simp
  qed (use that w1 in \<open>simp add: conclude_def z f\<close>)
  with h show ?thesis by blast
qed

text \<open>The effect of one attempt: the money stands still, or the legs were appended under the marker.\<close>

definition released :: "string set \<Rightarrow> crypto \<Rightarrow> string \<Rightarrow> ledger_entry list \<Rightarrow> world \<Rightarrow> world \<Rightarrow> bool" where
  "released T c i legs w w' \<longleftrightarrow> \<not> release_applied w i \<and> release_applied w' i \<and> w_kms w' = w_kms w \<and>
     w_transfer_vault w' = w_transfer_vault w \<and>
     map tx_core (st_txs (w_store w')) = map tx_core (st_txs (w_store w)) \<and>
     agrees T c (w_kms w') (w_store w') \<and>
     (\<forall>k. balance_of (w_store w') k = balance_of (w_store w) k + entry_net k legs)"

lemma same_money_applied: "same_money w w' \<Longrightarrow> release_applied w' i = release_applied w i"
  unfolding same_money_def release_applied_def marker_clash_def by (cases "w_store w"; cases "w_store w'") simp

lemma same_money_agrees: "same_money w w' \<Longrightarrow> agrees T c k (w_store w') = agrees T c k (w_store w)"
  unfolding same_money_def by (metis agrees_txs)

lemma same_money_balance: "same_money w w' \<Longrightarrow> balance_of (w_store w') j = balance_of (w_store w) j"
  unfolding same_money_def by (metis balance_of_txs(1))

lemma released_same: "same_money w w1 \<Longrightarrow> released T c i legs w1 w2 \<Longrightarrow> same_money w2 w3 \<Longrightarrow> released T c i legs w w3"
  by (auto simp: released_def same_money_applied same_money_balance same_money_agrees) (auto simp: same_money_def)

lemma nonblank_keys [simp]:
  "nonblank (truthy_text (Some (buildInternalTransferSettlementAppendKey i))) = Some (buildInternalTransferSettlementAppendKey i)"
  "nonblank (truthy_text (Some internalTransferSettlementAppendPhase)) = Some internalTransferSettlementAppendPhase"
  by (simp_all add: nonblank_def truthy_text_def buildInternalTransferSettlementAppendKey_def sql_btrim_def
      internalTransferSettlementVersion_def internalTransferSettlementAppendPhase_def)

lemma append_releases:
  assumes "crypto_sound c" "kms_ready (w_kms w)" "agrees T c (w_kms w) (w_store w)"
    and "list_all (\<lambda>l. scale4 (entry_value l)) legs"
    and "addLedgerEntries c ck f i legs (Some (buildInternalTransferSettlementAppendKey i))
      (Some internalTransferSettlementAppendPhase) w = (r, w')"
  shows "w' = w \<or> released T c i legs w w'"
proof (cases "legs_for c ck w ''updates'' None legs")
  case (Inl e)
  with assms(5) show ?thesis by (simp add: addLedgerEntries_def)
next
  case (Inr ls)
  let ?k = "Some (buildInternalTransferSettlementAppendKey i)" and ?ph = "Some internalTransferSettlementAppendPhase"
  let ?p = "\<lambda>st. append_ledger_entries_v1 st i ls (truthy_text ?k) (truthy_text ?ph)"
  obtain er st where run: "run_rpc f ?p (w_store w) = (er, st)" by fastforce
  have w': "w' = w\<lparr>w_store := st\<rparr>" using assms(5) by (cases er) (simp_all add: addLedgerEntries_def Inr run)
  from run_rpc_cases [OF run] show ?thesis
  proof
    assume "st = w_store w"
    with w' show ?thesis by simp
  next
    assume p: "?p (w_store w) = Inr st"
    obtain tx st0 bm km acc where c0: "\<not> marker_clash (w_store w) i ?k ?ph"
      and st0: "st0 = (w_store w)\<lparr>st_markers := st_markers (w_store w) @ [\<lparr>mk_tx = i, mk_key = ?k, mk_phase = ?ph\<rparr>]\<rparr>"
      and st: "st = write_back st0 km acc" by (rule append_success [OF p]) auto
    have "\<forall>k. balance_of st k = balance_of (w_store w) k + entry_net k legs"
      using append_balance [OF p] legs_for_prepared [OF assms(1,2) Inr assms(4)] agreesD [OF assms(3)] by (simp add: list_all_iff)
    moreover have "marker_clash st i ?k ?ph" by (simp add: marker_clash_def st st0 write_back_def)
    moreover have "st_txs st = st_txs (w_store w)" by (simp add: st st0 write_back_def)
    moreover have "agrees T c (w_kms w') (w_store w')" using append_service_agrees [OF assms(1,2,4,3,5)] by simp
    ultimately show ?thesis using c0 by (simp add: released_def release_applied_def w')
  qed
qed

lemma release_effect:
  assumes "crypto_sound c" "kms_ready (w_kms w)" "agrees T c (w_kms w) (w_store w)"
    and "list_all (\<lambda>l. scale4 (entry_value l)) legs"
    and "cl_append_key cl = buildInternalTransferSettlementAppendKey i" "cl_append_phase cl = internalTransferSettlementAppendPhase"
    and "release c ck env i cl legs w = (r, w')"
  shows "w' = w \<or> released T c i legs w w'"
proof -
  obtain q w1 where q: "addLedgerEntries c ck (sv_append_rpc env) i legs (Some (buildInternalTransferSettlementAppendKey i))
      (Some internalTransferSettlementAppendPhase) w = (q, w1)" by fastforce
  have "w' = w \<or> w' = w1"
    using assms(7) by (cases q) (auto simp: release_def assms(5,6) q Let_def split: if_splits)
  with append_releases [OF assms(1-4) q] show ?thesis by blast
qed

lemma claim_keys:
  assumes "claimInternalTransferSettlement ck env i w = (Inr cl, w')"
  shows "cl_append_key cl = buildInternalTransferSettlementAppendKey i \<and> cl_append_phase cl = internalTransferSettlementAppendPhase"
proof -
  from assms have "claim_internal_transfer_settlement (ck_now ck) i (sv_worker env) (sv_claim_id env) w = Inr (cl, w')"
    by (auto simp: claimInternalTransferSettlement_def rpc_call_def split: prod.splits sum.splits rpc_fault.splits)
  then show ?thesis by (auto simp: claim_internal_transfer_settlement_def Let_def split: if_splits option.splits)
qed

lemma settlement_legs_same:
  assumes "same_money w w1"
  shows "settlement_legs c w1 i tx = settlement_legs c w i tx"
proof -
  from assms have "w_kms w1 = w_kms w" "w_transfer_vault w1 = w_transfer_vault w" by (simp_all add: same_money_def)
  then show ?thesis by (simp add: settlement_legs_def)
qed

lemma settle_body_effect:
  assumes "crypto_sound c" "kms_ready (w_kms w)" "agrees T c (w_kms w) (w_store w)"
    and "\<And>tx legs. (case txData of Some t \<Rightarrow> Some t | None \<Rightarrow> find_tx w i) = Some tx \<Longrightarrow>
      settlement_legs c w i tx = Inr legs \<Longrightarrow> list_all (\<lambda>l. scale4 (entry_value l)) legs"
    and "settle_body c ck env i txData w = (r, w')"
  shows "same_money w w' \<or> (\<exists>tx legs. (case txData of Some t \<Rightarrow> Some t | None \<Rightarrow> find_tx w i) = Some tx \<and>
    settlement_legs c w i tx = Inr legs \<and> released T c i legs w w')"
proof -
  let ?tx = "case txData of Some t \<Rightarrow> Some t | None \<Rightarrow> find_tx w i"
  obtain q w1 where q: "claimInternalTransferSettlement ck env i w = (q, w1)" by fastforce
  have w1: "same_money w w1" using claim_same [of w ck env i] by (simp add: q)
  show ?thesis
  proof (cases q)
    case (Inl e)
    with assms(5) w1 show ?thesis by (simp add: settle_body_def q)
  next
    case (Inr cl)
    note cl = this
    let ?g = "bind_outcome (assertSettlementEligible i (?tx \<noteq> None)
      (Some (text_or (Some (cl_tx_status cl)) (case ?tx of None \<Rightarrow> [] | Some t \<Rightarrow> tx_status t))) None) (\<lambda>_. settlement_legs c w1 i (the ?tx))"
    show ?thesis
    proof (cases "cl_completed cl \<or> isl ?g")
      case True
      then have "w' = w1" using assms(5) by (cases ?g) (auto simp: settle_body_def q cl Let_def split: if_splits)
      with w1 show ?thesis by simp
    next
      case False
      then obtain legs where g: "?g = Inr legs" and nc: "\<not> cl_completed cl" by (cases ?g) auto
      from g obtain tx where tx: "?tx = Some tx" and l1: "settlement_legs c w1 i tx = Inr legs"
        by (cases ?tx) (auto simp: bind_outcome_Inr_iff assertSettlementEligible_def)
      from l1 settlement_legs_same [OF w1] have l: "settlement_legs c w i tx = Inr legs" by simp
      obtain x w2 where rel: "release c ck env i cl legs w1 = (x, w2)" by fastforce
      have w': "w' = w2 \<or> w' = snd (conclude c ck env i tx cl w2)"
        using assms(5) nc g tx rel by (cases x) (auto simp: settle_body_def q cl Let_def)
      then have w3: "same_money w2 w'" using conclude_same [of w2 c ck env i tx cl] by auto
      have k: "w_kms w1 = w_kms w" using w1 by (simp add: same_money_def)
      have ag: "agrees T c (w_kms w1) (w_store w1)" using assms(3) same_money_agrees [OF w1] k by simp
      from claim_keys [OF q [unfolded cl]]
      have keys: "cl_append_key cl = buildInternalTransferSettlementAppendKey i" "cl_append_phase cl = internalTransferSettlementAppendPhase" by simp_all
      from release_effect [OF assms(1) _ ag assms(4) [OF tx l] keys rel] assms(2) k
      have "w2 = w1 \<or> released T c i legs w1 w2" by simp
      then show ?thesis
        using same_money_trans [OF w1] w3 released_same [OF w1 _ w3] tx l by blast
    qed
  qed
qed

section \<open>Repeated attempts\<close>

text \<open>The legs a settlement of the transaction releases, whatever its status.\<close>

definition plan_of :: "crypto \<Rightarrow> world \<Rightarrow> tx_row \<Rightarrow> ledger_entry list" where
  "plan_of c w tx =
     (case (decryptAmount c (w_kms w) (Some (JStr (tx_amount tx))) 0, Option.bind (tx_user tx) (w_transfer_vault w),
            truthy_text (tx_to_wallet tx)) of
        (Inr a, Some v, Some target) \<Rightarrow> release_legs tx v target a
      | _ \<Rightarrow> [])"

definition planned_release :: "crypto \<Rightarrow> world \<Rightarrow> string \<Rightarrow> ledger_entry list" where
  "planned_release c w i = (case find_tx w i of None \<Rightarrow> [] | Some tx \<Rightarrow> plan_of c w tx)"

lemma planned_settlement: "find_tx w i = Some tx \<Longrightarrow> settlement_legs c w i tx = Inr legs \<Longrightarrow> legs = planned_release c w i"
  by (auto simp: settlement_legs_def planned_release_def plan_of_def bind_outcome_Inr_iff Let_def split: option.splits)

lemma find_core:
  assumes "map tx_core (st_txs (w_store w')) = map tx_core (st_txs (w_store w))"
  shows "map_option tx_core (find_tx w' i) = map_option tx_core (find_tx w i)"
proof -
  have s: "single (map tx_core ts) = map_option tx_core (single ts)" for ts
    by (simp add: single_def split: list.splits)
  have "map tx_core (sel (\<lambda>t. tx_id t = i) ts) = sel (\<lambda>t. tx_id t = i) (map tx_core ts)" for ts
    by (induction ts) (auto simp: tx_core_def)
  with assms have "map tx_core (sel (\<lambda>t. tx_id t = i) (st_txs (w_store w'))) = map tx_core (sel (\<lambda>t. tx_id t = i) (st_txs (w_store w)))"
    by simp
  then show ?thesis unfolding find_tx_def by (metis s)
qed

lemma planned_core:
  assumes "map tx_core (st_txs (w_store w')) = map tx_core (st_txs (w_store w))"
    and "w_kms w' = w_kms w" "w_transfer_vault w' = w_transfer_vault w"
  shows "planned_release c w' i = planned_release c w i"
proof -
  have f: "tx_amount (tx_core t) = tx_amount t" "tx_user (tx_core t) = tx_user t" "tx_to_wallet (tx_core t) = tx_to_wallet t" 
    "release_legs (tx_core t) = release_legs t" for t
    by (auto simp: tx_core_def release_legs_def target_amount_def Let_def fun_eq_iff)
  have p: "plan_of c x (tx_core t) = plan_of c x t" for x t unfolding plan_of_def f ..
  have w: "plan_of c w' = plan_of c w" by (rule ext) (simp only: plan_of_def assms(2,3))
  from find_core [OF assms(1), of i] show ?thesis
    unfolding planned_release_def w by (cases "find_tx w i"; cases "find_tx w' i") (simp_all, metis p)
qed

definition attempts :: "crypto \<Rightarrow> string \<Rightarrow> (clock \<times> settle_env) list \<Rightarrow> world \<Rightarrow> world" where
  "attempts c i es w = fold (\<lambda>(ck, env) w. snd (completeSettlement c ck env i None w)) es w"

lemma attempt_effect:
  assumes "crypto_sound c" "kms_ready (w_kms w)" "agrees T c (w_kms w) (w_store w)"
    and "list_all (\<lambda>l. scale4 (entry_value l)) (planned_release c w i)"
  shows "same_money w (snd (completeSettlement c ck env i None w)) \<or>
    released T c i (planned_release c w i) w (snd (completeSettlement c ck env i None w))"
proof -
  obtain r w' where b: "settle_body c ck env i None w = (r, w')" by fastforce
  have "snd (completeSettlement c ck env i None w) = w'"
    by (cases r) (simp_all add: completeSettlement_def b Let_def)
  with settle_body_effect [OF assms(1-3) _ b] assms(4) planned_settlement [of w i _ c] show ?thesis by fastforce
qed

lemma attempts_effect:
  assumes "crypto_sound c" "kms_ready (w_kms w)" "agrees T c (w_kms w) (w_store w)"
    and "list_all (\<lambda>l. scale4 (entry_value l)) (planned_release c w i)"
  shows "agrees T c (w_kms (attempts c i es w)) (w_store (attempts c i es w)) \<and>
    ((release_applied (attempts c i es w) i = release_applied w i \<and>
       (\<forall>k. balance_of (w_store (attempts c i es w)) k = balance_of (w_store w) k)) \<or>
     (\<not> release_applied w i \<and> release_applied (attempts c i es w) i \<and>
       (\<forall>k. balance_of (w_store (attempts c i es w)) k = balance_of (w_store w) k + entry_net k (planned_release c w i))))"
  using assms(2-4)
proof (induction es arbitrary: w)
  case (Cons e es)
  obtain ck env where e: "e = (ck, env)" by fastforce
  let ?w = "snd (completeSettlement c ck env i None w)"
  have step: "attempts c i (e # es) w = attempts c i es ?w" by (simp add: attempts_def e)
  from attempt_effect [OF assms(1) Cons.prems] show ?case
  proof
    assume s: "same_money w ?w"
    then have k: "w_kms ?w = w_kms w" "w_transfer_vault ?w = w_transfer_vault w"
      "map tx_core (st_txs (w_store ?w)) = map tx_core (st_txs (w_store w))" by (simp_all add: same_money_def)
    have p: "planned_release c ?w i = planned_release c w i" by (rule planned_core [OF k(3,1,2)])
    from Cons.IH [of ?w] Cons.prems k p same_money_agrees [OF s] same_money_applied [OF s] same_money_balance [OF s]
    show ?thesis by (simp add: step)
  next
    assume r: "released T c i (planned_release c w i) w ?w"
    then have k: "w_kms ?w = w_kms w" "w_transfer_vault ?w = w_transfer_vault w"
      "map tx_core (st_txs (w_store ?w)) = map tx_core (st_txs (w_store w))" "release_applied ?w i" "\<not> release_applied w i"
      "agrees T c (w_kms w) (w_store ?w)" "\<And>k. balance_of (w_store ?w) k = balance_of (w_store w) k + entry_net k (planned_release c w i)"
      by (auto simp: released_def)
    have p: "planned_release c ?w i = planned_release c w i" by (rule planned_core [OF k(3,1,2)])
    from Cons.IH [of ?w] Cons.prems k p show ?thesis by (simp add: step)
  qed
qed (simp add: attempts_def)

text \<open>C15: However often the settlement of an internal transfer is attempted, by whichever workers, with
  any fault or lost answer in its claim, its append, its verification and its completion, the
  release from the PaySafe vault to the target moves its money at most once: the balances are
  those of the start, or differ by exactly one release, which then was not applied before.\<close>

theorem settlement_releases_once:
  assumes "crypto_sound c" and "kms_ready (w_kms w)" and "agrees {} c (w_kms w) (w_store w)"
    and "list_all (\<lambda>l. scale4 (entry_value l)) (planned_release c w i)"
  shows "(\<forall>k. balance_of (w_store (attempts c i es w)) k = balance_of (w_store w) k) \<or>
    (\<not> release_applied w i \<and> release_applied (attempts c i es w) i \<and>
     (\<forall>k. balance_of (w_store (attempts c i es w)) k = balance_of (w_store w) k + entry_net k (planned_release c w i)))"
  using attempts_effect [OF assms, of es] by blast

definition settle_world :: world where
  "settle_world = (sample_world ''processing'')\<lparr>w_transfer_vault := [''u1'' \<mapsto> ''a'']\<rparr>"

definition sample_settle :: "string \<Rightarrow> rpc_fault \<Rightarrow> settle_env" where
  "sample_settle i f = \<lparr>sv_worker = ''w'', sv_claim_id = i, sv_claim_rpc = Rpc_Ok, sv_append_rpc = f, sv_final_rpc = Rpc_Ok,
     sv_zero_fault = None, sv_balance_fault = None\<rparr>"

lemma settle_world_ok:
  "kms_ready (w_kms settle_world)" "agrees {} c (w_kms settle_world) (w_store settle_world)"
  "w_store settle_world = sample_store ''processing''"
  using sample_ready sample_agrees [OF empty_subsetI] by (simp_all add: settle_world_def sample_world_def)

lemma sample_plan:
  "list_all (\<lambda>l. scale4 (entry_value l)) (planned_release c settle_world ''t1'')"
  "entry_net ''a'' (planned_release c settle_world ''t1'') = - 30"
proof -
  have f: "find_tx settle_world ''t1'' = Some (sample_tx ''t1'' ''processing'')"
    by (simp add: find_tx_def settle_world_def sample_world_def sample_store_def sample_tx_def)
  have "target_amount (sample_tx ''t1'' ''processing'') 30 = Some 30"
    by (simp add: target_amount_def sample_tx_def md_object_def md_has_def)
  then have p: "planned_release c settle_world ''t1'' = release_legs (sample_tx ''t1'' ''processing'') ''a'' ''b'' 30"
    by (simp add: planned_release_def f plan_of_def sample_tx_def sample_plain truthy_text_def) (simp add: settle_world_def)
  show "list_all (\<lambda>l. scale4 (entry_value l)) (planned_release c settle_world ''t1'')"
    "entry_net ''a'' (planned_release c settle_world ''t1'') = - 30"
    unfolding p using \<open>target_amount (sample_tx ''t1'' ''processing'') 30 = Some 30\<close>
    by (simp_all add: release_legs_def Let_def entry_value_def entry_signed_def entry_wallet_def sides)
qed

text \<open>The first attempt loses the answer of its append, the second comes after the claim expired.\<close>

theorem settlement_releases_once_witness:
  "balance_of (w_store (attempts toy_crypto ''t1'' [(sample_clock, sample_settle ''c1'' (Rpc_Late (JsError ''fetch failed'' []))),
     (sample_clock\<lparr>ck_now := 400000\<rparr>, sample_settle ''c2'' Rpc_Ok)] settle_world)) ''a'' \<in> {70, 40}"
  (is "balance_of (w_store ?w) ''a'' \<in> _")
proof -
  have b: "balance_of (w_store settle_world) ''a'' = 70" by (simp add: settle_world_ok(3) sample_world_balance)
  from settlement_releases_once [OF toy_sound settle_world_ok(1,2) sample_plan(1)]
  have "balance_of (w_store ?w) ''a'' = balance_of (w_store settle_world) ''a'' \<or>
      balance_of (w_store ?w) ''a'' = balance_of (w_store settle_world) ''a'' + entry_net ''a'' (planned_release toy_crypto settle_world ''t1'')"
    by blast
  then show ?thesis unfolding b sample_plan(2) by (elim disjE) (simp_all only:, simp_all)
qed

end
