(* ===== verification/Transaction_Review.thy ===== *)
theory Transaction_Review
  imports Internal_Settlement
begin

text \<open>
  The review of transactions in \<open>ledger/transactionService.ts\<close>: locking for review, the audit
  decision, the approval of one or of all audited transactions, and the automatic reversal of
  transactions held too long. The stakeholder notification that ends each of them decrypts the
  amount, and its error reaches the caller.
\<close>

section \<open>Locking\<close>

record lock_options =
  lo_role :: string
  lo_reason :: string
  lo_request_reverse :: bool
  lo_user_lock :: bool
  lo_hours :: "rat option"

definition lock_object :: "tx_row \<Rightarrow> (string \<times> jsv) list" where
  "lock_object tx = (case tx_metadata tx ''transaction_lock'' of Some (JObj kvs) \<Rightarrow> kvs | _ \<Rightarrow> [])"

definition lock_text :: "tx_row \<Rightarrow> string \<Rightarrow> string" where
  "lock_text tx k = md_text (map_of (lock_object tx)) k"

definition notifyTransactionIssueStakeholders :: "crypto \<Rightarrow> kms \<Rightarrow> tx_row \<Rightarrow> unit outcome" where
  "notifyTransactionIssueStakeholders c k tx =
     (if tx_amount tx = [] then Inr ()
      else map_sum id (\<lambda>_. ()) (decryptAmount c k (Some (JStr (tx_amount tx))) 0))"

definition review_hours :: "rat option \<Rightarrow> rat" where
  "review_hours h = max 1 (case h of None \<Rightarrow> 24 | Some x \<Rightarrow> if x = 0 then 24 else x)"

definition review_metadata :: "clock \<Rightarrow> string \<Rightarrow> lock_options \<Rightarrow> tx_row \<Rightarrow> metadata" where
  "review_metadata ck actor opts tx =
     (let stamp = ck_iso ck (ck_now ck); h = review_hours (lo_hours opts) in
      (tx_metadata tx)(''transaction_lock'' \<mapsto> JObj [(''locked'', JBool True),
         (''lock_type'', JStr (if lo_user_lock opts then ''USER_TRANSFER_RECALL'' else ''ADMIN_REVIEW_LOCK'')),
         (''locked_by'', JStr actor), (''locked_role'', JStr (lo_role opts)), (''previous_status'', JStr (tx_status tx)),
         (''locked_at'', JStr stamp), (''reason'', JStr (lo_reason opts)), (''request_reverse'', JBool (lo_request_reverse opts)),
         (''auto_reverse_after_hours'', JNum h),
         (''auto_reverse_at'', JStr (ck_iso ck \<lfloor>of_int (ck_now ck) + h * 60 * 60 * 1000\<rfloor>)), (''audit_status'', JStr ''PENDING'')],
       ''manual_review'' \<mapsto> JBool True, ''issue_reported_at'' \<mapsto> JStr stamp, ''issue_reason'' \<mapsto> JStr (lo_reason opts)))"

definition user_lock_allowed :: "clock \<Rightarrow> string \<Rightarrow> tx_row \<Rightarrow> unit outcome" where
  "user_lock_allowed ck actor tx =
     (if tx_user tx \<noteq> Some actor then throw ''ACCESS_DENIED''
      else if js_lower (tx_type tx) \<noteq> ''transfer'' then throw ''USER_LOCK_TRANSFER_ONLY''
      else if 60 * 60 * 1000 < ck_now ck - tx_created tx then throw ''USER_LOCK_WINDOW_EXPIRED''
      else Inr ())"

text \<open>The row is set to held_for_review also when the state machine ignored the change.\<close>

definition lockTransactionForReview ::
    "crypto \<Rightarrow> clock \<Rightarrow> string \<Rightarrow> string \<Rightarrow> lock_options \<Rightarrow> world \<Rightarrow> tx_row option action" where
  "lockTransactionForReview c ck i actor opts w =
     (case find_tx w i of
        None \<Rightarrow> (throw ''TRANSACTION_NOT_FOUND'', w)
      | Some tx \<Rightarrow>
          (case bind_outcome (assertReversalEligible (Some (tx_status tx)))
                (\<lambda>_. if lo_role opts = ''USER'' then user_lock_allowed ck actor tx else Inr ()) of
             Inl e \<Rightarrow> (Inl e, w)
           | Inr u \<Rightarrow>
               (let w1 = (if js_lower (tx_status tx) = ''held_for_review'' then w
                     else snd (updateTransactionStatus c None i ''held_for_review'' (Some (lo_reason opts)) w));
                    w2 = update_tx i (\<lambda>t. t\<lparr>tx_status := ''held_for_review'', tx_notes := Some (lo_reason opts),
                      tx_metadata := review_metadata ck actor opts tx, tx_updated := ck_now ck\<rparr>) w1;
                    w3 = log_event i (Some (tx_status tx)) ''held_for_review'' actor w2 in
                (map_sum id (\<lambda>_. find_tx w2 i)
                   (notifyTransactionIssueStakeholders c (w_kms w) (case find_tx w2 i of None \<Rightarrow> tx | Some t \<Rightarrow> t)), w3))))"

section \<open>Audit and approval\<close>

definition audit_metadata :: "clock \<Rightarrow> string \<Rightarrow> bool \<Rightarrow> string \<Rightarrow> string \<Rightarrow> tx_row \<Rightarrow> metadata" where
  "audit_metadata ck actor passed notes role tx =
     (tx_metadata tx)(''transaction_lock'' \<mapsto> JObj (foldl (\<lambda>m (k, v). obj_set m k v) (lock_object tx)
        [(''audit_status'', JStr (if passed then ''PASSED'' else ''FAILED'')), (''audit_passed'', JBool passed),
         (''audited_by'', JStr actor), (''audited_by_role'', JStr role), (''audited_at'', JStr (ck_iso ck (ck_now ck))),
         (''audit_notes'', JStr notes)]))"

definition recordAuditDecision ::
    "crypto \<Rightarrow> clock \<Rightarrow> string \<Rightarrow> string \<Rightarrow> bool \<Rightarrow> string \<Rightarrow> string \<Rightarrow> world \<Rightarrow> tx_row option action" where
  "recordAuditDecision c ck i actor passed notes role w =
     (case find_tx w i of
        None \<Rightarrow> (throw ''TRANSACTION_NOT_FOUND'', w)
      | Some tx \<Rightarrow>
          (if js_lower (tx_status tx) \<noteq> ''held_for_review'' then (throw ''TRANSACTION_NOT_UNDER_REVIEW'', w)
           else
             (let w1 = update_tx i (\<lambda>t. t\<lparr>tx_metadata := audit_metadata ck actor passed notes role tx, tx_notes := Some notes,
                    tx_updated := ck_now ck\<rparr>) w;
                  w2 = log_event i (Some (tx_status tx)) (tx_status tx) actor w1 in
              (map_sum id (\<lambda>_. find_tx w1 i)
                 (notifyTransactionIssueStakeholders c (w_kms w) (case find_tx w1 i of None \<Rightarrow> tx | Some t \<Rightarrow> t)), w2))))"

definition approval_metadata :: "clock \<Rightarrow> string \<Rightarrow> string \<Rightarrow> tx_row \<Rightarrow> metadata" where
  "approval_metadata ck actor notes tx =
     (tx_metadata tx)(''transaction_lock'' \<mapsto> JObj (foldl (\<lambda>m (k, v). obj_set m k v) (lock_object tx)
        [(''locked'', JBool False), (''resolved_by'', JStr actor), (''resolved_at'', JStr (ck_iso ck (ck_now ck))),
         (''resolution'', JStr ''APPROVED''), (''resolution_notes'', JStr notes)]), ''manual_review'' \<mapsto> JBool False)"

definition approved_status :: "string \<Rightarrow> string" where
  "approved_status prev = (if prev = ''pending'' then ''pending'' else if prev = ''authorized'' then ''authorized'' else ''completed'')"

text \<open>A transfer that was processing is settled; the boolean answer of the settlement is not looked at.\<close>

definition resume :: "crypto \<Rightarrow> clock \<Rightarrow> settle_env \<Rightarrow> js_error option \<Rightarrow> string \<Rightarrow> string \<Rightarrow> tx_row \<Rightarrow> world \<Rightarrow> unit action" where
  "resume c ck env fault i notes tx w =
     (let prev = js_lower (lock_text tx ''previous_status'') in
      if prev = ''processing'' \<and> js_lower (tx_type tx) = ''transfer'' then
        (case completeSettlement c ck (env\<lparr>sv_worker := ''engine:settlement:'' @ i\<rparr>) i (Some tx) w of
           (Inl e, w') \<Rightarrow> (throw (''APPROVAL_SETTLEMENT_FAILED: '' @ err_message e), w')
         | (Inr b, w') \<Rightarrow> (Inr (), w'))
      else updateTransactionStatus c fault i (approved_status prev) (Some notes) w)"

definition approveReviewedTransaction ::
    "crypto \<Rightarrow> clock \<Rightarrow> settle_env \<Rightarrow> js_error option \<Rightarrow> string \<Rightarrow> string \<Rightarrow> string \<Rightarrow> world \<Rightarrow> tx_row option action" where
  "approveReviewedTransaction c ck env fault i actor notes w =
     (case find_tx w i of
        None \<Rightarrow> (throw ''TRANSACTION_NOT_FOUND'', w)
      | Some tx \<Rightarrow>
          (if js_lower (tx_status tx) \<noteq> ''held_for_review'' then (throw ''TRANSACTION_NOT_UNDER_REVIEW'', w)
           else if js_upper (lock_text tx ''audit_status'') \<noteq> ''PASSED'' then (throw ''AUDIT_PASS_REQUIRED'', w)
           else case resume c ck env fault i notes tx w of
               (Inl e, w1) \<Rightarrow> (Inl e, w1)
             | (Inr u, w1) \<Rightarrow>
                 (let w2 = update_tx i (\<lambda>t. t\<lparr>tx_metadata := approval_metadata ck actor notes tx, tx_notes := Some notes,
                        tx_updated := ck_now ck\<rparr>) w1;
                      final = (case find_tx w2 i of Some t \<Rightarrow> text_or (Some (tx_status t)) (approved_status (js_lower (lock_text tx ''previous_status'')))
                        | None \<Rightarrow> approved_status (js_lower (lock_text tx ''previous_status'')));
                      w3 = log_event i (Some ''held_for_review'') final actor w2 in
                  (map_sum id (\<lambda>_. find_tx w2 i)
                     (notifyTransactionIssueStakeholders c (w_kms w) (case find_tx w2 i of None \<Rightarrow> tx | Some t \<Rightarrow> t)), w3))))"

definition audit_passed :: "tx_row \<Rightarrow> bool" where
  "audit_passed tx \<longleftrightarrow> js_upper (lock_text tx ''audit_status'') = ''PASSED''"

definition held_ids :: "world \<Rightarrow> tx_row list" where
  "held_ids w = sel (\<lambda>t. tx_status t = ''held_for_review'') (st_txs (w_store w))"

text \<open>The bulk approval goes on after a failure and reports both lists.\<close>

fun approve_each ::
    "crypto \<Rightarrow> clock \<Rightarrow> (string \<Rightarrow> settle_env) \<Rightarrow> js_error option \<Rightarrow> string \<Rightarrow> string \<Rightarrow> tx_row list \<Rightarrow> world \<Rightarrow>
     (string list \<times> (string \<times> string) list) \<times> world" where
  "approve_each c ck env fault actor notes [] w = (([], []), w)"
| "approve_each c ck env fault actor notes (t # ts) w =
     (case approveReviewedTransaction c ck (env (tx_id t)) fault (tx_id t) actor notes w of (r, w1) \<Rightarrow>
        (case approve_each c ck env fault actor notes ts w1 of ((ok, failed), w2) \<Rightarrow>
           (case r of Inl e \<Rightarrow> ((ok, (tx_id t, err_message e) # failed), w2) | Inr x \<Rightarrow> ((tx_id t # ok, failed), w2))))"

definition approveAllAuditPassedTransactions ::
    "crypto \<Rightarrow> clock \<Rightarrow> (string \<Rightarrow> settle_env) \<Rightarrow> js_error option \<Rightarrow> string \<Rightarrow> string \<Rightarrow> world \<Rightarrow>
     (string list \<times> (string \<times> string) list) \<times> world" where
  "approveAllAuditPassedTransactions c ck env fault actor notes w =
     approve_each c ck env fault actor notes (sel audit_passed (held_ids w)) w"

section \<open>Automatic reversal\<close>

text \<open>Whether a held transaction is due; \<open>None\<close> is the error of an invalid date. A deadline that does
  not parse counts as passed.\<close>

definition reversal_due :: "clock \<Rightarrow> tx_row \<Rightarrow> bool option" where
  "reversal_due ck tx =
     (if lock_text tx ''auto_reverse_at'' \<noteq> [] then
        Some (case ck_parse ck (lock_text tx ''auto_reverse_at'') of None \<Rightarrow> True | Some t \<Rightarrow> t \<le> ck_now ck)
      else case (if lock_text tx ''locked_at'' \<noteq> [] then ck_parse ck (lock_text tx ''locked_at'') else Some (tx_updated tx)) of
          None \<Rightarrow> None
        | Some t \<Rightarrow> Some (t + 24 * 60 * 60 * 1000 \<le> ck_now ck))"

definition auto_reason :: string where
  "auto_reason = ''AUTO_REVERSAL_AFTER_24_HOURS: Transaction remained under review beyond permitted window.''"

fun reverse_due :: "crypto \<Rightarrow> clock \<Rightarrow> (string \<Rightarrow> post_env) \<Rightarrow> tx_row list \<Rightarrow> world \<Rightarrow> nat \<times> world" where
  "reverse_due c ck env [] w = (0, w)"
| "reverse_due c ck env (t # ts) w =
     (if reversal_due ck t \<noteq> Some True then reverse_due c ck env ts w
      else case reverseTransactionWithReason c ck (env (tx_id t)) None (tx_id t) ''SYSTEM_TIMEOUT'' auto_reason ''SYSTEM'' w of
          (Inl e, w1) \<Rightarrow> reverse_due c ck env ts w1
        | (Inr u, w1) \<Rightarrow> (case reverse_due c ck env ts w1 of (n, w2) \<Rightarrow> (Suc n, w2)))"

definition autoReverseHeldTransactions :: "crypto \<Rightarrow> clock \<Rightarrow> (string \<Rightarrow> post_env) \<Rightarrow> world \<Rightarrow> nat \<times> world" where
  "autoReverseHeldTransactions c ck env w = reverse_due c ck env (held_ids w) w"

end
