(* ===== verification/Review_Properties.thy ===== *)
theory Review_Properties
  imports Transaction_Review
begin

text \<open>
  Theorems on the review of transactions: a recorded reversal happens once, a review that ends
  in an approval brings the status back, and the approval of a transfer that was processing
  never settles it.
\<close>

section \<open>A recorded reversal\<close>

lemma status_after_update:
  assumes "find_tx w i = Some tx" "isValidTransition (tx_status tx) s"
    and "updateTransactionStatus c fault i s n w = (r, w')"
  shows "find_tx w' i = Some (tx\<lparr>tx_status := s, tx_notes := n\<rparr>)"
  using assms by (auto simp: updateTransactionStatus_def Let_def split: if_splits option.splits sum.splits)

text \<open>When the table has a transition to reversed (the transaction is authorized, processing, settled, completed or held
  for review), a reversal that succeeds sets the status to reversed, and every later reversal,
  by whomever, is refused and changes nothing.\<close>

theorem recorded_reversal_once:
  assumes "find_tx w i = Some tx" and "isValidTransition (tx_status tx) ''reversed''"
    and "reverseTransactionWithReason c ck env fault i actor reason role w = (Inr u, w')"
  shows "(\<exists>tx'. find_tx w' i = Some tx' \<and> tx_status tx' = ''reversed'') \<and>
    reverseTransactionWithReason c ck2 env2 fault2 i actor2 reason2 role2 w' = (throw ''TRANSACTION_NOT_REVERSIBLE'', w')"
proof -
  from reason_ok [OF assms(3)] assms(1) obtain w1 v where r: "reverseTransaction c ck env fault i actor w = (Inr v, w1)"
    and w': "w' = update_tx i (\<lambda>t. t\<lparr>tx_metadata := reversal_md ck actor reason role (tx_metadata tx), tx_notes := Some reason,
      tx_updated := ck_now ck\<rparr>) w1" by auto
  from reverse_ok [OF r] obtain ls a w2 where
    p: "postTransactionWithLedger c ck env (reversal_header (pe_uuid env) tx a) ls w = (Inr (), w2)"
    and up: "updateTransactionStatus c fault i ''reversed'' (Some (authorized_by actor)) w2 = (Inr v, w1)"
    using assms(1) by auto
  from status_after_update [OF post_keeps_tx [OF p assms(1)] assms(2) up]
  obtain tx' where tx': "find_tx w' i = Some tx'" "tx_status tx' = ''reversed''" by (simp add: w')
  have "assertReversalEligible (Some ''reversed'') = throw ''TRANSACTION_NOT_REVERSIBLE''" by code_simp
  with tx' show ?thesis by (simp add: reverseTransactionWithReason_def)
qed

theorem recorded_reversal_once_witness:
  "\<exists>w'. reverseTransactionWithReason toy_crypto sample_clock (sample_post_env ''t9'') None ''t1'' ''admin'' ''r'' ''STAFF'' (sample_world ''completed'') = (Inr (), w') \<and>
     reverseTransactionWithReason toy_crypto sample_clock (sample_post_env ''t10'') None ''t1'' ''admin'' ''r'' ''STAFF'' w' =
       (throw ''TRANSACTION_NOT_REVERSIBLE'', w')"
proof -
  obtain w' where r: "reverseTransactionWithReason toy_crypto sample_clock (sample_post_env ''t9'') None ''t1'' ''admin'' ''r'' ''STAFF'' (sample_world ''completed'') = (Inr (), w')"
    by (metis prod.collapse sample_reversal(1))
  have t: "find_tx (sample_world ''completed'') ''t1'' = Some (sample_tx ''t1'' ''completed'')"
    by (simp add: find_tx_def sample_world_def sample_store_def sample_tx_def)
  have v: "isValidTransition (tx_status (sample_tx ''t1'' ''completed'')) ''reversed''" by code_simp
  from recorded_reversal_once [OF t v r] r show ?thesis by blast
qed

section \<open>Approval\<close>

lemma claim_refused:
  assumes "find_tx w i = Some tx" "js_lower (tx_status tx) = ''held_for_review''"
    and "pred_option (\<lambda>l. lc_status l \<noteq> ''COMPLETED'' \<and> lc_stage l \<noteq> ''SETTLED'')
      (lifecycle_of (buildInternalTransferSettlementLifecycleKey i) (w_lifecycles w))"
  shows "\<exists>e. claim_internal_transfer_settlement now i worker cid w = Inl e"
proof -
  let ?k = "buildInternalTransferSettlementLifecycleKey i"
  have "pred_option (\<lambda>l. \<not> settlement_done tx l) (lifecycle_of ?k (w_lifecycles (with_lifecycle ?k w)))"
  proof (cases "lifecycle_of ?k (w_lifecycles w)")
    case None
    then show ?thesis using assms(2)
      by (auto simp: with_lifecycle_def lifecycle_of_def settlement_done_def single_def split: list.splits)
  next
    case (Some l)
    with assms(2,3) show ?thesis by (simp add: with_lifecycle_def settlement_done_def)
  qed
  with assms(1,2) show ?thesis
    by (auto simp: claim_internal_transfer_settlement_def Let_def split: option.splits)
qed

lemma settlement_refused:
  assumes "find_tx w i = Some tx" "js_lower (tx_status tx) = ''held_for_review''"
    and "pred_option (\<lambda>l. lc_status l \<noteq> ''COMPLETED'' \<and> lc_stage l \<noteq> ''SETTLED'')
      (lifecycle_of (buildInternalTransferSettlementLifecycleKey i) (w_lifecycles w))"
  shows "snd (completeSettlement c ck env i txData w) = w"
proof -
  obtain e where e: "claim_internal_transfer_settlement (ck_now ck) i (sv_worker env) (sv_claim_id env) w = Inl e"
    using claim_refused [OF assms] by blast
  have "\<exists>x. claimInternalTransferSettlement ck env i w = (Inl x, w)"
    by (cases "sv_claim_rpc env") (simp_all add: claimInternalTransferSettlement_def rpc_call_def e)
  then show ?thesis by (auto simp: completeSettlement_def settle_body_def Let_def)
qed

text \<open>A transfer that was taken out of processing for review cannot be settled by its approval: the settlement
  claim demands the status processing while the row is held_for_review. Whatever the faults,
  the approval moves no money and the transaction stays held_for_review.\<close>

theorem approval_never_settles:
  assumes "find_tx w i = Some tx" and "js_lower (tx_status tx) = ''held_for_review''"
    and "js_lower (lock_text tx ''previous_status'') = ''processing''" and "js_lower (tx_type tx) = ''transfer''"
    and "pred_option (\<lambda>l. lc_status l \<noteq> ''COMPLETED'' \<and> lc_stage l \<noteq> ''SETTLED'')
      (lifecycle_of (buildInternalTransferSettlementLifecycleKey i) (w_lifecycles w))"
    and "approveReviewedTransaction c ck env fault i actor notes w = (r, w')"
  shows "balance_of (w_store w') k = balance_of (w_store w) k \<and>
    (\<exists>tx'. find_tx w' i = Some tx' \<and> tx_status tx' = tx_status tx)"
proof -
  obtain q w1 where q: "resume c ck env fault i notes tx w = (q, w1)" by fastforce
  have "w1 = w"
    using q settlement_refused [OF assms(1,2,5), of c ck "env\<lparr>sv_worker := ''engine:settlement:'' @ i\<rparr>" "Some tx"]
    by (auto simp: resume_def assms(3,4) split: prod.splits sum.splits)
  with assms(1,2,6) q show ?thesis
    by (cases q) (auto simp: approveReviewedTransaction_def Let_def split: if_splits)
qed

definition held_tx :: "string \<Rightarrow> string \<Rightarrow> tx_row" where
  "held_tx prev st = (sample_tx ''t1'' st)\<lparr>tx_metadata :=
     [''transaction_lock'' \<mapsto> JObj [(''previous_status'', JStr prev), (''audit_status'', JStr ''PASSED'')]]\<rparr>"

definition held_world :: "string \<Rightarrow> world" where
  "held_world prev = (sample_world ''x'')\<lparr>w_store := (sample_store ''x'')\<lparr>st_txs := [held_tx prev ''held_for_review'']\<rparr>\<rparr>"

theorem approval_never_settles_witness:
  "\<exists>r w' tx'. approveReviewedTransaction toy_crypto sample_clock (sample_settle ''c1'' Rpc_Ok) None ''t1'' ''admin'' ''ok'' (held_world ''processing'') = (r, w') \<and>
     balance_of (w_store w') ''b'' = 30 \<and> find_tx w' ''t1'' = Some tx' \<and> tx_status tx' = ''held_for_review''"
proof -
  let ?w = "held_world ''processing''" and ?t = "held_tx ''processing'' ''held_for_review''"
  have t: "find_tx ?w ''t1'' = Some ?t" by (simp add: find_tx_def held_world_def held_tx_def sample_tx_def)
  have s: "js_lower (tx_status ?t) = ''held_for_review''" "js_lower (lock_text ?t ''previous_status'') = ''processing''"
    "js_lower (tx_type ?t) = ''transfer''" by code_simp+
  have l: "pred_option (\<lambda>l. lc_status l \<noteq> ''COMPLETED'' \<and> lc_stage l \<noteq> ''SETTLED'')
      (lifecycle_of (buildInternalTransferSettlementLifecycleKey ''t1'') (w_lifecycles ?w))"
    by (simp add: held_world_def sample_world_def lifecycle_of_def)
  have b: "balance_of (w_store ?w) ''b'' = 30" by (simp add: held_world_def sample_world_balance)
  obtain r w' where a: "approveReviewedTransaction toy_crypto sample_clock (sample_settle ''c1'' Rpc_Ok) None ''t1'' ''admin'' ''ok'' ?w = (r, w')"
    by fastforce
  have "tx_status ?t = ''held_for_review''" by (simp add: held_tx_def sample_tx_def)
  with approval_never_settles [OF t s(1,2,3) l a, of "''b''"] a b show ?thesis by auto
qed

section \<open>A review and its end\<close>

lemma lock_ok:
  assumes "lockTransactionForReview c ck i actor opts w = (Inr x, w')" "find_tx w i = Some tx"
  shows "\<exists>t. find_tx w' i = Some (t\<lparr>tx_status := ''held_for_review'', tx_notes := Some (lo_reason opts),
    tx_metadata := review_metadata ck actor opts tx, tx_updated := ck_now ck\<rparr>) \<and> tx_type t = tx_type tx \<and> tx_amount t = tx_amount tx"
proof -
  let ?u = "snd (updateTransactionStatus c None i ''held_for_review'' (Some (lo_reason opts)) w)"
  have "\<exists>t. find_tx ?u i = Some t \<and> tx_type t = tx_type tx \<and> tx_amount t = tx_amount tx"
    using assms(2) by (auto simp: updateTransactionStatus_def Let_def)
  with assms show ?thesis
    by (auto simp: lockTransactionForReview_def Let_def bind_outcome_def split: sum.splits if_splits)
qed

lemma audit_ok:
  assumes "recordAuditDecision c ck i actor passed notes role w = (Inr x, w')" "find_tx w i = Some tx"
  shows "find_tx w' i = Some (tx\<lparr>tx_metadata := audit_metadata ck actor passed notes role tx, tx_notes := Some notes,
    tx_updated := ck_now ck\<rparr>)"
  using assms by (auto simp: recordAuditDecision_def Let_def split: if_splits)

lemma approve_ok:
  assumes "approveReviewedTransaction c ck env fault i actor notes w = (Inr x, w')" "find_tx w i = Some tx"
  shows "\<exists>w1 u. resume c ck env fault i notes tx w = (Inr u, w1) \<and>
    map_option tx_status (find_tx w' i) = map_option tx_status (find_tx w1 i)"
proof -
  obtain q w1 where q: "resume c ck env fault i notes tx w = (q, w1)" by fastforce
  with assms show ?thesis
    by (cases q) (auto simp: approveReviewedTransaction_def Let_def option.map_comp comp_def split: if_splits)
qed

lemma lock_text_after:
  assumes "tx_metadata t = review_metadata ck actor opts tx" "tx_status tx \<noteq> []"
    and "t' = t\<lparr>tx_metadata := audit_metadata ck2 actor2 True notes role t, tx_notes := n, tx_updated := m\<rparr>"
  shows "lock_text t' ''previous_status'' = tx_status tx"
  using assms(1,2)
  by (simp add: assms(3) lock_text_def lock_object_def audit_metadata_def review_metadata_def Let_def obj_set_def md_text_def)

definition approval_row :: "tx_status \<Rightarrow> bool" where
  "approval_row s \<longleftrightarrow> js_lower (status_text s) = status_text s \<and>
   approved_status (status_text s) = (if s \<in> {Pending, Authorized} then status_text s else ''completed'') \<and>
   isValidTransition ''held_for_review'' (approved_status (status_text s)) \<and> status_text s \<noteq> [] \<and>
   (status_text s = ''processing'' \<longleftrightarrow> s = Processing)"

lemma approval_rows: "list_all approval_row all_statuses"
  by code_simp

lemma approved_table: "approval_row s"
proof -
  have "s \<in> set all_statuses" by (cases s) (simp_all add: all_statuses_def)
  with approval_rows show ?thesis unfolding list_all_iff by blast
qed

text \<open>A transaction that is locked for review, passes its audit and is approved is back in its status if it was
  pending or authorized, and completed otherwise, also when it was only created. (A transfer
  that was processing is the case of the previous property.)\<close>

theorem review_outcome:
  assumes "find_tx w i = Some tx" and "tx_status tx = status_text s"
    and "s = Processing \<Longrightarrow> js_lower (tx_type tx) \<noteq> ''transfer''"
    and "lockTransactionForReview c ck i actor opts w = (Inr x1, w1)"
    and "recordAuditDecision c ck2 i actor2 True notes2 role2 w1 = (Inr x2, w2)"
    and "approveReviewedTransaction c ck3 env fault i actor3 notes3 w2 = (Inr x3, w3)"
  shows "\<exists>tx'. find_tx w3 i = Some tx' \<and> tx_status tx' = (if s \<in> {Pending, Authorized} then status_text s else ''completed'')"
proof -
  from lock_ok [OF assms(4,1)] obtain t1 where t1: "find_tx w1 i = Some t1" "tx_status t1 = ''held_for_review''"
    "tx_metadata t1 = review_metadata ck actor opts tx" "tx_type t1 = tx_type tx" by force
  from audit_ok [OF assms(5) t1(1)] obtain t2 where t2: "find_tx w2 i = Some t2" "tx_status t2 = ''held_for_review''"
    "tx_type t2 = tx_type tx" and e: "t2 = t1\<lparr>tx_metadata := audit_metadata ck2 actor2 True notes2 role2 t1,
      tx_notes := Some notes2, tx_updated := ck_now ck2\<rparr>" using t1(2,4) by simp
  have prev: "lock_text t2 ''previous_status'' = status_text s"
    using lock_text_after [OF t1(3) _ e] assms(2) approved_table [of s, unfolded approval_row_def] by simp
  from approve_ok [OF assms(6) t2(1)] obtain w' u where r: "resume c ck3 env fault i notes3 t2 w2 = (Inr u, w')"
    and st: "map_option tx_status (find_tx w3 i) = map_option tx_status (find_tx w' i)" by blast
  have "updateTransactionStatus c fault i (approved_status (status_text s)) (Some notes3) w2 = (Inr u, w')"
    using r assms(3) approved_table [of s, unfolded approval_row_def] by (auto simp: resume_def prev t2(3) Let_def split: if_splits)
  from status_after_update [OF t2(1) _ this] approved_table [of s, unfolded approval_row_def] t2(2) st show ?thesis by auto
qed

definition review_options :: lock_options where
  "review_options = \<lparr>lo_role = ''STAFF'', lo_reason = ''suspicious'', lo_request_reverse = False, lo_user_lock = False, lo_hours = None\<rparr>"

lemma notify_ok:
  "tx_amount t = tx_amount tx \<Longrightarrow> decryptAmount c k (Some (JStr (tx_amount tx))) 0 = Inr a \<Longrightarrow>
     notifyTransactionIssueStakeholders c k t = Inr ()"
  by (simp add: notifyTransactionIssueStakeholders_def)

lemma lock_succeeds:
  assumes "find_tx w i = Some tx" "isReversalEligibleStatus (Some (tx_status tx))" "lo_role opts \<noteq> ''USER''"
    and "decryptAmount c (w_kms w) (Some (JStr (tx_amount tx))) 0 = Inr a"
  shows "\<not> isl (fst (lockTransactionForReview c ck i actor opts w))"
proof -
  let ?u = "snd (updateTransactionStatus c None i ''held_for_review'' (Some (lo_reason opts)) w)"
  have "\<exists>t. find_tx ?u i = Some t \<and> tx_amount t = tx_amount tx"
    using assms(1) by (auto simp: updateTransactionStatus_def Let_def)
  then obtain t where "find_tx ?u i = Some t \<and> tx_amount t = tx_amount tx" by blast
  with assms notify_ok [OF _ assms(4)] show ?thesis
    by (auto simp: lockTransactionForReview_def Let_def assertReversalEligible_def)
qed

lemma audit_succeeds:
  assumes "find_tx w i = Some tx" "js_lower (tx_status tx) = ''held_for_review''"
    and "decryptAmount c (w_kms w) (Some (JStr (tx_amount tx))) 0 = Inr a"
  shows "\<not> isl (fst (recordAuditDecision c ck i actor passed notes role w))"
  using assms notify_ok [OF _ assms(3)] by (auto simp: recordAuditDecision_def Let_def)

lemma approve_succeeds:
  assumes "find_tx w i = Some tx" "js_lower (tx_status tx) = ''held_for_review''" "js_upper (lock_text tx ''audit_status'') = ''PASSED''"
    and "resume c ck env fault i notes tx w = (Inr u, w1)" "find_tx w1 i = Some t" "tx_amount t = tx_amount tx"
    and "decryptAmount c (w_kms w) (Some (JStr (tx_amount tx))) 0 = Inr a"
  shows "\<not> isl (fst (approveReviewedTransaction c ck env fault i actor notes w))"
  using assms notify_ok [OF _ assms(7)] by (auto simp: approveReviewedTransaction_def Let_def)

lemma audit_text_after:
  assumes "tx_metadata t = review_metadata ck actor opts tx"
    and "t' = t\<lparr>tx_metadata := audit_metadata ck2 actor2 True notes role t, tx_notes := n, tx_updated := m\<rparr>"
  shows "lock_text t' ''audit_status'' = ''PASSED''"
  using assms(1)
  by (simp add: assms(2) lock_text_def lock_object_def audit_metadata_def review_metadata_def Let_def obj_set_def md_text_def)

theorem review_outcome_witness:
  "\<exists>w1 w2 w3 x1 x2 x3 tx'.
     lockTransactionForReview toy_crypto sample_clock ''t1'' ''admin'' review_options (sample_world ''authorized'') = (Inr x1, w1) \<and>
     recordAuditDecision toy_crypto sample_clock ''t1'' ''auditor'' True ''fine'' ''STAFF'' w1 = (Inr x2, w2) \<and>
     approveReviewedTransaction toy_crypto sample_clock (sample_settle ''c1'' Rpc_Ok) None ''t1'' ''admin'' ''ok'' w2 = (Inr x3, w3) \<and>
     find_tx w3 ''t1'' = Some tx' \<and> tx_status tx' = ''authorized''"
proof -
  let ?w = "sample_world ''authorized''" and ?tx = "sample_tx ''t1'' ''authorized''"
  have d: "\<exists>x. p = (Inr x, snd p)" if "\<not> isl (fst p)" for p :: "'a outcome \<times> 'b"
    using that by (cases p; cases "fst p") auto
  have t: "find_tx ?w ''t1'' = Some ?tx" "tx_status ?tx = status_text Authorized"
    by (simp_all add: find_tx_def sample_world_def sample_store_def sample_tx_def)
  have e: "isReversalEligibleStatus (Some (tx_status ?tx))" by code_simp
  have a: "decryptAmount toy_crypto k (Some (JStr (tx_amount ?tx))) 0 = Inr 30" for k by (simp add: sample_tx_def sample_plain)
  have h: "js_lower ''held_for_review'' = ''held_for_review''" "js_upper ''PASSED'' = ''PASSED''" by code_simp+
  have role: "lo_role review_options \<noteq> ''USER''" by (simp add: review_options_def)
  obtain x1 w1 where l: "lockTransactionForReview toy_crypto sample_clock ''t1'' ''admin'' review_options ?w = (Inr x1, w1)"
    using d [OF lock_succeeds [OF t(1) e role a]] by blast
  from lock_ok [OF l t(1)] obtain t1 where t1: "find_tx w1 ''t1'' = Some t1" "tx_status t1 = ''held_for_review''"
    "tx_metadata t1 = review_metadata sample_clock ''admin'' review_options ?tx" "tx_amount t1 = tx_amount ?tx" by force
  obtain x2 w2 where au: "recordAuditDecision toy_crypto sample_clock ''t1'' ''auditor'' True ''fine'' ''STAFF'' w1 = (Inr x2, w2)"
    using d [OF audit_succeeds [OF t1(1), of toy_crypto 30]] t1(2,4) a h by fastforce
  from audit_ok [OF au t1(1)] obtain t2 where t2: "find_tx w2 ''t1'' = Some t2" "tx_status t2 = ''held_for_review''"
    "tx_amount t2 = tx_amount ?tx" and t2e: "t2 = t1\<lparr>tx_metadata := audit_metadata sample_clock ''auditor'' True ''fine'' ''STAFF'' t1,
      tx_notes := Some ''fine'', tx_updated := ck_now sample_clock\<rparr>" using t1(2,4) by simp
  have prev: "lock_text t2 ''previous_status'' = ''authorized''"
    using lock_text_after [OF t1(3) _ t2e] t(2) by simp
  have p: "js_lower ''authorized'' = ''authorized''" "approved_status ''authorized'' = ''authorized''"
    "isValidTransition ''held_for_review'' ''authorized''" by code_simp+
  have "resume toy_crypto sample_clock (sample_settle ''c1'' Rpc_Ok) None ''t1'' ''ok'' t2 w2 =
      updateTransactionStatus toy_crypto None ''t1'' ''authorized'' (Some ''ok'') w2"
    by (simp only: resume_def prev p Let_def) simp
  moreover obtain w' where up: "updateTransactionStatus toy_crypto None ''t1'' ''authorized'' (Some ''ok'') w2 = (Inr (), w')"
    using t2 p(3) by (simp add: updateTransactionStatus_def Let_def)
  ultimately have r: "resume toy_crypto sample_clock (sample_settle ''c1'' Rpc_Ok) None ''t1'' ''ok'' t2 w2 = (Inr (), w')" by simp
  have v: "isValidTransition (tx_status t2) ''authorized''" using p(3) t2(2) by simp
  have "\<not> isl (fst (approveReviewedTransaction toy_crypto sample_clock (sample_settle ''c1'' Rpc_Ok) None ''t1'' ''admin'' ''ok'' w2))"
    using approve_succeeds [OF t2(1) _ _ r status_after_update [OF t2(1) v up], of 30] t2(2,3) a h
      audit_text_after [OF t1(3) t2e] by simp
  from d [OF this] obtain x3 w3 where ap:
    "approveReviewedTransaction toy_crypto sample_clock (sample_settle ''c1'' Rpc_Ok) None ''t1'' ''admin'' ''ok'' w2 = (Inr x3, w3)" by blast
  have n: "Authorized = Processing \<Longrightarrow> js_lower (tx_type ?tx) \<noteq> ''transfer''" by simp
  from review_outcome [OF t n l au ap] l au ap show ?thesis by auto
qed

end
