(* ===== verification/Ledger_Maintenance.thy ===== *)
theory Ledger_Maintenance
  imports Service_Properties
begin

text \<open>
  The maintenance operations of \<open>ledger/transactionService.ts\<close>: the check of all balances, the emergency repair of
  one (with the procedure \<open>repair_wallet_balance_emergency\<close> of \<open>database/main.sql\<close>), the totals of reports, and the
  escrow reservation, with its system node (\<open>backend/ledger/regulatoryService.ts\<close>).

  Audit entries are left out, as is the encrypted copy of a vault's balance, which nothing modelled reads.
\<close>

section \<open>Checking all balances\<close>

record check_result =
  cr_total :: nat
  cr_valid :: nat
  cr_invalid :: nat

text \<open>The ids are those the two queries return: all wallets, then all vaults.\<close>

fun verify_all :: "crypto \<Rightarrow> js_error option \<Rightarrow> string list \<Rightarrow> nat \<times> nat \<Rightarrow> world \<Rightarrow> (nat \<times> nat) \<times> world" where
  "verify_all c fault [] n w = (n, w)"
| "verify_all c fault (k # ks) (v, i) w =
     (case verifyWalletBalance c fault k w of
        ((ok, _), w') \<Rightarrow> verify_all c fault ks (if ok then (v + 1, i) else (v, i + 1)) w')"

definition reconcileAllWallets :: "crypto \<Rightarrow> js_error option \<Rightarrow> string list \<Rightarrow> string list \<Rightarrow> world \<Rightarrow> check_result \<times> world" where
  "reconcileAllWallets c fault wallets vaults w =
     (case verify_all c fault (wallets @ vaults) (0, 0) w of
        ((v, i), w') \<Rightarrow> (\<lparr>cr_total = length (wallets @ vaults), cr_valid = v, cr_invalid = i\<rparr>, w'))"

section \<open>The emergency repair\<close>

definition set_balance :: "(string \<Rightarrow> entity option) \<Rightarrow> string \<Rightarrow> rat \<Rightarrow> string \<Rightarrow> entity option" where
  "set_balance tbl k b = tbl(k := map_option (\<lambda>e. e\<lparr>ent_balance := b\<rparr>) (tbl k))"

definition repair_roles :: "string list" where
  "repair_roles = [''service_role'', ''SUPER_ADMIN'', ''ADMIN'', ''AUDIT'']"

definition open_entity :: "(string \<Rightarrow> entity option) \<Rightarrow> string \<Rightarrow> bool" where
  "open_entity tbl k \<longleftrightarrow> (case tbl k of None \<Rightarrow> False | Some e \<Rightarrow> \<not> lock_blocked e)"

definition repair_wallet_balance_emergency :: "string option \<Rightarrow> string \<Rightarrow> rat option \<Rightarrow> string \<Rightarrow> string \<Rightarrow> store \<Rightarrow> store outcome" where
  "repair_wallet_balance_emergency role k amount actor reason st =
     (case amount of
        None \<Rightarrow> throw ''BALANCE_REQUIRED: repair_wallet_balance_emergency requires a numeric balance''
      | Some b \<Rightarrow>
          (if sql_btrim actor = [] then throw ''REPAIR_ACTOR_REQUIRED: repair_wallet_balance_emergency requires an actor id''
           else if sql_btrim reason = [] then throw ''REPAIR_REASON_REQUIRED: repair_wallet_balance_emergency requires a human-readable reason''
           else if (case role of None \<Rightarrow> True | Some r \<Rightarrow> r \<notin> set repair_roles)
           then throw ''PRIVILEGED_REPAIR_ONLY: repair_wallet_balance_emergency is restricted to emergency reconciliation and incident repair''
           else if open_entity (st_wallets st) k then Inr (st\<lparr>st_wallets := set_balance (st_wallets st) k b\<rparr>)
           else if open_entity (st_vaults st) k then Inr (st\<lparr>st_vaults := set_balance (st_vaults st) k b\<rparr>)
           else if st_goals st k \<noteq> None then Inr (st\<lparr>st_goals := set_balance (st_goals st) k b\<rparr>)
           else throw (''LEDGER_ENTITY_MISSING: Internal entity '' @ k @ '' was not found or is locked'')))"

text \<open>
  \<open>fixWalletBalance\<close> reads the ledger first and writes later; the two halves are separate because other calls can come in
  between. An error of the procedure is not looked at.
\<close>

definition fix_read :: "crypto \<Rightarrow> clock \<Rightarrow> js_error option \<Rightarrow> string \<Rightarrow> world \<Rightarrow> rat outcome" where
  "fix_read c ck fault k w = bind_outcome (calculateBalanceFromLedger c fault w k) (\<lambda>b.
     bind_outcome (encryptAmount c (w_kms w) (ck_now ck) b) (\<lambda>_. Inr b))"

definition fix_write :: "rpc_fault \<Rightarrow> string option \<Rightarrow> string \<Rightarrow> string \<Rightarrow> string option \<Rightarrow> rat \<Rightarrow> world \<Rightarrow> world" where
  "fix_write f role k actor reason b w = w\<lparr>w_store := snd (run_rpc f
     (repair_wallet_balance_emergency role k (Some b) actor (text_or reason (''Ledger reconciliation repair for wallet '' @ k))) (w_store w))\<rparr>"

definition fixWalletBalance ::
    "crypto \<Rightarrow> clock \<Rightarrow> js_error option \<Rightarrow> rpc_fault \<Rightarrow> string option \<Rightarrow> string \<Rightarrow> string \<Rightarrow> string option \<Rightarrow> world \<Rightarrow> unit action" where
  "fixWalletBalance c ck fault f role k actor reason w =
     (case fix_read c ck fault k w of
        Inl e \<Rightarrow> (Inl e, w)
      | Inr b \<Rightarrow> (Inr (), fix_write f role k actor reason b w))"

section \<open>Totals\<close>

text \<open>The rows as the queries return them: name and balance of wallets, role and balance of vaults.\<close>

definition getAggregatedWalletBalances :: "(string \<times> rat) list outcome \<Rightarrow> string list \<Rightarrow> (string \<times> rat) list" where
  "getAggregatedWalletBalances rows names =
     (case rows of
        Inl e \<Rightarrow> []
      | Inr ws \<Rightarrow> map (\<lambda>n. (n, \<Sum>(m, b)\<leftarrow>ws. if m = n then b else 0)) (distinct_first names))"

definition getSystemBalance :: "(string \<times> rat) list option \<Rightarrow> rat \<times> (string \<times> rat) list" where
  "getSystemBalance vaults = (case vaults of
     None \<Rightarrow> (0, [])
   | Some vs \<Rightarrow> (\<Sum>(r, b)\<leftarrow>vs. b, map (\<lambda>n. (n, \<Sum>(r, b)\<leftarrow>vs. if r = n then b else 0)) (distinct_first (map fst vs))))"

section \<open>Reserving for an escrow\<close>

text \<open>The vaults are asked only when the query of the nodes throws; an error it answers counts as no node.\<close>

definition resolveSystemNode :: "string \<Rightarrow> unit + string option \<Rightarrow> string option \<Rightarrow> string outcome" where
  "resolveSystemNode role node vault =
     (case (case node of Inr n \<Rightarrow> n | Inl _ \<Rightarrow> vault) of
        Some i \<Rightarrow> Inr i
      | None \<Rightarrow> throw (''SYSTEM_NODE_NOT_CONFIGURED:'' @ role))"

definition reserve_leg :: "string \<Rightarrow> string \<Rightarrow> rat \<Rightarrow> string \<Rightarrow> ledger_entry" where
  "reserve_leg k ty amount what = \<lparr>le_wallet = Some k, le_user = None, le_type = ty, le_amount = Some amount,
     le_currency = Some ''TZS'', le_description = Some what\<rparr>"

definition reserveEscrow ::
    "crypto \<Rightarrow> clock \<Rightarrow> post_env \<Rightarrow> string outcome \<Rightarrow> string \<Rightarrow> string \<Rightarrow> rat \<Rightarrow> string \<Rightarrow> string \<Rightarrow> world \<Rightarrow> unit action" where
  "reserveEscrow c ck env node user k amount description reference w =
     (case node of
        Inl e \<Rightarrow> (Inl e, w)
      | Inr escrow \<Rightarrow> postTransactionWithLedger c ck env
          \<lparr>pt_id = Some (pe_uuid env), pt_reference = Some reference, pt_user = Some user, pt_wallet = Some k, pt_to_wallet = None,
           pt_amount = amount, pt_description = Some (''Compliance Escrow: '' @ description), pt_type = Some ''escrow'',
           pt_status = Some ''processing'', pt_metadata = Map.empty, pt_category = None\<rparr>
          [reserve_leg k ''DEBIT'' amount (''Escrow Hold: '' @ description), reserve_leg escrow ''CREDIT'' amount (''Inbound Escrow: '' @ description)] w)"

section \<open>What the repair changes\<close>

lemma balance_cong:
  assumes "st_wallets s j = st_wallets t j" "st_vaults s j = st_vaults t j" "st_goals s j = st_goals t j"
  shows "balance_of s j = balance_of t j"
proof -
  have "entity_at s kind j = entity_at t kind j" for kind using assms by (cases kind) simp_all
  then show ?thesis by (simp add: balance_of_def entity_kinds_def assms)
qed

lemma single_kind:
  "entity_kinds st k = [Wallet_Entity] \<longleftrightarrow> st_wallets st k \<noteq> None \<and> st_vaults st k = None \<and> st_goals st k = None"
  "entity_kinds st k = [Vault_Entity] \<longleftrightarrow> st_wallets st k = None \<and> st_vaults st k \<noteq> None \<and> st_goals st k = None"
  "entity_kinds st k = [Goal_Entity] \<longleftrightarrow> st_wallets st k = None \<and> st_vaults st k = None \<and> st_goals st k \<noteq> None"
  by (simp_all add: entity_kinds_def)

lemma set_balance_at [simp]: "set_balance tbl k b k = map_option (\<lambda>e. e\<lparr>ent_balance := b\<rparr>) (tbl k)"
  "j \<noteq> k \<Longrightarrow> set_balance tbl k b j = tbl j"
  by (simp_all add: set_balance_def)

text \<open>One table holds the id, and a wallet or vault is not locked.\<close>

definition repairable :: "store \<Rightarrow> string \<Rightarrow> bool" where
  "repairable st k \<longleftrightarrow> entity_kinds st k = [Wallet_Entity] \<and> open_entity (st_wallets st) k \<or>
     entity_kinds st k = [Vault_Entity] \<and> open_entity (st_vaults st) k \<or> entity_kinds st k = [Goal_Entity]"

lemma repaired:
  assumes "repairable st k" and "sql_btrim actor \<noteq> []" and "sql_btrim reason \<noteq> []" and "role = Some r" "r \<in> set repair_roles"
  shows "\<exists>st'. repair_wallet_balance_emergency role k (Some b) actor reason st = Inr st' \<and> st_ledger st' = st_ledger st \<and>
    balance_of st' k = b \<and> (\<forall>j. j \<noteq> k \<longrightarrow> balance_of st' j = balance_of st j)"
proof -
  consider (w) "entity_kinds st k = [Wallet_Entity]" "open_entity (st_wallets st) k"
    | (v) "entity_kinds st k = [Vault_Entity]" "open_entity (st_vaults st) k" | (g) "entity_kinds st k = [Goal_Entity]"
    using assms(1) unfolding repairable_def by blast
  then show ?thesis
  proof cases
    case w
    let ?st = "st\<lparr>st_wallets := set_balance (st_wallets st) k b\<rparr>"
    from w have "repair_wallet_balance_emergency role k (Some b) actor reason st = Inr ?st"
      using assms(2-5) by (simp add: repair_wallet_balance_emergency_def)
    moreover have "balance_of ?st k = b" using w(1) unfolding single_kind by (auto simp: balance_of_def entity_kinds_def)
    moreover have "balance_of ?st j = balance_of st j" if "j \<noteq> k" for j by (rule balance_cong) (simp_all add: that)
    ultimately show ?thesis by (intro exI [of _ ?st]) simp
  next
    case v
    let ?st = "st\<lparr>st_vaults := set_balance (st_vaults st) k b\<rparr>"
    from v have "\<not> open_entity (st_wallets st) k" by (simp add: single_kind open_entity_def)
    with v have "repair_wallet_balance_emergency role k (Some b) actor reason st = Inr ?st"
      using assms(2-5) by (simp add: repair_wallet_balance_emergency_def)
    moreover have "balance_of ?st k = b" using v(1) unfolding single_kind by (auto simp: balance_of_def entity_kinds_def)
    moreover have "balance_of ?st j = balance_of st j" if "j \<noteq> k" for j by (rule balance_cong) (simp_all add: that)
    ultimately show ?thesis by (intro exI [of _ ?st]) simp
  next
    case g
    let ?st = "st\<lparr>st_goals := set_balance (st_goals st) k b\<rparr>"
    from g have "\<not> open_entity (st_wallets st) k" "\<not> open_entity (st_vaults st) k" "st_goals st k \<noteq> None"
      by (simp_all add: single_kind open_entity_def)
    then have "repair_wallet_balance_emergency role k (Some b) actor reason st = Inr ?st"
      using assms(2-5) by (simp add: repair_wallet_balance_emergency_def)
    moreover have "balance_of ?st k = b" using g unfolding single_kind by (auto simp: balance_of_def entity_kinds_def)
    moreover have "balance_of ?st j = balance_of st j" if "j \<noteq> k" for j by (rule balance_cong) (simp_all add: that)
    ultimately show ?thesis by (intro exI [of _ ?st]) simp
  qed
qed

section \<open>Repairs\<close>

definition repair_allowed :: "string option \<Rightarrow> string \<Rightarrow> string \<Rightarrow> string option \<Rightarrow> bool" where
  "repair_allowed role k actor reason \<longleftrightarrow> (\<exists>r. role = Some r \<and> r \<in> set repair_roles) \<and> sql_btrim actor \<noteq> [] \<and>
     sql_btrim (text_or reason (''Ledger reconciliation repair for wallet '' @ k)) \<noteq> []"

lemma fix_wrote:
  assumes "repairable (w_store w) k" and "repair_allowed role k actor reason"
  shows "st_ledger (w_store (fix_write Rpc_Ok role k actor reason b w)) = st_ledger (w_store w) \<and>
    balance_of (w_store (fix_write Rpc_Ok role k actor reason b w)) k = b \<and>
    (\<forall>j. j \<noteq> k \<longrightarrow> balance_of (w_store (fix_write Rpc_Ok role k actor reason b w)) j = balance_of (w_store w) j) \<and>
    w_kms (fix_write Rpc_Ok role k actor reason b w) = w_kms w"
proof -
  let ?reason = "text_or reason (''Ledger reconciliation repair for wallet '' @ k)"
  from assms(2) obtain r where "role = Some r" "r \<in> set repair_roles" "sql_btrim actor \<noteq> []" "sql_btrim ?reason \<noteq> []"
    by (auto simp: repair_allowed_def)
  from repaired [OF assms(1) this(3,4,1,2), of b] obtain st' where
    "repair_wallet_balance_emergency role k (Some b) actor ?reason (w_store w) = Inr st'" "st_ledger st' = st_ledger (w_store w)"
    "balance_of st' k = b" "\<forall>j. j \<noteq> k \<longrightarrow> balance_of st' j = balance_of (w_store w) j" by blast
  then show ?thesis by (simp add: fix_write_def run_rpc_def)
qed

lemma derived_cong:
  "st_ledger (w_store w) = st_ledger (w_store w') \<Longrightarrow> w_kms w = w_kms w' \<Longrightarrow>
     calculateBalanceFromLedger c fault w k = calculateBalanceFromLedger c fault w' k"
  by (cases fault) (simp_all add: calculateBalanceFromLedger_def)

lemma fix_read_derived: "fix_read c ck fault k w = Inr b \<Longrightarrow> calculateBalanceFromLedger c fault w k = Inr b"
  by (auto simp: fix_read_def bind_outcome_Inr_iff)

lemma derived_ignores_fault: "calculateBalanceFromLedger c fault w k = Inr b \<Longrightarrow> calculateBalanceFromLedger c None w k = Inr b"
  by (auto simp: calculateBalanceFromLedger_def split: option.splits sum.splits)

lemma verify_agreeing:
  assumes "calculateBalanceFromLedger c None w k = Inr b" and "st_wallets (w_store w) k = Some e" and "ent_balance e = b"
  shows "verifyWalletBalance c None k w = ((True, 0), w)"
  using assms by (simp add: verifyWalletBalance_def Let_def round4_exact)

text \<open>C26: The emergency repair restores the ledger's answer: whatever balances are stored, a call whose ledger
  read and procedure succeed leaves the ledger and all other balances alone and stores for its entity the sum of the
  decrypted rows; the verification of a wallet then finds no drift. The caller must be privileged and
  the entity neither locked nor frozen.\<close>

theorem repair_restores_ledger_balance:
  assumes "calculateBalanceFromLedger c None w k = Inr b" and "encryptAmount c (w_kms w) (ck_now ck) b = Inr ct"
    and "repairable (w_store w) k" and "repair_allowed role k actor reason"
  shows "\<exists>w'. fixWalletBalance c ck None Rpc_Ok role k actor reason w = (Inr (), w') \<and>
    st_ledger (w_store w') = st_ledger (w_store w) \<and> balance_of (w_store w') k = b \<and>
    (\<forall>j. j \<noteq> k \<longrightarrow> balance_of (w_store w') j = balance_of (w_store w) j) \<and>
    (entity_kinds (w_store w') k = [Wallet_Entity] \<longrightarrow> verifyWalletBalance c None k w' = ((True, 0), w'))"
proof -
  let ?w = "fix_write Rpc_Ok role k actor reason b w"
  note wrote = fix_wrote [OF assms(3,4), of b]
  have "fixWalletBalance c ck None Rpc_Ok role k actor reason w = (Inr (), ?w)"
    using assms(1,2) by (simp add: fixWalletBalance_def fix_read_def)
  moreover have "verifyWalletBalance c None k ?w = ((True, 0), ?w)" if kind: "entity_kinds (w_store ?w) k = [Wallet_Entity]"
  proof -
    from kind obtain e where e: "st_wallets (w_store ?w) k = Some e" unfolding single_kind by blast
    with kind wrote have "ent_balance e = b" by (simp add: balance_of_def)
    moreover have "calculateBalanceFromLedger c None ?w k = Inr b"
      using assms(1) wrote derived_cong [of ?w w c None k] by simp
    ultimately show ?thesis using e by (intro verify_agreeing)
  qed
  ultimately show ?thesis using wrote by (intro exI [of _ ?w]) simp
qed

text \<open>C27: The repair is not atomic: whatever calls of the service run between its read and its write, it stores the
  balance of the moment it read, so the money they moved into or out of the entity is missing from its stored
  balance, while the ledger counts it.\<close>

theorem repair_loses_concurrent_posting:
  assumes "crypto_sound c" and "kms_ready (w_kms w)" and "agrees {} c (w_kms w) (w_store w)" and "list_all call_scale4 cs"
    and "fix_read c ck None k w = Inr b" and "repairable (w_store (run_calls c cs w)) k" and "repair_allowed role k actor reason"
  shows "balance_of (w_store (fix_write Rpc_Ok role k actor reason b (run_calls c cs w))) k = balance_of (w_store w) k \<and>
    calculateBalanceFromLedger c None (fix_write Rpc_Ok role k actor reason b (run_calls c cs w)) k =
      Inr (balance_of (w_store (run_calls c cs w)) k)"
proof -
  let ?v = "run_calls c cs w" and ?w = "fix_write Rpc_Ok role k actor reason b (run_calls c cs w)"
  note wrote = fix_wrote [OF assms(6,7), of b]
  have "b = balance_of (w_store w) k" using agrees_derived [OF assms(3), of k] fix_read_derived [OF assms(5)] by simp
  moreover have "calculateBalanceFromLedger c None ?v k = Inr (balance_of (w_store ?v) k)"
    using run_calls_agrees [OF assms(1,2,4,3)] agrees_derived [of "{}" c ?v k] by simp
  ultimately show ?thesis using wrote derived_cong [of ?w ?v c None k] by simp
qed

section \<open>The check of all balances\<close>

lemma scale4_small: "scale4 x \<Longrightarrow> \<bar>x\<bar> < 1 / 10000 \<longleftrightarrow> x = 0"
proof (rule iffI)
  assume "scale4 x" and small: "\<bar>x\<bar> < 1 / 10000"
  then obtain n where n: "x * 10000 = of_int n" by (auto simp: scale4_def elim: Ints_cases)
  have "\<bar>x * 10000\<bar> < 1" using small by (simp add: abs_mult)
  then have "\<bar>n\<bar> < 1" unfolding n by linarith
  with n show "x = 0" by simp
qed simp

definition vault_report :: "store \<Rightarrow> string \<Rightarrow> drift_report" where
  "vault_report st k = \<lparr>dr_wallet = k, dr_expected = balance_of st k, dr_actual = 0, dr_difference = - balance_of st k\<rparr>"

lemma verify_wallet:
  assumes "agrees T c (w_kms w) (w_store w)" and "entity_kinds (w_store w) k = [Wallet_Entity]"
  shows "verifyWalletBalance c None k w = ((True, 0), w)"
proof -
  from assms(2) obtain e where e: "st_wallets (w_store w) k = Some e" unfolding single_kind by blast
  with assms(2) have "ent_balance e = balance_of (w_store w) k" by (simp add: balance_of_def)
  with agrees_derived [OF assms(1), of k] e show ?thesis by (intro verify_agreeing) auto
qed

lemma verify_vault:
  assumes "agrees T c (w_kms w) (w_store w)" and "entity_kinds (w_store w) k = [Vault_Entity]"
  shows "verifyWalletBalance c None k w =
    (if balance_of (w_store w) k = 0 then ((True, 0), w)
     else ((False, - balance_of (w_store w) k), w\<lparr>w_reports := w_reports w @ [vault_report (w_store w) k]\<rparr>))"
proof -
  from assms(2) have "st_wallets (w_store w) k = None" unfolding single_kind by blast
  moreover have s: "scale4 (- balance_of (w_store w) k)" using agreesD [OF assms(1)] by (intro scale4_minus) simp
  ultimately show ?thesis
    using agrees_derived [OF assms(1), of k] scale4_small [OF s] round4_exact [OF s] round4_exact [OF scale4_0]
    by (simp add: verifyWalletBalance_def Let_def vault_report_def)
qed

lemma verify_wallets:
  "agrees T c (w_kms w) (w_store w) \<Longrightarrow> \<forall>k \<in> set ks. entity_kinds (w_store w) k = [Wallet_Entity] \<Longrightarrow>
     verify_all c None (ks @ vs) (v, i) w = verify_all c None vs (v + length ks, i) w"
  by (induction ks arbitrary: v) (simp_all add: verify_wallet)

lemma verify_vaults:
  "agrees T c (w_kms w) (w_store w) \<Longrightarrow> \<forall>k \<in> set vs. entity_kinds (w_store w) k = [Vault_Entity] \<Longrightarrow>
     verify_all c None vs (v, i) w =
       ((v + length (sel (\<lambda>k. balance_of (w_store w) k = 0) vs), i + length (sel (\<lambda>k. balance_of (w_store w) k \<noteq> 0) vs)),
        w\<lparr>w_reports := w_reports w @ map (vault_report (w_store w)) (sel (\<lambda>k. balance_of (w_store w) k \<noteq> 0) vs)\<rparr>)"
proof (induction vs arbitrary: v i w)
  case (Cons k vs)
  from Cons.prems have v: "entity_kinds (w_store w) k = [Vault_Entity]" by simp
  let ?w = "w\<lparr>w_reports := w_reports w @ [vault_report (w_store w) k]\<rparr>"
  have "agrees T c (w_kms ?w) (w_store ?w)" "\<forall>k \<in> set vs. entity_kinds (w_store ?w) k = [Vault_Entity]"
    using Cons.prems by simp_all
  note step = Cons.IH [OF this]
  from Cons.IH [OF Cons.prems(1)] step Cons.prems(2) verify_vault [OF Cons.prems(1) v] show ?case
    by (simp add: sel_def)
qed (simp add: sel_def)

text \<open>C37: The check of all balances raises false alarms: after any run of the service from an agreeing store, in
  which no balance drifts, it counts every wallet as valid and every vault with money as invalid, and writes for each
  such vault a report of a drift of its whole balance, because the stored balance is looked up among the wallets only.\<close>

theorem funded_vaults_reported:
  assumes "crypto_sound c" and "kms_ready (w_kms w)" and "agrees {} c (w_kms w) (w_store w)" and "list_all call_scale4 cs"
    and "\<forall>k \<in> set wallets. entity_kinds (w_store (run_calls c cs w)) k = [Wallet_Entity]"
    and "\<forall>k \<in> set vaults. entity_kinds (w_store (run_calls c cs w)) k = [Vault_Entity]"
  shows "reconcileAllWallets c None wallets vaults (run_calls c cs w) =
    (let v = run_calls c cs w; funded = sel (\<lambda>k. balance_of (w_store v) k \<noteq> 0) vaults in
      (\<lparr>cr_total = length wallets + length vaults,
        cr_valid = length wallets + length (sel (\<lambda>k. balance_of (w_store v) k = 0) vaults), cr_invalid = length funded\<rparr>,
       v\<lparr>w_reports := w_reports v @ map (vault_report (w_store v)) funded\<rparr>))"
proof -
  let ?v = "run_calls c cs w"
  from run_calls_agrees [OF assms(1,2,4,3)] have a: "agrees {} c (w_kms ?v) (w_store ?v)" by simp
  show ?thesis
    by (simp add: reconcileAllWallets_def verify_wallets [OF a assms(5)] verify_vaults [OF a assms(6)] Let_def)
qed

section \<open>Witnesses\<close>

lemma drifted_encrypts: "\<exists>ct. encryptAmount c (w_kms (sample_world s)) (ck_now sample_clock) 70 = Inr ct"
proof -
  have "\<not> isl (encryptAmount c (snd sample_kms) (ck_now sample_clock) 70)" by code_simp
  then show ?thesis by (cases "encryptAmount c (snd sample_kms) (ck_now sample_clock) 70") (simp_all add: sample_world_def)
qed

lemma sample_derived: "calculateBalanceFromLedger toy_crypto None (sample_world s) ''a'' = Inr 70"
  using agrees_derived [OF sample_agrees [OF empty_subsetI], of toy_crypto s "''a''"]
  by (simp add: sample_world_def sample_world_balance)

lemma sample_allowed: "repair_allowed (Some ''service_role'') ''a'' ''ops'' None"
  by (simp add: repair_allowed_def repair_roles_def text_or_def) code_simp

text \<open>The sample world with a stored balance of 99 for wallet a, and with b a vault.\<close>

definition drifted_world :: world where
  "drifted_world = (sample_world ''completed'')\<lparr>w_store := (sample_store ''completed'')\<lparr>st_wallets := [''a'' \<mapsto> wallet_row 99 ''u1'']\<rparr>\<rparr>"

definition vault_world :: world where
  "vault_world = (sample_world ''completed'')\<lparr>w_store := (sample_store ''completed'')\<lparr>
     st_wallets := [''a'' \<mapsto> wallet_row 70 ''u1''], st_vaults := [''b'' \<mapsto> wallet_row 30 ''u2'']\<rparr>\<rparr>"

lemma vault_world_agrees: "agrees {} c (w_kms vault_world) (w_store vault_world)"
proof -
  have b: "balance_of (w_store vault_world) i = balance_of (sample_store ''completed'') i" for i
    unfolding sample_world_balance by (auto simp: vault_world_def balance_of_def entity_kinds_def wallet_row_def sample_store_def)
  have l: "st_ledger (w_store vault_world) = st_ledger (sample_store ''completed'')" "w_kms vault_world = w_kms (sample_world ''completed'')"
    by (simp_all add: vault_world_def)
  have s: "w_store (sample_world ''completed'') = sample_store ''completed''" by (simp add: sample_world_def)
  from sample_agrees [OF empty_subsetI, of c "''completed''"] show ?thesis by (simp add: agrees_def b l s)
qed

theorem repair_restores_ledger_balance_witness:
  "\<exists>w'. fixWalletBalance toy_crypto sample_clock None Rpc_Ok (Some ''service_role'') ''a'' ''ops'' None drifted_world = (Inr (), w') \<and>
     balance_of (w_store w') ''a'' = 70"
proof -
  have d: "calculateBalanceFromLedger toy_crypto None drifted_world ''a'' = Inr 70"
    using sample_derived [of "''completed''"] derived_cong [of drifted_world "sample_world ''completed''" toy_crypto None "''a''"]
    by (simp add: drifted_world_def sample_world_def)
  obtain ct where e: "encryptAmount toy_crypto (w_kms drifted_world) (ck_now sample_clock) 70 = Inr ct"
    using drifted_encrypts [of toy_crypto "''completed''"] by (auto simp: drifted_world_def)
  have r: "repairable (w_store drifted_world) ''a''" by code_simp
  from repair_restores_ledger_balance [OF d e r sample_allowed] show ?thesis by blast
qed

theorem repair_loses_concurrent_posting_witness:
  "balance_of (w_store (fix_write Rpc_Ok (Some ''service_role'') ''a'' ''ops'' None 70
      (run_calls toy_crypto [hd sample_calls] (sample_world ''completed'')))) ''a'' = 70 \<and>
   calculateBalanceFromLedger toy_crypto None (fix_write Rpc_Ok (Some ''service_role'') ''a'' ''ops'' None 70
      (run_calls toy_crypto [hd sample_calls] (sample_world ''completed''))) ''a'' = Inr 50"
proof -
  let ?v = "run_calls toy_crypto [hd sample_calls] (sample_world ''completed'')"
  have "fst (postTransactionWithLedger c sample_clock (sample_post_env ''t2'') sample_header sample_entries (sample_world ''completed'')) = Inr ()" for c
    by code_simp
  then obtain w' where p: "postTransactionWithLedger toy_crypto sample_clock (sample_post_env ''t2'') sample_header sample_entries (sample_world ''completed'') = (Inr (), w')"
    by (metis prod.collapse)
  have b: "balance_of (w_store (sample_world ''completed'')) ''a'' = 70" by (simp add: sample_world_def sample_world_balance)
  have v: "?v = w'" by (simp add: run_calls_def sample_calls_def p)
  from post_moves [OF toy_sound sample_ready sample_entries_ok(1) sample_agrees [OF empty_subsetI] p, of "''a''"]
  have "balance_of (w_store ?v) ''a'' = 50" by (simp add: b v)
  moreover have f: "fix_read toy_crypto sample_clock None ''a'' (sample_world ''completed'') = Inr 70"
    using drifted_encrypts [of toy_crypto "''completed''"] by (auto simp: fix_read_def sample_derived)
  have r: "repairable (w_store (run_calls c [hd sample_calls] (sample_world ''completed''))) ''a''" for c by code_simp
  have l: "list_all call_scale4 [hd sample_calls]" by (simp add: sample_calls_def)
  ultimately show ?thesis
    using repair_loses_concurrent_posting [OF toy_sound sample_ready sample_agrees [OF empty_subsetI] l f r sample_allowed] b by simp
qed

theorem funded_vaults_reported_witness:
  "cr_invalid (fst (reconcileAllWallets toy_crypto None [''a''] [''b''] (run_calls toy_crypto [] vault_world))) = 1"
proof -
  have k: "\<forall>k \<in> set [''a'']. entity_kinds (w_store (run_calls toy_crypto [] vault_world)) k = [Wallet_Entity]"
    "\<forall>k \<in> set [''b'']. entity_kinds (w_store (run_calls toy_crypto [] vault_world)) k = [Vault_Entity]"
    by (simp_all add: run_calls_def vault_world_def entity_kinds_def sample_store_def)
  have b: "balance_of (w_store vault_world) ''b'' = 30"
    by (simp add: vault_world_def balance_of_def entity_kinds_def wallet_row_def sample_store_def)
  have "kms_ready (w_kms vault_world)" using sample_ready [of "''completed''"] by (simp add: vault_world_def)
  from funded_vaults_reported [OF toy_sound this vault_world_agrees _ k] b show ?thesis
    by (simp add: run_calls_def Let_def sel_def)
qed

end
