(* ===== verification/Banking_Engine.thy ===== *)
theory Banking_Engine
  imports Settlement_Lifecycle Internal_Settlement Fee_Classifier
begin

text \<open>
  \<open>backend/ledger/transactionEngine.ts\<close>: the processing of a payment intent. The engine
  calculates the fees (\<open>backend/ledger/regulatoryService.ts\<close>), derives the ledger legs, checks the
  budget, posts, and settles internal transfers.

  The amount of an intent is a number. The lookups of users, staff and vault roles and the names
  of wallets are given by the environment of a call, as are its ids and faults. The transitions of
  the in-memory status (created, pending, authorized, processing) are constants that the table
  allows, and the final comparison of the transaction with the intent compares values that are the
  same by construction; notifications and background checks leave no state. What the engine writes
  into the intent object is seen in the answer only.
\<close>

section \<open>Intents\<close>

record intent =
  in_amount :: rat
  in_currency :: "string option"
  in_description :: "string option"
  in_type :: string
  in_source :: "string option"
  in_target :: "string option"
  in_category_id :: "string option"
  in_category :: "jsv option"
  in_status :: "string option"
  in_reference :: "string option"
  in_recipient :: "string option"
  in_recipient_customer :: "string option"
  in_metadata :: metadata
  in_simulation :: bool

record engine_env =
  eg_tx :: string
  eg_code :: string
  eg_user_by_customer :: "string \<Rightarrow> string option"
  eg_staff_by_customer :: "string \<Rightarrow> string option"
  eg_operating_vault :: "string \<Rightarrow> string option"
  eg_wallet_name :: "string \<Rightarrow> string option"
  eg_redis_fails :: bool
  eg_fee_fault :: "js_error option"
  eg_lookup :: lookup_faults
  eg_balance_fault :: "js_error option"
  eg_post :: post_env
  eg_settle :: settle_env
  eg_status_fault :: "js_error option"

text \<open>\<open>`${v}`\<close> of a value that may be undefined.\<close>

definition shown :: "string option \<Rightarrow> string" where
  "shown v = (case v of None \<Rightarrow> ''undefined'' | Some s \<Rightarrow> s)"

definition transfer_type :: "string \<Rightarrow> bool" where
  "transfer_type t \<longleftrightarrow> t = ''INTERNAL_TRANSFER'' \<or> t = ''PEER_TRANSFER''"

section \<open>Fees\<close>

record engine_fees =
  ef_vat :: rat
  ef_fee :: rat
  ef_gov :: rat
  ef_stamp :: rat
  ef_total :: rat

definition zero_fees :: engine_fees where
  "zero_fees = \<lparr>ef_vat = 0, ef_fee = 0, ef_gov = 0, ef_stamp = 0, ef_total = 0\<rparr>"

definition intent_classification :: "intent \<Rightarrow> fee_classification" where
  "intent_classification i = classify \<lparr>ci_type = Some (JStr (js_upper (js_trim (in_type i)))), ci_category = in_category i,
     ci_category_id = first_truthy [in_metadata i ''category_id'', in_metadata i ''categoryId''], ci_metadata = in_metadata i,
     ci_channel = in_metadata i ''channel'', ci_rail = in_metadata i ''rail'',
     ci_operation = first_truthy [in_metadata i ''operation'', in_metadata i ''operation_code'']\<rparr>"

definition regulatory_fee_input :: "intent \<Rightarrow> string \<Rightarrow> fee_input" where
  "regulatory_fee_input i cur = (let cl = intent_classification i in
     \<lparr>fi_flow_code = cl_flow_code cl, fi_amount = Some (JNum (in_amount i)), fi_currency = Some cur, fi_provider_id = None,
      fi_country_code = None, fi_rail = Some (cl_rail cl), fi_channel = cl_channel cl, fi_direction = Some (cl_direction cl),
      fi_transaction_model = Some (cl_transaction_model cl), fi_category_code = cl_category_code cl, fi_category_id = cl_category_id cl,
      fi_operation_type = Some (cl_operation_type cl), fi_transaction_type = Some (cl_transaction_type cl), fi_metadata = in_metadata i\<rparr>)"

definition fees_of :: "fee_computation \<Rightarrow> engine_fees" where
  "fees_of f = \<lparr>ef_vat = fe_tax_amount f, ef_fee = fe_service_fee f, ef_gov = fe_gov_fee_amount f, ef_stamp = fe_stamp_duty f,
     ef_total = fe_total_fee f\<rparr>"

definition calculateFees :: "clock \<Rightarrow> engine_env \<Rightarrow> intent \<Rightarrow> gateway \<Rightarrow> engine_fees outcome \<times> gateway" where
  "calculateFees ck env i st =
     (let ty = js_upper (js_trim (in_type i)); cur = js_upper (js_trim (text_or_empty (in_currency i))) in
      if cur = [] then (throw (''FEE_CURRENCY_REQUIRED:'' @ (if ty = [] then ''CORE_TRANSACTION'' else ty)), st)
      else case resolveFee (ck_now ck) (eg_redis_fails env) (eg_fee_fault env) (regulatory_fee_input i cur) (gs_local st) (gs_redis st) (gs_fees st) of
          (r, l, d) \<Rightarrow> (map_sum id fees_of r, st\<lparr>gs_local := l, gs_redis := d\<rparr>))"

definition intent_fees :: "clock \<Rightarrow> engine_env \<Rightarrow> intent \<Rightarrow> gateway \<Rightarrow> engine_fees outcome \<times> gateway" where
  "intent_fees ck env i st = (if in_type i = ''FX_CONVERSION'' then (Inr zero_fees, st) else calculateFees ck env i st)"

section \<open>Resolving the wallets\<close>

definition resolve_recipient :: "engine_env \<Rightarrow> intent \<Rightarrow> intent outcome" where
  "resolve_recipient env i =
     (case (truthy_text (in_recipient i), truthy_text (in_recipient_customer i)) of
        (None, Some cid) \<Rightarrow>
          (if \<not> transfer_type (in_type i) then Inr i
           else case first_some [eg_user_by_customer env (js_trim cid), eg_staff_by_customer env (js_trim cid)] of
               None \<Rightarrow> throw (''RECIPIENT_NOT_FOUND: Customer ID '' @ cid @ '' does not exist.'')
             | Some u \<Rightarrow> Inr (i\<lparr>in_recipient := Some u\<rparr>))
      | _ \<Rightarrow> Inr i)"

definition faucet :: string where
  "faucet = ''00000000-0000-0000-0000-000000000000''"

definition resolve_source :: "engine_env \<Rightarrow> string \<Rightarrow> intent \<Rightarrow> intent" where
  "resolve_source env user i =
     (if truthy_text (in_source i) \<noteq> None then i
      else if in_type i = ''DEPOSIT'' then i\<lparr>in_source := Some faucet\<rparr>
      else case eg_operating_vault env user of None \<Rightarrow> i | Some v \<Rightarrow> i\<lparr>in_source := Some v\<rparr>)"

definition resolve_target :: "engine_env \<Rightarrow> intent \<Rightarrow> intent" where
  "resolve_target env i =
     (case truthy_text (in_recipient i) of
        Some r \<Rightarrow> if truthy_text (in_target i) = None \<and> transfer_type (in_type i)
          then (case eg_operating_vault env r of None \<Rightarrow> i | Some v \<Rightarrow> i\<lparr>in_target := Some v\<rparr>) else i
      | None \<Rightarrow> i)"

text \<open>The balance shown with the payment: a failing read ends the processing.\<close>

definition max_safe_integer :: rat where
  "max_safe_integer = 9007199254740991"

definition preview_value :: "balance_preview \<Rightarrow> jsv" where
  "preview_value p = JObj [(''available'', JNum (bp_available p)), (''required'', JNum (bp_required p)), (''sufficient'', JBool (bp_sufficient p)),
     (''wallet_name'', JStr (bp_wallet_name p)), (''wallet_id'', case bp_wallet_id p of None \<Rightarrow> JNull | Some k \<Rightarrow> JStr k),
     (''authoritative'', JBool (bp_authoritative p)), (''source_of_truth'', JStr (bp_source_of_truth p))]"

definition balance_hint :: "crypto \<Rightarrow> engine_env \<Rightarrow> rat \<Rightarrow> intent \<Rightarrow> world \<Rightarrow> (rat \<times> intent) outcome" where
  "balance_hint c env due i w =
     (if in_type i = ''DEPOSIT'' then Inr (max_safe_integer, i)
      else bind_outcome (getLatestBalance c (eg_balance_fault env) w (in_source i)) (\<lambda>b.
        let k = text_or_empty (in_source i);
            name = (case eg_wallet_name env k of Some n \<Rightarrow> n
                    | None \<Rightarrow> if md_has (in_metadata i) ''sub_wallet_type'' then md_text (in_metadata i) ''sub_wallet_type'' else ''Operating Wallet'') in
        Inr (b, i\<lparr>in_metadata := (in_metadata i)(''balance_preview'' \<mapsto> preview_value (createBalancePreview b due name (in_source i)))\<rparr>)))"

section \<open>Legs\<close>

definition positive_amount :: "rat option \<Rightarrow> bool" where
  "positive_amount x = (case x of None \<Rightarrow> False | Some a \<Rightarrow> 0 < a)"

definition engine_leg :: "string \<Rightarrow> string \<Rightarrow> rat option \<Rightarrow> string option \<Rightarrow> string \<Rightarrow> ledger_entry" where
  "engine_leg k ty a cur d = \<lparr>le_wallet = Some k, le_user = None, le_type = ty, le_amount = a, le_currency = cur, le_description = Some d\<rparr>"

definition account :: "engine_env \<Rightarrow> gateway \<Rightarrow> string \<Rightarrow> string option \<Rightarrow> string outcome" where
  "account env st role cur = resolve_account (eg_lookup env) (gs_accounts st) (w_store (gs_world st)) role (shown cur)"

text \<open>A credit to a company account, made only for a positive amount.\<close>

definition company_leg :: "engine_env \<Rightarrow> gateway \<Rightarrow> string \<Rightarrow> rat option \<Rightarrow> string option \<Rightarrow> string \<Rightarrow> ledger_entry list outcome" where
  "company_leg env st role a cur d =
     (if positive_amount a then map_sum id (\<lambda>k. [engine_leg k ''CREDIT'' a cur d]) (account env st role cur) else Inr [])"

definition addRegulatoryFeeLegs :: "engine_env \<Rightarrow> gateway \<Rightarrow> string \<Rightarrow> engine_fees \<Rightarrow> string option \<Rightarrow> ledger_entry list outcome" where
  "addRegulatoryFeeLegs env st t f cur =
     (let tax = to_fixed 4 (ef_total f - ef_fee f) in
      if tax < 0 \<or> 21 / 100000 < \<bar>tax - (ef_vat f + ef_gov f + ef_stamp f)\<bar> then throw ''FEE_COMPONENTS_NOT_BALANCED''
      else bind_outcome (company_leg env st ''SERVICE_REVENUE'' (Some (ef_fee f)) cur (''ORBI service revenue: '' @ t)) (\<lambda>a.
           bind_outcome (company_leg env st ''TAX_RESERVE'' (Some tax) cur (''Statutory tax reserve: '' @ t)) (\<lambda>b. Inr (a @ b))))"

definition fx_map :: "intent \<Rightarrow> metadata" where
  "fx_map i = md_object (in_metadata i) ''fx_details''"

definition fx_number :: "metadata \<Rightarrow> string \<Rightarrow> rat option" where
  "fx_number fx k = (case fx k of None \<Rightarrow> None | Some v \<Rightarrow> js_number v)"

definition fx_fee :: "metadata \<Rightarrow> rat option" where
  "fx_fee fx = (if md_has fx ''feeInTargetCurrency'' then fx_number fx ''feeInTargetCurrency'' else if md_has fx ''fee'' then fx_number fx ''fee'' else Some 0)"

definition fx_spread :: "metadata \<Rightarrow> rat option" where
  "fx_spread fx = number_or_zero (fx ''spreadAmount'')"

definition addFxSpreadLegs :: "engine_env \<Rightarrow> gateway \<Rightarrow> string \<Rightarrow> metadata \<Rightarrow> string option \<Rightarrow> ledger_entry list outcome" where
  "addFxSpreadLegs env st t fx cur =
     (case fx_spread fx of
        None \<Rightarrow> throw ''FX_SPREAD_INVALID''
      | Some spread \<Rightarrow>
          (if spread < 0 then throw ''FX_SPREAD_INVALID''
           else if spread = 0 then Inr []
           else let risk = map_option (\<lambda>q. min spread (max 0 q)) (number_or_zero (fx ''quotedRiskBufferAmount''));
                    margin = map_option (\<lambda>r. to_fixed 4 (spread - r)) risk in
             bind_outcome (company_leg env st ''FX_SPREAD_REVENUE'' margin cur (''FX spread margin: '' @ t)) (\<lambda>a.
             bind_outcome (company_leg env st ''FX_RISK_RESERVE'' risk cur (''FX risk reserve: '' @ t)) (\<lambda>b. Inr (a @ b)))))"

definition fx_target_debit :: "metadata \<Rightarrow> rat option" where
  "fx_target_debit fx = (case (fx_number fx ''finalAmount'', fx_spread fx, fx_fee fx) of
      (Some a, Some b, Some d) \<Rightarrow> Some (to_fixed 4 (a + b + d))
    | _ \<Rightarrow> None)"

definition source_currency :: "intent \<Rightarrow> string option" where
  "source_currency i = (if md_has (in_metadata i) ''source_currency'' then Some (md_text (in_metadata i) ''source_currency'') else in_currency i)"

definition target_currency :: "intent \<Rightarrow> string option" where
  "target_currency i = (if md_has (in_metadata i) ''target_currency'' then Some (md_text (in_metadata i) ''target_currency'') else in_currency i)"

definition cross_currency :: "intent \<Rightarrow> bool" where
  "cross_currency i \<longleftrightarrow> in_metadata i ''cross_currency'' = Some (JBool True) \<and> md_has (in_metadata i) ''fx_details''"

text \<open>What the payee gets: the amount, or its conversion over the clearing accounts.\<close>

definition payee_legs :: "engine_env \<Rightarrow> gateway \<Rightarrow> string \<Rightarrow> intent \<Rightarrow> string \<Rightarrow> string \<Rightarrow> ledger_entry list outcome" where
  "payee_legs env st t i payee label =
     (let sc = source_currency i; tc = target_currency i; fx = fx_map i; pair = shown sc @ '' -> '' @ shown tc in
      if \<not> cross_currency i then Inr [engine_leg payee ''CREDIT'' (Some (in_amount i)) sc (label @ '': '' @ shown (in_description i))]
      else bind_outcome (account env st ''FX_CLEARING'' sc) (\<lambda>sclear.
        bind_outcome (account env st ''FX_CLEARING'' tc) (\<lambda>tclear.
        bind_outcome (addFxSpreadLegs env st t fx tc) (\<lambda>spread.
        bind_outcome (company_leg env st ''SERVICE_REVENUE'' (fx_fee fx) tc (''FX Fee Collection: '' @ t)) (\<lambda>fee.
          Inr ([engine_leg sclear ''CREDIT'' (Some (in_amount i)) sc (''FX Clearing (Source): '' @ pair),
                engine_leg tclear ''DEBIT'' (fx_target_debit fx) tc (''FX Clearing (Target): '' @ pair),
                engine_leg payee ''CREDIT'' (fx_number fx ''finalAmount'') tc (label @ '' (Converted): '' @ shown (in_description i))] @
               spread @ fee))))))"

text \<open>The shift out of a goal or budget wallet books both legs in USD.\<close>

definition sub_wallet_shift :: "string \<Rightarrow> intent \<Rightarrow> rat \<Rightarrow> (ledger_entry list \<times> string)" where
  "sub_wallet_shift t i due =
     (let md = in_metadata i; src = text_or_empty (in_source i); op = md_text md ''intermediate_operating_wallet'';
          kind = (if md ''sub_wallet_type'' = None then ''undefined'' else js_text (the (md ''sub_wallet_type''))) in
      if md_has md ''is_sub_wallet_transfer'' \<and> md_has md ''intermediate_operating_wallet'' then
        ([engine_leg src ''DEBIT'' (Some due) (Some ''USD'') (''Shift from '' @ kind @ '': '' @ shown (in_description i)),
          engine_leg op ''CREDIT'' (Some due) (Some ''USD'') (''Shift Inbound from '' @ kind @ '': '' @ t)], op)
      else ([], src))"

definition escrow_vault :: "intent \<Rightarrow> world \<Rightarrow> string \<Rightarrow> string option" where
  "escrow_vault i w user = (if md_has (in_metadata i) ''source_internal_vault_id'' then Some (md_text (in_metadata i) ''source_internal_vault_id'')
     else truthy_text (w_transfer_vault w user))"

definition legs_of_intent :: "engine_env \<Rightarrow> string \<Rightarrow> intent \<Rightarrow> engine_fees \<Rightarrow> gateway \<Rightarrow> ledger_entry list outcome" where
  "legs_of_intent env user i f st =
     (let t = eg_tx env; due = in_amount i + ef_total f; sc = source_currency i; escrow = transfer_type (in_type i) in
      case sub_wallet_shift t i due of (shift, src) \<Rightarrow>
        let debit = (\<lambda>label. engine_leg src ''DEBIT'' (Some due) sc (label @ '': '' @ shown (in_description i)));
            finish = (\<lambda>label payee. bind_outcome payee (\<lambda>p.
              map_sum id (\<lambda>r. shift @ [debit label] @ p @ r) (addRegulatoryFeeLegs env st t f sc))) in
        (case truthy_text (in_target i) of
           None \<Rightarrow> finish ''Settlement'' (Inr [])
         | Some target \<Rightarrow>
             (if escrow then
                (case escrow_vault i (gs_world st) user of
                   None \<Rightarrow> throw ''INFRASTRUCTURE_ERROR: PaySafe (INTERNAL_TRANSFER) vault not found. Secure escrow is required for this operation.''
                 | Some v \<Rightarrow> finish ''PaySafe Transfer Lock'' (payee_legs env st t i v ''PaySafe Secure Lock''))
              else finish ''Settlement'' (payee_legs env st t i target ''Inbound''))))"

definition deriveLegs :: "crypto \<Rightarrow> engine_env \<Rightarrow> string \<Rightarrow> intent \<Rightarrow> engine_fees \<Rightarrow> gateway \<Rightarrow> (ledger_entry list \<times> rat \<times> intent) outcome" where
  "deriveLegs c env user i0 f st =
     bind_outcome (resolve_recipient env i0) (\<lambda>i1.
     bind_outcome (balance_hint c env (in_amount i0 + ef_total f) (resolve_target env (resolve_source env user i1)) (gs_world st)) (\<lambda>(hint, i).
     bind_outcome (legs_of_intent env user i f st) (\<lambda>legs. Inr (legs, hint, i))))"

section \<open>Processing\<close>

definition commit_type :: "string \<Rightarrow> string" where
  "commit_type t = (let l = js_lower t in
     if l = ''internal_transfer'' \<or> l = ''peer_transfer'' then ''transfer'' else if l = ''deposit'' then ''deposit''
     else if l = ''withdrawal'' then ''withdrawal'' else ''expense'')"

definition commitToCloud :: "crypto \<Rightarrow> clock \<Rightarrow> engine_env \<Rightarrow> string \<Rightarrow> intent \<Rightarrow> ledger_entry list \<Rightarrow> string \<Rightarrow> world \<Rightarrow> unit action" where
  "commitToCloud c ck env user i legs status w =
     postTransactionWithLedger c ck (eg_post env)
       \<lparr>pt_id = Some (eg_tx env), pt_reference = in_reference i, pt_user = Some user, pt_wallet = in_source i, pt_to_wallet = in_target i,
        pt_amount = in_amount i, pt_description = in_description i, pt_type = Some (commit_type (in_type i)), pt_status = Some status,
        pt_metadata = in_metadata i, pt_category = in_category_id i\<rparr> legs w"

definition held :: "intent \<Rightarrow> bool" where
  "held i \<longleftrightarrow> in_status i = Some ''held_for_review''"

definition uses_escrow :: "ledger_entry list \<Rightarrow> bool" where
  "uses_escrow legs = list_ex (\<lambda>l. case le_description l of None \<Rightarrow> False | Some d \<Rightarrow> js_includes d ''PaySafe Secure Lock'') legs"

definition initial_status :: "intent \<Rightarrow> ledger_entry list \<Rightarrow> string" where
  "initial_status i legs = (if truthy_text (in_status i) = None \<and> transfer_type (in_type i) \<and> uses_escrow legs then ''processing''
     else text_or (in_status i) ''completed'')"

text \<open>The inline settlement of a processing transfer; its errors are only logged.\<close>

definition settle_inline :: "crypto \<Rightarrow> clock \<Rightarrow> engine_env \<Rightarrow> string \<Rightarrow> world \<Rightarrow> string \<times> world" where
  "settle_inline c ck env status w =
     (if status \<noteq> ''processing'' then (status, w)
      else let w1 = snd (completeSettlement c ck (eg_settle env) (eg_tx env) None w) in
        ((case eg_status_fault env of Some e \<Rightarrow> status
          | None \<Rightarrow> (case find_tx w1 (eg_tx env) of None \<Rightarrow> status | Some x \<Rightarrow> text_or (Some (tx_status x)) status)), w1))"

record processed =
  pr_tx :: string
  pr_status :: string
  pr_intent :: intent

definition with_reference :: "engine_env \<Rightarrow> intent \<Rightarrow> intent" where
  "with_reference env i = i\<lparr>in_reference := Some (text_or (in_reference i) (''REF-'' @ eg_code env))\<rparr>"

definition process_body :: "crypto \<Rightarrow> clock \<Rightarrow> engine_env \<Rightarrow> string \<Rightarrow> intent \<Rightarrow> gateway \<Rightarrow> processed outcome \<times> gateway" where
  "process_body c ck env user i0 st =
     (let i1 = with_reference env i0 in
      case intent_fees ck env i1 st of (fr, st1) \<Rightarrow>
        (case bind_outcome fr (\<lambda>f. if held i1 then Inr ([], 0, i1) else deriveLegs c env user i1 f st1) of
           Inl e \<Rightarrow> (Inl e, st1)
         | Inr (legs, hint, i) \<Rightarrow>
             (case enforceBudgetLimits c ck user (text_or_empty (in_category_id i)) (in_amount i) (eg_tx env) (gs_world st1) of
                (Inl e, w) \<Rightarrow> (Inl e, st1\<lparr>gs_world := w\<rparr>)
              | (Inr u, w) \<Rightarrow>
                  (case commitToCloud c ck env user i legs (initial_status i legs) w of
                     (Inl e, w) \<Rightarrow> (Inl e, st1\<lparr>gs_world := w\<rparr>)
                   | (Inr u, w) \<Rightarrow>
                       (case settle_inline c ck env (initial_status i legs) w of (s, w) \<Rightarrow>
                          (Inr \<lparr>pr_tx = eg_tx env, pr_status = s, pr_intent = i\<rparr>, st1\<lparr>gs_world := w\<rparr>))))))"

text \<open>The answer: a processed transaction, or the error the caller is shown.\<close>

definition process :: "crypto \<Rightarrow> clock \<Rightarrow> engine_env \<Rightarrow> string \<Rightarrow> intent \<Rightarrow> gateway \<Rightarrow> (js_error + processed) outcome \<times> gateway" where
  "process c ck env user i st =
     (if in_simulation i then (throw ''LEDGER_SIMULATION_NOT_SUPPORTED'', st)
      else case process_body c ck env user i st of
          (Inl e, st') \<Rightarrow> (Inr (Inl (normalizeFinancialAuthorityError (thrown_of e) ''BANKING_ENGINE_PROCESS'')), st')
        | (Inr p, st') \<Rightarrow> (Inr (Inr p), st'))"

text \<open>The background check of the posted rows; its result is only logged.\<close>

definition verifyLedgerIntegrity :: "crypto \<Rightarrow> js_error option \<Rightarrow> world \<Rightarrow> string \<Rightarrow> bool \<times> string list" where
  "verifyLedgerIntegrity c fault w i =
     (let vs = getLedgerEntries c fault w i; s = view_sum vs;
          failures = (if 1 / 10000 < \<bar>s\<bar> then [''BALANCE_MISMATCH: Sum is '' @ num_text s] else []) in
      if vs = [] then (False, [''NO_LEGS_FOUND'']) else (failures = [], failures))"

end
