(* ===== verification/Engine_Properties.thy ===== *)
theory Engine_Properties
  imports Banking_Engine Settlement_Outcomes
begin

text \<open>
  Properties of the payment engine: the legs it derives balance in every currency, and the
  payments it can never post.
\<close>

section \<open>The derived legs balance\<close>

definition leg_value_in :: "string option \<Rightarrow> ledger_entry \<Rightarrow> rat" where
  "leg_value_in cur l = (if le_currency l = cur then (if js_upper (le_type l) = ''CREDIT'' then entry_value l else - entry_value l) else 0)"

definition signed_in :: "string option \<Rightarrow> ledger_entry list \<Rightarrow> rat" where
  "signed_in cur ls = (\<Sum>l\<leftarrow>ls. leg_value_in cur l)"

lemma signed_in_simps [simp]: "signed_in cur [] = 0" "signed_in cur (l # ls) = leg_value_in cur l + signed_in cur ls"
  "signed_in cur (xs @ ys) = signed_in cur xs + signed_in cur ys"
  by (simp_all add: signed_in_def)

lemma engine_leg_values [simp]:
  "leg_value_in cur (engine_leg k ''CREDIT'' a cur' d) = (if cur' = cur then (case a of None \<Rightarrow> 0 | Some x \<Rightarrow> x) else 0)"
  "leg_value_in cur (engine_leg k ''DEBIT'' a cur' d) = (if cur' = cur then - (case a of None \<Rightarrow> 0 | Some x \<Rightarrow> x) else 0)"
  by (auto simp: leg_value_in_def engine_leg_def entry_value_def sides)

lemma company_leg_signed:
  "company_leg env st role a cur' d = Inr ls \<Longrightarrow> signed_in cur ls = (if cur' = cur \<and> positive_amount a then the a else 0)"
  by (auto simp: company_leg_def positive_amount_def map_sum_def split: if_splits option.splits sum.splits)

definition fees_scaled :: "engine_fees \<Rightarrow> bool" where
  "fees_scaled f \<longleftrightarrow> scale4 (ef_fee f) \<and> scale4 (ef_total f) \<and> 0 \<le> ef_fee f"

lemma regulatory_signed:
  assumes "addRegulatoryFeeLegs env st t f cur' = Inr ls" "fees_scaled f"
  shows "signed_in cur ls = (if cur' = cur then ef_total f else 0)"
proof -
  let ?tax = "to_fixed 4 (ef_total f - ef_fee f)"
  from assms(2) have tax: "?tax = ef_total f - ef_fee f"
    by (intro to_fixed4_exact) (auto simp: fees_scaled_def)
  from assms(1) obtain a b where a: "company_leg env st ''SERVICE_REVENUE'' (Some (ef_fee f)) cur' (''ORBI service revenue: '' @ t) = Inr a"
    and b: "company_leg env st ''TAX_RESERVE'' (Some ?tax) cur' (''Statutory tax reserve: '' @ t) = Inr b"
    and ls: "ls = a @ b" and pos: "0 \<le> ?tax"
    by (auto simp: addRegulatoryFeeLegs_def Let_def bind_outcome_Inr_iff split: if_splits)
  from company_leg_signed [OF a, of cur] company_leg_signed [OF b, of cur] pos assms(2) show ?thesis
    by (auto simp: ls tax positive_amount_def fees_scaled_def)
qed

text \<open>The numbers of a conversion: present, of four decimals, with a fee that is not negative.\<close>

definition fx_ok :: "metadata \<Rightarrow> bool" where
  "fx_ok fx \<longleftrightarrow> (\<exists>a b d q. fx_number fx ''finalAmount'' = Some a \<and> scale4 a \<and> fx_spread fx = Some b \<and> scale4 b \<and>
     fx_fee fx = Some d \<and> scale4 d \<and> 0 \<le> d \<and> number_or_zero (fx ''quotedRiskBufferAmount'') = Some q \<and> scale4 q)"

lemma spread_signed:
  assumes "addFxSpreadLegs env st t fx cur' = Inr ls" "fx_spread fx = Some b" "scale4 b"
    and "number_or_zero (fx ''quotedRiskBufferAmount'') = Some q" "scale4 q"
  shows "signed_in cur ls = (if cur' = cur then b else 0)"
proof (cases "b = 0")
  case True
  with assms(1,2) show ?thesis by (simp add: addFxSpreadLegs_def)
next
  case False
  let ?r = "min b (max 0 q)"
  have r: "scale4 ?r" using assms(3,5) by (auto simp: min_def max_def)
  then have m: "to_fixed 4 (b - ?r) = b - ?r" using assms(3) by (intro to_fixed4_exact scale4_diff)
  from assms(1,2,4) False obtain x y where x: "company_leg env st ''FX_SPREAD_REVENUE'' (Some (to_fixed 4 (b - ?r))) cur' (''FX spread margin: '' @ t) = Inr x"
    and y: "company_leg env st ''FX_RISK_RESERVE'' (Some ?r) cur' (''FX risk reserve: '' @ t) = Inr y" and ls: "ls = x @ y" and pos: "0 \<le> b"
    by (auto simp: addFxSpreadLegs_def bind_outcome_Inr_iff Let_def split: if_splits)
  from company_leg_signed [OF x [unfolded m], of cur] company_leg_signed [OF y, of cur] pos show ?thesis
    by (auto simp: ls positive_amount_def)
qed

lemma payee_signed:
  assumes "payee_legs env st t i payee label = Inr ls" "cross_currency i \<longrightarrow> fx_ok (fx_map i)"
  shows "signed_in cur ls = (if source_currency i = cur then in_amount i else 0)"
proof (cases "cross_currency i")
  case False
  with assms(1) show ?thesis by (auto simp: payee_legs_def Let_def)
next
  case True
  let ?fx = "fx_map i" and ?tc = "target_currency i"
  from True assms(2) obtain a b d q where fx: "fx_number ?fx ''finalAmount'' = Some a" "scale4 a" "fx_spread ?fx = Some b" "scale4 b"
    "fx_fee ?fx = Some d" "scale4 d" "0 \<le> d" "number_or_zero (?fx ''quotedRiskBufferAmount'') = Some q" "scale4 q"
    by (auto simp: fx_ok_def)
  from assms(1) True obtain s1 s2 sp fe where sp: "addFxSpreadLegs env st t ?fx ?tc = Inr sp"
    and fe: "company_leg env st ''SERVICE_REVENUE'' (fx_fee ?fx) ?tc (''FX Fee Collection: '' @ t) = Inr fe"
    and ls: "signed_in cur ls = (if source_currency i = cur then in_amount i else 0) - (if ?tc = cur then the (fx_target_debit ?fx) else 0)
        + (if ?tc = cur then a else 0) + signed_in cur sp + signed_in cur fe"
    by (auto simp: payee_legs_def Let_def bind_outcome_Inr_iff fx fx_target_debit_def)
  have debit: "the (fx_target_debit ?fx) = a + b + d"
    using fx by (simp add: fx_target_debit_def to_fixed4_exact scale4_add)
  from spread_signed [OF sp fx(3,4,8,9), of cur] company_leg_signed [OF fe, of cur] fx(5,7) show ?thesis
    by (auto simp: ls debit positive_amount_def)
qed

lemma shift_signed: "sub_wallet_shift t i due = (shift, src) \<Longrightarrow> signed_in cur shift = 0"
  by (auto simp: sub_wallet_shift_def Let_def split: if_splits)

lemma legs_signed:
  assumes "legs_of_intent env user i f st = Inr legs" "fees_scaled f" "cross_currency i \<longrightarrow> fx_ok (fx_map i)"
  shows "signed_in cur legs = (if truthy_text (in_target i) = None \<and> source_currency i = cur then - in_amount i else 0)"
proof -
  let ?due = "in_amount i + ef_total f"
  obtain shift src where sh: "sub_wallet_shift (eg_tx env) i ?due = (shift, src)" by fastforce
  from assms(1) obtain d p r where legs: "legs = shift @ [engine_leg src ''DEBIT'' (Some ?due) (source_currency i) d] @ p @ r"
    and r: "addRegulatoryFeeLegs env st (eg_tx env) f (source_currency i) = Inr r"
    and p: "truthy_text (in_target i) = None \<and> p = [] \<or>
      (truthy_text (in_target i) \<noteq> None \<and> (\<exists>v l. payee_legs env st (eg_tx env) i v l = Inr p))"
    by (auto simp: legs_of_intent_def Let_def sh bind_outcome_Inr_iff map_sum_def split: option.splits if_splits sum.splits) blast+
  from p have "signed_in cur p = (if truthy_text (in_target i) \<noteq> None \<and> source_currency i = cur then in_amount i else 0)"
    using payee_signed [OF _ assms(3)] by auto
  with regulatory_signed [OF r assms(2), of cur] shift_signed [OF sh, of cur] show ?thesis by (simp add: legs)
qed

text \<open>What the resolution steps keep of an intent.\<close>

definition same_payment :: "intent \<Rightarrow> intent \<Rightarrow> bool" where
  "same_payment i j \<longleftrightarrow> in_amount j = in_amount i \<and> in_type j = in_type i \<and>
     (truthy_text (in_target i) \<noteq> None \<or> \<not> transfer_type (in_type i) \<longrightarrow> in_target j = in_target i)"

lemma same_payment_trans: "same_payment i j \<Longrightarrow> same_payment j k \<Longrightarrow> same_payment i k"
  by (auto simp: same_payment_def)

lemma recipient_keeps: "resolve_recipient env i = Inr j \<Longrightarrow> same_payment i j"
  by (auto simp: resolve_recipient_def same_payment_def split: option.splits if_splits)

lemma source_keeps: "same_payment i (resolve_source env user i)"
  by (simp add: resolve_source_def same_payment_def split: option.splits)

lemma target_keeps: "same_payment i (resolve_target env i)"
  by (simp add: resolve_target_def same_payment_def split: option.splits)

lemma hint_keeps:
  assumes "balance_hint c env due i w = Inr (h, j)"
  shows "same_payment i j \<and> in_source j = in_source i"
  using assms unfolding balance_hint_def Let_def same_payment_def
  by (cases "in_type i = ''DEPOSIT''") (simp_all only: if_True if_False, auto simp: bind_outcome_Inr_iff)

lemma derive_split:
  assumes "deriveLegs c env user i0 f st = Inr (legs, hint, i)"
  shows "same_payment i0 i \<and> legs_of_intent env user i f st = Inr legs"
proof -
  from assms obtain i1 h j where i1: "resolve_recipient env i0 = Inr i1"
    and j: "balance_hint c env (in_amount i0 + ef_total f) (resolve_target env (resolve_source env user i1)) (gs_world st) = Inr (h, j)"
    and l: "legs_of_intent env user j f st = Inr legs" "j = i"
    by (auto simp: deriveLegs_def bind_outcome_Inr_iff)
  from same_payment_trans [OF recipient_keeps [OF i1] same_payment_trans [OF source_keeps same_payment_trans [OF target_keeps conjunct1 [OF hint_keeps [OF j]]]]]
  show ?thesis using l by simp
qed

text \<open>A deposit of 20 USD converted into 49000 TZS for wallet b, with a spread, a risk reserve, a fee and a tax.\<close>

definition sample_fx :: jsv where
  "sample_fx = JObj [(''finalAmount'', JNum 49000), (''spreadAmount'', JNum 700), (''quotedRiskBufferAmount'', JNum 200),
     (''feeInTargetCurrency'', JNum 300)]"

definition sample_intent :: intent where
  "sample_intent = \<lparr>in_amount = 20, in_currency = Some ''USD'', in_description = Some ''top up'', in_type = ''DEPOSIT'', in_source = None,
     in_target = Some ''b'', in_category_id = None, in_category = None, in_status = None, in_reference = None, in_recipient = None,
     in_recipient_customer = None, in_metadata = [''cross_currency'' \<mapsto> JBool True, ''target_currency'' \<mapsto> JStr ''TZS'',
       ''fx_details'' \<mapsto> sample_fx], in_simulation = False\<rparr>"

definition sample_engine_env :: engine_env where
  "sample_engine_env = \<lparr>eg_tx = ''t2'', eg_code = ''C2'', eg_user_by_customer = Map.empty, eg_staff_by_customer = Map.empty,
     eg_operating_vault = Map.empty, eg_wallet_name = Map.empty, eg_redis_fails = False, eg_fee_fault = None,
     eg_lookup = \<lparr>lf_account = None, lf_vault = None\<rparr>, eg_balance_fault = None, eg_post = sample_post_env ''t2'',
     eg_settle = sample_settle ''s2'' Rpc_Ok, eg_status_fault = None\<rparr>"

definition company_account :: "string \<Rightarrow> string \<Rightarrow> settlement_account" where
  "company_account role cur = \<lparr>sa_role = role, sa_currency = cur, sa_status = ''ACTIVE'', sa_vault = Some cur\<rparr>"

definition company_vault :: "string \<Rightarrow> entity" where
  "company_vault cur = (wallet_row 0 ''company'')\<lparr>ent_currency := Some cur\<rparr>"

definition sample_engine :: gateway where
  "sample_engine = (sample_gateway Internally_Settled)\<lparr>
     gs_world := gateway_world\<lparr>w_store := (w_store gateway_world)\<lparr>st_vaults := [''USD'' \<mapsto> company_vault ''USD'', ''TZS'' \<mapsto> company_vault ''TZS'']\<rparr>\<rparr>,
     gs_accounts := [company_account ''FX_CLEARING'' ''USD'', company_account ''FX_CLEARING'' ''TZS'',
     company_account ''FX_SPREAD_REVENUE'' ''TZS'', company_account ''FX_RISK_RESERVE'' ''TZS'', company_account ''SERVICE_REVENUE'' ''TZS'',
     company_account ''SERVICE_REVENUE'' ''USD'', company_account ''TAX_RESERVE'' ''USD'']\<rparr>"

definition sample_fees :: engine_fees where
  "sample_fees = \<lparr>ef_vat = 1, ef_fee = 2, ef_gov = 0, ef_stamp = 0, ef_total = 3\<rparr>"

text \<open>C20: For a payment with a payee the engine derives legs that balance in every currency: the clearing
  legs of a conversion, the spread and its two reserves, the fees and taxes and the shift out of a
  sub-wallet each cancel exactly, so the zero-sum checks of the posting hold.\<close>

theorem derived_legs_balance:
  assumes "deriveLegs c env user i0 f st = Inr (legs, hint, i)" and "truthy_text (in_target i) \<noteq> None"
    and "fees_scaled f" and "cross_currency i \<longrightarrow> fx_ok (fx_map i)"
  shows "signed_in cur legs = 0"
  using legs_signed [OF _ assms(3,4), of env user st legs cur] derive_split [OF assms(1)] assms(2) by simp

theorem derived_legs_balance_witness:
  "\<exists>legs hint i. deriveLegs toy_crypto sample_engine_env ''u2'' sample_intent sample_fees sample_engine = Inr (legs, hint, i) \<and>
     length legs = 9 \<and> signed_in (Some ''TZS'') legs = 0"
proof -
  let ?d = "deriveLegs toy_crypto sample_engine_env ''u2'' sample_intent sample_fees sample_engine"
  have "case deriveLegs c sample_engine_env ''u2'' sample_intent sample_fees sample_engine of Inl e \<Rightarrow> False
      | Inr (legs, h, i) \<Rightarrow> length legs = 9 \<and> truthy_text (in_target i) \<noteq> None \<and> in_metadata i ''fx_details'' = Some sample_fx" for c
    by code_simp
  from this [of toy_crypto] obtain legs hint i where d: "?d = Inr (legs, hint, i)" "length legs = 9" "truthy_text (in_target i) \<noteq> None" "in_metadata i ''fx_details'' = Some sample_fx"
    by (cases ?d) (auto split: prod.splits)
  have "fees_scaled sample_fees" by (simp add: fees_scaled_def sample_fees_def)
  moreover have "fx_map i = md_object [''fx_details'' \<mapsto> sample_fx] ''fx_details''"
    using d(4) by (simp add: fx_map_def md_object_def)
  moreover have "(let fx = md_object [''fx_details'' \<mapsto> sample_fx] ''fx_details'' in fx_number fx ''finalAmount'' = Some 49000 \<and>
      fx_spread fx = Some 700 \<and> fx_fee fx = Some 300 \<and> number_or_zero (fx ''quotedRiskBufferAmount'') = Some 200)" by code_simp
  ultimately have "fees_scaled sample_fees" "fx_ok (fx_map i)" by (simp_all add: fx_ok_def Let_def)
  then show ?thesis using derived_legs_balance [OF d(1,3)] d(1,2) by simp
qed

section \<open>Payments that cannot be posted\<close>

lemma entry_total_leg [simp]:
  "entry_total (engine_leg k ''CREDIT'' a cur d # ls) = (if k = [] then 0 else case a of None \<Rightarrow> 0 | Some x \<Rightarrow> x) + entry_total ls"
  "entry_total (engine_leg k ''DEBIT'' a cur d # ls) = (if k = [] then 0 else - (case a of None \<Rightarrow> 0 | Some x \<Rightarrow> x)) + entry_total ls"
  by (simp_all add: entry_total_def entry_wallet_def entry_signed_def entry_value_def engine_leg_def sides)

lemma company_leg_total:
  "company_leg env st role a cur d = Inr ls \<Longrightarrow> entry_total ls = (if positive_amount a then the a else 0) \<and>
     list_all (\<lambda>l. entry_value l = (if positive_amount a then the a else 0)) ls"
  using resolve_account_nonempty
  by (fastforce simp: company_leg_def account_def positive_amount_def map_sum_def entry_value_def engine_leg_def
      entry_total_def entry_wallet_def entry_signed_def sides split: if_splits option.splits sum.splits)

lemma regulatory_total:
  assumes "addRegulatoryFeeLegs env st t f cur = Inr ls" "fees_scaled f"
  shows "entry_total ls = ef_total f \<and> list_all (\<lambda>l. scale4 (entry_value l)) ls"
proof -
  let ?tax = "to_fixed 4 (ef_total f - ef_fee f)"
  from assms(2) have tax: "?tax = ef_total f - ef_fee f" and sc: "scale4 (ef_fee f)"
    by (auto simp: fees_scaled_def intro!: to_fixed4_exact)
  from assms(1) obtain a b where a: "company_leg env st ''SERVICE_REVENUE'' (Some (ef_fee f)) cur (''ORBI service revenue: '' @ t) = Inr a"
    and b: "company_leg env st ''TAX_RESERVE'' (Some ?tax) cur (''Statutory tax reserve: '' @ t) = Inr b"
    and ls: "ls = a @ b" and pos: "0 \<le> ?tax"
    by (auto simp: addRegulatoryFeeLegs_def Let_def bind_outcome_Inr_iff split: if_splits)
  from company_leg_total [OF a] sc have "list_all (\<lambda>l. scale4 (entry_value l)) a" by (auto simp: list_all_iff)
  moreover from company_leg_total [OF b] have "list_all (\<lambda>l. scale4 (entry_value l)) b" by (auto simp: list_all_iff)
  moreover have "entry_total ls = ef_total f"
    using company_leg_total [OF a] company_leg_total [OF b] pos assms(2) by (auto simp: ls tax positive_amount_def fees_scaled_def)
  ultimately show ?thesis by (simp add: ls)
qed

text \<open>Without a payee only the payer's debit and the fee credits are left: the amount is missing.\<close>

lemma payeeless_total:
  assumes "legs_of_intent env user i f st = Inr legs" "fees_scaled f" "truthy_text (in_target i) = None" "scale4 (in_amount i)"
    and "truthy_text (in_source i) \<noteq> None"
  shows "entry_total legs = - in_amount i \<and> list_all (\<lambda>l. scale4 (entry_value l)) legs"
proof -
  let ?due = "in_amount i + ef_total f"
  obtain shift src where sh: "sub_wallet_shift (eg_tx env) i ?due = (shift, src)" by fastforce
  from assms(1,3) obtain d r where legs: "legs = shift @ [engine_leg src ''DEBIT'' (Some ?due) (source_currency i) d] @ r"
    and r: "addRegulatoryFeeLegs env st (eg_tx env) f (source_currency i) = Inr r"
    by (auto simp: legs_of_intent_def Let_def sh map_sum_def split: sum.splits)
  have due: "scale4 ?due" using assms(2,4) by (auto simp: fees_scaled_def)
  have src: "text_or_empty (in_source i) \<noteq> []"
    using assms(5) by (auto simp: truthy_text_def text_or_empty_def split: option.splits if_splits)
  have "entry_total shift + (if src = [] then 0 else - ?due) = - ?due \<and> list_all (\<lambda>l. scale4 (entry_value l)) shift"
    using sh due src by (auto simp: sub_wallet_shift_def Let_def engine_leg_def entry_value_def entry_total_def entry_wallet_def entry_signed_def sides split: if_splits)
  with regulatory_total [OF r assms(2)] due show ?thesis
    by (auto simp: legs engine_leg_def entry_value_def entry_total_def entry_wallet_def entry_signed_def sides)
qed

lemma fees_keep:
  assumes "intent_fees ck env i st = (r, st')"
  shows "gs_world st' = gs_world st \<and> (\<forall>f. r = Inr f \<and> 0 \<le> ef_fee f \<longrightarrow> fees_scaled f)"
proof -
  have "scale4 (fe_service_fee f) \<and> scale4 (fe_total_fee f)" if "resolveFee now rf x fi l d db = (Inr f, l', d')" for now rf x fi l d db f l' d'
    using that
    by (auto simp: resolveFee_def Let_def bind_outcome_Inr_iff fee_from_configs_def computeFromConfig_def service_fee_scale4
        split: if_splits prod.splits option.splits)
  with assms show ?thesis
    by (auto simp: intent_fees_def calculateFees_def Let_def fees_of_def zero_fees_def fees_scaled_def map_sum_def
        split: if_splits prod.splits sum.splits)
qed

lemma with_reference_keeps [simp]: "same_payment i (with_reference env i)" "held (with_reference env i) = held i"
  by (simp_all add: same_payment_def with_reference_def held_def)

lemma fees_reference [simp]: "intent_fees ck env (with_reference env i) st = intent_fees ck env i st"
proof -
  have "regulatory_fee_input (with_reference env i) cur = regulatory_fee_input i cur" for cur
    by (simp add: regulatory_fee_input_def intent_classification_def with_reference_def)
  then show ?thesis by (simp add: intent_fees_def calculateFees_def Let_def with_reference_def)
qed

lemma budget_keeps: "enforceBudgetLimits c ck user cat a t w = (r, w') \<Longrightarrow> w_store w' = w_store w \<and> w_kms w' = w_kms w"
proof -
  have "budget_body c ck user cat a t w = (r, w') \<Longrightarrow> w_store w' = w_store w \<and> w_kms w' = w_kms w" for r w'
    unfolding budget_body_def Let_def add_alert_def
    by (simp only: split: option.splits sum.splits if_splits) auto
  then show "enforceBudgetLimits c ck user cat a t w = (r, w') \<Longrightarrow> w_store w' = w_store w \<and> w_kms w' = w_kms w"
    by (auto simp: enforceBudgetLimits_def split: if_splits prod.splits sum.splits)
qed

lemma derive_source:
  assumes "deriveLegs c env user i0 f st = Inr (legs, hint, i)"
  shows "truthy_text (in_source i) \<noteq> None"
proof -
  from assms obtain i1 h where
    j: "balance_hint c env (in_amount i0 + ef_total f) (resolve_target env (resolve_source env user i1)) (gs_world st) = Inr (h, i)"
    by (auto simp: deriveLegs_def bind_outcome_Inr_iff)
  let ?j = "resolve_target env (resolve_source env user i1)"
  have src: "in_source ?j = in_source (resolve_source env user i1)" by (simp add: resolve_target_def split: option.splits)
  have ty: "in_type ?j = in_type i1" using source_keeps [of i1 env user] target_keeps [of "resolve_source env user i1" env]
    by (simp add: same_payment_def)
  have "truthy_text (in_source ?j) \<noteq> None"
  proof (cases "in_type i1 = ''DEPOSIT''")
    case True
    have "truthy_text (Some faucet) = Some faucet" by (simp add: truthy_text_def faucet_def)
    then have "truthy_text (in_source (resolve_source env user i1)) \<noteq> None"
      unfolding resolve_source_def using True by (cases "truthy_text (in_source i1)") simp_all
    then show ?thesis by (subst src)
  next
    case False
    with j ty obtain b where "getLatestBalance c (eg_balance_fault env) (gs_world st) (in_source ?j) = Inr b"
      unfolding balance_hint_def by (simp only: if_False) (auto simp: bind_outcome_Inr_iff)
    then show ?thesis by (auto simp: getLatestBalance_def truthy_text_def split: option.splits if_splits)
  qed
  with hint_keeps [OF j] show ?thesis by simp
qed

text \<open>A posting whose legs do not cancel, or that has none, changes nothing.\<close>

lemma unbalanced_refused:
  assumes "crypto_sound c" "kms_ready (w_kms w)" "agrees T c (w_kms w) (w_store w)" "list_all (\<lambda>l. scale4 (entry_value l)) ls"
    and "ls = [] \<or> entry_total ls \<noteq> 0" "postTransactionWithLedger c ck env t ls w = (r, w')"
  shows "isl r \<and> w_store w' = w_store w"
proof -
  have no: "\<not> (commit_args c ck env t ls w = Inr a \<and> post_transaction_v2 (w_store w) a = Inr s')" for a s'
  proof
    assume a: "commit_args c ck env t ls w = Inr a \<and> post_transaction_v2 (w_store w) a = Inr s'"
    with posted_moves(2) [OF assms(1,2,4,3), of ck env t a s'] assms(5) have "ls = []" by blast
    with commit_args_legs [of c ck env t ls w a] a have "pa_legs a = []" by (simp add: legs_for_def entry_wallets_def Let_def distinct_first_def)
    with a show False by (simp add: post_transaction_v2_def)
  qed
  with post_store_cases [OF assms(6)] have "w_store w' = w_store w" by blast
  moreover have "isl r"
  proof (rule ccontr)
    assume "\<not> isl r"
    then obtain u where "r = Inr u" by (cases r) auto
    with post_ok [of c ck env t ls w u w'] assms(6) no show False by blast
  qed
  ultimately show ?thesis by blast
qed

text \<open>Two kinds of payments can never be processed, whatever the accounts hold: a payment that is to be
  held for review, which is posted without legs, and a payment to the outside, which has no payee wallet, so
  that its legs lack the amount. The answer is an error and no money moves.\<close>

theorem unpostable_payments:
  assumes "crypto_sound c" and "kms_ready (w_kms (gs_world st))" and "agrees {} c (w_kms (gs_world st)) (w_store (gs_world st))"
    and "\<not> in_simulation i0" and "scale4 (in_amount i0)" and "0 < in_amount i0"
    and "held i0 \<or> truthy_text (in_target i0) = None \<and> \<not> transfer_type (in_type i0)"
    and "\<forall>f. fst (intent_fees ck env i0 st) = Inr f \<longrightarrow> 0 \<le> ef_fee f"
  shows "\<exists>e st'. process c ck env user i0 st = (Inr (Inl e), st') \<and> w_store (gs_world st') = w_store (gs_world st)"
proof -
  let ?i = "with_reference env i0"
  obtain fr st1 where f: "intent_fees ck env i0 st = (fr, st1)" by fastforce
  note w1 = fees_keep [OF f]
  let ?legs = "bind_outcome fr (\<lambda>f. if held ?i then Inr ([], 0, ?i) else deriveLegs c env user ?i f st1)"
  have "\<exists>e st'. process_body c ck env user i0 st = (Inl e, st') \<and> w_store (gs_world st') = w_store (gs_world st)"
  proof (cases ?legs)
    case (Inl e)
    then show ?thesis using w1 unfolding process_body_def Let_def by (simp add: f del: with_reference_keeps(2))
  next
    case (Inr x)
    obtain legs hint i where x: "x = (legs, hint, i)" by (cases x) auto
    from Inr obtain g where g: "fr = Inr g" by (cases fr) auto
    with w1 assms(8) f have sc: "fees_scaled g" by simp
    have bad: "(legs = [] \<or> entry_total legs \<noteq> 0) \<and> list_all (\<lambda>l. scale4 (entry_value l)) legs"
    proof (cases "held ?i")
      case True
      with Inr x g show ?thesis by simp
    next
      case False
      with Inr x g have d: "deriveLegs c env user ?i g st1 = Inr (legs, hint, i)" by simp
      from False assms(7) have t: "truthy_text (in_target i0) = None" "\<not> transfer_type (in_type i0)" by simp_all
      from same_payment_trans [OF with_reference_keeps(1) conjunct1 [OF derive_split [OF d]]] conjunct2 [OF derive_split [OF d]] t assms(5,6) have k: "in_amount i = in_amount i0" "truthy_text (in_target i) = None"
        "legs_of_intent env user i g st1 = Inr legs" by (simp_all add: same_payment_def)
      from payeeless_total [OF k(3) sc k(2) _ derive_source [OF d]] assms(5,6) k(1) show ?thesis by simp
    qed
    obtain br w where b: "enforceBudgetLimits c ck user (text_or_empty (in_category_id i)) (in_amount i) (eg_tx env) (gs_world st1) = (br, w)"
      by fastforce
    from budget_keeps [OF b] w1 have w: "w_store w = w_store (gs_world st)" "w_kms w = w_kms (gs_world st)" by simp_all
    obtain pr w2 where p: "commitToCloud c ck env user i legs (initial_status i legs) w = (pr, w2)" by fastforce
    have "isl pr \<and> w_store w2 = w_store w"
      by (rule unbalanced_refused [OF assms(1) _ _ conjunct2 [OF bad] conjunct1 [OF bad] p [unfolded commitToCloud_def]])
        (use assms(2,3) w in simp_all)
    moreover note body = process_body_def [of c ck env user i0 st, unfolded Let_def fees_reference f prod.case Inr x sum.case b]
    ultimately show ?thesis using w w1 by (cases br; cases pr) (simp_all add: body p)
  qed
  then show ?thesis using assms(4) by (auto simp: process_def)
qed

definition sample_withdrawal :: intent where
  "sample_withdrawal = sample_intent\<lparr>in_type := ''WITHDRAWAL'', in_currency := Some ''TZS'', in_source := Some ''b'', in_target := None,
     in_metadata := Map.empty\<rparr>"

definition withdrawal_gateway :: gateway where
  "withdrawal_gateway = (sample_gateway Internally_Settled)\<lparr>gs_fees := [sample_fee\<lparr>fc_flow_code := ''WITHDRAWAL''\<rparr>]\<rparr>"

theorem unpostable_payments_witness:
  "\<exists>e st'. process toy_crypto sample_clock sample_engine_env ''u2'' sample_withdrawal withdrawal_gateway = (Inr (Inl e), st') \<and>
     balance_of (w_store (gs_world st')) ''b'' = 30"
proof -
  have w: "gs_world withdrawal_gateway = gs_world (sample_gateway Internally_Settled)" by (simp add: withdrawal_gateway_def)
  have i: "\<not> in_simulation sample_withdrawal" "scale4 (in_amount sample_withdrawal)" "0 < in_amount sample_withdrawal"
    "held sample_withdrawal \<or> truthy_text (in_target sample_withdrawal) = None \<and> \<not> transfer_type (in_type sample_withdrawal)"
    by (simp_all add: sample_intent_def sample_withdrawal_def truthy_text_def transfer_type_def)
  have "case fst (intent_fees sample_clock sample_engine_env sample_withdrawal withdrawal_gateway) of Inl e \<Rightarrow> False
      | Inr f \<Rightarrow> ef_fee f = 1 \<and> 0 \<le> ef_fee f" by code_simp
  then have f: "\<forall>f. fst (intent_fees sample_clock sample_engine_env sample_withdrawal withdrawal_gateway) = Inr f \<longrightarrow> 0 \<le> ef_fee f"
    by auto
  have "kms_ready (w_kms (gs_world withdrawal_gateway))" "agrees {} toy_crypto (w_kms (gs_world withdrawal_gateway)) (w_store (gs_world withdrawal_gateway))"
    by (simp_all only: w gateway_ready gateway_agrees)
  from unpostable_payments [OF toy_sound this i f, of "''u2''"] obtain e st' where
    "process toy_crypto sample_clock sample_engine_env ''u2'' sample_withdrawal withdrawal_gateway = (Inr (Inl e), st')"
    "w_store (gs_world st') = w_store (gs_world (sample_gateway Internally_Settled))" unfolding w by blast
  then show ?thesis by (auto simp: gateway_balance)
qed

end
