(* ===== verification/PaySafe_Escrow.thy ===== *)
theory PaySafe_Escrow
  imports Internal_Settlement Platform_Fee Settlement_Accounts
begin

text \<open>
  PaySafe escrow: the agreement table, the trigger that creates an agreement with its transaction and
  the procedure \<open>transition_paysafe_escrow_v1\<close> of \<open>database/main.sql\<close>, and the operations of
  \<open>ledger/escrowService.ts\<close> on top of them. The procedure returns the new state or raises, which rolls it
  back. The settlement of merchant escrows is a procedure of its own, in \<open>PaySafe_Merchant\<close>.

  Notifications and audit entries leave no state and are left out. The trigger's own exceptions (an
  incomplete metadata, an unknown receiver) cannot be raised by the metadata the service builds.
\<close>

section \<open>State\<close>

datatype escrow_status = Held | Release_Pending | Return_Pending | Released | Disputed | Refunded

fun escrow_text :: "escrow_status \<Rightarrow> string" where
  "escrow_text Held = ''HELD''"
| "escrow_text Release_Pending = ''RELEASE_PENDING''"
| "escrow_text Return_Pending = ''RETURN_PENDING''"
| "escrow_text Released = ''RELEASED''"
| "escrow_text Disputed = ''DISPUTED''"
| "escrow_text Refunded = ''REFUNDED''"

record agreement =
  ag_id :: string
  ag_tx :: string
  ag_reference :: string
  ag_sender :: string
  ag_receiver :: string
  ag_source_vault :: "string option"
  ag_escrow_vault :: "string option"
  ag_receiver_vault :: "string option"
  ag_merchant :: "string option"
  ag_service :: "string option"
  ag_amount :: rat
  ag_currency :: string
  ag_conditions :: metadata
  ag_status :: escrow_status
  ag_metadata :: metadata
  ag_dispute :: metadata
  ag_expires :: "int option"
  ag_release_at :: "int option"
  ag_release_by :: "string option"
  ag_accepted_at :: "int option"
  ag_accepted_by :: "string option"
  ag_released_at :: "int option"
  ag_refunded_at :: "int option"
  ag_disputed_at :: "int option"

text \<open>The tables the settlement of merchant escrows adds.\<close>

record merchant =
  mc_owner :: "string option"
  mc_status :: string

record merchant_wallet =
  mw_id :: string
  mw_merchant :: string
  mw_type :: string
  mw_primary :: bool
  mw_balance :: rat
  mw_currency :: "string option"
  mw_status :: string

record merchant_settlement =
  ms_id :: string
  ms_agreement :: string
  ms_tx :: string
  ms_merchant :: string
  ms_wallet :: string
  ms_gross :: rat
  ms_fee :: rat
  ms_tax :: rat
  ms_net :: rat
  ms_currency :: string
  ms_status :: string

text \<open>
  The state: the ledger service's, the agreements, the role of each platform vault and the vault
  ids in the order of their creation, and the tables of merchants, company accounts and fees.
\<close>

record paysafe =
  ps_world :: world
  ps_agreements :: "agreement list"
  ps_role :: "string \<Rightarrow> string option"
  ps_vaults :: "string list"
  ps_merchants :: "string \<Rightarrow> merchant option"
  ps_merchant_wallets :: "merchant_wallet list"
  ps_settlements :: "merchant_settlement list"
  ps_accounts :: "settlement_account list"
  ps_fees :: "fee_config list"
  ps_local :: fee_cache
  ps_redis :: "fee_cache option"

definition escrow_row :: "paysafe \<Rightarrow> string \<Rightarrow> agreement option" where
  "escrow_row s r = single (sel (\<lambda>a. ag_reference a = r) (ps_agreements s))"

definition set_agreement :: "string \<Rightarrow> (agreement \<Rightarrow> agreement) \<Rightarrow> paysafe \<Rightarrow> paysafe" where
  "set_agreement i f s = s\<lparr>ps_agreements := upd (\<lambda>a. ag_id a = i) f (ps_agreements s)\<rparr>"

text \<open>\<open>metadata || jsonb_build_object(...)\<close>.\<close>

definition md_put :: "metadata \<Rightarrow> (string \<times> jsv) list \<Rightarrow> metadata" where
  "md_put md kvs = md ++ map_of kvs"

definition jopt :: "string option \<Rightarrow> jsv" where
  "jopt v = (case v of None \<Rightarrow> JNull | Some x \<Rightarrow> JStr x)"

text \<open>Every transition of the procedure moves the transaction to a status with a note and logs it.\<close>

definition set_escrow_tx :: "clock \<Rightarrow> tx_row \<Rightarrow> string \<Rightarrow> string \<Rightarrow> string option \<Rightarrow> (string \<times> jsv) list \<Rightarrow> paysafe \<Rightarrow> paysafe" where
  "set_escrow_tx ck t actor status notes kvs s = s\<lparr>ps_world := log_event (tx_id t) (Some (tx_status t)) status actor
     (update_tx (tx_id t) (\<lambda>x. x\<lparr>tx_status := status, tx_notes := notes, tx_metadata := md_put (tx_metadata x) kvs,
        tx_updated := ck_now ck\<rparr>) (ps_world s))\<rparr>"

definition stamp_of :: "clock \<Rightarrow> int \<Rightarrow> jsv" where
  "stamp_of ck t = JStr (ck_iso ck t)"

definition accepted :: "agreement \<Rightarrow> bool" where
  "accepted a \<longleftrightarrow> ag_accepted_at a \<noteq> None \<or> ag_accepted_by a \<noteq> None"

definition window_over :: "clock \<Rightarrow> agreement \<Rightarrow> bool" where
  "window_over ck a \<longleftrightarrow> (case ag_expires a of None \<Rightarrow> False | Some t \<Rightarrow> t < ck_now ck)"

record escrow_answer =
  ea_status :: string
  ea_idempotent :: bool
  ea_auto_refund :: "int option"

definition answer_of :: "string \<Rightarrow> bool \<Rightarrow> escrow_answer" where
  "answer_of st idem = \<lparr>ea_status = st, ea_idempotent = idem, ea_auto_refund = None\<rparr>"

type_synonym escrow_result = "(escrow_answer \<times> paysafe) outcome"

section \<open>The vaults\<close>

definition vault_currency :: "entity \<Rightarrow> string" where
  "vault_currency e = js_upper (case ent_currency e of None \<Rightarrow> ''TZS'' | Some c \<Rightarrow> c)"

definition vault_of :: "paysafe \<Rightarrow> string \<Rightarrow> string \<Rightarrow> string option \<Rightarrow> (string \<times> entity) option" where
  "vault_of s role owner k =
     (case k of None \<Rightarrow> None
      | Some i \<Rightarrow> (case st_vaults (w_store (ps_world s)) i of None \<Rightarrow> None
          | Some e \<Rightarrow> if ent_owner e = Some owner \<and> ps_role s i = Some role \<and> \<not> lock_blocked e then Some (i, e) else None))"

text \<open>The oldest usable operating vault of a user in the currency.\<close>

definition operating_vault :: "paysafe \<Rightarrow> string \<Rightarrow> string \<Rightarrow> string option" where
  "operating_vault s owner cur = find (\<lambda>i. case vault_of s ''OPERATING'' owner (Some i) of None \<Rightarrow> False
     | Some (k, e) \<Rightarrow> vault_currency e = js_upper cur) (ps_vaults s)"

definition set_vault_balance :: "string \<Rightarrow> rat \<Rightarrow> store \<Rightarrow> store" where
  "set_vault_balance i b st = st\<lparr>st_vaults := (st_vaults st)(i := map_option (\<lambda>e. e\<lparr>ent_balance := b\<rparr>) (st_vaults st i))\<rparr>"

section \<open>Moving the money\<close>

definition paysafe_key :: "agreement \<Rightarrow> string \<Rightarrow> string" where
  "paysafe_key a action = ''paysafe:'' @ ag_id a @ '':'' @ js_lower action @ '':v1''"

text \<open>\<open>INITCAP(LOWER(action))\<close> of the two actions.\<close>

definition action_title :: "string \<Rightarrow> string" where
  "action_title action = (case js_lower action of [] \<Rightarrow> [] | c # r \<Rightarrow> upper_char c # r)"

definition escrow_ledger_row :: "store \<Rightarrow> tx_row \<Rightarrow> string \<Rightarrow> string \<Rightarrow> string \<Rightarrow> rat \<Rightarrow> string \<Rightarrow> ledger_row" where
  "escrow_ledger_row st t user vault ty b d = \<lparr>lr_tx = tx_id t, lr_user = resolve_financial_ledger_wallet_owner st vault (Some user),
     lr_wallet = vault, lr_type = ty, lr_amount = tx_amount t, lr_balance_after = b, lr_description = Some d, lr_currency = None,
     lr_side = None\<rparr>"

text \<open>The store after the marker, the two balances and the two rows.\<close>

definition escrow_booked :: "string \<Rightarrow> string \<Rightarrow> agreement \<Rightarrow> tx_row \<Rightarrow> string \<times> entity \<Rightarrow> string \<times> entity \<Rightarrow> string \<Rightarrow> store \<Rightarrow> store" where
  "escrow_booked action ref a t ev tv target_user st =
     (let eb = to_fixed 4 (ent_balance (snd ev) - ag_amount a); tb = to_fixed 4 (ent_balance (snd tv) + ag_amount a);
          d = ''PaySafe '' @ action_title action @ '': '' @ ref;
          st1 = set_vault_balance (fst tv) tb (set_vault_balance (fst ev) eb st) in
      st1\<lparr>st_markers := st_markers st @ [\<lparr>mk_tx = tx_id t, mk_key = Some (paysafe_key a action), mk_phase = Some (''PAYSAFE_'' @ action)\<rparr>],
        st_ledger := st_ledger st @ [escrow_ledger_row st t (ag_sender a) (fst ev) ''DEBIT'' eb d,
                                     escrow_ledger_row st t target_user (fst tv) ''CREDIT'' tb d]\<rparr>)"

definition escrow_closed :: "clock \<Rightarrow> string \<Rightarrow> string \<Rightarrow> string option \<Rightarrow> string \<Rightarrow> agreement \<Rightarrow> agreement" where
  "escrow_closed ck action actor reason target a =
     (let rel = (action = ''RELEASE''); final = (if rel then Released else Refunded) in
      a\<lparr>ag_status := final, ag_receiver_vault := (if rel then Some target else ag_receiver_vault a),
        ag_released_at := (if rel then Some (ck_now ck) else ag_released_at a),
        ag_refunded_at := (if action = ''REFUND'' then Some (ck_now ck) else ag_refunded_at a),
        ag_metadata := md_put (ag_metadata a) [(''last_action'', JStr action), (''last_actor_id'', JStr actor),
          (''last_action_at'', stamp_of ck (ck_now ck)), (''target_vault_id'', JStr target), (''reason'', jopt reason),
          (''escrow_status'', JStr (escrow_text final))]\<rparr>)"

definition closed_state ::
    "clock \<Rightarrow> string \<Rightarrow> string \<Rightarrow> string \<Rightarrow> string option \<Rightarrow> string \<Rightarrow> agreement \<Rightarrow> tx_row \<Rightarrow> string \<times> entity \<Rightarrow> string \<times> entity \<Rightarrow> paysafe \<Rightarrow> paysafe" where
  "closed_state ck ref actor action reason target_user a t ev tv s =
     (let final = (if action = ''RELEASE'' then ''RELEASED'' else ''REFUNDED'') in
      set_escrow_tx ck t actor (if action = ''RELEASE'' then ''completed'' else ''refunded'')
        (Some (text_or (nonblank reason) (''PaySafe '' @ js_lower action @ '' completed.'')))
        [(''escrow_status'', JStr final), (''escrow_action_at'', stamp_of ck (ck_now ck)), (''escrow_action_by'', JStr actor),
         (''escrow_target_vault_id'', JStr (fst tv))]
        (set_agreement (ag_id a) (escrow_closed ck action actor reason (fst tv))
          (s\<lparr>ps_world := (ps_world s)\<lparr>w_store := escrow_booked action ref a t ev tv target_user (w_store (ps_world s))\<rparr>\<rparr>)))"

definition move_escrow ::
    "clock \<Rightarrow> string \<Rightarrow> string \<Rightarrow> string \<Rightarrow> string option \<Rightarrow> string \<Rightarrow> string option \<Rightarrow> agreement \<Rightarrow> tx_row \<Rightarrow> paysafe \<Rightarrow> escrow_result" where
  "move_escrow ck ref actor action reason target_user target a t s =
     (case vault_of s ''INTERNAL_TRANSFER'' (ag_sender a) (ag_escrow_vault a) of
        None \<Rightarrow> throw ''PAYSAFE_ESCROW_VAULT_UNAVAILABLE''
      | Some ev \<Rightarrow>
          (case vault_of s ''OPERATING'' target_user
                  (case target of Some k \<Rightarrow> Some k | None \<Rightarrow> operating_vault s target_user (ag_currency a)) of
             None \<Rightarrow> throw ''PAYSAFE_TARGET_VAULT_UNAVAILABLE''
           | Some tv \<Rightarrow>
               (if vault_currency (snd tv) \<noteq> js_upper (ag_currency a) then throw ''PAYSAFE_TARGET_VAULT_UNAVAILABLE''
                else if vault_currency (snd ev) \<noteq> js_upper (ag_currency a) then throw ''PAYSAFE_CURRENCY_MISMATCH''
                else if ent_balance (snd ev) < ag_amount a then throw ''PAYSAFE_ESCROW_BALANCE_INSUFFICIENT''
                else if marker_clash (w_store (ps_world s)) (tx_id t) (Some (paysafe_key a action)) (Some (''PAYSAFE_'' @ action)) then
                  (if \<exists>m \<in> set (st_markers (w_store (ps_world s))). mk_key m = Some (paysafe_key a action)
                   then throw ''PAYSAFE_ACTION_ALREADY_APPLIED''
                   else Inl (JsError ''duplicate key value violates unique constraint'' ''23505''))
                else
                  Inr (answer_of (if action = ''RELEASE'' then ''RELEASED'' else ''REFUNDED'') False,
                    closed_state ck ref actor action reason target_user a t ev tv s))))"

section \<open>The actions\<close>

definition hours :: "int \<Rightarrow> int" where
  "hours n = n * 3600000"

text \<open>\<open>(metadata->>'hold_window_hours')::INT\<close> between 1 and 168, 24 when absent.\<close>

definition hold_hours :: "metadata \<Rightarrow> int outcome" where
  "hold_hours md =
     (case md ''hold_window_hours'' of None \<Rightarrow> Inr 24
      | Some v \<Rightarrow> if v = JNull then Inr 24
          else (case parse_numeric (sql_btrim (js_text v)) of
              None \<Rightarrow> Inl (JsError ''invalid input syntax for type integer'' ''22P02'')
            | Some x \<Rightarrow> if x = of_int \<lfloor>x\<rfloor> then Inr (max 1 (min 168 \<lfloor>x\<rfloor>))
                else Inl (JsError ''invalid input syntax for type integer'' ''22P02'')))"

definition bad_state :: "string \<Rightarrow> agreement \<Rightarrow> 'a outcome" where
  "bad_state verb a = throw (''PAYSAFE_STATE_INVALID: cannot '' @ verb @ '' escrow in state '' @ escrow_text (ag_status a))"

definition replay :: "agreement \<Rightarrow> paysafe \<Rightarrow> escrow_result" where
  "replay a s = Inr (answer_of (escrow_text (ag_status a)) True, s)"

definition disputed_state :: "clock \<Rightarrow> string \<Rightarrow> string option \<Rightarrow> agreement \<Rightarrow> tx_row \<Rightarrow> paysafe \<Rightarrow> paysafe" where
  "disputed_state ck actor reason a t s =
     set_escrow_tx ck t actor ''held_for_review'' reason
       [(''escrow_status'', JStr ''DISPUTED''), (''dispute_reason'', jopt reason), (''disputed_by'', JStr actor),
        (''disputed_at'', stamp_of ck (ck_now ck))]
       (set_agreement (ag_id a) (\<lambda>x. x\<lparr>ag_status := Disputed, ag_disputed_at := Some (ck_now ck),
          ag_dispute := md_put (ag_dispute x) [(''reason'', jopt reason), (''actor_id'', JStr actor), (''disputed_at'', stamp_of ck (ck_now ck))]\<rparr>) s)"

definition escrow_dispute :: "clock \<Rightarrow> string \<Rightarrow> string option \<Rightarrow> agreement \<Rightarrow> tx_row \<Rightarrow> paysafe \<Rightarrow> escrow_result" where
  "escrow_dispute ck actor reason a t s =
     (if actor \<noteq> ag_sender a \<and> actor \<noteq> ag_receiver a then throw ''PAYSAFE_ACTOR_UNAUTHORIZED''
      else if ag_status a = Disputed then replay a s
      else if ag_status a \<notin> {Held, Release_Pending, Return_Pending} then bad_state ''dispute'' a
      else if nonblank reason = None then throw ''PAYSAFE_DISPUTE_REASON_REQUIRED''
      else Inr (answer_of ''DISPUTED'' False,
        disputed_state ck actor reason a t s))"

definition requested_state :: "clock \<Rightarrow> string \<Rightarrow> int \<Rightarrow> agreement \<Rightarrow> tx_row \<Rightarrow> paysafe \<Rightarrow> paysafe" where
  "requested_state ck actor deadline a t s =
     set_escrow_tx ck t actor ''awaiting_receiver_acceptance''
       (Some ''PaySafe release requested and waiting for receiver final acceptance.'')
       [(''escrow_status'', JStr ''RELEASE_PENDING''), (''release_requested_at'', stamp_of ck (ck_now ck)), (''release_requested_by'', JStr actor)]
       (set_agreement (ag_id a) (\<lambda>x. x\<lparr>ag_status := Release_Pending, ag_release_at := Some (ck_now ck), ag_release_by := Some actor,
          ag_expires := Some deadline,
          ag_metadata := md_put (ag_metadata x) [(''escrow_status'', JStr ''RELEASE_PENDING''), (''release_requested_at'', stamp_of ck (ck_now ck)),
            (''release_requested_by'', JStr actor), (''release_response_required_by'', stamp_of ck deadline)]\<rparr>) s)"

definition escrow_request_release :: "clock \<Rightarrow> string \<Rightarrow> agreement \<Rightarrow> tx_row \<Rightarrow> paysafe \<Rightarrow> escrow_result" where
  "escrow_request_release ck actor a t s =
     (if actor \<noteq> ag_sender a then throw ''PAYSAFE_ACTOR_UNAUTHORIZED''
      else if ag_status a = Released then replay a s
      else if ag_status a \<noteq> Held then bad_state ''release'' a
      else if \<not> accepted a then throw ''PAYSAFE_RECEIVER_CONFIRM_REQUIRED''
      else bind_outcome (hold_hours (ag_metadata a)) (\<lambda>h.
        Inr (answer_of ''RELEASE_PENDING'' False, requested_state ck actor (ck_now ck + hours h) a t s)))"

definition expired_reason :: string where
  "expired_reason = ''PaySafe acceptance window expired before receiver confirmation.''"

text \<open>An accepted escrow whose release request ran out is put into dispute.\<close>

definition flagged_state :: "clock \<Rightarrow> string \<Rightarrow> agreement \<Rightarrow> tx_row \<Rightarrow> paysafe \<Rightarrow> paysafe" where
  "flagged_state ck actor a t s =
     (let flag = [(''escrow_status'', JStr ''DISPUTED''), (''auto_flagged_reason'', JStr ''PAYSAFE_RELEASE_WINDOW_EXPIRED''),
                  (''auto_flagged_at'', stamp_of ck (ck_now ck))] in
      set_escrow_tx ck t actor ''held_for_review'' (Some ''PaySafe release window expired. Customer care resolution required.'') flag
        (set_agreement (ag_id a) (\<lambda>x. x\<lparr>ag_status := Disputed, ag_disputed_at := Some (ck_now ck),
           ag_dispute := md_put (ag_dispute x) [(''reason'', JStr ''PAYSAFE_RELEASE_WINDOW_EXPIRED''), (''actor_id'', JStr actor),
             (''disputed_at'', stamp_of ck (ck_now ck)), (''auto_flagged'', JBool True)],
           ag_metadata := md_put (ag_metadata x) flag\<rparr>) s))"

definition confirmed_state :: "clock \<Rightarrow> string \<Rightarrow> agreement \<Rightarrow> tx_row \<Rightarrow> paysafe \<Rightarrow> paysafe" where
  "confirmed_state ck actor a t s =
     (let kvs = [(''escrow_status'', JStr ''HELD''), (''receiver_confirmed_at'', stamp_of ck (ck_now ck)), (''receiver_confirmed_by'', JStr actor)] in
      set_escrow_tx ck t actor ''paysafe_confirmed'' (Some ''PaySafe hold confirmed by receiver. Sender release is required for settlement.'') kvs
        (set_agreement (ag_id a) (\<lambda>x. x\<lparr>ag_accepted_at := Some (ck_now ck), ag_accepted_by := Some actor,
           ag_metadata := md_put (ag_metadata x) kvs\<rparr>) s))"

definition escrow_confirm :: "clock \<Rightarrow> string \<Rightarrow> agreement \<Rightarrow> tx_row \<Rightarrow> paysafe \<Rightarrow> escrow_result" where
  "escrow_confirm ck actor a t s =
     (if accepted a then replay a s
      else if window_over ck a then throw ''PAYSAFE_CONFIRM_WINDOW_EXPIRED''
      else Inr (answer_of ''HELD'' False, confirmed_state ck actor a t s))"

definition escrow_accept ::
    "clock \<Rightarrow> string \<Rightarrow> string \<Rightarrow> string option \<Rightarrow> string option \<Rightarrow> agreement \<Rightarrow> tx_row \<Rightarrow> paysafe \<Rightarrow> escrow_result" where
  "escrow_accept ck ref actor vault reason a t s =
     (let back = (case vault of Some k \<Rightarrow> Some k | None \<Rightarrow> ag_source_vault a);
          refund = (\<lambda>d. move_escrow ck ref actor ''REFUND'' (Some (text_or (nonblank reason) d)) (ag_sender a) back a t s) in
      if actor \<noteq> ag_receiver a then throw ''PAYSAFE_ACTOR_UNAUTHORIZED''
      else case ag_status a of
          Released \<Rightarrow> replay a s
        | Return_Pending \<Rightarrow> if window_over ck a then throw ''PAYSAFE_RETURN_WINDOW_EXPIRED'' else refund ''Return accepted by receiver.''
        | Release_Pending \<Rightarrow>
            if window_over ck a then (if accepted a then Inr (answer_of ''DISPUTED'' False, flagged_state ck actor a t s) else refund expired_reason)
            else move_escrow ck ref actor ''RELEASE'' reason (ag_receiver a) (case vault of Some k \<Rightarrow> Some k | None \<Rightarrow> ag_receiver_vault a) a t s
        | Held \<Rightarrow> escrow_confirm ck actor a t s
        | _ \<Rightarrow> bad_state ''accept'' a)"

definition return_state :: "clock \<Rightarrow> string \<Rightarrow> string option \<Rightarrow> agreement \<Rightarrow> tx_row \<Rightarrow> paysafe \<Rightarrow> paysafe" where
  "return_state ck actor reason a t s =
     (let due = ck_now ck + hours 24;
          kvs = [(''escrow_status'', JStr ''RETURN_PENDING''), (''return_requested_at'', stamp_of ck (ck_now ck)), (''return_requested_by'', JStr actor),
                 (''return_reason'', jopt reason), (''return_auto_refund_at'', stamp_of ck due)] in
      set_escrow_tx ck t actor ''return_requested'' reason kvs
        (set_agreement (ag_id a) (\<lambda>x. x\<lparr>ag_status := Return_Pending, ag_expires := Some due, ag_metadata := md_put (ag_metadata x) kvs\<rparr>) s))"

definition escrow_refund ::
    "clock \<Rightarrow> string \<Rightarrow> string \<Rightarrow> string option \<Rightarrow> string option \<Rightarrow> agreement \<Rightarrow> tx_row \<Rightarrow> paysafe \<Rightarrow> escrow_result" where
  "escrow_refund ck ref actor vault reason a t s =
     (if ag_status a = Refunded then replay a s
      else if actor \<noteq> ag_sender a then throw ''PAYSAFE_ACTOR_UNAUTHORIZED''
      else if ag_status a \<notin> {Held, Release_Pending, Disputed} then bad_state ''refund'' a
      else if nonblank reason = None then throw ''PAYSAFE_REFUND_REASON_REQUIRED''
      else if accepted a \<and> ag_status a \<noteq> Disputed then
        Inr ((answer_of ''RETURN_PENDING'' False)\<lparr>ea_auto_refund := Some (ck_now ck + hours 24)\<rparr>, return_state ck actor reason a t s)
      else move_escrow ck ref actor ''REFUND'' reason (ag_sender a) (case vault of Some k \<Rightarrow> Some k | None \<Rightarrow> ag_source_vault a) a t s)"

definition transition_paysafe_escrow_v1 ::
    "clock \<Rightarrow> string \<Rightarrow> string \<Rightarrow> string \<Rightarrow> string option \<Rightarrow> string option \<Rightarrow> paysafe \<Rightarrow> escrow_result" where
  "transition_paysafe_escrow_v1 ck ref actor action0 vault reason s =
     (let action = js_upper (sql_btrim action0) in
      if sql_btrim ref = [] then throw ''PAYSAFE_REFERENCE_REQUIRED''
      else if action \<notin> set [''RELEASE'', ''ACCEPT'', ''DISPUTE'', ''REFUND''] then throw (''PAYSAFE_ACTION_INVALID: '' @ action)
      else case escrow_row s ref of
          None \<Rightarrow> throw ''PAYSAFE_ESCROW_NOT_FOUND''
        | Some a \<Rightarrow>
            (case find_tx (ps_world s) (ag_tx a) of
               None \<Rightarrow> throw ''PAYSAFE_TRANSACTION_NOT_FOUND''
             | Some t \<Rightarrow>
                 (if action = ''DISPUTE'' then escrow_dispute ck actor reason a t s
                  else if action = ''RELEASE'' then escrow_request_release ck actor a t s
                  else if action = ''ACCEPT'' then escrow_accept ck ref actor vault reason a t s
                  else escrow_refund ck ref actor vault reason a t s)))"

end
