(* ===== verification/PaySafe_Merchant.thy ===== *)
theory PaySafe_Merchant
  imports PaySafe_Escrow
begin

text \<open>
  The settlement of a merchant escrow: \<open>settle_merchant_paysafe_v1\<close> of \<open>database/main.sql\<close>, which pays
  the merchant's wallet and the company accounts out of the escrow vault by the fee snapshot taken
  when the escrow was made.

  The rows it adds to \<open>merchant_transactions\<close> and \<open>settlement_lifecycle\<close> are read by nothing that is
  modelled and are left out. A null status counts as the empty text, as in \<open>Ledger_Store\<close>.
\<close>

section \<open>The fee snapshot\<close>

text \<open>\<open>COALESCE(NULLIF(snapshot->>k, '')::NUMERIC, 0)\<close>.\<close>

definition snapshot_number :: "metadata \<Rightarrow> string \<Rightarrow> rat outcome" where
  "snapshot_number md k =
     (case md k of
        None \<Rightarrow> Inr 0
      | Some JNull \<Rightarrow> Inr 0
      | Some (JNum x) \<Rightarrow> Inr x
      | Some v \<Rightarrow> if js_text v = [] then Inr 0
          else (case parse_numeric (sql_btrim (js_text v)) of
              None \<Rightarrow> Inl (JsError ''invalid input syntax for type numeric'' ''22P02'')
            | Some x \<Rightarrow> Inr x))"

record merchant_fee =
  mf_gross :: rat
  mf_service :: rat
  mf_tax :: rat
  mf_total :: rat
  mf_net :: rat

definition fee_snapshot :: "agreement \<Rightarrow> tx_row \<Rightarrow> metadata option" where
  "fee_snapshot a t =
     (case (case ag_metadata a ''merchant_fee_snapshot'' of Some v \<Rightarrow> Some v | None \<Rightarrow> tx_metadata t ''merchant_fee_snapshot'') of
        Some (JObj kvs) \<Rightarrow> Some (map_of kvs)
      | _ \<Rightarrow> None)"

definition merchant_fee_of :: "agreement \<Rightarrow> metadata \<Rightarrow> merchant_fee outcome" where
  "merchant_fee_of a md =
     bind_outcome (snapshot_number md ''serviceFee'') (\<lambda>sv.
     bind_outcome (snapshot_number md ''taxAmount'') (\<lambda>tx.
     bind_outcome (snapshot_number md ''govFeeAmount'') (\<lambda>gv.
     bind_outcome (snapshot_number md ''stampDutyFixed'') (\<lambda>st.
     bind_outcome (snapshot_number md ''totalFee'') (\<lambda>tot.
     bind_outcome (snapshot_number md ''netAmount'') (\<lambda>net.
       Inr \<lparr>mf_gross = to_fixed 2 (ag_amount a), mf_service = to_fixed 2 sv, mf_tax = to_fixed 2 (tx + gv + st),
         mf_total = to_fixed 2 tot, mf_net = to_fixed 2 net\<rparr>))))))"

definition snapshot_currency :: "metadata \<Rightarrow> string" where
  "snapshot_currency md = js_upper (case md ''currency'' of None \<Rightarrow> [] | Some v \<Rightarrow> if v = JNull then [] else js_text v)"

definition snapshot_invalid :: "agreement \<Rightarrow> metadata \<Rightarrow> merchant_fee \<Rightarrow> bool" where
  "snapshot_invalid a md f \<longleftrightarrow> snapshot_currency md \<noteq> js_upper (ag_currency a) \<or> mf_gross f \<le> 0 \<or> mf_service f < 0 \<or> mf_tax f < 0 \<or>
     mf_total f < 0 \<or> mf_net f \<le> 0 \<or> 1 / 100 < \<bar>mf_total f - (mf_service f + mf_tax f)\<bar> \<or> 1 / 100 < \<bar>mf_gross f - (mf_total f + mf_net f)\<bar>"

section \<open>The accounts\<close>

definition merchant_wallet_rank :: "merchant_wallet \<Rightarrow> nat" where
  "merchant_wallet_rank w = (if js_lower (mw_type w) = ''settlement'' then 0 else 2) + (if mw_primary w then 0 else 1)"

definition null_or_active :: "string \<Rightarrow> bool" where
  "null_or_active s \<longleftrightarrow> s = [] \<or> js_lower s = ''active''"

definition settlement_wallet :: "paysafe \<Rightarrow> string \<Rightarrow> string \<Rightarrow> merchant_wallet option" where
  "settlement_wallet s m cur =
     (case sort_key merchant_wallet_rank (sel (\<lambda>w. mw_merchant w = m \<and> null_or_active (mw_status w) \<and>
           (mw_type w = [] \<or> js_lower (mw_type w) = ''settlement'' \<or> js_lower (mw_type w) = ''operating'') \<and>
           js_upper (case mw_currency w of None \<Rightarrow> ''TZS'' | Some c \<Rightarrow> c) = js_upper cur) (ps_merchant_wallets s)) of
        [] \<Rightarrow> None | w # _ \<Rightarrow> Some w)"

definition company_vault_of :: "paysafe \<Rightarrow> string \<Rightarrow> string \<Rightarrow> (string \<times> entity) option" where
  "company_vault_of s role cur = first_some (map (\<lambda>a.
     (if sa_role a = role \<and> sa_currency a = js_upper cur \<and> sa_status a = ''ACTIVE'' then
        (case sa_vault a of None \<Rightarrow> None
         | Some k \<Rightarrow> (case st_vaults (w_store (ps_world s)) k of None \<Rightarrow> None
             | Some e \<Rightarrow> if js_upper (text_or_empty (ent_currency e)) = js_upper cur \<and> \<not> ent_locked e \<and> null_or_active (ent_status e)
                 then Some (k, e) else None))
      else None)) (ps_accounts s))"

text \<open>The company account of a share, needed only for a positive share.\<close>

definition share_vault :: "paysafe \<Rightarrow> string \<Rightarrow> string \<Rightarrow> rat \<Rightarrow> (string \<times> entity) option outcome" where
  "share_vault s role cur a =
     (if a \<le> 0 then Inr None
      else case company_vault_of s role cur of
          None \<Rightarrow> throw (''PAYSAFE_'' @ role @ ''_ACCOUNT_UNAVAILABLE:'' @ js_upper cur)
        | Some v \<Rightarrow> Inr (Some v))"

section \<open>Booking\<close>

definition merchant_row :: "store \<Rightarrow> tx_row \<Rightarrow> string option \<Rightarrow> string \<Rightarrow> string \<Rightarrow> rat \<Rightarrow> rat \<Rightarrow> string \<Rightarrow> string \<Rightarrow> ledger_row" where
  "merchant_row st t user wallet ty a b d cur = \<lparr>lr_tx = tx_id t, lr_user = resolve_financial_ledger_wallet_owner st wallet user,
     lr_wallet = wallet, lr_type = ty, lr_amount = num_text a, lr_balance_after = b, lr_description = Some d,
     lr_currency = Some (js_upper cur), lr_side = None\<rparr>"

text \<open>A share: the balance as it was read before, plus the share.\<close>

definition book_share :: "tx_row \<Rightarrow> (string \<times> entity) option \<Rightarrow> rat \<Rightarrow> string \<Rightarrow> string \<Rightarrow> store \<Rightarrow> store" where
  "book_share t v a d cur st =
     (case v of None \<Rightarrow> st
      | Some (k, e) \<Rightarrow>
          (let b = to_fixed 2 (ent_balance e + a) in
           (set_vault_balance k b st)\<lparr>st_ledger := st_ledger st @ [merchant_row st t (ent_owner e) k ''CREDIT'' a b d cur]\<rparr>))"

definition settlement_key :: "agreement \<Rightarrow> string" where
  "settlement_key a = ''paysafe:'' @ ag_id a @ '':merchant_settlement:v1''"

definition merchant_booked ::
    "string \<Rightarrow> agreement \<Rightarrow> tx_row \<Rightarrow> string option \<Rightarrow> merchant_fee \<Rightarrow> string \<times> entity \<Rightarrow> merchant_wallet \<Rightarrow>
     (string \<times> entity) option \<Rightarrow> (string \<times> entity) option \<Rightarrow> store \<Rightarrow> store" where
  "merchant_booked ref a t owner f ev mw sv tv st =
     (let eb = to_fixed 2 (ent_balance (snd ev) - mf_gross f); mb = to_fixed 2 (mw_balance mw + mf_net f); cur = ag_currency a;
          st1 = (set_vault_balance (fst ev) eb st)\<lparr>
            st_markers := st_markers st @ [\<lparr>mk_tx = tx_id t, mk_key = Some (settlement_key a), mk_phase = Some ''PAYSAFE_MERCHANT_SETTLEMENT''\<rparr>],
            st_ledger := st_ledger st @ [
              merchant_row st t (Some (ag_sender a)) (fst ev) ''DEBIT'' (mf_gross f) eb (''PaySafe merchant settlement debit: '' @ ref) cur,
              merchant_row st t owner (mw_id mw) ''CREDIT'' (mf_net f) mb (''PaySafe merchant net settlement: '' @ ref) cur]\<rparr> in
      book_share t tv (mf_tax f) (''PaySafe merchant statutory tax reserve: '' @ ref) cur
        (book_share t sv (mf_service f) (''PaySafe merchant service revenue: '' @ ref) cur st1))"

definition new_settlement :: "string \<Rightarrow> string \<Rightarrow> agreement \<Rightarrow> tx_row \<Rightarrow> merchant_fee \<Rightarrow> merchant_wallet \<Rightarrow> merchant_settlement" where
  "new_settlement i m a t f mw = \<lparr>ms_id = i, ms_agreement = ag_id a, ms_tx = tx_id t, ms_merchant = m, ms_wallet = mw_id mw,
     ms_gross = mf_gross f, ms_fee = mf_service f, ms_tax = mf_tax f, ms_net = mf_net f, ms_currency = js_upper (ag_currency a),
     ms_status = ''SETTLED''\<rparr>"

definition merchant_finish ::
    "clock \<Rightarrow> string \<Rightarrow> merchant_settlement \<Rightarrow> jsv \<Rightarrow> agreement \<Rightarrow> tx_row \<Rightarrow> merchant_wallet \<Rightarrow> paysafe \<Rightarrow> paysafe" where
  "merchant_finish ck actor ms snap a t mw s =
     set_escrow_tx ck t actor ''completed'' (Some ''PaySafe merchant settlement completed.'')
       [(''escrow_status'', JStr ''RELEASED''), (''merchant_settlement_id'', JStr (ms_id ms)), (''merchant_wallet_id'', JStr (ms_wallet ms)),
        (''gross_amount'', JNum (ms_gross ms)), (''fee_amount'', JNum (ms_fee ms)), (''tax_amount'', JNum (ms_tax ms)),
        (''net_amount'', JNum (ms_net ms)), (''settled_at'', stamp_of ck (ck_now ck))]
       (set_agreement (ag_id a) (\<lambda>x. x\<lparr>ag_status := Released, ag_released_at := Some (ck_now ck),
          ag_metadata := md_put (ag_metadata x) [(''last_action'', JStr ''MERCHANT_SETTLEMENT''), (''last_actor_id'', JStr actor),
            (''last_action_at'', stamp_of ck (ck_now ck)), (''merchant_wallet_id'', JStr (ms_wallet ms)),
            (''merchant_paysafe_settlement_id'', JStr (ms_id ms)), (''merchant_fee_snapshot'', snap)]\<rparr>)
         (s\<lparr>ps_settlements := ps_settlements s @ [ms],
            ps_merchant_wallets := upd (\<lambda>w. mw_id w = mw_id mw) (\<lambda>w. w\<lparr>mw_balance := to_fixed 2 (mw_balance mw + ms_net ms)\<rparr>) (ps_merchant_wallets s)\<rparr>))"

section \<open>The procedure\<close>

text \<open>The table's check on the four amounts, which the procedure's own test does not imply.\<close>

definition settlement_check :: "merchant_fee \<Rightarrow> bool" where
  "settlement_check f \<longleftrightarrow> \<bar>mf_gross f - (mf_service f + mf_tax f + mf_net f)\<bar> \<le> 1 / 100"

definition settle_amounts ::
    "clock \<Rightarrow> string \<Rightarrow> string \<Rightarrow> string \<Rightarrow> string \<Rightarrow> merchant \<Rightarrow> metadata \<Rightarrow> jsv \<Rightarrow> agreement \<Rightarrow> tx_row \<Rightarrow>
     string \<times> entity \<Rightarrow> merchant_wallet \<Rightarrow> paysafe \<Rightarrow> escrow_result" where
  "settle_amounts ck new_id ref actor m mc md snap a t ev mw s =
     bind_outcome (merchant_fee_of a md) (\<lambda>f.
       if snapshot_invalid a md f then throw ''PAYSAFE_MERCHANT_FEE_SNAPSHOT_INVALID''
       else if ent_balance (snd ev) < mf_gross f then throw ''PAYSAFE_ESCROW_BALANCE_INSUFFICIENT''
       else bind_outcome (share_vault s ''SERVICE_REVENUE'' (ag_currency a) (mf_service f)) (\<lambda>sv.
         bind_outcome (share_vault s ''TAX_RESERVE'' (ag_currency a) (mf_tax f)) (\<lambda>tv.
           if marker_clash (w_store (ps_world s)) (tx_id t) (Some (settlement_key a)) (Some ''PAYSAFE_MERCHANT_SETTLEMENT'')
           then Inl (JsError ''duplicate key value violates unique constraint'' ''23505'')
           else if \<not> settlement_check f then Inl (JsError ''new row violates check constraint'' ''23514'')
           else Inr (answer_of ''SETTLED'' False,
             merchant_finish ck actor (new_settlement new_id m a t f mw) snap a t mw
               (s\<lparr>ps_world := (ps_world s)\<lparr>w_store := merchant_booked ref a t (mc_owner mc) f ev mw sv tv (w_store (ps_world s))\<rparr>\<rparr>)))))"

definition settle_merchant_paysafe_v1 :: "clock \<Rightarrow> string \<Rightarrow> string \<Rightarrow> string \<Rightarrow> paysafe \<Rightarrow> escrow_result" where
  "settle_merchant_paysafe_v1 ck new_id ref actor s =
     (if sql_btrim ref = [] then throw ''PAYSAFE_REFERENCE_REQUIRED''
      else case escrow_row s ref of
        None \<Rightarrow> throw ''PAYSAFE_ESCROW_NOT_FOUND''
      | Some a \<Rightarrow>
        (case ag_merchant a of
           None \<Rightarrow> throw ''PAYSAFE_MERCHANT_CONTEXT_REQUIRED''
         | Some m \<Rightarrow>
           (if actor \<noteq> ag_sender a then throw ''PAYSAFE_ACTOR_UNAUTHORIZED''
            else case find (\<lambda>x. ms_agreement x = ag_id a) (ps_settlements s) of
              Some x \<Rightarrow> Inr (answer_of (ms_status x) True, s)
            | None \<Rightarrow>
              (if ag_status a \<noteq> Held then throw (''PAYSAFE_STATE_INVALID: cannot settle merchant escrow in state '' @ escrow_text (ag_status a))
               else case (find_tx (ps_world s) (ag_tx a), ps_merchants s m) of
                 (None, _) \<Rightarrow> throw ''PAYSAFE_TRANSACTION_NOT_FOUND''
               | (Some t, None) \<Rightarrow> throw ''PAYSAFE_MERCHANT_NOT_ACTIVE''
               | (Some t, Some mc) \<Rightarrow>
                 (if js_lower (mc_status mc) \<noteq> ''active'' then throw ''PAYSAFE_MERCHANT_NOT_ACTIVE''
                  else if mc_owner mc \<noteq> Some (ag_receiver a) then throw ''PAYSAFE_MERCHANT_RECIPIENT_MISMATCH''
                  else case settlement_wallet s m (ag_currency a) of
                    None \<Rightarrow> throw ''PAYSAFE_MERCHANT_SETTLEMENT_WALLET_UNAVAILABLE''
                  | Some mw \<Rightarrow>
                    (case vault_of s ''INTERNAL_TRANSFER'' (ag_sender a) (ag_escrow_vault a) of
                       None \<Rightarrow> throw ''PAYSAFE_ESCROW_VAULT_UNAVAILABLE''
                     | Some ev \<Rightarrow>
                       (if vault_currency (snd ev) \<noteq> js_upper (ag_currency a) then throw ''PAYSAFE_CURRENCY_MISMATCH''
                        else case fee_snapshot a t of
                          None \<Rightarrow> throw ''PAYSAFE_MERCHANT_FEE_SNAPSHOT_REQUIRED''
                        | Some md \<Rightarrow> settle_amounts ck new_id ref actor m mc md
                            (case ag_metadata a ''merchant_fee_snapshot'' of Some v \<Rightarrow> v
                             | None \<Rightarrow> the (tx_metadata t ''merchant_fee_snapshot'')) a t ev mw s)))))))"

end
