(* ===== verification/PaySafe_Service.thy ===== *)
theory PaySafe_Service
  imports PaySafe_Merchant
begin

text \<open>
  \<open>ledger/escrowService.ts\<close>: the operations users and the expiry sweep call on escrows, on top of the two
  procedures, and the making of an escrow, whose posting fires the trigger that adds the agreement.

  The wallet resolver, the accounts' status and the faults of the queries are given by the
  environment of a call. The vaults of a user are read in the order of their creation. The names the
  metadata carries for display are left out.
\<close>

section \<open>Calling the procedures\<close>

definition code_char :: "char \<Rightarrow> bool" where
  "code_char c \<longleftrightarrow> (let n = (of_char c :: nat) in 65 \<le> n \<and> n \<le> 90 \<or> 48 \<le> n \<and> n \<le> 57 \<or> n = 95)"

text \<open>The first match of \<open>/PAYSAFE_[A-Z0-9_]+(?::[^"]+)?/\<close>.\<close>

fun paysafe_match :: "string \<Rightarrow> string option" where
  "paysafe_match [] = None"
| "paysafe_match (c # s) =
     (let r = drop 8 (c # s); w = takeWhile code_char r in
      if js_starts_with (c # s) ''PAYSAFE_'' \<and> w \<noteq> [] then
        Some (''PAYSAFE_'' @ w @ (case dropWhile code_char r of
            [] \<Rightarrow> []
          | d # q \<Rightarrow> if d = CHR '':'' \<and> takeWhile (\<lambda>x. x \<noteq> CHR 0x22) q \<noteq> [] then d # takeWhile (\<lambda>x. x \<noteq> CHR 0x22) q else []))
      else paysafe_match s)"

definition domain_error :: "string \<Rightarrow> js_error \<Rightarrow> 'a outcome" where
  "domain_error fallback e = throw (case paysafe_match (err_message e) of None \<Rightarrow> fallback | Some m \<Rightarrow> m)"

definition escrow_rpc :: "rpc_fault \<Rightarrow> string \<Rightarrow> (paysafe \<Rightarrow> escrow_result) \<Rightarrow> paysafe \<Rightarrow> escrow_answer outcome \<times> paysafe" where
  "escrow_rpc f fallback proc s =
     (case f of
        Rpc_Lost e \<Rightarrow> (domain_error fallback e, s)
      | Rpc_Ok \<Rightarrow> (case proc s of Inl e \<Rightarrow> (domain_error fallback e, s) | Inr (a, s') \<Rightarrow> (Inr a, s'))
      | Rpc_Late e \<Rightarrow> (case proc s of Inl x \<Rightarrow> (domain_error fallback x, s) | Inr (a, s') \<Rightarrow> (domain_error fallback e, s')))"

text \<open>What a call meets: a failing query, the fault of its procedure call, and the id of a settlement row.\<close>

record escrow_env =
  ee_query_fails :: bool
  ee_rpc :: rpc_fault
  ee_settlement :: string

definition escrow_transition ::
    "clock \<Rightarrow> rpc_fault \<Rightarrow> string \<Rightarrow> string \<Rightarrow> string \<Rightarrow> string option \<Rightarrow> string option \<Rightarrow> paysafe \<Rightarrow> escrow_answer outcome \<times> paysafe" where
  "escrow_transition ck f ref actor action vault reason =
     escrow_rpc f ''PAYSAFE_TRANSITION_FAILED'' (transition_paysafe_escrow_v1 ck ref actor action vault reason)"

definition settleMerchantEscrow :: "clock \<Rightarrow> escrow_env \<Rightarrow> string \<Rightarrow> string \<Rightarrow> paysafe \<Rightarrow> escrow_answer outcome \<times> paysafe" where
  "settleMerchantEscrow ck env ref actor =
     escrow_rpc (ee_rpc env) ''PAYSAFE_MERCHANT_SETTLEMENT_FAILED'' (settle_merchant_paysafe_v1 ck (ee_settlement env) ref actor)"

definition getAgreement :: "escrow_env \<Rightarrow> string \<Rightarrow> paysafe \<Rightarrow> agreement outcome" where
  "getAgreement env ref s =
     (if ee_query_fails env then throw ''PAYSAFE_ESCROW_QUERY_FAILED''
      else case escrow_row s ref of None \<Rightarrow> throw ''ESCROW_NOT_FOUND'' | Some a \<Rightarrow> Inr a)"

section \<open>The operations of the parties\<close>

definition releaseEscrow :: "clock \<Rightarrow> escrow_env \<Rightarrow> string \<Rightarrow> string \<Rightarrow> paysafe \<Rightarrow> escrow_answer outcome \<times> paysafe" where
  "releaseEscrow ck env ref actor s =
     (case getAgreement env ref s of
        Inl e \<Rightarrow> (Inl e, s)
      | Inr a \<Rightarrow>
          (if ag_sender a \<noteq> actor then (throw ''UNAUTHORIZED_RELEASE'', s)
           else if ag_merchant a \<noteq> None then settleMerchantEscrow ck env ref actor s
           else escrow_transition ck (ee_rpc env) ref actor ''RELEASE'' None None s))"

definition expired_unconfirmed :: "clock \<Rightarrow> agreement \<Rightarrow> bool" where
  "expired_unconfirmed ck a \<longleftrightarrow> ag_status a \<in> {Held, Release_Pending} \<and> \<not> accepted a \<and> window_over ck a"

definition acceptEscrow :: "clock \<Rightarrow> escrow_env \<Rightarrow> string \<Rightarrow> string \<Rightarrow> paysafe \<Rightarrow> escrow_answer outcome \<times> paysafe" where
  "acceptEscrow ck env ref actor s =
     (case getAgreement env ref s of
        Inl e \<Rightarrow> (Inl e, s)
      | Inr a \<Rightarrow>
          (if ag_receiver a \<noteq> actor then (throw ''UNAUTHORIZED_ACCEPT'', s)
           else if ag_merchant a \<noteq> None then (throw ''PAYSAFE_ACCEPT_NOT_SUPPORTED_FOR_MERCHANT'', s)
           else if expired_unconfirmed ck a
             then escrow_transition ck (ee_rpc env) ref (ag_sender a) ''REFUND'' (ag_source_vault a) (Some expired_reason) s
             else escrow_transition ck (ee_rpc env) ref actor ''ACCEPT'' None None s))"

definition disputeEscrow :: "clock \<Rightarrow> escrow_env \<Rightarrow> string \<Rightarrow> string \<Rightarrow> string \<Rightarrow> paysafe \<Rightarrow> escrow_answer outcome \<times> paysafe" where
  "disputeEscrow ck env ref actor reason s =
     (case getAgreement env ref s of
        Inl e \<Rightarrow> (Inl e, s)
      | Inr a \<Rightarrow>
          (if actor \<noteq> ag_sender a \<and> actor \<noteq> ag_receiver a then (throw ''UNAUTHORIZED_DISPUTE'', s)
           else if js_trim reason = [] then (throw ''DISPUTE_REASON_REQUIRED'', s)
           else escrow_transition ck (ee_rpc env) ref actor ''DISPUTE'' None (Some reason) s))"

definition refundEscrow :: "clock \<Rightarrow> escrow_env \<Rightarrow> string \<Rightarrow> string \<Rightarrow> string \<Rightarrow> paysafe \<Rightarrow> escrow_answer outcome \<times> paysafe" where
  "refundEscrow ck env ref actor reason s =
     (case getAgreement env ref s of
        Inl e \<Rightarrow> (Inl e, s)
      | Inr a \<Rightarrow>
          (if ag_sender a \<noteq> actor then (throw ''UNAUTHORIZED_REFUND'', s)
           else escrow_transition ck (ee_rpc env) ref actor ''REFUND'' (ag_source_vault a) (Some reason) s))"

section \<open>The expiry sweep\<close>

definition sweep_candidates :: "clock \<Rightarrow> paysafe \<Rightarrow> agreement list" where
  "sweep_candidates ck s = take 50 (sort_key (\<lambda>a. case ag_expires a of None \<Rightarrow> 0 | Some t \<Rightarrow> t)
     (sel (expired_unconfirmed ck) (ps_agreements s)))"

definition sweep_one :: "clock \<Rightarrow> (string \<Rightarrow> rpc_fault) \<Rightarrow> agreement \<Rightarrow> nat \<times> nat \<times> paysafe \<Rightarrow> nat \<times> nat \<times> paysafe" where
  "sweep_one ck f a st = (case st of (refunded, failed, s) \<Rightarrow>
     (case escrow_transition ck (f (ag_id a)) (ag_reference a) (ag_sender a) ''REFUND'' (ag_source_vault a) (Some expired_reason) s of
        (Inl e, s') \<Rightarrow> (refunded, failed + 1, s')
      | (Inr r, s') \<Rightarrow> (if js_upper (ea_status r) = ''REFUNDED'' \<or> ea_idempotent r then refunded + 1 else refunded, failed, s')))"

definition autoRefundExpiredUnacceptedEscrows :: "clock \<Rightarrow> bool \<Rightarrow> (string \<Rightarrow> rpc_fault) \<Rightarrow> paysafe \<Rightarrow> nat \<times> nat \<times> paysafe" where
  "autoRefundExpiredUnacceptedEscrows ck query_fails f s =
     (if query_fails then (0, 0, s) else fold (sweep_one ck f) (sweep_candidates ck s) (0, 0, s))"

section \<open>Reading an escrow\<close>

record escrow_view =
  vw_agreement :: agreement
  vw_sender :: bool
  vw_awaiting :: bool
  vw_return_pending :: bool
  vw_expired :: bool
  vw_can_release :: bool
  vw_can_accept :: bool
  vw_can_refund :: bool
  vw_can_dispute :: bool

definition decorateAgreement :: "clock \<Rightarrow> agreement \<Rightarrow> string \<Rightarrow> escrow_view" where
  "decorateAgreement ck a actor =
     (let sender = (ag_sender a = actor); st = ag_status a; expired = window_over ck a in
      \<lparr>vw_agreement = a, vw_sender = sender, vw_awaiting = (st = Held \<and> \<not> accepted a \<or> st = Release_Pending),
       vw_return_pending = (st = Return_Pending), vw_expired = expired,
       vw_can_release = (sender \<and> st = Held \<and> accepted a \<and> \<not> expired),
       vw_can_accept = (\<not> sender \<and> (st = Held \<and> \<not> accepted a \<and> \<not> expired \<or> st = Release_Pending \<and> \<not> expired \<or> st = Return_Pending \<and> \<not> expired)),
       vw_can_refund = (sender \<and> st \<in> {Held, Disputed} \<and> \<not> expired),
       vw_can_dispute = (st \<in> {Held, Release_Pending, Return_Pending})\<rparr>)"

definition getEscrow :: "clock \<Rightarrow> escrow_env \<Rightarrow> string \<Rightarrow> string \<Rightarrow> paysafe \<Rightarrow> escrow_view option outcome" where
  "getEscrow ck env ref actor s =
     (if ee_query_fails env then throw ''PAYSAFE_ESCROW_QUERY_FAILED''
      else case escrow_row s ref of
          None \<Rightarrow> Inr None
        | Some a \<Rightarrow> if actor \<noteq> ag_sender a \<and> actor \<noteq> ag_receiver a then throw ''ESCROW_ACCESS_DENIED''
            else Inr (Some (decorateAgreement ck a actor)))"

text \<open>Newest first.\<close>

definition getEscrows :: "clock \<Rightarrow> escrow_env \<Rightarrow> string \<Rightarrow> paysafe \<Rightarrow> escrow_view list outcome" where
  "getEscrows ck env user s =
     (if ee_query_fails env then throw ''PAYSAFE_ESCROW_QUERY_FAILED''
      else Inr (map (\<lambda>a. decorateAgreement ck a user) (sel (\<lambda>a. ag_sender a = user \<or> ag_receiver a = user) (rev (ps_agreements s)))))"

end
