(* ===== verification/PaySafe_Steps.thy ===== *)
theory PaySafe_Steps
  imports PaySafe_Service Service_Properties
begin

text \<open>
  The life of one escrow agreement as a step relation, and the proof that the procedure
  \<open>transition_paysafe_escrow_v1\<close> only takes these steps: which actor moves an agreement from which status,
  and that money moves with the last step only.
\<close>

section \<open>The steps of an agreement\<close>

inductive escrow_step :: "clock \<Rightarrow> string \<Rightarrow> agreement \<Rightarrow> agreement \<Rightarrow> bool" where
  Confirm: "ag_status a = Held \<Longrightarrow> \<not> accepted a \<Longrightarrow> \<not> window_over ck a \<Longrightarrow>
    escrow_step ck (ag_receiver a) a (a\<lparr>ag_accepted_at := Some (ck_now ck), ag_accepted_by := Some (ag_receiver a), ag_metadata := md\<rparr>)"
| Request_Release: "ag_status a = Held \<Longrightarrow> accepted a \<Longrightarrow>
    escrow_step ck (ag_sender a) a (a\<lparr>ag_status := Release_Pending, ag_release_at := Some (ck_now ck), ag_release_by := Some (ag_sender a),
      ag_expires := Some e, ag_metadata := md\<rparr>)"
| Request_Return: "ag_status a \<in> {Held, Release_Pending} \<Longrightarrow> accepted a \<Longrightarrow>
    escrow_step ck (ag_sender a) a (a\<lparr>ag_status := Return_Pending, ag_expires := Some (ck_now ck + hours 24), ag_metadata := md\<rparr>)"
| Dispute: "ag_status a \<in> {Held, Release_Pending, Return_Pending} \<Longrightarrow> actor = ag_sender a \<or> actor = ag_receiver a \<Longrightarrow>
    escrow_step ck actor a (a\<lparr>ag_status := Disputed, ag_disputed_at := Some (ck_now ck), ag_dispute := d\<rparr>)"
| Auto_Dispute: "ag_status a = Release_Pending \<Longrightarrow> window_over ck a \<Longrightarrow> accepted a \<Longrightarrow>
    escrow_step ck (ag_receiver a) a (a\<lparr>ag_status := Disputed, ag_disputed_at := Some (ck_now ck), ag_dispute := d, ag_metadata := md\<rparr>)"
| Pay: "ag_status a = Release_Pending \<Longrightarrow> \<not> window_over ck a \<Longrightarrow>
    escrow_step ck (ag_receiver a) a (a\<lparr>ag_status := Released, ag_receiver_vault := Some k, ag_released_at := Some (ck_now ck), ag_metadata := md\<rparr>)"
| Return_Accepted: "ag_status a = Return_Pending \<Longrightarrow> \<not> window_over ck a \<Longrightarrow>
    escrow_step ck (ag_receiver a) a (a\<lparr>ag_status := Refunded, ag_refunded_at := Some (ck_now ck), ag_metadata := md\<rparr>)"
| Expired_Refund: "ag_status a = Release_Pending \<Longrightarrow> window_over ck a \<Longrightarrow> \<not> accepted a \<Longrightarrow>
    escrow_step ck (ag_receiver a) a (a\<lparr>ag_status := Refunded, ag_refunded_at := Some (ck_now ck), ag_metadata := md\<rparr>)"
| Refund: "ag_status a \<in> {Held, Release_Pending} \<and> \<not> accepted a \<or> ag_status a = Disputed \<Longrightarrow>
    escrow_step ck (ag_sender a) a (a\<lparr>ag_status := Refunded, ag_refunded_at := Some (ck_now ck), ag_metadata := md\<rparr>)"

definition closed :: "agreement \<Rightarrow> bool" where
  "closed a \<longleftrightarrow> ag_status a = Released \<or> ag_status a = Refunded"

text \<open>What no step changes.\<close>

definition same_core :: "agreement \<Rightarrow> agreement \<Rightarrow> bool" where
  "same_core a b \<longleftrightarrow> ag_id b = ag_id a \<and> ag_tx b = ag_tx a \<and> ag_reference b = ag_reference a \<and> ag_sender b = ag_sender a \<and>
     ag_receiver b = ag_receiver a \<and> ag_source_vault b = ag_source_vault a \<and> ag_escrow_vault b = ag_escrow_vault a \<and>
     ag_merchant b = ag_merchant a \<and> ag_amount b = ag_amount a \<and> ag_currency b = ag_currency a"

lemma same_core_refl [simp]: "same_core a a"
  by (simp add: same_core_def)

lemma same_core_trans: "same_core a b \<Longrightarrow> same_core b d \<Longrightarrow> same_core a d"
  by (simp add: same_core_def)

lemma step_core: "escrow_step ck actor a b \<Longrightarrow> same_core a b"
  by (cases rule: escrow_step.cases) (auto simp: same_core_def)

lemma step_open: "escrow_step ck actor a b \<Longrightarrow> \<not> closed a"
  by (cases rule: escrow_step.cases) (auto simp: closed_def)

section \<open>Accounts\<close>

text \<open>Vault ids are no wallet or goal ids.\<close>

definition vaults_apart :: "store \<Rightarrow> bool" where
  "vaults_apart st \<longleftrightarrow> (\<forall>k. st_vaults st k \<noteq> None \<longrightarrow> st_wallets st k = None \<and> st_goals st k = None)"

lemma vault_balance: "vaults_apart st \<Longrightarrow> st_vaults st k = Some e \<Longrightarrow> balance_of st k = ent_balance e"
  by (auto simp: vaults_apart_def balance_of_def entity_kinds_def)

lemma set_vault_kinds [simp]: "entity_kinds (set_vault_balance i b st) k = entity_kinds st k"
  by (simp add: entity_kinds_def set_vault_balance_def)

lemma set_vault_fields [simp]:
  "st_wallets (set_vault_balance i b st) = st_wallets st" "st_goals (set_vault_balance i b st) = st_goals st"
  "st_txs (set_vault_balance i b st) = st_txs st" "st_ledger (set_vault_balance i b st) = st_ledger st"
  "st_markers (set_vault_balance i b st) = st_markers st"
  "vaults_apart (set_vault_balance i b st) = vaults_apart st"
  by (auto simp: set_vault_balance_def vaults_apart_def)

lemma set_vault_vaults: "st_vaults (set_vault_balance i b st) k = (if k = i then map_option (\<lambda>e. e\<lparr>ent_balance := b\<rparr>) (st_vaults st k) else st_vaults st k)"
  by (simp add: set_vault_balance_def)

lemma set_vault_balance_of:
  assumes "vaults_apart st" "st_vaults st i = Some e"
  shows "balance_of (set_vault_balance i b st) k = (if k = i then b else balance_of st k)"
proof (cases "k = i")
  case True
  have "vaults_apart (set_vault_balance i b st)" using assms(1) by simp
  from vault_balance [OF this, of i] assms(2) True show ?thesis by (simp add: set_vault_vaults)
next
  case False
  have "entity_at (set_vault_balance i b st) kind k = entity_at st kind k" for kind
    using False by (cases kind) (simp_all add: set_vault_vaults)
  with False show ?thesis by (simp add: balance_of_def split: list.splits)
qed

lemma balance_of_ledger [simp]: "balance_of (st\<lparr>st_markers := m, st_ledger := l\<rparr>) k = balance_of st k"
  "vaults_apart (st\<lparr>st_markers := m, st_ledger := l\<rparr>) = vaults_apart st"
proof -
  have "entity_at (st\<lparr>st_markers := m, st_ledger := l\<rparr>) kind k = entity_at st kind k" for kind by (cases kind) simp_all
  then show "balance_of (st\<lparr>st_markers := m, st_ledger := l\<rparr>) k = balance_of st k"
    by (simp add: balance_of_def entity_kinds_def)
qed (simp add: vaults_apart_def)

lemma vault_ofD:
  assumes "vault_of s role owner k = Some (i, e)"
  shows "k = Some i \<and> st_vaults (w_store (ps_world s)) i = Some e \<and> ps_role s i = Some role \<and> ent_owner e = Some owner"
  using assms by (auto simp: vault_of_def split: option.splits if_splits)

text \<open>The money and the rows of a booking.\<close>

lemma booked_balances:
  assumes "vaults_apart st" "st_vaults st i = Some ei" "st_vaults st j = Some ej" "i \<noteq> j" "scale4 (ag_amount a)" "\<forall>k. scale4 (balance_of st k)"
  shows "balance_of (escrow_booked action ref a t (i, ei) (j, ej) u st) k =
    balance_of st k + (if k = j then ag_amount a else 0) - (if k = i then ag_amount a else 0)"
proof -
  have b: "ent_balance ei = balance_of st i" "ent_balance ej = balance_of st j"
    using vault_balance [OF assms(1)] assms(2,3) by simp_all
  let ?st1 = "set_vault_balance i (balance_of st i - ag_amount a) st"
  have j1: "st_vaults ?st1 j = Some ej" using assms(3,4) by (simp add: set_vault_vaults)
  have f: "to_fixed 4 (balance_of st i - ag_amount a) = balance_of st i - ag_amount a"
    "to_fixed 4 (balance_of st j + ag_amount a) = balance_of st j + ag_amount a"
    using assms(5,6) by (auto intro!: to_fixed4_exact)
  have "vaults_apart ?st1" using assms(1) by simp
  from set_vault_balance_of [OF this j1] set_vault_balance_of [OF assms(1,2)] assms(4) show ?thesis
    by (simp add: escrow_booked_def Let_def b f)
qed

lemma booked_fields:
  "st_txs (escrow_booked action ref a t ev tv u st) = st_txs st"
  "vaults_apart (escrow_booked action ref a t ev tv u st) = vaults_apart st"
  "entity_kinds (escrow_booked action ref a t ev tv u st) k = entity_kinds st k"
  by (simp_all add: escrow_booked_def Let_def entity_kinds_def vaults_apart_def set_vault_vaults) blast?

section \<open>What the procedure does\<close>

lemma set_escrow_tx_simps [simp]:
  "ps_agreements (set_escrow_tx ck t actor st n kvs s) = ps_agreements s" "ps_role (set_escrow_tx ck t actor st n kvs s) = ps_role s"
  "ps_vaults (set_escrow_tx ck t actor st n kvs s) = ps_vaults s" "w_kms (ps_world (set_escrow_tx ck t actor st n kvs s)) = w_kms (ps_world s)"
  "w_store (ps_world (set_escrow_tx ck t actor st n kvs s)) = (w_store (ps_world s))\<lparr>st_txs := upd (\<lambda>x. tx_id x = tx_id t)
     (\<lambda>x. x\<lparr>tx_status := st, tx_notes := n, tx_metadata := md_put (tx_metadata x) kvs, tx_updated := ck_now ck\<rparr>) (st_txs (w_store (ps_world s)))\<rparr>"
  by (simp_all add: set_escrow_tx_def log_event_def update_tx_def)

lemma set_agreement_simps [simp]:
  "ps_agreements (set_agreement i f s) = upd (\<lambda>a. ag_id a = i) f (ps_agreements s)" "ps_role (set_agreement i f s) = ps_role s"
  "ps_vaults (set_agreement i f s) = ps_vaults s" "ps_world (set_agreement i f s) = ps_world s"
  by (simp_all add: set_agreement_def)

text \<open>
  \<open>quiet\<close>: an agreement is updated, its transaction is marked, no money moves. \<open>paid\<close>: the agreement
  is closed and its amount goes from the escrow vault to an operating vault of the payee.
\<close>

definition marked_txs :: "tx_row \<Rightarrow> paysafe \<Rightarrow> paysafe \<Rightarrow> bool" where
  "marked_txs t s s' \<longleftrightarrow> (\<exists>g. st_txs (w_store (ps_world s')) = upd (\<lambda>x. tx_id x = tx_id t) g (st_txs (w_store (ps_world s))) \<and>
     (\<forall>x. tx_id (g x) = tx_id x \<and> tx_amount (g x) = tx_amount x))"

definition quiet :: "clock \<Rightarrow> string \<Rightarrow> agreement \<Rightarrow> tx_row \<Rightarrow> paysafe \<Rightarrow> paysafe \<Rightarrow> bool" where
  "quiet ck actor a t s s' \<longleftrightarrow> (\<exists>f. ps_agreements s' = upd (\<lambda>x. ag_id x = ag_id a) f (ps_agreements s) \<and>
     escrow_step ck actor a (f a) \<and> \<not> closed (f a) \<and> marked_txs t s s' \<and>
     w_store (ps_world s') = (w_store (ps_world s))\<lparr>st_txs := st_txs (w_store (ps_world s'))\<rparr> \<and> w_kms (ps_world s') = w_kms (ps_world s) \<and>
     ps_role s' = ps_role s \<and> ps_vaults s' = ps_vaults s)"

definition paid :: "clock \<Rightarrow> string \<Rightarrow> string \<Rightarrow> string \<Rightarrow> string option \<Rightarrow> string \<Rightarrow> string option \<Rightarrow> agreement \<Rightarrow> tx_row \<Rightarrow> paysafe \<Rightarrow> paysafe \<Rightarrow> bool" where
  "paid ck ref actor action reason user target a t s s' \<longleftrightarrow> (\<exists>ev tv.
     vault_of s ''INTERNAL_TRANSFER'' (ag_sender a) (ag_escrow_vault a) = Some ev \<and>
     vault_of s ''OPERATING'' user (case target of Some k \<Rightarrow> Some k | None \<Rightarrow> operating_vault s user (ag_currency a)) = Some tv \<and>
     ag_amount a \<le> ent_balance (snd ev) \<and>
     ps_agreements s' = upd (\<lambda>x. ag_id x = ag_id a) (escrow_closed ck action actor reason (fst tv)) (ps_agreements s) \<and>
     marked_txs t s s' \<and> w_kms (ps_world s') = w_kms (ps_world s) \<and> ps_role s' = ps_role s \<and> ps_vaults s' = ps_vaults s \<and>
     w_store (ps_world s') = (escrow_booked action ref a t ev tv user (w_store (ps_world s)))\<lparr>st_txs := st_txs (w_store (ps_world s'))\<rparr>)"

lemma marked_set:
  "st_txs (w_store (ps_world s0)) = st_txs (w_store (ps_world s)) \<Longrightarrow> marked_txs t s (set_escrow_tx ck t actor st n kvs s0)"
  unfolding marked_txs_def by (intro exI conjI, subst set_escrow_tx_simps(5), simp, simp)

lemma closed_paid:
  assumes "vault_of s ''INTERNAL_TRANSFER'' (ag_sender a) (ag_escrow_vault a) = Some ev" "ag_amount a \<le> ent_balance (snd ev)"
    and "vault_of s ''OPERATING'' user (case target of Some k \<Rightarrow> Some k | None \<Rightarrow> operating_vault s user (ag_currency a)) = Some tv"
  shows "paid ck ref actor action reason user target a t s (closed_state ck ref actor action reason user a t ev tv s)"
  unfolding paid_def
proof (intro exI conjI)
  show "marked_txs t s (closed_state ck ref actor action reason user a t ev tv s)"
    unfolding closed_state_def Let_def by (rule marked_set) (simp add: booked_fields)
qed (use assms in \<open>simp_all add: closed_state_def Let_def\<close>)

lemma move_paid:
  assumes "move_escrow ck ref actor action reason user target a t s = Inr (ans, s')"
  shows "paid ck ref actor action reason user target a t s s'"
proof -
  from assms obtain ev where e: "vault_of s ''INTERNAL_TRANSFER'' (ag_sender a) (ag_escrow_vault a) = Some ev"
    by (auto simp: move_escrow_def split: option.splits)
  from assms e obtain tv where v: "vault_of s ''OPERATING'' user (case target of Some k \<Rightarrow> Some k | None \<Rightarrow> operating_vault s user (ag_currency a)) = Some tv"
    by (auto simp: move_escrow_def split: option.splits)
  from assms e v have "\<not> ent_balance (snd ev) < ag_amount a" "s' = closed_state ck ref actor action reason user a t ev tv s"
    by (auto simp: move_escrow_def split: if_splits)
  with closed_paid [OF e _ v] show ?thesis by simp
qed

lemma quietI:
  assumes "s' = set_escrow_tx ck t actor st n kvs (set_agreement (ag_id a) f s)" "escrow_step ck actor a (f a)" "\<not> closed (f a)"
  shows "quiet ck actor a t s s'"
  unfolding quiet_def
proof (intro exI conjI)
  show "escrow_step ck actor a (f a)" "\<not> closed (f a)" by fact+
  show "marked_txs t s s'" unfolding assms(1) by (rule marked_set) simp
qed (simp_all add: assms(1))

lemma quiet_states:
  "ag_status a \<in> {Held, Release_Pending, Return_Pending} \<Longrightarrow> actor = ag_sender a \<or> actor = ag_receiver a \<Longrightarrow>
     quiet ck actor a t s (disputed_state ck actor reason a t s)"
  "ag_status a = Held \<Longrightarrow> accepted a \<Longrightarrow> quiet ck (ag_sender a) a t s (requested_state ck (ag_sender a) e a t s)"
  "ag_status a = Release_Pending \<Longrightarrow> window_over ck a \<Longrightarrow> accepted a \<Longrightarrow> quiet ck (ag_receiver a) a t s (flagged_state ck (ag_receiver a) a t s)"
  "ag_status a = Held \<Longrightarrow> \<not> accepted a \<Longrightarrow> \<not> window_over ck a \<Longrightarrow> quiet ck (ag_receiver a) a t s (confirmed_state ck (ag_receiver a) a t s)"
  "ag_status a \<in> {Held, Release_Pending} \<Longrightarrow> accepted a \<Longrightarrow> quiet ck (ag_sender a) a t s (return_state ck (ag_sender a) reason a t s)"
      apply (rule quietI [OF disputed_state_def], erule (1) escrow_step.Dispute, simp add: closed_def)
     apply (rule quietI [OF requested_state_def], erule (1) escrow_step.Request_Release, simp add: closed_def)
    apply (rule quietI [OF flagged_state_def [unfolded Let_def]], erule (2) escrow_step.Auto_Dispute, simp add: closed_def)
   apply (rule quietI [OF confirmed_state_def [unfolded Let_def]], erule (2) escrow_step.Confirm, simp add: closed_def)
  apply (rule quietI [OF return_state_def [unfolded Let_def]], erule (1) escrow_step.Request_Return, simp add: closed_def)
  done

definition may_refund :: "clock \<Rightarrow> string \<Rightarrow> agreement \<Rightarrow> bool" where
  "may_refund ck actor a \<longleftrightarrow>
     actor = ag_receiver a \<and> (ag_status a = Return_Pending \<and> \<not> window_over ck a \<or> ag_status a = Release_Pending \<and> window_over ck a \<and> \<not> accepted a) \<or>
     actor = ag_sender a \<and> (ag_status a \<in> {Held, Release_Pending} \<and> \<not> accepted a \<or> ag_status a = Disputed)"

definition escrow_effect :: "clock \<Rightarrow> string \<Rightarrow> string \<Rightarrow> string option \<Rightarrow> agreement \<Rightarrow> tx_row \<Rightarrow> paysafe \<Rightarrow> paysafe \<Rightarrow> bool" where
  "escrow_effect ck ref actor vault a t s s' \<longleftrightarrow>
     quiet ck actor a t s s' \<or>
     (ag_status a = Release_Pending \<and> \<not> window_over ck a \<and> actor = ag_receiver a \<and>
       (\<exists>r. paid ck ref actor ''RELEASE'' r (ag_receiver a) (case vault of Some k \<Rightarrow> Some k | None \<Rightarrow> ag_receiver_vault a) a t s s')) \<or>
     (may_refund ck actor a \<and> (\<exists>r. paid ck ref actor ''REFUND'' r (ag_sender a) (case vault of Some k \<Rightarrow> Some k | None \<Rightarrow> ag_source_vault a) a t s s'))"

lemma dispute_effect: "escrow_dispute ck actor reason a t s = Inr (ans, s') \<Longrightarrow> s' = s \<or> escrow_effect ck ref actor vault a t s s'"
  unfolding escrow_dispute_def escrow_effect_def replay_def bad_state_def
  by (simp split: if_splits) (use quiet_states(1) in blast)+

lemma request_release_effect: "escrow_request_release ck actor a t s = Inr (ans, s') \<Longrightarrow> s' = s \<or> escrow_effect ck ref actor vault a t s s'"
  unfolding escrow_request_release_def escrow_effect_def replay_def bad_state_def
  by (auto simp: bind_outcome_Inr_iff intro: quiet_states(2) split: if_splits)

lemma refund_effect: "escrow_refund ck ref actor vault reason a t s = Inr (ans, s') \<Longrightarrow> s' = s \<or> escrow_effect ck ref actor vault a t s s'"
  unfolding escrow_refund_def escrow_effect_def replay_def bad_state_def may_refund_def
  by (auto intro: quiet_states(5) move_paid split: if_splits)

lemma accept_effect:
  assumes "escrow_accept ck ref actor vault reason a t s = Inr (ans, s')"
  shows "s' = s \<or> escrow_effect ck ref actor vault a t s s'"
proof (cases "ag_status a")
  case Held
  with assms show ?thesis
    by (auto simp: escrow_accept_def escrow_confirm_def replay_def escrow_effect_def Let_def split: if_splits intro: quiet_states(4))
next
  case Release_Pending
  with assms show ?thesis
    by (auto simp: escrow_accept_def escrow_effect_def may_refund_def Let_def split: if_splits intro: quiet_states(3) dest!: move_paid)
next
  case Return_Pending
  with assms show ?thesis
    by (auto simp: escrow_accept_def escrow_effect_def may_refund_def Let_def split: if_splits dest!: move_paid)
qed (use assms in \<open>auto simp: escrow_accept_def replay_def bad_state_def Let_def split: if_splits\<close>)

lemma transition_effect:
  assumes "transition_paysafe_escrow_v1 ck ref actor action vault reason s = Inr (ans, s')"
  shows "s' = s \<or> (\<exists>a t. escrow_row s ref = Some a \<and> find_tx (ps_world s) (ag_tx a) = Some t \<and> escrow_effect ck ref actor vault a t s s')"
proof -
  from assms obtain a t where a: "escrow_row s ref = Some a" "find_tx (ps_world s) (ag_tx a) = Some t"
    by (auto simp: transition_paysafe_escrow_v1_def Let_def split: if_splits option.splits)
  with assms have "s' = s \<or> escrow_effect ck ref actor vault a t s s'"
    by (auto simp: transition_paysafe_escrow_v1_def Let_def split: if_splits
        dest: dispute_effect request_release_effect accept_effect refund_effect)
  with a show ?thesis by blast
qed

end
