(* ===== verification/PaySafe_Create.thy ===== *)
theory PaySafe_Create
  imports PaySafe_Service
begin

text \<open>
  The making of an escrow, \<open>createEscrow\<close> of \<open>ledger/escrowService.ts\<close>: the checks of the parties and
  their vaults, the fee snapshot of a merchant escrow, the posting that moves the money into the
  escrow vault, and the trigger \<open>create_escrow_agreement_from_transaction\<close> of \<open>database/main.sql\<close>.
\<close>

section \<open>The trigger\<close>

definition md_field :: "metadata \<Rightarrow> string \<Rightarrow> string option" where
  "md_field md k = (case md k of None \<Rightarrow> None | Some v \<Rightarrow> if v = JNull \<or> js_text v = [] then None else Some (js_text v))"

definition md_numeric :: "metadata \<Rightarrow> string \<Rightarrow> rat option" where
  "md_numeric md k = (case md k of Some (JNum x) \<Rightarrow> Some x | Some (JStr t) \<Rightarrow> parse_numeric (sql_btrim t) | _ \<Rightarrow> None)"

definition conditional_escrow :: "tx_row \<Rightarrow> bool" where
  "conditional_escrow t \<longleftrightarrow> js_lower (tx_type t) = ''escrow'' \<and> tx_metadata t ''is_conditional_escrow'' = Some (JBool True)"

text \<open>The agreement of a new transaction row; \<open>None\<close> when it is no escrow or its metadata is incomplete.\<close>

definition agreement_of_tx :: "clock \<Rightarrow> string \<Rightarrow> tx_row \<Rightarrow> agreement option" where
  "agreement_of_tx ck i t =
     (let md = tx_metadata t; source = (case md_field md ''source_vault_id'' of Some v \<Rightarrow> Some v | None \<Rightarrow> tx_wallet t) in
      if \<not> conditional_escrow t then None
      else case (md_field md ''recipient_id'', md_numeric md ''escrow_amount_plain'', source, md_field md ''escrow_vault_id'',
                 md_field md ''receiver_vault_id'') of
          (Some r, Some a, Some src, Some esc, Some rcv) \<Rightarrow>
            (if a \<le> 0 then None
             else Some \<lparr>ag_id = i, ag_tx = tx_id t, ag_reference = tx_reference t, ag_sender = text_or_empty (tx_user t), ag_receiver = r,
               ag_source_vault = Some src, ag_escrow_vault = Some esc, ag_receiver_vault = Some rcv, ag_merchant = md_field md ''merchant_id'',
               ag_service = md_field md ''service_code'', ag_amount = a, ag_currency = js_upper (text_or (tx_currency t) ''TZS''),
               ag_conditions = md_object md ''conditions'', ag_status = Held,
               ag_metadata = [''created_from'' \<mapsto> JStr ''post_transaction_v2'', ''created_at'' \<mapsto> stamp_of ck (ck_now ck),
                 ''idempotency_reference'' \<mapsto> JStr (tx_reference t)],
               ag_dispute = Map.empty, ag_expires = Option.bind (md_field md ''expires_at'') (ck_parse ck), ag_release_at = None, ag_release_by = None,
               ag_accepted_at = None, ag_accepted_by = None, ag_released_at = None, ag_refunded_at = None, ag_disputed_at = None\<rparr>)
        | _ \<Rightarrow> None)"

text \<open>It fires for each row the posting added; a row whose transaction has an agreement is skipped.\<close>

definition fire_escrow_trigger :: "clock \<Rightarrow> string \<Rightarrow> world \<Rightarrow> paysafe \<Rightarrow> paysafe" where
  "fire_escrow_trigger ck i w s =
     (let new = drop (length (st_txs (w_store (ps_world s)))) (st_txs (w_store w));
          made = List.map_filter (agreement_of_tx ck i) (sel (\<lambda>t. \<forall>a \<in> set (ps_agreements s). ag_tx a \<noteq> tx_id t) new) in
      s\<lparr>ps_world := w, ps_agreements := ps_agreements s @ made\<rparr>)"

section \<open>Creating\<close>

text \<open>
  The environment of a call: the user an identifier resolves to, the account status of a user, its
  generated code and agreement id, and the faults of its queries and of the posting.
\<close>

record create_env =
  nw_recipient :: "string \<Rightarrow> string option"
  nw_account :: "string \<Rightarrow> string option"
  nw_code :: string
  nw_agreement :: string
  nw_post :: post_env
  nw_lookup_fails :: bool
  nw_account_fails :: bool
  nw_merchant_fails :: bool
  nw_vaults_fail :: bool
  nw_recheck_fails :: bool
  nw_redis_fails :: bool
  nw_fee_fault :: "js_error option"

text \<open>The first of two keys that holds a text, trimmed.\<close>

definition condition_text :: "metadata \<Rightarrow> string \<Rightarrow> string \<Rightarrow> string" where
  "condition_text md k k' = (case md k of Some (JStr s) \<Rightarrow> js_trim s | _ \<Rightarrow> (case md k' of Some (JStr s) \<Rightarrow> js_trim s | _ \<Rightarrow> []))"

definition resolveHoldWindowHours :: "metadata \<Rightarrow> rat" where
  "resolveHoldWindowHours md =
     (let present = (\<lambda>k. case md k of None \<Rightarrow> None | Some v \<Rightarrow> if v = JNull then None else Some v) in
      case first_some [present ''holdWindowHours'', present ''hold_window_hours''] of
        None \<Rightarrow> 24
      | Some v \<Rightarrow> (case js_number v of None \<Rightarrow> 24 | Some x \<Rightarrow> min (max (of_int \<lfloor>x + 1 / 2\<rfloor>) 1) 168))"

definition user_vaults :: "paysafe \<Rightarrow> string \<Rightarrow> string \<Rightarrow> (string \<times> entity) list" where
  "user_vaults s role owner = sort_key (\<lambda>v. - ent_balance (snd v))
     (List.map_filter (\<lambda>i. vault_of s role owner (Some i)) (ps_vaults s))"

text \<open>\<open>String(status || '').toLowerCase() === 'active'\<close>.\<close>

definition active_text :: "string option \<Rightarrow> bool" where
  "active_text v \<longleftrightarrow> js_lower (text_or_empty v) = ''active''"

definition truthy_currency :: "entity \<Rightarrow> string" where
  "truthy_currency e = js_upper (text_or (ent_currency e) ''TZS'')"

definition existing_escrow :: "paysafe \<Rightarrow> string \<Rightarrow> string \<Rightarrow> agreement option" where
  "existing_escrow s sender g = find (\<lambda>a. ag_sender a = sender \<and> ag_conditions a ''gatewayIntentId'' = Some (JStr g)) (rev (ps_agreements s))"

definition merchant_ok :: "create_env \<Rightarrow> paysafe \<Rightarrow> string \<Rightarrow> string \<Rightarrow> unit outcome" where
  "merchant_ok env s m recipient =
     (if m = [] then Inr ()
      else if nw_merchant_fails env then throw ''PAYSAFE_MERCHANT_LOOKUP_FAILED''
      else case ps_merchants s m of
          None \<Rightarrow> throw ''PAYSAFE_MERCHANT_NOT_FOUND''
        | Some mc \<Rightarrow> if js_lower (mc_status mc) \<noteq> ''active'' then throw ''PAYSAFE_MERCHANT_NOT_ACTIVE''
            else if text_or_empty (mc_owner mc) \<noteq> recipient then throw ''PAYSAFE_MERCHANT_RECIPIENT_MISMATCH'' else Inr ())"

definition escrow_vaults :: "create_env \<Rightarrow> paysafe \<Rightarrow> string \<Rightarrow> string \<Rightarrow> rat \<Rightarrow> ((string \<times> entity) \<times> (string \<times> entity) \<times> (string \<times> entity)) outcome" where
  "escrow_vaults env s sender recipient amount =
     (if nw_vaults_fail env then throw ''PAYSAFE_VAULT_LOOKUP_FAILED''
      else case (find (\<lambda>v. amount \<le> ent_balance (snd v)) (user_vaults s ''OPERATING'' sender), user_vaults s ''INTERNAL_TRANSFER'' sender,
                 user_vaults s ''OPERATING'' recipient) of
          (None, _, _) \<Rightarrow> throw ''OPERATING_WALLET_REQUIRED''
        | (_, [], _) \<Rightarrow> throw ''PAYSAFE_VAULT_NOT_FOUND''
        | (_, _, []) \<Rightarrow> throw ''RECIPIENT_VAULT_NOT_FOUND''
        | (Some src, esc # _, rcv # _) \<Rightarrow>
            (if nw_recheck_fails env then throw ''PAYSAFE_VAULT_LOOKUP_FAILED''
             else if list_ex (\<lambda>v. lock_blocked (snd v)) [src, esc, rcv] then throw ''PAYSAFE_VAULT_UNAVAILABLE''
             else if truthy_currency (snd src) \<noteq> truthy_currency (snd esc) \<or> truthy_currency (snd src) \<noteq> truthy_currency (snd rcv)
               then throw ''PAYSAFE_CURRENCY_MISMATCH''
             else Inr (src, esc, rcv)))"

definition merchant_fee_input :: "rat \<Rightarrow> string \<Rightarrow> string \<Rightarrow> string \<Rightarrow> string \<Rightarrow> fee_input" where
  "merchant_fee_input amount cur m service ref =
     \<lparr>fi_flow_code = ''MERCHANT_PAYMENT'', fi_amount = Some (JNum amount), fi_currency = Some cur, fi_provider_id = None, fi_country_code = None,
      fi_rail = Some ''WALLET'', fi_channel = Some ''PAYSAFE'', fi_direction = Some ''INBOUND'', fi_transaction_model = Some ''MERCHANT_PAYMENT'',
      fi_category_code = None, fi_category_id = None, fi_operation_type = Some ''PAYSAFE_RELEASE'', fi_transaction_type = Some ''MERCHANT_PAYMENT'',
      fi_metadata = [''merchantId'' \<mapsto> JStr m, ''serviceCode'' \<mapsto> (if service = [] then JNull else JStr service), ''referenceId'' \<mapsto> JStr ref]\<rparr>"

definition snapshot_of :: "clock \<Rightarrow> fee_computation \<Rightarrow> jsv" where
  "snapshot_of ck f = JObj [(''flowCode'', JStr (fe_flow_code f)), (''configId'', jopt (fe_config_id f)), (''configName'', JStr (fe_config_name f)),
     (''currency'', JStr (fe_currency f)), (''grossAmount'', JNum (fe_amount f)), (''serviceFee'', JNum (fe_service_fee f)),
     (''taxAmount'', JNum (fe_tax_amount f)), (''govFeeAmount'', JNum (fe_gov_fee_amount f)), (''stampDutyFixed'', JNum (fe_stamp_duty f)),
     (''totalFee'', JNum (fe_total_fee f)), (''netAmount'', JNum (fe_net_amount f)), (''capturedAt'', stamp_of ck (ck_now ck))]"

text \<open>No snapshot without a merchant; a fee that leaves nothing to the merchant is refused.\<close>

definition fee_snapshot_for ::
    "clock \<Rightarrow> create_env \<Rightarrow> rat \<Rightarrow> string \<Rightarrow> string \<Rightarrow> string \<Rightarrow> string \<Rightarrow> paysafe \<Rightarrow> jsv outcome \<times> paysafe" where
  "fee_snapshot_for ck env amount cur m service ref s =
     (if m = [] then (Inr JNull, s)
      else case resolveFee (ck_now ck) (nw_redis_fails env) (nw_fee_fault env) (merchant_fee_input amount cur m service ref)
              (ps_local s) (ps_redis s) (ps_fees s) of
          (r, l, d) \<Rightarrow>
            (bind_outcome r (\<lambda>f. if fe_total_fee f < 0 \<or> fe_net_amount f \<le> 0 \<or> amount \<le> fe_total_fee f
                then throw ''PAYSAFE_MERCHANT_FEE_INVALID'' else Inr (snapshot_of ck f)), s\<lparr>ps_local := l, ps_redis := d\<rparr>))"

definition escrow_metadata ::
    "rat \<Rightarrow> string \<Rightarrow> string \<Rightarrow> string \<Rightarrow> string \<Rightarrow> string \<Rightarrow> (string \<times> jsv) list \<Rightarrow> string \<Rightarrow> string \<Rightarrow> jsv \<Rightarrow> metadata" where
  "escrow_metadata amount cur recipient src esc rcv conditions m service snap =
     [''is_conditional_escrow'' \<mapsto> JBool True, ''recipient_id'' \<mapsto> JStr recipient, ''source_vault_id'' \<mapsto> JStr src, ''escrow_vault_id'' \<mapsto> JStr esc,
      ''receiver_vault_id'' \<mapsto> JStr rcv, ''escrow_amount_plain'' \<mapsto> JNum amount, ''currency'' \<mapsto> JStr cur, ''conditions'' \<mapsto> JObj conditions,
      ''hold_window_hours'' \<mapsto> JNum (resolveHoldWindowHours (map_of conditions)), ''receiver_acceptance_required'' \<mapsto> JBool True,
      ''merchant_id'' \<mapsto> (if m = [] then JNull else JStr m), ''service_code'' \<mapsto> (if service = [] then JNull else JStr service),
      ''merchant_fee_snapshot'' \<mapsto> snap, ''escrow_status'' \<mapsto> JStr ''HELD'']"

definition hold_leg :: "string \<Rightarrow> string \<Rightarrow> rat \<Rightarrow> string \<Rightarrow> string \<Rightarrow> ledger_entry" where
  "hold_leg k ty a cur d = \<lparr>le_wallet = Some k, le_user = None, le_type = ty, le_amount = Some a, le_currency = Some cur, le_description = Some d\<rparr>"

definition hold_header :: "string \<Rightarrow> string \<Rightarrow> string \<Rightarrow> rat \<Rightarrow> string \<Rightarrow> string \<Rightarrow> metadata \<Rightarrow> partial_tx" where
  "hold_header sender src esc amount description ref md = \<lparr>pt_id = None, pt_reference = Some ref, pt_user = Some sender, pt_wallet = Some src,
     pt_to_wallet = Some esc, pt_amount = amount, pt_description = Some (''PaySafe escrow: '' @ description), pt_type = Some ''escrow'',
     pt_status = Some ''authorized'', pt_metadata = md, pt_category = None\<rparr>"

definition post_escrow ::
    "crypto \<Rightarrow> clock \<Rightarrow> create_env \<Rightarrow> string \<Rightarrow> string \<Rightarrow> string \<Rightarrow> string \<Rightarrow> rat \<Rightarrow> string \<Rightarrow> string \<Rightarrow> metadata \<Rightarrow> paysafe \<Rightarrow> string outcome \<times> paysafe" where
  "post_escrow c ck env sender src esc cur amount description ref md s =
     (case postTransactionWithLedger c ck (nw_post env) (hold_header sender src esc amount description ref md)
             [hold_leg src ''DEBIT'' amount cur (''PaySafe hold: '' @ description),
              hold_leg esc ''CREDIT'' amount cur (''PaySafe escrow reserve: '' @ description)] (ps_world s) of
        (r, w) \<Rightarrow> (map_sum id (\<lambda>_. ref) r, fire_escrow_trigger ck (nw_agreement env) w s))"

definition makeEscrow ::
    "crypto \<Rightarrow> clock \<Rightarrow> create_env \<Rightarrow> string \<Rightarrow> string \<Rightarrow> rat \<Rightarrow> string \<Rightarrow> (string \<times> jsv) list \<Rightarrow> paysafe \<Rightarrow> string outcome \<times> paysafe" where
  "makeEscrow c ck env sender recipient amount description conditions s =
     (let md = map_of conditions; m = condition_text md ''merchantId'' ''merchant_id'';
          service = condition_text md ''serviceCode'' ''service_code''; ref = ''ESC-'' @ nw_code env in
      if nw_account_fails env then (throw ''PAYSAFE_ACCOUNT_LOOKUP_FAILED'', s)
      else if \<not> active_text (nw_account env sender) then (throw ''PAYSAFE_SENDER_ACCOUNT_NOT_ACTIVE'', s)
      else if \<not> active_text (nw_account env recipient) then (throw ''PAYSAFE_RECIPIENT_ACCOUNT_NOT_ACTIVE'', s)
      else case bind_outcome (merchant_ok env s m recipient) (\<lambda>_. escrow_vaults env s sender recipient amount) of
          Inl e \<Rightarrow> (Inl e, s)
        | Inr (src, esc, rcv) \<Rightarrow>
            (case fee_snapshot_for ck env amount (truthy_currency (snd src)) m service ref s of
               (Inl e, s') \<Rightarrow> (Inl e, s')
             | (Inr snap, s') \<Rightarrow> post_escrow c ck env sender (fst src) (fst esc) (truthy_currency (snd src)) amount description ref
                 (escrow_metadata amount (truthy_currency (snd src)) recipient (fst src) (fst esc) (fst rcv) conditions m service snap) s'))"

definition createEscrow ::
    "crypto \<Rightarrow> clock \<Rightarrow> create_env \<Rightarrow> string \<Rightarrow> string \<Rightarrow> rat \<Rightarrow> string \<Rightarrow> (string \<times> jsv) list \<Rightarrow> paysafe \<Rightarrow> string outcome \<times> paysafe" where
  "createEscrow c ck env sender identifier amount description conditions s =
     (let g = condition_text (map_of conditions) ''gatewayIntentId'' ''gateway_intent_id'' in
      if amount \<le> 0 then (throw ''PAYSAFE_AMOUNT_INVALID'', s)
      else if js_trim description = [] then (throw ''PAYSAFE_DESCRIPTION_REQUIRED'', s)
      else case nw_recipient env identifier of
          None \<Rightarrow> (throw ''RECIPIENT_NOT_FOUND'', s)
        | Some recipient \<Rightarrow>
            (if recipient = sender then (throw ''PAYSAFE_SELF_ESCROW_NOT_ALLOWED'', s)
             else if g \<noteq> [] \<and> nw_lookup_fails env then (throw ''PAYSAFE_IDEMPOTENCY_LOOKUP_FAILED'', s)
             else case (if g = [] then None else existing_escrow s sender g) of
                 Some a \<Rightarrow> (Inr (ag_reference a), s)
               | None \<Rightarrow> makeEscrow c ck env sender recipient amount description conditions s))"

end
