(* ===== verification/PaySafe_Sample.thy ===== *)
theory PaySafe_Sample
  imports PaySafe_Steps PaySafe_Create
begin

text \<open>
  A sample state for the witnesses: user u1 has paid 30 of 100 into an escrow for user u2. The vaults
  are \<open>src\<close> and \<open>esc\<close> of u1 and \<open>rcv\<close> of u2.
\<close>

definition sample_hold_tx :: tx_row where
  "sample_hold_tx = \<lparr>tx_id = ''t1'', tx_reference = ''ESC-1'', tx_user = Some ''u1'', tx_wallet = Some ''src'', tx_to_wallet = Some ''esc'',
     tx_amount = ''30'', tx_description = ''PaySafe escrow: boots'', tx_type = ''escrow'', tx_status = ''authorized'', tx_notes = None,
     tx_metadata = Map.empty, tx_category = None, tx_currency = Some ''TZS'', tx_created = 0, tx_updated = 0\<rparr>"

definition sample_agreement :: "escrow_status \<Rightarrow> agreement" where
  "sample_agreement st = \<lparr>ag_id = ''g1'', ag_tx = ''t1'', ag_reference = ''ESC-1'', ag_sender = ''u1'', ag_receiver = ''u2'',
     ag_source_vault = Some ''src'', ag_escrow_vault = Some ''esc'', ag_receiver_vault = Some ''rcv'', ag_merchant = None, ag_service = None,
     ag_amount = 30, ag_currency = ''TZS'', ag_conditions = Map.empty, ag_status = st, ag_metadata = Map.empty, ag_dispute = Map.empty,
     ag_expires = None, ag_release_at = None, ag_release_by = None, ag_accepted_at = None, ag_accepted_by = None, ag_released_at = None,
     ag_refunded_at = None, ag_disputed_at = None\<rparr>"

definition sample_vaults :: "rat \<Rightarrow> rat \<Rightarrow> rat \<Rightarrow> store" where
  "sample_vaults s e r = \<lparr>st_wallets = Map.empty,
     st_vaults = [''src'' \<mapsto> wallet_row s ''u1'', ''esc'' \<mapsto> wallet_row e ''u1'', ''rcv'' \<mapsto> wallet_row r ''u2''],
     st_goals = Map.empty, st_txs = [sample_hold_tx],
     st_ledger = [sample_row ''t0'' ''src'' ''CREDIT'' ''100'' 100, sample_row ''t1'' ''src'' ''DEBIT'' ''30'' 70, sample_row ''t1'' ''esc'' ''CREDIT'' ''30'' 30],
     st_markers = []\<rparr>"

definition sample_safe :: "agreement list \<Rightarrow> paysafe" where
  "sample_safe as = \<lparr>ps_world = (sample_world ''authorized'')\<lparr>w_store := sample_vaults 70 30 0\<rparr>, ps_agreements = as,
     ps_role = [''src'' \<mapsto> ''OPERATING'', ''esc'' \<mapsto> ''INTERNAL_TRANSFER'', ''rcv'' \<mapsto> ''OPERATING''],
     ps_vaults = [''src'', ''esc'', ''rcv''], ps_merchants = Map.empty, ps_merchant_wallets = [], ps_settlements = [], ps_accounts = [],
     ps_fees = [], ps_local = Map.empty, ps_redis = None\<rparr>"

definition sample_escrow_env :: escrow_env where
  "sample_escrow_env = \<lparr>ee_query_fails = False, ee_rpc = Rpc_Ok, ee_settlement = ''s1''\<rparr>"

text \<open>A full life: the receiver confirms, the sender asks for the release, the receiver accepts it.\<close>

definition sample_vault_balances :: "paysafe \<Rightarrow> rat list" where
  "sample_vault_balances s = map (balance_of (w_store (ps_world s))) [''src'', ''esc'', ''rcv'']"

lemma sample_vaults_balance: "balance_of (sample_vaults x y z) k = (if k = ''src'' then x else if k = ''esc'' then y else if k = ''rcv'' then z else 0)"
  by (auto simp: balance_of_def entity_kinds_def sample_vaults_def wallet_row_def)

lemma sample_vaults_apart: "vaults_apart (sample_vaults x y z)"
  by (simp add: vaults_apart_def sample_vaults_def)

lemma sample_escrow_row: "escrow_row (sample_safe [sample_agreement st]) ''ESC-1'' = Some (sample_agreement st)"
  by (simp add: escrow_row_def sample_safe_def sample_agreement_def)

end
