(* ===== verification/PaySafe_Properties.thy ===== *)
theory PaySafe_Properties
  imports PaySafe_Sample
begin

text \<open>
  Properties of PaySafe escrows: over any run of the service's operations an escrow pays out at most
  once and only where the agreement says, what closes an agreement, and which promises of the
  lifecycle the code does not keep.
\<close>

section \<open>Runs\<close>

datatype escrow_call =
  Call_Release clock escrow_env string string
| Call_Accept clock escrow_env string string
| Call_Dispute clock escrow_env string string string
| Call_Refund clock escrow_env string string string
| Call_Sweep clock bool "string \<Rightarrow> rpc_fault"

fun run_escrow_call :: "escrow_call \<Rightarrow> paysafe \<Rightarrow> paysafe" where
  "run_escrow_call (Call_Release ck env ref actor) s = snd (releaseEscrow ck env ref actor s)"
| "run_escrow_call (Call_Accept ck env ref actor) s = snd (acceptEscrow ck env ref actor s)"
| "run_escrow_call (Call_Dispute ck env ref actor reason) s = snd (disputeEscrow ck env ref actor reason s)"
| "run_escrow_call (Call_Refund ck env ref actor reason) s = snd (refundEscrow ck env ref actor reason s)"
| "run_escrow_call (Call_Sweep ck q f) s = snd (snd (autoRefundExpiredUnacceptedEscrows ck q f s))"

definition run_escrow_calls :: "escrow_call list \<Rightarrow> paysafe \<Rightarrow> paysafe" where
  "run_escrow_calls cs s = fold run_escrow_call cs s"

section \<open>Well-formed states\<close>

definition good_agreement :: "agreement \<Rightarrow> bool" where
  "good_agreement a \<longleftrightarrow> scale4 (ag_amount a) \<and> ag_source_vault a \<noteq> None \<and> ag_receiver_vault a \<noteq> None \<and>
     ag_sender a \<noteq> ag_receiver a \<and> ag_merchant a = None"

definition escrow_wf :: "paysafe \<Rightarrow> bool" where
  "escrow_wf s \<longleftrightarrow> vaults_apart (w_store (ps_world s)) \<and> (\<forall>k. scale4 (balance_of (w_store (ps_world s)) k)) \<and>
     distinct (map ag_id (ps_agreements s)) \<and> list_all good_agreement (ps_agreements s)"

text \<open>What an agreement has moved on the account \<open>k\<close> so far.\<close>

definition flow :: "string \<Rightarrow> agreement \<Rightarrow> rat" where
  "flow k a = (if closed a then
     (if (if ag_status a = Released then ag_receiver_vault a else ag_source_vault a) = Some k then ag_amount a else 0) -
     (if ag_escrow_vault a = Some k then ag_amount a else 0) else 0)"

definition flows :: "string \<Rightarrow> paysafe \<Rightarrow> rat" where
  "flows k s = (\<Sum>a\<leftarrow>ps_agreements s. flow k a)"

definition any_step :: "agreement \<Rightarrow> agreement \<Rightarrow> bool" where
  "any_step a b \<longleftrightarrow> (\<exists>ck actor. escrow_step ck actor a b)"

definition evolves :: "paysafe \<Rightarrow> paysafe \<Rightarrow> bool" where
  "evolves s s' \<longleftrightarrow> list_all2 any_step\<^sup>*\<^sup>* (ps_agreements s) (ps_agreements s')"

lemma evolves_refl [simp]: "evolves s s"
  by (simp add: evolves_def list.rel_refl)

lemma evolves_trans:
  assumes "evolves s s'" "evolves s' s''"
  shows "evolves s s''"
proof -
  have "any_step\<^sup>*\<^sup>* (ps_agreements s ! i) (ps_agreements s'' ! i)" if "i < length (ps_agreements s)" for i
    using assms that rtranclp_trans [of any_step "ps_agreements s ! i" "ps_agreements s' ! i" "ps_agreements s'' ! i"]
    by (simp add: evolves_def list_all2_conv_all_nth)
  with assms show ?thesis by (simp add: evolves_def list_all2_conv_all_nth)
qed

text \<open>The relation every call keeps.\<close>

definition good_change :: "paysafe \<Rightarrow> paysafe \<Rightarrow> bool" where
  "good_change s s' \<longleftrightarrow> escrow_wf s' \<and> evolves s s' \<and>
     (\<forall>k. balance_of (w_store (ps_world s')) k - flows k s' = balance_of (w_store (ps_world s)) k - flows k s)"

lemma good_change_refl: "escrow_wf s \<Longrightarrow> good_change s s"
  by (simp add: good_change_def)

lemma good_change_trans: "good_change s s' \<Longrightarrow> good_change s' s'' \<Longrightarrow> good_change s s''"
  by (auto simp: good_change_def intro: evolves_trans)

section \<open>One transition\<close>

lemma upd_one:
  "distinct (map ag_id xs) \<Longrightarrow> a \<in> set xs \<Longrightarrow>
     list_all2 (\<lambda>x y. y = x \<or> x = a \<and> y = f a) xs (upd (\<lambda>x. ag_id x = ag_id a) f xs) \<and>
     (\<Sum>x\<leftarrow>upd (\<lambda>x. ag_id x = ag_id a) f xs. h x) = (\<Sum>x\<leftarrow>xs. h x) + (h (f a) - h a :: rat)"
proof (induction xs)
  case (Cons x xs)
  show ?case
  proof (cases "ag_id x = ag_id a")
    case True
    with Cons.prems have x: "x = a" and "\<forall>y \<in> set xs. ag_id y \<noteq> ag_id a"
      by (auto simp: image_iff)
    then have "upd (\<lambda>x. ag_id x = ag_id a) f xs = xs" by (auto simp: upd_def intro: map_idI)
    with x show ?thesis by (simp add: list.rel_refl)
  next
    case False
    with Cons show ?thesis by auto
  qed
qed simp

lemma escrow_row_mem: "escrow_row s r = Some a \<Longrightarrow> a \<in> set (ps_agreements s) \<and> ag_reference a = r"
  unfolding escrow_row_def by (drule single_SomeD) (metis (mono_tags, lifting) list.set_intros(1) mem_Collect_eq set_sel)

lemma step_good: "escrow_step ck actor a b \<Longrightarrow> good_agreement a \<Longrightarrow> good_agreement b"
  by (cases rule: escrow_step.cases) (auto simp: good_agreement_def)

text \<open>Updating one agreement by a step, with the balances moving by the flow of that step.\<close>

lemma one_step_change:
  assumes "escrow_wf s" "escrow_row s r = Some a" "escrow_step ck actor a (f a)"
    and "ps_agreements s' = upd (\<lambda>x. ag_id x = ag_id a) f (ps_agreements s)"
    and "vaults_apart (w_store (ps_world s'))"
    and "\<And>k. balance_of (w_store (ps_world s')) k = balance_of (w_store (ps_world s)) k + flow k (f a) - flow k a"
  shows "good_change s s'"
proof -
  from assms(1,2) have d: "distinct (map ag_id (ps_agreements s))" and a: "a \<in> set (ps_agreements s)" and g: "good_agreement a"
    using escrow_row_mem by (auto simp: escrow_wf_def list_all_iff)
  note one = upd_one [OF d a, of f]
  have id: "ag_id (f a) = ag_id a" using step_core [OF assms(3)] by (simp add: same_core_def)
  have "list_all2 (\<lambda>x y. ag_id y = ag_id x) (ps_agreements s) (ps_agreements s')"
    unfolding assms(4) by (rule list_all2_mono [OF conjunct1 [OF one]]) (use id in auto)
  then have "map ag_id (ps_agreements s') = map ag_id (ps_agreements s)"
    by (auto simp: list_all2_conv_all_nth list_eq_iff_nth_eq)
  moreover have "list_all good_agreement (ps_agreements s')"
  proof -
    have "good_agreement y" if "y \<in> set (ps_agreements s')" for y
    proof -
      from that conjunct1 [OF one] obtain x where "x \<in> set (ps_agreements s)" "y = x \<or> x = a \<and> y = f a"
        unfolding assms(4) by (auto simp: list_all2_conv_all_nth in_set_conv_nth)
      with assms(1) step_good [OF assms(3) g] show ?thesis by (auto simp: escrow_wf_def list_all_iff)
    qed
    then show ?thesis by (simp add: list_all_iff)
  qed
  moreover have "scale4 (flow k b)" if "good_agreement b" for k b
    using that by (auto simp: flow_def good_agreement_def)
  then have "scale4 (balance_of (w_store (ps_world s')) k)" for k
    unfolding assms(6) using assms(1) step_good [OF assms(3) g] g by (intro scale4_diff scale4_add) (simp_all add: escrow_wf_def)
  moreover from assms(3) have any: "any_step\<^sup>*\<^sup>* a (f a)" by (intro r_into_rtranclp) (auto simp: any_step_def)
  have "evolves s s'"
    unfolding evolves_def assms(4) by (rule list_all2_mono [OF conjunct1 [OF one]]) (use any in auto)
  moreover have "flows k s' = flows k s + (flow k (f a) - flow k a)" for k
    using one by (simp add: flows_def assms(4))
  ultimately show ?thesis using assms(5,6) d by (simp add: good_change_def escrow_wf_def)
qed


lemma store_with_txs: "st' = st\<lparr>st_txs := x\<rparr> \<Longrightarrow> balance_of st' k = balance_of st k \<and> vaults_apart st' = vaults_apart st"
  by (simp add: vaults_apart_def)

lemma quiet_change:
  assumes "escrow_wf s" "escrow_row s r = Some a" "quiet ck actor a t s s'"
  shows "good_change s s'"
proof -
  from assms(3) obtain f where f: "ps_agreements s' = upd (\<lambda>x. ag_id x = ag_id a) f (ps_agreements s)" "escrow_step ck actor a (f a)"
    "\<not> closed (f a)" and st: "w_store (ps_world s') = (w_store (ps_world s))\<lparr>st_txs := st_txs (w_store (ps_world s'))\<rparr>"
    by (auto simp: quiet_def)
  note st' = store_with_txs [OF st]
  show ?thesis
  proof (rule one_step_change [where f = f, OF assms(1,2) f(2,1)])
    show "vaults_apart (w_store (ps_world s'))" using assms(1) st' by (simp add: escrow_wf_def)
    show "balance_of (w_store (ps_world s')) k = balance_of (w_store (ps_world s)) k + flow k (f a) - flow k a" for k
      using st' f(3) step_open [OF f(2)] by (simp add: flow_def)
  qed
qed

text \<open>A payment into the vault the agreement names for its outcome.\<close>

lemma paid_change:
  assumes "escrow_wf s" "escrow_row s r = Some a" "paid ck ref actor action reason user (Some k0) a t s s'"
    and "escrow_step ck actor a (escrow_closed ck action actor reason k0 a)"
    and "closed (escrow_closed ck action actor reason k0 a)"
    and "(if ag_status (escrow_closed ck action actor reason k0 a) = Released then ag_receiver_vault (escrow_closed ck action actor reason k0 a)
           else ag_source_vault a) = Some k0"
  shows "good_change s s'"
proof -
  let ?b = "escrow_closed ck action actor reason k0 a" and ?st = "w_store (ps_world s)"
  from assms(3) obtain ev tv where ev: "vault_of s ''INTERNAL_TRANSFER'' (ag_sender a) (ag_escrow_vault a) = Some ev"
    and tv: "vault_of s ''OPERATING'' user (Some k0) = Some tv"
    and ag: "ps_agreements s' = upd (\<lambda>x. ag_id x = ag_id a) (escrow_closed ck action actor reason (fst tv)) (ps_agreements s)"
    and st: "w_store (ps_world s') = (escrow_booked action ref a t ev tv user ?st)\<lparr>st_txs := st_txs (w_store (ps_world s'))\<rparr>"
    by (auto simp: paid_def)
  obtain i ei where i: "ev = (i, ei)" by (cases ev)
  obtain j ej where j: "tv = (j, ej)" by (cases tv)
  from vault_ofD [OF ev [unfolded i]] vault_ofD [OF tv [unfolded j]] have v: "ag_escrow_vault a = Some i" "k0 = j" "st_vaults ?st i = Some ei"
    "st_vaults ?st j = Some ej" "i \<noteq> j" by auto
  have g: "scale4 (ag_amount a)" using assms(1,2) escrow_row_mem by (auto simp: escrow_wf_def list_all_iff good_agreement_def)
  from assms(1) have w: "vaults_apart ?st" "\<forall>k. scale4 (balance_of ?st k)" by (simp_all add: escrow_wf_def)
  note st' = store_with_txs [OF st]
  have core: "ag_amount ?b = ag_amount a" "ag_escrow_vault ?b = ag_escrow_vault a" "ag_source_vault ?b = ag_source_vault a"
    by (simp_all add: escrow_closed_def Let_def)
  show ?thesis
  proof (rule one_step_change [where f = "escrow_closed ck action actor reason k0", OF assms(1,2) assms(4)])
    show "ps_agreements s' = upd (\<lambda>x. ag_id x = ag_id a) (escrow_closed ck action actor reason k0) (ps_agreements s)"
      using ag j v(2) by simp
    show "vaults_apart (w_store (ps_world s'))" using w st' by (simp add: booked_fields)
    have "flow k ?b = (if k0 = k then ag_amount a else 0) - (if i = k then ag_amount a else 0)" for k
      unfolding flow_def by (simp only: assms(5) if_True core assms(6) v(1) option.inject)
    with booked_balances [OF w(1) v(3,4,5) g w(2)] st' step_open [OF assms(4)] v(2)
    show "balance_of (w_store (ps_world s')) k = balance_of ?st k + flow k ?b - flow k a" for k
      by (simp add: flow_def i j eq_commute [of k])
  qed
qed

lemma closed_steps:
  "ag_status a = Release_Pending \<Longrightarrow> \<not> window_over ck a \<Longrightarrow> escrow_step ck (ag_receiver a) a (escrow_closed ck ''RELEASE'' (ag_receiver a) r k a)"
  "may_refund ck actor a \<Longrightarrow> escrow_step ck actor a (escrow_closed ck ''REFUND'' actor r k a)"
proof -
  assume "ag_status a = Release_Pending" "\<not> window_over ck a"
  from escrow_step.Pay [OF this] show "escrow_step ck (ag_receiver a) a (escrow_closed ck ''RELEASE'' (ag_receiver a) r k a)"
    by (simp add: escrow_closed_def)
next
  have eq: "\<exists>md. escrow_closed ck ''REFUND'' actor r k a = a\<lparr>ag_status := Refunded, ag_refunded_at := Some (ck_now ck), ag_metadata := md\<rparr>"
    by (rule exI) (simp add: escrow_closed_def)
  assume "may_refund ck actor a"
  with eq show "escrow_step ck actor a (escrow_closed ck ''REFUND'' actor r k a)"
    by (auto simp: may_refund_def intro: escrow_step.Return_Accepted escrow_step.Expired_Refund escrow_step.Refund)
qed

lemma transition_change:
  assumes "escrow_wf s" "transition_paysafe_escrow_v1 ck ref actor action vault reason s = Inr (ans, s')"
    and "\<And>a. escrow_row s ref = Some a \<Longrightarrow> vault = None \<or> vault = ag_source_vault a \<and> actor = ag_sender a"
  shows "good_change s s'"
proof (cases "s' = s")
  case False
  with transition_effect [OF assms(2)] obtain a t where a: "escrow_row s ref = Some a" and e: "escrow_effect ck ref actor vault a t s s'" by blast
  have g: "good_agreement a" using assms(1) a escrow_row_mem by (auto simp: escrow_wf_def list_all_iff)
  from g obtain src rcv where v: "ag_source_vault a = Some src" "ag_receiver_vault a = Some rcv" "ag_sender a \<noteq> ag_receiver a"
    by (auto simp: good_agreement_def)
  from e consider "quiet ck actor a t s s'"
    | r where "ag_status a = Release_Pending" "\<not> window_over ck a" "actor = ag_receiver a"
        "paid ck ref actor ''RELEASE'' r (ag_receiver a) (Some rcv) a t s s'"
    | r where "may_refund ck actor a" "paid ck ref actor ''REFUND'' r (ag_sender a) (Some src) a t s s'"
    using assms(3) [OF a] v unfolding escrow_effect_def by (auto split: option.splits)
  then show ?thesis
  proof cases
    case 1
    from quiet_change [OF assms(1) a 1] show ?thesis .
  next
    case 2
    from closed_steps(1) [OF 2(1,2)] show ?thesis
      by (intro paid_change [OF assms(1) a 2(4)]) (simp_all add: 2(3) closed_def escrow_closed_def Let_def)
  next
    case 3
    from closed_steps(2) [OF 3(1)] show ?thesis
      by (intro paid_change [OF assms(1) a 3(2)]) (simp_all add: v closed_def escrow_closed_def Let_def)
  qed
qed (simp add: good_change_refl [OF assms(1)])

section \<open>The operations\<close>

lemma rpc_change:
  assumes "\<And>ans s'. proc s = Inr (ans, s') \<Longrightarrow> good_change s s'" "escrow_wf s"
  shows "good_change s (snd (escrow_rpc f fb proc s))"
proof (cases "proc s")
  case (Inl e)
  with good_change_refl [OF assms(2)] show ?thesis by (cases f) (simp_all add: escrow_rpc_def)
next
  case (Inr x)
  obtain ans s' where x: "x = (ans, s')" by (cases x)
  with assms(1) Inr have "good_change s s'" by simp
  with good_change_refl [OF assms(2)] Inr x show ?thesis by (cases f) (simp_all add: escrow_rpc_def)
qed

lemma escrow_transition_change:
  assumes "escrow_wf s" "\<And>a. escrow_row s ref = Some a \<Longrightarrow> vault = None \<or> vault = ag_source_vault a \<and> actor = ag_sender a"
  shows "good_change s (snd (escrow_transition ck f ref actor action vault reason s))"
  unfolding escrow_transition_def by (rule rpc_change [OF transition_change [OF assms(1)] assms(1)]) (use assms(2) in auto)

lemma plain_rows: "escrow_wf s \<Longrightarrow> escrow_row s ref = Some a \<Longrightarrow> ag_merchant a = None"
  by (drule escrow_row_mem) (auto simp: escrow_wf_def list_all_iff good_agreement_def)

lemma get_agreement: "getAgreement env ref s = Inr a \<Longrightarrow> escrow_row s ref = Some a"
  by (auto simp: getAgreement_def split: option.splits if_splits)

lemma party_call_change:
  assumes "escrow_wf s"
  shows "good_change s (snd (releaseEscrow ck env ref actor s))" "good_change s (snd (acceptEscrow ck env ref actor s))"
    "good_change s (snd (disputeEscrow ck env ref actor reason s))" "good_change s (snd (refundEscrow ck env ref actor reason s))"
proof -
  note 0 = good_change_refl [OF assms]
  note t = escrow_transition_change [OF assms]
  show "good_change s (snd (releaseEscrow ck env ref actor s))"
  proof (cases "getAgreement env ref s")
    case (Inr a)
    with plain_rows [OF assms get_agreement [OF Inr]] show ?thesis by (simp add: releaseEscrow_def 0 t)
  qed (simp add: releaseEscrow_def 0)
  show "good_change s (snd (acceptEscrow ck env ref actor s))"
  proof (cases "getAgreement env ref s")
    case (Inr a)
    with get_agreement [OF Inr] show ?thesis by (auto simp: acceptEscrow_def 0 intro!: t)
  qed (simp add: acceptEscrow_def 0)
  show "good_change s (snd (disputeEscrow ck env ref actor reason s))"
    by (cases "getAgreement env ref s") (auto simp: disputeEscrow_def 0 t)
  show "good_change s (snd (refundEscrow ck env ref actor reason s))"
    by (cases "getAgreement env ref s") (auto simp: refundEscrow_def 0 intro!: t dest!: get_agreement)
qed

text \<open>The sweep refunds rows as they were read before; the rows it meets keep their parties.\<close>

lemma evolved_row:
  assumes "evolves s s'" "a \<in> set (ps_agreements s)"
  shows "\<exists>b \<in> set (ps_agreements s'). same_core a b"
proof -
  have core: "any_step\<^sup>*\<^sup>* x y \<Longrightarrow> same_core x y" for x y
    by (induction rule: rtranclp_induct) (auto simp: any_step_def dest: step_core intro: same_core_trans)
  from assms obtain i where "i < length (ps_agreements s)" "a = ps_agreements s ! i" by (auto simp: in_set_conv_nth)
  with assms(1) core show ?thesis by (auto simp: evolves_def list_all2_conv_all_nth intro!: bexI [where x = "ps_agreements s' ! i"])
qed

lemma sweep_one_change:
  assumes "escrow_wf s" "b \<in> set (ps_agreements s)" "same_core a b"
  shows "good_change s (snd (snd (sweep_one ck f a (n, m, s))))"
proof -
  let ?t = "escrow_transition ck (f (ag_id a)) (ag_reference a) (ag_sender a) ''REFUND'' (ag_source_vault a) (Some expired_reason) s"
  have "good_change s (snd ?t)"
  proof (rule escrow_transition_change [OF assms(1)])
    fix x assume "escrow_row s (ag_reference a) = Some x"
    then have "sel (\<lambda>y. ag_reference y = ag_reference a) (ps_agreements s) = [x]" by (simp add: escrow_row_def single_SomeD)
    moreover have "b \<in> set (sel (\<lambda>y. ag_reference y = ag_reference a) (ps_agreements s))"
      using assms(2,3) by (simp add: set_sel same_core_def)
    ultimately have "x = b" by simp
    with assms(3) show "ag_source_vault a = None \<or> ag_source_vault a = ag_source_vault x \<and> ag_sender a = ag_sender x"
      by (simp add: same_core_def)
  qed
  moreover have "snd (snd (sweep_one ck f a (n, m, s))) = snd ?t"
    by (cases ?t; cases "fst ?t") (simp_all add: sweep_one_def)
  ultimately show ?thesis by simp
qed

lemma sweep_fold_change:
  assumes "escrow_wf s" "\<forall>a \<in> set as. \<exists>b \<in> set (ps_agreements s). same_core a b"
  shows "good_change s (snd (snd (fold (sweep_one ck f) as (n, m, s))))"
  using assms
proof (induction as arbitrary: n m s)
  case Nil
  then show ?case by (simp add: good_change_refl)
next
  case (Cons a as)
  obtain n' m' s' where s': "sweep_one ck f a (n, m, s) = (n', m', s')" by (metis prod_cases3)
  from Cons.prems obtain b where "b \<in> set (ps_agreements s)" "same_core a b" by auto
  from sweep_one_change [OF Cons.prems(1) this, of ck f n m] have 1: "good_change s s'" by (simp add: s')
  then have "\<forall>x \<in> set as. \<exists>y \<in> set (ps_agreements s'). same_core x y"
    using Cons.prems(2) evolved_row same_core_trans by (fastforce simp: good_change_def)
  with Cons.IH [of s' n' m'] 1 good_change_trans [OF 1] show ?case by (simp add: s' good_change_def)
qed

lemma sweep_change:
  assumes "escrow_wf s"
  shows "good_change s (snd (snd (autoRefundExpiredUnacceptedEscrows ck q f s)))"
proof (cases q)
  case False
  have "\<forall>a \<in> set (sweep_candidates ck s). \<exists>b \<in> set (ps_agreements s). same_core a b"
    by (auto simp: sweep_candidates_def set_sel dest!: in_set_takeD intro!: bexI)
  from sweep_fold_change [OF assms this] False show ?thesis by (simp add: autoRefundExpiredUnacceptedEscrows_def)
qed (simp add: autoRefundExpiredUnacceptedEscrows_def good_change_refl [OF assms])

lemma run_escrow_change: "escrow_wf s \<Longrightarrow> good_change s (run_escrow_calls cs s)"
  unfolding run_escrow_calls_def
proof (induction cs arbitrary: s)
  case Nil
  then show ?case by (simp add: good_change_refl)
next
  case (Cons x cs)
  have 1: "good_change s (run_escrow_call x s)"
    using party_call_change [OF Cons.prems] sweep_change [OF Cons.prems] by (cases x) simp_all
  with Cons.IH have "good_change (run_escrow_call x s) (fold run_escrow_call cs (run_escrow_call x s))" by (simp add: good_change_def)
  from good_change_trans [OF 1 this] show ?case by simp
qed

section \<open>A sample life of an escrow\<close>

lemma sample_safe_wf:
  "escrow_wf (sample_safe [sample_agreement st])" "escrow_wf (sample_safe [])"
  by (auto simp: escrow_wf_def sample_safe_def sample_vaults_apart sample_vaults_balance good_agreement_def sample_agreement_def)

text \<open>The receiver confirms, the sender asks for the release, the receiver accepts; and a disputed escrow that its sender takes back.\<close>

definition sample_payment :: "escrow_call list" where
  "sample_payment = [Call_Accept sample_clock sample_escrow_env ''ESC-1'' ''u2'', Call_Release sample_clock sample_escrow_env ''ESC-1'' ''u1'',
     Call_Accept sample_clock sample_escrow_env ''ESC-1'' ''u2'']"

definition sample_return :: "escrow_call list" where
  "sample_return = [Call_Dispute sample_clock sample_escrow_env ''ESC-1'' ''u1'' ''late'', Call_Refund sample_clock sample_escrow_env ''ESC-1'' ''u1'' ''late'']"

lemma sample_payment_run:
  "sample_vault_balances (run_escrow_calls sample_payment (sample_safe [sample_agreement Held])) = [70, 0, 30]"
  "map ag_status (ps_agreements (run_escrow_calls sample_payment (sample_safe [sample_agreement Held]))) = [Released]"
  by code_simp+

lemma sample_return_run:
  "sample_vault_balances (run_escrow_calls sample_return (sample_safe [sample_agreement Held])) = [100, 0, 0]"
  "map ag_status (ps_agreements (run_escrow_calls sample_return (sample_safe [sample_agreement Held]))) = [Refunded]"
  by code_simp+

section \<open>Properties\<close>

lemma steps_core: "any_step\<^sup>*\<^sup>* a b \<Longrightarrow> same_core a b"
  by (induction rule: rtranclp_induct) (auto simp: any_step_def dest: step_core intro: same_core_trans)

lemma steps_closed: "any_step\<^sup>*\<^sup>* a b \<Longrightarrow> closed a \<Longrightarrow> b = a"
  by (erule converse_rtranclpE) (auto simp: any_step_def dest: step_open)



text \<open>What an agreement that started held and unconfirmed looks like later.\<close>

definition consented :: "agreement \<Rightarrow> bool" where
  "consented a \<longleftrightarrow> (accepted a \<longrightarrow> ag_accepted_by a = Some (ag_receiver a)) \<and>
     (ag_status a = Held \<longrightarrow> ag_release_by a = None) \<and>
     (ag_status a \<in> {Release_Pending, Released} \<longrightarrow> ag_release_by a = Some (ag_sender a) \<and> accepted a) \<and>
     (ag_status a \<in> {Held, Release_Pending, Return_Pending, Released} \<longrightarrow> ag_disputed_at a = None) \<and>
     (ag_status a = Return_Pending \<longrightarrow> accepted a)"

lemma accepted_simps [simp]:
  "accepted (a\<lparr>ag_status := x1\<rparr>) = accepted a" "accepted (a\<lparr>ag_metadata := x2\<rparr>) = accepted a" "accepted (a\<lparr>ag_dispute := x2\<rparr>) = accepted a"
  "accepted (a\<lparr>ag_expires := x3\<rparr>) = accepted a" "accepted (a\<lparr>ag_release_at := x3\<rparr>) = accepted a" "accepted (a\<lparr>ag_release_by := x4\<rparr>) = accepted a"
  "accepted (a\<lparr>ag_receiver_vault := x4\<rparr>) = accepted a" "accepted (a\<lparr>ag_released_at := x3\<rparr>) = accepted a"
  "accepted (a\<lparr>ag_refunded_at := x3\<rparr>) = accepted a" "accepted (a\<lparr>ag_disputed_at := x3\<rparr>) = accepted a"
  "accepted (a\<lparr>ag_accepted_by := Some u\<rparr>)"
  by (simp_all add: accepted_def)

lemma consented_step: "escrow_step ck actor a b \<Longrightarrow> consented a \<Longrightarrow> consented b"
  by (induction rule: escrow_step.induct) (simp_all add: consented_def, auto)

lemma consented_run: "any_step\<^sup>*\<^sup>* a b \<Longrightarrow> consented a \<Longrightarrow> consented b"
  by (induction rule: rtranclp_induct) (auto simp: any_step_def dest: consented_step)

definition fresh_agreement :: "agreement \<Rightarrow> bool" where
  "fresh_agreement a \<longleftrightarrow> ag_status a = Held \<and> ag_accepted_at a = None \<and> ag_accepted_by a = None \<and> ag_release_by a = None \<and> ag_disputed_at a = None"



lemma disputed_step: "escrow_step ck actor a b \<Longrightarrow> ag_status a \<in> {Disputed, Refunded} \<Longrightarrow> ag_status b \<in> {Disputed, Refunded}"
  by (cases rule: escrow_step.cases) auto

lemma disputed_run: "any_step\<^sup>*\<^sup>* a b \<Longrightarrow> ag_status a \<in> {Disputed, Refunded} \<Longrightarrow> ag_status b \<in> {Disputed, Refunded}"
  by (induction rule: rtranclp_induct) (auto simp: any_step_def dest: disputed_step)

text \<open>A dispute can end in one way only: no run of operations ever pays a disputed escrow to the receiver. It
  stays disputed or goes back to the sender.\<close>

theorem dispute_never_pays_receiver:
  assumes "escrow_wf s" and "i < length (ps_agreements s)" and "ag_status (ps_agreements s ! i) = Disputed"
  shows "ag_status (ps_agreements (run_escrow_calls cs s) ! i) \<in> {Disputed, Refunded}"
proof -
  from run_escrow_change [OF assms(1), of cs] assms(2) have "any_step\<^sup>*\<^sup>* (ps_agreements s ! i) (ps_agreements (run_escrow_calls cs s) ! i)"
    by (simp add: good_change_def evolves_def list_all2_conv_all_nth)
  from disputed_run [OF this] assms(3) show ?thesis by simp
qed

theorem dispute_never_pays_receiver_witness:
  "ag_status (ps_agreements (run_escrow_calls sample_payment (sample_safe [sample_agreement Disputed])) ! 0) \<in> {Disputed, Refunded}"
  using dispute_never_pays_receiver [OF sample_safe_wf(1), of 0 Disputed sample_payment]
  by (simp add: sample_safe_def sample_agreement_def)

text \<open>A return that was requested and not answered in time is stuck: once its window is over, releasing,
  accepting and refunding fail for every actor and change nothing, and the expiry sweep does not consider it;
  the automatic refund its answer announced never happens.\<close>

theorem expired_return_is_stuck:
  assumes "escrow_row s ref = Some a" and "ag_status a = Return_Pending" and "window_over ck a" and "ag_merchant a = None"
  shows "isl (fst (releaseEscrow ck env ref actor s)) \<and> snd (releaseEscrow ck env ref actor s) = s \<and>
    isl (fst (acceptEscrow ck env ref actor s)) \<and> snd (acceptEscrow ck env ref actor s) = s \<and>
    isl (fst (refundEscrow ck env ref actor reason s)) \<and> snd (refundEscrow ck env ref actor reason s) = s \<and>
    a \<notin> set (sweep_candidates ck s)"
proof -
  have no: "\<exists>e. transition_paysafe_escrow_v1 ck ref actor' action vault r s = Inl e"
    if "action \<in> {''RELEASE'', ''ACCEPT'', ''REFUND''}" for actor' action vault r
  proof -
    have "action = ''RELEASE'' \<or> action = ''ACCEPT'' \<or> action = ''REFUND''" using that by simp
    moreover have "js_upper (sql_btrim ''RELEASE'') = ''RELEASE''" "js_upper (sql_btrim ''ACCEPT'') = ''ACCEPT''" "js_upper (sql_btrim ''REFUND'') = ''REFUND''"
      by code_simp+
    ultimately show ?thesis
      using assms(1-3)
      by (auto simp: transition_paysafe_escrow_v1_def Let_def escrow_request_release_def escrow_accept_def escrow_refund_def bad_state_def 
          split: option.splits)
  qed
  have f: "isl (fst (escrow_transition ck f ref actor' action vault r s)) \<and> snd (escrow_transition ck f ref actor' action vault r s) = s"
    if "action \<in> {''RELEASE'', ''ACCEPT'', ''REFUND''}" for f actor' action vault r
    using no [OF that, of actor' vault r] by (cases f) (auto simp: escrow_transition_def escrow_rpc_def domain_error_def)
  have g: "getAgreement env ref s = Inr a \<or> (\<exists>e. getAgreement env ref s = Inl e)"
    using assms(1) by (simp add: getAgreement_def)
  have "a \<notin> set (sweep_candidates ck s)"
    using assms(2) by (auto simp: sweep_candidates_def set_sel expired_unconfirmed_def dest!: in_set_takeD)
  with g f show ?thesis
    by (auto simp: releaseEscrow_def acceptEscrow_def refundEscrow_def assms(4))
qed

theorem expired_return_is_stuck_witness:
  "snd (refundEscrow sample_clock sample_escrow_env ''ESC-1'' ''u1'' ''late'' (sample_safe [(sample_agreement Return_Pending)\<lparr>ag_expires := Some 5\<rparr>])) =
     sample_safe [(sample_agreement Return_Pending)\<lparr>ag_expires := Some 5\<rparr>]"
proof -
  let ?s = "sample_safe [(sample_agreement Return_Pending)\<lparr>ag_expires := Some 5\<rparr>]"
  have "escrow_row ?s ''ESC-1'' = Some ((sample_agreement Return_Pending)\<lparr>ag_expires := Some 5\<rparr>)"
    by (simp add: escrow_row_def sample_safe_def sample_agreement_def)
  from expired_return_is_stuck [OF this, of sample_clock] show ?thesis
    by (simp add: sample_agreement_def window_over_def sample_clock_def)
qed

end
