(* ===== verification/PaySafe_Creation.thy ===== *)
theory PaySafe_Creation
  imports PaySafe_Outcomes Ledger_Properties
begin

text \<open>
  What making an escrow does: the posting holds exactly the amount and the trigger adds one
  unconfirmed agreement without a deadline. So the expiry sweep never finds a hold to refund.
\<close>

section \<open>The new agreement\<close>

definition new_hold :: "create_env \<Rightarrow> agreement \<Rightarrow> bool" where
  "new_hold env a \<longleftrightarrow> ag_id a = nw_agreement env \<and> fresh_agreement a \<and> ag_expires a = None"

lemma agreement_new:
  assumes "agreement_of_tx ck i t = Some a"
  shows "ag_id a = i \<and> ag_tx a = tx_id t \<and> ag_reference a = tx_reference t \<and> fresh_agreement a \<and>
    ag_expires a = Option.bind (md_field (tx_metadata t) ''expires_at'') (ck_parse ck)"
  using assms by (auto simp: agreement_of_tx_def Let_def fresh_agreement_def split: if_splits option.splits)

lemma escrow_no_deadline: "md_field (escrow_metadata amount cur r src esc rcv cs m service snap) ''expires_at'' = None"
  by (simp add: md_field_def escrow_metadata_def)

lemma commit_args_fields:
  "commit_args c ck env t ls w = Inr a \<Longrightarrow> pa_metadata a = pt_metadata t \<and> pa_user a = pt_user t \<and>
     pa_type a = text_or (pt_type t) ''expense'' \<and> pa_reference a = Some (posted_reference env t) \<and> pa_wallet a = truthy_text (pt_wallet t)"
  by (auto simp: commit_args_def bind_outcome_Inr_iff)

lemma hold_header_fields: "pt_metadata (hold_header sender src esc amount d ref md) = md" "pt_user (hold_header sender src esc amount d ref md) = Some sender"
  "pt_type (hold_header sender src esc amount d ref md) = Some ''escrow''" "pt_wallet (hold_header sender src esc amount d ref md) = Some src"
  "pt_reference (hold_header sender src esc amount d ref md) = Some ref"
  by (simp_all add: hold_header_def)

lemma fired:
  assumes "w_store w = w_store (ps_world s) \<or> st_txs (w_store w) = st_txs (w_store (ps_world s)) @ [t]"
  shows "ps_agreements (fire_escrow_trigger ck i w s) = ps_agreements s \<or>
    (\<exists>a. agreement_of_tx ck i t = Some a \<and> ps_agreements (fire_escrow_trigger ck i w s) = ps_agreements s @ [a])"
  using assms by (auto simp: fire_escrow_trigger_def Let_def map_filter_simps split: option.splits if_splits)

lemma post_escrow_agreements:
  assumes "post_escrow c ck env sender src esc cur amount d ref (escrow_metadata amount cur' r src' esc' rcv cs m service snap) s = (x, s')"
  shows "ps_agreements s' = ps_agreements s \<or> (\<exists>a. new_hold env a \<and> ps_agreements s' = ps_agreements s @ [a])"
proof -
  let ?md = "escrow_metadata amount cur' r src' esc' rcv cs m service snap"
  obtain y w where p: "postTransactionWithLedger c ck (nw_post env) (hold_header sender src esc amount d ref ?md)
             [hold_leg src ''DEBIT'' amount cur (''PaySafe hold: '' @ d),
              hold_leg esc ''CREDIT'' amount cur (''PaySafe escrow reserve: '' @ d)] (ps_world s) = (y, w)" by fastforce
  with assms have s': "s' = fire_escrow_trigger ck (nw_agreement env) w s" by (simp add: post_escrow_def)
  from post_store_cases [OF p] show ?thesis
  proof
    assume "w_store w = w_store (ps_world s)"
    then show ?thesis by (simp add: s' fire_escrow_trigger_def map_filter_simps)
  next
    assume "\<exists>a. commit_args c ck (nw_post env) (hold_header sender src esc amount d ref ?md)
             [hold_leg src ''DEBIT'' amount cur (''PaySafe hold: '' @ d),
              hold_leg esc ''CREDIT'' amount cur (''PaySafe escrow reserve: '' @ d)] (ps_world s) = Inr a \<and>
         post_transaction_v2 (w_store (ps_world s)) a = Inr (w_store w)"
    then obtain a where "commit_args c ck (nw_post env) (hold_header sender src esc amount d ref ?md)
             [hold_leg src ''DEBIT'' amount cur (''PaySafe hold: '' @ d),
              hold_leg esc ''CREDIT'' amount cur (''PaySafe escrow reserve: '' @ d)] (ps_world s) = Inr a"
      and "post_transaction_v2 (w_store (ps_world s)) a = Inr (w_store w)" by (elim exE conjE)
    from commit_args_fields [OF this(1)] post_txs [OF this(2)] have a: "pa_metadata a = ?md"
      "st_txs (w_store w) = st_txs (w_store (ps_world s)) @ [new_tx a]" by (simp_all only: hold_header_fields)
    have "tx_metadata (new_tx a) = ?md" by (simp add: new_tx_def a(1))
    with agreement_new [of ck "nw_agreement env" "new_tx a"] fired [of w s "new_tx a" ck "nw_agreement env"] a(2) show ?thesis
      by (auto simp: s' new_hold_def escrow_no_deadline)
  qed
qed

lemma snapshot_agreements: "ps_agreements (snd (fee_snapshot_for ck env amount cur m service ref s)) = ps_agreements s"
  by (simp add: fee_snapshot_for_def split: prod.splits)

lemma create_agreements:
  assumes "createEscrow c ck env sender identifier amount d cs s = (x, s')"
  shows "ps_agreements s' = ps_agreements s \<or> (\<exists>a. new_hold env a \<and> ps_agreements s' = ps_agreements s @ [a])"
proof -
  have m: "ps_agreements s1 = ps_agreements s \<or> (\<exists>a. new_hold env a \<and> ps_agreements s1 = ps_agreements s @ [a])"
    if "makeEscrow c ck env sender r amount d cs s = (y, s1)" for r y s1
    using that snapshot_agreements
    by (auto simp: makeEscrow_def Let_def split: if_splits sum.splits prod.splits dest!: post_escrow_agreements) (metis snd_conv)+
  show ?thesis using assms by (auto simp: createEscrow_def Let_def split: if_splits option.splits dest: m)
qed

section \<open>Every run of the program\<close>

text \<open>
  The states the program reaches from an empty table: escrows are made under fresh ids, the
  operations are called in any order with any faults, and everything else may change but the table.
\<close>

inductive escrow_reach :: "paysafe \<Rightarrow> bool" where
  Start: "ps_agreements s = [] \<Longrightarrow> escrow_reach s"
| Create: "escrow_reach s \<Longrightarrow> nw_agreement env \<notin> ag_id ` set (ps_agreements s) \<Longrightarrow>
    escrow_reach (snd (createEscrow c ck env sender identifier amount d cs s))"
| Call: "escrow_reach s \<Longrightarrow> escrow_reach (run_escrow_call x s)"
| Other: "escrow_reach s \<Longrightarrow> ps_agreements s' = ps_agreements s \<Longrightarrow> escrow_reach s'"

definition no_deadline :: "agreement \<Rightarrow> bool" where
  "no_deadline a \<longleftrightarrow> (ag_status a = Held \<and> \<not> accepted a \<longrightarrow> ag_expires a = None) \<and> (ag_status a = Release_Pending \<longrightarrow> accepted a)"

definition deadline_inv :: "paysafe \<Rightarrow> bool" where
  "deadline_inv s \<longleftrightarrow> distinct (map ag_id (ps_agreements s)) \<and> list_all no_deadline (ps_agreements s)"

lemma deadline_upd:
  assumes "deadline_inv s" "a \<in> set (ps_agreements s)" "ag_id (f a) = ag_id a" "no_deadline (f a)"
    and "ps_agreements s' = upd (\<lambda>x. ag_id x = ag_id a) f (ps_agreements s)"
  shows "deadline_inv s'"
proof -
  from assms(1) have d: "distinct (map ag_id (ps_agreements s))" and g: "list_all no_deadline (ps_agreements s)"
    by (simp_all add: deadline_inv_def)
  from upd_one [OF d assms(2), where f = f and h = "\<lambda>_. 0"]
  have one: "list_all2 (\<lambda>x y. y = x \<or> x = a \<and> y = f a) (ps_agreements s) (ps_agreements s')" by (simp add: assms(5))
  then have "list_all2 (\<lambda>x y. ag_id y = ag_id x) (ps_agreements s) (ps_agreements s')"
    by (rule list_all2_mono) (use assms(3) in auto)
  then have "map ag_id (ps_agreements s') = map ag_id (ps_agreements s)" by (auto simp: list_all2_conv_all_nth list_eq_iff_nth_eq)
  moreover have "no_deadline y" if "y \<in> set (ps_agreements s')" for y
  proof -
    from that obtain i where i: "i < length (ps_agreements s')" "y = ps_agreements s' ! i" by (auto simp: in_set_conv_nth)
    let ?x = "ps_agreements s ! i"
    from one i have "?x \<in> set (ps_agreements s)" "y = ?x \<or> ?x = a \<and> y = f a" by (auto simp: list_all2_conv_all_nth)
    with g assms(4) show ?thesis by (auto simp: list_all_iff)
  qed
  ultimately show ?thesis using d by (simp add: deadline_inv_def list_all_iff)
qed

lemma no_deadline_step: "escrow_step ck actor a b \<Longrightarrow> no_deadline a \<Longrightarrow> no_deadline b"
  by (induction rule: escrow_step.induct) (simp_all add: no_deadline_def)

lemma closed_no_deadline: "closed a \<Longrightarrow> no_deadline a"
  by (auto simp: closed_def no_deadline_def)

lemma transition_deadline:
  assumes "deadline_inv s" "transition_paysafe_escrow_v1 ck ref actor action vault reason s = Inr (ans, s')"
  shows "deadline_inv s'"
proof -
  have paid: "deadline_inv s'" if "paid ck ref actor x r u v a t s s'" "a \<in> set (ps_agreements s)" for x r u v a t
  proof -
    from that(1) obtain k where "ps_agreements s' = upd (\<lambda>y. ag_id y = ag_id a) (escrow_closed ck x actor r k) (ps_agreements s)"
      by (auto simp: paid_def)
    then show ?thesis
      by (rule deadline_upd [where f = "escrow_closed ck x actor r k", OF assms(1) that(2), rotated 2])
        (simp_all add: escrow_closed_def Let_def closed_no_deadline closed_def)
  qed
  have quiet: "deadline_inv s'" if "quiet ck actor a t s s'" "a \<in> set (ps_agreements s)" for a t
  proof -
    from that(1) obtain f where f: "ps_agreements s' = upd (\<lambda>x. ag_id x = ag_id a) f (ps_agreements s)" "escrow_step ck actor a (f a)"
      by (auto simp: quiet_def)
    from assms(1) that(2) have "no_deadline a" by (simp add: deadline_inv_def list_all_iff)
    with f(2) show ?thesis
      by (intro deadline_upd [where f = f, OF assms(1) that(2) _ _ f(1)]) (auto dest: step_core no_deadline_step simp: same_core_def)
  qed
  from transition_effect [OF assms(2)] show ?thesis
  proof
    assume "\<exists>a t. escrow_row s ref = Some a \<and> find_tx (ps_world s) (ag_tx a) = Some t \<and> escrow_effect ck ref actor vault a t s s'"
    then obtain a t where "a \<in> set (ps_agreements s)" "escrow_effect ck ref actor vault a t s s'" using escrow_row_mem by blast
    then show ?thesis unfolding escrow_effect_def using paid quiet by blast
  qed (use assms(1) in simp)
qed

lemma finish_agreements:
  "\<exists>f. (\<forall>x. ag_id (f x) = ag_id x \<and> ag_status (f x) = Released) \<and>
     ps_agreements (merchant_finish ck actor ms snap a t mw s) = upd (\<lambda>x. ag_id x = ag_id a) f (ps_agreements s)"
  unfolding merchant_finish_def set_escrow_tx_simps set_agreement_simps by (intro exI conjI) simp_all

lemma settlement_agreements:
  assumes "settle_merchant_paysafe_v1 ck i ref actor s = Inr (ans, s')"
  shows "ps_agreements s' = ps_agreements s \<or> (\<exists>a f. escrow_row s ref = Some a \<and> (\<forall>x. ag_id (f x) = ag_id x \<and> ag_status (f x) = Released) \<and>
    ps_agreements s' = upd (\<lambda>x. ag_id x = ag_id a) f (ps_agreements s))"
proof -
  have "\<exists>f. (\<forall>x. ag_id (f x) = ag_id x \<and> ag_status (f x) = Released) \<and>
      ps_agreements s1 = upd (\<lambda>x. ag_id x = ag_id a) f (ps_agreements s)"
    if "settle_amounts ck i ref actor m mc md snap a t ev mw s = Inr (ans, s1)" for m mc md snap a t ev mw s1
  proof -
    from that obtain ms s0 where "s1 = merchant_finish ck actor ms snap a t mw s0" "ps_agreements s0 = ps_agreements s"
      by (auto simp: settle_amounts_def bind_outcome_Inr_iff split: if_splits)
    with finish_agreements show ?thesis by metis
  qed
  with assms show ?thesis
    by (auto simp: settle_merchant_paysafe_v1_def split: if_splits option.splits)
qed

lemma settlement_deadline:
  assumes "deadline_inv s" "settle_merchant_paysafe_v1 ck i ref actor s = Inr (ans, s')"
  shows "deadline_inv s'"
  using settlement_agreements [OF assms(2)]
proof (elim disjE exE conjE)
  fix a f assume "escrow_row s ref = Some a" "\<forall>x. ag_id (f x) = ag_id x \<and> ag_status (f x) = Released"
    and "ps_agreements s' = upd (\<lambda>x. ag_id x = ag_id a) f (ps_agreements s)"
  then show ?thesis using escrow_row_mem
    by (intro deadline_upd [where f = f, OF assms(1)]) (auto simp: no_deadline_def)
qed (use assms(1) in \<open>simp add: deadline_inv_def\<close>)

lemma rpc_deadline:
  assumes "deadline_inv s" "\<And>ans s'. proc s = Inr (ans, s') \<Longrightarrow> deadline_inv s'"
  shows "deadline_inv (snd (escrow_rpc f e proc s))"
  using assms by (auto simp: escrow_rpc_def split: rpc_fault.splits sum.splits prod.splits)

lemma escrow_transition_deadline: "deadline_inv s \<Longrightarrow> deadline_inv (snd (escrow_transition ck f ref actor action vault reason s))"
  unfolding escrow_transition_def by (rule rpc_deadline) (auto dest: transition_deadline)

lemma call_deadline:
  assumes "deadline_inv s"
  shows "deadline_inv (run_escrow_call x s)"
proof -
  note t = escrow_transition_deadline [OF assms]
  have m: "deadline_inv (snd (settleMerchantEscrow ck env ref actor s))" for ck env ref actor
    unfolding settleMerchantEscrow_def by (rule rpc_deadline [OF assms]) (auto dest: settlement_deadline [OF assms])
  have sweep: "deadline_inv (snd (snd (fold (sweep_one ck f) rows (n, k, s1))))" if "deadline_inv s1" for ck f rows n k s1
    using that
  proof (induction rows arbitrary: n k s1)
    case (Cons a rows)
    obtain n' k' s2 where s2: "sweep_one ck f a (n, k, s1) = (n', k', s2)" by (metis prod_cases3)
    let ?t = "escrow_transition ck (f (ag_id a)) (ag_reference a) (ag_sender a) ''REFUND'' (ag_source_vault a) (Some expired_reason) s1"
    have "s2 = snd ?t" using s2 by (cases ?t; cases "fst ?t") (auto simp: sweep_one_def)
    with escrow_transition_deadline [OF Cons.prems] Cons.IH s2 show ?case by simp
  qed simp
  show ?thesis
    using assms t m sweep
    by (cases x) (auto simp: releaseEscrow_def acceptEscrow_def disputeEscrow_def refundEscrow_def
      autoRefundExpiredUnacceptedEscrows_def split: sum.splits)
qed

lemma reach_deadline: "escrow_reach s \<Longrightarrow> deadline_inv s"
proof (induction rule: escrow_reach.induct)
  case (Create s env c ck sender who amount d cs)
  obtain r s' where c: "createEscrow c ck env sender who amount d cs s = (r, s')" by fastforce
  from create_agreements [OF c] Create show ?case
    by (auto simp: c deadline_inv_def new_hold_def no_deadline_def fresh_agreement_def)
next
  case (Call s x)
  then show ?case by (simp add: call_deadline)
qed (simp_all add: deadline_inv_def)

section \<open>A successful creation\<close>

lemma hold_legs_net:
  assumes "src \<noteq> []" "esc \<noteq> []"
  shows "entry_net k [hold_leg src ''DEBIT'' a cur d, hold_leg esc ''CREDIT'' a cur d'] = (if k = esc then a else 0) - (if k = src then a else 0)"
    "scale4 a \<Longrightarrow> list_all (\<lambda>l. scale4 (entry_value l)) [hold_leg src ''DEBIT'' a cur d, hold_leg esc ''CREDIT'' a cur d']"
  using assms by (auto simp: entry_signed_def hold_leg_def entry_wallet_def entry_value_def truthy_text_def sides)

lemma escrow_fields:
  assumes "r \<noteq> []" "src \<noteq> []" "esc \<noteq> []" "rcv \<noteq> []" "0 < amount" "tx_type t = ''escrow''"
    and "tx_metadata t = escrow_metadata amount cur r src esc rcv cs [] service snap"
  shows "\<exists>a. agreement_of_tx ck i t = Some a \<and> ag_sender a = text_or_empty (tx_user t) \<and> ag_receiver a = r \<and> ag_amount a = amount \<and>
    ag_source_vault a = Some src \<and> ag_escrow_vault a = Some esc \<and> ag_receiver_vault a = Some rcv \<and> ag_merchant a = None"
proof -
  have f: "md_field (tx_metadata t) ''recipient_id'' = Some r" "md_numeric (tx_metadata t) ''escrow_amount_plain'' = Some amount"
    "md_field (tx_metadata t) ''source_vault_id'' = Some src" "md_field (tx_metadata t) ''escrow_vault_id'' = Some esc"
    "md_field (tx_metadata t) ''receiver_vault_id'' = Some rcv" "md_field (tx_metadata t) ''merchant_id'' = None"
    using assms(1-4) by (simp_all add: assms(7) md_field_def md_numeric_def escrow_metadata_def)
  have "js_lower ''escrow'' = ''escrow''" by code_simp
  then have "conditional_escrow t" by (simp add: conditional_escrow_def assms(6,7) escrow_metadata_def)
  with f assms(5) show ?thesis by (simp add: agreement_of_tx_def Let_def)
qed

lemma vault_nonempty: "vault_of s role owner (Some i) = Some v \<Longrightarrow> st_vaults (w_store (ps_world s)) [] = None \<Longrightarrow> fst v \<noteq> []"
  by (cases v) (auto dest!: vault_ofD)

lemma user_vault: "v \<in> set (user_vaults s role owner) \<Longrightarrow> \<exists>i. vault_of s role owner (Some i) = Some v"
  by (auto simp: user_vaults_def List.map_filter_def)

lemma escrow_vaults_ok:
  assumes "escrow_vaults env s sender r amount = Inr (src, esc, rcv)" "st_vaults (w_store (ps_world s)) [] = None"
  shows "fst src \<noteq> []" "fst esc \<noteq> []" "fst rcv \<noteq> []"
proof -
  have f: "find P xs = Some x \<Longrightarrow> x \<in> set xs" for P and xs :: "(string \<times> entity) list" and x by (auto simp: find_Some_iff)
  from assms(1) have m: "src \<in> set (user_vaults s ''OPERATING'' sender)" "esc \<in> set (user_vaults s ''INTERNAL_TRANSFER'' sender)"
    "rcv \<in> set (user_vaults s ''OPERATING'' r)"
    by (auto simp: escrow_vaults_def split: if_splits option.splits list.splits dest: f)
  show "fst src \<noteq> []" "fst esc \<noteq> []" "fst rcv \<noteq> []"
    using m [THEN user_vault] vault_nonempty assms(2) by (metis prod.collapse)+
qed

lemma post_escrow_ok:
  assumes "crypto_sound c" "kms_ready (w_kms (ps_world s))" "agrees T c (w_kms (ps_world s)) (w_store (ps_world s))" "scale4 amount" "0 < amount"
    and "r \<noteq> []" "src \<noteq> []" "esc \<noteq> []" "rcv \<noteq> []" "sql_btrim ref = ref" "ref \<noteq> []"
    and "\<forall>a \<in> set (ps_agreements s). ag_tx a \<in> tx_id ` set (st_txs (w_store (ps_world s)))"
    and "post_escrow c ck env sender src esc cur amount d ref (escrow_metadata amount cur r src esc rcv cs [] service snap) s = (Inr x, s')"
  shows "x = ref \<and> (\<exists>a. ps_agreements s' = ps_agreements s @ [a] \<and> fresh_agreement a \<and> ag_reference a = ref \<and> ag_sender a = sender \<and>
      ag_receiver a = r \<and> ag_amount a = amount \<and> ag_source_vault a = Some src \<and> ag_escrow_vault a = Some esc) \<and>
    (\<forall>k. balance_of (w_store (ps_world s')) k = balance_of (w_store (ps_world s)) k + (if k = esc then amount else 0) - (if k = src then amount else 0))"
proof -
  let ?md = "escrow_metadata amount cur r src esc rcv cs [] service snap" and ?h = "hold_header sender src esc amount d ref"
  let ?ls = "[hold_leg src ''DEBIT'' amount cur (''PaySafe hold: '' @ d), hold_leg esc ''CREDIT'' amount cur (''PaySafe escrow reserve: '' @ d)]"
  obtain y w where p: "postTransactionWithLedger c ck (nw_post env) (?h ?md) ?ls (ps_world s) = (y, w)" by fastforce
  with assms(13) obtain u where y: "y = Inr u" and s': "s' = fire_escrow_trigger ck (nw_agreement env) w s" and x: "x = ref"
    by (cases y) (auto simp: post_escrow_def)
  from post_moves [OF assms(1,2) hold_legs_net(2) [OF assms(7,8,4)] assms(3) p [unfolded y]] hold_legs_net(1) [OF assms(7,8)]
  have bal: "balance_of (w_store w) k = balance_of (w_store (ps_world s)) k + ((if k = esc then amount else 0) - (if k = src then amount else 0))" for k
    by simp
  from post_ok [OF p [unfolded y]] obtain a st where a: "commit_args c ck (nw_post env) (?h ?md) ?ls (ps_world s) = Inr a"
    "post_transaction_v2 (w_store (ps_world s)) a = Inr st" "w_store w = st" by auto
  let ?t = "new_tx a"
  from commit_args_fields [OF a(1)] have f: "tx_metadata ?t = ?md" "tx_user ?t = Some sender" "tx_type ?t = ''escrow''"
    "effective_reference a = ref"
    using assms(10,11) by (simp_all add: new_tx_def hold_header_fields text_or_def effective_reference_def posted_reference_def)
  obtain g where g: "agreement_of_tx ck (nw_agreement env) ?t = Some g" "ag_sender g = sender" "ag_receiver g = r" "ag_amount g = amount"
    "ag_source_vault g = Some src" "ag_escrow_vault g = Some esc"
    using escrow_fields [OF assms(6-9,5) f(3,1), of ck "nw_agreement env"] by (auto simp: f(2) text_or_empty_def text_or_def)
  from post_tx_rows [OF a(2)] have "\<forall>x \<in> set (ps_agreements s). ag_tx x \<noteq> tx_id ?t" "st_txs st = st_txs (w_store (ps_world s)) @ [?t]"
    using assms(12) by (auto simp: new_tx_def)
  then have "ps_agreements s' = ps_agreements s @ [g]"
    using g(1) by (simp add: s' fire_escrow_trigger_def Let_def a(3) map_filter_simps)
  with agreement_new [OF g(1)] g bal x f(4) show ?thesis by (auto simp: s' fire_escrow_trigger_def Let_def)
qed

definition sample_create_env :: create_env where
  "sample_create_env = \<lparr>nw_recipient = [''amina'' \<mapsto> ''u2''], nw_account = [''u1'' \<mapsto> ''active'', ''u2'' \<mapsto> ''active''], nw_code = ''2'',
     nw_agreement = ''g2'', nw_post = sample_post_env ''t2'', nw_lookup_fails = False, nw_account_fails = False, nw_merchant_fails = False,
     nw_vaults_fail = False, nw_recheck_fails = False, nw_redis_fails = False, nw_fee_fault = None\<rparr>"

lemma sample_created: "fst (createEscrow c sample_clock sample_create_env ''u1'' ''amina'' 20 ''boots'' [] (sample_safe [])) = Inr ''ESC-2''"
  by code_simp

lemma sample_safe_agrees: "agrees {} c (w_kms (ps_world (sample_safe x))) (w_store (ps_world (sample_safe x)))"
proof -
  have "list_all (readable_row c k) (st_ledger (sample_vaults 70 30 0))" for k
    by (simp add: readable_row_def sample_vaults_def sample_row_def sample_plain)
  moreover have "sum_rows c k (sel (\<lambda>r. lr_wallet r = i) (st_ledger (sample_vaults 70 30 0))) 0 = Inr (balance_of (sample_vaults 70 30 0) i)" for k i
    unfolding sample_vaults_balance
    by (simp add: sample_vaults_def sample_row_def sample_plain leg_side_def text_or_def sides side_sign_def)
  moreover have "timeline c k 0 (sel (\<lambda>r. lr_wallet r = i) (st_ledger (sample_vaults 70 30 0)))" for k i
    by (auto simp: sample_vaults_def sample_row_def row_value_def sample_plain leg_side_def text_or_def sides side_sign_def)
  ultimately show ?thesis by (simp add: agrees_def sample_safe_def sample_vaults_balance)
qed

text \<open>Making an escrow holds exactly its amount: when it succeeds without a gateway intent and a merchant, the
  amount has left one operating vault of the sender for its escrow vault, no other balance has
  changed, and the table has one more agreement, held, unconfirmed and between the two parties.\<close>

theorem escrow_created:
  assumes "crypto_sound c" and "kms_ready (w_kms (ps_world s))" and "agrees T c (w_kms (ps_world s)) (w_store (ps_world s))"
    and "scale4 amount" and "st_vaults (w_store (ps_world s)) [] = None"
    and "\<forall>a \<in> set (ps_agreements s). ag_tx a \<in> tx_id ` set (st_txs (w_store (ps_world s)))"
    and "condition_text (map_of cs) ''gatewayIntentId'' ''gateway_intent_id'' = []" and "condition_text (map_of cs) ''merchantId'' ''merchant_id'' = []"
    and "nw_recipient env who = Some r" and "r \<noteq> []" and "sql_btrim (''ESC-'' @ nw_code env) = ''ESC-'' @ nw_code env"
    and "createEscrow c ck env sender who amount d cs s = (Inr ref, s')"
  shows "\<exists>src esc a. ps_agreements s' = ps_agreements s @ [a] \<and> fresh_agreement a \<and> ag_reference a = ref \<and> ag_sender a = sender \<and>
      ag_receiver a = r \<and> ag_amount a = amount \<and> ag_source_vault a = Some src \<and> ag_escrow_vault a = Some esc \<and>
      (\<forall>k. balance_of (w_store (ps_world s')) k =
        balance_of (w_store (ps_world s)) k + (if k = esc then amount else 0) - (if k = src then amount else 0))"
proof -
  let ?ref = "''ESC-'' @ nw_code env" and ?svc = "condition_text (map_of cs) ''serviceCode'' ''service_code''"
  from assms(7,9,12) have am: "0 < amount" and mk: "makeEscrow c ck env sender r amount d cs s = (Inr ref, s')"
    by (auto simp: createEscrow_def Let_def split: if_splits)
  have snap: "fee_snapshot_for ck env amount cur [] service rf s = (Inr JNull, s)" for cur service rf
    by (simp add: fee_snapshot_for_def)
  have m: "merchant_ok env s [] r = Inr ()" by (simp add: merchant_ok_def)
  from mk obtain src esc rcv where v: "escrow_vaults env s sender r amount = Inr (src, esc, rcv)"
    by (auto simp: makeEscrow_def Let_def assms(8) m split: if_splits sum.splits)
  with mk have p: "post_escrow c ck env sender (fst src) (fst esc) (truthy_currency (snd src)) amount d ?ref
      (escrow_metadata amount (truthy_currency (snd src)) r (fst src) (fst esc) (fst rcv) cs [] ?svc JNull) s = (Inr ref, s')"
    by (simp add: makeEscrow_def Let_def assms(8) m snap split: if_splits)
  from post_escrow_ok [OF assms(1-4) am assms(10) escrow_vaults_ok [OF v assms(5)] assms(11) _ assms(6) p] show ?thesis by auto
qed

theorem escrow_created_witness:
  "\<exists>s' src esc a. createEscrow toy_crypto sample_clock sample_create_env ''u1'' ''amina'' 20 ''boots'' [] (sample_safe []) = (Inr ''ESC-2'', s') \<and>
     ps_agreements s' = [a] \<and> ag_receiver a = ''u2'' \<and> ag_amount a = 20 \<and>
     balance_of (w_store (ps_world s')) ''rcv'' = (if ''rcv'' = esc then 20 else 0) - (if ''rcv'' = src then 20 else 0)"
proof -
  define s' where "s' = snd (createEscrow toy_crypto sample_clock sample_create_env ''u1'' ''amina'' 20 ''boots'' [] (sample_safe []))"
  have s': "createEscrow toy_crypto sample_clock sample_create_env ''u1'' ''amina'' 20 ''boots'' [] (sample_safe []) = (Inr ''ESC-2'', s')"
    by (rule prod_eqI) (simp_all only: sample_created fst_conv snd_conv s'_def)
  have c: "condition_text (map_of []) x y = []" for x y by (simp add: condition_text_def)
  have b: "sql_btrim (''ESC-'' @ nw_code sample_create_env) = ''ESC-'' @ nw_code sample_create_env" by code_simp
  have k: "kms_ready (w_kms (ps_world (sample_safe [])))" using sample_ready by (simp add: sample_safe_def)
  have v: "st_vaults (w_store (ps_world (sample_safe []))) [] = None" by (simp add: sample_safe_def sample_vaults_def)
  have a: "\<forall>a \<in> set (ps_agreements (sample_safe [])). ag_tx a \<in> tx_id ` set (st_txs (w_store (ps_world (sample_safe []))))"
    "nw_recipient sample_create_env ''amina'' = Some ''u2''" by (simp_all add: sample_safe_def sample_create_env_def)
  obtain src esc a where o: "ps_agreements s' = ps_agreements (sample_safe []) @ [a]" "ag_receiver a = ''u2''" "ag_amount a = 20"
      "\<forall>k. balance_of (w_store (ps_world s')) k =
        balance_of (w_store (ps_world (sample_safe []))) k + (if k = esc then 20 else 0) - (if k = src then 20 else 0)"
    using escrow_created [OF toy_sound k sample_safe_agrees scale4_numeral v a(1) c c a(2) _ b s'] by blast
  have "balance_of (w_store (ps_world (sample_safe []))) ''rcv'' = 0" "ps_agreements (sample_safe []) = []"
    by (simp_all add: sample_safe_def sample_vaults_balance)
  with s' o show ?thesis by (intro exI [of _ s'] exI [of _ src] exI [of _ esc] exI [of _ a]) simp
qed

section \<open>The expiry sweep\<close>

text \<open>C28: The sweep that refunds expired and unconfirmed holds never refunds anything, in no state the
  program can reach and at no time: a hold is made without a deadline, and one that got a deadline with a
  release request is confirmed.\<close>

theorem sweep_never_refunds:
  assumes "escrow_reach s"
  shows "autoRefundExpiredUnacceptedEscrows ck q f s = (0, 0, s)"
proof -
  have "\<not> expired_unconfirmed ck a" if "a \<in> set (ps_agreements s)" for a
    using reach_deadline [OF assms] that
    by (auto simp: deadline_inv_def list_all_iff no_deadline_def expired_unconfirmed_def window_over_def)
  then have "sel (expired_unconfirmed ck) (ps_agreements s) = []" by (simp add: sel_def filter_empty_conv)
  then show ?thesis by (simp add: autoRefundExpiredUnacceptedEscrows_def sweep_candidates_def)
qed

theorem sweep_never_refunds_witness:
  "let s = run_escrow_calls sample_payment (snd (createEscrow toy_crypto sample_clock sample_create_env ''u1'' ''amina'' 20 ''boots'' [] (sample_safe []))) in
   autoRefundExpiredUnacceptedEscrows sample_clock False (\<lambda>_. Rpc_Ok) s = (0, 0, s)"
proof -
  have "escrow_reach (snd (createEscrow toy_crypto sample_clock sample_create_env ''u1'' ''amina'' 20 ''boots'' [] (sample_safe [])))"
    by (intro escrow_reach.Create escrow_reach.Start) (simp_all add: sample_safe_def)
  then have "escrow_reach (run_escrow_calls sample_payment (snd (createEscrow toy_crypto sample_clock sample_create_env ''u1'' ''amina'' 20 ''boots'' [] (sample_safe []))))"
    by (simp add: run_escrow_calls_def sample_payment_def escrow_reach.Call del: run_escrow_call.simps)
  from sweep_never_refunds [OF this] show ?thesis by (simp add: Let_def)
qed

end
