(* ===== verification/PaySafe_Settlement.thy ===== *)
theory PaySafe_Settlement
  imports PaySafe_Outcomes Fee_Properties
begin

text \<open>
  The settlement of a merchant escrow: what it pays to whom, that the parts add up to the held amount
  within a cent, and that it happens once.
\<close>

section \<open>Booking the shares\<close>

lemma to_fixed2_exact: "scale2 x \<Longrightarrow> to_fixed 2 x = x"
proof -
  assume x: "scale2 x"
  then have i: "x * 10 ^ 2 \<in> \<int>" by (simp add: scale2_def)
  then have m: "(- x) * 10 ^ 2 \<in> \<int>" by simp
  from i m show ?thesis unfolding to_fixed_def floor_int_half [OF i] floor_int_half [OF m]
    by (auto elim!: Ints_cases simp: field_simps)
qed

lemma scale2_to_fixed [simp]: "scale2 (to_fixed 2 x)"
  by (auto simp: to_fixed_def scale2_def)

lemma balance_rows [simp]: "balance_of (st\<lparr>st_ledger := l\<rparr>) k = balance_of st k" "vaults_apart (st\<lparr>st_ledger := l\<rparr>) = vaults_apart st"
  "vaults_apart (st\<lparr>st_markers := m\<rparr>) = vaults_apart st"
proof -
  have "st\<lparr>st_ledger := l\<rparr> = st\<lparr>st_markers := st_markers st, st_ledger := l\<rparr>" by simp
  then show "balance_of (st\<lparr>st_ledger := l\<rparr>) k = balance_of st k" by (simp only: balance_of_ledger)
qed (simp_all add: vaults_apart_def)

lemma book_share_balance:
  assumes "vaults_apart st" "v = None \<longrightarrow> a = 0" "\<And>i e. v = Some (i, e) \<Longrightarrow> st_vaults st i = Some e" "scale2 a" "\<forall>k. scale2 (balance_of st k)"
  shows "balance_of (book_share t v a d cur st) k = balance_of st k + (if map_option fst v = Some k then a else 0)"
    and "vaults_apart (book_share t v a d cur st)"
    and "st_vaults (book_share t v a d cur st) j = (if map_option fst v = Some j then st_vaults (book_share t v a d cur st) j else st_vaults st j)"
proof -
  show "balance_of (book_share t v a d cur st) k = balance_of st k + (if map_option fst v = Some k then a else 0)"
  proof (cases v)
    case (Some x)
    obtain i e where x: "v = Some (i, e)" using Some by (cases x) simp
    note e = assms(3) [OF x]
    have b: "ent_balance e = balance_of st i" using vault_balance [OF assms(1) e] by simp
    have "to_fixed 2 (ent_balance e + a) = ent_balance e + a"
      using assms(4,5) by (intro to_fixed2_exact scale2_add) (simp_all add: b)
    with set_vault_balance_of [OF assms(1) e] show ?thesis by (simp add: book_share_def x Let_def b)
  qed (simp add: book_share_def)
  show "vaults_apart (book_share t v a d cur st)"
    using assms(1) by (auto simp: book_share_def Let_def vaults_apart_def set_vault_balance_def split: option.splits)
  show "st_vaults (book_share t v a d cur st) j = (if map_option fst v = Some j then st_vaults (book_share t v a d cur st) j else st_vaults st j)"
    by (auto simp: book_share_def Let_def set_vault_balance_def split: option.splits)
qed

definition paid_in :: "(string \<times> entity) option \<Rightarrow> rat \<Rightarrow> string \<Rightarrow> rat" where
  "paid_in v a k = (if map_option fst v = Some k then a else 0)"

lemma share_vault_some:
  assumes "share_vault s role cur a = Inr v" "0 \<le> a"
  shows "v = None \<longrightarrow> a = 0" "v = Some (i, e) \<Longrightarrow> st_vaults (w_store (ps_world s)) i = Some e \<and> (\<exists>x \<in> set (ps_accounts s). sa_role x = role \<and> sa_vault x = Some i)"
proof -
  show "v = None \<longrightarrow> a = 0"
  proof (cases "a \<le> 0")
    case False
    have "v \<noteq> None"
    proof (cases "company_vault_of s role cur")
      case None
      with False assms(1) show ?thesis by (simp add: share_vault_def)
    next
      case (Some x)
      with False assms(1) have "v = Some x" by (simp add: share_vault_def)
      then show ?thesis by simp
    qed
    then show ?thesis by blast
  qed (use assms(2) in simp)
  assume "v = Some (i, e)"
  with assms(1) have c: "company_vault_of s role cur = Some (i, e)" by (cases "company_vault_of s role cur") (auto simp: share_vault_def split: if_splits)
  have f: "first_some xs = Some y \<Longrightarrow> Some y \<in> set xs" for xs :: "(string \<times> entity) option list" and y
    by (induction xs rule: first_some.induct) (auto split: option.splits)
  from f [OF c [unfolded company_vault_of_def]]
  show "st_vaults (w_store (ps_world s)) i = Some e \<and> (\<exists>x \<in> set (ps_accounts s). sa_role x = role \<and> sa_vault x = Some i)"
    by (auto split: if_splits option.splits)
qed

text \<open>
  The registry gives each vault to one company account; no account is backed by the escrow vault.
\<close>

definition registry_ok :: "paysafe \<Rightarrow> string option \<Rightarrow> bool" where
  "registry_ok s ev \<longleftrightarrow> (\<forall>x \<in> set (ps_accounts s). sa_vault x \<noteq> ev \<and>
     (\<forall>y \<in> set (ps_accounts s). sa_vault x = sa_vault y \<and> sa_vault x \<noteq> None \<longrightarrow> sa_role x = sa_role y))"

lemma merchant_booked_balance:
  assumes "vaults_apart st" "\<forall>k. scale2 (balance_of st k)" "st_vaults st i = Some e" "st = w_store (ps_world s)" "registry_ok s (Some i)"
    and "share_vault s ''SERVICE_REVENUE'' cur (mf_service f) = Inr sv" "share_vault s ''TAX_RESERVE'' cur (mf_tax f) = Inr tv"
    and "0 \<le> mf_service f" "0 \<le> mf_tax f" "scale2 (mf_gross f)" "scale2 (mf_service f)" "scale2 (mf_tax f)"
  shows "balance_of (merchant_booked ref a t owner f (i, e) mw sv tv st) k =
    balance_of st k - (if k = i then mf_gross f else 0) + paid_in sv (mf_service f) k + paid_in tv (mf_tax f) k"
proof -
  have b: "ent_balance e = balance_of st i" using vault_balance [OF assms(1,3)] by simp
  have eb: "to_fixed 2 (ent_balance e - mf_gross f) = ent_balance e - mf_gross f"
    using assms(2,10) by (intro to_fixed2_exact scale2_diff) (simp_all add: b)
  define st1 where "st1 = (set_vault_balance i (ent_balance e - mf_gross f) st)\<lparr>
            st_markers := st_markers st @ [\<lparr>mk_tx = tx_id t, mk_key = Some (settlement_key a), mk_phase = Some ''PAYSAFE_MERCHANT_SETTLEMENT''\<rparr>],
            st_ledger := st_ledger st @ [
              merchant_row st t (Some (ag_sender a)) i ''DEBIT'' (mf_gross f) (ent_balance e - mf_gross f) (''PaySafe merchant settlement debit: '' @ ref) (ag_currency a),
              merchant_row st t owner (mw_id mw) ''CREDIT'' (mf_net f) (to_fixed 2 (mw_balance mw + mf_net f)) (''PaySafe merchant net settlement: '' @ ref) (ag_currency a)]\<rparr>"
  have b1: "balance_of st1 k = balance_of st k - (if k = i then mf_gross f else 0)" for k
    using set_vault_balance_of [OF assms(1,3)] by (simp add: st1_def b)
  have v1: "vaults_apart st1" using assms(1) by (simp add: st1_def)
  have s1: "scale2 (balance_of st1 k)" for k
    unfolding b1 using assms(2,10) by (intro scale2_diff) simp_all
  note sv = share_vault_some [OF assms(6,8)] and tv = share_vault_some [OF assms(7,9)]
  have apart: "j \<noteq> i" if "sv = Some (j, x) \<or> tv = Some (j, x)" for j x
  proof
    assume "j = i"
    with that sv(2) [of j x] tv(2) [of j x] assms(5) show False unfolding registry_ok_def by blast
  qed
  have diff: "map_option fst sv \<noteq> Some j" if "tv = Some (j, x)" for j x
  proof
    assume "map_option fst sv = Some j"
    then obtain y where y: "sv = Some (j, y)" by auto
    from sv(2) [OF y] tv(2) [OF that] obtain p q where "p \<in> set (ps_accounts s)" "sa_role p = ''SERVICE_REVENUE''" "sa_vault p = Some j"
      "q \<in> set (ps_accounts s)" "sa_role q = ''TAX_RESERVE''" "sa_vault q = Some j" by blast
    with assms(5) have "''SERVICE_REVENUE'' = ''TAX_RESERVE''" unfolding registry_ok_def by (metis option.distinct(1))
    then show False by simp
  qed
  have a1: "st_vaults st1 j = Some x" if "sv = Some (j, x) \<or> tv = Some (j, x)" for j x
    using that sv(2) tv(2) apart [OF that] assms(4) by (auto simp: st1_def set_vault_vaults)
  let ?st2 = "book_share t sv (mf_service f) (''PaySafe merchant service revenue: '' @ ref) (ag_currency a) st1"
  note p2 = book_share_balance [OF v1 sv(1) a1 assms(11)]
  have b2: "balance_of ?st2 k = balance_of st1 k + paid_in sv (mf_service f) k" for k
    unfolding paid_in_def by (rule p2(1)) (use s1 in auto)
  have v2: "vaults_apart ?st2" by (rule p2(2)) (use s1 in auto)
  have a2: "st_vaults ?st2 j = Some x" if "tv = Some (j, x)" for j x
  proof -
    have "st_vaults ?st2 j = (if map_option fst sv = Some j then st_vaults ?st2 j else st_vaults st1 j)"
      by (rule p2(3)) (use s1 in auto)
    with diff [OF that] a1 [of j x] that show ?thesis by simp
  qed
  have s2: "\<forall>k. scale2 (balance_of ?st2 k)"
    unfolding b2 paid_in_def using s1 assms(11) by (auto intro: scale2_add)
  have "merchant_booked ref a t owner f (i, e) mw sv tv st =
      book_share t tv (mf_tax f) (''PaySafe merchant statutory tax reserve: '' @ ref) (ag_currency a) ?st2"
    by (simp add: merchant_booked_def Let_def st1_def eb)
  with book_share_balance(1) [OF v2 tv(1) a2 assms(12) s2] b1 b2 show ?thesis by (simp add: paid_in_def)
qed

section \<open>The settlement\<close>

lemma find_append: "find p (xs @ ys) = (case find p xs of None \<Rightarrow> find p ys | Some x \<Rightarrow> Some x)"
  by (induction xs) auto

lemma settle_amounts_ok:
  assumes "settle_amounts ck i ref actor m mc md snap a t ev mw s = Inr (ans, s')"
  shows "\<exists>f sv tv. merchant_fee_of a md = Inr f \<and> \<not> snapshot_invalid a md f \<and> settlement_check f \<and>
    share_vault s ''SERVICE_REVENUE'' (ag_currency a) (mf_service f) = Inr sv \<and> share_vault s ''TAX_RESERVE'' (ag_currency a) (mf_tax f) = Inr tv \<and>
    ans = answer_of ''SETTLED'' False \<and> s' = merchant_finish ck actor (new_settlement i m a t f mw) snap a t mw
               (s\<lparr>ps_world := (ps_world s)\<lparr>w_store := merchant_booked ref a t (mc_owner mc) f ev mw sv tv (w_store (ps_world s))\<rparr>\<rparr>)"
  using assms by (auto simp: settle_amounts_def bind_outcome_Inr_iff split: if_splits)

lemma settle_merchant_ok:
  assumes "settle_merchant_paysafe_v1 ck i ref actor s = Inr (ans, s')" "escrow_row s ref = Some a" "\<not> ea_idempotent ans"
  shows "\<exists>m mc md snap t ev mw. ag_merchant a = Some m \<and> actor = ag_sender a \<and> vault_of s ''INTERNAL_TRANSFER'' (ag_sender a) (ag_escrow_vault a) = Some ev \<and>
    settlement_wallet s m (ag_currency a) = Some mw \<and> settle_amounts ck i ref actor m mc md snap a t ev mw s = Inr (ans, s')"
  using assms
  by (auto simp: settle_merchant_paysafe_v1_def answer_of_def split: if_splits option.splits) blast+

lemma finish_fields:
  "ps_settlements (merchant_finish ck actor ms snap a t mw s) = ps_settlements s @ [ms]"
  "w_store (ps_world (merchant_finish ck actor ms snap a t mw s)) =
     (w_store (ps_world s))\<lparr>st_txs := st_txs (w_store (ps_world (merchant_finish ck actor ms snap a t mw s)))\<rparr>"
  "ps_merchant_wallets (merchant_finish ck actor ms snap a t mw s) =
     upd (\<lambda>w. mw_id w = mw_id mw) (\<lambda>w. w\<lparr>mw_balance := to_fixed 2 (mw_balance mw + ms_net ms)\<rparr>) (ps_merchant_wallets s)"
  by (simp_all add: merchant_finish_def set_escrow_tx_def log_event_def update_tx_def set_agreement_def)

lemma finish_row:
  assumes "escrow_row s r = Some a"
  shows "\<exists>b. escrow_row (merchant_finish ck actor ms snap a t mw s) r = Some b \<and> ag_status b = Released \<and> same_core a b"
proof -
  let ?s = "s\<lparr>ps_settlements := ps_settlements s @ [ms],
            ps_merchant_wallets := upd (\<lambda>w. mw_id w = mw_id mw) (\<lambda>w. w\<lparr>mw_balance := to_fixed 2 (mw_balance mw + ms_net ms)\<rparr>) (ps_merchant_wallets s)\<rparr>"
  have "escrow_row ?s r = Some a" using assms by (simp add: escrow_row_def)
  from set_agreement_row [OF this] show ?thesis unfolding merchant_finish_def by (simp add: same_core_def)
qed

text \<open>C29: The settlement of a merchant escrow pays the held amount out once: the escrow vault loses the gross
  amount, the service and tax accounts and the merchant's wallet gain their shares of the snapshot,
  no other balance changes, and the shares differ from the gross amount by at most a cent. The
  agreement is released, and settling it again only repeats the answer.\<close>

theorem merchant_settlement_pays_once:
  assumes "vaults_apart (w_store (ps_world s))" and "\<forall>k. scale2 (balance_of (w_store (ps_world s)) k)"
    and "registry_ok s (ag_escrow_vault a)" and "escrow_row s ref = Some a" and "sql_btrim ref \<noteq> []"
    and "settle_merchant_paysafe_v1 ck i ref actor s = Inr (ans, s')" and "\<not> ea_idempotent ans"
  shows "\<exists>ms sv tv. ps_settlements s' = ps_settlements s @ [ms] \<and> ms_gross ms = to_fixed 2 (ag_amount a) \<and>
      \<bar>ms_gross ms - (ms_fee ms + ms_tax ms + ms_net ms)\<bar> \<le> 1 / 100 \<and>
      (\<forall>k. balance_of (w_store (ps_world s')) k = balance_of (w_store (ps_world s)) k
         - (if ag_escrow_vault a = Some k then ms_gross ms else 0) + paid_in sv (ms_fee ms) k + paid_in tv (ms_tax ms) k) \<and>
      (\<exists>w \<in> set (ps_merchant_wallets s). mw_id w = ms_wallet ms \<and> ps_merchant_wallets s' = upd (\<lambda>x. mw_id x = ms_wallet ms)
         (\<lambda>x. x\<lparr>mw_balance := to_fixed 2 (mw_balance w + ms_net ms)\<rparr>) (ps_merchant_wallets s)) \<and>
      (\<exists>b. escrow_row s' ref = Some b \<and> ag_status b = Released) \<and>
      (\<forall>ck' i'. settle_merchant_paysafe_v1 ck' i' ref actor s' = Inr (answer_of ''SETTLED'' True, s'))"
proof -
  from settle_merchant_ok [OF assms(6,4,7)] obtain m mc md snap t ev mw where o: "ag_merchant a = Some m" "actor = ag_sender a"
    "vault_of s ''INTERNAL_TRANSFER'' (ag_sender a) (ag_escrow_vault a) = Some ev" "settlement_wallet s m (ag_currency a) = Some mw"
    "settle_amounts ck i ref actor m mc md snap a t ev mw s = Inr (ans, s')" by blast
  from settle_amounts_ok [OF o(5)] obtain f sv tv where f: "merchant_fee_of a md = Inr f" "\<not> snapshot_invalid a md f" "settlement_check f"
    "share_vault s ''SERVICE_REVENUE'' (ag_currency a) (mf_service f) = Inr sv" "share_vault s ''TAX_RESERVE'' (ag_currency a) (mf_tax f) = Inr tv"
    and s': "s' = merchant_finish ck actor (new_settlement i m a t f mw) snap a t mw
               (s\<lparr>ps_world := (ps_world s)\<lparr>w_store := merchant_booked ref a t (mc_owner mc) f ev mw sv tv (w_store (ps_world s))\<rparr>\<rparr>)" by blast
  let ?ms = "new_settlement i m a t f mw"
  obtain j e where ev: "ev = (j, e)" by (cases ev)
  from vault_ofD [OF o(3) [unfolded ev]] have v: "ag_escrow_vault a = Some j" "st_vaults (w_store (ps_world s)) j = Some e" by auto
  from f(1) have sc: "mf_gross f = to_fixed 2 (ag_amount a)" "scale2 (mf_service f)" "scale2 (mf_tax f)"
    by (auto simp: merchant_fee_of_def bind_outcome_Inr_iff)
  from f(2) have nn: "0 \<le> mf_service f" "0 \<le> mf_tax f" by (simp_all add: snapshot_invalid_def)
  note fin = finish_fields [of ck actor ?ms snap a t mw "s\<lparr>ps_world := (ps_world s)\<lparr>w_store := merchant_booked ref a t (mc_owner mc) f ev mw sv tv (w_store (ps_world s))\<rparr>\<rparr>", folded s', simplified]
  have bal: "balance_of (w_store (ps_world s')) k = balance_of (w_store (ps_world s)) k
         - (if ag_escrow_vault a = Some k then mf_gross f else 0) + paid_in sv (mf_service f) k + paid_in tv (mf_tax f) k" for k
    using merchant_booked_balance [OF assms(1,2) v(2) refl assms(3) [unfolded v(1)] f(4,5) nn _ sc(2,3), of ref a t "mc_owner mc" mw k]
      store_with_txs [OF fin(2), of k] by (simp add: ev v(1) sc(1) eq_commute)
  have "mw \<in> set (ps_merchant_wallets s)"
  proof -
    from o(4) have "mw \<in> set (sort_key merchant_wallet_rank (sel (\<lambda>w. mw_merchant w = m \<and> null_or_active (mw_status w) \<and>
           (mw_type w = [] \<or> js_lower (mw_type w) = ''settlement'' \<or> js_lower (mw_type w) = ''operating'') \<and>
           js_upper (case mw_currency w of None \<Rightarrow> ''TZS'' | Some c \<Rightarrow> c) = js_upper (ag_currency a)) (ps_merchant_wallets s)))"
      unfolding settlement_wallet_def by (cases "sort_key merchant_wallet_rank (sel (\<lambda>w. mw_merchant w = m \<and> null_or_active (mw_status w) \<and>
           (mw_type w = [] \<or> js_lower (mw_type w) = ''settlement'' \<or> js_lower (mw_type w) = ''operating'') \<and>
           js_upper (case mw_currency w of None \<Rightarrow> ''TZS'' | Some c \<Rightarrow> c) = js_upper (ag_currency a)) (ps_merchant_wallets s))") simp_all
    then show ?thesis by (simp add: set_sel)
  qed
  moreover obtain b where b: "escrow_row s' ref = Some b" "ag_status b = Released" "same_core a b"
  proof -
    let ?s0 = "s\<lparr>ps_world := (ps_world s)\<lparr>w_store := merchant_booked ref a t (mc_owner mc) f ev mw sv tv (w_store (ps_world s))\<rparr>\<rparr>"
    have "escrow_row ?s0 ref = Some a" using assms(4) by (simp add: escrow_row_def)
    from finish_row [OF this, of ck actor ?ms snap t mw] that show thesis unfolding s' by blast
  qed
  moreover have "settle_merchant_paysafe_v1 ck' i' ref actor s' = Inr (answer_of ''SETTLED'' True, s')" for ck' i'
  proof -
    have "find (\<lambda>x. ms_agreement x = ag_id b) (ps_settlements s') = Some ?ms"
      if "find (\<lambda>x. ms_agreement x = ag_id a) (ps_settlements s) = None"
      using that b(3) by (auto simp: fin(1) same_core_def new_settlement_def find_append split: option.splits)
    moreover have "find (\<lambda>x. ms_agreement x = ag_id a) (ps_settlements s) = None"
      using assms(4,6,7) o(1) by (auto simp: settle_merchant_paysafe_v1_def answer_of_def split: if_splits option.splits)
    ultimately show ?thesis
      using b o(1,2) assms(5) by (simp add: settle_merchant_paysafe_v1_def same_core_def new_settlement_def)
  qed
  ultimately show ?thesis
    using bal fin sc(1) f(3) by (intro exI [of _ ?ms] exI [of _ sv] exI [of _ tv] conjI) (auto simp: new_settlement_def settlement_check_def)
qed

definition sample_fees :: jsv where
  "sample_fees = JObj [(''currency'', JStr ''TZS''), (''serviceFee'', JNum 2), (''taxAmount'', JNum 1), (''totalFee'', JNum 3), (''netAmount'', JNum 27)]"

definition sample_order :: agreement where
  "sample_order = (sample_agreement Held)\<lparr>ag_merchant := Some ''m1'', ag_metadata := [''merchant_fee_snapshot'' \<mapsto> sample_fees]\<rparr>"

definition shop_store :: store where
  "shop_store = (sample_vaults 70 30 0)\<lparr>st_vaults := (st_vaults (sample_vaults 70 30 0))(''rev'' \<mapsto> wallet_row 5 ''orbi'', ''tax'' \<mapsto> wallet_row 6 ''orbi'')\<rparr>"

definition sample_shop :: paysafe where
  "sample_shop = (sample_safe [sample_order])\<lparr>ps_world := (sample_world ''authorized'')\<lparr>w_store := shop_store\<rparr>,
     ps_merchants := [''m1'' \<mapsto> \<lparr>mc_owner = Some ''u2'', mc_status = ''active''\<rparr>],
     ps_merchant_wallets := [\<lparr>mw_id = ''mw1'', mw_merchant = ''m1'', mw_type = ''settlement'', mw_primary = True, mw_balance = 10,
       mw_currency = Some ''TZS'', mw_status = ''active''\<rparr>],
     ps_accounts := [\<lparr>sa_role = ''SERVICE_REVENUE'', sa_currency = ''TZS'', sa_status = ''ACTIVE'', sa_vault = Some ''rev''\<rparr>,
       \<lparr>sa_role = ''TAX_RESERVE'', sa_currency = ''TZS'', sa_status = ''ACTIVE'', sa_vault = Some ''tax''\<rparr>]\<rparr>"

lemma shop_balance: "balance_of shop_store k = (if k = ''src'' then 70 else if k = ''esc'' then 30 else if k = ''rev'' then 5 else if k = ''tax'' then 6 else 0)"
  by (auto simp: balance_of_def entity_kinds_def shop_store_def sample_vaults_def wallet_row_def)

lemma sample_settles:
  "map_sum id fst (settle_merchant_paysafe_v1 sample_clock ''ms1'' ''ESC-1'' ''u1'' sample_shop) = Inr (answer_of ''SETTLED'' False)"
  by code_simp

theorem merchant_settlement_pays_once_witness:
  "\<exists>s' ms sv tv. settle_merchant_paysafe_v1 sample_clock ''ms1'' ''ESC-1'' ''u1'' sample_shop = Inr (answer_of ''SETTLED'' False, s') \<and>
     ps_settlements s' = [ms] \<and> ms_gross ms = 30 \<and> balance_of (w_store (ps_world s')) ''esc'' = 30 - 30 + paid_in sv (ms_fee ms) ''esc'' + paid_in tv (ms_tax ms) ''esc''"
proof -
  obtain s' where s': "settle_merchant_paysafe_v1 sample_clock ''ms1'' ''ESC-1'' ''u1'' sample_shop = Inr (answer_of ''SETTLED'' False, s')"
    using sample_settles by (cases "settle_merchant_paysafe_v1 sample_clock ''ms1'' ''ESC-1'' ''u1'' sample_shop") auto
  have v: "vaults_apart (w_store (ps_world sample_shop))"
    by (simp add: vaults_apart_def sample_shop_def shop_store_def sample_vaults_def)
  have c: "\<forall>k. scale2 (balance_of (w_store (ps_world sample_shop)) k)"
    by (simp add: sample_shop_def shop_balance scale2_def)
  have g: "registry_ok sample_shop (ag_escrow_vault sample_order)" "escrow_row sample_shop ''ESC-1'' = Some sample_order"
    by (simp_all add: registry_ok_def escrow_row_def sample_shop_def sample_safe_def sample_order_def sample_agreement_def)
  have r: "sql_btrim ''ESC-1'' \<noteq> []" by code_simp
  have i: "\<not> ea_idempotent (answer_of ''SETTLED'' False)" by (simp add: answer_of_def)
  have t: "to_fixed 2 (30 :: rat) = 30" by (rule to_fixed2_exact) (simp add: scale2_def)
  have a: "ag_amount sample_order = 30" "ag_escrow_vault sample_order = Some ''esc''" "ps_settlements sample_shop = []"
    "balance_of (w_store (ps_world sample_shop)) ''esc'' = 30"
    by (simp_all add: sample_order_def sample_agreement_def sample_shop_def sample_safe_def shop_balance)
  from merchant_settlement_pays_once [OF v c g r s' i] obtain ms sv tv where
    m: "ps_settlements s' = ps_settlements sample_shop @ [ms]" "ms_gross ms = to_fixed 2 (ag_amount sample_order)"
      "\<forall>k. balance_of (w_store (ps_world s')) k = balance_of (w_store (ps_world sample_shop)) k
         - (if ag_escrow_vault sample_order = Some k then ms_gross ms else 0) + paid_in sv (ms_fee ms) k + paid_in tv (ms_tax ms) k" by blast
  with s' a t show ?thesis by (intro exI [of _ s'] exI [of _ ms] exI [of _ sv] exI [of _ tv]) simp
qed

end
