(* ===== verification/Quote_Binding.thy ===== *)
theory Quote_Binding
  imports Fee_Classifier Internal_Settlement
begin

text \<open>
  Transaction quotes: how \<open>backend/payments/TransactionQuoteService.ts\<close> stores a preview, binds a confirmation
  to it and records the result of its settlement, and the locked conversion snapshot of
  \<open>backend/ledger/FXLockedQuote.ts\<close>.

  The preview itself (wallets, fees, risk rules and limits) is an argument: here it is the object that is
  stored. SHA-256 over the canonical JSON text and the keyed hashes are parameters.
\<close>

section \<open>The canonical intent\<close>

text \<open>\<open>String(v || '')\<close> and \<open>String(v || '').trim() || null\<close>.\<close>

definition falsy_text :: "jsv option \<Rightarrow> string" where
  "falsy_text v = (case v of None \<Rightarrow> [] | Some x \<Rightarrow> if truthy x then js_text x else [])"

definition quoteNullable :: "jsv option \<Rightarrow> jsv" where
  "quoteNullable v = (let t = js_trim (falsy_text v) in if t = [] then JNull else JStr t)"

text \<open>\<open>a ?? b ?? ...\<close>.\<close>

fun first_present :: "jsv option list \<Rightarrow> jsv option" where
  "first_present [] = None"
| "first_present [v] = v"
| "first_present (v # vs) = (case v of Some JNull \<Rightarrow> first_present vs | Some x \<Rightarrow> v | None \<Rightarrow> first_present vs)"

definition quoteAmount :: "jsv option \<Rightarrow> rat" where
  "quoteAmount v = (case v of None \<Rightarrow> 0 | Some x \<Rightarrow> (case js_number x of None \<Rightarrow> 0 | Some y \<Rightarrow> roundAmount y))"

definition quoteCurrency :: "jsv option \<Rightarrow> string" where
  "quoteCurrency v = js_upper (js_trim (falsy_text v))"

definition normalizeType :: "jsv option \<Rightarrow> string" where
  "normalizeType v = (let t = js_upper (js_trim (falsy_text v)) in
     if t = ''INTERNAL'' then ''INTERNAL_TRANSFER'' else if t = ''EXTERNAL'' then ''EXTERNAL_PAYMENT'' else t)"

definition rounded :: "jsv option \<Rightarrow> jsv" where
  "rounded v = (case v of None \<Rightarrow> JNum 0
     | Some x \<Rightarrow> (case (if truthy x then js_number x else Some 0) of None \<Rightarrow> JNull | Some y \<Rightarrow> JNum (roundAmount y)))"

text \<open>The properties in the order of their names.\<close>

definition buildCanonicalIntent :: "metadata \<Rightarrow> metadata \<Rightarrow> (string \<times> jsv) list" where
  "buildCanonicalIntent p q =
     (let m = md_object p ''metadata''; debit = md_object q ''debit''; fees = md_object q ''fees'' in
      [(''amount'', JNum (quoteAmount (first_present [p ''amount'', q ''amount'']))),
       (''category'', quoteNullable (p ''category'')),
       (''categoryId'', quoteNullable (first_present [p ''categoryId'', p ''category_id'', m ''categoryId'', m ''category_id''])),
       (''channel'', quoteNullable (first_truthy [p ''channel'', m ''channel''])),
       (''currency'', JStr (quoteCurrency (first_present [p ''currency'', q ''currency'']))),
       (''description'', JStr (js_trim (falsy_text (p ''description'')))),
       (''feeConfigId'', quoteNullable (fees ''configId'')),
       (''flowCode'', quoteNullable (fees ''flowCode'')),
       (''merchantId'', quoteNullable (first_truthy [p ''merchantId'', p ''merchant_id'', m ''merchantId'', m ''merchant_id''])),
       (''merchantPayNumber'', quoteNullable (first_truthy [p ''merchantPayNumber'', p ''merchant_pay_number'', m ''merchantPayNumber'',
          m ''merchant_pay_number''])),
       (''providerCode'', quoteNullable (first_truthy [m ''providerCode'', m ''provider_code'', m ''provider'', p ''providerInput'',
          md_object q ''provider'' ''providerCode''])),
       (''recipientCustomerId'', quoteNullable (first_truthy [p ''recipient_customer_id'', p ''recipientCustomerId'',
          m ''recipient_customer_id'', m ''recipientCustomerId''])),
       (''recipientId'', quoteNullable (first_truthy [p ''recipientId'', p ''recipient_id'', m ''recipientId'', m ''recipient_id''])),
       (''sourceWalletId'', quoteNullable (first_truthy [p ''sourceWalletId'', p ''source_wallet_id'', p ''walletId'', p ''wallet_id'',
          m ''sourceWalletId'', m ''source_wallet_id'', debit ''sourceWalletId'', md_object q ''sourceWallet'' ''id''])),
       (''targetWalletId'', quoteNullable (first_truthy [p ''targetWalletId'', p ''target_wallet_id'', m ''targetWalletId'', m ''target_wallet_id'',
          md_object q ''targetWallet'' ''id''])),
       (''totalDebit'', rounded (first_truthy [debit ''total'', p ''totalDebit'', p ''total_debit'', p ''amount''])),
       (''totalFee'', rounded (fees ''totalFee'')),
       (''type'', JStr (normalizeType (first_truthy [p ''type'', q ''type'', Some (JStr ''INTERNAL_TRANSFER'')])))])"

text \<open>
  The hash of an intent, the keyed hash of a text, of the values of a conversion snapshot,
  and the configured secret (empty when there is none).
\<close>

record quote_crypto =
  qc_hash :: "(string \<times> jsv) list \<Rightarrow> string"
  qc_sign :: "string \<Rightarrow> string \<Rightarrow> string"
  qc_sign_list :: "string \<Rightarrow> jsv list \<Rightarrow> string"
  qc_secret :: string

definition signQuote :: "quote_crypto \<Rightarrow> string \<Rightarrow> string \<Rightarrow> string \<Rightarrow> string \<Rightarrow> string" where
  "signQuote qc i h expires user =
     (if qc_secret qc = [] then [] else qc_sign qc (qc_secret qc) (i @ ''|'' @ user @ ''|'' @ h @ ''|'' @ expires))"

definition extractQuoteId :: "metadata \<Rightarrow> jsv" where
  "extractQuoteId p =
     (let prev = md_object p ''preview''; snap = md_object p ''preview_snapshot''; m = md_object p ''metadata'' in
      quoteNullable (first_truthy [p ''quoteId'', p ''quote_id'', prev ''quoteId'', prev ''quote_id'', snap ''quoteId'', snap ''quote_id'',
        m ''quoteId'', m ''quote_id'']))"

section \<open>Locked conversions\<close>

definition snapshot_num :: "jsv option \<Rightarrow> jsv" where
  "snapshot_num v = (case v of None \<Rightarrow> JNull | Some x \<Rightarrow> (case js_number x of None \<Rightarrow> JNull | Some y \<Rightarrow> JNum y))"

definition snapshot_num_or_zero :: "jsv option \<Rightarrow> jsv" where
  "snapshot_num_or_zero v = (case number_or_zero v of None \<Rightarrow> JNull | Some y \<Rightarrow> JNum y)"

definition snapshotFields :: "metadata \<Rightarrow> string \<Rightarrow> string \<Rightarrow> jsv list" where
  "snapshotFields q i user = [JStr i, JStr user, JStr (falsy_text (q ''expiresAt'')), snapshot_num (q ''originalAmount''),
     JStr (quoteCurrency (q ''fromCurrency'')), JStr (quoteCurrency (q ''toCurrency'')), snapshot_num (q ''exchangeRate''),
     snapshot_num (q ''finalAmount''), snapshot_num (q ''marketRate''), snapshot_num_or_zero (q ''spreadAmount''),
     snapshot_num_or_zero (q ''quotedMarginAmount''), snapshot_num_or_zero (q ''quotedRiskBufferAmount''), snapshot_num_or_zero (q ''fee'')]"

definition hex_char :: "char \<Rightarrow> bool" where
  "hex_char c \<longleftrightarrow> (let n = (of_char c :: nat) in 48 \<le> n \<and> n \<le> 57 \<or> 97 \<le> n \<and> n \<le> 102)"

definition signLockedFxSnapshot :: "quote_crypto \<Rightarrow> metadata \<Rightarrow> string \<Rightarrow> string \<Rightarrow> string outcome" where
  "signLockedFxSnapshot qc q i user =
     (if qc_secret qc = [] then throw ''FX_QUOTE_SIGNING_SECRET_REQUIRED''
      else Inr (qc_sign_list qc (qc_secret qc) (snapshotFields q i user)))"

definition verifyLockedFxSnapshot :: "quote_crypto \<Rightarrow> metadata \<Rightarrow> string \<Rightarrow> string \<Rightarrow> unit outcome" where
  "verifyLockedFxSnapshot qc q i user =
     (let stored = falsy_text (q ''fxSnapshotSignature'') in
      if length stored \<noteq> 64 \<or> \<not> list_all hex_char stored then throw ''FX_QUOTE_SNAPSHOT_SIGNATURE_MISSING''
      else bind_outcome (signLockedFxSnapshot qc q i user) (\<lambda>expected.
        if stored \<noteq> expected then throw ''FX_QUOTE_SNAPSHOT_SIGNATURE_INVALID'' else Inr ()))"

record locked_fx =
  lf_amount :: rat
  lf_from :: string
  lf_to :: string
  lf_rate :: rat
  lf_final :: rat
  lf_fee :: "rat option"

definition positive_number :: "jsv option \<Rightarrow> bool" where
  "positive_number v = (case v of None \<Rightarrow> False | Some x \<Rightarrow> (case js_number x of None \<Rightarrow> False | Some y \<Rightarrow> 0 < y))"

definition number_value :: "jsv option \<Rightarrow> rat" where
  "number_value v = (case v of None \<Rightarrow> 0 | Some x \<Rightarrow> (case js_number x of None \<Rightarrow> 0 | Some y \<Rightarrow> y))"

text \<open>A fee that is no number makes the comparison with the tolerance false, and passes.\<close>

definition resolveLockedFxConversion :: "metadata \<Rightarrow> rat \<Rightarrow> string \<Rightarrow> string \<Rightarrow> locked_fx outcome" where
  "resolveLockedFxConversion q amount source target =
     (let from' = js_upper (js_trim source); to' = js_upper (js_trim target); fee = number_or_zero (q ''fee'') in
      if from' = to' \<or> from' \<noteq> quoteCurrency (q ''fromCurrency'') \<or> to' \<noteq> quoteCurrency (q ''toCurrency'')
        then throw ''FX_QUOTE_WALLET_CURRENCY_MISMATCH''
      else if amount \<le> 0 \<or> \<not> positive_number (q ''originalAmount'') \<or> number_value (q ''originalAmount'') \<noteq> amount
        then throw ''FX_QUOTE_AMOUNT_MISMATCH''
      else if \<not> positive_number (q ''exchangeRate'') \<or> \<not> positive_number (q ''finalAmount'') then throw ''FX_QUOTE_SNAPSHOT_INVALID''
      else case fee of
          Some f \<Rightarrow> (if amount * 5 / 10 ^ 9 + 11 / 10 ^ 5 < \<bar>amount * number_value (q ''exchangeRate'') - f - number_value (q ''finalAmount'')\<bar>
            then throw ''FX_QUOTE_RESULT_MISMATCH''
            else Inr \<lparr>lf_amount = amount, lf_from = from', lf_to = to', lf_rate = number_value (q ''exchangeRate''),
              lf_final = number_value (q ''finalAmount''), lf_fee = Some f\<rparr>)
        | None \<Rightarrow> Inr \<lparr>lf_amount = amount, lf_from = from', lf_to = to', lf_rate = number_value (q ''exchangeRate''),
              lf_final = number_value (q ''finalAmount''), lf_fee = None\<rparr>)"

section \<open>The table\<close>

record quote_row =
  tq_id :: string
  tq_user :: string
  tq_hash :: string
  tq_signature :: string
  tq_payload :: metadata
  tq_snapshot :: metadata
  tq_type :: "string option"
  tq_can_submit :: bool
  tq_status :: string
  tq_key :: "string option"
  tq_tx :: "string option"
  tq_result :: "(string \<times> jsv) list"
  tq_expires :: int
  tq_confirmed :: "int option"
  tq_settled :: "int option"
  tq_updated :: int

record fx_event =
  fe_quote :: string
  fe_user :: string
  fe_tx :: "string option"
  fe_status :: string
  fe_metadata :: metadata
  fe_updated :: int

record quotes =
  qt_rows :: "quote_row list"
  qt_fx :: "fx_event list"

text \<open>\<open>persistQuote\<close> of the preview \<open>q\<close>: its hash and signature are added to the stored snapshot.\<close>

definition persistQuote :: "quote_crypto \<Rightarrow> clock \<Rightarrow> string \<Rightarrow> metadata \<Rightarrow> metadata \<Rightarrow> int \<Rightarrow> quotes \<Rightarrow> quotes" where
  "persistQuote qc ck user p q expires s =
     (let i = falsy_text (q ''quoteId''); h = qc_hash qc (buildCanonicalIntent p q);
          sig = signQuote qc i h (falsy_text (q ''expiresAt'')) user in
      s\<lparr>qt_rows := qt_rows s @ [\<lparr>tq_id = i, tq_user = user, tq_hash = h, tq_signature = sig, tq_payload = p,
         tq_snapshot = q(''quoteHash'' \<mapsto> JStr h, ''quoteSignature'' \<mapsto> JStr sig), tq_type = truthy_text (Some (falsy_text (q ''type''))),
         tq_can_submit = (q ''canSubmit'' = Some (JBool True)),
         tq_status = (if q ''canSubmit'' = Some (JBool True) then ''QUOTED'' else ''BLOCKED''), tq_key = None, tq_tx = None, tq_result = [],
         tq_expires = expires, tq_confirmed = None, tq_settled = None, tq_updated = ck_now ck\<rparr>]\<rparr>)"

section \<open>Binding a confirmation\<close>

text \<open>What the checks of \<open>bindSettlementQuote\<close> decide on the row they have read.\<close>

datatype bind_decision = Refused js_error | Expired | Retry_Confirmed | Claim

definition settleable :: "quote_row \<Rightarrow> bool" where
  "settleable r \<longleftrightarrow> js_upper (tq_status r) \<in> {''QUOTED'', ''READY''}"

definition confirmed_for :: "string \<Rightarrow> quote_row \<Rightarrow> bool" where
  "confirmed_for key r \<longleftrightarrow> js_upper (tq_status r) = ''CONFIRMED'' \<and> js_trim (text_or_empty (tq_key r)) = key"

definition bind_check :: "quote_crypto \<Rightarrow> clock \<Rightarrow> string \<Rightarrow> metadata \<Rightarrow> string \<Rightarrow> quote_row \<Rightarrow> bind_decision" where
  "bind_check qc ck user p key r =
     (let retry = (confirmed_for key r \<and> key \<noteq> []); q = tq_snapshot r;
          expires = (case q ''expiresAt'' of Some v \<Rightarrow> if truthy v then js_text v else ck_iso ck (tq_expires r) | None \<Rightarrow> ck_iso ck (tq_expires r)) in
      if \<not> settleable r \<and> \<not> retry then Refused (JsError (''QUOTE_NOT_SETTLEABLE:'' @ text_or (Some (js_upper (tq_status r))) ''UNKNOWN'') [])
      else if tq_expires r = 0 \<or> tq_expires r < ck_now ck then Expired
      else if \<not> tq_can_submit r then Refused (JsError ''QUOTE_BLOCKED: This preview had blocking validation issues and cannot be settled.'' [])
      else if tq_hash r \<noteq> [] \<and> qc_hash qc (buildCanonicalIntent p q) \<noteq> tq_hash r then Refused (JsError
        ''QUOTE_PAYLOAD_MISMATCH: Transaction details changed after preview. Refresh the preview before confirming.'' [])
      else if tq_signature r \<noteq> [] \<and> tq_signature r \<noteq> signQuote qc (tq_id r) (tq_hash r) expires user
        then Refused (JsError ''QUOTE_SIGNATURE_INVALID: Transaction preview integrity check failed.'' [])
      else case (if js_upper (text_or_empty (tq_type r)) = ''FX_CONVERSION'' then verifyLockedFxSnapshot qc q (tq_id r) user else Inr ()) of
          Inl e \<Rightarrow> Refused e
        | Inr _ \<Rightarrow> if retry then Retry_Confirmed else Claim)"

definition mark_expired :: "clock \<Rightarrow> string \<Rightarrow> quotes \<Rightarrow> quotes" where
  "mark_expired ck i s = s\<lparr>qt_rows := upd (\<lambda>r. tq_id r = i) (\<lambda>r. r\<lparr>tq_status := ''EXPIRED'', tq_updated := ck_now ck\<rparr>) (qt_rows s)\<rparr>"

text \<open>
  The conditional update, with the unique index on the user and the key; it answers whether it
  changed a row.
\<close>

definition claim_matches :: "string \<Rightarrow> string \<Rightarrow> quote_row \<Rightarrow> bool" where
  "claim_matches i user r \<longleftrightarrow> tq_id r = i \<and> tq_user r = user \<and> tq_status r \<in> {''QUOTED'', ''READY''}"

definition claim_quote :: "clock \<Rightarrow> string \<Rightarrow> string \<Rightarrow> string \<Rightarrow> quotes \<Rightarrow> (bool \<times> quotes) outcome" where
  "claim_quote ck i user key s =
     (if \<not> (\<exists>r \<in> set (qt_rows s). claim_matches i user r) then Inr (False, s)
      else if \<exists>r \<in> set (qt_rows s). tq_user r = user \<and> tq_key r = Some key \<and> tq_id r \<noteq> i
        then Inl (JsError ''duplicate key value violates unique constraint'' ''23505'')
      else Inr (True, s\<lparr>qt_rows := upd (claim_matches i user)
        (\<lambda>r. r\<lparr>tq_status := ''CONFIRMED'', tq_key := Some key, tq_confirmed := Some (ck_now ck), tq_updated := ck_now ck\<rparr>) (qt_rows s)\<rparr>))"

record binding =
  bq_id :: string
  bq_payload :: metadata
  bq_quote :: metadata

text \<open>The stored request, not the confirming one, is what will be settled.\<close>

definition bound :: "string \<Rightarrow> quote_row \<Rightarrow> binding" where
  "bound key r = \<lparr>bq_id = tq_id r,
     bq_payload = (tq_payload r)(''quoteId'' \<mapsto> JStr (tq_id r), ''quoteHash'' \<mapsto> JStr (tq_hash r), ''idempotencyKey'' \<mapsto> JStr key,
       ''metadata'' \<mapsto> JObj (obj_set (obj_set (obj_set (obj_spread [] (tq_payload r ''metadata'')) ''quote_id'' (JStr (tq_id r)))
          ''quote_hash'' (JStr (tq_hash r))) ''quote_bound'' (JBool True))),
     bq_quote = tq_snapshot r\<rparr>"

definition find_quote :: "string \<Rightarrow> string \<Rightarrow> quotes \<Rightarrow> quote_row option" where
  "find_quote i user s = single (sel (\<lambda>r. tq_id r = i \<and> tq_user r = user) (qt_rows s))"

text \<open>After an update that changed nothing the row is read again: another request may have confirmed it.\<close>

definition after_claim :: "bool \<Rightarrow> string \<Rightarrow> string \<Rightarrow> quote_row \<Rightarrow> quotes \<Rightarrow> binding outcome" where
  "after_claim reread_fails user key r s =
     (case (if reread_fails then None else find_quote (tq_id r) user s) of
        None \<Rightarrow> throw ''QUOTE_CONFIRM_CONFLICT:UNKNOWN''
      | Some x \<Rightarrow> if confirmed_for key x then Inr (bound key r)
          else throw (''QUOTE_CONFIRM_CONFLICT:'' @ text_or (Some (js_upper (tq_status x))) ''UNKNOWN''))"

record bind_env =
  be_lookup :: "js_error option"
  be_update :: rpc_fault
  be_reread_fails :: bool

definition confirm_quote :: "clock \<Rightarrow> bind_env \<Rightarrow> string \<Rightarrow> string \<Rightarrow> quote_row \<Rightarrow> quotes \<Rightarrow> binding outcome \<times> quotes" where
  "confirm_quote ck env user key r s =
     (let refused = (\<lambda>e. throw (''QUOTE_CONFIRM_FAILED:'' @ err_message e)) in
      case be_update env of
        Rpc_Lost e \<Rightarrow> (refused e, s)
      | Rpc_Ok \<Rightarrow> (case claim_quote ck (tq_id r) user key s of
            Inl e \<Rightarrow> (refused e, s)
          | Inr (True, s') \<Rightarrow> (Inr (bound key r), s')
          | Inr (False, s') \<Rightarrow> (after_claim (be_reread_fails env) user key r s', s'))
      | Rpc_Late e \<Rightarrow> (case claim_quote ck (tq_id r) user key s of
            Inl x \<Rightarrow> (refused x, s)
          | Inr (_, s') \<Rightarrow> (refused e, s')))"

definition bindSettlementQuote :: "quote_crypto \<Rightarrow> clock \<Rightarrow> bind_env \<Rightarrow> string \<Rightarrow> metadata \<Rightarrow> string \<Rightarrow> quotes \<Rightarrow> binding outcome \<times> quotes" where
  "bindSettlementQuote qc ck env user p key0 s =
     (let key = js_trim key0 in
      case extractQuoteId p of
        JStr i \<Rightarrow>
          (case be_lookup env of
             Some e \<Rightarrow> (throw (''QUOTE_LOOKUP_FAILED:'' @ err_message e), s)
           | None \<Rightarrow>
               (case find_quote i user s of
                  None \<Rightarrow> (throw ''QUOTE_NOT_FOUND'', s)
                | Some r \<Rightarrow>
                    (case bind_check qc ck user p key r of
                       Refused e \<Rightarrow> (Inl e, s)
                     | Expired \<Rightarrow> (throw ''QUOTE_EXPIRED: Please refresh the transaction preview before confirming.'', mark_expired ck i s)
                     | Retry_Confirmed \<Rightarrow> (Inr (bound key r), s)
                     | Claim \<Rightarrow> confirm_quote ck env user key r s)))
      | _ \<Rightarrow> (throw ''QUOTE_ID_REQUIRED: Confirming a transaction requires a server-issued preview quote.'', s))"

section \<open>The result of the settlement\<close>

definition result_tx :: "metadata \<Rightarrow> string option" where
  "result_tx res = (let t = md_object res ''transaction'' in
     case quoteNullable (first_truthy [t ''internalId'', t ''id'', res ''transactionId'', res ''id'']) of JStr x \<Rightarrow> Some x | _ \<Rightarrow> None)"

definition settlement_status :: "metadata \<Rightarrow> string option" where
  "settlement_status res = (if res ''success'' \<noteq> Some (JBool True) then None
     else if js_lower (falsy_text (first_truthy [md_object res ''transaction'' ''status'', res ''status''])) \<in>
         {''processing'', ''pending'', ''authorized'', ''created''} then Some ''SETTLING'' else Some ''SETTLED'')"

definition challenged :: "metadata \<Rightarrow> bool" where
  "challenged res \<longleftrightarrow> res ''error'' = Some (JStr ''SECURITY_CHALLENGE'') \<or> res ''challengeRequired'' = Some (JBool True)"

definition result_status :: "metadata \<Rightarrow> string" where
  "result_status res = (case settlement_status res of Some st \<Rightarrow> st | None \<Rightarrow> if challenged res then ''CONFIRMED'' else ''FAILED'')"

definition put_result :: "clock \<Rightarrow> string \<Rightarrow> string \<Rightarrow> (string \<times> jsv) list \<Rightarrow> quotes \<Rightarrow> quotes" where
  "put_result ck i user kvs s = (let res = map_of kvs in
     s\<lparr>qt_rows := upd (\<lambda>r. tq_id r = i \<and> tq_user r = user)
       (\<lambda>r. r\<lparr>tq_status := result_status res, tq_tx := result_tx res, tq_result := kvs,
          tq_settled := (if settlement_status res = None then None else Some (ck_now ck)), tq_updated := ck_now ck\<rparr>) (qt_rows s)\<rparr>)"

definition fx_result :: "clock \<Rightarrow> metadata \<Rightarrow> (string \<times> jsv) list \<Rightarrow> fx_event \<Rightarrow> fx_event" where
  "fx_result ck old kvs e =
     (let res = map_of kvs; st = settlement_status res in
      e\<lparr>fe_tx := result_tx res,
        fe_status := (case st of Some x \<Rightarrow> if x = ''SETTLED'' then ''MATCHED'' else ''PENDING'' | None \<Rightarrow> if challenged res then ''PENDING'' else ''FAILED''),
        fe_metadata := old(''settlementStatus'' \<mapsto> (case st of None \<Rightarrow> JNull | Some x \<Rightarrow> JStr x), ''challengeRequired'' \<mapsto> JBool (challenged res),
          ''settlementResult'' \<mapsto> JObj kvs, ''revenueStatus'' \<mapsto> JStr (if st = None then ''NOT_REALIZED'' else ''SETTLED_SPREAD_ESTIMATE'')),
        fe_updated := ck_now ck\<rparr>)"

text \<open>Reading the reconciliation row fails when there are two; an update without a row changes nothing.\<close>

record result_env =
  re_update :: rpc_fault
  re_read :: "js_error option"
  re_fx :: rpc_fault

definition put_fx :: "clock \<Rightarrow> string \<Rightarrow> string \<Rightarrow> (string \<times> jsv) list \<Rightarrow> quotes \<Rightarrow> quotes" where
  "put_fx ck i user kvs s = s\<lparr>qt_fx := upd (\<lambda>e. fe_quote e = i \<and> fe_user e = user)
     (\<lambda>e. fx_result ck (fe_metadata e) kvs e) (qt_fx s)\<rparr>"

definition markQuoteSettlementResult :: "clock \<Rightarrow> result_env \<Rightarrow> string option \<Rightarrow> string \<Rightarrow> (string \<times> jsv) list \<Rightarrow> quotes \<Rightarrow> unit outcome \<times> quotes" where
  "markQuoteSettlementResult ck env quote user kvs s =
     (let i = js_trim (text_or_empty quote); s1 = put_result ck i user kvs s in
      if i = [] then (Inr (), s)
      else case re_update env of
        Rpc_Lost e \<Rightarrow> (Inl e, s)
      | Rpc_Late e \<Rightarrow> (Inl e, s1)
      | Rpc_Ok \<Rightarrow>
          (case re_read env of
             Some e \<Rightarrow> (Inl e, s1)
           | None \<Rightarrow>
               (if 1 < length (sel (\<lambda>e. fe_quote e = i \<and> fe_user e = user) (qt_fx s)) then (throw ''multiple rows returned'', s1)
                else case re_fx env of
                    Rpc_Lost e \<Rightarrow> (Inl e, s1)
                  | Rpc_Late e \<Rightarrow> (Inl e, put_fx ck i user kvs s1)
                  | Rpc_Ok \<Rightarrow> (Inr (), put_fx ck i user kvs s1))))"

end
