(* ===== verification/Quote_Properties.thy ===== *)
theory Quote_Properties
  imports Quote_Binding "HOL-Library.Countable"
begin

text \<open>
  Confirmations of a quote under any interleaving of their database calls: a quote is bound to one
  idempotency key, and only for a request with the previewed intent; what a late failure does to
  a settled quote.
\<close>

section \<open>Trimming\<close>

lemma dropWhile_id: "xs = [] \<or> \<not> P (hd xs) \<Longrightarrow> dropWhile P xs = xs"
  by (cases xs) auto

lemma js_trim_idem [simp]: "js_trim (js_trim s) = js_trim s"
proof -
  let ?y = "dropWhile is_space s"
  let ?z = "rev (dropWhile is_space (rev ?y))"
  have y: "?y = [] \<or> \<not> is_space (hd ?y)" by (metis hd_dropWhile)
  have "\<exists>t. ?y = ?z @ t" by (metis rev_append rev_rev_ident takeWhile_dropWhile_id)
  then obtain t where t: "?y = ?z @ t" ..
  have "?z = [] \<or> \<not> is_space (hd ?z)"
  proof (cases "?z = []")
    case False
    then have "hd ?y = hd ?z" "?y \<noteq> []" by (metis t hd_append2, metis t append_is_Nil_conv)
    with y show ?thesis by (metis)
  qed simp
  from dropWhile_id [where P = is_space and xs = ?z, OF this] have "dropWhile is_space ?z = ?z" .
  then show ?thesis by (simp add: js_trim_def dropWhile_space_idem)
qed

section \<open>Interleaved confirmations\<close>

text \<open>
  A request: the user, the trimmed key, the payload and the row it has read. Requests that wait for
  the update or for the second reading stay in the list, which allows more runs than the program has.
\<close>

type_synonym request = "string \<times> string \<times> metadata \<times> quote_row"

record quote_world =
  qw_table :: quotes
  qw_expiring :: "string list"
  qw_claims :: "request list"
  qw_bound :: "request list"

inductive quote_step :: "quote_crypto \<Rightarrow> quote_world \<Rightarrow> quote_world \<Rightarrow> bool" for qc where
  Store: "falsy_text (q ''quoteId'') \<notin> tq_id ` set (qt_rows (qw_table w)) \<Longrightarrow>
    quote_step qc w (w\<lparr>qw_table := persistQuote qc ck user p q expires (qw_table w)\<rparr>)"
| Check_Expired: "find_quote i user (qw_table w) = Some r \<Longrightarrow> bind_check qc ck user p (js_trim key) r = Expired \<Longrightarrow>
    quote_step qc w (w\<lparr>qw_expiring := i # qw_expiring w\<rparr>)"
| Check_Retry: "find_quote i user (qw_table w) = Some r \<Longrightarrow> bind_check qc ck user p (js_trim key) r = Retry_Confirmed \<Longrightarrow>
    quote_step qc w (w\<lparr>qw_bound := (user, js_trim key, p, r) # qw_bound w\<rparr>)"
| Check_Claim: "find_quote i user (qw_table w) = Some r \<Longrightarrow> bind_check qc ck user p (js_trim key) r = Claim \<Longrightarrow>
    quote_step qc w (w\<lparr>qw_claims := (user, js_trim key, p, r) # qw_claims w\<rparr>)"
| Mark_Expired: "i \<in> set (qw_expiring w) \<Longrightarrow> quote_step qc w (w\<lparr>qw_table := mark_expired ck i (qw_table w)\<rparr>)"
| Confirm: "(user, key, p, r) \<in> set (qw_claims w) \<Longrightarrow> claim_quote ck (tq_id r) user key (qw_table w) = Inr (True, t) \<Longrightarrow>
    quote_step qc w (w\<lparr>qw_table := t, qw_bound := (user, key, p, r) # qw_bound w\<rparr>)"
| Confirm_Unanswered: "(user, key, p, r) \<in> set (qw_claims w) \<Longrightarrow> claim_quote ck (tq_id r) user key (qw_table w) = Inr (True, t) \<Longrightarrow>
    quote_step qc w (w\<lparr>qw_table := t\<rparr>)"
| Reread: "(user, key, p, r) \<in> set (qw_claims w) \<Longrightarrow> find_quote (tq_id r) user (qw_table w) = Some x \<Longrightarrow> confirmed_for key x \<Longrightarrow>
    quote_step qc w (w\<lparr>qw_bound := (user, key, p, r) # qw_bound w\<rparr>)"
| Result: "(user, key, p, r) \<in> set (qw_bound w) \<Longrightarrow>
    quote_step qc w (w\<lparr>qw_table := put_result ck (tq_id r) user res (qw_table w)\<rparr>)"

definition quotes_start :: "quote_world \<Rightarrow> bool" where
  "quotes_start w \<longleftrightarrow> qt_rows (qw_table w) = [] \<and> qw_expiring w = [] \<and> qw_claims w = [] \<and> qw_bound w = []"

definition open_status :: "quote_row \<Rightarrow> bool" where
  "open_status x \<longleftrightarrow> tq_status x \<in> {''QUOTED'', ''READY''}"

definition same_quote :: "quote_row \<Rightarrow> quote_row \<Rightarrow> bool" where
  "same_quote x y \<longleftrightarrow> tq_id y = tq_id x \<and> tq_user y = tq_user x \<and> tq_hash y = tq_hash x \<and> tq_payload y = tq_payload x \<and> tq_snapshot y = tq_snapshot x"

definition row_ok :: "quote_crypto \<Rightarrow> quote_row \<Rightarrow> bool" where
  "row_ok qc x \<longleftrightarrow> (\<forall>k. tq_key x = Some k \<longrightarrow> js_trim k = k) \<and> (js_upper (tq_status x) = ''CONFIRMED'' \<longrightarrow> tq_key x \<noteq> None) \<and>
     tq_hash x = qc_hash qc (buildCanonicalIntent (tq_payload x) (tq_snapshot x))"

definition asked :: "quote_crypto \<Rightarrow> request \<Rightarrow> quote_row \<Rightarrow> bool" where
  "asked qc b x \<longleftrightarrow> (case b of (user, key, p, r) \<Rightarrow> same_quote r x \<and> tq_user x = user \<and> js_trim key = key \<and>
     (tq_hash r = [] \<or> qc_hash qc (buildCanonicalIntent p (tq_snapshot r)) = tq_hash r))"

definition held_for :: "request \<Rightarrow> quote_row \<Rightarrow> bool" where
  "held_for b x \<longleftrightarrow> (case b of (user, key, p, r) \<Rightarrow> tq_key x = Some key \<and> \<not> open_status x)"

definition quotes_ok :: "quote_crypto \<Rightarrow> quote_world \<Rightarrow> bool" where
  "quotes_ok qc w \<longleftrightarrow> distinct (map tq_id (qt_rows (qw_table w))) \<and> list_all (row_ok qc) (qt_rows (qw_table w)) \<and>
     (\<forall>b \<in> set (qw_claims w). \<exists>x \<in> set (qt_rows (qw_table w)). asked qc b x) \<and>
     (\<forall>b \<in> set (qw_bound w). \<exists>x \<in> set (qt_rows (qw_table w)). asked qc b x \<and> held_for b x)"

text \<open>A change of the table that keeps the requests valid.\<close>

definition row_change :: "quote_crypto \<Rightarrow> quote_row \<Rightarrow> quote_row \<Rightarrow> bool" where
  "row_change qc x y \<longleftrightarrow> same_quote x y \<and> row_ok qc y \<and> (open_status x \<or> \<not> open_status y \<and> tq_key y = tq_key x)"

lemma same_quote_trans: "same_quote x y \<Longrightarrow> same_quote y z \<Longrightarrow> same_quote x z"
  by (simp add: same_quote_def)

lemma quotes_map:
  assumes "quotes_ok qc w" "qt_rows t = map g (qt_rows (qw_table w))" "\<And>x. x \<in> set (qt_rows (qw_table w)) \<Longrightarrow> row_change qc x (g x)"
  shows "quotes_ok qc (w\<lparr>qw_table := t\<rparr>)"
proof -
  have ids: "map tq_id (qt_rows t) = map tq_id (qt_rows (qw_table w))"
    using assms(2,3) by (auto simp: row_change_def same_quote_def)
  have a: "asked qc b x \<Longrightarrow> x \<in> set (qt_rows (qw_table w)) \<Longrightarrow> asked qc b (g x)" for b x
    using assms(3) [of x] same_quote_trans by (auto simp: asked_def row_change_def same_quote_def)
  have h: "held_for b x \<Longrightarrow> x \<in> set (qt_rows (qw_table w)) \<Longrightarrow> held_for b (g x)" for b x
    using assms(3) [of x] by (auto simp: held_for_def row_change_def)
  have "list_all (row_ok qc) (qt_rows t)" using assms(3) by (auto simp: assms(2) list_all_iff row_change_def)
  moreover have "\<exists>x \<in> set (qt_rows t). asked qc b x" if "b \<in> set (qw_claims w)" for b
    using that assms(1) a [of b] unfolding quotes_ok_def assms(2) by fastforce
  moreover have "\<exists>x \<in> set (qt_rows t). asked qc b x \<and> held_for b x" if "b \<in> set (qw_bound w)" for b
    using that assms(1) a [of b] h [of b] unfolding quotes_ok_def assms(2) by fastforce
  moreover have "distinct (map tq_id (qt_rows t))" using assms(1) by (simp add: ids quotes_ok_def)
  ultimately show ?thesis by (simp add: quotes_ok_def)
qed

lemma find_quote_mem: "find_quote i user s = Some r \<Longrightarrow> r \<in> set (qt_rows s) \<and> tq_id r = i \<and> tq_user r = user"
  unfolding find_quote_def by (drule single_SomeD) (metis (mono_tags, lifting) list.set_intros(1) mem_Collect_eq set_sel)

lemma checked:
  assumes "bind_check qc ck user p key r \<in> {Claim, Retry_Confirmed}"
  shows "tq_hash r = [] \<or> qc_hash qc (buildCanonicalIntent p (tq_snapshot r)) = tq_hash r"
    and "bind_check qc ck user p key r = Retry_Confirmed \<Longrightarrow> confirmed_for key r \<and> key \<noteq> []"
  using assms by (auto simp: bind_check_def Let_def split: if_splits sum.splits)

lemma status_texts: "js_upper ''QUOTED'' = ''QUOTED''" "js_upper ''READY'' = ''READY''" "js_upper ''BLOCKED'' = ''BLOCKED''"
  "js_upper ''EXPIRED'' = ''EXPIRED''" "js_upper ''CONFIRMED'' = ''CONFIRMED''"
  by code_simp+

lemma result_status_cases: "result_status res \<in> {''SETTLING'', ''SETTLED'', ''CONFIRMED'', ''FAILED''}"
  by (auto simp: result_status_def settlement_status_def)

lemma confirmed_held:
  assumes "row_ok qc x" "confirmed_for key x" "js_trim key = key"
  shows "tq_key x = Some key \<and> \<not> open_status x"
proof -
  from assms(2) have c: "js_upper (tq_status x) = ''CONFIRMED''" and t: "js_trim (text_or_empty (tq_key x)) = key"
    by (simp_all add: confirmed_for_def)
  from c assms(1) obtain k where k: "tq_key x = Some k" "js_trim k = k" by (auto simp: row_ok_def)
  moreover have "\<not> open_status x" using c by (auto simp: open_status_def status_texts)
  ultimately show ?thesis using t by (simp add: text_or_empty_def)
qed

lemma same_id:
  assumes "quotes_ok qc w" "x \<in> set (qt_rows (qw_table w))" "y \<in> set (qt_rows (qw_table w))" "tq_id x = tq_id y"
  shows "x = y"
  using assms by (auto simp: quotes_ok_def distinct_map dest: inj_onD)

lemma claim_change:
  assumes "quotes_ok qc w" "claim_quote ck (tq_id r) user key (qw_table w) = Inr (True, t)" "b = (user, key, p, r)" "b \<in> set (qw_claims w)"
  shows "quotes_ok qc (w\<lparr>qw_table := t\<rparr>) \<and> (\<exists>x \<in> set (qt_rows t). asked qc b x \<and> held_for b x)"
proof -
  let ?f = "\<lambda>r. r\<lparr>tq_status := ''CONFIRMED'', tq_key := Some key, tq_confirmed := Some (ck_now ck), tq_updated := ck_now ck\<rparr>"
  let ?g = "\<lambda>x. if claim_matches (tq_id r) user x then ?f x else x"
  from assms(2) obtain x where x: "x \<in> set (qt_rows (qw_table w))" "claim_matches (tq_id r) user x" and t: "qt_rows t = map ?g (qt_rows (qw_table w))"
    by (auto simp: claim_quote_def upd_def split: if_splits)
  from assms(1,3,4) obtain x0 where x0: "x0 \<in> set (qt_rows (qw_table w))" "asked qc b x0" by (auto simp: quotes_ok_def)
  then have "tq_id x0 = tq_id r" "js_trim key = key" by (auto simp: asked_def same_quote_def assms(3))
  then have e: "x0 = x" using x x0(1) by (intro same_id [OF assms(1)]) (simp_all add: claim_matches_def)
  have "row_change qc y (?g y)" if "y \<in> set (qt_rows (qw_table w))" for y
    using that assms(1) \<open>js_trim key = key\<close>
    by (auto simp: row_change_def same_quote_def row_ok_def open_status_def claim_matches_def quotes_ok_def list_all_iff)
  from quotes_map [OF assms(1) t this] have "quotes_ok qc (w\<lparr>qw_table := t\<rparr>)" .
  moreover have "asked qc b (?f x)" using x0(2) by (auto simp: e asked_def same_quote_def assms(3))
  moreover have "held_for b (?f x)" by (simp add: held_for_def assms(3) open_status_def)
  moreover have "?f x \<in> set (qt_rows t)" using x by (force simp: t)
  ultimately show ?thesis by blast
qed

lemma quotes_step:
  assumes "quote_step qc w w'" "quotes_ok qc w"
  shows "quotes_ok qc w'"
  using assms
proof (induction rule: quote_step.induct)
  case (Store q w ck user p expires)
  let ?t = "persistQuote qc ck user p q expires (qw_table w)"
  have i: "buildCanonicalIntent p (q(''quoteHash'' \<mapsto> h, ''quoteSignature'' \<mapsto> g)) = buildCanonicalIntent p q" for h g
    by (simp add: buildCanonicalIntent_def md_object_def)
  obtain y where y: "qt_rows ?t = qt_rows (qw_table w) @ [y]" "tq_id y = falsy_text (q ''quoteId'')" "row_ok qc y"
    by (simp add: persistQuote_def Let_def row_ok_def i status_texts)
  have "distinct (map tq_id (qt_rows ?t))" using Store y by (auto simp: quotes_ok_def)
  moreover have "list_all (row_ok qc) (qt_rows ?t)" using Store y by (simp add: quotes_ok_def)
  moreover have "set (qt_rows (qw_table w)) \<subseteq> set (qt_rows ?t)" using y(1) by auto
  ultimately show ?case using Store by (fastforce simp: quotes_ok_def)
next
  case (Check_Expired i user w r ck p key)
  then show ?case by (simp add: quotes_ok_def)
next
  case (Check_Retry i user w r ck p key)
  from Check_Retry(1) have r: "r \<in> set (qt_rows (qw_table w))" "tq_user r = user" using find_quote_mem by blast+
  with Check_Retry(3) have "row_ok qc r" by (simp add: quotes_ok_def list_all_iff)
  with checked [of qc ck user p "js_trim key" r] Check_Retry(2) confirmed_held [of qc r "js_trim key"] r(2)
  have "asked qc (user, js_trim key, p, r) r \<and> held_for (user, js_trim key, p, r) r"
    by (simp add: asked_def same_quote_def held_for_def)
  with Check_Retry(3) r(1) show ?case by (auto simp: quotes_ok_def)
next
  case (Check_Claim i user w r ck p key)
  from Check_Claim(1) have r: "r \<in> set (qt_rows (qw_table w))" "tq_user r = user" using find_quote_mem by blast+
  with checked(1) [of qc ck user p "js_trim key" r] Check_Claim(2) have "asked qc (user, js_trim key, p, r) r"
    by (simp add: asked_def same_quote_def)
  with Check_Claim(3) r(1) show ?case by (auto simp: quotes_ok_def)
next
  case (Mark_Expired i w ck)
  show ?case
    by (rule quotes_map [OF Mark_Expired(2), where g = "\<lambda>r. if tq_id r = i then r\<lparr>tq_status := ''EXPIRED'', tq_updated := ck_now ck\<rparr> else r"])
      (use Mark_Expired(2) in \<open>auto simp: mark_expired_def upd_def row_change_def same_quote_def row_ok_def open_status_def quotes_ok_def list_all_iff status_texts\<close>)
next
  case (Confirm user key p r w ck t)
  from claim_change [OF Confirm(3,2) refl Confirm(1)] show ?case by (simp add: quotes_ok_def)
next
  case (Confirm_Unanswered user key p r w ck t)
  from claim_change [OF Confirm_Unanswered(3,2) refl Confirm_Unanswered(1)] show ?case by blast
next
  case (Reread user key p r w x)
  from find_quote_mem [OF Reread(2)] have x: "x \<in> set (qt_rows (qw_table w))" "tq_id x = tq_id r" by blast+
  from Reread(1,4) obtain x0 where x0: "x0 \<in> set (qt_rows (qw_table w))" "asked qc (user, key, p, r) x0" by (auto simp: quotes_ok_def)
  then have "tq_id x0 = tq_id r" "js_trim key = key" by (auto simp: asked_def same_quote_def)
  then have "x0 = x" using x x0(1) by (intro same_id [OF Reread(4)]) simp_all
  moreover have "row_ok qc x" using x(1) Reread(4) by (simp add: quotes_ok_def list_all_iff)
  from confirmed_held [OF this Reread(3) \<open>js_trim key = key\<close>] have "held_for (user, key, p, r) x" by (simp add: held_for_def)
  ultimately show ?case using Reread(4) x x0 by (auto simp: quotes_ok_def)
next
  case (Result user key p r w ck res)
  let ?m = "\<lambda>x. tq_id x = tq_id r \<and> tq_user x = user"
  from Result obtain x0 where x0: "x0 \<in> set (qt_rows (qw_table w))" "asked qc (user, key, p, r) x0" "held_for (user, key, p, r) x0"
    by (auto simp: quotes_ok_def)
  have m: "y = x0" if "y \<in> set (qt_rows (qw_table w))" "?m y" for y
    using that x0 by (intro same_id [OF Result(2)]) (simp_all add: asked_def same_quote_def)
  have k: "tq_key x0 = Some key" "\<not> open_status x0" using x0(3) by (simp_all add: held_for_def)
  let ?f = "\<lambda>x. x\<lparr>tq_status := result_status (map_of res), tq_tx := result_tx (map_of res), tq_result := res,
          tq_settled := (if settlement_status (map_of res) = None then None else Some (ck_now ck)), tq_updated := ck_now ck\<rparr>"
  have f: "row_change qc x0 (?f x0)"
    using result_status_cases [of "map_of res"] k Result(2) x0(1)
    by (auto simp: row_change_def same_quote_def row_ok_def open_status_def quotes_ok_def list_all_iff)
  have "row_change qc y (if ?m y then ?f y else y)" if "y \<in> set (qt_rows (qw_table w))" for y
    using f m [OF that] that Result(2) by (auto simp: row_change_def same_quote_def quotes_ok_def list_all_iff)
  from quotes_map [OF Result(2) _ this] show ?case by (simp add: put_result_def upd_def Let_def)
qed

lemma quotes_run: "(quote_step qc)\<^sup>*\<^sup>* w w' \<Longrightarrow> quotes_ok qc w \<Longrightarrow> quotes_ok qc w'"
  by (induction rule: rtranclp_induct) (auto intro: quotes_step)

lemma start_ok: "quotes_start w \<Longrightarrow> quotes_ok qc w"
  by (simp add: quotes_start_def quotes_ok_def)

section \<open>Properties\<close>

text \<open>C16: A quote is settled under one idempotency key: in every interleaving of confirmations, their lost
  answers, expiries and settlement results, two confirmations of the same quote that are told to
  settle carry the same key.\<close>

theorem quote_bound_to_one_key:
  assumes "(quote_step qc)\<^sup>*\<^sup>* w w'" and "quotes_start w"
    and "(u1, k1, p1, r1) \<in> set (qw_bound w')" and "(u2, k2, p2, r2) \<in> set (qw_bound w')" and "tq_id r1 = tq_id r2"
  shows "k1 = k2 \<and> u1 = u2"
proof -
  from quotes_run [OF assms(1) start_ok [OF assms(2)]] have ok: "quotes_ok qc w'" .
  with assms(3) obtain x where x: "x \<in> set (qt_rows (qw_table w'))" "asked qc (u1, k1, p1, r1) x" "held_for (u1, k1, p1, r1) x"
    by (auto simp: quotes_ok_def)
  from ok assms(4) obtain y where y: "y \<in> set (qt_rows (qw_table w'))" "asked qc (u2, k2, p2, r2) y" "held_for (u2, k2, p2, r2) y"
    by (auto simp: quotes_ok_def)
  have "tq_id x = tq_id y" using x(2) y(2) assms(5) by (simp add: asked_def same_quote_def)
  with same_id [OF ok x(1) y(1)] have "x = y" .
  with x y show ?thesis by (simp add: asked_def held_for_def)
qed

text \<open>Nothing but the previewed payment is settled: a confirmation that is told to settle, in any
  interleaving, has the canonical intent of the stored preview (its amount, currency, parties, wallets,
  provider and total fee), provided the hash of different intents differs and is never empty.\<close>

theorem bound_intent_is_previewed:
  assumes "(quote_step qc)\<^sup>*\<^sup>* w w'" and "quotes_start w" and "inj (qc_hash qc)" and "\<And>x. qc_hash qc x \<noteq> []"
    and "(u, k, p, r) \<in> set (qw_bound w')"
  shows "buildCanonicalIntent p (tq_snapshot r) = buildCanonicalIntent (tq_payload r) (tq_snapshot r)"
proof -
  from quotes_run [OF assms(1) start_ok [OF assms(2)]] assms(5) obtain x where x: "x \<in> set (qt_rows (qw_table w'))" "asked qc (u, k, p, r) x"
    "row_ok qc x" by (auto simp: quotes_ok_def list_all_iff)
  then have "qc_hash qc (buildCanonicalIntent p (tq_snapshot r)) = qc_hash qc (buildCanonicalIntent (tq_payload r) (tq_snapshot r))"
    using assms(4) by (auto simp: asked_def same_quote_def row_ok_def)
  with assms(3) show ?thesis by (simp add: inj_eq)
qed

text \<open>A whole confirmation is a run of these steps.\<close>

lemma confirm_is_steps:
  assumes "confirm_quote ck env user key r (qw_table w) = (x, t)" "(user, key, p, r) \<in> set (qw_claims w)"
  shows "\<exists>w'. (quote_step qc)\<^sup>*\<^sup>* w w' \<and> qw_table w' = t \<and> (\<forall>b. x = Inr b \<longrightarrow> (user, key, p, r) \<in> set (qw_bound w') \<and> b = bound key r)"
proof -
  have made: "\<exists>w'. (quote_step qc)\<^sup>*\<^sup>* w w' \<and> qw_table w' = t' \<and> (user, key, p, r) \<in> set (qw_bound w')"
    if "claim_quote ck (tq_id r) user key (qw_table w) = Inr (True, t')" for t'
    by (rule exI, rule conjI, rule r_into_rtranclp, rule quote_step.Confirm [OF assms(2) that]) simp
  have late: "\<exists>w'. (quote_step qc)\<^sup>*\<^sup>* w w' \<and> qw_table w' = t'"
    if "claim_quote ck (tq_id r) user key (qw_table w) = Inr (True, t')" for t'
    by (rule exI, rule conjI, rule r_into_rtranclp, rule quote_step.Confirm_Unanswered [OF assms(2) that]) simp
  have missed: "t' = qw_table w" if "claim_quote ck (tq_id r) user key (qw_table w) = Inr (False, t')" for t'
    using that by (auto simp: claim_quote_def split: if_splits)
  have again: "\<exists>w'. (quote_step qc)\<^sup>*\<^sup>* w w' \<and> qw_table w' = qw_table w \<and> (user, key, p, r) \<in> set (qw_bound w') \<and> b = bound key r"
    if "after_claim f user key r (qw_table w) = Inr b" for f b
  proof -
    from that obtain y where "find_quote (tq_id r) user (qw_table w) = Some y" "confirmed_for key y" "b = bound key r"
      by (auto simp: after_claim_def split: option.splits if_splits)
    then show ?thesis
      by (intro exI [of _ "w\<lparr>qw_bound := (user, key, p, r) # qw_bound w\<rparr>"]) (simp add: r_into_rtranclp quote_step.Reread [OF assms(2)])
  qed
  show ?thesis
  proof (cases "be_update env")
    case Rpc_Ok
    show ?thesis
    proof (cases "claim_quote ck (tq_id r) user key (qw_table w)")
      case (Inr y)
      obtain f t' where y: "y = (f, t')" by (cases y)
      show ?thesis
      proof (cases f)
        case True
        with assms(1) Rpc_Ok Inr y have "x = Inr (bound key r)" "t = t'" by (simp_all add: confirm_quote_def)
        with made [of t'] Inr y True show ?thesis by auto
      next
        case False
        have m: "t' = qw_table w" using missed [of t'] Inr y False by simp
        from assms(1) Rpc_Ok Inr y False m have "x = after_claim (be_reread_fails env) user key r (qw_table w)" "t = qw_table w"
          by (auto simp: confirm_quote_def)
        with again [of "be_reread_fails env"] show ?thesis by (cases x) auto
      qed
    qed (use assms(1) Rpc_Ok in \<open>auto simp: confirm_quote_def\<close>)
  next
    case (Rpc_Late e)
    show ?thesis
    proof (cases "claim_quote ck (tq_id r) user key (qw_table w)")
      case (Inr y)
      obtain f t' where y: "y = (f, t')" by (cases y)
      with assms(1) Rpc_Late Inr have x: "isl x" "t = t'" by (auto simp: confirm_quote_def)
      show ?thesis
      proof (cases f)
        case True
        with late [of t'] Inr y x show ?thesis by (cases x) auto
      next
        case False
        with missed [of t'] Inr y x show ?thesis by (cases x) auto
      qed
    qed (use assms(1) Rpc_Late in \<open>auto simp: confirm_quote_def\<close>)
  qed (use assms(1) in \<open>auto simp: confirm_quote_def\<close>)
qed

lemma bind_is_steps:
  assumes "bindSettlementQuote qc ck env user p key (qw_table w) = (x, t)"
  shows "\<exists>w'. (quote_step qc)\<^sup>*\<^sup>* w w' \<and> qw_table w' = t \<and>
    (\<forall>b. x = Inr b \<longrightarrow> (\<exists>r. (user, js_trim key, p, r) \<in> set (qw_bound w') \<and> b = bound (js_trim key) r))"
proof (cases "\<exists>i r. extractQuoteId p = JStr i \<and> be_lookup env = None \<and> find_quote i user (qw_table w) = Some r")
  case True
  then obtain i r where h: "extractQuoteId p = JStr i" "be_lookup env = None" "find_quote i user (qw_table w) = Some r" by blast
  let ?k = "js_trim key"
  show ?thesis
  proof (cases "bind_check qc ck user p ?k r")
    case (Refused e)
    with assms h show ?thesis by (auto simp: bindSettlementQuote_def)
  next
    case Expired
    have "quote_step qc w (w\<lparr>qw_expiring := i # qw_expiring w\<rparr>)" by (rule quote_step.Check_Expired [OF h(3) Expired])
    moreover have "quote_step qc (w\<lparr>qw_expiring := i # qw_expiring w\<rparr>)
        (w\<lparr>qw_expiring := i # qw_expiring w, qw_table := mark_expired ck i (qw_table w)\<rparr>)"
      using quote_step.Mark_Expired [of i "w\<lparr>qw_expiring := i # qw_expiring w\<rparr>" qc ck] by simp
    ultimately show ?thesis using assms h Expired
      by (intro exI [of _ "w\<lparr>qw_expiring := i # qw_expiring w, qw_table := mark_expired ck i (qw_table w)\<rparr>"])
        (auto simp: bindSettlementQuote_def)
  next
    case Retry_Confirmed
    from quote_step.Check_Retry [OF h(3) this] assms h Retry_Confirmed show ?thesis
      by (intro exI [of _ "w\<lparr>qw_bound := (user, ?k, p, r) # qw_bound w\<rparr>"]) (auto simp: bindSettlementQuote_def)
  next
    case Claim
    let ?w = "w\<lparr>qw_claims := (user, ?k, p, r) # qw_claims w\<rparr>"
    from quote_step.Check_Claim [OF h(3) Claim] have s: "quote_step qc w ?w" .
    from assms h Claim have "confirm_quote ck env user ?k r (qw_table ?w) = (x, t)" by (simp add: bindSettlementQuote_def)
    from confirm_is_steps [OF this, of p qc] obtain w' where "(quote_step qc)\<^sup>*\<^sup>* ?w w'" "qw_table w' = t"
      "\<forall>b. x = Inr b \<longrightarrow> (user, ?k, p, r) \<in> set (qw_bound w') \<and> b = bound ?k r" by auto
    with converse_rtranclp_into_rtranclp [of "quote_step qc", OF s this(1)] show ?thesis by blast
  qed
next
  case False
  with assms have "isl x \<and> t = qw_table w"
    by (auto simp: bindSettlementQuote_def Let_def split: jsv.splits option.splits)
  then show ?thesis by (cases x) auto
qed

section \<open>Late results\<close>

lemma upd_find:
  assumes "find_quote i user s = Some r" "qt_rows t = upd m f (qt_rows s)" "m r" "\<And>x. tq_id (f x) = tq_id x \<and> tq_user (f x) = tq_user x"
  shows "find_quote i user t = Some (f r)"
proof -
  have "sel (\<lambda>x. tq_id x = i \<and> tq_user x = user) (upd m f xs) = upd m f (sel (\<lambda>x. tq_id x = i \<and> tq_user x = user) xs)" for xs
    using assms(4) by (induction xs) auto
  with assms(1,2,3) show ?thesis by (auto simp: find_quote_def dest!: single_SomeD)
qed

definition taken :: "clock \<Rightarrow> string \<Rightarrow> quote_row \<Rightarrow> quote_row" where
  "taken ck key r = r\<lparr>tq_status := ''CONFIRMED'', tq_key := Some key, tq_confirmed := Some (ck_now ck), tq_updated := ck_now ck\<rparr>"

lemma taken_simps [simp]: "tq_id (taken ck key r) = tq_id r" "tq_user (taken ck key r) = tq_user r" "tq_hash (taken ck key r) = tq_hash r"
  "tq_signature (taken ck key r) = tq_signature r" "tq_payload (taken ck key r) = tq_payload r" "tq_snapshot (taken ck key r) = tq_snapshot r"
  "tq_type (taken ck key r) = tq_type r" "tq_can_submit (taken ck key r) = tq_can_submit r" "tq_expires (taken ck key r) = tq_expires r"
  by (simp_all add: taken_def)

lemma taken_confirmed: "js_trim key = key \<Longrightarrow> confirmed_for key (taken ck key r)"
  by (simp add: confirmed_for_def taken_def status_texts text_or_empty_def)

lemma bound_taken [simp]: "bound key (taken ck key r) = bound key r"
  by (simp add: bound_def)

lemma recheck:
  assumes "bind_check qc ck u p key r = Claim" "js_trim key = key" "key \<noteq> []"
  shows "settleable r" and "bind_check qc ck u p key (taken ck' key r) = Retry_Confirmed"
proof -
  have k: "confirmed_for key (taken ck' key r)" by (rule taken_confirmed [OF assms(2)])
  have n: "\<not> (confirmed_for key r \<and> key \<noteq> [])"
    using assms(1) unfolding bind_check_def Let_def by (auto simp del: append.simps split: if_splits sum.splits)
  then show "settleable r" using assms(1) unfolding bind_check_def Let_def by (simp split: if_splits)
  let ?e = "case tq_snapshot r ''expiresAt'' of Some v \<Rightarrow> if truthy v then js_text v else ck_iso ck (tq_expires r) | None \<Rightarrow> ck_iso ck (tq_expires r)"
  let ?fx = "if js_upper (text_or_empty (tq_type r)) = ''FX_CONVERSION'' then verifyLockedFxSnapshot qc (tq_snapshot r) (tq_id r) u else Inr ()"
  have t: "\<not> (tq_expires r = 0 \<or> tq_expires r < ck_now ck)"
    using assms(1) unfolding bind_check_def Let_def by (simp only: split: if_splits) simp_all
  have c: "tq_can_submit r" using assms(1) t unfolding bind_check_def Let_def by (simp only: split: if_splits) simp_all
  have h: "\<not> (tq_hash r \<noteq> [] \<and> qc_hash qc (buildCanonicalIntent p (tq_snapshot r)) \<noteq> tq_hash r)"
    using assms(1) t c unfolding bind_check_def Let_def by (simp only: split: if_splits) simp_all
  have g: "\<not> (tq_signature r \<noteq> [] \<and> tq_signature r \<noteq> signQuote qc (tq_id r) (tq_hash r) ?e u)"
    using assms(1) t c h unfolding bind_check_def Let_def by (simp only: split: if_splits) simp_all
  have f: "?fx = Inr ()"
  proof (cases ?fx)
    case (Inl e)
    with assms(1) \<open>settleable r\<close> t c h g show ?thesis unfolding bind_check_def Let_def by (simp only: if_False simp_thms sum.case) simp
  qed simp
  have "bind_check qc ck u p key (taken ck' key r) = (case ?fx of Inl e \<Rightarrow> Refused e | Inr _ \<Rightarrow> Retry_Confirmed)"
    unfolding bind_check_def Let_def taken_simps using k t c h g assms(3) by (simp only: if_False if_True simp_thms)
  then show "bind_check qc ck u p key (taken ck' key r) = Retry_Confirmed" unfolding f by simp
qed

lemma confirm_first:
  assumes "confirm_quote ck env u key r s = (Inr b, s1)" "find_quote (tq_id r) u s = Some r" "\<not> confirmed_for key r"
  shows "b = bound key r \<and> find_quote (tq_id r) u s1 = Some (taken ck key r)"
proof -
  let ?i = "tq_id r"
  have e: "be_update env = Rpc_Ok"
    using assms(1) by (cases "be_update env"; cases "claim_quote ck ?i u key s") (simp_all add: confirm_quote_def split: prod.splits)
  obtain f t where ft: "claim_quote ck ?i u key s = Inr (f, t)"
    using assms(1) e by (cases "claim_quote ck ?i u key s") (auto simp add: confirm_quote_def)
  have q: "claim_quote ck ?i u key s = Inr (f, s1)" and b: "if f then b = bound key r else after_claim (be_reread_fails env) u key r s1 = Inr b"
    using assms(1) e ft by (cases f; simp add: confirm_quote_def)+
  have f: f
  proof (rule ccontr)
    assume "\<not> f"
    with q have "s1 = s" by (auto simp: claim_quote_def split: if_splits)
    with b \<open>\<not> f\<close> have "after_claim (be_reread_fails env) u key r s = Inr b" by simp
    with assms(2,3) show False by (cases "be_reread_fails env") (simp_all add: after_claim_def)
  qed
  with q have t: "qt_rows s1 = upd (claim_matches ?i u) (taken ck key) (qt_rows s)" and ex: "\<exists>x \<in> set (qt_rows s). claim_matches ?i u x"
    by (auto simp: claim_quote_def taken_def [abs_def] split: if_splits)
  from ex obtain x where x: "x \<in> set (qt_rows s)" "claim_matches ?i u x" by blast
  then have "x \<in> set (sel (\<lambda>y. tq_id y = ?i \<and> tq_user y = u) (qt_rows s))" by (simp add: set_sel claim_matches_def)
  with assms(2) have "x = r" by (auto simp: find_quote_def dest!: single_SomeD)
  with upd_find [OF assms(2) t] x(2) b f show ?thesis by simp
qed

lemma bind_result:
  assumes "bindSettlementQuote qc ck env u p key s = (Inr b, s1)" "js_trim key \<noteq> []"
  shows "bindSettlementQuote qc ck env u p key s1 = (Inr b, s1)" and "js_trim (bq_id b) = bq_id b" "bq_id b \<noteq> []"
    and "\<exists>x. find_quote (bq_id b) u s1 = Some x"
proof -
  let ?k = "js_trim key"
  have "\<exists>i r. extractQuoteId p = JStr i \<and> be_lookup env = None \<and> find_quote i u s = Some r"
    using assms(1) by (cases "extractQuoteId p"; cases "be_lookup env"; cases "case extractQuoteId p of JStr i \<Rightarrow> find_quote i u s | _ \<Rightarrow> None")
      (simp_all add: bindSettlementQuote_def)
  then obtain i r where h: "extractQuoteId p = JStr i" "be_lookup env = None" "find_quote i u s = Some r" by blast
  then have d: "bind_check qc ck u p ?k r = Retry_Confirmed \<and> b = bound ?k r \<and> s1 = s \<or>
      bind_check qc ck u p ?k r = Claim \<and> confirm_quote ck env u ?k r s = (Inr b, s1)"
    using assms(1) by (cases "bind_check qc ck u p ?k r") (simp_all add: bindSettlementQuote_def)
  from h(1) have i: "js_trim i = i" "i \<noteq> []" by (auto simp: extractQuoteId_def quoteNullable_def Let_def split: if_splits)
  from find_quote_mem [OF h(3)] have r: "tq_id r = i" by blast
  have "\<exists>x. find_quote i u s1 = Some x \<and> bind_check qc ck u p ?k x = Retry_Confirmed \<and> b = bound ?k x \<and> tq_id x = i"
    using d
  proof
    assume c: "bind_check qc ck u p ?k r = Claim \<and> confirm_quote ck env u ?k r s = (Inr b, s1)"
    then have "\<not> confirmed_for ?k r"
      using recheck(1) [OF conjunct1 [OF c] js_trim_idem assms(2)] by (auto simp: settleable_def confirmed_for_def)
    from confirm_first [OF conjunct2 [OF c], unfolded r, OF h(3) this] recheck(2) [OF conjunct1 [OF c] js_trim_idem assms(2)] r
    show ?thesis by auto
  qed (use h(3) r in auto)
  then obtain x where x: "find_quote i u s1 = Some x" "bind_check qc ck u p ?k x = Retry_Confirmed" "b = bound ?k x" "tq_id x = i" by blast
  then show "bindSettlementQuote qc ck env u p key s1 = (Inr b, s1)" using h by (simp add: bindSettlementQuote_def)
  show "js_trim (bq_id b) = bq_id b" "bq_id b \<noteq> []" "\<exists>x. find_quote (bq_id b) u s1 = Some x" using x i by (simp_all add: bound_def)
qed

lemma mark_result:
  assumes "re_update env = Rpc_Ok" "js_trim i = i" "i \<noteq> []"
  shows "qt_rows (snd (markQuoteSettlementResult ck env (Some i) u kvs s)) = qt_rows (put_result ck i u kvs s)"
  using assms by (auto simp: markQuoteSettlementResult_def Let_def text_or_empty_def put_fx_def put_result_def split: option.splits rpc_fault.splits)

text \<open>C22: The result of a repeated request can undo the record of a settlement: the same confirmation is
  accepted again while its quote is being settled, and when the first request settles and the
  second one then fails (as a duplicate does), the quote ends FAILED, without its transaction and
  its settlement time.\<close>

theorem late_failure_unsettles:
  assumes "bindSettlementQuote qc ck env u p key s = (Inr b, s1)" and "js_trim key \<noteq> []" and "re_update e1 = Rpc_Ok" and "re_update e2 = Rpc_Ok"
    and "result_status (map_of ok) = ''SETTLED''" and "result_status (map_of bad) = ''FAILED''" and "result_tx (map_of bad) = None"
    and "s2 = snd (markQuoteSettlementResult ck1 e1 (Some (bq_id b)) u ok s1)"
    and "s3 = snd (markQuoteSettlementResult ck2 e2 (Some (bq_id b)) u bad s2)"
  shows "bindSettlementQuote qc ck env u p key s1 = (Inr b, s1) \<and>
    (\<exists>x. find_quote (bq_id b) u s2 = Some x \<and> tq_status x = ''SETTLED'' \<and> tq_tx x = result_tx (map_of ok)) \<and>
    (\<exists>x. find_quote (bq_id b) u s3 = Some x \<and> tq_status x = ''FAILED'' \<and> tq_tx x = None \<and> tq_settled x = None)"
proof -
  note b = bind_result [OF assms(1,2)]
  obtain x where x: "find_quote (bq_id b) u s1 = Some x" using b(4) by blast
  note m = find_quote_mem [OF x]
  let ?f = "\<lambda>ck kvs r. r\<lparr>tq_status := result_status (map_of kvs), tq_tx := result_tx (map_of kvs), tq_result := kvs,
          tq_settled := (if settlement_status (map_of kvs) = None then None else Some (ck_now ck)), tq_updated := ck_now ck\<rparr>"
  have r2: "qt_rows s2 = upd (\<lambda>r. tq_id r = bq_id b \<and> tq_user r = u) (?f ck1 ok) (qt_rows s1)"
    using mark_result [OF assms(3) b(2,3), of ck1 u ok s1] by (simp add: assms(8) put_result_def Let_def)
  from upd_find [OF x r2] m have x2: "find_quote (bq_id b) u s2 = Some (?f ck1 ok x)" by simp
  have r3: "qt_rows s3 = upd (\<lambda>r. tq_id r = bq_id b \<and> tq_user r = u) (?f ck2 bad) (qt_rows s2)"
    using mark_result [OF assms(4) b(2,3), of ck2 u bad s2] by (simp add: assms(9) put_result_def Let_def)
  from upd_find [OF x2 r3] m have x3: "find_quote (bq_id b) u s3 = Some (?f ck2 bad (?f ck1 ok x))" by simp
  have "settlement_status (map_of bad) = None" using assms(6) by (auto simp: result_status_def settlement_status_def split: if_splits)
  with x2 x3 b(1) assms(5-7) show ?thesis by simp
qed

section \<open>A sample preview\<close>

definition sample_preview :: metadata where
  "sample_preview = [''quoteId'' \<mapsto> JStr ''q1'', ''amount'' \<mapsto> JNum 100, ''currency'' \<mapsto> JStr ''USD'', ''type'' \<mapsto> JStr ''INTERNAL_TRANSFER'',
     ''expiresAt'' \<mapsto> JStr ''2000'', ''canSubmit'' \<mapsto> JBool True]"

definition sample_request :: metadata where
  "sample_request = [''amount'' \<mapsto> JNum 100, ''currency'' \<mapsto> JStr ''usd'', ''recipientId'' \<mapsto> JStr ''u2'']"

text \<open>The confirmation names the quote and carries a note that is no part of the intent.\<close>

definition sample_confirmation :: metadata where
  "sample_confirmation = sample_request(''quoteId'' \<mapsto> JStr ''q1'', ''note'' \<mapsto> JStr ''rent'')"

definition sample_qc :: "((string \<times> jsv) list \<Rightarrow> string) \<Rightarrow> quote_crypto" where
  "sample_qc h = \<lparr>qc_hash = h, qc_sign = (\<lambda>k t. k @ t), qc_sign_list = (\<lambda>k vs. k), qc_secret = ''s''\<rparr>"

definition sample_quotes :: "((string \<times> jsv) list \<Rightarrow> string) \<Rightarrow> quotes" where
  "sample_quotes h = persistQuote (sample_qc h) sample_clock ''u1'' sample_request sample_preview 2000 \<lparr>qt_rows = [], qt_fx = []\<rparr>"

definition sample_quote_row :: "((string \<times> jsv) list \<Rightarrow> string) \<Rightarrow> quote_row" where
  "sample_quote_row h = hd (qt_rows (sample_quotes h))"

lemma sample_intents: "buildCanonicalIntent sample_confirmation (sample_preview(''quoteHash'' \<mapsto> h, ''quoteSignature'' \<mapsto> g)) =
   buildCanonicalIntent sample_request sample_preview"
  by (simp add: buildCanonicalIntent_def md_object_def sample_confirmation_def)

lemma sample_texts: "falsy_text (sample_preview ''quoteId'') = ''q1''" "falsy_text (Some (JStr ''2000'')) = ''2000''"
  "truthy_text (Some (falsy_text (sample_preview ''type''))) = Some ''INTERNAL_TRANSFER''" "sample_preview ''canSubmit'' = Some (JBool True)"
  "sample_preview ''expiresAt'' = Some (JStr ''2000'')" "extractQuoteId sample_confirmation = JStr ''q1''"
  by code_simp+

lemma sample_rows: "qt_rows (sample_quotes h) = [sample_quote_row h]" "tq_id (sample_quote_row h) = ''q1''" "tq_user (sample_quote_row h) = ''u1''"
  "tq_status (sample_quote_row h) = ''QUOTED''" "tq_key (sample_quote_row h) = None" "tq_can_submit (sample_quote_row h)" "tq_expires (sample_quote_row h) = 2000"
  "tq_type (sample_quote_row h) = Some ''INTERNAL_TRANSFER''" "tq_payload (sample_quote_row h) = sample_request"
  "tq_hash (sample_quote_row h) = h (buildCanonicalIntent sample_request sample_preview)"
  "tq_snapshot (sample_quote_row h) = sample_preview(''quoteHash'' \<mapsto> JStr (tq_hash (sample_quote_row h)), ''quoteSignature'' \<mapsto> JStr (tq_signature (sample_quote_row h)))"
  "tq_signature (sample_quote_row h) = signQuote (sample_qc h) ''q1'' (tq_hash (sample_quote_row h)) ''2000'' ''u1''"
  by (simp_all add: sample_quote_row_def sample_quotes_def persistQuote_def Let_def sample_texts sample_qc_def)

lemma sample_check: "bind_check (sample_qc h) sample_clock ''u1'' sample_confirmation ''k1'' (sample_quote_row h) = Claim"
proof -
  have t: "js_upper (text_or_empty (Some ''INTERNAL_TRANSFER'')) \<noteq> ''FX_CONVERSION''" by code_simp
  have s: "settleable (sample_quote_row h)" by (simp add: settleable_def sample_rows status_texts)
  have c: "\<not> confirmed_for ''k1'' (sample_quote_row h)" by (simp add: confirmed_for_def sample_rows status_texts)
  have n: "ck_now sample_clock = 1000" by (simp add: sample_clock_def)
  have e: "(tq_snapshot (sample_quote_row h)) ''expiresAt'' = Some (JStr ''2000'')" unfolding sample_rows(11) by (simp add: sample_texts)
  have i: "qc_hash (sample_qc h) (buildCanonicalIntent sample_confirmation (tq_snapshot (sample_quote_row h))) = tq_hash (sample_quote_row h)"
    unfolding sample_rows(11) sample_intents sample_rows(10) by (simp add: sample_qc_def)
  show ?thesis unfolding bind_check_def Let_def e i by (simp add: s c n sample_rows t)
qed

lemma sample_found: "find_quote ''q1'' ''u1'' (sample_quotes h) = Some (sample_quote_row h)"
  by (simp add: find_quote_def sample_rows)

lemma sample_quote_claim: "claim_quote sample_clock ''q1'' ''u1'' ''k1'' (sample_quotes h) = Inr (True, sample_quotes h\<lparr>qt_rows := [taken sample_clock ''k1'' (sample_quote_row h)]\<rparr>)"
  by (simp add: claim_quote_def claim_matches_def sample_rows upd_def taken_def)

definition quotes_before :: quote_world where
  "quotes_before = \<lparr>qw_table = \<lparr>qt_rows = [], qt_fx = []\<rparr>, qw_expiring = [], qw_claims = [], qw_bound = []\<rparr>"

text \<open>Two copies of one request are confirmed: one changes the row, the other finds it changed.\<close>

definition quotes_after :: "((string \<times> jsv) list \<Rightarrow> string) \<Rightarrow> quote_world" where
  "quotes_after h = (let b = (''u1'', ''k1'', sample_confirmation, sample_quote_row h) in
     \<lparr>qw_table = sample_quotes h\<lparr>qt_rows := [taken sample_clock ''k1'' (sample_quote_row h)]\<rparr>, qw_expiring = [], qw_claims = [b], qw_bound = [b, b]\<rparr>)"

lemma four_steps: "r a b \<Longrightarrow> r b c \<Longrightarrow> r c d \<Longrightarrow> r d e \<Longrightarrow> r\<^sup>*\<^sup>* a e"
  by (meson r_into_rtranclp rtranclp_trans)

lemma sample_quote_run: "(quote_step (sample_qc h))\<^sup>*\<^sup>* quotes_before (quotes_after h)"
proof -
  let ?b = "(''u1'', ''k1'', sample_confirmation, sample_quote_row h)"
  let ?t = "sample_quotes h\<lparr>qt_rows := [taken sample_clock ''k1'' (sample_quote_row h)]\<rparr>"
  let ?w1 = "quotes_before\<lparr>qw_table := sample_quotes h\<rparr>"
  let ?w2 = "?w1\<lparr>qw_claims := [?b]\<rparr>"
  let ?w3 = "?w2\<lparr>qw_table := ?t, qw_bound := [?b]\<rparr>"
  have k: "js_trim ''k1'' = ''k1''" by code_simp
  have s1: "quote_step (sample_qc h) quotes_before ?w1"
    using quote_step.Store [of sample_preview quotes_before "sample_qc h" sample_clock "''u1''" sample_request 2000]
    by (simp add: quotes_before_def sample_quotes_def)
  have s2: "quote_step (sample_qc h) ?w1 ?w2"
    using quote_step.Check_Claim [of "''q1''" "''u1''" ?w1 "sample_quote_row h" "sample_qc h" sample_clock sample_confirmation "''k1''"]
    by (simp add: sample_found sample_check k quotes_before_def)
  have s3: "quote_step (sample_qc h) ?w2 ?w3"
    using quote_step.Confirm [of "''u1''" "''k1''" sample_confirmation "sample_quote_row h" ?w2 sample_clock ?t "sample_qc h"]
    by (simp add: sample_quote_claim sample_rows quotes_before_def)
  have s4: "quote_step (sample_qc h) ?w3 (?w3\<lparr>qw_bound := [?b, ?b]\<rparr>)"
    using quote_step.Reread [of "''u1''" "''k1''" sample_confirmation "sample_quote_row h" ?w3 "taken sample_clock ''k1'' (sample_quote_row h)" "sample_qc h"]
      taken_confirmed [OF k, of sample_clock "sample_quote_row h"]
    by (simp add: sample_rows find_quote_def)
  have e: "?w3\<lparr>qw_bound := [?b, ?b]\<rparr> = quotes_after h" by (simp add: quotes_before_def quotes_after_def Let_def)
  show ?thesis by (rule four_steps [of "quote_step (sample_qc h)", OF s1 s2 s3 s4 [unfolded e]])
qed

lemma quotes_before_start: "quotes_start quotes_before"
  by (simp add: quotes_start_def quotes_before_def)

lemma quote_bound_to_one_key_witness:
  "length (qw_bound (quotes_after (\<lambda>i. ''h''))) = 2 \<and>
    fst (snd (qw_bound (quotes_after (\<lambda>i. ''h'')) ! 0)) = fst (snd (qw_bound (quotes_after (\<lambda>i. ''h'')) ! 1))"
  using quote_bound_to_one_key [OF sample_quote_run quotes_before_start,
      of "''u1''" "''k1''" sample_confirmation "sample_quote_row (\<lambda>i. ''h'')" "\<lambda>i. ''h''" "''u1''" "''k1''" sample_confirmation
        "sample_quote_row (\<lambda>i. ''h'')"]
  by (simp add: quotes_after_def Let_def)

text \<open>A hash without collisions.\<close>

instance char :: countable
  by (rule countable_classI [of "of_char :: char \<Rightarrow> nat"]) simp

instance jsv :: countable
  by countable_datatype

definition unary_hash :: "(string \<times> jsv) list \<Rightarrow> string" where
  "unary_hash i = replicate (Suc (to_nat i)) (CHR ''h'')"

lemma unary_hash_inj: "inj unary_hash"
proof (rule injI)
  fix x y assume "unary_hash x = unary_hash y"
  then have "length (unary_hash x) = length (unary_hash y)" by simp
  then show "x = y" by (simp add: unary_hash_def)
qed

lemma bound_intent_is_previewed_witness:
  "buildCanonicalIntent sample_confirmation (tq_snapshot (sample_quote_row unary_hash)) = buildCanonicalIntent sample_request (tq_snapshot (sample_quote_row unary_hash))"
  using bound_intent_is_previewed [OF sample_quote_run [of unary_hash] quotes_before_start,
      of "''u1''" "''k1''" sample_confirmation "sample_quote_row unary_hash"] unary_hash_inj
  by (simp add: quotes_after_def Let_def sample_qc_def sample_rows(9) unary_hash_def [abs_def])

text \<open>The first settlement succeeds, the repeated request is refused as a duplicate.\<close>

definition sample_ok :: "(string \<times> jsv) list" where
  "sample_ok = [(''success'', JBool True), (''transaction'', JObj [(''internalId'', JStr ''t1''), (''status'', JStr ''completed'')])]"

definition sample_bad :: "(string \<times> jsv) list" where
  "sample_bad = [(''success'', JBool False), (''error'', JStr ''IDEMPOTENCY_VIOLATION'')]"

definition sample_bind :: bind_env where
  "sample_bind = \<lparr>be_lookup = None, be_update = Rpc_Ok, be_reread_fails = False\<rparr>"

definition sample_mark :: result_env where
  "sample_mark = \<lparr>re_update = Rpc_Ok, re_read = None, re_fx = Rpc_Ok\<rparr>"

lemma sample_bound: "bindSettlementQuote (sample_qc h) sample_clock sample_bind ''u1'' sample_confirmation ''k1'' (sample_quotes h) =
   (Inr (bound ''k1'' (sample_quote_row h)), sample_quotes h\<lparr>qt_rows := [taken sample_clock ''k1'' (sample_quote_row h)]\<rparr>)"
proof -
  have "js_trim ''k1'' = ''k1''" by code_simp
  then show ?thesis
    by (simp add: bindSettlementQuote_def sample_texts sample_bind_def sample_found sample_check confirm_quote_def sample_rows sample_quote_claim Let_def)
qed

lemma late_failure_unsettles_witness:
  "\<exists>s1 s2 s3 b. bindSettlementQuote (sample_qc (\<lambda>i. ''h'')) sample_clock sample_bind ''u1'' sample_confirmation ''k1'' s1 = (Inr b, s1) \<and>
    (\<exists>x. find_quote (bq_id b) ''u1'' s2 = Some x \<and> tq_status x = ''SETTLED'' \<and> tq_tx x = Some ''t1'') \<and>
    s3 = snd (markQuoteSettlementResult sample_clock sample_mark (Some (bq_id b)) ''u1'' sample_bad s2) \<and>
    (\<exists>x. find_quote (bq_id b) ''u1'' s3 = Some x \<and> tq_status x = ''FAILED'' \<and> tq_tx x = None \<and> tq_settled x = None)"
proof -
  have r: "result_status (map_of sample_ok) = ''SETTLED''" "result_status (map_of sample_bad) = ''FAILED''"
    "result_tx (map_of sample_bad) = None" "result_tx (map_of sample_ok) = Some ''t1''" "js_trim ''k1'' \<noteq> []"
    by code_simp+
  have m: "re_update sample_mark = Rpc_Ok" by (simp add: sample_mark_def)
  from late_failure_unsettles [OF sample_bound [of "\<lambda>i. ''h''"] r(5) m m r(1-3) refl refl, of sample_clock sample_clock] show ?thesis
    unfolding r(4) by blast
qed

end
