(* ===== verification/Quote_Table.thy ===== *)
theory Quote_Table
  imports Quote_Properties
begin

text \<open>
  The table of quotes stays well formed: every run of the quote operations keeps the constraints that
  \<open>database/main.sql\<close> declares for \<open>transaction_quotes\<close> and what the columns mean to each other.
\<close>

text \<open>\<open>transaction_quotes_status_check\<close> and \<open>idx_transaction_quotes_idempotency\<close>.\<close>

definition quote_status_check :: "quote_row \<Rightarrow> bool" where
  "quote_status_check r \<longleftrightarrow> tq_status r \<in> {''QUOTED'', ''READY'', ''BLOCKED'', ''CONFIRMED'', ''SETTLING'', ''SETTLED'', ''FAILED'', ''EXPIRED'', ''CANCELLED''}"

definition quote_keys_unique :: "quote_row list \<Rightarrow> bool" where
  "quote_keys_unique rs \<longleftrightarrow> (\<forall>x \<in> set rs. \<forall>y \<in> set rs. tq_user x = tq_user y \<and> tq_key x = tq_key y \<and> tq_key x \<noteq> None \<longrightarrow> tq_id x = tq_id y)"

text \<open>A key is there exactly with its confirmation time, only for a quote that may be submitted, and every
  status from \<open>CONFIRMED\<close> on has one; a settlement time needs one.\<close>

definition row_typed :: "quote_row \<Rightarrow> bool" where
  "row_typed r \<longleftrightarrow> quote_status_check r \<and> (tq_can_submit r \<or> tq_status r \<in> {''BLOCKED'', ''EXPIRED''}) \<and>
     (tq_key r = None \<longleftrightarrow> tq_confirmed r = None) \<and> (tq_key r \<noteq> None \<longrightarrow> tq_can_submit r) \<and>
     (tq_status r \<in> {''CONFIRMED'', ''SETTLING'', ''SETTLED'', ''FAILED''} \<longrightarrow> tq_key r \<noteq> None) \<and> (tq_settled r \<noteq> None \<longrightarrow> tq_key r \<noteq> None)"

definition table_typed :: "quotes \<Rightarrow> bool" where
  "table_typed s \<longleftrightarrow> list_all row_typed (qt_rows s) \<and> quote_keys_unique (qt_rows s)"

lemma keys_unique_map:
  assumes "quote_keys_unique rs" "\<And>x. x \<in> set rs \<Longrightarrow> tq_user (g x) = tq_user x \<and> tq_id (g x) = tq_id x \<and> tq_key (g x) = tq_key x"
  shows "quote_keys_unique (map g rs)"
  using assms by (auto simp: quote_keys_unique_def)

lemma keys_unique_snoc: "quote_keys_unique rs \<Longrightarrow> tq_key y = None \<Longrightarrow> quote_keys_unique (rs @ [y])"
  unfolding quote_keys_unique_def by (metis in_set_conv_decomp_first set_ConsD set_append Un_iff rotate1.simps(2) set_rotate1)

lemma table_typed_map:
  assumes "table_typed s" "qt_rows t = upd m f (qt_rows s)"
    and "\<And>x. x \<in> set (qt_rows s) \<Longrightarrow> m x \<Longrightarrow> row_typed (f x) \<and> tq_user (f x) = tq_user x \<and> tq_id (f x) = tq_id x \<and> tq_key (f x) = tq_key x"
  shows "table_typed t"
proof -
  have "quote_keys_unique (map (\<lambda>x. if m x then f x else x) (qt_rows s))"
    by (rule keys_unique_map) (use assms in \<open>auto simp: table_typed_def\<close>)
  with assms show ?thesis by (auto simp: table_typed_def list_all_iff upd_def)
qed

lemma claim_typed:
  assumes "table_typed s" "claim_quote ck i user key s = Inr (True, t)" "distinct (map tq_id (qt_rows s))"
  shows "table_typed t"
proof -
  from assms(2) have t: "qt_rows t = map (\<lambda>r. if claim_matches i user r then taken ck key r else r) (qt_rows s)"
    and free: "\<And>x. x \<in> set (qt_rows s) \<Longrightarrow> tq_user x = user \<Longrightarrow> tq_key x = Some key \<Longrightarrow> tq_id x = i"
    by (auto simp: claim_quote_def taken_def upd_def split: if_splits)
  have r: "row_typed (taken ck key x)" if "row_typed x" "claim_matches i user x" for x
    using that by (auto simp: row_typed_def quote_status_check_def claim_matches_def taken_def)
  have k: "tq_id x = i \<and> tq_user x = user \<and> tq_key (taken ck key x) = Some key" if "claim_matches i user x" for x
    using that by (simp add: claim_matches_def taken_def)
  have "quote_keys_unique (qt_rows t)"
    unfolding quote_keys_unique_def
  proof (intro ballI impI)
    fix x y
    assume x: "x \<in> set (qt_rows t)" and y: "y \<in> set (qt_rows t)" and e: "tq_user x = tq_user y \<and> tq_key x = tq_key y \<and> tq_key x \<noteq> None"
    let ?g = "\<lambda>r. if claim_matches i user r then taken ck key r else r"
    from x y t obtain x0 y0 where x0: "x0 \<in> set (qt_rows s)" "x = ?g x0" and y0: "y0 \<in> set (qt_rows s)" "y = ?g y0" by auto
    show "tq_id x = tq_id y"
    proof (cases "claim_matches i user x0"; cases "claim_matches i user y0")
      assume "claim_matches i user x0" "\<not> claim_matches i user y0"
      with e x0 y0 k [of x0] free [of y0] show ?thesis by auto
    next
      assume "\<not> claim_matches i user x0" "claim_matches i user y0"
      with e x0 y0 k [of y0] free [of x0] show ?thesis by auto
    qed (use e x0 y0 k assms(1) in \<open>auto simp: table_typed_def quote_keys_unique_def\<close>)
  qed
  moreover have "list_all row_typed (qt_rows t)" using assms(1) r by (auto simp: t table_typed_def list_all_iff)
  ultimately show ?thesis by (simp add: table_typed_def)
qed

lemma quote_step_typed:
  assumes "quote_step qc w w'" "quotes_ok qc w" "table_typed (qw_table w)"
  shows "table_typed (qw_table w')"
  using assms
proof (induction rule: quote_step.induct)
  case (Store q w ck user p expires)
  let ?c = "q ''canSubmit'' = Some (JBool True)"
  have "\<exists>y. qt_rows (persistQuote qc ck user p q expires (qw_table w)) = qt_rows (qw_table w) @ [y] \<and> tq_can_submit y = ?c \<and>
      tq_status y = (if ?c then ''QUOTED'' else ''BLOCKED'') \<and> tq_key y = None \<and> tq_confirmed y = None \<and> tq_settled y = None"
    by (simp add: persistQuote_def Let_def)
  then obtain y where y: "qt_rows (persistQuote qc ck user p q expires (qw_table w)) = qt_rows (qw_table w) @ [y]" "tq_key y = None"
    and c: "tq_can_submit y = ?c" "tq_status y = (if ?c then ''QUOTED'' else ''BLOCKED'')" "tq_confirmed y = None" "tq_settled y = None" by blast
  have "row_typed y" using c y(2) by (cases ?c) (simp_all add: row_typed_def quote_status_check_def)
  note y = y this
  have "quote_keys_unique (qt_rows (qw_table w) @ [y])" using Store(3) y(2) keys_unique_snoc by (simp add: table_typed_def)
  with y Store(3) show ?case by (simp add: table_typed_def)
next
  case (Mark_Expired i w ck)
  show ?case unfolding mark_expired_def
    by (rule table_typed_map [OF Mark_Expired(3), of _ "\<lambda>r. tq_id r = i" "\<lambda>r. r\<lparr>tq_status := ''EXPIRED'', tq_updated := ck_now ck\<rparr>"])
      (use Mark_Expired(3) in \<open>auto simp: table_typed_def list_all_iff row_typed_def quote_status_check_def\<close>)
next
  case (Confirm user key p r w ck t)
  then show ?case using claim_typed [of "qw_table w" ck "tq_id r" user key t] by (simp add: quotes_ok_def)
next
  case (Confirm_Unanswered user key p r w ck t)
  then show ?case using claim_typed [of "qw_table w" ck "tq_id r" user key t] by (simp add: quotes_ok_def)
next
  case (Result user key p r w ck res)
  from Result(1,2) obtain x0 where x0: "x0 \<in> set (qt_rows (qw_table w))" "asked qc (user, key, p, r) x0" "held_for (user, key, p, r) x0"
    by (auto simp: quotes_ok_def)
  have m: "y = x0" if "y \<in> set (qt_rows (qw_table w))" "tq_id y = tq_id r" for y
    using that x0 by (intro same_id [OF Result(2)]) (simp_all add: asked_def same_quote_def)
  have t: "row_typed x0" using Result(3) x0(1) by (simp add: table_typed_def list_all_iff)
  have f: "row_typed (x0\<lparr>tq_status := result_status (map_of res), tq_tx := result_tx (map_of res), tq_result := res,
      tq_settled := (if settlement_status (map_of res) = None then None else Some (ck_now ck)), tq_updated := ck_now ck\<rparr>)"
    using result_status_cases [of "map_of res"] t x0(3)
    by (auto simp: row_typed_def quote_status_check_def held_for_def)
  let ?f = "\<lambda>x. x\<lparr>tq_status := result_status (map_of res), tq_tx := result_tx (map_of res), tq_result := res,
      tq_settled := (if settlement_status (map_of res) = None then None else Some (ck_now ck)), tq_updated := ck_now ck\<rparr>"
  show ?case
    by (rule table_typed_map [OF Result(3), of _ "\<lambda>x. tq_id x = tq_id r \<and> tq_user x = user" ?f])
      (use f m in \<open>auto simp: put_result_def Let_def\<close>)
qed simp_all

text \<open>C21: The table of quotes stays well formed: every run of previews, confirmations, expiries and settlement
  results keeps the declared status check and the uniqueness of a user's idempotency keys; a key is there
  exactly with its confirmation time, only on a quote that may be submitted, and on every confirmed,
  settling, settled or failed one.\<close>

theorem quote_table_typed:
  assumes "(quote_step qc)\<^sup>*\<^sup>* w w'" and "quotes_start w"
  shows "table_typed (qw_table w')"
proof -
  have "quotes_ok qc w' \<and> table_typed (qw_table w')"
    using assms(1)
  proof (induction rule: rtranclp_induct)
    case base
    show ?case using assms(2) start_ok by (simp add: quotes_start_def table_typed_def quote_keys_unique_def)
  next
    case (step y z)
    then show ?case using quotes_step quote_step_typed by blast
  qed
  then show ?thesis ..
qed

lemma quote_table_typed_witness:
  "table_typed (sample_quotes (\<lambda>i. ''h'')\<lparr>qt_rows := [taken sample_clock ''k1'' (sample_quote_row (\<lambda>i. ''h''))]\<rparr>)"
  using quote_table_typed [OF sample_quote_run quotes_before_start, of "\<lambda>i. ''h''"] by (simp add: quotes_after_def Let_def)

end
