(* ===== verification/Request_Gate.thy ===== *)
theory Request_Gate
  imports Fee_Classifier
begin

text \<open>
  The gate for repeated requests, \<open>src/middleware/security/idempotency.ts\<close>: the fingerprint of a request,
  the shared cache (Redis) and the local one, and the middleware as the steps between its awaits, for any
  number of requests at a time. It is installed before authentication and the routes (\<open>setup.ts\<close>), so a
  request is what has arrived, whoever sent it.

  The digest of the body is a parameter. The handlers behind the gate are the environment: a handler
  answers with some status and body, or never answers.
\<close>

section \<open>The fingerprint\<close>

text \<open>\<open>JSON.stringify\<close> of a text: control characters and the two quoted ones are escaped.\<close>

definition hex_digit :: "nat \<Rightarrow> char" where
  "hex_digit n = (if n < 10 then char_of (n + 48) else char_of (n + 87))"

definition json_char :: "char \<Rightarrow> string" where
  "json_char c = (let n = (of_char c :: nat) in
     if n = 34 then [CHR 0x5C, CHR 0x22] else if n = 92 then [CHR 0x5C, CHR 0x5C]
     else if n = 8 then [CHR 0x5C, CHR ''b''] else if n = 9 then [CHR 0x5C, CHR ''t''] else if n = 10 then [CHR 0x5C, CHR ''n'']
     else if n = 12 then [CHR 0x5C, CHR ''f''] else if n = 13 then [CHR 0x5C, CHR ''r'']
     else if n < 32 then CHR 0x5C # ''u00'' @ [hex_digit (n div 16), hex_digit (n mod 16)] else [c])"

definition json_text :: "string \<Rightarrow> string" where
  "json_text s = CHR 0x22 # concat (map json_char s) @ [CHR 0x22]"

fun joined :: "string list \<Rightarrow> string" where
  "joined [] = []"
| "joined [s] = s"
| "joined (s # ss) = s @ '','' @ joined ss"

text \<open>The fields of an object are taken in the order of their names.\<close>

fun stableStringify :: "jsv \<Rightarrow> string" and stable_items :: "jsv list \<Rightarrow> string list" and stable_fields :: "(string \<times> jsv) list \<Rightarrow> (string \<times> string) list" where
  "stableStringify JNull = []"
| "stableStringify (JBool b) = (if b then ''true'' else ''false'')"
| "stableStringify (JNum x) = num_text x"
| "stableStringify (JStr s) = json_text s"
| "stableStringify (JArr vs) = ''['' @ joined (stable_items vs) @ '']''"
| "stableStringify (JObj kvs) = ''{'' @ joined (map snd (sort_key fst (stable_fields kvs))) @ ''}''"
| "stable_items [] = []"
| "stable_items (v # vs) = stableStringify v # stable_items vs"
| "stable_fields [] = []"
| "stable_fields ((k, v) # kvs) = (k, json_text k @ '':'' @ stableStringify v) # stable_fields kvs"

record http_request =
  hr_method :: string
  hr_base :: string
  hr_path :: string
  hr_url :: string
  hr_headers :: "string \<Rightarrow> string option"
  hr_body :: "jsv option"

definition body_field :: "http_request \<Rightarrow> string \<Rightarrow> jsv option" where
  "body_field r k = (case hr_body r of Some (JObj kvs) \<Rightarrow> map_of kvs k | _ \<Rightarrow> None)"

definition resolveIdempotencyHeader :: "http_request \<Rightarrow> jsv option" where
  "resolveIdempotencyHeader r = first_truthy [map_option JStr (hr_headers r ''idempotency-key''), map_option JStr (hr_headers r ''x-idempotency-key''),
     body_field r ''idempotencyKey'', body_field r ''idempotency_key'']"

definition fingerprint_body :: "http_request \<Rightarrow> string" where
  "fingerprint_body r = stableStringify (case hr_body r of Some b \<Rightarrow> if truthy b then b else JObj [] | None \<Rightarrow> JObj [])"

definition fingerprint_path :: "http_request \<Rightarrow> string" where
  "fingerprint_path r = (if hr_base r \<noteq> [] then hr_base r @ hr_path r else takeWhile (\<lambda>c. c \<noteq> CHR ''?'') (hr_url r))"

definition buildRequestFingerprint :: "(string \<Rightarrow> string) \<Rightarrow> http_request \<Rightarrow> string \<Rightarrow> string" where
  "buildRequestFingerprint digest r key = js_upper (hr_method r) @ '':'' @ fingerprint_path r @ '':'' @ key @ '':'' @ digest (fingerprint_body r)"

datatype key_check = Key_Required | Key_Given

definition requireIdempotencyKey :: "http_request \<Rightarrow> key_check" where
  "requireIdempotencyKey r = (case resolveIdempotencyHeader r of None \<Rightarrow> Key_Required
     | Some v \<Rightarrow> if truthy v \<and> js_trim (js_text v) \<noteq> [] then Key_Given else Key_Required)"

text \<open>The key a request is filed under; none when it names no key.\<close>

definition request_key :: "(string \<Rightarrow> string) \<Rightarrow> http_request \<Rightarrow> string option" where
  "request_key digest r = (case resolveIdempotencyHeader r of None \<Rightarrow> None
     | Some v \<Rightarrow> if truthy v then Some (buildRequestFingerprint digest r (js_trim (js_text v))) else None)"

section \<open>The caches\<close>

datatype cached = Processing | Completed int jsv

record gate_config =
  gc_redis :: bool
  gc_local :: bool

record gate_cache =
  ca_redis :: "string \<Rightarrow> cached option"
  ca_local :: "(string \<times> cached) list"

text \<open>A command to Redis is answered, is lost, or is carried out and its answer lost.\<close>

datatype redis_fault = Redis_Ok | Redis_Lost | Redis_Late

definition local_set :: "string \<Rightarrow> cached \<Rightarrow> (string \<times> cached) list \<Rightarrow> (string \<times> cached) list" where
  "local_set k v xs = (if k \<in> fst ` set xs then map (\<lambda>(a, b). if a = k then (a, v) else (a, b)) xs else xs @ [(k, v)])"

definition readIdempotencyCache :: "gate_config \<Rightarrow> redis_fault \<Rightarrow> string \<Rightarrow> gate_cache \<Rightarrow> cached option" where
  "readIdempotencyCache g f k c =
     (case (if gc_redis g \<and> f = Redis_Ok then ca_redis c k else None) of
        Some v \<Rightarrow> Some v
      | None \<Rightarrow> if gc_local g then map_of (ca_local c) k else None)"

definition reserveIdempotencyKey :: "gate_config \<Rightarrow> redis_fault \<Rightarrow> string \<Rightarrow> gate_cache \<Rightarrow> bool \<times> gate_cache" where
  "reserveIdempotencyKey g f k c =
     (let c1 = (if gc_redis g \<and> f \<noteq> Redis_Lost \<and> ca_redis c k = None then c\<lparr>ca_redis := (ca_redis c)(k \<mapsto> Processing)\<rparr> else c) in
      if gc_redis g \<and> f = Redis_Ok then (ca_redis c k = None, c1)
      else if \<not> gc_local g then (True, c1)
      else if k \<in> fst ` set (ca_local c) then (False, c1)
      else (True, c1\<lparr>ca_local := local_set k Processing (ca_local c)\<rparr>))"

definition writeIdempotencyCache :: "gate_config \<Rightarrow> redis_fault \<Rightarrow> string \<Rightarrow> cached \<Rightarrow> gate_cache \<Rightarrow> gate_cache" where
  "writeIdempotencyCache g f k v c =
     (let c1 = (if gc_redis g \<and> f \<noteq> Redis_Lost then c\<lparr>ca_redis := (ca_redis c)(k \<mapsto> v)\<rparr> else c); xs = local_set k v (ca_local c) in
      if gc_redis g \<and> f = Redis_Ok \<or> \<not> gc_local g then c1
      else c1\<lparr>ca_local := (if 1000 < length xs then tl xs else xs)\<rparr>)"

definition clearIdempotencyCache :: "gate_config \<Rightarrow> redis_fault \<Rightarrow> string \<Rightarrow> gate_cache \<Rightarrow> gate_cache" where
  "clearIdempotencyCache g f k c =
     (let c1 = (if gc_redis g \<and> f \<noteq> Redis_Lost then c\<lparr>ca_redis := (ca_redis c)(k := None)\<rparr> else c) in
      if gc_redis g \<and> f = Redis_Ok \<or> \<not> gc_local g then c1
      else c1\<lparr>ca_local := filter (\<lambda>x. fst x \<noteq> k) (ca_local c)\<rparr>)"

section \<open>The middleware\<close>

definition challenge_body :: "jsv \<Rightarrow> bool" where
  "challenge_body b = (case b of JObj kvs \<Rightarrow> map_of kvs ''error'' = Some (JStr ''SECURITY_CHALLENGE'') \<or> map_of kvs ''challengeRequired'' = Some (JBool True)
     | _ \<Rightarrow> False)"

definition in_progress :: jsv where
  "in_progress = JObj [(''success'', JBool False), (''error'', JStr ''IDEMPOTENT_REQUEST_IN_PROGRESS''),
     (''message'', JStr ''A request with this Idempotency-Key and payload is still processing.'')]"

text \<open>What the middleware does after reading the cache, and after the reservation.\<close>

datatype gate_answer = Answer int jsv | Go_On

definition after_read :: "cached option \<Rightarrow> gate_answer" where
  "after_read v = (case v of None \<Rightarrow> Go_On | Some Processing \<Rightarrow> Answer 409 in_progress | Some (Completed st b) \<Rightarrow> Answer st b)"

definition after_reserve :: "bool \<Rightarrow> gate_answer" where
  "after_reserve ok = (if ok then Go_On else Answer 409 in_progress)"

text \<open>The replaced \<open>res.json\<close>: the change of the cache it starts, not awaited.\<close>

definition cache_effect :: "int \<Rightarrow> jsv \<Rightarrow> cached option" where
  "cache_effect st b = (if challenge_body b then None else Some (Completed st b))"

definition run_effect :: "gate_config \<Rightarrow> redis_fault \<Rightarrow> string \<Rightarrow> cached option \<Rightarrow> gate_cache \<Rightarrow> gate_cache" where
  "run_effect g f k e c = (case e of None \<Rightarrow> clearIdempotencyCache g f k c | Some v \<Rightarrow> writeIdempotencyCache g f k v c)"

text \<open>
  One request served alone: the faults of its read, its reservation and its last command, and its
  handler, which is called at most once. The answer carries whether the handler was called.
\<close>

record gate_faults =
  gf_read :: redis_fault
  gf_reserve :: redis_fault
  gf_effect :: redis_fault

definition serve :: "(string \<Rightarrow> string) \<Rightarrow> gate_config \<Rightarrow> gate_faults \<Rightarrow> (http_request \<Rightarrow> int \<times> jsv) \<Rightarrow> http_request \<Rightarrow> gate_cache \<Rightarrow> (bool \<times> int \<times> jsv) \<times> gate_cache" where
  "serve digest g f handler r c =
     (case request_key digest r of
        None \<Rightarrow> ((True, handler r), c)
      | Some k \<Rightarrow>
          (case after_read (readIdempotencyCache g (gf_read f) k c) of
             Answer st b \<Rightarrow> ((False, st, b), c)
           | Go_On \<Rightarrow>
               (case reserveIdempotencyKey g (gf_reserve f) k c of (ok, c1) \<Rightarrow>
                  (case after_reserve ok of
                     Answer st b \<Rightarrow> ((False, st, b), c1)
                   | Go_On \<Rightarrow> (case handler r of (st, b) \<Rightarrow> ((True, st, b), run_effect g (gf_effect f) k (cache_effect st b) c1))))))"

section \<open>Interleaved requests\<close>

text \<open>
  The requests at each await, the commands that are under way after an answer, and what has
  happened: the handlers called and the answers given, with the request's key.
\<close>

record gate =
  gw_cache :: gate_cache
  gw_reading :: "(string \<times> http_request) list"
  gw_reserving :: "(string \<times> http_request) list"
  gw_running :: "(string \<times> http_request) list"
  gw_effects :: "(string \<times> cached option) list"
  gw_called :: "(string \<times> http_request) list"
  gw_answers :: "(string \<times> http_request \<times> int \<times> jsv) list"

text \<open>\<open>fs\<close> are the faults that Redis may show, \<open>ex\<close> whether an entry may pass its time to live.\<close>

inductive gate_step :: "(string \<Rightarrow> string) \<Rightarrow> gate_config \<Rightarrow> redis_fault set \<Rightarrow> bool \<Rightarrow> gate \<Rightarrow> gate \<Rightarrow> bool" for digest g fs ex where
  Arrive: "request_key digest r = Some k \<Longrightarrow> gate_step digest g fs ex w (w\<lparr>gw_reading := (k, r) # gw_reading w\<rparr>)"
| Read_Answered: "gw_reading w = xs @ (k, r) # ys \<Longrightarrow> f \<in> fs \<Longrightarrow> after_read (readIdempotencyCache g f k (gw_cache w)) = Answer st b \<Longrightarrow>
    gate_step digest g fs ex w (w\<lparr>gw_reading := xs @ ys, gw_answers := (k, r, st, b) # gw_answers w\<rparr>)"
| Read_Missed: "gw_reading w = xs @ (k, r) # ys \<Longrightarrow> f \<in> fs \<Longrightarrow> after_read (readIdempotencyCache g f k (gw_cache w)) = Go_On \<Longrightarrow>
    gate_step digest g fs ex w (w\<lparr>gw_reading := xs @ ys, gw_reserving := (k, r) # gw_reserving w\<rparr>)"
| Refused: "gw_reserving w = xs @ (k, r) # ys \<Longrightarrow> f \<in> fs \<Longrightarrow> reserveIdempotencyKey g f k (gw_cache w) = (ok, c) \<Longrightarrow>
    after_reserve ok = Answer st b \<Longrightarrow>
    gate_step digest g fs ex w (w\<lparr>gw_cache := c, gw_reserving := xs @ ys, gw_answers := (k, r, st, b) # gw_answers w\<rparr>)"
| Called: "gw_reserving w = xs @ (k, r) # ys \<Longrightarrow> f \<in> fs \<Longrightarrow> reserveIdempotencyKey g f k (gw_cache w) = (ok, c) \<Longrightarrow> after_reserve ok = Go_On \<Longrightarrow>
    gate_step digest g fs ex w (w\<lparr>gw_cache := c, gw_reserving := xs @ ys, gw_running := (k, r) # gw_running w, gw_called := (k, r) # gw_called w\<rparr>)"
| Answered: "gw_running w = xs @ (k, r) # ys \<Longrightarrow>
    gate_step digest g fs ex w (w\<lparr>gw_running := xs @ ys, gw_effects := (k, cache_effect st b) # gw_effects w, gw_answers := (k, r, st, b) # gw_answers w\<rparr>)"
| Effect: "gw_effects w = xs @ (k, e) # ys \<Longrightarrow> f \<in> fs \<Longrightarrow>
    gate_step digest g fs ex w (w\<lparr>gw_cache := run_effect g f k e (gw_cache w), gw_effects := xs @ ys\<rparr>)"
| Abandoned: "gw_running w = xs @ (k, r) # ys \<Longrightarrow> gate_step digest g fs ex w (w\<lparr>gw_running := xs @ ys\<rparr>)"
| Expired: "ex \<Longrightarrow> gate_step digest g fs ex w (w\<lparr>gw_cache := (gw_cache w)\<lparr>ca_redis := (ca_redis (gw_cache w))(k := None)\<rparr>\<rparr>)"

definition gate_start :: "gate \<Rightarrow> bool" where
  "gate_start w \<longleftrightarrow> ca_redis (gw_cache w) = Map.empty \<and> gw_reading w = [] \<and> gw_reserving w = [] \<and> gw_running w = [] \<and> gw_effects w = [] \<and>
     gw_called w = [] \<and> gw_answers w = []"

end
