(* ===== verification/Gate_Properties.thy ===== *)
theory Gate_Properties
  imports Request_Gate "HOL-Library.Multiset"
begin

text \<open>
  What the gate for repeated requests guarantees, and what it does not: the handler of a key is called once
  in every interleaving, unless it answers with a challenge; the stored answer goes to whoever sends the
  same request; a request that is never answered blocks its key.
\<close>

section \<open>One call\<close>

definition calls :: "string \<Rightarrow> gate \<Rightarrow> nat" where
  "calls k w = length (filter (\<lambda>x. fst x = k) (gw_called w))"

definition challenges :: "string \<Rightarrow> gate \<Rightarrow> nat" where
  "challenges k w = length (filter (\<lambda>x. fst x = k \<and> challenge_body (snd (snd (snd x)))) (gw_answers w))"

definition clears :: "string \<Rightarrow> gate \<Rightarrow> nat" where
  "clears k w = length (filter (\<lambda>x. x = (k, None)) (gw_effects w))"

definition once :: "string \<Rightarrow> gate \<Rightarrow> bool" where
  "once k w \<longleftrightarrow> calls k w + clears k w \<le> challenges k w + (if ca_redis (gw_cache w) k = None then 0 else 1)"

lemmas counts = calls_def challenges_def clears_def

lemma redis_reserve:
  assumes "gc_redis g" "reserveIdempotencyKey g Redis_Ok k c = (ok, c')"
  shows "ok \<longleftrightarrow> ca_redis c k = None" "ca_redis c' = (ca_redis c)(k := Some (case ca_redis c k of None \<Rightarrow> Processing | Some v \<Rightarrow> v))"
  using assms by (auto simp: reserveIdempotencyKey_def Let_def fun_eq_iff split: if_splits option.splits)

lemma redis_effect:
  assumes "gc_redis g"
  shows "ca_redis (run_effect g Redis_Ok k e c) = (ca_redis c)(k := e)"
  using assms by (auto simp: run_effect_def clearIdempotencyCache_def writeIdempotencyCache_def Let_def split: option.splits)

lemma after_reserve_iff: "after_reserve ok = Go_On \<longleftrightarrow> ok" "after_reserve ok = Answer st b \<longleftrightarrow> \<not> ok \<and> st = 409 \<and> b = in_progress"
  by (auto simp: after_reserve_def)

lemma once_step:
  assumes "gate_step digest g {Redis_Ok} False w w'" "gc_redis g" "once k w"
  shows "once k w'"
  using assms
proof (induction rule: gate_step.induct)
  case (Refused w xs j r ys f ok c st b)
  then show ?case using redis_reserve [of g j "gw_cache w" ok c] by (auto simp: once_def counts after_reserve_iff split: if_splits)
next
  case (Called w xs j r ys f ok c)
  then show ?case using redis_reserve [of g j "gw_cache w" ok c] by (auto simp: once_def counts after_reserve_iff split: if_splits)
next
  case (Answered w xs j r ys st b)
  then show ?case by (auto simp: once_def counts cache_effect_def)
next
  case (Effect w xs j e ys f)
  then show ?case using redis_effect [of g j e "gw_cache w"] by (cases e) (auto simp: once_def counts split: if_splits)
qed (auto simp: once_def counts)


section \<open>Whose answer\<close>

text \<open>The stored answer is given to whoever repeats the request: after a request was carried out and answered,
  the same method, path, body and idempotency key bring that status and body back without a call of any
  handler, whatever credentials (or none) the repeating request carries.\<close>

theorem replay_needs_no_identity:
  assumes "serve digest g \<lparr>gf_read = Redis_Ok, gf_reserve = Redis_Ok, gf_effect = Redis_Ok\<rparr> handler r c = ((True, st, b), c1)"
    and "gc_redis g" and "request_key digest r \<noteq> None" and "\<not> challenge_body b"
    and "headers ''idempotency-key'' = hr_headers r ''idempotency-key''" and "headers ''x-idempotency-key'' = hr_headers r ''x-idempotency-key''"
  shows "serve digest g \<lparr>gf_read = Redis_Ok, gf_reserve = f1, gf_effect = f2\<rparr> other_handler (r\<lparr>hr_headers := headers\<rparr>) c1 = ((False, st, b), c1)"
proof -
  obtain k where k: "request_key digest r = Some k" using assms(3) by blast
  have "resolveIdempotencyHeader (r\<lparr>hr_headers := headers\<rparr>) = resolveIdempotencyHeader r"
    by (simp add: resolveIdempotencyHeader_def body_field_def assms(5,6))
  moreover have "buildRequestFingerprint digest (r\<lparr>hr_headers := headers\<rparr>) = buildRequestFingerprint digest r"
    by (simp add: fun_eq_iff buildRequestFingerprint_def fingerprint_path_def fingerprint_body_def)
  ultimately have k': "request_key digest (r\<lparr>hr_headers := headers\<rparr>) = Some k" using k by (simp only: request_key_def)
  obtain c2 where "handler r = (st, b)" "c1 = run_effect g Redis_Ok k (cache_effect st b) c2"
    using assms(1) k by (auto simp: serve_def split: gate_answer.splits prod.splits)
  then have "ca_redis c1 k = Some (Completed st b)" using assms(2,4) by (simp add: redis_effect cache_effect_def)
  then show ?thesis using k' assms(2) by (simp add: serve_def readIdempotencyCache_def after_read_def)
qed

section \<open>Requests without an answer\<close>

definition blocked :: "string \<Rightarrow> gate \<Rightarrow> bool" where
  "blocked k w \<longleftrightarrow> ca_redis (gw_cache w) k = Some Processing \<and> k \<notin> fst ` set (gw_running w) \<and> k \<notin> fst ` set (gw_effects w)"

definition refusals :: "string \<Rightarrow> gate \<Rightarrow> gate \<Rightarrow> bool" where
  "refusals k w w' \<longleftrightarrow> filter (\<lambda>x. fst x = k) (gw_called w') = filter (\<lambda>x. fst x = k) (gw_called w) \<and>
     (\<exists>xs. filter (\<lambda>x. fst x = k) (gw_answers w') = xs @ filter (\<lambda>x. fst x = k) (gw_answers w) \<and>
       list_all (\<lambda>x. snd (snd x) = (409, in_progress)) xs)"

lemma refusals_refl: "refusals k w w"
  by (simp add: refusals_def)

lemma refusals_trans: "refusals k u v \<Longrightarrow> refusals k v w \<Longrightarrow> refusals k u w"
  by (force simp: refusals_def)

lemma refusalsI:
  assumes "gw_called w' = gw_called w" "gw_answers w' = a @ gw_answers w" "\<And>x. x \<in> set a \<Longrightarrow> fst x = k \<Longrightarrow> snd (snd x) = (409, in_progress)"
  shows "refusals k w w'"
  unfolding refusals_def by (rule conjI, simp add: assms, rule exI [of _ "filter (\<lambda>x. fst x = k) a"]) (auto simp: assms list_all_iff)

lemma blocked_step:
  assumes "gate_step digest g {Redis_Ok} False w w'" "gc_redis g" "blocked k w"
  shows "blocked k w' \<and> refusals k w w'"
  using assms
proof (induction rule: gate_step.induct)
  case (Read_Answered w xs j r ys f st b)
  have "refusals k w (w\<lparr>gw_reading := xs @ ys, gw_answers := (j, r, st, b) # gw_answers w\<rparr>)"
    by (rule refusalsI [of _ _ "[(j, r, st, b)]"]) (use Read_Answered in \<open>auto simp: blocked_def readIdempotencyCache_def after_read_def\<close>)
  then show ?case using Read_Answered by (simp add: blocked_def)
next
  case (Refused w xs j r ys f ok c st b)
  have "refusals k w (w\<lparr>gw_cache := c, gw_reserving := xs @ ys, gw_answers := (j, r, st, b) # gw_answers w\<rparr>)"
    by (rule refusalsI [of _ _ "[(j, r, st, b)]"]) (use Refused in \<open>auto simp: after_reserve_iff\<close>)
  then show ?case using Refused redis_reserve(2) [of g j "gw_cache w" ok c] by (auto simp: blocked_def)
next
  case (Called w xs j r ys f ok c)
  then have "ca_redis (gw_cache w) j = None" "j \<noteq> k" using redis_reserve [of g j "gw_cache w" ok c] by (auto simp: blocked_def after_reserve_iff)
  then show ?case using Called redis_reserve(2) [of g j "gw_cache w" ok c] by (auto simp: blocked_def refusals_def)
next
  case (Answered w xs j r ys st b)
  then have "j \<noteq> k" by (auto simp: blocked_def)
  then have "refusals k w (w\<lparr>gw_running := xs @ ys, gw_effects := (j, cache_effect st b) # gw_effects w, gw_answers := (j, r, st, b) # gw_answers w\<rparr>)"
    by (intro refusalsI [of _ _ "[(j, r, st, b)]"]) auto
  then show ?case using Answered \<open>j \<noteq> k\<close> by (auto simp: blocked_def)
next
  case (Effect w xs j e ys f)
  then have "j \<noteq> k" by (auto simp: blocked_def)
  then show ?case using Effect redis_effect [of g j e "gw_cache w"] by (auto simp: blocked_def refusals_def)
qed (auto simp: blocked_def refusals_def)

text \<open>A request that is never answered blocks its key: when its handler ends without res.json, every
  repetition of the request is refused with 409 and no handler is called for it, in every further
  interleaving, until the entry passes its time to live.\<close>

theorem unanswered_request_blocks:
  assumes "(gate_step digest g {Redis_Ok} False)\<^sup>*\<^sup>* w w'" and "gc_redis g"
    and "ca_redis (gw_cache w) k = Some Processing" and "k \<notin> fst ` set (gw_running w)" and "k \<notin> fst ` set (gw_effects w)"
  shows "filter (\<lambda>x. fst x = k) (gw_called w') = filter (\<lambda>x. fst x = k) (gw_called w) \<and>
    (\<exists>xs. filter (\<lambda>x. fst x = k) (gw_answers w') = xs @ filter (\<lambda>x. fst x = k) (gw_answers w) \<and>
      list_all (\<lambda>x. snd (snd x) = (409, in_progress)) xs)"
proof -
  have "blocked k w" using assms by (simp add: blocked_def)
  have "blocked k w' \<and> refusals k w w'" using assms(1)
  proof (induction rule: rtranclp_induct)
    case base
    show ?case using \<open>blocked k w\<close> refusals_refl by blast
  next
    case (step y z)
    then show ?case using blocked_step [OF _ assms(2)] refusals_trans by blast
  qed
  then show ?thesis by (simp add: refusals_def)
qed

section \<open>The order of fields\<close>

text \<open>Values that differ in the order of the fields of their objects, at any depth.\<close>

inductive same_json :: "jsv \<Rightarrow> jsv \<Rightarrow> bool" where
  Same: "same_json v v"
| Items: "length xs = length ys \<Longrightarrow> (\<And>i. i < length xs \<Longrightarrow> same_json (xs ! i) (ys ! i)) \<Longrightarrow> same_json (JArr xs) (JArr ys)"
| Fields: "distinct (map fst kvs) \<Longrightarrow> mset us = mset kvs \<Longrightarrow> length us = length ws \<Longrightarrow>
    (\<And>i. i < length us \<Longrightarrow> fst (us ! i) = fst (ws ! i) \<and> same_json (snd (us ! i)) (snd (ws ! i))) \<Longrightarrow> same_json (JObj kvs) (JObj ws)"

lemma stable_items_map: "stable_items vs = map stableStringify vs"
  by (induction vs) auto

lemma stable_fields_map: "stable_fields kvs = map (\<lambda>x. (fst x, json_text (fst x) @ '':'' @ stableStringify (snd x))) kvs"
  by (induction kvs) auto

lemma filter_key_distinct:
  assumes "distinct (map f xs)"
  shows "length (filter (\<lambda>x. k = f x) xs) \<le> 1"
  using assms by (induction xs) (auto simp: filter_empty_conv)

lemma sort_key_mset:
  assumes "mset xs = mset ys" "distinct (map f xs)"
  shows "sort_key f xs = sort_key f ys"
proof (rule properties_for_sort_key)
  fix k
  assume "k \<in> set (sort_key f ys)"
  have d: "distinct (map f ys)" using assms by (metis mset_map mset_eq_imp_distinct_iff)
  have m: "mset (filter (\<lambda>x. f k = f x) (sort_key f ys)) = mset (filter (\<lambda>x. f k = f x) xs)" by (simp add: assms(1))
  then have e: "length (filter (\<lambda>x. f k = f x) (sort_key f ys)) = length (filter (\<lambda>x. f k = f x) xs)" by (metis size_mset)
  show "filter (\<lambda>x. f k = f x) (sort_key f ys) = filter (\<lambda>x. f k = f x) xs"
  proof (cases "filter (\<lambda>x. f k = f x) xs")
    case Nil
    with e show ?thesis by simp
  next
    case (Cons a as)
    with filter_key_distinct [OF assms(2), of "f k"] have "as = []" by simp
    with m Cons have "mset (filter (\<lambda>x. f k = f x) (sort_key f ys)) = {#a#}" by (simp del: mset_filter)
    with Cons \<open>as = []\<close> show ?thesis by (simp only: mset_single_iff)
  qed
qed (simp_all add: assms)

text \<open>The fingerprint of a body does not depend on how the client orders its fields: bodies that differ in
  the order of the fields of their objects, at any depth, have the same text.\<close>

theorem fingerprint_ignores_field_order:
  assumes "same_json v w"
  shows "stableStringify v = stableStringify w"
  using assms
proof (induction rule: same_json.induct)
  case (Items xs ys)
  then have "stable_items xs = stable_items ys" unfolding stable_items_map by (intro nth_equalityI) simp_all
  then show ?case by simp
next
  case (Fields kvs us ws)
  have "stable_fields us = stable_fields ws" unfolding stable_fields_map by (rule nth_equalityI) (use Fields in simp_all)
  moreover have "mset (stable_fields kvs) = mset (stable_fields us)" using Fields(2) by (simp add: stable_fields_map)
  moreover have "distinct (map fst (stable_fields kvs))" using Fields(1) by (simp add: stable_fields_map comp_def)
  ultimately have "sort_key fst (stable_fields kvs) = sort_key fst (stable_fields ws)" using sort_key_mset by metis
  then show ?case by simp
qed simp

section \<open>Examples\<close>

definition sample_http :: http_request where
  "sample_http = \<lparr>hr_method = ''POST'', hr_base = [], hr_path = ''/v1/transactions/settle'', hr_url = ''/v1/transactions/settle'',
     hr_headers = [''idempotency-key'' \<mapsto> ''k1'', ''authorization'' \<mapsto> ''Bearer expired''], hr_body = Some (JObj [(''amount'', JNum 100)])\<rparr>"

definition sample_gate :: gate_config where
  "sample_gate = \<lparr>gc_redis = True, gc_local = False\<rparr>"

definition no_cache :: gate_cache where
  "no_cache = \<lparr>ca_redis = Map.empty, ca_local = []\<rparr>"

definition unauthorized :: jsv where
  "unauthorized = JObj [(''success'', JBool False), (''error'', JStr ''UNAUTHORIZED'')]"

lemma sample_http_key: "request_key (\<lambda>t. t) sample_http \<noteq> None"
  by code_simp

text \<open>The refusal of an expired token is what the same request gets with a fresh one.\<close>

lemma replay_needs_no_identity_witness:
  "fst (serve (\<lambda>t. t) sample_gate \<lparr>gf_read = Redis_Ok, gf_reserve = Redis_Ok, gf_effect = Redis_Ok\<rparr> (\<lambda>r. (200, JNull))
      (sample_http\<lparr>hr_headers := [''idempotency-key'' \<mapsto> ''k1'', ''authorization'' \<mapsto> ''Bearer fresh'']\<rparr>)
      (snd (serve (\<lambda>t. t) sample_gate \<lparr>gf_read = Redis_Ok, gf_reserve = Redis_Ok, gf_effect = Redis_Ok\<rparr> (\<lambda>r. (401, unauthorized)) sample_http no_cache))) =
    (False, 401, unauthorized)"
proof -
  let ?s = "serve (\<lambda>t. t) sample_gate \<lparr>gf_read = Redis_Ok, gf_reserve = Redis_Ok, gf_effect = Redis_Ok\<rparr> (\<lambda>r. (401, unauthorized)) sample_http no_cache"
  obtain k where k: "request_key (\<lambda>t. t) sample_http = Some k" using sample_http_key by blast
  have "fst ?s = (True, 401, unauthorized)"
    by (simp add: serve_def k readIdempotencyCache_def reserveIdempotencyKey_def sample_gate_def no_cache_def after_read_def after_reserve_def)
  then have s: "?s = ((True, 401, unauthorized), snd ?s)" by (simp add: prod_eq_iff)
  have "gc_redis sample_gate" "\<not> challenge_body unauthorized" by (simp_all add: sample_gate_def challenge_body_def unauthorized_def)
  from replay_needs_no_identity [OF s this(1) sample_http_key this(2), of "[''idempotency-key'' \<mapsto> ''k1'', ''authorization'' \<mapsto> ''Bearer fresh'']"]
  show ?thesis by (simp add: sample_http_def)
qed

lemma fingerprint_ignores_field_order_witness:
  "stableStringify (JObj [(''amount'', JNum 100), (''currency'', JStr ''USD'')]) = stableStringify (JObj [(''currency'', JStr ''USD''), (''amount'', JNum 100)])"
proof (rule fingerprint_ignores_field_order, rule same_json.Fields)
  show "mset [(''currency'', JStr ''USD''), (''amount'', JNum 100)] = mset [(''amount'', JNum 100), (''currency'', JStr ''USD'')]" by simp
qed (auto intro: same_json.Same)

definition gate_before :: gate where
  "gate_before = \<lparr>gw_cache = no_cache, gw_reading = [], gw_reserving = [], gw_running = [], gw_effects = [], gw_called = [], gw_answers = []\<rparr>"

definition reserved :: "string \<Rightarrow> gate_cache" where
  "reserved k = no_cache\<lparr>ca_redis := [k \<mapsto> Processing]\<rparr>"

text \<open>Two copies of a request that have both missed the cache: one is called, the other refused.\<close>

definition gate_after :: "string \<Rightarrow> gate" where
  "gate_after k = gate_before\<lparr>gw_cache := reserved k, gw_running := [(k, sample_http)], gw_called := [(k, sample_http)],
     gw_answers := [(k, sample_http, 409, in_progress)]\<rparr>"

abbreviation sample_step :: "gate \<Rightarrow> gate \<Rightarrow> bool" where
  "sample_step \<equiv> gate_step (\<lambda>t. t) sample_gate {Redis_Ok} False"

lemma two_copies:
  assumes "request_key (\<lambda>t. t) sample_http = Some k"
  shows "sample_step\<^sup>*\<^sup>* gate_before (gate_after k)"
proof -
  let ?r = "(k, sample_http)"
  let ?w1 = "gate_before\<lparr>gw_reading := [?r]\<rparr>" and ?w2 = "gate_before\<lparr>gw_reading := [?r, ?r]\<rparr>"
  let ?w3 = "gate_before\<lparr>gw_reading := [?r], gw_reserving := [?r]\<rparr>" and ?w4 = "gate_before\<lparr>gw_reserving := [?r, ?r]\<rparr>"
  let ?w5 = "gate_before\<lparr>gw_cache := reserved k, gw_reserving := [?r], gw_running := [?r], gw_called := [?r]\<rparr>"
  have m: "after_read (readIdempotencyCache sample_gate Redis_Ok k no_cache) = Go_On"
    by (simp add: readIdempotencyCache_def sample_gate_def no_cache_def after_read_def)
  have c: "reserveIdempotencyKey sample_gate Redis_Ok k no_cache = (True, reserved k)"
    by (simp add: reserveIdempotencyKey_def sample_gate_def no_cache_def reserved_def)
  have d: "reserveIdempotencyKey sample_gate Redis_Ok k (reserved k) = (False, reserved k)"
    by (simp add: reserveIdempotencyKey_def sample_gate_def no_cache_def reserved_def)
  have "sample_step gate_before ?w1" using gate_step.Arrive [OF assms, of sample_gate "{Redis_Ok}" False gate_before] by (simp add: gate_before_def)
  moreover have "sample_step ?w1 ?w2" using gate_step.Arrive [OF assms, of sample_gate "{Redis_Ok}" False ?w1] by (simp add: gate_before_def)
  moreover have "sample_step ?w2 ?w3"
    using gate_step.Read_Missed [of ?w2 "[]" k sample_http "[?r]" Redis_Ok "{Redis_Ok}" sample_gate "\<lambda>t. t" False] m by (simp add: gate_before_def)
  moreover have "sample_step ?w3 ?w4"
    using gate_step.Read_Missed [of ?w3 "[]" k sample_http "[]" Redis_Ok "{Redis_Ok}" sample_gate "\<lambda>t. t" False] m by (simp add: gate_before_def)
  moreover have "sample_step ?w4 ?w5"
    using gate_step.Called [of ?w4 "[]" k sample_http "[?r]" Redis_Ok "{Redis_Ok}" sample_gate True "reserved k" "\<lambda>t. t" False] c
    by (simp add: gate_before_def after_reserve_def)
  moreover have "sample_step ?w5 (gate_after k)"
    using gate_step.Refused [of ?w5 "[]" k sample_http "[]" Redis_Ok "{Redis_Ok}" sample_gate False "reserved k" 409 in_progress "\<lambda>t. t" False] d
    by (simp add: gate_before_def after_reserve_def gate_after_def)
  ultimately show ?thesis by (meson converse_rtranclp_into_rtranclp rtranclp.rtrancl_refl)
qed


text \<open>The handler that was called ends without an answer; a third copy arrives.\<close>

lemma unanswered_request_blocks_witness:
  "\<exists>k (w :: gate). request_key (\<lambda>t. t) sample_http = Some k \<and> gw_called w = [(k, sample_http)] \<and>
    gw_answers w = [(k, sample_http, 409, in_progress), (k, sample_http, 409, in_progress)] \<and>
    filter (\<lambda>x. fst x = k) (gw_called w) = filter (\<lambda>x. fst x = k) (gw_called ((gate_after k)\<lparr>gw_running := []\<rparr>))"
proof -
  obtain k where k: "request_key (\<lambda>t. t) sample_http = Some k" using sample_http_key by blast
  let ?a = "(gate_after k)\<lparr>gw_running := []\<rparr>"
  let ?b = "?a\<lparr>gw_reading := [(k, sample_http)]\<rparr>"
  let ?c = "?a\<lparr>gw_answers := (k, sample_http, 409, in_progress) # gw_answers ?a\<rparr>"
  have p: "after_read (readIdempotencyCache sample_gate Redis_Ok k (reserved k)) = Answer 409 in_progress"
    by (simp add: readIdempotencyCache_def sample_gate_def reserved_def no_cache_def after_read_def)
  have "sample_step ?a ?b"
    using gate_step.Arrive [OF k, of sample_gate "{Redis_Ok}" False ?a] by (simp add: gate_after_def gate_before_def)
  moreover have "sample_step ?b ?c"
    using gate_step.Read_Answered [of ?b "[]" k sample_http "[]" Redis_Ok "{Redis_Ok}" sample_gate 409 in_progress "\<lambda>t. t" False] p
    by (simp add: gate_after_def gate_before_def)
  ultimately have r: "sample_step\<^sup>*\<^sup>* ?a ?c" by (meson converse_rtranclp_into_rtranclp rtranclp.rtrancl_refl)
  have "gc_redis sample_gate" "ca_redis (gw_cache ?a) k = Some Processing" "k \<notin> fst ` set (gw_running ?a)" "k \<notin> fst ` set (gw_effects ?a)"
    by (simp_all add: sample_gate_def gate_after_def gate_before_def reserved_def)
  from unanswered_request_blocks [OF r this] k have "request_key (\<lambda>t. t) sample_http = Some k \<and> gw_called ?c = [(k, sample_http)] \<and>
      gw_answers ?c = [(k, sample_http, 409, in_progress), (k, sample_http, 409, in_progress)] \<and>
      filter (\<lambda>x. fst x = k) (gw_called ?c) = filter (\<lambda>x. fst x = k) (gw_called ?a)"
    by (simp add: gate_after_def gate_before_def)
  then show ?thesis by blast
qed

end
