(* ===== verification/Provider_Guard.thy ===== *)
theory Provider_Guard
  imports Fee_Classifier
begin

text \<open>
  Calls of a payment provider: the classification of errors (\<open>backend/payments/providers/ProviderErrorNormalizer.ts\<close>),
  the circuit of each provider and operation, the bound on concurrent calls, and the attempts of one request
  (\<open>ProviderRetryPolicy.ts\<close>).

  The provider is the environment: what a call answers, and the times. Thrown values are \<open>Error\<close> objects.
\<close>

section \<open>Errors\<close>

datatype provider_category = RATE_LIMIT | UNAVAILABLE | AUTH | CONFIG | TIMEOUT | NETWORK | REJECTED | INVALID_RESPONSE | UNKNOWN

definition normalizeCategory :: "string \<Rightarrow> rat option \<Rightarrow> provider_category" where
  "normalizeCategory m st =
     (let u = js_upper m in
      if st = Some 429 \<or> js_includes u ''RATE LIMIT'' then RATE_LIMIT
      else if st = Some 503 \<or> st = Some 502 \<or> js_includes u ''UNAVAILABLE'' then UNAVAILABLE
      else if js_includes u ''AUTH'' \<or> js_includes u ''TOKEN'' \<or> js_includes u ''CREDENTIAL'' then AUTH
      else if js_includes u ''CONFIG'' \<or> js_includes u ''MISSING'' then CONFIG
      else if js_includes u ''TIMEOUT'' \<or> js_includes u ''ABORTED'' then TIMEOUT
      else if js_includes u ''ECONN'' \<or> js_includes u ''ENOTFOUND'' \<or> js_includes u ''NETWORK'' then NETWORK
      else if js_includes u ''REJECT'' \<or> js_includes u ''DECLIN'' \<or> js_includes u ''FAILED'' then REJECTED
      else if js_includes u ''INVALID'' \<or> js_includes u ''UNEXPECTED'' then INVALID_RESPONSE
      else UNKNOWN)"

fun isRetryable :: "provider_category \<Rightarrow> bool" where
  "isRetryable NETWORK = True"
| "isRetryable TIMEOUT = True"
| "isRetryable RATE_LIMIT = True"
| "isRetryable UNAVAILABLE = True"
| "isRetryable _ = False"

record provider =
  pv_id :: string
  pv_name :: string
  pv_metadata :: metadata

text \<open>The code of the provider, through the normalised metadata.\<close>

definition resolveProviderCode :: "provider \<Rightarrow> string" where
  "resolveProviderCode p =
     (let m = pv_metadata p;
          switch = js_trim (md_first_text m [''switch_profile_code'', ''pay_gateway_provider_code'', ''provider_code'']);
          brand = (if md_has m ''brand_name'' then md_text m ''brand_name'' else if md_has m ''display_name'' then md_text m ''display_name'' else pv_name p) in
      js_trim (if md_has m ''pay_gateway_provider_code'' then md_text m ''pay_gateway_provider_code''
        else if switch \<noteq> [] then switch else if md_has m ''provider_code'' then md_text m ''provider_code''
        else if brand \<noteq> [] then brand else pv_name p))"

record provider_error =
  pe_category :: provider_category
  pe_provider :: string
  pe_message :: string
  pe_retryable :: bool
  pe_status :: "rat option"

text \<open>An error that is thrown: a message and a status number, or one that is normalised already.\<close>

datatype thrown = Thrown string "rat option" | Domain_Error provider_error

fun thrown_text :: "thrown \<Rightarrow> string" where
  "thrown_text (Thrown m st) = (if m = [] then ''Error'' else m)"
| "thrown_text (Domain_Error e) = (if pe_message e = [] then ''ProviderDomainError'' else pe_message e)"

fun thrown_status :: "thrown \<Rightarrow> rat option" where
  "thrown_status (Thrown m st) = (if st = Some 0 then None else st)"
| "thrown_status (Domain_Error e) = (if pe_status e = Some 0 then None else pe_status e)"

definition normalizeProviderError :: "thrown \<Rightarrow> provider \<Rightarrow> provider_error" where
  "normalizeProviderError e p = (let c = normalizeCategory (thrown_text e) (thrown_status e) in
     \<lparr>pe_category = c, pe_provider = resolveProviderCode p, pe_message = thrown_text e, pe_retryable = isRetryable c, pe_status = thrown_status e\<rparr>)"

fun toProviderDomainError :: "thrown \<Rightarrow> provider \<Rightarrow> provider_error" where
  "toProviderDomainError (Domain_Error e) p = e"
| "toProviderDomainError (Thrown m st) p = normalizeProviderError (Thrown m st) p"

fun isProviderRetryableError :: "thrown \<Rightarrow> bool" where
  "isProviderRetryableError (Domain_Error e) = pe_retryable e"
| "isProviderRetryableError (Thrown m st) = False"

section \<open>Circuits\<close>

datatype circuit_mode = CLOSED | OPEN | HALF_OPEN

record circuit =
  ci_state :: circuit_mode
  ci_failures :: nat
  ci_opened :: "int option"

record provider_guard =
  pg_circuits :: "string \<Rightarrow> circuit option"
  pg_active :: "string \<Rightarrow> nat option"

text \<open>The configured numbers, as the environment variables give them.\<close>

record retry_config =
  rc_attempts :: int
  rc_delay :: int
  rc_threshold :: int
  rc_cooldown :: int
  rc_concurrent :: int

definition circuitFailureThreshold :: "retry_config \<Rightarrow> nat" where
  "circuitFailureThreshold cf = nat (max 1 (rc_threshold cf))"

definition circuitCooldownMs :: "retry_config \<Rightarrow> int" where
  "circuitCooldownMs cf = max 1000 (rc_cooldown cf)"

definition maxConcurrentPerProvider :: "retry_config \<Rightarrow> nat" where
  "maxConcurrentPerProvider cf = nat (max 1 (rc_concurrent cf))"

definition getProviderKey :: "provider \<Rightarrow> string" where
  "getProviderKey p = (if pv_id p \<noteq> [] then pv_id p else if pv_name p \<noteq> [] then pv_name p else ''unknown_provider'')"

definition getCircuitKey :: "provider \<Rightarrow> string \<Rightarrow> string" where
  "getCircuitKey p op = getProviderKey p @ '':'' @ op"

definition provider_label :: "provider \<Rightarrow> string" where
  "provider_label p = (if pv_name p \<noteq> [] then pv_name p else pv_id p)"

definition circuit_open_error :: "provider \<Rightarrow> string \<Rightarrow> thrown" where
  "circuit_open_error p op = Thrown (''PROVIDER_CIRCUIT_OPEN: '' @ provider_label p @ '' '' @ op) None"

definition bulkhead_error :: "provider \<Rightarrow> thrown" where
  "bulkhead_error p = Thrown (''PROVIDER_BULKHEAD_FULL: '' @ provider_label p) None"

definition assertCircuitAllows :: "retry_config \<Rightarrow> int \<Rightarrow> provider \<Rightarrow> string \<Rightarrow> provider_guard \<Rightarrow> (thrown + unit) \<times> provider_guard" where
  "assertCircuitAllows cf now p op g =
     (let k = getCircuitKey p op in
      case pg_circuits g k of
        None \<Rightarrow> (Inr (), g)
      | Some c \<Rightarrow>
          if ci_state c = CLOSED then (Inr (), g)
          else if circuitCooldownMs cf \<le> now - (case ci_opened c of None \<Rightarrow> 0 | Some t \<Rightarrow> t)
            then (Inr (), g\<lparr>pg_circuits := (pg_circuits g)(k \<mapsto> c\<lparr>ci_state := HALF_OPEN\<rparr>)\<rparr>)
          else (Inl (circuit_open_error p op), g))"

definition recordSuccess :: "provider \<Rightarrow> string \<Rightarrow> provider_guard \<Rightarrow> provider_guard" where
  "recordSuccess p op g = g\<lparr>pg_circuits := (pg_circuits g)(getCircuitKey p op \<mapsto> \<lparr>ci_state = CLOSED, ci_failures = 0, ci_opened = None\<rparr>)\<rparr>"

definition recordFailure :: "retry_config \<Rightarrow> int \<Rightarrow> provider \<Rightarrow> string \<Rightarrow> provider_guard \<Rightarrow> provider_guard" where
  "recordFailure cf now p op g =
     (let k = getCircuitKey p op;
          c = (case pg_circuits g k of None \<Rightarrow> \<lparr>ci_state = CLOSED, ci_failures = 0, ci_opened = None\<rparr> | Some c \<Rightarrow> c);
          n = ci_failures c + 1 in
      g\<lparr>pg_circuits := (pg_circuits g)(k \<mapsto>
        (if circuitFailureThreshold cf \<le> n \<or> ci_state c = HALF_OPEN then \<lparr>ci_state = OPEN, ci_failures = n, ci_opened = Some now\<rparr>
         else c\<lparr>ci_failures := n\<rparr>))\<rparr>)"

section \<open>Concurrent calls\<close>

definition enter_bulkhead :: "retry_config \<Rightarrow> provider \<Rightarrow> provider_guard \<Rightarrow> (thrown + unit) \<times> provider_guard" where
  "enter_bulkhead cf p g =
     (let k = getProviderKey p; n = (case pg_active g k of None \<Rightarrow> 0 | Some n \<Rightarrow> n) in
      if maxConcurrentPerProvider cf \<le> n then (Inl (bulkhead_error p), g)
      else (Inr (), g\<lparr>pg_active := (pg_active g)(k \<mapsto> n + 1)\<rparr>))"

definition leave_bulkhead :: "provider \<Rightarrow> provider_guard \<Rightarrow> provider_guard" where
  "leave_bulkhead p g =
     (let k = getProviderKey p; n = (case pg_active g k of None \<Rightarrow> 1 | Some 0 \<Rightarrow> 1 | Some n \<Rightarrow> n) - 1 in
      g\<lparr>pg_active := (pg_active g)(k := (if n = 0 then None else Some n))\<rparr>)"

section \<open>Attempts\<close>

text \<open>An attempt up to the call of the provider, and from its answer on.\<close>

definition begin_attempt :: "retry_config \<Rightarrow> int \<Rightarrow> provider \<Rightarrow> string \<Rightarrow> provider_guard \<Rightarrow> (thrown + unit) \<times> provider_guard" where
  "begin_attempt cf now p op g = (case assertCircuitAllows cf now p op g of
     (Inl e, g1) \<Rightarrow> (Inl e, g1)
   | (Inr _, g1) \<Rightarrow> enter_bulkhead cf p g1)"

definition end_attempt :: "retry_config \<Rightarrow> int \<Rightarrow> provider \<Rightarrow> string \<Rightarrow> thrown + 'v \<Rightarrow> provider_guard \<Rightarrow> provider_guard" where
  "end_attempt cf now p op res g = (let g1 = leave_bulkhead p g in
     case res of Inl e \<Rightarrow> recordFailure cf now p op g1 | Inr v \<Rightarrow> recordSuccess p op g1)"

text \<open>
  What one attempt meets: the times of its start and of its failure, the provider's answer, a hook that
  throws, and what other requests do to the shared state during the call and during the pause.
\<close>

record 'v attempt_env =
  ae_start :: int
  ae_answer :: "thrown + 'v"
  ae_end :: int
  ae_hook :: "thrown option"
  ae_during :: "provider_guard \<Rightarrow> provider_guard"
  ae_pause :: "provider_guard \<Rightarrow> provider_guard"

text \<open>One attempt: its result, whether the provider was called, and the shared state.\<close>

definition attempt_once :: "retry_config \<Rightarrow> provider \<Rightarrow> string \<Rightarrow> 'v attempt_env \<Rightarrow> provider_guard \<Rightarrow> (thrown + 'v) \<times> bool \<times> provider_guard" where
  "attempt_once cf p op env g =
     (case begin_attempt cf (ae_start env) p op g of
        (Inl e, g1) \<Rightarrow> (Inl e, False, recordFailure cf (ae_end env) p op g1)
      | (Inr _, g1) \<Rightarrow> (ae_answer env, True, end_attempt cf (ae_end env) p op (ae_answer env) (ae_during env g1)))"

definition retry_delay :: "int \<Rightarrow> nat \<Rightarrow> int" where
  "retry_delay base n = base * 2 ^ (n - 1)"

text \<open>The loop from attempt \<open>n\<close> on: the result, the attempts that called the provider, the pauses.\<close>

function retry_loop :: "retry_config \<Rightarrow> provider \<Rightarrow> string \<Rightarrow> nat \<Rightarrow> int \<Rightarrow> (nat \<Rightarrow> 'v attempt_env) \<Rightarrow> nat \<Rightarrow> provider_guard \<Rightarrow>
    (thrown + 'v) \<times> nat list \<times> int list \<times> provider_guard" where
  "retry_loop cf p op m base env n g =
     (case attempt_once cf p op (env n) g of
        (Inr v, called, g1) \<Rightarrow> (Inr v, if called then [n] else [], [], g1)
      | (Inl e, called, g1) \<Rightarrow>
          (let cs = (if called then [n] else []) in
           case ae_hook (env n) of
             Some h \<Rightarrow> (Inl h, cs, [], g1)
           | None \<Rightarrow>
               if pe_retryable (normalizeProviderError e p) \<and> n < m
               then (case retry_loop cf p op m base env (n + 1) (ae_pause (env n) g1) of
                       (r, ds, ps, g2) \<Rightarrow> (r, cs @ ds, (if 0 < retry_delay base n then [retry_delay base n] else []) @ ps, g2))
               else (Inl (Domain_Error (toProviderDomainError e p)), cs, [], g1)))"
  by pat_completeness auto
termination
  by (relation "measure (\<lambda>(cf, p, op, m, base, env, n, g). m - n)") auto

declare retry_loop.simps [simp del]

record retry_options =
  ro_attempts :: "int option"
  ro_delay :: "int option"

definition configured :: "int option \<Rightarrow> int \<Rightarrow> int" where
  "configured x d = (case x of None \<Rightarrow> d | Some n \<Rightarrow> if n = 0 then d else n)"

definition maxAttempts :: "retry_config \<Rightarrow> retry_options \<Rightarrow> nat" where
  "maxAttempts cf o' = nat (max 1 (configured (ro_attempts o') (rc_attempts cf)))"

definition baseDelayMs :: "retry_config \<Rightarrow> retry_options \<Rightarrow> int" where
  "baseDelayMs cf o' = max 0 (configured (ro_delay o') (rc_delay cf))"

definition execute :: "retry_config \<Rightarrow> provider \<Rightarrow> string \<Rightarrow> retry_options \<Rightarrow> (nat \<Rightarrow> 'v attempt_env) \<Rightarrow> provider_guard \<Rightarrow>
    (thrown + 'v) \<times> nat list \<times> int list \<times> provider_guard" where
  "execute cf p op o' env g = retry_loop cf p op (maxAttempts cf o') (baseDelayMs cf o') env 1 g"

section \<open>Concurrent requests\<close>

text \<open>
  Any number of requests, of any providers, between the calls: the calls under way, and what every
  circuit has seen, the latest first.
\<close>

record provider_world =
  pw_guard :: provider_guard
  pw_clock :: int
  pw_running :: "(provider \<times> string) list"
  pw_log :: "(string \<times> bool) list"

inductive provider_step :: "retry_config \<Rightarrow> provider_world \<Rightarrow> provider_world \<Rightarrow> bool" for cf where
  Call: "begin_attempt cf (pw_clock w) p op (pw_guard w) = (Inr u, g) \<Longrightarrow>
    provider_step cf w (w\<lparr>pw_guard := g, pw_running := (p, op) # pw_running w\<rparr>)"
| Refuse: "begin_attempt cf (pw_clock w) p op (pw_guard w) = (Inl e, g) \<Longrightarrow>
    provider_step cf w (w\<lparr>pw_guard := recordFailure cf (pw_clock w) p op g, pw_log := (getCircuitKey p op, False) # pw_log w\<rparr>)"
| Finish: "pw_running w = xs @ (p, op) # ys \<Longrightarrow>
    provider_step cf w (w\<lparr>pw_guard := end_attempt cf (pw_clock w) p op (res :: thrown + unit) (pw_guard w), pw_running := xs @ ys,
      pw_log := (getCircuitKey p op, \<not> isl res) # pw_log w\<rparr>)"
| Time: "0 \<le> d \<Longrightarrow> provider_step cf w (w\<lparr>pw_clock := pw_clock w + d\<rparr>)"

definition provider_start :: "provider_world \<Rightarrow> bool" where
  "provider_start w \<longleftrightarrow> pg_circuits (pw_guard w) = Map.empty \<and> pg_active (pw_guard w) = Map.empty \<and> pw_running w = [] \<and> pw_log w = []"

end
