(* ===== verification/Provider_Properties.thy ===== *)
theory Provider_Properties
  imports Provider_Guard "HOL-Library.Multiset"
begin

text \<open>
  Calls of a provider: how often one request may reach it, that the bound on concurrent calls holds in every
  interleaving and no place is lost, that a circuit is open exactly while it has failed often enough since
  its last success, and that requests which keep coming keep it open.
\<close>

section \<open>One request\<close>

text \<open>What happens up to attempt \<open>k\<close>, counted from \<open>n\<close>: the state before it.\<close>

fun state_before :: "retry_config \<Rightarrow> provider \<Rightarrow> string \<Rightarrow> (nat \<Rightarrow> 'v attempt_env) \<Rightarrow> nat \<Rightarrow> nat \<Rightarrow> provider_guard \<Rightarrow> provider_guard" where
  "state_before cf p op env n 0 g = g"
| "state_before cf p op env n (Suc k) g = state_before cf p op env (n + 1) k (ae_pause (env n) (snd (snd (attempt_once cf p op (env n) g))))"

definition attempt_at :: "retry_config \<Rightarrow> provider \<Rightarrow> string \<Rightarrow> (nat \<Rightarrow> 'v attempt_env) \<Rightarrow> provider_guard \<Rightarrow> nat \<Rightarrow> nat \<Rightarrow> thrown + 'v" where
  "attempt_at cf p op env g n k = fst (attempt_once cf p op (env (n + k)) (state_before cf p op env n k g))"

definition retried :: "provider \<Rightarrow> thrown + 'v \<Rightarrow> bool" where
  "retried p r = (case r of Inl e \<Rightarrow> pe_retryable (normalizeProviderError e p) | Inr v \<Rightarrow> False)"

definition again :: "nat \<Rightarrow> nat \<Rightarrow> provider \<Rightarrow> 'v attempt_env \<Rightarrow> thrown \<Rightarrow> bool" where
  "again m n p env e \<longleftrightarrow> ae_hook env = None \<and> pe_retryable (normalizeProviderError e p) \<and> n < m"

lemma retry_loop_value:
  "attempt_once cf p op (env n) g = (Inr v, called, g1) \<Longrightarrow> retry_loop cf p op m base env n g = (Inr v, if called then [n] else [], [], g1)"
  by (subst retry_loop.simps) simp

lemma retry_loop_stop:
  "attempt_once cf p op (env n) g = (Inl e, called, g1) \<Longrightarrow> \<not> again m n p (env n) e \<Longrightarrow>
    retry_loop cf p op m base env n g =
      (Inl (case ae_hook (env n) of Some h \<Rightarrow> h | None \<Rightarrow> Domain_Error (toProviderDomainError e p)), if called then [n] else [], [], g1)"
  by (subst retry_loop.simps) (auto simp add: again_def Let_def split: option.split)

lemma retry_loop_go:
  "attempt_once cf p op (env n) g = (Inl e, called, g1) \<Longrightarrow> again m n p (env n) e \<Longrightarrow>
    retry_loop cf p op m base env (n + 1) (ae_pause (env n) g1) = (r, ds, ps, g2) \<Longrightarrow>
    retry_loop cf p op m base env n g =
      (r, (if called then [n] else []) @ ds, (if 0 < retry_delay base n then [retry_delay base n] else []) @ ps, g2)"
  by (subst retry_loop.simps) (simp add: again_def Let_def)

text \<open>The attempts are \<open>n\<close> up to the first that is not retried, \<open>m\<close> at the latest.\<close>

definition outcome_of :: "nat \<Rightarrow> provider \<Rightarrow> 'v attempt_env \<Rightarrow> nat \<Rightarrow> thrown + 'v \<Rightarrow> thrown + 'v \<Rightarrow> bool" where
  "outcome_of m p env n x r \<longleftrightarrow> (case x of Inr v \<Rightarrow> r = Inr v
     | Inl e \<Rightarrow> \<not> again m n p env e \<and> r = Inl (case ae_hook env of Some h \<Rightarrow> h | None \<Rightarrow> Domain_Error (toProviderDomainError e p)))"

definition attempts_upto :: "retry_config \<Rightarrow> provider \<Rightarrow> string \<Rightarrow> nat \<Rightarrow> (nat \<Rightarrow> 'v attempt_env) \<Rightarrow> nat \<Rightarrow> provider_guard \<Rightarrow> nat \<Rightarrow> thrown + 'v \<Rightarrow> bool" where
  "attempts_upto cf p op m env n g k r \<longleftrightarrow> n + k \<le> m \<and> (\<forall>j < k. retried p (attempt_at cf p op env g n j)) \<and>
     outcome_of m p (env (n + k)) (n + k) (attempt_at cf p op env g n k) r"

lemma retry_loop_last:
  assumes "attempt_once cf p op (env n) g = (x, called, g1)" "\<nexists>e. x = Inl e \<and> again m n p (env n) e"
    "retry_loop cf p op m base env n g = (r, cs, ps, g')" "n \<le> m"
  shows "\<exists>k. attempts_upto cf p op m env n g k r \<and> sorted_wrt (<) cs \<and> set cs \<subseteq> {n..n + k} \<and> length ps \<le> k"
proof -
  have z: "attempt_at cf p op env g n 0 = x" by (simp add: attempt_at_def assms(1))
  have "outcome_of m p (env n) n x r \<and> cs = (if called then [n] else []) \<and> ps = []"
  proof (cases x)
    case (Inl e)
    with assms retry_loop_stop [of cf p op env n g e called g1 m base] show ?thesis by (auto simp: outcome_of_def)
  next
    case (Inr v)
    with assms retry_loop_value [of cf p op env n g v called g1 m base] show ?thesis by (auto simp: outcome_of_def)
  qed
  with assms(4) z show ?thesis by (intro exI [of _ 0]) (simp add: attempts_upto_def)
qed

lemma retry_loop_attempts:
  assumes "retry_loop cf p op m base env n g = (r, cs, ps, g')" "n \<le> m"
  shows "\<exists>k. attempts_upto cf p op m env n g k r \<and> sorted_wrt (<) cs \<and> set cs \<subseteq> {n..n + k} \<and> length ps \<le> k"
  using assms
proof (induction "m - n" arbitrary: n g r cs ps g')
  case 0
  obtain x called g1 where a: "attempt_once cf p op (env n) g = (x, called, g1)" by (metis prod_cases3)
  have "\<nexists>e. x = Inl e \<and> again m n p (env n) e" using 0 by (simp add: again_def)
  from retry_loop_last [OF a this 0(2,3)] show ?case .
next
  case (Suc d)
  obtain x called g1 where a: "attempt_once cf p op (env n) g = (x, called, g1)" by (metis prod_cases3)
  have z: "attempt_at cf p op env g n 0 = x" by (simp add: attempt_at_def a)
  have shift: "attempt_at cf p op env g n (Suc k) = attempt_at cf p op env (ae_pause (env n) g1) (n + 1) k" for k
    by (simp add: attempt_at_def a)
  show ?case
  proof (cases "\<exists>e. x = Inl e \<and> again m n p (env n) e")
    case False
    from retry_loop_last [OF a this Suc(3,4)] show ?thesis .
  next
    case True
    then obtain e where e: "x = Inl e" "again m n p (env n) e" by blast
    obtain r2 ds qs g2 where b: "retry_loop cf p op m base env (n + 1) (ae_pause (env n) g1) = (r2, ds, qs, g2)" by (metis prod_cases4)
    from Suc(3) retry_loop_go [OF a [unfolded e(1)] e(2) b]
    have f: "r2 = r" "cs = (if called then [n] else []) @ ds" "length ps \<le> Suc (length qs)" by auto
    have "d = m - (n + 1)" "n + 1 \<le> m" using Suc(2) by simp_all
    from Suc(1) [OF this(1) b this(2)] obtain k where k: "attempts_upto cf p op m env (n + 1) (ae_pause (env n) g1) k r2"
      "sorted_wrt (<) ds" "set ds \<subseteq> {n + 1..n + 1 + k}" "length qs \<le> k" by blast
    have "retried p x" using e by (simp add: retried_def again_def)
    with k(1) have "attempts_upto cf p op m env n g (Suc k) r"
      by (auto simp: attempts_upto_def shift z f less_Suc_eq_0_disj)
    moreover have "sorted_wrt (<) cs" "set cs \<subseteq> {n..n + Suc k}" using k(2,3) by (auto simp: f)
    ultimately show ?thesis using k(4) f(3) by (intro exI [of _ "Suc k"]) simp
  qed
qed

text \<open>One request reaches the provider at most maxAttempts times: its attempts follow each other, each one but
  the last failed with an error of a retryable category, at most one pause lies between two, and the
  request ends with the answer of the last attempt: its value, the error a hook threw, or its error in
  normalised form, which is then not retryable or the last one allowed.\<close>

theorem request_attempts_bounded:
  "case execute cf p op opts env g of (r, cs, ps, g') \<Rightarrow>
    \<exists>k < maxAttempts cf opts. (\<forall>j < k. retried p (attempt_at cf p op env g 1 j)) \<and> sorted_wrt (<) cs \<and> set cs \<subseteq> {1..k + 1} \<and> length ps \<le> k \<and>
      outcome_of (maxAttempts cf opts) p (env (k + 1)) (k + 1) (attempt_at cf p op env g 1 k) r"
proof -
  obtain r cs ps g' where e: "execute cf p op opts env g = (r, cs, ps, g')" by (metis prod_cases4)
  have "1 \<le> maxAttempts cf opts" by (simp add: maxAttempts_def)
  from retry_loop_attempts [OF e [unfolded execute_def] this] obtain k where
    "attempts_upto cf p op (maxAttempts cf opts) env 1 g k r" "sorted_wrt (<) cs" "set cs \<subseteq> {1..1 + k}" "length ps \<le> k" by blast
  then show ?thesis unfolding e by (auto simp: attempts_upto_def intro!: exI [of _ k])
qed

section \<open>Repeated calls\<close>

definition quiet :: "retry_config \<Rightarrow> provider \<Rightarrow> string \<Rightarrow> nat \<Rightarrow> provider_guard \<Rightarrow> bool" where
  "quiet cf p op n g \<longleftrightarrow> pg_active g (getProviderKey p) = None \<and>
     (case pg_circuits g (getCircuitKey p op) of None \<Rightarrow> n < circuitFailureThreshold cf
      | Some c \<Rightarrow> ci_state c = CLOSED \<and> ci_failures c + n < circuitFailureThreshold cf)"

lemma quiet_attempt:
  assumes "quiet cf p op n g" "ae_answer env = Inl e" "ae_during env = id"
  shows "\<exists>g'. attempt_once cf p op env g = (Inl e, True, g') \<and> (n \<noteq> 0 \<longrightarrow> quiet cf p op (n - 1) g')"
proof -
  let ?k = "getProviderKey p" and ?c = "getCircuitKey p op"
  have a: "assertCircuitAllows cf (ae_start env) p op g = (Inr (), g)"
    using assms(1) by (auto simp: quiet_def assertCircuitAllows_def Let_def split: option.splits)
  have "0 < maxConcurrentPerProvider cf" by (simp add: maxConcurrentPerProvider_def)
  then have b: "enter_bulkhead cf p g = (Inr (), g\<lparr>pg_active := (pg_active g)(?k \<mapsto> 1)\<rparr>)"
    using assms(1) by (simp add: enter_bulkhead_def quiet_def)
  let ?g = "leave_bulkhead p (g\<lparr>pg_active := (pg_active g)(?k \<mapsto> 1)\<rparr>)"
  have l: "?g = g\<lparr>pg_active := (pg_active g)(?k := None)\<rparr>" by (simp add: leave_bulkhead_def Let_def)
  have "n \<noteq> 0 \<longrightarrow> quiet cf p op (n - 1) (recordFailure cf (ae_end env) p op ?g)"
    using assms(1) unfolding l by (auto simp: quiet_def recordFailure_def Let_def split: option.splits)
  then show ?thesis using a b by (simp add: attempt_once_def begin_attempt_def end_attempt_def assms(2,3))
qed

lemma retry_loop_repeats:
  assumes "quiet cf p op (m - n) g" "n \<le> m"
    and "\<And>i. n \<le> i \<Longrightarrow> i \<le> m \<Longrightarrow> \<exists>e. ae_answer (env i) = Inl e \<and> pe_retryable (normalizeProviderError e p)"
    and "\<And>i. ae_hook (env i) = None \<and> ae_during (env i) = id \<and> ae_pause (env i) = id"
  shows "fst (snd (retry_loop cf p op m base env n g)) = [n..<Suc m]"
  using assms(1-3)
proof (induction "m - n" arbitrary: n g)
  case 0
  obtain e where e: "ae_answer (env n) = Inl e" using 0(3,4) by blast
  from quiet_attempt [OF 0(2) e] assms(4) obtain g' where a: "attempt_once cf p op (env n) g = (Inl e, True, g')" by blast
  have "\<not> again m n p (env n) e" "n = m" using 0 by (simp_all add: again_def)
  from retry_loop_stop [of cf p op env n g, OF a this(1)] \<open>n = m\<close> show ?case by simp
next
  case (Suc d)
  obtain e where e: "ae_answer (env n) = Inl e" "pe_retryable (normalizeProviderError e p)" using Suc(4,5) by blast
  from quiet_attempt [OF Suc(3) e(1)] assms(4) Suc(2) obtain g' where a: "attempt_once cf p op (env n) g = (Inl e, True, g')"
    and q: "quiet cf p op (m - n - 1) g'" by (metis nat.simps(3))
  have g: "again m n p (env n) e" using e(2) assms(4) Suc(2) by (simp add: again_def)
  obtain r ds ps g2 where b: "retry_loop cf p op m base env (n + 1) (ae_pause (env n) g') = (r, ds, ps, g2)" by (metis prod_cases4)
  have "fst (snd (retry_loop cf p op m base env (n + 1) g')) = [n + 1..<Suc m]"
    by (rule Suc(1)) (use Suc(2,5) q in \<open>simp_all add: diff_diff_left\<close>)
  with b assms(4) have "ds = [n + 1..<Suc m]" by simp
  with retry_loop_go [of cf p op env n g, OF a g b] Suc(2) show ?case by (simp add: upt_conv_Cons)
qed

text \<open>A call that times out is sent again: when the provider answers every call with an error of a retryable
  category and the circuit has room for the failures, the provider receives the same request exactly
  maxAttempts times, whether or not it has carried out an earlier one.\<close>

theorem timed_out_call_is_repeated:
  assumes "\<And>i. \<exists>e. ae_answer (env i) = Inl e \<and> pe_retryable (normalizeProviderError e p)"
    and "\<And>i. ae_hook (env i) = None \<and> ae_during (env i) = id \<and> ae_pause (env i) = id"
    and "pg_active g (getProviderKey p) = None" and "pg_circuits g (getCircuitKey p op) = None"
    and "maxAttempts cf opts \<le> circuitFailureThreshold cf"
  shows "fst (snd (execute cf p op opts env g)) = [1..<Suc (maxAttempts cf opts)]"
proof -
  have m: "1 \<le> maxAttempts cf opts" by (simp add: maxAttempts_def)
  have "quiet cf p op (maxAttempts cf opts - 1) g" using assms(3-5) m by (simp add: quiet_def)
  from retry_loop_repeats [OF this m assms(1,2)] show ?thesis by (simp add: execute_def)
qed

section \<open>An open circuit\<close>

fun requests :: "retry_config \<Rightarrow> provider \<Rightarrow> string \<Rightarrow> retry_options \<Rightarrow> 'v attempt_env list \<Rightarrow> provider_guard \<Rightarrow> ((thrown + 'v) \<times> nat list) list \<times> provider_guard" where
  "requests cf p op opts [] g = ([], g)"
| "requests cf p op opts (e # es) g = (case execute cf p op opts (\<lambda>n. e) g of (r, cs, ps, g1) \<Rightarrow>
     (case requests cf p op opts es g1 of (rs, g2) \<Rightarrow> ((r, cs) # rs, g2)))"

text \<open>No two requests are the cooldown apart, counted from the time \<open>t\<close>.\<close>

fun spaced :: "int \<Rightarrow> int \<Rightarrow> 'v attempt_env list \<Rightarrow> bool" where
  "spaced d t [] \<longleftrightarrow> True"
| "spaced d t (e # es) \<longleftrightarrow> ae_start e - t < d \<and> spaced d (ae_end e) es"

definition open_since :: "retry_config \<Rightarrow> provider \<Rightarrow> string \<Rightarrow> int \<Rightarrow> provider_guard \<Rightarrow> bool" where
  "open_since cf p op t g \<longleftrightarrow> (\<exists>c. pg_circuits g (getCircuitKey p op) = Some c \<and> ci_state c = OPEN \<and> ci_opened c = Some t \<and>
     circuitFailureThreshold cf \<le> ci_failures c)"

lemma open_refuses:
  assumes "open_since cf p op t g" "ae_start e - t < circuitCooldownMs cf" "\<not> pe_retryable (normalizeProviderError (circuit_open_error p op) p)"
    "ae_hook e = None"
  shows "\<exists>g'. execute cf p op opts (\<lambda>n. e) g = (Inl (Domain_Error (normalizeProviderError (circuit_open_error p op) p)), [], [], g') \<and>
    open_since cf p op (ae_end e) g'"
proof -
  let ?x = "circuit_open_error p op"
  let ?g = "recordFailure cf (ae_end e) p op g"
  have "begin_attempt cf (ae_start e) p op g = (Inl ?x, g)"
    using assms(1,2) by (auto simp: begin_attempt_def assertCircuitAllows_def open_since_def)
  then have a: "attempt_once cf p op e g = (Inl ?x, False, ?g)" by (simp add: attempt_once_def)
  have "\<not> again (maxAttempts cf opts) 1 p e ?x" using assms(3) by (simp add: again_def)
  from retry_loop_stop [of cf p op "\<lambda>n. e" 1 g, OF a this] assms(4)
  have "execute cf p op opts (\<lambda>n. e) g = (Inl (Domain_Error (toProviderDomainError ?x p)), [], [], ?g)" by (simp add: execute_def)
  moreover have "toProviderDomainError ?x p = normalizeProviderError ?x p" by (simp add: circuit_open_error_def)
  moreover have "open_since cf p op (ae_end e) ?g"
    using assms(1) by (auto simp: open_since_def recordFailure_def)
  ultimately show ?thesis by simp
qed

text \<open>C35: A provider that recovers stays shut off as long as it is asked for: once its circuit is open and requests
  come in less than the cooldown apart, every one is refused, none reaches the provider, and the circuit
  is open again since the last of them.\<close>

theorem busy_circuit_stays_open:
  assumes "open_since cf p op t g" and "spaced (circuitCooldownMs cf) t es"
    and "\<not> pe_retryable (normalizeProviderError (circuit_open_error p op) p)" and "\<And>e. e \<in> set es \<Longrightarrow> ae_hook e = None"
    and "requests cf p op opts es g = (rs, g')"
  shows "length rs = length es \<and> (\<forall>(r, cs) \<in> set rs. cs = [] \<and> r = Inl (Domain_Error (normalizeProviderError (circuit_open_error p op) p))) \<and>
    open_since cf p op (last (t # map ae_end es)) g'"
  using assms
proof (induction es arbitrary: t g rs)
  case Nil
  then show ?case by simp
next
  case (Cons e es)
  from open_refuses [OF Cons(2) _ Cons(4), of e opts] Cons(3,5) obtain g1 where
    x: "execute cf p op opts (\<lambda>n. e) g = (Inl (Domain_Error (normalizeProviderError (circuit_open_error p op) p)), [], [], g1)" and o1: "open_since cf p op (ae_end e) g1"
    by auto
  obtain rs' g2 where y: "requests cf p op opts es g1 = (rs', g2)" by (metis prod.collapse)
  with x Cons(6) have rs: "rs = (Inl (Domain_Error (normalizeProviderError (circuit_open_error p op) p)), []) # rs'" "g2 = g'" by simp_all
  have "spaced (circuitCooldownMs cf) (ae_end e) es" using Cons(3) by simp
  moreover have "\<And>e. e \<in> set es \<Longrightarrow> ae_hook e = None" using Cons(5) by simp
  ultimately show ?case using Cons(1) [OF o1 _ Cons(4) _ y [unfolded rs(2)]] rs(1) by simp
qed

section \<open>Concurrent requests\<close>

definition running :: "string \<Rightarrow> provider_world \<Rightarrow> nat" where
  "running k w = length (filter (\<lambda>x. getProviderKey (fst x) = k) (pw_running w))"

definition active_of :: "string \<Rightarrow> provider_guard \<Rightarrow> nat" where
  "active_of k g = (case pg_active g k of None \<Rightarrow> 0 | Some n \<Rightarrow> n)"

definition places_kept :: "retry_config \<Rightarrow> provider_world \<Rightarrow> bool" where
  "places_kept cf w \<longleftrightarrow> (\<forall>k. active_of k (pw_guard w) = running k w \<and> running k w \<le> maxConcurrentPerProvider cf)"

lemma assert_keeps_active: "assertCircuitAllows cf now p op g = (x, g') \<Longrightarrow> pg_active g' = pg_active g"
  by (auto simp: assertCircuitAllows_def Let_def split: option.splits if_splits)

lemma record_keeps_active [simp]: "pg_active (recordFailure cf now p op g) = pg_active g" "pg_active (recordSuccess p op g) = pg_active g"
  by (simp_all add: recordFailure_def recordSuccess_def Let_def)

lemma begin_active:
  assumes "begin_attempt cf now p op g = (x, g')"
  shows "if isl x then pg_active g' = pg_active g
    else active_of (getProviderKey p) g < maxConcurrentPerProvider cf \<and> pg_active g' = (pg_active g)(getProviderKey p \<mapsto> active_of (getProviderKey p) g + 1)"
proof (cases "assertCircuitAllows cf now p op g")
  case (Pair y g1)
  from assert_keeps_active [OF Pair] assms Pair show ?thesis
    by (cases y) (auto simp: begin_attempt_def enter_bulkhead_def active_of_def Let_def split: if_splits)
qed

lemma end_active:
  "pg_active (end_attempt cf now p op res g) = (pg_active g)(getProviderKey p := (if active_of (getProviderKey p) g \<le> 1 then None else Some (active_of (getProviderKey p) g - 1)))"
  by (cases res) (auto simp: end_attempt_def leave_bulkhead_def active_of_def Let_def split: option.splits nat.splits)

lemma places_step: "provider_step cf w w' \<Longrightarrow> places_kept cf w \<Longrightarrow> places_kept cf w'"
proof (induction rule: provider_step.induct)
  case (Call w p op u g)
  have a: "active_of k g = active_of k (pw_guard w) + (if k = getProviderKey p then 1 else 0)" for k
    using begin_active [OF Call(1)] by (simp add: active_of_def)
  have "active_of (getProviderKey p) (pw_guard w) < maxConcurrentPerProvider cf" using begin_active [OF Call(1)] by simp
  with Call(2) show ?case by (auto simp: places_kept_def running_def a)
next
  case (Refuse w p op e g)
  then show ?case using begin_active [OF Refuse(1)] by (simp add: places_kept_def running_def active_of_def)
next
  case (Finish w xs p op ys res)
  have a: "active_of k (end_attempt cf (pw_clock w) p op res (pw_guard w)) = active_of k (pw_guard w) - (if k = getProviderKey p then 1 else 0)" for k
    unfolding active_of_def [of k "end_attempt cf (pw_clock w) p op res (pw_guard w)"] end_active by (auto simp: active_of_def)
  have r: "running k w = running k (w\<lparr>pw_running := xs @ ys\<rparr>) + (if k = getProviderKey p then 1 else 0)" for k
    using Finish(1) by (simp add: running_def)
  have e: "running k (w\<lparr>pw_guard := h, pw_running := xs @ ys, pw_log := l\<rparr>) = running k (w\<lparr>pw_running := xs @ ys\<rparr>)" for k h l by (simp add: running_def)
  show ?case unfolding places_kept_def
  proof (rule allI)
    fix k
    from Finish(2) have "active_of k (pw_guard w) = running k w" "running k w \<le> maxConcurrentPerProvider cf" by (simp_all add: places_kept_def)
    then show "active_of k (pw_guard (w\<lparr>pw_guard := end_attempt cf (pw_clock w) p op res (pw_guard w), pw_running := xs @ ys,
          pw_log := (getCircuitKey p op, \<not> isl res) # pw_log w\<rparr>)) =
        running k (w\<lparr>pw_guard := end_attempt cf (pw_clock w) p op res (pw_guard w), pw_running := xs @ ys, pw_log := (getCircuitKey p op, \<not> isl res) # pw_log w\<rparr>) \<and>
        running k (w\<lparr>pw_guard := end_attempt cf (pw_clock w) p op res (pw_guard w), pw_running := xs @ ys, pw_log := (getCircuitKey p op, \<not> isl res) # pw_log w\<rparr>)
          \<le> maxConcurrentPerProvider cf"
      unfolding e using r [of k] by (simp add: a)
  qed
qed (simp add: places_kept_def running_def active_of_def)

text \<open>C32: A provider never has more than the configured number of calls under way, in every interleaving of requests,
  refusals, answers and errors, and no place is lost: the recorded number is the number of calls.\<close>

theorem concurrent_calls_bounded:
  assumes "(provider_step cf)\<^sup>*\<^sup>* w w'" and "provider_start w"
  shows "length (filter (\<lambda>x. getProviderKey (fst x) = k) (pw_running w')) \<le> maxConcurrentPerProvider cf \<and>
    (case pg_active (pw_guard w') k of None \<Rightarrow> 0 | Some n \<Rightarrow> n) = length (filter (\<lambda>x. getProviderKey (fst x) = k) (pw_running w'))"
proof -
  have "places_kept cf w" using assms(2) by (simp add: provider_start_def places_kept_def active_of_def running_def)
  with assms(1) have "places_kept cf w'" by (induction rule: rtranclp_induct) (auto intro: places_step)
  then show ?thesis by (auto simp: places_kept_def active_of_def running_def)
qed

text \<open>What a circuit has seen since its last success.\<close>

definition failures_since :: "string \<Rightarrow> (string \<times> bool) list \<Rightarrow> nat" where
  "failures_since k l = length (takeWhile (\<lambda>x. \<not> snd x) (filter (\<lambda>x. fst x = k) l))"

lemma failures_since_simps [simp]: "failures_since k [] = 0"
  "failures_since k ((j, b) # l) = (if j = k then if b then 0 else failures_since k l + 1 else failures_since k l)"
  by (simp_all add: failures_since_def)

definition circuit_true :: "retry_config \<Rightarrow> nat \<Rightarrow> circuit option \<Rightarrow> bool" where
  "circuit_true cf n x \<longleftrightarrow> (case x of None \<Rightarrow> n = 0
     | Some c \<Rightarrow> ci_failures c = n \<and> (ci_state c = CLOSED \<longleftrightarrow> n < circuitFailureThreshold cf) \<and> (ci_state c \<noteq> CLOSED \<longrightarrow> ci_opened c \<noteq> None))"

definition circuits_true :: "retry_config \<Rightarrow> (string \<times> bool) list \<Rightarrow> provider_guard \<Rightarrow> bool" where
  "circuits_true cf l g \<longleftrightarrow> (\<forall>k. circuit_true cf (failures_since k l) (pg_circuits g k))"

lemma threshold_pos [simp]: "0 < circuitFailureThreshold cf"
  by (simp add: circuitFailureThreshold_def)

lemma assert_circuits:
  assumes "assertCircuitAllows cf now p op g = (x, g')" "circuits_true cf l g"
  shows "circuits_true cf l g'"
proof -
  let ?k = "getCircuitKey p op"
  have "g' = g \<or> (\<exists>c. pg_circuits g ?k = Some c \<and> ci_state c \<noteq> CLOSED \<and>
      g' = g\<lparr>pg_circuits := (pg_circuits g)(?k \<mapsto> c\<lparr>ci_state := HALF_OPEN\<rparr>)\<rparr>)"
    using assms(1) by (auto simp: assertCircuitAllows_def Let_def split: option.splits if_splits)
  then show ?thesis
  proof
    assume "\<exists>c. pg_circuits g ?k = Some c \<and> ci_state c \<noteq> CLOSED \<and> g' = g\<lparr>pg_circuits := (pg_circuits g)(?k \<mapsto> c\<lparr>ci_state := HALF_OPEN\<rparr>)\<rparr>"
    then obtain c where c: "pg_circuits g ?k = Some c" "ci_state c \<noteq> CLOSED" "g' = g\<lparr>pg_circuits := (pg_circuits g)(?k \<mapsto> c\<lparr>ci_state := HALF_OPEN\<rparr>)\<rparr>" by blast
    have "circuit_true cf (failures_since ?k l) (Some c)" using assms(2) unfolding c(1) [symmetric] circuits_true_def by blast
    then have "circuit_true cf (failures_since ?k l) (Some (c\<lparr>ci_state := HALF_OPEN\<rparr>))" using c(2) by (simp add: circuit_true_def)
    with assms(2) c(3) show ?thesis by (simp add: circuits_true_def)
  qed (use assms(2) in simp)
qed

lemma begin_circuits:
  assumes "begin_attempt cf now p op g = (x, g')" "circuits_true cf l g"
  shows "circuits_true cf l g'"
proof (cases "assertCircuitAllows cf now p op g")
  case (Pair y g1)
  have "pg_circuits g' = pg_circuits g1"
    using assms(1) Pair by (cases y) (auto simp: begin_attempt_def enter_bulkhead_def Let_def split: if_splits)
  with assert_circuits [OF Pair assms(2)] show ?thesis by (simp add: circuits_true_def)
qed

lemma failure_circuits:
  assumes "circuits_true cf l g"
  shows "circuits_true cf ((getCircuitKey p op, False) # l) (recordFailure cf now p op g)"
proof -
  let ?k = "getCircuitKey p op"
  have "circuit_true cf (failures_since ?k l) (pg_circuits g ?k)" using assms by (simp add: circuits_true_def)
  then have "circuit_true cf (failures_since ?k l + 1) (pg_circuits (recordFailure cf now p op g) ?k)"
    by (cases "pg_circuits g ?k") (auto simp: circuit_true_def recordFailure_def Let_def)
  moreover have "pg_circuits (recordFailure cf now p op g) k = pg_circuits g k" if "k \<noteq> ?k" for k
    using that by (simp add: recordFailure_def Let_def)
  ultimately show ?thesis using assms by (simp add: circuits_true_def)
qed

lemma success_circuits:
  assumes "circuits_true cf l g"
  shows "circuits_true cf ((getCircuitKey p op, True) # l) (recordSuccess p op g)"
proof -
  have "circuit_true cf 0 (pg_circuits (recordSuccess p op g) (getCircuitKey p op))" by (simp add: circuit_true_def recordSuccess_def)
  moreover have "pg_circuits (recordSuccess p op g) k = pg_circuits g k" if "k \<noteq> getCircuitKey p op" for k
    using that by (simp add: recordSuccess_def)
  ultimately show ?thesis using assms by (simp add: circuits_true_def)
qed

lemma leave_circuits [simp]: "circuits_true cf l (leave_bulkhead p g) = circuits_true cf l g"
  by (simp add: circuits_true_def leave_bulkhead_def Let_def)

lemma circuits_step: "provider_step cf w w' \<Longrightarrow> circuits_true cf (pw_log w) (pw_guard w) \<Longrightarrow> circuits_true cf (pw_log w') (pw_guard w')"
proof (induction rule: provider_step.induct)
  case (Finish w xs p op ys res)
  then show ?case by (cases res) (simp_all add: end_attempt_def failure_circuits success_circuits)
qed (auto intro: begin_circuits failure_circuits)

text \<open>C34: The state of a circuit is what it has seen: in every interleaving its count is the number of failures (refusals
  among them) since its last success, and it is closed exactly while they are fewer than the threshold.\<close>

theorem circuit_counts_failures:
  assumes "(provider_step cf)\<^sup>*\<^sup>* w w'" and "provider_start w" and "pg_circuits (pw_guard w') k = Some c"
  shows "ci_failures c = failures_since k (pw_log w') \<and> (ci_state c = CLOSED \<longleftrightarrow> failures_since k (pw_log w') < circuitFailureThreshold cf)"
proof -
  have "circuits_true cf (pw_log w) (pw_guard w)" using assms(2) by (simp add: provider_start_def circuits_true_def circuit_true_def)
  with assms(1) have "circuits_true cf (pw_log w') (pw_guard w')" by (induction rule: rtranclp_induct) (auto intro: circuits_step)
  then have "circuit_true cf (failures_since k (pw_log w')) (Some c)" unfolding circuits_true_def assms(3) [symmetric] by blast
  then show ?thesis by (simp add: circuit_true_def)
qed

section \<open>Examples\<close>

definition sample_retry :: retry_config where
  "sample_retry = \<lparr>rc_attempts = 3, rc_delay = 250, rc_threshold = 5, rc_cooldown = 60000, rc_concurrent = 10\<rparr>"

definition sample_provider :: provider where
  "sample_provider = \<lparr>pv_id = ''p1'', pv_name = ''Azam'', pv_metadata = Map.empty\<rparr>"

definition no_options :: retry_options where
  "no_options = \<lparr>ro_attempts = None, ro_delay = None\<rparr>"

definition no_guard :: provider_guard where
  "no_guard = \<lparr>pg_circuits = Map.empty, pg_active = Map.empty\<rparr>"

definition sample_attempt :: "int \<Rightarrow> thrown + unit \<Rightarrow> unit attempt_env" where
  "sample_attempt t x = \<lparr>ae_start = t, ae_answer = x, ae_end = t, ae_hook = None, ae_during = id, ae_pause = id\<rparr>"

abbreviation payout :: string where
  "payout \<equiv> ''DISBURSEMENT_REQUEST''"

lemma sample_numbers: "maxAttempts sample_retry no_options = 3" "circuitFailureThreshold sample_retry = 5" "circuitCooldownMs sample_retry = 60000"
  "getCircuitKey sample_provider payout = ''p1:DISBURSEMENT_REQUEST''"
  by (simp_all add: sample_retry_def no_options_def maxAttempts_def configured_def circuitFailureThreshold_def circuitCooldownMs_def
      getCircuitKey_def getProviderKey_def sample_provider_def)

lemma timeout_retryable: "pe_retryable (normalizeProviderError (Thrown ''TIMEOUT'' None) sample_provider)"
  by code_simp

lemma refusal_not_retryable: "\<not> pe_retryable (normalizeProviderError (circuit_open_error sample_provider payout) sample_provider)"
  by code_simp

lemma request_attempts_bounded_witness:
  "\<exists>k < 3. set (fst (snd (execute sample_retry sample_provider payout no_options (\<lambda>n. sample_attempt 0 (Inl (Thrown ''TIMEOUT'' None))) no_guard))) \<subseteq> {1..k + 1}"
  using request_attempts_bounded [where cf = sample_retry and p = sample_provider and op = payout and opts = no_options
      and env = "\<lambda>n. sample_attempt 0 (Inl (Thrown ''TIMEOUT'' None))" and g = no_guard]
  unfolding sample_numbers by (auto split: prod.splits)

lemma timed_out_call_is_repeated_witness:
  "fst (snd (execute sample_retry sample_provider payout no_options (\<lambda>n. sample_attempt 0 (Inl (Thrown ''TIMEOUT'' None))) no_guard)) = [1, 2, 3]"
proof -
  have "fst (snd (execute sample_retry sample_provider payout no_options (\<lambda>n. sample_attempt 0 (Inl (Thrown ''TIMEOUT'' None))) no_guard)) =
      [1..<Suc (maxAttempts sample_retry no_options)]"
    by (rule timed_out_call_is_repeated) (use timeout_retryable in \<open>simp_all add: sample_attempt_def no_guard_def sample_numbers\<close>)
  then show ?thesis by (simp add: sample_numbers upt_rec)
qed

text \<open>The provider would answer both requests.\<close>

lemma busy_circuit_stays_open_witness:
  "map snd (fst (requests sample_retry sample_provider payout no_options [sample_attempt 50000 (Inr ()), sample_attempt 100000 (Inr ())]
      (no_guard\<lparr>pg_circuits := [''p1:DISBURSEMENT_REQUEST'' \<mapsto> \<lparr>ci_state = OPEN, ci_failures = 5, ci_opened = Some 0\<rparr>]\<rparr>))) = [[], []]"
proof -
  let ?es = "[sample_attempt 50000 (Inr ()), sample_attempt 100000 (Inr ())]"
  let ?g = "no_guard\<lparr>pg_circuits := [''p1:DISBURSEMENT_REQUEST'' \<mapsto> \<lparr>ci_state = OPEN, ci_failures = 5, ci_opened = Some 0\<rparr>]\<rparr>"
  obtain rs g' where r: "requests sample_retry sample_provider payout no_options ?es ?g = (rs, g')" by (metis prod.collapse)
  have o: "open_since sample_retry sample_provider payout 0 ?g" by (simp add: open_since_def sample_numbers)
  have s: "spaced (circuitCooldownMs sample_retry) 0 ?es" by (simp add: sample_numbers sample_attempt_def)
  have h: "\<And>e. e \<in> set ?es \<Longrightarrow> ae_hook e = None" by (auto simp: sample_attempt_def)
  from busy_circuit_stays_open [OF o s refusal_not_retryable h r] have x: "length rs = 2" "\<forall>(r, cs) \<in> set rs. cs = []" by auto
  then obtain a b where "rs = [a, b]" by (auto simp: numeral_2_eq_2 length_Suc_conv)
  with x(2) r show ?thesis by (cases a; cases b) simp
qed

definition world_before :: provider_world where
  "world_before = \<lparr>pw_guard = no_guard, pw_clock = 0, pw_running = [], pw_log = []\<rparr>"

definition one_call :: provider_guard where
  "one_call = no_guard\<lparr>pg_active := [''p1'' \<mapsto> 1]\<rparr>"

lemma sample_begin: "begin_attempt sample_retry 0 sample_provider payout no_guard = (Inr (), one_call)"
  by (simp add: begin_attempt_def assertCircuitAllows_def enter_bulkhead_def no_guard_def one_call_def sample_retry_def maxConcurrentPerProvider_def
      getProviderKey_def sample_provider_def)

lemma sample_call: "provider_step sample_retry world_before (world_before\<lparr>pw_guard := one_call, pw_running := [(sample_provider, payout)]\<rparr>)"
  using provider_step.Call [of sample_retry world_before sample_provider payout "()" one_call] sample_begin by (simp add: world_before_def)

lemma world_before_start: "provider_start world_before"
  by (simp add: provider_start_def world_before_def no_guard_def)

lemma concurrent_calls_bounded_witness:
  "pg_active one_call ''p1'' = Some 1 \<and> length (filter (\<lambda>x. getProviderKey (fst x) = ''p1'') [(sample_provider, payout)]) \<le> maxConcurrentPerProvider sample_retry"
  using concurrent_calls_bounded [OF r_into_rtranclp [of "provider_step sample_retry", OF sample_call] world_before_start, of "''p1''"]
  by (simp add: one_call_def)

definition one_failure :: provider_guard where
  "one_failure = end_attempt sample_retry 0 sample_provider payout (Inl (Thrown ''TIMEOUT'' None) :: thrown + unit) one_call"

lemma circuit_counts_failures_witness:
  "\<exists>c. pg_circuits one_failure ''p1:DISBURSEMENT_REQUEST'' = Some c \<and> ci_failures c = failures_since ''p1:DISBURSEMENT_REQUEST'' [(''p1:DISBURSEMENT_REQUEST'', False)]"
proof -
  let ?w = "world_before\<lparr>pw_guard := one_call, pw_running := [(sample_provider, payout)]\<rparr>"
  let ?v = "?w\<lparr>pw_guard := one_failure, pw_running := [], pw_log := [(''p1:DISBURSEMENT_REQUEST'', False)]\<rparr>"
  have "provider_step sample_retry ?w ?v"
    using provider_step.Finish [of ?w "[]" sample_provider payout "[]" sample_retry "Inl (Thrown ''TIMEOUT'' None)"]
    by (simp add: world_before_def one_failure_def sample_numbers)
  with sample_call have r: "(provider_step sample_retry)\<^sup>*\<^sup>* world_before ?v" by (meson converse_rtranclp_into_rtranclp r_into_rtranclp)
  obtain c where c: "pg_circuits one_failure ''p1:DISBURSEMENT_REQUEST'' = Some c"
    by (auto simp: one_failure_def end_attempt_def recordFailure_def sample_numbers Let_def)
  then have "pg_circuits (pw_guard ?v) ''p1:DISBURSEMENT_REQUEST'' = Some c" by simp
  from circuit_counts_failures [OF r world_before_start this] c show ?thesis by simp
qed

end
