(* ===== verification/Card_Processor.thy ===== *)
theory Card_Processor
  imports Fee_Classifier
begin

text \<open>
  Payment cards, \<open>backend/payments/cardProcessor.ts\<close>: the checks of a card number, its brand, the token that
  stands for it, its expiry, and the authorisation and refund of card payments on the tables
  \<open>card_tokens\<close> and \<open>card_transactions\<close>.

  Encryption and the digest of the fingerprint are parameters, so are the risk score and the offset of
  the local time zone (one offset per request). The settlement, which hands the payment to the payment
  engines, is not part of this theory.
\<close>

section \<open>Card numbers\<close>

definition is_digit :: "char \<Rightarrow> bool" where
  "is_digit c \<longleftrightarrow> 48 \<le> (of_char c :: nat) \<and> (of_char c :: nat) \<le> 57"

definition digit_of :: "char \<Rightarrow> nat" where
  "digit_of c = of_char c - 48"

definition luhn_digit :: "bool \<Rightarrow> nat \<Rightarrow> nat" where
  "luhn_digit dbl d = (if dbl then (if 9 < 2 * d then 2 * d - 9 else 2 * d) else d)"

text \<open>The sum over the digits from the last one on.\<close>

fun luhn_sum :: "bool \<Rightarrow> nat list \<Rightarrow> nat" where
  "luhn_sum dbl [] = 0"
| "luhn_sum dbl (d # ds) = luhn_digit dbl d + luhn_sum (\<not> dbl) ds"

definition sanitized :: "string \<Rightarrow> string" where
  "sanitized s = filter is_digit s"

definition validateCardNumber :: "string \<Rightarrow> bool" where
  "validateCardNumber s = (let t = sanitized s in 13 \<le> length t \<and> length t \<le> 19 \<and> luhn_sum False (rev (map digit_of t)) mod 10 = 0)"

datatype card_brand = VISA | MASTERCARD | AMEX | DISCOVERY

definition detectCardBrand :: "string \<Rightarrow> card_brand outcome" where
  "detectCardBrand s =
     (let t = sanitized s; n = length t; d = (\<lambda>i. if i < n then digit_of (t ! i) else 0) in
      if (n = 13 \<or> n = 16) \<and> d 0 = 4 then Inr VISA
      else if n = 16 \<and> d 0 = 5 \<and> 1 \<le> d 1 \<and> d 1 \<le> 5 then Inr MASTERCARD
      else if n = 15 \<and> d 0 = 3 \<and> (d 1 = 4 \<or> d 1 = 7) then Inr AMEX
      else if n = 16 \<and> d 0 = 6 \<and> (d 1 = 0 \<and> d 2 = 1 \<and> d 3 = 1 \<or> d 1 = 5) then Inr DISCOVERY
      else throw ''UNSUPPORTED_CARD_BRAND'')"

text \<open>\<open>s.slice(-4)\<close>.\<close>

definition last_four :: "string \<Rightarrow> string" where
  "last_four s = drop (length s - 4) s"

section \<open>Dates\<close>

text \<open>
  \<open>new Date(year, month, date)\<close> in milliseconds: the day of a month that may lie outside the year and of a
  date that may lie outside the month, at local midnight; years 0 to 99 count from 1900.
\<close>

definition day_from_year :: "int \<Rightarrow> int" where
  "day_from_year y = 365 * (y - 1970) + (y - 1969) div 4 - (y - 1901) div 100 + (y - 1601) div 400"

definition leap_year :: "int \<Rightarrow> bool" where
  "leap_year y \<longleftrightarrow> y mod 4 = 0 \<and> (y mod 100 \<noteq> 0 \<or> y mod 400 = 0)"

definition month_start :: "bool \<Rightarrow> int \<Rightarrow> int" where
  "month_start leap m = (let d = [0, 31, 59, 90, 120, 151, 181, 212, 243, 273, 304, 334] ! nat m in if leap \<and> 1 < m then d + 1 else d)"

definition js_date :: "int \<Rightarrow> int \<Rightarrow> int \<Rightarrow> int \<Rightarrow> int" where
  "js_date offset year month date =
     (let y = (if 0 \<le> year \<and> year \<le> 99 then 1900 + year else year); ym = y + month div 12; mn = month mod 12 in
      (day_from_year ym + month_start (leap_year ym) mn + date - 1) * 86400000 - offset)"

definition isCardExpired :: "int \<Rightarrow> int \<Rightarrow> int \<Rightarrow> int \<Rightarrow> bool" where
  "isCardExpired offset now month year \<longleftrightarrow> js_date offset year (month - 1) 0 < now"

section \<open>Tokens\<close>

record card_request =
  cr_number :: string
  cr_month :: int
  cr_year :: int
  cr_cvv :: string
  cr_holder :: string

record card_token =
  ct_id :: string
  ct_user :: string
  ct_masked :: string
  ct_number :: string
  ct_month :: int
  ct_year :: int
  ct_holder :: string
  ct_brand :: card_brand
  ct_last_four :: string
  ct_fingerprint :: string
  ct_status :: string
  ct_cvv :: string
  ct_created :: int
  ct_expires :: int

record card_tx =
  cx_id :: string
  cx_token :: string
  cx_user :: string
  cx_amount :: rat
  cx_currency :: string
  cx_status :: string
  cx_response :: string
  cx_created :: int

record card_store =
  cs_tokens :: "card_token list"
  cs_txs :: "card_tx list"

text \<open>Encryption under a domain and a user, the fingerprint, the new identifier, the time and the answer of the insert.\<close>

record card_env =
  ce_encrypt :: "string \<Rightarrow> string \<Rightarrow> string \<Rightarrow> string"
  ce_fingerprint :: "string \<Rightarrow> string"
  ce_uuid :: string
  ce_now :: int
  ce_offset :: int
  ce_insert :: "js_error option"
  ce_risk :: rat

definition tokenizeCard :: "card_env \<Rightarrow> string \<Rightarrow> card_request \<Rightarrow> card_store \<Rightarrow> card_token outcome \<times> card_store" where
  "tokenizeCard env user r s =
     (if \<not> validateCardNumber (cr_number r) then (throw ''Invalid card number (Luhn check failed)'', s)
      else case detectCardBrand (cr_number r) of
        Inl e \<Rightarrow> (Inl e, s)
      | Inr brand \<Rightarrow>
          (let four = last_four (cr_number r);
               t = \<lparr>ct_id = ''ct_'' @ ce_uuid env, ct_user = user, ct_masked = ''****-****-****-'' @ four,
                 ct_number = ce_encrypt env ''PCI_CARD_NUMBER'' user (cr_number r), ct_month = cr_month r, ct_year = cr_year r, ct_holder = cr_holder r,
                 ct_brand = brand, ct_last_four = four, ct_fingerprint = ce_fingerprint env (cr_number r @ ''card_fingerprint''), ct_status = ''ACTIVE'',
                 ct_cvv = ce_encrypt env ''PCI_CVV'' user (cr_cvv r), ct_created = ce_now env,
                 ct_expires = js_date (ce_offset env) (cr_year r) (cr_month r) 0\<rparr> in
           case ce_insert env of
             Some e \<Rightarrow> (throw (''Card tokenization failed: '' @ err_message e), s)
           | None \<Rightarrow> (Inr t, s\<lparr>cs_tokens := cs_tokens s @ [t]\<rparr>)))"

definition token_of :: "string \<Rightarrow> string \<Rightarrow> card_store \<Rightarrow> card_token option" where
  "token_of i user s = single (sel (\<lambda>t. ct_id t = i \<and> ct_user t = user) (cs_tokens s))"

text \<open>The active tokens, the newest first.\<close>

definition listCardTokens :: "string \<Rightarrow> card_store \<Rightarrow> card_token list" where
  "listCardTokens user s = sort_key (\<lambda>t. - ct_created t) (sel (\<lambda>t. ct_user t = user \<and> ct_status t = ''ACTIVE'') (cs_tokens s))"

definition deleteCardToken :: "js_error option \<Rightarrow> string \<Rightarrow> string \<Rightarrow> card_store \<Rightarrow> unit outcome \<times> card_store" where
  "deleteCardToken fault i user s = (case fault of
     Some e \<Rightarrow> (throw (''Failed to delete card token: '' @ err_message e), s)
   | None \<Rightarrow> (Inr (), s\<lparr>cs_tokens := upd (\<lambda>t. ct_id t = i \<and> ct_user t = user) (\<lambda>t. t\<lparr>ct_status := ''INACTIVE''\<rparr>) (cs_tokens s)\<rparr>))"

section \<open>Payments\<close>

record card_payment =
  cp_token :: string
  cp_amount :: rat
  cp_currency :: string

definition performAuthorization :: "card_token \<Rightarrow> card_payment \<Rightarrow> rat \<Rightarrow> bool outcome" where
  "performAuthorization t r risk = throw ''CARD_PROCESSOR_PROVIDER_NOT_CONFIGURED''"

definition createFailedTransaction :: "card_env \<Rightarrow> card_payment \<Rightarrow> string \<Rightarrow> card_tx" where
  "createFailedTransaction env r code = \<lparr>cx_id = ''ctxn_'' @ ce_uuid env, cx_token = cp_token r, cx_user = [], cx_amount = cp_amount r,
     cx_currency = cp_currency r, cx_status = ''DECLINED'', cx_response = code, cx_created = ce_now env\<rparr>"

definition authorizeCardPayment :: "card_env \<Rightarrow> string \<Rightarrow> card_payment \<Rightarrow> card_store \<Rightarrow> card_tx outcome \<times> card_store" where
  "authorizeCardPayment env user r s =
     (case token_of (cp_token r) user s of
        None \<Rightarrow> (throw ''Card token not found or inactive'', s)
      | Some t \<Rightarrow>
          if ct_status t \<noteq> ''ACTIVE'' then (throw ''Card token not found or inactive'', s)
          else if isCardExpired (ce_offset env) (ce_now env) (ct_month t) (ct_year t) then (throw ''Card has expired'', s)
          else if 85 < ce_risk env then (Inr (createFailedTransaction env r ''BLOCKED_BY_FRAUD_ENGINE''), s)
          else case performAuthorization t r (ce_risk env) of
              Inl e \<Rightarrow> (Inl e, s)
            | Inr ok \<Rightarrow>
                (let x = \<lparr>cx_id = ''ctxn_'' @ ce_uuid env, cx_token = cp_token r, cx_user = user, cx_amount = cp_amount r, cx_currency = cp_currency r,
                   cx_status = (if ok then ''AUTHORIZED'' else ''DECLINED''), cx_response = [], cx_created = ce_now env\<rparr> in
                 case ce_insert env of
                   Some e \<Rightarrow> (throw (''Failed to record card transaction: '' @ err_message e), s)
                 | None \<Rightarrow> (Inr x, s\<lparr>cs_txs := cs_txs s @ [x]\<rparr>)))"

definition tx_of :: "string \<Rightarrow> string \<Rightarrow> card_store \<Rightarrow> card_tx option" where
  "tx_of i user s = single (sel (\<lambda>x. cx_id x = i \<and> cx_user x = user) (cs_txs s))"

definition refundCardPayment :: "card_env \<Rightarrow> string \<Rightarrow> string \<Rightarrow> card_store \<Rightarrow> (string \<times> rat) outcome \<times> card_store" where
  "refundCardPayment env i user s =
     (case tx_of i user s of
        None \<Rightarrow> (throw ''Original transaction not found'', s)
      | Some x \<Rightarrow>
          if cx_status x \<notin> {''SETTLED'', ''AUTHORIZED''} then (throw ''Only settled or authorized transactions can be refunded'', s)
          else case ce_insert env of
              Some e \<Rightarrow> (throw (''Refund failed: '' @ err_message e), s)
            | None \<Rightarrow> (Inr (''refund_'' @ ce_uuid env, cx_amount x),
                s\<lparr>cs_txs := cs_txs s @ [\<lparr>cx_id = ''refund_'' @ ce_uuid env, cx_token = cx_token x, cx_user = user, cx_amount = - cx_amount x,
                  cx_currency = cx_currency x, cx_status = ''SETTLED'', cx_response = ''REFUND'', cx_created = ce_now env\<rparr>]\<rparr>))"

end
