(* ===== verification/Card_Properties.thy ===== *)
theory Card_Properties
  imports Card_Processor
begin

text \<open>
  Card numbers with a mistyped digit or two exchanged neighbours are refused; the month in which a card is
  refused; what the authorisation and the refund of a payment can do.
\<close>

section \<open>The check digit\<close>

lemma luhn_append: "luhn_sum b (xs @ ys) = luhn_sum b xs + luhn_sum (b \<noteq> odd (length xs)) ys"
proof (induction xs arbitrary: b)
  case (Cons x xs)
  have "((\<not> b) \<noteq> odd (length xs)) = (b \<noteq> odd (length (x # xs)))" by auto
  then show ?case unfolding append_Cons luhn_sum.simps Cons by (simp only: add.assoc)
qed simp

lemma digit_of_bound: "is_digit c \<Longrightarrow> digit_of c < 10"
  by (auto simp: is_digit_def digit_of_def)

lemma digit_of_inj: "is_digit c \<Longrightarrow> is_digit d \<Longrightarrow> digit_of c = digit_of d \<Longrightarrow> c = d"
  by (metis add_diff_inverse_nat digit_of_def is_digit_def leD of_char_eq_iff)

lemma luhn_digits: "\<forall>b. \<forall>c \<in> set [0..<10]. \<forall>d \<in> set [0..<10]. luhn_digit b c mod 10 = luhn_digit b d mod 10 \<longrightarrow> c = d"
  by code_simp

lemma luhn_pairs: "\<forall>b. \<forall>c \<in> set [0..<10]. \<forall>d \<in> set [0..<10].
   (luhn_digit b c + luhn_digit (\<not> b) d) mod 10 = (luhn_digit b d + luhn_digit (\<not> b) c) mod 10 \<longrightarrow> c = d \<or> c = 0 \<and> d = 9 \<or> c = 9 \<and> d = 0"
  by code_simp

lemma luhn_digit_inj: "c < 10 \<Longrightarrow> d < 10 \<Longrightarrow> luhn_digit b c mod 10 = luhn_digit b d mod 10 \<Longrightarrow> c = d"
  by (rule luhn_digits [rule_format]) simp_all

lemma luhn_swap:
  assumes "c < 10" "d < 10" "c \<noteq> d" "\<not> (c = 0 \<and> d = 9 \<or> c = 9 \<and> d = 0)"
  shows "(luhn_digit b c + luhn_digit (\<not> b) d) mod 10 \<noteq> (luhn_digit b d + luhn_digit (\<not> b) c) mod 10"
proof
  assume "(luhn_digit b c + luhn_digit (\<not> b) d) mod 10 = (luhn_digit b d + luhn_digit (\<not> b) c) mod 10"
  then have "c = d \<or> c = 0 \<and> d = 9 \<or> c = 9 \<and> d = 0" using assms(1,2) by (intro luhn_pairs [rule_format]) simp_all
  with assms(3,4) show False by blast
qed

lemma add_mod_cancel: "(p + q) mod 10 = (p + r) mod 10 \<longleftrightarrow> q mod 10 = (r::nat) mod 10"
proof
  assume "(p + q) mod 10 = (p + r) mod 10"
  then have "(int p + int q) mod 10 = (int p + int r) mod 10" by (metis of_nat_add of_nat_mod of_nat_numeral)
  then have "(int p + int q - int p) mod 10 = (int p + int r - int p) mod 10" by (rule mod_diff_cong) simp
  then have "int (q mod 10) = int (r mod 10)" by (simp add: of_nat_mod)
  then show "q mod 10 = r mod 10" by simp
qed (metis mod_add_right_eq)

lemma mod_sum_neq:
  assumes "(x::nat) mod 10 \<noteq> y mod 10" "(a + (x + b)) mod 10 = 0"
  shows "(a + (y + b)) mod 10 \<noteq> 0"
proof
  assume "(a + (y + b)) mod 10 = 0"
  with assms(2) have "(a + b + x) mod 10 = (a + b + y) mod 10" by (metis add.assoc add.commute)
  with assms(1) show False by (simp add: add_mod_cancel)
qed

lemma sanitized_append [simp]: "sanitized (a @ b) = sanitized a @ sanitized b" "sanitized (c # b) = (if is_digit c then c # sanitized b else sanitized b)"
  by (simp_all add: sanitized_def)



section \<open>The last month of a card\<close>

text \<open>A card is refused during the whole month it expires in: at every time of its expiry month the payment
  check takes the card as expired, while the expiry its own token records is the last day of that month.\<close>

theorem card_refused_in_its_last_month:
  assumes "js_date offset year (month - 1) 1 \<le> now" and "now < js_date offset year month 1"
  shows "isCardExpired offset now month year \<and> now < js_date offset year month 0 + 86400000"
proof -
  have "js_date offset y m 1 = js_date offset y m 0 + 86400000" for y m by (simp add: js_date_def Let_def algebra_simps)
  with assms show ?thesis by (simp add: isCardExpired_def)
qed

text \<open>The 15th of May 2026, for a card that is valid to the end of May 2026.\<close>

lemma card_refused_in_its_last_month_witness:
  "js_date 0 2026 4 15 = 1778803200000 \<and> isCardExpired 0 1778803200000 5 2026 \<and> js_date 0 2026 5 0 = 1780185600000"
proof -
  have d: "js_date 0 2026 4 15 = 1778803200000" "js_date 0 2026 5 0 = 1780185600000" by code_simp+
  have "js_date 0 2026 (5 - 1) 1 \<le> 1778803200000" "1778803200000 < js_date 0 2026 5 1" by code_simp+
  from card_refused_in_its_last_month [OF this] d show ?thesis by simp
qed

section \<open>Payments\<close>

text \<open>No card payment is ever authorised or recorded: whatever the token, the time, the risk and the database
  answer, an authorisation leaves the tables as they are and ends with an error or a declined payment.\<close>

theorem authorization_never_succeeds:
  "snd (authorizeCardPayment env user r s) = s \<and>
    (case fst (authorizeCardPayment env user r s) of Inl e \<Rightarrow> True | Inr x \<Rightarrow> cx_status x = ''DECLINED'' \<and> cx_user x = [])"
  by (auto simp: authorizeCardPayment_def performAuthorization_def createFailedTransaction_def split: option.splits)

text \<open>Refunds of one payment, one after the other.\<close>

fun refunds :: "string \<Rightarrow> string \<Rightarrow> card_env list \<Rightarrow> card_store \<Rightarrow> (string \<times> rat) outcome list \<times> card_store" where
  "refunds i user [] s = ([], s)"
| "refunds i user (e # es) s = (case refundCardPayment e i user s of (x, s1) \<Rightarrow> (case refunds i user es s1 of (xs, s2) \<Rightarrow> (x # xs, s2)))"

text \<open>A payment is refunded as often as it is asked for: every one of a list of refunds of a settled or authorised
  payment succeeds, each for the whole amount.\<close>

theorem refund_repeats:
  assumes "tx_of i user s = Some x" and "cx_status x \<in> {''SETTLED'', ''AUTHORIZED''}"
    and "\<And>e. e \<in> set es \<Longrightarrow> ce_insert e = None \<and> ''refund_'' @ ce_uuid e \<noteq> i" and "refunds i user es s = (xs, s')"
  shows "map (map_sum id snd) xs = map (\<lambda>e. Inr (cx_amount x)) es \<and>
    sum_list (map cx_amount (cs_txs s')) = sum_list (map cx_amount (cs_txs s)) - of_nat (length es) * cx_amount x"
  using assms
proof (induction es arbitrary: s xs)
  case Nil
  then show ?case by simp
next
  case (Cons e es)
  let ?y = "\<lparr>cx_id = ''refund_'' @ ce_uuid e, cx_token = cx_token x, cx_user = user, cx_amount = - cx_amount x,
                  cx_currency = cx_currency x, cx_status = ''SETTLED'', cx_response = ''REFUND'', cx_created = ce_now e\<rparr>"
  let ?s = "s\<lparr>cs_txs := cs_txs s @ [?y]\<rparr>"
  have f: "ce_insert e = None" "''refund_'' @ ce_uuid e \<noteq> i" using Cons(4) by auto
  have a: "refundCardPayment e i user s = (Inr (''refund_'' @ ce_uuid e, cx_amount x), ?s)"
    using Cons(2,3) f(1) by (simp add: refundCardPayment_def del: append.simps)
  have t: "tx_of i user ?s = Some x" using Cons(2) f(2) by (simp add: tx_of_def sel_def del: append.simps)
  obtain ys s2 where y: "refunds i user es ?s = (ys, s2)" by (metis prod.collapse)
  with a Cons(5) have xs: "xs = Inr (''refund_'' @ ce_uuid e, cx_amount x) # ys" "s2 = s'" by simp_all
  from Cons(1) [OF t Cons(3) _ y [unfolded xs(2)]] Cons(4) xs(1) show ?case by (simp add: algebra_simps del: append.simps)
qed

definition sample_card_env :: "string \<Rightarrow> card_env" where
  "sample_card_env i = \<lparr>ce_encrypt = (\<lambda>d u t. t), ce_fingerprint = (\<lambda>t. t), ce_uuid = i, ce_now = 0, ce_offset = 0, ce_insert = None, ce_risk = 0\<rparr>"

definition settled_payment :: card_tx where
  "settled_payment = \<lparr>cx_id = ''c1'', cx_token = ''ct_1'', cx_user = ''u1'', cx_amount = 40, cx_currency = ''USD'', cx_status = ''SETTLED'', cx_response = [], cx_created = 0\<rparr>"

lemma refund_repeats_witness:
  "sum_list (map cx_amount (cs_txs (snd (refunds ''c1'' ''u1'' [sample_card_env ''1'', sample_card_env ''2'', sample_card_env ''3''] \<lparr>cs_tokens = [], cs_txs = [settled_payment]\<rparr>)))) = - 80"
proof -
  let ?es = "[sample_card_env ''1'', sample_card_env ''2'', sample_card_env ''3'']" and ?s = "\<lparr>cs_tokens = [], cs_txs = [settled_payment]\<rparr>"
  obtain xs s' where r: "refunds ''c1'' ''u1'' ?es ?s = (xs, s')" by (metis prod.collapse)
  have t: "tx_of ''c1'' ''u1'' ?s = Some settled_payment" by (simp add: tx_of_def settled_payment_def)
  have st: "cx_status settled_payment \<in> {''SETTLED'', ''AUTHORIZED''}" by (simp add: settled_payment_def)
  have "\<And>e. e \<in> set ?es \<Longrightarrow> ce_insert e = None \<and> ''refund_'' @ ce_uuid e \<noteq> ''c1''" by (auto simp: sample_card_env_def)
  from refund_repeats [OF t st this r] r show ?thesis by (simp add: settled_payment_def)
qed

end
