(* ===== verification/Institutional_Funds.thy ===== *)
theory Institutional_Funds
  imports Settlement_Scheduler
begin

text \<open>
  Movements of money between the platform and the outside, \<open>backend/payments/InstitutionalFundsService.ts\<close>,
  and the dispatch of a provider's callback to them (\<open>applyNormalizedCallback\<close> of
  \<open>backend/payments/webhookHandler.ts\<close>). A movement is recorded when it is requested; the callback of the
  provider posts it to the ledger, against an account of the institution.

  The vaults of the user, the wallet a request names, the choice of a provider and the goal allocations that
  follow a deposit are given by the environment of a call. Audit entries are left out, as is the branch of the
  commit that inserts a movement, since every caller passes an existing one.
\<close>

section \<open>Rows\<close>

datatype fund_direction = Internal_To_External | External_To_Internal | External_To_External

fun direction_text :: "fund_direction \<Rightarrow> string" where
  "direction_text Internal_To_External = ''INTERNAL_TO_EXTERNAL''"
| "direction_text External_To_Internal = ''EXTERNAL_TO_INTERNAL''"
| "direction_text External_To_External = ''EXTERNAL_TO_EXTERNAL''"

definition direction_of :: "string \<Rightarrow> fund_direction option" where
  "direction_of t = find (\<lambda>d. direction_text d = t) [Internal_To_External, External_To_Internal, External_To_External]"

record inst_account =
  ia_id :: string
  ia_role :: string
  ia_provider :: "string option"
  ia_bank_name :: string
  ia_account_name :: string
  ia_account_number :: string
  ia_currency :: string
  ia_country :: "string option"
  ia_status :: string
  ia_primary :: bool
  ia_metadata :: metadata
  ia_created :: int
  ia_updated :: int

record fund_movement =
  fm_id :: string
  fm_user :: string
  fm_direction :: fund_direction
  fm_status :: string
  fm_provider :: "string option"
  fm_source_account :: "string option"
  fm_target_account :: "string option"
  fm_tx :: "string option"
  fm_source_wallet :: "string option"
  fm_target_wallet :: "string option"
  fm_gross :: rat
  fm_net :: rat
  fm_fee :: rat
  fm_tax :: rat
  fm_currency :: string
  fm_description :: string
  fm_reference :: "string option"
  fm_source_ref :: "string option"
  fm_target_ref :: "string option"
  fm_lifecycle :: "string option"
  fm_event :: "string option"
  fm_metadata :: metadata
  fm_created :: int
  fm_updated :: int

text \<open>The wallet of a request (\<open>user_id\<close>, \<open>type\<close>, \<open>is_primary\<close>) and the answer of the provider routing.\<close>

record wallet_info =
  wi_user :: "string option"
  wi_type :: "string option"
  wi_primary :: bool

record routing_query =
  rq_rail :: string
  rq_operation :: string
  rq_country :: "string option"
  rq_currency :: string
  rq_preferred :: "string option"

record routed_provider =
  rp_provider :: string
  rp_code :: string
  rp_rail :: string
  rp_operation :: string
  rp_decision :: "jsv option"

text \<open>The state the service works on.\<close>

record funds =
  fs_world :: world
  fs_accounts :: "inst_account list"
  fs_movements :: "fund_movement list"
  fs_fees :: "fee_config list"
  fs_local :: fee_cache
  fs_redis :: "fee_cache option"

text \<open>
  What a call meets: the generated id and short code, the vaults of the user (id and role, as the query
  returns them), the wallet of an id, the routing, faults of the queries, the environment of the posting
  (whose id is the new transaction's, whose code the reference's), and the goal allocations.
\<close>

record funds_env =
  fe_uuid :: string
  fe_code :: string
  fe_vaults :: "(string \<times> string) list outcome"
  fe_wallet :: "string \<Rightarrow> wallet_info option"
  fe_route :: "routing_query \<Rightarrow> routed_provider outcome"
  fe_redis_fails :: bool
  fe_fee_fault :: "js_error option"
  fe_account_fault :: "string \<Rightarrow> js_error option"
  fe_read_fault :: "js_error option"
  fe_write_fault :: "js_error option"
  fe_post :: post_env
  fe_allocate :: "string \<Rightarrow> string \<Rightarrow> rat \<Rightarrow> world \<Rightarrow> world"

definition fault_or :: "js_error option \<Rightarrow> 'a \<Rightarrow> 'a outcome" where
  "fault_or f a = (case f of Some e \<Rightarrow> throw (err_message e) | None \<Rightarrow> Inr a)"

section \<open>Institutional accounts\<close>

definition account_column :: "inst_account option \<Rightarrow> (inst_account \<Rightarrow> jsv option) \<Rightarrow> jsv option" where
  "account_column cur f = (case cur of None \<Rightarrow> None | Some a \<Rightarrow> f a)"

definition account_metadata :: "metadata \<Rightarrow> inst_account option \<Rightarrow> string \<Rightarrow> jsv \<Rightarrow> metadata" where
  "account_metadata p cur actor now =
     (let m0 = (case cur of None \<Rightarrow> Map.empty | Some a \<Rightarrow> ia_metadata a);
          pm = md_spread Map.empty (p ''metadata'');
          audit = obj_set (obj_set (obj_spread (obj_spread [] (m0 ''admin_audit'')) (pm ''admin_audit''))
                    ''updated_by'' (JStr actor)) ''updated_at'' now in
      (md_spread m0 (p ''metadata''))(''admin_audit'' \<mapsto> JObj audit))"

text \<open>The payload is the map of its keys; an update keeps the creation time.\<close>

definition normalized_account :: "clock \<Rightarrow> metadata \<Rightarrow> inst_account option \<Rightarrow> string \<Rightarrow> string \<Rightarrow> inst_account" where
  "normalized_account ck p cur aid actor =
     (let c = account_column cur; t = (\<lambda>vs. js_trim (text_of (coalesce vs))) in
      \<lparr>ia_id = aid,
       ia_role = js_upper (t [p ''role'', c (\<lambda>a. Some (JStr (ia_role a)))]),
       ia_provider = map_option js_text (coalesce [p ''providerId'', p ''provider_id'', c (\<lambda>a. map_option JStr (ia_provider a))]),
       ia_bank_name = t [p ''bankName'', p ''bank_name'', c (\<lambda>a. Some (JStr (ia_bank_name a)))],
       ia_account_name = t [p ''accountName'', p ''account_name'', c (\<lambda>a. Some (JStr (ia_account_name a)))],
       ia_account_number = t [p ''accountNumber'', p ''account_number'', c (\<lambda>a. Some (JStr (ia_account_number a)))],
       ia_currency = js_upper (t [p ''currency'', c (\<lambda>a. Some (JStr (ia_currency a))), Some (JStr ''TZS'')]),
       ia_country = map_option js_text (coalesce [p ''countryCode'', p ''country_code'', c (\<lambda>a. map_option JStr (ia_country a))]),
       ia_status = js_upper (t [p ''status'', c (\<lambda>a. Some (JStr (ia_status a))), Some (JStr ''ACTIVE'')]),
       ia_primary = (case coalesce [p ''isPrimary'', p ''is_primary'', c (\<lambda>a. Some (JBool (ia_primary a)))] of
          None \<Rightarrow> False | Some v \<Rightarrow> truthy v),
       ia_metadata = account_metadata p cur actor (JStr (ck_iso ck (ck_now ck))),
       ia_created = (case cur of None \<Rightarrow> ck_now ck | Some a \<Rightarrow> ia_created a),
       ia_updated = ck_now ck\<rparr>)"

text \<open>A new primary account takes the mark from the others of its role, currency and provider.\<close>

definition reset_primary :: "int \<Rightarrow> inst_account \<Rightarrow> inst_account list \<Rightarrow> inst_account list" where
  "reset_primary now n accs =
     (if \<not> ia_primary n then accs
      else upd (\<lambda>a. ia_role a = ia_role n \<and> ia_currency a = ia_currency n \<and>
             (case truthy_text (ia_provider n) of Some i \<Rightarrow> ia_provider a = Some i | None \<Rightarrow> ia_provider a = None))
           (\<lambda>a. a\<lparr>ia_primary := False, ia_updated := now\<rparr>) accs)"

definition upsertInstitutionalAccount ::
    "clock \<Rightarrow> funds_env \<Rightarrow> metadata \<Rightarrow> string \<Rightarrow> string option \<Rightarrow> funds \<Rightarrow> inst_account outcome \<times> funds" where
  "upsertInstitutionalAccount ck env p actor aid s =
     (let given = truthy_text aid;
          cur = (case given of None \<Rightarrow> None | Some i \<Rightarrow> single (sel (\<lambda>a. ia_id a = i) (fs_accounts s))) in
      case (if given = None then None else fe_read_fault env) of
        Some e \<Rightarrow> (throw (err_message e), s)
      | None \<Rightarrow>
          (if given \<noteq> None \<and> cur = None then (throw ''INSTITUTIONAL_ACCOUNT_NOT_FOUND'', s)
           else
             (let n = normalized_account ck p cur (case given of None \<Rightarrow> fe_uuid env | Some i \<Rightarrow> i) actor in
              if ia_role n = [] \<or> ia_bank_name n = [] \<or> ia_account_name n = [] \<or> ia_account_number n = []
              then (throw ''INVALID_INSTITUTIONAL_ACCOUNT_PAYLOAD'', s)
              else
                (let accs = reset_primary (ck_now ck) n (fs_accounts s) in
                 case fe_write_fault env of
                   Some e \<Rightarrow> (throw (err_message e), s\<lparr>fs_accounts := accs\<rparr>)
                 | None \<Rightarrow> (Inr n, s\<lparr>fs_accounts :=
                     (if given = None then accs @ [n] else upd (\<lambda>a. ia_id a = ia_id n) (\<lambda>_. n) accs)\<rparr>)))))"

section \<open>Requests\<close>

text \<open>The two spellings of the transaction type, the provider input and the counterparty type are one field.\<close>

record movement_payload =
  mp_direction :: "string option"
  mp_amount :: "jsv option"
  mp_currency :: "string option"
  mp_provider :: "string option"
  mp_rail :: "string option"
  mp_country :: "string option"
  mp_operation :: "string option"
  mp_preferred :: "string option"
  mp_description :: "string option"
  mp_transaction_type :: "string option"
  mp_provider_input :: "string option"
  mp_counterparty :: "string option"
  mp_source_wallet :: "string option"
  mp_target_wallet :: "string option"
  mp_source_account :: "string option"
  mp_target_account :: "string option"
  mp_reference :: "string option"
  mp_source_ref :: "string option"
  mp_target_ref :: "string option"
  mp_fee :: "jsv option"
  mp_tax :: "jsv option"
  mp_metadata :: metadata

text \<open>The result of the normalisation; its transaction type, provider input and counterparty type live in the metadata.\<close>

record normalized =
  nm_direction :: fund_direction
  nm_amount :: rat
  nm_gross :: rat
  nm_net :: rat
  nm_fee :: rat
  nm_tax :: rat
  nm_currency :: string
  nm_provider :: "string option"
  nm_rail :: "string option"
  nm_country :: "string option"
  nm_operation :: "string option"
  nm_preferred :: "string option"
  nm_description :: string
  nm_source_wallet :: "string option"
  nm_target_wallet :: "string option"
  nm_source_account :: "string option"
  nm_target_account :: "string option"
  nm_reference :: "string option"
  nm_source_ref :: "string option"
  nm_target_ref :: "string option"
  nm_metadata :: metadata

definition parse_amount :: "jsv option \<Rightarrow> rat outcome" where
  "parse_amount v = (case number_or_zero v of None \<Rightarrow> throw ''INVALID_AMOUNT'' | Some x \<Rightarrow> Inr (roundAmount x))"

definition requirePositiveAmount :: "jsv option \<Rightarrow> string \<Rightarrow> rat outcome" where
  "requirePositiveAmount v code = bind_outcome (parse_amount v) (\<lambda>a. if a \<le> 0 then throw code else Inr a)"

text \<open>\<open>String(v ?? '').trim() || undefined\<close>, and a value of the metadata in its place.\<close>

definition trimmed :: "string option \<Rightarrow> string option" where
  "trimmed v = truthy_text (Some (js_trim (text_or_empty v)))"

definition text_or_md :: "string option \<Rightarrow> metadata \<Rightarrow> string \<Rightarrow> jsv" where
  "text_or_md v md k = (case v of Some t \<Rightarrow> JStr t
     | None \<Rightarrow> (case md k of None \<Rightarrow> JNull | Some x \<Rightarrow> if truthy x then x else JNull))"

definition movement_fee_input :: "movement_payload \<Rightarrow> fund_direction \<Rightarrow> rat \<Rightarrow> string \<Rightarrow> fee_input" where
  "movement_fee_input p d amount currency = \<lparr>fi_flow_code = direction_text d, fi_amount = Some (JNum amount),
     fi_currency = Some currency, fi_provider_id = mp_provider p, fi_country_code = mp_country p, fi_rail = mp_rail p,
     fi_channel = None, fi_direction = Some (direction_text d), fi_transaction_model = None, fi_category_code = None,
     fi_category_id = None, fi_operation_type = mp_operation p,
     fi_transaction_type = map_option js_upper (trimmed (mp_transaction_type p)), fi_metadata = mp_metadata p\<rparr>"

text \<open>A given fee or tax overrides the computed one.\<close>

definition override :: "jsv option \<Rightarrow> rat \<Rightarrow> rat outcome" where
  "override v x = (if nullish v then Inr x else parse_amount v)"

definition movement_metadata :: "movement_payload \<Rightarrow> fee_computation \<Rightarrow> metadata" where
  "movement_metadata p f = (let md = mp_metadata p in
     md(''fee_config_id'' \<mapsto> (case fe_config_id f of None \<Rightarrow> JNull | Some i \<Rightarrow> JStr i),
        ''fee_flow_code'' \<mapsto> JStr (fe_flow_code f),
        ''transaction_type'' \<mapsto> text_or_md (map_option js_upper (trimmed (mp_transaction_type p))) md ''transaction_type'',
        ''provider_input'' \<mapsto> text_or_md (trimmed (mp_provider_input p)) md ''provider_input'',
        ''counterparty_type'' \<mapsto> text_or_md (map_option js_upper (trimmed (mp_counterparty p))) md ''counterparty_type''))"

definition priced :: "movement_payload \<Rightarrow> fund_direction \<Rightarrow> rat \<Rightarrow> string \<Rightarrow> fee_computation \<Rightarrow> normalized outcome" where
  "priced p d amount currency f =
     bind_outcome (override (mp_fee p) (fe_service_fee f)) (\<lambda>fee.
     bind_outcome (override (mp_tax p) (fe_tax_amount f + fe_gov_fee_amount f + fe_stamp_duty f)) (\<lambda>tax.
       let gross = (if d = Internal_To_External then roundAmount (amount + fee + tax) else amount);
           net = (if d = Internal_To_External then amount else roundAmount (amount - fee - tax)) in
       if net < 0 then throw ''INVALID_NET_AMOUNT''
       else Inr \<lparr>nm_direction = d, nm_amount = amount, nm_gross = gross, nm_net = net, nm_fee = fee, nm_tax = tax,
         nm_currency = currency, nm_provider = mp_provider p, nm_rail = mp_rail p, nm_country = mp_country p,
         nm_operation = mp_operation p, nm_preferred = mp_preferred p,
         nm_description = js_trim (text_or (mp_description p) ''External fund movement''),
         nm_source_wallet = mp_source_wallet p, nm_target_wallet = mp_target_wallet p,
         nm_source_account = mp_source_account p, nm_target_account = mp_target_account p,
         nm_reference = mp_reference p, nm_source_ref = mp_source_ref p, nm_target_ref = mp_target_ref p,
         nm_metadata = movement_metadata p f\<rparr>))"

definition normalizePayload :: "clock \<Rightarrow> funds_env \<Rightarrow> movement_payload \<Rightarrow> funds \<Rightarrow> normalized outcome \<times> funds" where
  "normalizePayload ck env p s =
     (case direction_of (js_upper (js_trim (text_or (mp_direction p) []))) of
        None \<Rightarrow> (throw ''INVALID_EXTERNAL_FUND_DIRECTION'', s)
      | Some d \<Rightarrow>
          (case requirePositiveAmount (mp_amount p) ''AMOUNT_REQUIRED'' of
             Inl e \<Rightarrow> (Inl e, s)
           | Inr amount \<Rightarrow>
               (let currency = js_upper (js_trim (text_or (mp_currency p) ''TZS'')) in
                case resolveFee (ck_now ck) (fe_redis_fails env) (fe_fee_fault env)
                       (movement_fee_input p d amount currency) (fs_local s) (fs_redis s) (fs_fees s) of
                  (r, l, rd) \<Rightarrow> (bind_outcome r (priced p d amount currency), s\<lparr>fs_local := l, fs_redis := rd\<rparr>))))"

section \<open>The context of a movement\<close>

text \<open>
  The query object is a mutable builder (\<open>services/localPostgresClient.ts\<close>: \<open>eq\<close> and \<open>is\<close> return \<open>this\<close>), so the
  fallback of a lookup with a provider carries both conditions on \<open>provider_id\<close>.
\<close>

definition role_accounts :: "string \<Rightarrow> string \<Rightarrow> (inst_account \<Rightarrow> bool) \<Rightarrow> inst_account list \<Rightarrow> inst_account list" where
  "role_accounts role currency q accs = take 1 (sort_key (\<lambda>a. (\<not> ia_primary a, - ia_updated a))
     (sel (\<lambda>a. ia_role a = role \<and> ia_currency a = currency \<and> ia_status a = ''ACTIVE'' \<and> q a) accs))"

definition account_fallback :: "funds_env \<Rightarrow> string \<Rightarrow> string \<Rightarrow> string option \<Rightarrow> bool \<Rightarrow> inst_account list \<Rightarrow> inst_account option outcome" where
  "account_fallback env role currency provider required accs =
     bind_outcome (fault_or (fe_account_fault env role)
         (role_accounts role currency (\<lambda>a. provider = None \<or> ia_provider a = provider \<and> ia_provider a = None) accs)) (\<lambda>rows.
       case rows of
         a # _ \<Rightarrow> Inr (Some a)
       | [] \<Rightarrow> if required then throw (''INSTITUTIONAL_ACCOUNT_NOT_CONFIGURED:'' @ role @ '':'' @ currency) else Inr None)"

definition account_by_role :: "funds_env \<Rightarrow> string \<Rightarrow> string \<Rightarrow> string option \<Rightarrow> bool \<Rightarrow> inst_account list \<Rightarrow> inst_account option outcome" where
  "account_by_role env role currency provider required accs =
     (case provider of
        None \<Rightarrow> account_fallback env role currency None required accs
      | Some p \<Rightarrow>
          bind_outcome (fault_or (fe_account_fault env role) (role_accounts role currency (\<lambda>a. ia_provider a = Some p) accs)) (\<lambda>rows.
            case rows of a # _ \<Rightarrow> Inr (Some a) | [] \<Rightarrow> account_fallback env role currency provider required accs))"

definition resolveInstitutionalAccount ::
    "funds_env \<Rightarrow> string option \<Rightarrow> string \<Rightarrow> string \<Rightarrow> string option \<Rightarrow> bool \<Rightarrow> inst_account list \<Rightarrow> inst_account option outcome" where
  "resolveInstitutionalAccount env i role currency provider required accs =
     (let by_role = account_by_role env role currency (truthy_text provider) required accs in
      case truthy_text i of
        None \<Rightarrow> by_role
      | Some k \<Rightarrow>
          bind_outcome (fault_or (fe_account_fault env role) (single (sel (\<lambda>a. ia_id a = k \<and> ia_status a = ''ACTIVE'') accs))) (\<lambda>r.
            case r of Some a \<Rightarrow> Inr (Some a) | None \<Rightarrow> by_role))"

definition routing_decision :: "clock \<Rightarrow> routed_provider \<Rightarrow> jsv" where
  "routing_decision ck r = (case Option.bind (rp_decision r) (\<lambda>d. if truthy d then Some d else None) of Some d \<Rightarrow> d
     | None \<Rightarrow> JObj [(''providerId'', JStr (rp_provider r)), (''providerCode'', JStr (rp_code r)), (''rail'', JStr (rp_rail r)),
         (''operation'', JStr (rp_operation r)), (''source'', JStr ''registry_fallback''), (''resolvedAt'', JStr (ck_iso ck (ck_now ck)))])"

definition resolveProviderId :: "clock \<Rightarrow> funds_env \<Rightarrow> normalized \<Rightarrow> (string \<times> jsv) option outcome" where
  "resolveProviderId ck env n =
     (case truthy_text (nm_rail n) of
        None \<Rightarrow> Inr None
      | Some rail \<Rightarrow>
          bind_outcome (fe_route env \<lparr>rq_rail = rail,
              rq_operation = text_or (nm_operation n)
                (if nm_direction n = Internal_To_External then ''DISBURSEMENT_REQUEST'' else ''COLLECTION_REQUEST''),
              rq_country = nm_country n, rq_currency = nm_currency n, rq_preferred = nm_preferred n\<rparr>) (\<lambda>r.
            Inr (Some (rp_provider r, routing_decision ck r))))"

definition with_provider :: "clock \<Rightarrow> funds_env \<Rightarrow> normalized \<Rightarrow> normalized outcome" where
  "with_provider ck env n =
     (if truthy_text (nm_provider n) \<noteq> None then Inr n
      else bind_outcome (resolveProviderId ck env n) (\<lambda>r. Inr (case r of
          None \<Rightarrow> n
        | Some (p, d) \<Rightarrow> n\<lparr>nm_provider := (if p = [] then nm_provider n else Some p),
            nm_metadata := (nm_metadata n)(''routing_decision'' \<mapsto> d)\<rparr>)))"

definition resolveOperatingAndPaySafeWallets :: "funds_env \<Rightarrow> string \<Rightarrow> string option \<Rightarrow> (string \<times> string) outcome" where
  "resolveOperatingAndPaySafeWallets env user given =
     bind_outcome (fe_vaults env) (\<lambda>vs.
       case find (\<lambda>(i, r). r = ''OPERATING'') vs of
         None \<Rightarrow> throw ''OPERATING_WALLET_REQUIRED''
       | Some (op, _) \<Rightarrow>
           (case find (\<lambda>(i, r). r = ''INTERNAL_TRANSFER'') vs of
              None \<Rightarrow> throw ''PAYSafe_WALLET_REQUIRED''
            | Some (ps, _) \<Rightarrow>
                (case truthy_text given of
                   None \<Rightarrow> Inr (op, ps)
                 | Some k \<Rightarrow>
                     (if k = op \<or> (case fe_wallet env k of None \<Rightarrow> False
                          | Some i \<Rightarrow> wi_user i = Some user \<and> (js_lower (text_or (wi_type i) []) = ''operating'' \<or> wi_primary i))
                      then Inr (op, ps)
                      else throw ''OPERATING_WALLET_REQUIRED: External settlement must use the ORBI operating wallet.''))))"

record movement_context =
  cx_norm :: normalized
  cx_source_wallet :: "string option"
  cx_target_wallet :: "string option"
  cx_source_account :: "inst_account option"
  cx_target_account :: "inst_account option"
  cx_fee_account :: "inst_account option"
  cx_tax_account :: "inst_account option"
  cx_internal :: "(string \<times> string) option"

text \<open>\<open>cx_internal\<close>: the operating and the PaySafe vault, of the source or of the target as the direction has it.\<close>

definition wallet_or :: "(string \<times> string) option \<Rightarrow> string option \<Rightarrow> string option" where
  "wallet_or wallets given = first_some [truthy_text (map_option fst wallets), given]"

definition when_needed :: "bool \<Rightarrow> 'a option outcome \<Rightarrow> 'a option outcome" where
  "when_needed b r = (if b then r else Inr None)"

definition context_accounts :: "funds_env \<Rightarrow> normalized \<Rightarrow> (string \<times> string) option \<Rightarrow> inst_account list \<Rightarrow> movement_context outcome" where
  "context_accounts env n wallets accs =
     (let d = nm_direction n; cur = nm_currency n; p = nm_provider n; req = (d \<noteq> External_To_External);
          source = wallet_or (if d = Internal_To_External then wallets else None) (nm_source_wallet n);
          target = wallet_or (if d = External_To_Internal then wallets else None) (nm_target_wallet n) in
      if (d = Internal_To_External \<and> truthy_text source = None) \<or> (d = External_To_Internal \<and> truthy_text target = None)
      then throw ''OPERATING_WALLET_REQUIRED''
      else bind_outcome (when_needed (d \<noteq> Internal_To_External)
        (resolveInstitutionalAccount env (nm_source_account n) ''MAIN_COLLECTION'' cur p req accs)) (\<lambda>src.
      bind_outcome (when_needed (d \<noteq> External_To_Internal)
        (resolveInstitutionalAccount env (nm_target_account n) ''TRANSFER_SAVINGS'' cur p req accs)) (\<lambda>tgt.
      bind_outcome (when_needed (0 < nm_fee n) (resolveInstitutionalAccount env None ''FEE_COLLECTION'' cur p True accs)) (\<lambda>fee.
      bind_outcome (when_needed (0 < nm_tax n) (resolveInstitutionalAccount env None ''TAX_COLLECTION'' cur p True accs)) (\<lambda>tax.
        Inr \<lparr>cx_norm = n,
          cx_source_wallet = source,
          cx_target_wallet = target,
          cx_source_account = src, cx_target_account = tgt, cx_fee_account = fee, cx_tax_account = tax,
          cx_internal = wallets\<rparr>)))))"

definition buildMovementContext ::
    "clock \<Rightarrow> funds_env \<Rightarrow> string \<Rightarrow> movement_payload \<Rightarrow> funds \<Rightarrow> movement_context outcome \<times> funds" where
  "buildMovementContext ck env user p s =
     (case normalizePayload ck env p s of
        (Inl e, s') \<Rightarrow> (Inl e, s')
      | (Inr n0, s') \<Rightarrow>
          (bind_outcome (with_provider ck env n0) (\<lambda>n.
           bind_outcome (case nm_direction n of
               Internal_To_External \<Rightarrow> map_sum id Some (resolveOperatingAndPaySafeWallets env user (nm_source_wallet n))
             | External_To_Internal \<Rightarrow> map_sum id Some (resolveOperatingAndPaySafeWallets env user (nm_target_wallet n))
             | External_To_External \<Rightarrow> Inr None) (\<lambda>wallets.
             context_accounts env n wallets (fs_accounts s'))), s'))"

section \<open>Recording a movement\<close>

text \<open>The columns a movement takes from its context; \<open>status\<close>, the metadata and the references are the caller's.\<close>

definition account_id :: "inst_account option \<Rightarrow> string option" where
  "account_id a = truthy_text (map_option ia_id a)"

definition movement_row ::
    "clock \<Rightarrow> string \<Rightarrow> string \<Rightarrow> string \<Rightarrow> movement_context \<Rightarrow> metadata \<Rightarrow> fund_movement" where
  "movement_row ck i user status cx md = (let n = cx_norm cx in
     \<lparr>fm_id = i, fm_user = user, fm_direction = nm_direction n, fm_status = status, fm_provider = truthy_text (nm_provider n),
      fm_source_account = account_id (cx_source_account cx), fm_target_account = account_id (cx_target_account cx), fm_tx = None,
      fm_source_wallet = truthy_text (cx_source_wallet cx), fm_target_wallet = truthy_text (cx_target_wallet cx),
      fm_gross = nm_gross n, fm_net = nm_net n, fm_fee = nm_fee n, fm_tax = nm_tax n, fm_currency = nm_currency n,
      fm_description = nm_description n, fm_reference = truthy_text (nm_reference n),
      fm_source_ref = truthy_text (nm_source_ref n), fm_target_ref = truthy_text (nm_target_ref n),
      fm_lifecycle = None, fm_event = None, fm_metadata = md, fm_created = ck_now ck, fm_updated = ck_now ck\<rparr>)"

definition insert_movement :: "funds_env \<Rightarrow> fund_movement \<Rightarrow> funds \<Rightarrow> fund_movement outcome \<times> funds" where
  "insert_movement env m s = (case fe_write_fault env of
     Some e \<Rightarrow> (throw (err_message e), s) | None \<Rightarrow> (Inr m, s\<lparr>fs_movements := fs_movements s @ [m]\<rparr>))"

definition createIncomingDepositIntent ::
    "clock \<Rightarrow> funds_env \<Rightarrow> string \<Rightarrow> movement_payload \<Rightarrow> funds \<Rightarrow> fund_movement outcome \<times> funds" where
  "createIncomingDepositIntent ck env user p s =
     (case buildMovementContext ck env user (p\<lparr>mp_direction := Some ''EXTERNAL_TO_INTERNAL''\<rparr>) s of
        (Inl e, s') \<Rightarrow> (Inl e, s')
      | (Inr cx, s') \<Rightarrow> insert_movement env
          ((movement_row ck (fe_uuid env) user ''initiated'' cx ((nm_metadata (cx_norm cx))
              (''intent_kind'' \<mapsto> JStr ''INCOMING_DEPOSIT'',
               ''settlement_model'' \<mapsto> JStr ''WEBHOOK_DRIVEN_EXTERNAL_TO_INTERNAL'', ''double_entry_posted'' \<mapsto> JBool False)))
           \<lparr>fm_reference := Some (text_or (nm_reference (cx_norm cx)) (''CASHIN-'' @ fe_code env)),
            fm_source_wallet := None, fm_target_account := None\<rparr>) s')"

definition processMovement ::
    "clock \<Rightarrow> funds_env \<Rightarrow> string \<Rightarrow> movement_payload \<Rightarrow> funds \<Rightarrow> fund_movement outcome \<times> funds" where
  "processMovement ck env user p s =
     (case buildMovementContext ck env user p s of
        (Inl e, s') \<Rightarrow> (Inl e, s')
      | (Inr cx, s') \<Rightarrow>
          (let outside = (nm_direction (cx_norm cx) = External_To_External) in
           insert_movement env (movement_row ck (fe_uuid env) user (if outside then ''recorded'' else ''initiated'') cx
             ((nm_metadata (cx_norm cx))
                (''settlement_model'' \<mapsto> JStr (if outside then ''RECORD_ONLY'' else ''WEBHOOK_DRIVEN_EXTERNAL_SETTLEMENT''),
                 ''double_entry_posted'' \<mapsto> JBool False))) s'))"

section \<open>The ledger legs of a movement\<close>

definition fund_leg :: "normalized \<Rightarrow> string \<Rightarrow> string \<Rightarrow> rat \<Rightarrow> string \<Rightarrow> ledger_entry" where
  "fund_leg n wallet ty amount what = \<lparr>le_wallet = Some wallet, le_user = None, le_type = ty, le_amount = Some amount,
     le_currency = Some (nm_currency n), le_description = Some (nm_description n @ '' - '' @ what)\<rparr>"

text \<open>A fee or tax: released from the PaySafe vault of the target first when the money comes in.\<close>

definition charge_legs :: "movement_context \<Rightarrow> rat \<Rightarrow> inst_account option \<Rightarrow> string \<Rightarrow> ledger_entry list" where
  "charge_legs cx amount account what =
     (let n = cx_norm cx in
      case account_id account of
        None \<Rightarrow> []
      | Some acc \<Rightarrow>
          (if amount \<le> 0 then []
           else (case (if nm_direction n = External_To_Internal then truthy_text (map_option snd (cx_internal cx)) else None) of
                   Some ps \<Rightarrow> [fund_leg n ps ''DEBIT'' amount (''PaySafe '' @ what @ '' release'')] | None \<Rightarrow> []) @
                [fund_leg n acc ''CREDIT'' amount (what @ '' collection'')]))"

text \<open>\<open>null.id\<close> is a TypeError; the context of these directions always has the account and the vaults.\<close>

definition missing_account :: "'a outcome" where
  "missing_account = throw ''Cannot read properties of null (reading 'id')''"

definition movement_legs :: "movement_context \<Rightarrow> ledger_entry list outcome" where
  "movement_legs cx =
     (let n = cx_norm cx; vaults = (case cx_internal cx of None \<Rightarrow> ([], []) | Some x \<Rightarrow> x); op = fst vaults; ps = snd vaults in
      case nm_direction n of
        Internal_To_External \<Rightarrow>
          (if op = [] \<or> ps = [] then throw ''PAYSafe_OPERATING_FLOW_REQUIRED''
           else case cx_target_account cx of
               None \<Rightarrow> missing_account
             | Some acc \<Rightarrow> Inr [fund_leg n op ''DEBIT'' (nm_gross n) ''operating debit'',
                 fund_leg n ps ''CREDIT'' (nm_amount n) ''PaySafe secure hold'',
                 fund_leg n ps ''DEBIT'' (nm_amount n) ''PaySafe settlement release'',
                 fund_leg n (ia_id acc) ''CREDIT'' (nm_amount n) ''transfer savings''])
      | External_To_Internal \<Rightarrow>
          (if op = [] \<or> ps = [] then throw ''PAYSafe_OPERATING_FLOW_REQUIRED''
           else case cx_source_account cx of
               None \<Rightarrow> missing_account
             | Some acc \<Rightarrow> Inr [fund_leg n (ia_id acc) ''DEBIT'' (nm_gross n) ''institutional collection debit'',
                 fund_leg n ps ''CREDIT'' (nm_gross n) ''PaySafe receipt'',
                 fund_leg n ps ''DEBIT'' (nm_net n) ''PaySafe settlement release'',
                 fund_leg n op ''CREDIT'' (nm_net n) ''operating credit''])
      | External_To_External \<Rightarrow> Inr [])"

definition buildLedgerEntries :: "movement_context \<Rightarrow> ledger_entry list outcome" where
  "buildLedgerEntries cx =
     map_sum id (\<lambda>legs. legs @ charge_legs cx (nm_fee (cx_norm cx)) (cx_fee_account cx) ''fee'' @
       charge_legs cx (nm_tax (cx_norm cx)) (cx_tax_account cx) ''tax'') (movement_legs cx)"

section \<open>Settling a movement\<close>

definition or_null :: "string option \<Rightarrow> jsv" where
  "or_null v = (case truthy_text v of None \<Rightarrow> JNull | Some t \<Rightarrow> JStr t)"

definition settlement_header :: "funds_env \<Rightarrow> string \<Rightarrow> movement_context \<Rightarrow> partial_tx" where
  "settlement_header env user cx = (let n = cx_norm cx in
     \<lparr>pt_id = Some (pe_uuid (fe_post env)), pt_reference = Some (''EXT-'' @ pe_code (fe_post env)), pt_user = Some user,
      pt_wallet = first_some [truthy_text (cx_source_wallet cx), account_id (cx_source_account cx)],
      pt_to_wallet = first_some [truthy_text (cx_target_wallet cx), account_id (cx_target_account cx)],
      pt_amount = nm_gross n, pt_description = Some (nm_description n),
      pt_type = Some (if nm_direction n = Internal_To_External then ''withdrawal'' else ''deposit''), pt_status = Some ''completed'',
      pt_metadata = (nm_metadata n)(''settlement_path'' \<mapsto> JStr ''EXTERNAL_ROUTING'',
        ''external_fund_direction'' \<mapsto> JStr (direction_text (nm_direction n)),
        ''provider_id'' \<mapsto> or_null (nm_provider n), ''external_reference'' \<mapsto> or_null (nm_reference n),
        ''source_external_ref'' \<mapsto> or_null (nm_source_ref n), ''target_external_ref'' \<mapsto> or_null (nm_target_ref n),
        ''institutional_source_account_id'' \<mapsto> or_null (account_id (cx_source_account cx)),
        ''institutional_target_account_id'' \<mapsto> or_null (account_id (cx_target_account cx)),
        ''fee_amount'' \<mapsto> JNum (nm_fee n), ''tax_amount'' \<mapsto> JNum (nm_tax n)),
      pt_category = None\<rparr>)"

text \<open>\<open>metadata.provider_event_id ?? existing.provider_event_id ?? null\<close>.\<close>

definition settled_event :: "movement_context \<Rightarrow> fund_movement \<Rightarrow> string option" where
  "settled_event cx m = map_option js_text
     (coalesce [nm_metadata (cx_norm cx) ''provider_event_id'', map_option JStr (fm_event m)])"

definition settled_row :: "clock \<Rightarrow> funds_env \<Rightarrow> string \<Rightarrow> movement_context \<Rightarrow> fund_movement \<Rightarrow> fund_movement" where
  "settled_row ck env user cx m =
     (movement_row ck (fm_id m) user ''completed'' cx ((nm_metadata (cx_norm cx))
        (''settlement_model'' \<mapsto> JStr ''DOUBLE_ENTRY_WITH_INSTITUTIONAL_ACCOUNTS'',
         ''ledger_transaction_id'' \<mapsto> JStr (pe_uuid (fe_post env)), ''double_entry_posted'' \<mapsto> JBool True)))
     \<lparr>fm_tx := Some (pe_uuid (fe_post env)), fm_lifecycle := fm_lifecycle m, fm_event := settled_event cx m,
      fm_created := fm_created m\<rparr>"

datatype funds_answer =
    Already_Settled fund_movement
  | Waiting fund_movement
  | Marked_Failed fund_movement
  | Outside fund_movement
  | Posted fund_movement string string

definition update_movement :: "funds_env \<Rightarrow> string \<Rightarrow> (fund_movement \<Rightarrow> fund_movement) \<Rightarrow> funds \<Rightarrow> unit outcome \<times> funds" where
  "update_movement env i f s = (case fe_write_fault env of
     Some e \<Rightarrow> (throw (err_message e), s)
   | None \<Rightarrow> (Inr (), s\<lparr>fs_movements := upd (\<lambda>m. fm_id m = i) f (fs_movements s)\<rparr>))"

text \<open>The goal allocations follow a deposit; their errors are logged only.\<close>

definition commitMovementRecord ::
    "crypto \<Rightarrow> clock \<Rightarrow> funds_env \<Rightarrow> movement_context \<Rightarrow> fund_movement \<Rightarrow> funds \<Rightarrow> funds_answer outcome \<times> funds" where
  "commitMovementRecord c ck env cx m s =
     (if nm_direction (cx_norm cx) = External_To_External then (throw ''EXTERNAL_TO_EXTERNAL_NO_LEDGER'', s)
      else case buildLedgerEntries cx of
        Inl e \<Rightarrow> (Inl e, s)
      | Inr legs \<Rightarrow>
          (case postTransactionWithLedger c ck (fe_post env) (settlement_header env (fm_user m) cx) legs (fs_world s) of
             (Inl e, w) \<Rightarrow> (Inl e, s\<lparr>fs_world := w\<rparr>)
           | (Inr _, w) \<Rightarrow>
               (let row = settled_row ck env (fm_user m) cx m in
                case update_movement env (fm_id m) (\<lambda>_. row) (s\<lparr>fs_world := w\<rparr>) of
                  (Inl e, s') \<Rightarrow> (Inl e, s')
                | (Inr _, s') \<Rightarrow>
                    (Inr (Posted row (pe_uuid (fe_post env)) (''EXT-'' @ pe_code (fe_post env))),
                     (case (if nm_direction (cx_norm cx) = External_To_Internal then truthy_text (cx_target_wallet cx) else None) of
                        None \<Rightarrow> s'
                      | Some k \<Rightarrow> s'\<lparr>fs_world := fe_allocate env (fm_user m) k (nm_net (cx_norm cx)) (fs_world s')\<rparr>)))))"

section \<open>Callbacks of the provider\<close>

datatype callback_status = Cb_Completed | Cb_Failed | Cb_Processing | Cb_Pending

fun callback_text :: "callback_status \<Rightarrow> string" where
  "callback_text Cb_Completed = ''completed''"
| "callback_text Cb_Failed = ''failed''"
| "callback_text Cb_Processing = ''processing''"
| "callback_text Cb_Pending = ''pending''"

record callback =
  cb_provider :: string
  cb_reference :: string
  cb_status :: callback_status
  cb_message :: "string option"
  cb_event :: "string option"
  cb_payload :: "jsv option"

definition movement_of :: "callback \<Rightarrow> (fund_movement \<Rightarrow> bool) \<Rightarrow> fund_movement list \<Rightarrow> fund_movement option" where
  "movement_of cb q ms = (case sort_key (\<lambda>m. - fm_created m) (sel (\<lambda>m. fm_provider m = Some (cb_provider cb) \<and>
       Some (cb_reference cb) \<in> {fm_reference m, fm_source_ref m, fm_target_ref m} \<and> q m) ms) of
     [] \<Rightarrow> None | m # _ \<Rightarrow> Some m)"

definition callback_md :: "callback \<Rightarrow> metadata \<Rightarrow> metadata" where
  "callback_md cb md = md(''webhook_status'' \<mapsto> JStr (callback_text (cb_status cb)), ''webhook_message'' \<mapsto> or_null (cb_message cb),
     ''provider_event_id'' \<mapsto> or_null (cb_event cb),
     ''last_webhook_payload'' \<mapsto> (case cb_payload cb of None \<Rightarrow> JNull | Some v \<Rightarrow> if truthy v then v else JNull))"

definition with_callback :: "clock \<Rightarrow> callback \<Rightarrow> string \<Rightarrow> (metadata \<Rightarrow> metadata) \<Rightarrow> fund_movement \<Rightarrow> fund_movement" where
  "with_callback ck cb status f m = m\<lparr>fm_status := status, fm_updated := ck_now ck,
     fm_event := first_some [cb_event cb, fm_event m], fm_metadata := f (callback_md cb (fm_metadata m))\<rparr>"

definition note_callback ::
    "funds_env \<Rightarrow> (fund_movement \<Rightarrow> funds_answer) \<Rightarrow> fund_movement \<Rightarrow> funds \<Rightarrow> funds_answer outcome \<times> funds" where
  "note_callback env answer m' s = (case update_movement env (fm_id m') (\<lambda>_. m') s of
     (Inl e, s') \<Rightarrow> (Inl e, s') | (Inr _, s') \<Rightarrow> (Inr (answer m'), s'))"

definition failed_callback_md :: "callback \<Rightarrow> fund_direction \<Rightarrow> string \<Rightarrow> (string \<times> jsv) list \<Rightarrow> metadata \<Rightarrow> metadata" where
  "failed_callback_md cb d fallback extra = buildLifecycleFailureMetadata ''PROVIDER_WEBHOOK_FAILED'' (text_or (cb_message cb) fallback)
     ([(''source'', JStr ''webhook''), (''provider_event_id'', or_null (cb_event cb)), (''movement_direction'', JStr (direction_text d))] @ extra)"

text \<open>The request a settlement is priced with again: the gross amount of the row, with its fee and tax.\<close>

definition settlement_payload :: "callback \<Rightarrow> fund_movement \<Rightarrow> movement_payload" where
  "settlement_payload cb m = \<lparr>mp_direction = Some (direction_text (fm_direction m)), mp_amount = Some (JNum (fm_gross m)),
     mp_currency = Some (fm_currency m), mp_provider = truthy_text (fm_provider m), mp_rail = None, mp_country = None,
     mp_operation = None, mp_preferred = None, mp_description = Some (text_or (Some (fm_description m)) ''External settlement''),
     mp_transaction_type = None, mp_provider_input = None, mp_counterparty = None,
     mp_source_wallet = truthy_text (fm_source_wallet m), mp_target_wallet = truthy_text (fm_target_wallet m),
     mp_source_account = truthy_text (fm_source_account m), mp_target_account = truthy_text (fm_target_account m),
     mp_reference = truthy_text (fm_reference m), mp_source_ref = truthy_text (fm_source_ref m),
     mp_target_ref = truthy_text (fm_target_ref m), mp_fee = Some (JNum (fm_fee m)), mp_tax = Some (JNum (fm_tax m)),
     mp_metadata = callback_md cb (fm_metadata m)\<rparr>"

definition settle_movement ::
    "crypto \<Rightarrow> clock \<Rightarrow> funds_env \<Rightarrow> movement_payload \<Rightarrow> fund_movement \<Rightarrow> funds \<Rightarrow> funds_answer outcome \<times> funds" where
  "settle_movement c ck env p m s =
     (case buildMovementContext ck env (fm_user m) p s of
        (Inl e, s') \<Rightarrow> (Inl e, s')
      | (Inr cx, s') \<Rightarrow> commitMovementRecord c ck env cx m s')"

definition handleWebhookMovement :: "crypto \<Rightarrow> clock \<Rightarrow> funds_env \<Rightarrow> callback \<Rightarrow> funds \<Rightarrow> funds_answer outcome \<times> funds" where
  "handleWebhookMovement c ck env cb s =
     (if cb_reference cb = [] then (throw ''WEBHOOK_REFERENCE_MISSING'', s)
      else case fe_read_fault env of
        Some e \<Rightarrow> (throw (err_message e), s)
      | None \<Rightarrow>
          (case movement_of cb (\<lambda>_. True) (fs_movements s) of
             None \<Rightarrow> (throw (''MOVEMENT_NOT_FOUND:'' @ cb_reference cb), s)
           | Some m \<Rightarrow>
               (if truthy_text (fm_tx m) \<noteq> None \<or> fm_status m = ''completed'' then (Inr (Already_Settled m), s)
                else case cb_status cb of
                    Cb_Failed \<Rightarrow> note_callback env Marked_Failed (with_callback ck cb ''failed''
                      (failed_callback_md cb (fm_direction m) ''Provider reported failure during webhook settlement.'' []) m) s
                  | Cb_Completed \<Rightarrow>
                      (if fm_direction m = External_To_External
                       then note_callback env Outside (with_callback ck cb ''completed'' (\<lambda>md. md(''double_entry_posted'' \<mapsto> JBool False)) m) s
                       else settle_movement c ck env (settlement_payload cb m) m s)
                  | _ \<Rightarrow> note_callback env Waiting (with_callback ck cb ''processing'' id m) s)))"

definition handleWebhookDepositIntent :: "crypto \<Rightarrow> clock \<Rightarrow> funds_env \<Rightarrow> callback \<Rightarrow> funds \<Rightarrow> funds_answer outcome \<times> funds" where
  "handleWebhookDepositIntent c ck env cb s =
     (if cb_reference cb = [] then (throw ''WEBHOOK_REFERENCE_MISSING'', s)
      else case fe_read_fault env of
        Some e \<Rightarrow> (throw (err_message e), s)
      | None \<Rightarrow>
          (case movement_of cb (\<lambda>m. fm_direction m = External_To_Internal) (fs_movements s) of
             None \<Rightarrow> (throw (''DEPOSIT_INTENT_NOT_FOUND:'' @ cb_reference cb), s)
           | Some m \<Rightarrow>
               (if truthy_text (fm_tx m) \<noteq> None \<or> fm_status m = ''completed'' then (Inr (Already_Settled m), s)
                else case cb_status cb of
                    Cb_Failed \<Rightarrow> note_callback env Marked_Failed (with_callback ck cb ''failed''
                      (failed_callback_md cb (fm_direction m) ''Provider reported failure for deposit intent.''
                         [(''intent_kind'', JStr ''INCOMING_DEPOSIT'')]) m) s
                  | Cb_Completed \<Rightarrow> settle_movement c ck env ((settlement_payload cb m)\<lparr>
                      mp_description := Some (text_or (Some (fm_description m)) ''External deposit settlement''),
                      mp_source_wallet := None, mp_target_account := None\<rparr>) m s
                  | _ \<Rightarrow> note_callback env Waiting (with_callback ck cb ''processing'' id m) s)))"

text \<open>
  \<open>applyNormalizedCallback\<close>: a transaction of that id or reference takes the status; otherwise the callback is
  tried as a deposit and, whatever error that ends in, as a movement. Each try generates its own ids.
\<close>

definition is_hex :: "char \<Rightarrow> bool" where
  "is_hex c \<longleftrightarrow> (let n = (of_char c :: nat) in (48 \<le> n \<and> n \<le> 57) \<or> (65 \<le> n \<and> n \<le> 70) \<or> (97 \<le> n \<and> n \<le> 102))"

definition is_uuid :: "string \<Rightarrow> bool" where
  "is_uuid t \<longleftrightarrow> length t = 36 \<and>
     list_all (\<lambda>(i, c). if i \<in> {8, 13, 18, 23} then c = CHR ''-'' else is_hex c) (enumerate 0 t)"

definition callback_tx :: "string \<Rightarrow> world \<Rightarrow> tx_row option" where
  "callback_tx r w = first_some [if is_uuid r then find_tx w r else None,
     single (sel (\<lambda>t. tx_reference t = r) (st_txs (w_store w)))]"

datatype callback_route = Route_Transaction string | Route_Deposit funds_answer | Route_Movement funds_answer

definition callback_change :: "string \<Rightarrow> callback \<Rightarrow> string \<times> string" where
  "callback_change partner cb = (let msg = text_or_empty (cb_message cb) in
     case cb_status cb of
       Cb_Completed \<Rightarrow> (''completed'', ''Verified by '' @ partner @ '': '' @ msg)
     | Cb_Failed \<Rightarrow> (''failed'', text_or (cb_message cb) ''Provider rejection.'')
     | _ \<Rightarrow> (''processing'', ''Processor update from '' @ partner @ '': '' @ msg))"

definition applyNormalizedCallback ::
    "crypto \<Rightarrow> clock \<Rightarrow> js_error option \<Rightarrow> funds_env \<times> funds_env \<Rightarrow> string \<Rightarrow> callback \<Rightarrow> funds \<Rightarrow> callback_route outcome \<times> funds" where
  "applyNormalizedCallback c ck fault envs partner cb s =
     (case callback_tx (cb_reference cb) (fs_world s) of
        Some tx \<Rightarrow>
          (case callback_change partner cb of (status, note) \<Rightarrow>
             (case updateTransactionStatus c fault (tx_id tx) status (Some note) (fs_world s) of
                (r, w) \<Rightarrow> (map_sum id (\<lambda>_. Route_Transaction (tx_id tx)) r, s\<lparr>fs_world := w\<rparr>)))
      | None \<Rightarrow>
          (case handleWebhookDepositIntent c ck (fst envs) cb s of
             (Inr a, s') \<Rightarrow> (Inr (Route_Deposit a), s')
           | (Inl _, s') \<Rightarrow>
               (case handleWebhookMovement c ck (snd envs) cb s' of (r, s2) \<Rightarrow> (map_sum id Route_Movement r, s2))))"

end
