(* ===== verification/Funds_Properties.thy ===== *)
theory Funds_Properties
  imports Institutional_Funds Fee_Properties Service_Properties
begin

text \<open>
  Movements between the platform and the outside: what their ledger legs move, that a completed callback prices a
  withdrawal a second time, and that no posting of a movement succeeds, because the institution's accounts are
  no accounts of the ledger.
\<close>

section \<open>Postings against a foreign account\<close>

definition foreign :: "store \<Rightarrow> string \<Rightarrow> bool" where
  "foreign st k \<longleftrightarrow> k \<noteq> [] \<and> entity_kinds st k = []"

lemma foreign_post_fails:
  assumes "foreign st k" and "k \<in> set (leg_ids (pa_legs a))"
  shows "\<exists>e. post_transaction_v2 st a = Inl e"
proof (cases "post_transaction_v2 st a")
  case (Inr st')
  then obtain bm km where "lock_all st (lock_order st (remdups (leg_ids (pa_legs a) @ header_ids st (pa_wallet a) (pa_to_wallet a))))
      (\<lambda>_. None) (\<lambda>_. None) = Inr (bm, km)"
    by (auto simp: post_transaction_v2_def bind_outcome_Inr_iff split: if_splits)
  from lock_all_mem [OF this, of k] assms show ?thesis by (auto simp: foreign_def)
qed blast

lemma prepared_ids:
  "prepare_legs c km now owner fb ls = Inr legs \<Longrightarrow> l \<in> set ls \<Longrightarrow> entry_wallet l = Some k \<Longrightarrow> Some k \<in> li_wallet ` set legs"
proof (induction ls arbitrary: legs)
  case (Cons a ls)
  then show ?case by (cases "entry_wallet a") (auto simp: bind_outcome_Inr_iff split: option.splits if_splits)
qed simp

lemma run_rpc_error: "proc st = Inl e \<Longrightarrow> \<exists>e'. run_rpc f proc st = (Some e', st)"
  by (cases f) (auto simp: run_rpc_def)

lemma foreign_leg_posts_nothing:
  assumes "l \<in> set ls" and "le_wallet l = Some k" and "foreign (w_store w) k"
  shows "\<exists>e. postTransactionWithLedger c ck env t ls w = (Inl e, w)"
proof (cases "commit_args c ck env t ls w")
  case (Inl e)
  then show ?thesis by (simp add: postTransactionWithLedger_def)
next
  case (Inr a)
  from assms(2,3) have "entry_wallet l = Some k" by (simp add: entry_wallet_def foreign_def)
  with Inr assms(1) have "Some k \<in> li_wallet ` set (pa_legs a)"
    by (auto simp: commit_args_def legs_for_def Let_def bind_outcome_Inr_iff split: if_splits dest!: prepared_ids)
  then have "k \<in> set (leg_ids (pa_legs a))" by simp
  with foreign_post_fails [OF assms(3)] obtain e where "post_transaction_v2 (w_store w) a = Inl e" by blast
  then obtain e' where "run_rpc (pe_rpc env) (\<lambda>st. post_transaction_v2 st a) (w_store w) = (Some e', w_store w)"
    using run_rpc_error [of "\<lambda>st. post_transaction_v2 st a"] by blast
  with Inr show ?thesis by (simp add: postTransactionWithLedger_def)
qed

section \<open>The accounts of a context\<close>

lemma role_accounts_mem: "set (role_accounts role cur q accs) \<subseteq> {a \<in> set accs. ia_status a = ''ACTIVE'' \<and> q a}"
  by (auto simp: role_accounts_def sel_def dest!: in_set_takeD)

lemma fault_or_Inr [simp]: "fault_or f x = Inr y \<longleftrightarrow> f = None \<and> y = x"
  by (auto simp: fault_or_def split: option.splits)

lemma account_fallback_mem:
  "account_fallback env role cur p req accs = Inr r \<Longrightarrow> (r = None \<longrightarrow> \<not> req) \<and> (\<forall>a. r = Some a \<longrightarrow> a \<in> set accs \<and> (p = None \<or> ia_provider a = p \<and> p = None))"
  using role_accounts_mem [of role cur "\<lambda>a. p = None \<or> ia_provider a = p \<and> ia_provider a = None" accs]
  by (auto simp: account_fallback_def bind_outcome_Inr_iff split: list.splits if_splits)

lemma account_by_role_mem:
  assumes "account_by_role env role cur p req accs = Inr r"
  shows "(r = None \<longrightarrow> \<not> req) \<and> (\<forall>a. r = Some a \<longrightarrow> a \<in> set accs \<and> (p \<noteq> None \<longrightarrow> ia_provider a = p))"
proof (cases p)
  case None
  with assms account_fallback_mem [of env role cur None req accs r] show ?thesis by (simp add: account_by_role_def)
next
  case (Some q)
  let ?rows = "role_accounts role cur (\<lambda>a. ia_provider a = Some q) accs"
  show ?thesis
  proof (cases ?rows)
    case Nil
    with assms Some have "account_fallback env role cur p req accs = Inr r"
      by (simp add: account_by_role_def bind_outcome_Inr_iff)
    from account_fallback_mem [OF this] show ?thesis using Some by simp
  next
    case (Cons a rest)
    with assms Some have "r = Some a" by (simp add: account_by_role_def bind_outcome_Inr_iff)
    moreover have "a \<in> set ?rows" using Cons by simp
    ultimately show ?thesis using role_accounts_mem [of role cur "\<lambda>a. ia_provider a = Some q" accs] Some by blast
  qed
qed

lemma resolved_account_mem:
  assumes "resolveInstitutionalAccount env i role cur p req accs = Inr r"
  shows "(r = None \<longrightarrow> \<not> req) \<and> (\<forall>a. r = Some a \<longrightarrow> a \<in> set accs)"
proof -
  let ?by_id = "\<lambda>k. single (sel (\<lambda>a. ia_id a = k \<and> ia_status a = ''ACTIVE'') accs)"
  consider (role) "account_by_role env role cur (truthy_text p) req accs = Inr r"
    | (id) k a where "truthy_text i = Some k" "?by_id k = Some a" "r = Some a"
  proof (cases "truthy_text i")
    case None
    with assms role show ?thesis by (simp add: resolveInstitutionalAccount_def)
  next
    case (Some k)
    with assms role id show ?thesis
      by (cases "?by_id k") (auto simp: resolveInstitutionalAccount_def bind_outcome_Inr_iff dest: sym)
  qed
  then show ?thesis
  proof cases
    case role
    from account_by_role_mem [OF this] show ?thesis by blast
  next
    case id
    from single_SomeD [OF id(2)] have "a \<in> set (sel (\<lambda>a. ia_id a = k \<and> ia_status a = ''ACTIVE'') accs)" by simp
    then have "a \<in> set accs" by (simp add: set_sel)
    with id(3) show ?thesis by simp
  qed
qed

text \<open>A lookup with a provider never finds the account for all providers.\<close>

lemma provider_account_only:
  assumes "resolveInstitutionalAccount env None role cur (Some p) req accs = Inr (Some a)" and "p \<noteq> []"
  shows "ia_provider a = Some p"
proof -
  from assms have "account_by_role env role cur (Some p) req accs = Inr (Some a)"
    by (simp add: resolveInstitutionalAccount_def truthy_text_def)
  from account_by_role_mem [OF this] show ?thesis by simp
qed

lemma needed_account:
  assumes "when_needed b (resolveInstitutionalAccount env i role cur p req accs) = Inr r"
  shows "(b \<and> req \<longrightarrow> (\<exists>a \<in> set accs. r = Some a)) \<and> (\<not> b \<longrightarrow> r = None)"
proof (cases b)
  case True
  with assms have "resolveInstitutionalAccount env i role cur p req accs = Inr r" by (simp add: when_needed_def)
  from resolved_account_mem [OF this] show ?thesis using True by (cases r) auto
next
  case False
  with assms show ?thesis by (simp add: when_needed_def)
qed

lemma context_parts:
  assumes "context_accounts env n wallets accs = Inr cx"
  shows "cx_norm cx = n" "cx_internal cx = wallets"
    "nm_direction n = External_To_Internal \<Longrightarrow> \<exists>a \<in> set accs. cx_source_account cx = Some a"
    "nm_direction n = Internal_To_External \<Longrightarrow> \<exists>a \<in> set accs. cx_target_account cx = Some a"
    "0 < nm_fee n \<Longrightarrow> \<exists>a \<in> set accs. cx_fee_account cx = Some a"
    "0 < nm_tax n \<Longrightarrow> \<exists>a \<in> set accs. cx_tax_account cx = Some a"
proof -
  let ?req = "nm_direction n \<noteq> External_To_External"
  let ?res = "\<lambda>b i role req. when_needed b (resolveInstitutionalAccount env i role (nm_currency n) (nm_provider n) req accs)"
  have "\<exists>src tgt fee tax. ?res (nm_direction n \<noteq> Internal_To_External) (nm_source_account n) ''MAIN_COLLECTION'' ?req = Inr src \<and>
      ?res (nm_direction n \<noteq> External_To_Internal) (nm_target_account n) ''TRANSFER_SAVINGS'' ?req = Inr tgt \<and>
      ?res (0 < nm_fee n) None ''FEE_COLLECTION'' True = Inr fee \<and> ?res (0 < nm_tax n) None ''TAX_COLLECTION'' True = Inr tax \<and>
      cx_norm cx = n \<and> cx_internal cx = wallets \<and> cx_source_account cx = src \<and> cx_target_account cx = tgt \<and>
      cx_fee_account cx = fee \<and> cx_tax_account cx = tax"
    using assms unfolding context_accounts_def Let_def
    by (split if_split_asm) (auto simp: bind_outcome_Inr_iff)
  then obtain src tgt fee tax where
    p: "?res (nm_direction n \<noteq> Internal_To_External) (nm_source_account n) ''MAIN_COLLECTION'' ?req = Inr src"
      "?res (nm_direction n \<noteq> External_To_Internal) (nm_target_account n) ''TRANSFER_SAVINGS'' ?req = Inr tgt"
      "?res (0 < nm_fee n) None ''FEE_COLLECTION'' True = Inr fee" "?res (0 < nm_tax n) None ''TAX_COLLECTION'' True = Inr tax"
    and cx: "cx_norm cx = n" "cx_internal cx = wallets" "cx_source_account cx = src" "cx_target_account cx = tgt"
      "cx_fee_account cx = fee" "cx_tax_account cx = tax" by blast
  note n = p [THEN needed_account]
  show "cx_norm cx = n" "cx_internal cx = wallets" by (fact cx)+
  show "nm_direction n = External_To_Internal \<Longrightarrow> \<exists>a \<in> set accs. cx_source_account cx = Some a"
    using n(1) cx(3) by simp
  show "nm_direction n = Internal_To_External \<Longrightarrow> \<exists>a \<in> set accs. cx_target_account cx = Some a"
    using n(2) cx(4) by simp
  show "0 < nm_fee n \<Longrightarrow> \<exists>a \<in> set accs. cx_fee_account cx = Some a" using n(3) cx(5) by simp
  show "0 < nm_tax n \<Longrightarrow> \<exists>a \<in> set accs. cx_tax_account cx = Some a" using n(4) cx(6) by simp
qed

lemma normalized_frame:
  "normalizePayload ck env p s = (r, s') \<Longrightarrow> fs_world s' = fs_world s \<and> fs_accounts s' = fs_accounts s \<and> fs_movements s' = fs_movements s"
  by (auto simp: normalizePayload_def Let_def split: option.splits sum.splits prod.splits)

lemma context_frame:
  "buildMovementContext ck env user p s = (r, s') \<Longrightarrow> fs_world s' = fs_world s \<and> fs_accounts s' = fs_accounts s \<and> fs_movements s' = fs_movements s"
  by (auto simp: buildMovementContext_def split: sum.splits prod.splits dest: normalized_frame)

lemma context_accounts_of:
  assumes "buildMovementContext ck env user p s = (Inr cx, s')"
  obtains n0 n wallets where "normalizePayload ck env p s = (Inr n0, s')" "with_provider ck env n0 = Inr n"
    "context_accounts env n wallets (fs_accounts s) = Inr cx"
proof -
  from assms obtain n0 s1 where n0: "normalizePayload ck env p s = (Inr n0, s1)"
    by (auto simp: buildMovementContext_def split: sum.splits prod.splits)
  with assms have "s1 = s'" by (auto simp: buildMovementContext_def)
  with n0 assms normalized_frame [OF n0] that show thesis
    by (auto simp: buildMovementContext_def bind_outcome_Inr_iff)
qed

abbreviation charges :: "movement_context \<Rightarrow> ledger_entry list" where
  "charges cx \<equiv> charge_legs cx (nm_fee (cx_norm cx)) (cx_fee_account cx) ''fee'' @
     charge_legs cx (nm_tax (cx_norm cx)) (cx_tax_account cx) ''tax''"

lemma withdrawal_legs:
  assumes "buildLedgerEntries cx = Inr legs" and "nm_direction (cx_norm cx) = Internal_To_External" and "cx_target_account cx = Some a"
  shows "\<exists>op ps. cx_internal cx = Some (op, ps) \<and> op \<noteq> [] \<and> ps \<noteq> [] \<and> (let n = cx_norm cx in
    legs = [fund_leg n op ''DEBIT'' (nm_gross n) ''operating debit'', fund_leg n ps ''CREDIT'' (nm_amount n) ''PaySafe secure hold'',
      fund_leg n ps ''DEBIT'' (nm_amount n) ''PaySafe settlement release'',
      fund_leg n (ia_id a) ''CREDIT'' (nm_amount n) ''transfer savings''] @ charges cx)"
  using assms by (cases "cx_internal cx") (auto simp: buildLedgerEntries_def movement_legs_def Let_def split: if_splits)

lemma deposit_legs:
  assumes "buildLedgerEntries cx = Inr legs" and "nm_direction (cx_norm cx) = External_To_Internal" and "cx_source_account cx = Some a"
  shows "\<exists>op ps. cx_internal cx = Some (op, ps) \<and> op \<noteq> [] \<and> ps \<noteq> [] \<and> (let n = cx_norm cx in
    legs = [fund_leg n (ia_id a) ''DEBIT'' (nm_gross n) ''institutional collection debit'', fund_leg n ps ''CREDIT'' (nm_gross n) ''PaySafe receipt'',
      fund_leg n ps ''DEBIT'' (nm_net n) ''PaySafe settlement release'',
      fund_leg n op ''CREDIT'' (nm_net n) ''operating credit''] @ charges cx)"
  using assms by (cases "cx_internal cx") (auto simp: buildLedgerEntries_def movement_legs_def Let_def split: if_splits)

lemma fund_leg_wallet [simp]: "le_wallet (fund_leg n k ty a what) = Some k"
  by (simp add: fund_leg_def)

lemma commit_fails:
  assumes "buildMovementContext ck env user p s = (Inr cx, s1)" and "\<forall>a \<in> set (fs_accounts s). foreign (w_store (fs_world s)) (ia_id a)"
  shows "\<exists>e. commitMovementRecord c ck env' cx m s1 = (Inl e, s1)"
proof (cases "nm_direction (cx_norm cx) = External_To_External \<or> (\<exists>e. buildLedgerEntries cx = Inl e)")
  case True
  then show ?thesis by (auto simp: commitMovementRecord_def)
next
  case False
  then obtain legs where legs: "buildLedgerEntries cx = Inr legs" by (cases "buildLedgerEntries cx") auto
  from context_accounts_of [OF assms(1)] obtain n wallets where "context_accounts env n wallets (fs_accounts s) = Inr cx" by metis
  note parts = context_parts [OF this]
  have "\<exists>l \<in> set legs. \<exists>a \<in> set (fs_accounts s). le_wallet l = Some (ia_id a)"
  proof (cases "nm_direction n")
    case Internal_To_External
    with parts(4) obtain a where a: "a \<in> set (fs_accounts s)" "cx_target_account cx = Some a" by blast
    from withdrawal_legs [OF legs _ a(2)] Internal_To_External parts(1) a(1) show ?thesis by (auto simp: Let_def)
  next
    case External_To_Internal
    with parts(3) obtain a where a: "a \<in> set (fs_accounts s)" "cx_source_account cx = Some a" by blast
    from deposit_legs [OF legs _ a(2)] External_To_Internal parts(1) a(1) show ?thesis by (auto simp: Let_def)
  next
    case External_To_External
    with parts(1) False show ?thesis by simp
  qed
  with assms(2) context_frame [OF assms(1)] obtain l k where "l \<in> set legs" "le_wallet l = Some k" "foreign (w_store (fs_world s1)) k"
    by auto
  from foreign_leg_posts_nothing [OF this] obtain e where
    "postTransactionWithLedger c ck (fe_post env') (settlement_header env' (fm_user m) cx) legs (fs_world s1) = (Inl e, fs_world s1)" by blast
  with False legs show ?thesis by (simp add: commitMovementRecord_def)
qed

section \<open>Runs\<close>

datatype funds_op =
    Set_Account metadata string "string option"
  | Ask_Deposit string movement_payload
  | Ask_Movement string movement_payload
  | Callback string callback

type_synonym funds_call = "clock \<times> funds_env \<times> funds_env \<times> js_error option \<times> funds_op"

fun funds_step :: "crypto \<Rightarrow> funds_call \<Rightarrow> funds \<Rightarrow> funds" where
  "funds_step c (ck, env, env2, fault, Set_Account p actor i) s = snd (upsertInstitutionalAccount ck env p actor i s)"
| "funds_step c (ck, env, env2, fault, Ask_Deposit user p) s = snd (createIncomingDepositIntent ck env user p s)"
| "funds_step c (ck, env, env2, fault, Ask_Movement user p) s = snd (processMovement ck env user p s)"
| "funds_step c (ck, env, env2, fault, Callback partner cb) s = snd (applyNormalizedCallback c ck fault (env, env2) partner cb s)"

definition funds_run :: "crypto \<Rightarrow> funds_call list \<Rightarrow> funds \<Rightarrow> funds" where
  "funds_run c calls s = fold (funds_step c) calls s"

definition open_movement :: "fund_movement \<Rightarrow> bool" where
  "open_movement m \<longleftrightarrow> fm_direction m = External_To_External \<or> fm_status m \<noteq> ''completed'' \<and> fm_tx m = None"

text \<open>Balances, ledger rows, append markers and the ids of the transactions are the same.\<close>

definition same_books :: "store \<Rightarrow> store \<Rightarrow> bool" where
  "same_books st st' \<longleftrightarrow> st_wallets st' = st_wallets st \<and> st_vaults st' = st_vaults st \<and> st_goals st' = st_goals st \<and>
     st_ledger st' = st_ledger st \<and> st_markers st' = st_markers st \<and> map tx_id (st_txs st') = map tx_id (st_txs st)"

definition outside_ledger :: "store \<Rightarrow> funds \<Rightarrow> bool" where
  "outside_ledger st s \<longleftrightarrow> same_books st (w_store (fs_world s)) \<and>
     (\<forall>a \<in> set (fs_accounts s). foreign st (ia_id a)) \<and> (\<forall>m \<in> set (fs_movements s). open_movement m)"

text \<open>A generated account id is no id of the ledger.\<close>

fun fresh_call :: "store \<Rightarrow> funds_call \<Rightarrow> bool" where
  "fresh_call st (ck, env, env2, fault, opn) = (case opn of Set_Account p actor i \<Rightarrow> truthy_text i = None \<longrightarrow> foreign st (fe_uuid env) | _ \<Rightarrow> True)"

lemma same_books_foreign: "same_books st st' \<Longrightarrow> foreign st' k = foreign st k"
  by (simp add: same_books_def foreign_def entity_kinds_def)

lemma outside_foreign: "outside_ledger st s \<Longrightarrow> \<forall>a \<in> set (fs_accounts s). foreign (w_store (fs_world s)) (ia_id a)"
  by (auto simp: outside_ledger_def same_books_foreign)

lemma insert_outside: "outside_ledger st s \<Longrightarrow> open_movement m \<Longrightarrow> outside_ledger st (snd (insert_movement env m s))"
  by (auto simp: insert_movement_def outside_ledger_def split: option.splits)

lemma note_outside: "outside_ledger st s \<Longrightarrow> open_movement m \<Longrightarrow> outside_ledger st (snd (note_callback env answer m s))"
  by (auto simp: note_callback_def update_movement_def outside_ledger_def in_set_upd split: option.splits)

lemma context_outside: "buildMovementContext ck env user p s = (r, s') \<Longrightarrow> outside_ledger st s \<Longrightarrow> outside_ledger st s'"
  using context_frame [of ck env user p s r s'] by (simp add: outside_ledger_def)

lemma deposit_outside: "outside_ledger st s \<Longrightarrow> outside_ledger st (snd (createIncomingDepositIntent ck env user p s))"
  unfolding createIncomingDepositIntent_def
  by (auto split: prod.split sum.split dest: context_outside intro!: insert_outside simp: open_movement_def movement_row_def Let_def)

lemma movement_outside: "outside_ledger st s \<Longrightarrow> outside_ledger st (snd (processMovement ck env user p s))"
  unfolding processMovement_def
  by (auto split: prod.split sum.split dest: context_outside intro!: insert_outside simp: open_movement_def movement_row_def Let_def)

lemma settle_outside:
  assumes "outside_ledger st s"
  shows "outside_ledger st (snd (settle_movement c ck env p m s))" "\<exists>e. fst (settle_movement c ck env p m s) = Inl e"
proof -
  have "outside_ledger st (snd (settle_movement c ck env p m s)) \<and> (\<exists>e. fst (settle_movement c ck env p m s) = Inl e)"
  proof (cases "buildMovementContext ck env (fm_user m) p s")
    case (Pair r s1)
    show ?thesis
    proof (cases r)
      case (Inl e)
      with Pair context_outside [OF Pair assms] show ?thesis by (simp add: settle_movement_def)
    next
      case (Inr cx)
      with commit_fails [of ck env "fm_user m" p s cx s1] Pair outside_foreign [OF assms] obtain e where
        "commitMovementRecord c ck env cx m s1 = (Inl e, s1)" by blast
      with Pair Inr context_outside [OF Pair assms] show ?thesis by (simp add: settle_movement_def)
    qed
  qed
  then show "outside_ledger st (snd (settle_movement c ck env p m s))" "\<exists>e. fst (settle_movement c ck env p m s) = Inl e" by blast+
qed

lemma movement_of_mem:
  assumes "movement_of cb q ms = Some m"
  shows "m \<in> set ms \<and> q m"
proof -
  let ?hit = "\<lambda>m. fm_provider m = Some (cb_provider cb) \<and> Some (cb_reference cb) \<in> {fm_reference m, fm_source_ref m, fm_target_ref m} \<and> q m"
  from assms obtain rest where "sort_key (\<lambda>m. - fm_created m) (sel ?hit ms) = m # rest"
    unfolding movement_of_def by (cases "sort_key (\<lambda>m. - fm_created m) (sel ?hit ms)") (simp_all only: list.case option.inject option.distinct)
  then have "m \<in> set (sort_key (\<lambda>m. - fm_created m) (sel ?hit ms))" by (simp only: list.set_intros)
  then have "m \<in> set (sel ?hit ms)" by (simp only: set_sort)
  then show ?thesis by (simp add: set_sel)
qed

lemma callback_open: "open_movement m \<Longrightarrow> status \<noteq> ''completed'' \<or> fm_direction m = External_To_External \<Longrightarrow> open_movement (with_callback ck cb status f m)"
  by (auto simp: open_movement_def with_callback_def)

lemma handled_outside:
  assumes "outside_ledger st s"
  shows "outside_ledger st (snd (handleWebhookMovement c ck env cb s))" "outside_ledger st (snd (handleWebhookDepositIntent c ck env cb s))"
proof -
  have o: "open_movement m" if "movement_of cb q (fs_movements s) = Some m" for q m
    using assms movement_of_mem [OF that] by (simp add: outside_ledger_def)
  show "outside_ledger st (snd (handleWebhookMovement c ck env cb s))"
    unfolding handleWebhookMovement_def
    using assms by (auto split: option.split callback_status.split intro!: note_outside callback_open settle_outside dest: o)
  show "outside_ledger st (snd (handleWebhookDepositIntent c ck env cb s))"
    unfolding handleWebhookDepositIntent_def
    using assms by (auto split: option.split callback_status.split intro!: note_outside callback_open settle_outside dest: o)
qed

lemma status_books:
  "same_books (w_store w) (w_store (snd (updateTransactionStatus c fault i status notes w)))"
proof -
  let ?f = "\<lambda>t. t\<lparr>tx_status := status, tx_notes := notes\<rparr>"
  have ids: "map tx_id (upd (\<lambda>t. tx_id t = i) ?f ts) = map tx_id ts" for ts
    by (rule map_upd_key) simp
  show ?thesis
  proof (cases "find_tx w i")
    case None
    then show ?thesis by (simp add: updateTransactionStatus_def same_books_def)
  next
    case (Some tx)
    let ?w = "log_event i (Some (tx_status tx)) status ''system'' (update_tx i ?f w)"
    have "snd (updateTransactionStatus c fault i status notes w) = (if isValidTransition (tx_status tx) status then ?w else w)"
      using Some by (auto simp: updateTransactionStatus_def Let_def split: option.splits sum.splits)
    moreover have "same_books (w_store w) (w_store ?w)"
      by (simp add: same_books_def log_event_def update_tx_def ids)
    moreover have "same_books (w_store w) (w_store w)" by (simp add: same_books_def)
    ultimately show ?thesis by simp
  qed
qed

lemma same_books_trans: "same_books a b \<Longrightarrow> same_books b d \<Longrightarrow> same_books a d"
  by (simp add: same_books_def)

lemma callback_outside:
  assumes "outside_ledger st s"
  shows "outside_ledger st (snd (applyNormalizedCallback c ck fault envs partner cb s))"
proof (cases "callback_tx (cb_reference cb) (fs_world s)")
  case (Some tx)
  obtain status nt where ch: "callback_change partner cb = (status, nt)" by fastforce
  obtain r w where u: "updateTransactionStatus c fault (tx_id tx) status (Some nt) (fs_world s) = (r, w)" by fastforce
  have "same_books (w_store (fs_world s)) (w_store w)"
    using status_books [of "fs_world s" c fault "tx_id tx" status "Some nt"] u by simp
  with assms have "outside_ledger st (s\<lparr>fs_world := w\<rparr>)" by (auto simp: outside_ledger_def intro: same_books_trans)
  with Some ch u show ?thesis by (simp add: applyNormalizedCallback_def)
next
  case None
  obtain r s1 where d: "handleWebhookDepositIntent c ck (fst envs) cb s = (r, s1)" by fastforce
  with handled_outside(2) [OF assms, of c ck "fst envs" cb] have s1: "outside_ledger st s1" by simp
  with handled_outside(1) [OF s1, of c ck "snd envs" cb] None d show ?thesis
    by (cases r) (auto simp: applyNormalizedCallback_def split: prod.split)
qed

lemma reset_ids: "a \<in> set (reset_primary now n accs) \<Longrightarrow> ia_id a \<in> ia_id ` set accs"
  by (auto simp: reset_primary_def in_set_upd split: if_splits)

lemma account_step_outside:
  assumes "outside_ledger st s" and "truthy_text i = None \<longrightarrow> foreign st (fe_uuid env)"
  shows "outside_ledger st (snd (upsertInstitutionalAccount ck env p actor i s))"
proof -
  have keep: "outside_ledger st (s\<lparr>fs_accounts := accs\<rparr>)" if "\<And>a. a \<in> set accs \<Longrightarrow> foreign st (ia_id a)" for accs
    using assms(1) that by (simp add: outside_ledger_def)
  have old: "foreign st (ia_id a)" if "a \<in> set (reset_primary now n (fs_accounts s))" for a now n
    using assms(1) reset_ids [OF that] by (auto simp: outside_ledger_def)
  have given: "foreign st k" if "truthy_text i = Some k" "single (sel (\<lambda>a. ia_id a = k) (fs_accounts s)) \<noteq> None" for k
  proof -
    from that(2) obtain a where "sel (\<lambda>a. ia_id a = k) (fs_accounts s) = [a]" by (auto dest: single_SomeD)
    then have "a \<in> set (sel (\<lambda>a. ia_id a = k) (fs_accounts s))" by simp
    with assms(1) show ?thesis by (auto simp: outside_ledger_def set_sel)
  qed
  have n_id: "ia_id (normalized_account ck p cur j actor) = j" for cur j
    by (simp add: normalized_account_def Let_def)
  show ?thesis
  proof (cases "truthy_text i")
    case None
    with assms show ?thesis unfolding upsertInstitutionalAccount_def Let_def
      by (auto simp: n_id split: option.split intro!: keep dest: old)
  next
    case (Some k)
    with assms(1) given [OF Some] show ?thesis unfolding upsertInstitutionalAccount_def Let_def
      by (auto simp: n_id in_set_upd split: option.split if_splits intro!: keep intro: old)
  qed
qed

lemma step_outside: "outside_ledger st s \<Longrightarrow> fresh_call st x \<Longrightarrow> outside_ledger st (funds_step c x s)"
  by (cases "(st, x)" rule: fresh_call.cases) (auto split: funds_op.splits
    intro: account_step_outside deposit_outside movement_outside callback_outside)

lemma run_outside: "outside_ledger st s \<Longrightarrow> list_all (fresh_call st) calls \<Longrightarrow> outside_ledger st (funds_run c calls s)"
  unfolding funds_run_def by (induction calls arbitrary: s) (auto intro: step_outside)

section \<open>Amounts\<close>

lemma computed_fee_scale:
  assumes "resolveFee now rf x i l rd db = (Inr f, l', rd')"
  shows "scale2 (fe_service_fee f)" "scale2 (fe_tax_amount f + fe_gov_fee_amount f + fe_stamp_duty f)"
proof -
  from assms obtain c a cur where f: "f = computeFromConfig c a cur i"
    by (auto simp: resolveFee_def Let_def bind_outcome_Inr_iff fee_from_configs_def split: if_splits prod.splits option.splits)
  show "scale2 (fe_service_fee f)" "scale2 (fe_tax_amount f + fe_gov_fee_amount f + fe_stamp_duty f)"
    by (auto simp: f computeFromConfig_def Let_def)
qed

lemma parse_amount_scale: "parse_amount v = Inr a \<Longrightarrow> scale2 a"
  by (auto simp: parse_amount_def split: option.splits)

lemma override_scale: "override v x = Inr a \<Longrightarrow> scale2 x \<Longrightarrow> scale2 a"
  by (auto simp: override_def parse_amount_scale split: if_splits)

lemma parse_number: "scale2 x \<Longrightarrow> parse_amount (Some (JNum x)) = Inr x"
  by (auto simp: parse_amount_def number_or_zero_def js_number_def round_exact)

lemma priced_parts:
  assumes "priced p d amount currency f = Inr n" and "scale2 amount" "scale2 (fe_service_fee f)"
    "scale2 (fe_tax_amount f + fe_gov_fee_amount f + fe_stamp_duty f)"
  shows "nm_direction n = d \<and> nm_amount n = amount \<and> nm_currency n = currency \<and> scale2 (nm_fee n) \<and> scale2 (nm_tax n) \<and>
    override (mp_fee p) (fe_service_fee f) = Inr (nm_fee n) \<and>
    override (mp_tax p) (fe_tax_amount f + fe_gov_fee_amount f + fe_stamp_duty f) = Inr (nm_tax n) \<and>
    nm_gross n = (if d = Internal_To_External then amount + nm_fee n + nm_tax n else amount) \<and>
    nm_net n = (if d = Internal_To_External then amount else amount - nm_fee n - nm_tax n)"
proof -
  from assms(1) obtain fee tax where o: "override (mp_fee p) (fe_service_fee f) = Inr fee"
      "override (mp_tax p) (fe_tax_amount f + fe_gov_fee_amount f + fe_stamp_duty f) = Inr tax"
    and n: "nm_direction n = d" "nm_amount n = amount" "nm_currency n = currency" "nm_fee n = fee" "nm_tax n = tax"
      "nm_gross n = (if d = Internal_To_External then roundAmount (amount + fee + tax) else amount)"
      "nm_net n = (if d = Internal_To_External then amount else roundAmount (amount - fee - tax))"
    unfolding priced_def Let_def by (auto simp: bind_outcome_Inr_iff split: if_splits)
  from o assms(3,4) override_scale have s: "scale2 fee" "scale2 tax" by blast+
  have "scale2 (amount + fee + tax)" "scale2 (amount - fee - tax)" using assms(2) s by blast+
  then show ?thesis using o n s by (simp add: round_exact)
qed

definition amounts_fit :: "movement_payload \<Rightarrow> normalized \<Rightarrow> bool" where
  "amounts_fit p n \<longleftrightarrow> direction_of (js_upper (js_trim (text_or (mp_direction p) []))) = Some (nm_direction n) \<and>
     requirePositiveAmount (mp_amount p) ''AMOUNT_REQUIRED'' = Inr (nm_amount n) \<and>
     scale2 (nm_amount n) \<and> scale2 (nm_fee n) \<and> scale2 (nm_tax n) \<and>
     (\<not> nullish (mp_fee p) \<longrightarrow> parse_amount (mp_fee p) = Inr (nm_fee n)) \<and>
     (\<not> nullish (mp_tax p) \<longrightarrow> parse_amount (mp_tax p) = Inr (nm_tax n)) \<and>
     nm_gross n = (if nm_direction n = Internal_To_External then nm_amount n + nm_fee n + nm_tax n else nm_amount n) \<and>
     nm_net n = (if nm_direction n = Internal_To_External then nm_amount n else nm_amount n - nm_fee n - nm_tax n)"

lemma normalized_amounts:
  assumes "normalizePayload ck env p s = (Inr n, s')"
  shows "amounts_fit p n"
proof -
  from assms obtain d where d: "direction_of (js_upper (js_trim (text_or (mp_direction p) []))) = Some d"
    by (auto simp: normalizePayload_def split: option.splits)
  with assms obtain amount where a: "requirePositiveAmount (mp_amount p) ''AMOUNT_REQUIRED'' = Inr amount"
    by (auto simp: normalizePayload_def split: sum.splits)
  let ?cur = "js_upper (js_trim (text_or (mp_currency p) ''TZS''))"
  obtain r l rd where f: "resolveFee (ck_now ck) (fe_redis_fails env) (fe_fee_fault env) (movement_fee_input p d amount ?cur)
      (fs_local s) (fs_redis s) (fs_fees s) = (r, l, rd)" using prod_cases3 by blast
  with assms d a obtain fc where fc: "r = Inr fc" and n: "priced p d amount ?cur fc = Inr n"
    by (auto simp: normalizePayload_def Let_def bind_outcome_Inr_iff)
  from a have sa: "scale2 amount"
    by (auto simp: requirePositiveAmount_def bind_outcome_Inr_iff split: if_splits dest: parse_amount_scale)
  note parts = priced_parts [OF n sa computed_fee_scale [OF f [unfolded fc]]]
  have given: "override v x = Inr y \<Longrightarrow> \<not> nullish v \<longrightarrow> parse_amount v = Inr y" for v x y
    by (cases "nullish v") (simp_all add: override_def)
  from parts have "\<not> nullish (mp_fee p) \<longrightarrow> parse_amount (mp_fee p) = Inr (nm_fee n)"
    "\<not> nullish (mp_tax p) \<longrightarrow> parse_amount (mp_tax p) = Inr (nm_tax n)" using given by blast+
  with parts d a sa show ?thesis unfolding amounts_fit_def by simp
qed

lemma with_provider_frame:
  assumes "with_provider ck env n0 = Inr n"
  obtains pr md where "n = n0\<lparr>nm_provider := pr, nm_metadata := md\<rparr>"
proof (cases "truthy_text (nm_provider n0) = None")
  case False
  with assms have "n = n0\<lparr>nm_provider := nm_provider n0, nm_metadata := nm_metadata n0\<rparr>" by (simp add: with_provider_def)
  then show thesis by (rule that)
next
  case True
  with assms obtain r where "n = (case r of None \<Rightarrow> n0 | Some (p, d) \<Rightarrow> n0\<lparr>nm_provider := (if p = [] then nm_provider n0 else Some p),
      nm_metadata := (nm_metadata n0)(''routing_decision'' \<mapsto> d)\<rparr>)"
    by (auto simp: with_provider_def bind_outcome_Inr_iff)
  note n = this
  show thesis
  proof (cases r)
    case None
    with n have "n = n0\<lparr>nm_provider := nm_provider n0, nm_metadata := nm_metadata n0\<rparr>" by simp
    then show thesis by (rule that)
  next
    case (Some q)
    with n have "n = n0\<lparr>nm_provider := (if fst q = [] then nm_provider n0 else Some (fst q)),
      nm_metadata := (nm_metadata n0)(''routing_decision'' \<mapsto> snd q)\<rparr>" by (simp add: case_prod_beta)
    then show thesis by (rule that)
  qed
qed

lemma context_amounts:
  assumes "buildMovementContext ck env user p s = (Inr cx, s')"
  shows "amounts_fit p (cx_norm cx)"
proof -
  from context_accounts_of [OF assms] obtain n0 n wallets where n0: "normalizePayload ck env p s = (Inr n0, s')"
    and n: "with_provider ck env n0 = Inr n" and cx: "context_accounts env n wallets (fs_accounts s) = Inr cx" by metis
  from with_provider_frame [OF n] obtain pr md where "n = n0\<lparr>nm_provider := pr, nm_metadata := md\<rparr>" .
  then have "amounts_fit p n = amounts_fit p n0" by (simp add: amounts_fit_def)
  with normalized_amounts [OF n0] context_parts(1) [OF cx] show ?thesis by simp
qed

section \<open>What the legs move\<close>

lemma fund_leg_entry [simp]:
  "entry_wallet (fund_leg n k ty a what) = (if k = [] then None else Some k)"
  "entry_signed j (fund_leg n k ''CREDIT'' a what) = (if k \<noteq> [] \<and> k = j then a else 0)"
  "entry_signed j (fund_leg n k ''DEBIT'' a what) = (if k \<noteq> [] \<and> k = j then - a else 0)"
  "le_currency (fund_leg n k ty a what) = Some (nm_currency n)"
  by (simp_all add: fund_leg_def entry_wallet_def entry_signed_def entry_value_def sides)

lemma funds_entry_sums [simp]:
  "entry_total (l # ls) = (case entry_wallet l of None \<Rightarrow> 0 | Some k \<Rightarrow> entry_signed k l) + entry_total ls"
  "entry_net k (xs @ ys) = entry_net k xs + entry_net k ys"
  by (simp_all add: entry_total_def entry_net_def)

lemma no_charge [simp]: "amount \<le> 0 \<Longrightarrow> charge_legs cx amount acc what = []"
  by (simp add: charge_legs_def Let_def split: option.split)

lemma withdrawal_charge:
  assumes "nm_direction (cx_norm cx) = Internal_To_External" and "0 \<le> amount" and "0 < amount \<Longrightarrow> \<exists>a. acc = Some a \<and> ia_id a \<noteq> [] \<and> ia_id a \<noteq> k"
  shows "entry_total (charge_legs cx amount acc what) = amount \<and> entry_net k (charge_legs cx amount acc what) = 0"
proof (cases "amount = 0")
  case False
  with assms obtain a where a: "acc = Some a" "ia_id a \<noteq> []" "ia_id a \<noteq> k" by fastforce
  with False assms(1,2) have "charge_legs cx amount acc what = [fund_leg (cx_norm cx) (ia_id a) ''CREDIT'' amount (what @ '' collection'')]"
    by (simp add: charge_legs_def account_id_def truthy_text_def Let_def)
  with a show ?thesis by simp
qed simp

lemma deposit_charge:
  assumes "nm_direction (cx_norm cx) = External_To_Internal" and "cx_internal cx = Some (op, ps)" "ps \<noteq> []" "0 \<le> amount"
    and "0 < amount \<Longrightarrow> \<exists>a. acc = Some a \<and> ia_id a \<noteq> [] \<and> ia_id a \<noteq> k"
  shows "entry_total (charge_legs cx amount acc what) = 0 \<and>
    entry_net k (charge_legs cx amount acc what) = (if k = ps then - amount else 0)"
proof (cases "amount = 0")
  case False
  with assms obtain a where a: "acc = Some a" "ia_id a \<noteq> []" "ia_id a \<noteq> k" by fastforce
  with False assms(1-4) have "charge_legs cx amount acc what = [fund_leg (cx_norm cx) ps ''DEBIT'' amount (''PaySafe '' @ what @ '' release''),
      fund_leg (cx_norm cx) (ia_id a) ''CREDIT'' amount (what @ '' collection'')]"
    by (simp add: charge_legs_def account_id_def truthy_text_def Let_def)
  with a assms(3) show ?thesis by simp
qed simp

lemma charge_currency: "\<forall>l \<in> set (charge_legs cx amount acc what). le_currency l = Some (nm_currency (cx_norm cx))"
  by (auto simp: charge_legs_def Let_def split: option.split)

lemma legs_move:
  assumes cx: "buildMovementContext ck env user p s = (Inr cx, s')" and legs: "buildLedgerEntries cx = Inr legs"
    and d: "nm_direction (cx_norm cx) \<noteq> External_To_External" and nonneg: "0 \<le> nm_fee (cx_norm cx)" "0 \<le> nm_tax (cx_norm cx)"
    and vaults: "cx_internal cx = Some (op, ps)" "op \<noteq> ps" "\<forall>a \<in> set (fs_accounts s). ia_id a \<notin> {[], op, ps}"
  shows "entry_total legs = 0 \<and> (\<forall>l \<in> set legs. le_currency l = Some (nm_currency (cx_norm cx))) \<and> entry_net ps legs = 0 \<and>
    entry_net op legs = (if nm_direction (cx_norm cx) = Internal_To_External then - nm_gross (cx_norm cx) else nm_net (cx_norm cx))"
proof -
  let ?n = "cx_norm cx"
  from context_accounts_of [OF cx] obtain n wallets where "context_accounts env n wallets (fs_accounts s) = Inr cx" by metis
  note parts = context_parts [OF this]
  from context_amounts [OF cx] have fit: "amounts_fit p ?n" .
  have charged: "\<exists>a. acc = Some a \<and> ia_id a \<noteq> [] \<and> ia_id a \<noteq> k" if "\<exists>a \<in> set (fs_accounts s). acc = Some a" "k \<in> {op, ps}" for acc k
    using that vaults(3) by auto
  have fee: "\<exists>a. cx_fee_account cx = Some a \<and> ia_id a \<noteq> [] \<and> ia_id a \<noteq> k" if "0 < nm_fee ?n" "k \<in> {op, ps}" for k
    using charged parts(1,5) that by simp
  have tax: "\<exists>a. cx_tax_account cx = Some a \<and> ia_id a \<noteq> [] \<and> ia_id a \<noteq> k" if "0 < nm_tax ?n" "k \<in> {op, ps}" for k
    using charged parts(1,6) that by simp
  show ?thesis
  proof (cases "nm_direction ?n")
    case Internal_To_External
    with parts(1,4) obtain a where a: "a \<in> set (fs_accounts s)" "cx_target_account cx = Some a" by blast
    from withdrawal_legs [OF legs Internal_To_External a(2)] vaults(1) have ne: "op \<noteq> []" "ps \<noteq> []" and l: "legs =
      [fund_leg ?n op ''DEBIT'' (nm_gross ?n) ''operating debit'', fund_leg ?n ps ''CREDIT'' (nm_amount ?n) ''PaySafe secure hold'',
       fund_leg ?n ps ''DEBIT'' (nm_amount ?n) ''PaySafe settlement release'',
       fund_leg ?n (ia_id a) ''CREDIT'' (nm_amount ?n) ''transfer savings''] @ charges cx" by (simp_all add: Let_def)
    note c = withdrawal_charge [OF Internal_To_External nonneg(1) fee, where what = "''fee''"]
      withdrawal_charge [OF Internal_To_External nonneg(2) tax, where what = "''tax''"]
    from fit Internal_To_External have "nm_gross ?n = nm_amount ?n + nm_fee ?n + nm_tax ?n" by (simp add: amounts_fit_def)
    with c(1) [of op] c(2) [of op] c(1) [of ps] c(2) [of ps] a vaults(2,3) ne Internal_To_External show ?thesis
      unfolding l by (simp add: charge_currency ball_Un)
  next
    case External_To_Internal
    with parts(1,3) obtain a where a: "a \<in> set (fs_accounts s)" "cx_source_account cx = Some a" by blast
    from deposit_legs [OF legs External_To_Internal a(2)] vaults(1) have ne: "op \<noteq> []" "ps \<noteq> []" and l: "legs =
      [fund_leg ?n (ia_id a) ''DEBIT'' (nm_gross ?n) ''institutional collection debit'', fund_leg ?n ps ''CREDIT'' (nm_gross ?n) ''PaySafe receipt'',
       fund_leg ?n ps ''DEBIT'' (nm_net ?n) ''PaySafe settlement release'', fund_leg ?n op ''CREDIT'' (nm_net ?n) ''operating credit''] @ charges cx"
      by (simp_all add: Let_def)
    note c = deposit_charge [OF External_To_Internal vaults(1) ne(2) nonneg(1) fee, where what = "''fee''"]
      deposit_charge [OF External_To_Internal vaults(1) ne(2) nonneg(2) tax, where what = "''tax''"]
    from fit External_To_Internal have "nm_net ?n = nm_gross ?n - nm_fee ?n - nm_tax ?n" by (simp add: amounts_fit_def)
    with c(1) [of op] c(2) [of op] c(1) [of ps] c(2) [of ps] a vaults(2,3) ne External_To_Internal show ?thesis
      unfolding l by (simp add: charge_currency ball_Un)
  qed (use d in simp)
qed

section \<open>Pricing a settlement\<close>

lemma processed_row:
  assumes "processMovement ck env user p s = (Inr m, s1)"
  obtains cx s0 where "buildMovementContext ck env user p s = (Inr cx, s0)" "fm_direction m = nm_direction (cx_norm cx)"
    "fm_gross m = nm_gross (cx_norm cx)" "fm_net m = nm_net (cx_norm cx)" "fm_fee m = nm_fee (cx_norm cx)" "fm_tax m = nm_tax (cx_norm cx)"
proof -
  obtain r s0 where c: "buildMovementContext ck env user p s = (r, s0)" by fastforce
  with assms obtain cx where cx: "r = Inr cx" by (cases r) (auto simp: processMovement_def)
  with c assms have "\<exists>i st md. m = movement_row ck i user st cx md"
    by (auto simp: processMovement_def insert_movement_def Let_def split: option.splits)
  with c cx that show thesis by (auto simp: movement_row_def Let_def)
qed

lemma direction_read [simp]: "direction_of (js_upper (js_trim (direction_text d))) = Some d"
proof -
  have "direction_of (js_upper (js_trim (direction_text Internal_To_External))) = Some Internal_To_External"
    "direction_of (js_upper (js_trim (direction_text External_To_Internal))) = Some External_To_Internal"
    "direction_of (js_upper (js_trim (direction_text External_To_External))) = Some External_To_External"
    by code_simp+
  then show ?thesis by (cases d) (simp_all only:)
qed

lemma settled_amounts:
  assumes "buildMovementContext ck env user (settlement_payload cb m) s = (Inr cx, s')"
    and "scale2 (fm_gross m)" "scale2 (fm_fee m)" "scale2 (fm_tax m)"
  shows "nm_direction (cx_norm cx) = fm_direction m \<and> nm_amount (cx_norm cx) = fm_gross m \<and>
    nm_fee (cx_norm cx) = fm_fee m \<and> nm_tax (cx_norm cx) = fm_tax m"
proof -
  from context_amounts [OF assms(1)] have fit: "amounts_fit (settlement_payload cb m) (cx_norm cx)" .
  have "direction_text (fm_direction m) \<noteq> []" by (cases "fm_direction m") simp_all
  with fit have "nm_direction (cx_norm cx) = fm_direction m"
    by (simp add: amounts_fit_def settlement_payload_def text_or_def)
  moreover from fit have "nm_amount (cx_norm cx) = fm_gross m"
    by (auto simp: amounts_fit_def settlement_payload_def requirePositiveAmount_def parse_number [OF assms(2)] split: if_splits)
  moreover from fit have "nm_fee (cx_norm cx) = fm_fee m" "nm_tax (cx_norm cx) = fm_tax m"
    by (simp_all add: amounts_fit_def settlement_payload_def nullish_def parse_number [OF assms(3)] parse_number [OF assms(4)])
  ultimately show ?thesis by simp
qed

section \<open>A sample\<close>

definition sample_account :: "string \<Rightarrow> string \<Rightarrow> inst_account" where
  "sample_account i role = \<lparr>ia_id = i, ia_role = role, ia_provider = Some ''pv'', ia_bank_name = ''Bank'', ia_account_name = ''Orbi'',
     ia_account_number = ''1'', ia_currency = ''TZS'', ia_country = None, ia_status = ''ACTIVE'', ia_primary = True,
     ia_metadata = Map.empty, ia_created = 0, ia_updated = 0\<rparr>"

definition sample_funds :: funds where
  "sample_funds = \<lparr>fs_world = sample_world ''completed'', fs_accounts = [sample_account ''ic'' ''MAIN_COLLECTION'',
       sample_account ''is'' ''TRANSFER_SAVINGS'', sample_account ''if'' ''FEE_COLLECTION'', sample_account ''it'' ''TAX_COLLECTION''],
     fs_movements = [], fs_fees = [sample_config\<lparr>fc_flow_code := ''INTERNAL_TO_EXTERNAL''\<rparr>, sample_config\<lparr>fc_flow_code := ''EXTERNAL_TO_INTERNAL''\<rparr>],
     fs_local = Map.empty, fs_redis = None\<rparr>"

definition sample_funds_env :: funds_env where
  "sample_funds_env = \<lparr>fe_uuid = ''m1'', fe_code = ''K'', fe_vaults = Inr [(''op'', ''OPERATING''), (''ps'', ''INTERNAL_TRANSFER'')],
     fe_wallet = (\<lambda>_. None), fe_route = (\<lambda>_. throw ''NO_PROVIDER''), fe_redis_fails = False, fe_fee_fault = None,
     fe_account_fault = (\<lambda>_. None), fe_read_fault = None, fe_write_fault = None, fe_post = sample_post_env ''t9'',
     fe_allocate = (\<lambda>_ _ _ w. w)\<rparr>"

definition sample_funds_request :: "string \<Rightarrow> movement_payload" where
  "sample_funds_request d = \<lparr>mp_direction = Some d, mp_amount = Some (JNum 50), mp_currency = None, mp_provider = Some ''pv'', mp_rail = None,
     mp_country = None, mp_operation = None, mp_preferred = None, mp_description = None, mp_transaction_type = None,
     mp_provider_input = None, mp_counterparty = None, mp_source_wallet = None, mp_target_wallet = None, mp_source_account = None,
     mp_target_account = None, mp_reference = Some ''R1'', mp_source_ref = None, mp_target_ref = None,
     mp_fee = Some (JNum 2), mp_tax = Some (JNum 1), mp_metadata = Map.empty\<rparr>"

definition projected :: "'a outcome \<times> funds \<Rightarrow> 'a" where
  "projected r = projr (fst r)"

lemma projected_eq: "\<not> isl (fst r) \<Longrightarrow> r = (Inr (projected r), snd r)"
  by (cases r; cases "fst r") (auto simp: projected_def)

section \<open>Properties\<close>

text \<open>C18: The legs a movement is posted with balance, in one currency: money that leaves takes the gross
  amount (the amount with fee and tax) from the operating vault, money that comes in adds the net amount (the amount
  less fee and tax) to it, and the PaySafe vault it passes through ends as it was; the rest is on the
  institution's accounts. The accounts are neither of the two vaults, and fee and tax are not negative, as the
  route demands.\<close>

theorem movement_legs_balance:
  assumes "buildMovementContext ck env user p s = (Inr cx, s')" and "buildLedgerEntries cx = Inr legs"
    and "nm_direction (cx_norm cx) \<noteq> External_To_External" and "0 \<le> nm_fee (cx_norm cx)" and "0 \<le> nm_tax (cx_norm cx)"
    and "cx_internal cx = Some (op, ps)" and "op \<noteq> ps" and "\<forall>a \<in> set (fs_accounts s). ia_id a \<notin> {[], op, ps}"
  shows "entry_total legs = 0 \<and> (\<forall>l \<in> set legs. le_currency l = Some (nm_currency (cx_norm cx))) \<and> entry_net ps legs = 0 \<and>
    entry_net op legs = (if nm_direction (cx_norm cx) = Internal_To_External
      then - (nm_amount (cx_norm cx) + nm_fee (cx_norm cx) + nm_tax (cx_norm cx))
      else nm_amount (cx_norm cx) - nm_fee (cx_norm cx) - nm_tax (cx_norm cx))"
  using legs_move [OF assms] context_amounts [OF assms(1)] by (simp add: amounts_fit_def split: if_splits)

definition sample_built :: "string \<Rightarrow> movement_context outcome \<times> funds" where
  "sample_built d = buildMovementContext sample_clock sample_funds_env ''u1'' (sample_funds_request d) sample_funds"

theorem movement_legs_balance_witness:
  "entry_total (projr (buildLedgerEntries (projected (sample_built ''EXTERNAL_TO_INTERNAL'')))) = 0 \<and>
   entry_net ''op'' (projr (buildLedgerEntries (projected (sample_built ''EXTERNAL_TO_INTERNAL'')))) = 47"
proof -
  let ?r = "sample_built ''EXTERNAL_TO_INTERNAL''"
  let ?cx = "projected ?r"
  have b: "?r = (Inr ?cx, snd ?r)" by (rule projected_eq) code_simp
  have l: "buildLedgerEntries ?cx = Inr (projr (buildLedgerEntries ?cx))" by (rule sum.collapse(2) [symmetric]) code_simp
  have n: "nm_direction (cx_norm ?cx) = External_To_Internal" "nm_fee (cx_norm ?cx) = 2" "nm_tax (cx_norm ?cx) = 1"
      "nm_amount (cx_norm ?cx) = 50" "cx_internal ?cx = Some (''op'', ''ps'')" by code_simp+
  have a: "\<forall>a \<in> set (fs_accounts sample_funds). ia_id a \<notin> {[], ''op'', ''ps''}"
    by (simp add: sample_funds_def sample_account_def)
  from movement_legs_balance [OF b [unfolded sample_built_def] l [unfolded sample_built_def] _ _ _ _ _ a] n
  show ?thesis unfolding sample_built_def by simp
qed

text \<open>C19: A withdrawal is priced twice: the completed callback prices it again with the gross amount of its row as the
  amount, so a transfer posts the amount with fee and tax to the institution and takes the amount with twice the fee and
  tax from the user. A deposit comes out with the amounts of its row.\<close>

theorem withdrawal_charged_twice:
  assumes "processMovement ck env user p s = (Inr m, s1)" and "fm_direction m \<noteq> External_To_External"
    and "buildMovementContext ck' env' user (settlement_payload cb m) s2 = (Inr cx, s3)"
  shows "\<exists>a. requirePositiveAmount (mp_amount p) ''AMOUNT_REQUIRED'' = Inr a \<and>
    (fm_direction m = Internal_To_External \<longrightarrow> fm_gross m = a + fm_fee m + fm_tax m \<and>
       nm_amount (cx_norm cx) = a + (fm_fee m + fm_tax m) \<and> nm_gross (cx_norm cx) = a + 2 * (fm_fee m + fm_tax m)) \<and>
    (fm_direction m = External_To_Internal \<longrightarrow> nm_gross (cx_norm cx) = fm_gross m \<and> nm_net (cx_norm cx) = fm_net m)"
proof -
  from processed_row [OF assms(1)] obtain cx0 s0 where c0: "buildMovementContext ck env user p s = (Inr cx0, s0)"
    and m: "fm_direction m = nm_direction (cx_norm cx0)" "fm_gross m = nm_gross (cx_norm cx0)" "fm_net m = nm_net (cx_norm cx0)"
      "fm_fee m = nm_fee (cx_norm cx0)" "fm_tax m = nm_tax (cx_norm cx0)" by metis
  from context_amounts [OF c0] have fit: "amounts_fit p (cx_norm cx0)" .
  then have cents: "scale2 (fm_fee m)" "scale2 (fm_tax m)" "scale2 (fm_gross m)"
    unfolding m amounts_fit_def by (auto simp: add.assoc)
  note again = settled_amounts [OF assms(3) cents(3,1,2)] context_amounts [OF assms(3)]
  show ?thesis
    by (rule exI [of _ "nm_amount (cx_norm cx0)"]) (use fit again m in \<open>simp add: amounts_fit_def\<close>)
qed

definition sample_asked :: "fund_movement outcome \<times> funds" where
  "sample_asked = processMovement sample_clock sample_funds_env ''u1'' (sample_funds_request ''INTERNAL_TO_EXTERNAL'') sample_funds"

definition sample_callback :: callback where
  "sample_callback = \<lparr>cb_provider = ''pv'', cb_reference = ''R1'', cb_status = Cb_Completed, cb_message = None, cb_event = None, cb_payload = None\<rparr>"

definition sample_repriced :: "movement_context outcome \<times> funds" where
  "sample_repriced = buildMovementContext sample_clock sample_funds_env ''u1'' (settlement_payload sample_callback (projected sample_asked)) (snd sample_asked)"

theorem withdrawal_charged_twice_witness:
  "fm_gross (projected sample_asked) = 53 \<and> nm_gross (cx_norm (projected sample_repriced)) = 56"
proof -
  have p: "processMovement sample_clock sample_funds_env ''u1'' (sample_funds_request ''INTERNAL_TO_EXTERNAL'') sample_funds =
      (Inr (projected sample_asked), snd sample_asked)"
    unfolding sample_asked_def [symmetric] by (rule projected_eq) code_simp
  have r: "buildMovementContext sample_clock sample_funds_env ''u1'' (settlement_payload sample_callback (projected sample_asked)) (snd sample_asked) =
      (Inr (projected sample_repriced), snd sample_repriced)"
    unfolding sample_repriced_def [symmetric] by (rule projected_eq) code_simp
  have m: "fm_direction (projected sample_asked) = Internal_To_External" "fm_fee (projected sample_asked) = 2" "fm_tax (projected sample_asked) = 1"
    by code_simp+
  have a: "requirePositiveAmount (mp_amount (sample_funds_request ''INTERNAL_TO_EXTERNAL'')) ''AMOUNT_REQUIRED'' = Inr 50" by code_simp
  from withdrawal_charged_twice [OF p _ r] m a show ?thesis by simp
qed

text \<open>C17: No movement ever settles. The legs name an account of the institution, and the posting procedure knows the ids of
  wallets, vaults and goals only: over any run of requests, callbacks and changes of accounts, with any faults, the
  balances, the ledger rows and the transactions stay the same, and no deposit or withdrawal is completed. Account ids are
  generated and are no ids of the ledger.\<close>

theorem external_money_never_settles:
  assumes "\<forall>a \<in> set (fs_accounts s). foreign (w_store (fs_world s)) (ia_id a)" and "\<forall>m \<in> set (fs_movements s). open_movement m"
    and "list_all (fresh_call (w_store (fs_world s))) calls"
  shows "same_books (w_store (fs_world s)) (w_store (fs_world (funds_run c calls s))) \<and>
    (\<forall>m \<in> set (fs_movements (funds_run c calls s)). fm_direction m \<noteq> External_To_External \<longrightarrow> fm_status m \<noteq> ''completed'' \<and> fm_tx m = None)"
proof -
  have "outside_ledger (w_store (fs_world s)) s" using assms(1,2) by (simp add: outside_ledger_def same_books_def)
  from run_outside [OF this assms(3), of c] show ?thesis by (auto simp: outside_ledger_def open_movement_def)
qed

definition sample_funds_calls :: "funds_call list" where
  "sample_funds_calls = [(sample_clock, sample_funds_env, sample_funds_env, None, Ask_Movement ''u1'' (sample_funds_request ''EXTERNAL_TO_INTERNAL'')),
     (sample_clock, sample_funds_env, sample_funds_env, None, Callback ''P'' sample_callback)]"

theorem external_money_never_settles_witness:
  "same_books (sample_store ''completed'') (w_store (fs_world (funds_run toy_crypto sample_funds_calls sample_funds)))"
proof -
  have w: "w_store (fs_world sample_funds) = sample_store ''completed''" by (simp add: sample_funds_def sample_world_def)
  have a: "\<forall>a \<in> set (fs_accounts sample_funds). foreign (w_store (fs_world sample_funds)) (ia_id a)"
    unfolding w by (simp add: sample_funds_def sample_account_def foreign_def entity_kinds_def sample_store_def)
  have m: "\<forall>m \<in> set (fs_movements sample_funds). open_movement m" by (simp add: sample_funds_def)
  have f: "list_all (fresh_call (w_store (fs_world sample_funds))) sample_funds_calls" by (simp add: sample_funds_calls_def)
  from external_money_never_settles [OF a m f, of toy_crypto] show ?thesis unfolding w by simp
qed

end
