(* ===== verification/Spec2Isabelle.thy ===== *)
theory Spec2Isabelle
  imports Ledger_Properties Financial_Invariants Crypto_Envelope Kms_Recovery Fee_Properties Fee_Classifier
    Settlement_Requeue Review_Properties Ledger_Maintenance Engine_Properties
    PaySafe_Creation PaySafe_Settlement Quote_Table Gate_Properties Provider_Properties Card_Properties
    Funds_Properties
begin

text \<open>
  \<^bold>\<open>ORBI institutional core: the money paths.\<close>

  The program is a payment platform: an Express server whose services post to one Postgres ledger. Every
  balance change goes through two stored procedures of \<open>src/database/main.sql\<close>; the TypeScript services
  decide what is posted, under which reference, and what the surrounding rows (settlements, escrows,
  quotes) say about it. This development models those services and procedures, and proves what they
  promise about money, once-only effects and states, and where they do not keep a promise.

  \<^bold>\<open>Parts, theories and sources\<close> (paths below \<open>src/\<close>)

  \<^item> \<open>Orbi_Prelude\<close>: the JavaScript string and number operations the sources use, tables as lists of
    rows, errors as values, the rule collections \<open>js_simps\<close> and \<open>row_simps\<close>, and the locale
    \<open>keyed_table\<close> of tables with a primary key.
  \<^item> \<open>Ledger_Store\<close>: the state of the ledger (wallets, vaults, goals, transactions, ledger rows, append
    markers) and the procedures \<open>post_transaction_v2\<close> and \<open>append_ledger_entries_v1\<close> of
    \<open>database/main.sql\<close>. \<open>Ledger_Laws\<close> proves the laws of the leg loop once, in the locale
    \<open>leg_booker\<close> that both procedures interpret; \<open>Ledger_Posting\<close> lifts them to whole calls, and
    \<open>Ledger_Properties\<close> to runs of calls.
  \<^item> \<open>Tx_State_Machine\<close>: \<open>backend/ledger/stateMachine.ts\<close>, the table of transaction statuses and the
    saga. Its locale \<open>transition_table\<close> is interpreted again for the phases of gateway settlements.
  \<^item> \<open>Financial_Invariants\<close>: \<open>backend/ledger/financialInvariants.ts\<close>, error classes and eligibility.
  \<^item> \<open>Kms\<close>: \<open>backend/security/kms.ts\<close>, the key store: hydration, provisioning with recovery from a lost
    race, rotation. \<open>Kms_Recovery\<close>: its secrets, the keys without a database, the re-wrapping of all keys.
    \<open>Crypto_Envelope\<close>: \<open>CryptoEnvelope.ts\<close>, \<open>DataProtection.ts\<close> and \<open>encryption.ts\<close> of the same directory and
    \<open>payments/providers/ProviderSecretVault.ts\<close>.
  \<^item> \<open>Platform_Fee\<close>, \<open>Fee_Properties\<close>: \<open>backend/payments/PlatformFeeService.ts\<close>.
    \<open>Fee_Classifier\<close>: \<open>TransactionFeeClassifier.ts\<close> beside it.
  \<^item> \<open>Ledger_Service\<close>, \<open>Ledger_Operations\<close>, \<open>Transaction_Review\<close>: \<open>ledger/transactionService.ts\<close>.
    Their state \<open>world\<close> is the ledger with the key store and the service's tables. Theorems in
    \<open>Service_Properties\<close>, \<open>Reversal_Properties\<close> and \<open>Review_Properties\<close>.
    \<open>Ledger_Maintenance\<close>: its check of all balances, emergency repair, totals and escrow reservation, with the
    procedure of the repair and the system node of \<open>backend/ledger/regulatoryService.ts\<close>.
  \<^item> \<open>Reconciliation\<close>: \<open>backend/ledger/reconciliationEngine.ts\<close>.
  \<^item> \<open>Banking_Engine\<close>, \<open>Engine_Properties\<close>: the processing of a payment intent,
    \<open>backend/ledger/transactionEngine.ts\<close>. \<open>Internal_Settlement\<close>: its \<open>completeSettlement\<close> with the
    claim and completion procedures of \<open>database/main.sql\<close>.
  \<^item> \<open>Settlement_Accounts\<close>: \<open>backend/ledger/SystemSettlementAccountService.ts\<close>.
  \<^item> \<open>Settlement_Lifecycle\<close>: \<open>backend/payments/settlementLifecycleManager.ts\<close>, cut at its database calls.
    \<open>Settlement_Scheduler\<close>: \<open>settlementScheduler.ts\<close>. \<open>Settlement_Steps\<close> interleaves the pieces as a step
    relation; theorems in \<open>Settlement_Properties\<close>, \<open>Settlement_Outcomes\<close> and \<open>Settlement_Requeue\<close>.
  \<^item> \<open>PaySafe_Escrow\<close>, \<open>PaySafe_Merchant\<close>, \<open>PaySafe_Create\<close>, \<open>PaySafe_Service\<close>: escrows held for
    users and merchants, \<open>ledger/escrowService.ts\<close> with the trigger and the procedures of
    \<open>database/main.sql\<close>. \<open>PaySafe_Steps\<close> is the life of one agreement as a step relation that the
    transition procedure refines; \<open>PaySafe_Sample\<close> a state for the witnesses; theorems in
    \<open>PaySafe_Properties\<close>, \<open>PaySafe_Creation\<close>, \<open>PaySafe_Settlement\<close> and \<open>PaySafe_Outcomes\<close>.
  \<^item> \<open>Quote_Binding\<close>: what happens to a transaction quote after its preview,
    \<open>backend/payments/TransactionQuoteService.ts\<close> and \<open>backend/ledger/FXLockedQuote.ts\<close>. Theorems in
    \<open>Quote_Properties\<close> and \<open>Quote_Table\<close>.
  \<^item> \<open>Request_Gate\<close>, \<open>Gate_Properties\<close>: \<open>src/middleware/security/idempotency.ts\<close>, in front of all routes.
  \<^item> \<open>Provider_Guard\<close>, \<open>Provider_Properties\<close>: \<open>backend/payments/providers/ProviderRetryPolicy.ts\<close> and
    \<open>ProviderErrorNormalizer.ts\<close>.
  \<^item> \<open>Card_Processor\<close>, \<open>Card_Properties\<close>: \<open>backend/payments/cardProcessor.ts\<close>.
  \<^item> \<open>Institutional_Funds\<close>, \<open>Funds_Properties\<close>: deposits and withdrawals,
    \<open>backend/payments/InstitutionalFundsService.ts\<close>, with the dispatch of a provider's callback
    (\<open>applyNormalizedCallback\<close> of \<open>webhookHandler.ts\<close> beside it).

  A payment comes in through the gate, may name a quote, is classified and priced, becomes ledger legs in
  the engine, and is posted by the service through the procedures; internal transfers are then released
  by the internal settlement, gateway payments by the settlement lifecycle and its scheduler, escrows by
  the transition procedure; deposits and withdrawals wait for the callback of their provider. The theorems
  compose the same way: what the procedures do to the store carries the service, and the service carries
  the settlements, the reviews and the escrows.

  \<^bold>\<open>What is shown\<close>

  \<^item> Ledger: a posting conserves every currency, changes each balance by exactly its legs and never
    overdraws; a reference posts once and an append key applies once over any run.
  \<^item> Service: the balance derived from the encrypted rows is the stored one after any run with any faults;
    a posting is all or nothing; a reversal takes back exactly what was moved; statuses follow the table.
    The reconciliation engine therefore finds nothing; the check of all balances reports every funded vault. The
    repair restores the ledger's balance, but loses what is posted between its read and its write.
  \<^item> Engine: the derived legs of a payment with a payee balance in every currency; the shapes of payment
    that can never post.
  \<^item> Settlements: under every interleaving of workers a settled row is backed by a posting that happened
    once; an internal release moves its money once; a failed commit moved nothing or everything;
    requeueing ends; a round is a run of the atomic steps.
  \<^item> Escrows: paid out at most once and only with both confirmations; the merchant shares add up.
  \<^item> Deposits and withdrawals: the legs balance and leave the PaySafe vault as it was, but no run ever posts
    them, since they name accounts the procedures do not know; a withdrawal is priced twice.
  \<^item> Quotes: bound to one key; the table keeps its constraints.
  \<^item> Keys, fees, gate, provider calls, cards: amounts survive rotations; re-wrapped keys survive a restart exactly if the
    new secret was recorded; a fee change is visible after two
    cache lifetimes; a handler is called once for a key; concurrent calls of a provider stay bounded and a
    circuit counts the failures since its last success; a mistyped card number is refused.

  Theorems about what the code does against its intent (a late failure that unsettles a quote, a circuit
  kept open by traffic, stored answers given to anybody, a sweep that finds no escrow, movements that never
  settle, lost wrapped secrets) are stated positively, as facts of the code.

  \<^bold>\<open>How the code is rendered\<close>

  \<^item> A table is a list of rows or a map from ids; a procedure returns its error or the new state,
    because an exception rolls it back. A service operation returns its outcome with the world it leaves,
    because a thrown error does not undo what was written before.
  \<^item> Faults of database calls are inputs where the theories name them; other calls answer. Where workers
    can interleave, operations are cut at their awaits and the theorems range over all runs.
  \<^item> JavaScript numbers that hold money are exact rationals with the code's own rounding; SQL numerics are
    exact. Times are integers in milliseconds, with one clock reading per call. A string is a list of bytes
    with the case conversion of ASCII.
  \<^item> Encryption, digests, random ids, wallet resolution, exchange rates, user lookups and risk verdicts are
    parameters. \<open>crypto_sound\<close> states that AES-GCM opens what it sealed and that the base64 text of an
    envelope reads back and has no underscore; the witnesses instantiate it by a concrete cipher.
  \<^item> The transitions of the engine's in-memory status are constants that the table allows, and its final
    comparison compares equal values, so both are left out; vaults of a user are read in creation order.

  \<^bold>\<open>Bounds and termination\<close>

  Every definition is total, by recursion on its data or on the list of calls, attempts or steps; there
  is no fuel. The attempts of a provider request recurse on the configured \<open>maxAttempts\<close>; a scheduler round
  recurses on the rows its queries return; requeueing stops at three retries of a settlement, over any
  number of rounds. Runs are lists of calls or the reflexive transitive closure of a step relation, of any
  length.

  \<^bold>\<open>Not modelled\<close>

  \<^item> Ledger service: the read-only queries for history, reports and display.
  \<^item> Key management: the derivation, wrapping and unwrapping of a key are parameters; the diagnostic unwrap and
    the expiry times, which nothing reads, are left out.
  \<^item> Quotes: the computation of the preview (wallet snapshots, limits, risk rules); it enters as the object
    that is stored. Cards: the settlement through the payment processor.
  \<^item> Routes, identity, administration, messaging, infrastructure, receipts and reports: calls of the
    modelled services, of external services, or rendering, with no ledger state of their own.
  \<^item> Gateway intents, the verification of webhooks, provider adapters and routing, treasury, offline
    gateway, goals and shared wealth: other tables around the same postings; the security engines: their
    verdicts enter as parameters.
\<close>

end
